(* ===== verification/SMF_Prelude.thy ===== *)
theory SMF_Prelude
  imports "HOL-Library.Word"
begin

text \<open>
  The shared vocabulary of the development: machine integers, byte strings, the
  conversion between \<^verbatim>\<open>std::string\<close> and its bytes, and fixed-size byte arrays.

  \<^item> A \<^verbatim>\<open>std::uintN_t\<close> is an \<open>N word\<close>; \<^verbatim>\<open>std::size_t\<close> is a \<open>nat\<close>, because every
    size that occurs is the length of a container held in memory.
  \<^item> A \<^verbatim>\<open>std::string\<close> or \<^verbatim>\<open>std::string_view\<close> is a \<open>string\<close>: an Isabelle character
    is exactly an 8-bit value.
  \<^item> A \<^verbatim>\<open>std::array<Byte, N>\<close> is the \<open>8 * N\<close>-bit word whose big-endian spelling the
    array is; \<open>be_bytes\<close> and \<open>be_word\<close> convert.  Equality of words is
    equality of arrays and the zero word is the all-zero array.
\<close>

unbundle bit_operations_syntax

type_synonym byte = "8 word"
type_synonym bytes = "byte list"
type_synonym u8 = "8 word"
type_synonym u16 = "16 word"
type_synonym u32 = "32 word"
type_synonym u64 = "64 word"

named_theorems smf_simps "evaluation of the model's small operations"
named_theorems codec_iff "complete characterisations of decoders"

section \<open>Strings and bytes\<close>

definition byte_of_char :: "char \<Rightarrow> byte" where
  "byte_of_char c = word_of_nat (of_char c)"

definition char_of_byte :: "byte \<Rightarrow> char" where
  "char_of_byte b = char_of (unat b)"

definition as_bytes :: "string \<Rightarrow> bytes" where
  "as_bytes s = map byte_of_char s"

definition as_string_view :: "bytes \<Rightarrow> string" where
  "as_string_view bs = map char_of_byte bs"

section \<open>Fixed-size byte arrays as words\<close>

fun be_bytes :: "nat \<Rightarrow> 'a::len word \<Rightarrow> bytes" where
  "be_bytes 0 w = []"
| "be_bytes (Suc n) w = be_bytes n (drop_bit 8 w) @ [ucast w]"

fun be_word_acc :: "'a::len word \<Rightarrow> bytes \<Rightarrow> 'a word" where
  "be_word_acc acc [] = acc"
| "be_word_acc acc (b # bs) = be_word_acc (push_bit 8 acc OR ucast b) bs"

definition be_word :: "bytes \<Rightarrow> 'a::len word" where
  "be_word bs = be_word_acc 0 bs"

section \<open>Lemmas on strings\<close>

lemma unat_byte_less [simp]: "unat (b :: byte) < 256"
  using unsigned_less [of b] by simp

lemma unat_u16_less [simp]: "unat (w :: u16) < 65536"
  using unsigned_less [of w] by simp

lemma unat_u32_less [simp]: "unat (w :: u32) < 4294967296"
  using unsigned_less [of w] by simp

lemma unat_u64_less [simp]: "unat (w :: u64) < 18446744073709551616"
  using unsigned_less [of w] by simp

lemma unat_u64_max [simp]: "unat (- 1 :: u64) = 18446744073709551615"
  by (simp add: unsigned_minus_1_eq_mask mask_eq_exp_minus_1)

lemma unat_pos_iff: "0 < unat w \<longleftrightarrow> w \<noteq> (0 :: 'a::len word)"
  using unsigned_eq_0_iff [of w] by auto

lemma byte_of_char_of_byte [simp]: "byte_of_char (char_of_byte b) = b"
  by (simp add: byte_of_char_def char_of_byte_def)

lemma char_of_byte_of_char [simp]: "char_of_byte (byte_of_char c) = c"
proof -
  have "unat (word_of_nat (of_char c) :: byte) = of_char c"
    using nat_of_char_less_256 [of c] by (simp add: unat_of_nat take_bit_eq_mod)
  then show ?thesis
    by (simp add: byte_of_char_def char_of_byte_def)
qed

lemma as_bytes_simps [simp]:
  "as_bytes [] = []" "as_bytes (c # s) = byte_of_char c # as_bytes s"
  "as_bytes (s @ t) = as_bytes s @ as_bytes t" "length (as_bytes s) = length s"
  "(as_bytes s = []) = (s = [])"
  by (simp_all add: as_bytes_def)

lemma as_string_view_simps [simp]:
  "length (as_string_view bs) = length bs" "as_string_view [] = []"
  by (simp_all add: as_string_view_def)

lemma as_string_view_as_bytes [simp]: "as_string_view (as_bytes s) = s"
  by (simp add: as_string_view_def as_bytes_def o_def)

lemma as_bytes_as_string_view [simp]: "as_bytes (as_string_view bs) = bs"
  by (simp add: as_string_view_def as_bytes_def o_def)

lemma as_bytes_inject [simp]: "as_bytes s = as_bytes t \<longleftrightarrow> s = t"
  by (metis as_string_view_as_bytes)

section \<open>Lemmas on byte arrays\<close>

lemma length_be_bytes [simp]: "length (be_bytes n w) = n"
  by (induction n w rule: be_bytes.induct) simp_all

lemma be_word_acc_append:
  "be_word_acc acc (xs @ ys) = be_word_acc (be_word_acc acc xs) ys"
  by (induction acc xs rule: be_word_acc.induct) simp_all

lemma be_word_snoc: "be_word (xs @ [b]) = push_bit 8 (be_word xs) OR ucast b"
  by (simp add: be_word_def be_word_acc_append)

lemma be_word_Nil [simp]: "be_word [] = 0"
  by (simp add: be_word_def)

lemma be_word_be_bytes_take_bit:
  "be_word (be_bytes n w) = take_bit (8 * n) (w :: 'a::len word)"
proof (induction n w rule: be_bytes.induct)
  case (1 w)
  then show ?case by simp
next
  case (2 n w)
  then show ?case
    by (auto simp: be_word_snoc bit_simps intro!: bit_eqI)
qed

lemma be_word_be_bytes [simp]:
  assumes "LENGTH('a) \<le> 8 * n"
  shows "be_word (be_bytes n w) = (w :: 'a::len word)"
  using assms
  by (auto simp: be_word_be_bytes_take_bit bit_simps intro!: bit_eqI dest: bit_imp_le_length)

lemma bit_be_word_bound:
  "bit (be_word bs :: 'a::len word) k \<Longrightarrow> k < 8 * length bs"
proof (induction bs arbitrary: k rule: rev_induct)
  case Nil
  then show ?case by simp
next
  case (snoc b bs)
  show ?case
  proof (cases "k < 8")
    case False
    then have "bit (be_word bs :: 'a word) (k - 8)"
      using snoc.prems bit_imp_le_length [of b k]
      by (auto simp: be_word_snoc bit_simps)
    then show ?thesis
      using snoc.IH [of "k - 8"] by simp
  qed simp
qed

lemma be_bytes_be_word [simp]:
  assumes "length bs = n" "8 * n \<le> LENGTH('a::len)"
  shows "be_bytes n (be_word bs :: 'a word) = bs"
  using assms
proof (induction bs arbitrary: n rule: rev_induct)
  case Nil
  then show ?case by simp
next
  case (snoc b bs)
  then obtain m where m: "n = Suc m" "length bs = m" "8 * m \<le> LENGTH('a)" "8 * m + 8 \<le> LENGTH('a)"
    by (cases n) auto
  have "drop_bit 8 (push_bit 8 (be_word bs) OR ucast b) = (be_word bs :: 'a word)"
    using m bit_be_word_bound [of bs, where 'a = 'a] bit_imp_le_length [of b]
    by (auto simp: bit_simps intro!: bit_eqI) fastforce+
  moreover have "ucast (push_bit 8 (be_word bs) OR ucast b :: 'a word) = b"
    using m bit_imp_le_length [of b]
    by (auto simp: bit_simps intro!: bit_eqI) (meson le_add2 le_trans less_le_trans)+
  ultimately show ?case
    using snoc.IH [of m] m by (simp add: be_word_snoc)
qed

lemma be_bytes_inject:
  assumes "LENGTH('a) \<le> 8 * n"
  shows "be_bytes n (v :: 'a::len word) = be_bytes n w \<longleftrightarrow> v = w"
  using be_word_be_bytes [OF assms] by metis

end
