(* ===== verification/SMF_Status.thy ===== *)
theory SMF_Status
  imports SMF_Prelude
begin

text \<open>
  The outcome vocabulary of \<^verbatim>\<open>include/smf/status.hpp\<close> and \<^verbatim>\<open>src/status.cpp\<close>.

  A \<^verbatim>\<open>ReasonCode\<close> is an \<^verbatim>\<open>enum class\<close> over \<^verbatim>\<open>std::uint16_t\<close>, and decoders cast arbitrary
  16-bit values to it, so it is modelled by the 16-bit word itself; the enumerators are
  abbreviations of their numbers, and the X-macro list is the table
  \<open>SMF_REASON_CODE_LIST\<close> from which the two string conversions are generated.
  A \<^verbatim>\<open>Status\<close> is a code with its message; a \<^verbatim>\<open>Result<T>\<close> is \<open>Inl\<close> of a status or \<open>Inr\<close> of
  a value.
\<close>

type_synonym reason_code = u16

abbreviation (input) OK :: reason_code where "OK \<equiv> 0"
abbreviation (input) INTERNAL_ERROR :: reason_code where "INTERNAL_ERROR \<equiv> 1"
abbreviation (input) NOT_IMPLEMENTED :: reason_code where "NOT_IMPLEMENTED \<equiv> 2"
abbreviation (input) UNSUPPORTED :: reason_code where "UNSUPPORTED \<equiv> 3"
abbreviation (input) INVALID_ARGUMENT :: reason_code where "INVALID_ARGUMENT \<equiv> 4"
abbreviation (input) INVALID_ID :: reason_code where "INVALID_ID \<equiv> 5"
abbreviation (input) INVALID_GENERATION :: reason_code where "INVALID_GENERATION \<equiv> 6"
abbreviation (input) INVALID_DIGEST :: reason_code where "INVALID_DIGEST \<equiv> 7"
abbreviation (input) INVALID_UTF8 :: reason_code where "INVALID_UTF8 \<equiv> 8"
abbreviation (input) INVALID_STATE_KIND :: reason_code where "INVALID_STATE_KIND \<equiv> 9"
abbreviation (input) INVALID_SIZE :: reason_code where "INVALID_SIZE \<equiv> 10"
abbreviation (input) INVALID_POLICY :: reason_code where "INVALID_POLICY \<equiv> 11"
abbreviation (input) INVALID_ADDRESS :: reason_code where "INVALID_ADDRESS \<equiv> 12"
abbreviation (input) INVALID_STATE_TRANSITION :: reason_code where "INVALID_STATE_TRANSITION \<equiv> 13"
abbreviation (input) NOT_FOUND :: reason_code where "NOT_FOUND \<equiv> 14"
abbreviation (input) OBJECT_NOT_FOUND :: reason_code where "OBJECT_NOT_FOUND \<equiv> 15"
abbreviation (input) OBJECT_VERSION_NOT_FOUND :: reason_code where "OBJECT_VERSION_NOT_FOUND \<equiv> 16"
abbreviation (input) MOVEMENT_NOT_FOUND :: reason_code where "MOVEMENT_NOT_FOUND \<equiv> 17"
abbreviation (input) ENDPOINT_NOT_FOUND :: reason_code where "ENDPOINT_NOT_FOUND \<equiv> 18"
abbreviation (input) ATTEMPT_NOT_FOUND :: reason_code where "ATTEMPT_NOT_FOUND \<equiv> 19"
abbreviation (input) NOT_AUTHORIZED :: reason_code where "NOT_AUTHORIZED \<equiv> 20"
abbreviation (input) AUTHORITY_EXPIRED :: reason_code where "AUTHORITY_EXPIRED \<equiv> 21"
abbreviation (input) AUTHORITY_CONSUMED :: reason_code where "AUTHORITY_CONSUMED \<equiv> 22"
abbreviation (input) AUTHORITY_MISMATCH :: reason_code where "AUTHORITY_MISMATCH \<equiv> 23"
abbreviation (input) AUTHORITY_REVOKED :: reason_code where "AUTHORITY_REVOKED \<equiv> 24"
abbreviation (input) AUTHORITY_STALE :: reason_code where "AUTHORITY_STALE \<equiv> 25"
abbreviation (input) STALE_GENERATION :: reason_code where "STALE_GENERATION \<equiv> 26"
abbreviation (input) STALE_STATE_GENERATION :: reason_code where "STALE_STATE_GENERATION \<equiv> 27"
abbreviation (input) STALE_MOVEMENT_GENERATION :: reason_code where "STALE_MOVEMENT_GENERATION \<equiv> 28"
abbreviation (input) STALE_POLICY_GENERATION :: reason_code where "STALE_POLICY_GENERATION \<equiv> 29"
abbreviation (input) STALE_TOPOLOGY_GENERATION :: reason_code where "STALE_TOPOLOGY_GENERATION \<equiv> 30"
abbreviation (input) STALE_COMPATIBILITY_GENERATION :: reason_code where "STALE_COMPATIBILITY_GENERATION \<equiv> 31"
abbreviation (input) STALE_INCARNATION :: reason_code where "STALE_INCARNATION \<equiv> 32"
abbreviation (input) STALE_EPOCH :: reason_code where "STALE_EPOCH \<equiv> 33"
abbreviation (input) STALE_ATTEMPT :: reason_code where "STALE_ATTEMPT \<equiv> 34"
abbreviation (input) STALE_SESSION :: reason_code where "STALE_SESSION \<equiv> 35"
abbreviation (input) STALE_REPLAY :: reason_code where "STALE_REPLAY \<equiv> 36"
abbreviation (input) ENDPOINT_NOT_LIVE :: reason_code where "ENDPOINT_NOT_LIVE \<equiv> 37"
abbreviation (input) ENDPOINT_LIVENESS_UNKNOWN :: reason_code where "ENDPOINT_LIVENESS_UNKNOWN \<equiv> 38"
abbreviation (input) ENDPOINT_CONTRACT_MISMATCH :: reason_code where "ENDPOINT_CONTRACT_MISMATCH \<equiv> 39"
abbreviation (input) COORDINATOR_INCARNATION_MISMATCH :: reason_code where "COORDINATOR_INCARNATION_MISMATCH \<equiv> 40"
abbreviation (input) REVALIDATION_REQUIRED :: reason_code where "REVALIDATION_REQUIRED \<equiv> 41"
abbreviation (input) COMPATIBILITY_EVIDENCE_MISSING :: reason_code where "COMPATIBILITY_EVIDENCE_MISSING \<equiv> 42"
abbreviation (input) COMPATIBILITY_UNKNOWN :: reason_code where "COMPATIBILITY_UNKNOWN \<equiv> 43"
abbreviation (input) COMPATIBILITY_UNSUPPORTED :: reason_code where "COMPATIBILITY_UNSUPPORTED \<equiv> 44"
abbreviation (input) COMPATIBILITY_MISMATCH :: reason_code where "COMPATIBILITY_MISMATCH \<equiv> 45"
abbreviation (input) COMPATIBILITY_STALE_EVIDENCE :: reason_code where "COMPATIBILITY_STALE_EVIDENCE \<equiv> 46"
abbreviation (input) ILLEGAL_TRANSITION :: reason_code where "ILLEGAL_TRANSITION \<equiv> 47"
abbreviation (input) ALREADY_TERMINAL :: reason_code where "ALREADY_TERMINAL \<equiv> 48"
abbreviation (input) MOVEMENT_NOT_CANCELLABLE :: reason_code where "MOVEMENT_NOT_CANCELLABLE \<equiv> 49"
abbreviation (input) MOVEMENT_NOT_RECONCILABLE :: reason_code where "MOVEMENT_NOT_RECONCILABLE \<equiv> 50"
abbreviation (input) MOVEMENT_SUPERSEDED :: reason_code where "MOVEMENT_SUPERSEDED \<equiv> 51"
abbreviation (input) MOVEMENT_CANCELLED :: reason_code where "MOVEMENT_CANCELLED \<equiv> 52"
abbreviation (input) MOVEMENT_FAILED :: reason_code where "MOVEMENT_FAILED \<equiv> 53"
abbreviation (input) OUTCOME_UNKNOWN :: reason_code where "OUTCOME_UNKNOWN \<equiv> 54"
abbreviation (input) COMMIT_ALREADY_EXISTS :: reason_code where "COMMIT_ALREADY_EXISTS \<equiv> 55"
abbreviation (input) COMMIT_MARKER_INVALID :: reason_code where "COMMIT_MARKER_INVALID \<equiv> 56"
abbreviation (input) COMMIT_REFUSED :: reason_code where "COMMIT_REFUSED \<equiv> 57"
abbreviation (input) VERIFY_FAILED :: reason_code where "VERIFY_FAILED \<equiv> 58"
abbreviation (input) INTEGRITY_CHECK_FAILED :: reason_code where "INTEGRITY_CHECK_FAILED \<equiv> 59"
abbreviation (input) CHUNK_OUT_OF_ORDER :: reason_code where "CHUNK_OUT_OF_ORDER \<equiv> 60"
abbreviation (input) CHUNK_CONFLICT :: reason_code where "CHUNK_CONFLICT \<equiv> 61"
abbreviation (input) CHUNK_INDEX_OUT_OF_RANGE :: reason_code where "CHUNK_INDEX_OUT_OF_RANGE \<equiv> 62"
abbreviation (input) CHUNK_TOO_LARGE :: reason_code where "CHUNK_TOO_LARGE \<equiv> 63"
abbreviation (input) CHUNK_DIGEST_MISMATCH :: reason_code where "CHUNK_DIGEST_MISMATCH \<equiv> 64"
abbreviation (input) CONTENT_DIGEST_MISMATCH :: reason_code where "CONTENT_DIGEST_MISMATCH \<equiv> 65"
abbreviation (input) TRANSFER_INCOMPLETE :: reason_code where "TRANSFER_INCOMPLETE \<equiv> 66"
abbreviation (input) BYTE_COUNT_MISMATCH :: reason_code where "BYTE_COUNT_MISMATCH \<equiv> 67"
abbreviation (input) RESUME_INCOMPATIBLE :: reason_code where "RESUME_INCOMPATIBLE \<equiv> 68"
abbreviation (input) RESUME_NOT_ALLOWED :: reason_code where "RESUME_NOT_ALLOWED \<equiv> 69"
abbreviation (input) DUPLICATE_ATTEMPT :: reason_code where "DUPLICATE_ATTEMPT \<equiv> 70"
abbreviation (input) ATTEMPT_EXHAUSTED :: reason_code where "ATTEMPT_EXHAUSTED \<equiv> 71"
abbreviation (input) RETRY_NOT_REPEATABLE :: reason_code where "RETRY_NOT_REPEATABLE \<equiv> 72"
abbreviation (input) SOURCE_REJECTED :: reason_code where "SOURCE_REJECTED \<equiv> 73"
abbreviation (input) DESTINATION_REJECTED :: reason_code where "DESTINATION_REJECTED \<equiv> 74"
abbreviation (input) PROTOCOL_VERSION_MISMATCH :: reason_code where "PROTOCOL_VERSION_MISMATCH \<equiv> 75"
abbreviation (input) PROTOCOL_MAGIC_MISMATCH :: reason_code where "PROTOCOL_MAGIC_MISMATCH \<equiv> 76"
abbreviation (input) PROTOCOL_RESERVED_NONZERO :: reason_code where "PROTOCOL_RESERVED_NONZERO \<equiv> 77"
abbreviation (input) PROTOCOL_FLAGS_INVALID :: reason_code where "PROTOCOL_FLAGS_INVALID \<equiv> 78"
abbreviation (input) PROTOCOL_UNKNOWN_MESSAGE :: reason_code where "PROTOCOL_UNKNOWN_MESSAGE \<equiv> 79"
abbreviation (input) PROTOCOL_PAYLOAD_TOO_LARGE :: reason_code where "PROTOCOL_PAYLOAD_TOO_LARGE \<equiv> 80"
abbreviation (input) PROTOCOL_TRUNCATED :: reason_code where "PROTOCOL_TRUNCATED \<equiv> 81"
abbreviation (input) PROTOCOL_TRAILING_GARBAGE :: reason_code where "PROTOCOL_TRAILING_GARBAGE \<equiv> 82"
abbreviation (input) PROTOCOL_AUTH_FAILED :: reason_code where "PROTOCOL_AUTH_FAILED \<equiv> 83"
abbreviation (input) PROTOCOL_SEQUENCE_REPLAY :: reason_code where "PROTOCOL_SEQUENCE_REPLAY \<equiv> 84"
abbreviation (input) PROTOCOL_SEQUENCE_REGRESSION :: reason_code where "PROTOCOL_SEQUENCE_REGRESSION \<equiv> 85"
abbreviation (input) PROTOCOL_STATE_VIOLATION :: reason_code where "PROTOCOL_STATE_VIOLATION \<equiv> 86"
abbreviation (input) PROTOCOL_CANONICAL_VIOLATION :: reason_code where "PROTOCOL_CANONICAL_VIOLATION \<equiv> 87"
abbreviation (input) PROTOCOL_MALFORMED :: reason_code where "PROTOCOL_MALFORMED \<equiv> 88"
abbreviation (input) PROTOCOL_HANDSHAKE_REQUIRED :: reason_code where "PROTOCOL_HANDSHAKE_REQUIRED \<equiv> 89"
abbreviation (input) PROTOCOL_HANDSHAKE_FAILED :: reason_code where "PROTOCOL_HANDSHAKE_FAILED \<equiv> 90"
abbreviation (input) PROTOCOL_BOUNDS_EXCEEDED :: reason_code where "PROTOCOL_BOUNDS_EXCEEDED \<equiv> 91"
abbreviation (input) STORE_IO_ERROR :: reason_code where "STORE_IO_ERROR \<equiv> 92"
abbreviation (input) STORE_CORRUPT :: reason_code where "STORE_CORRUPT \<equiv> 93"
abbreviation (input) STORE_VERSION_UNSUPPORTED :: reason_code where "STORE_VERSION_UNSUPPORTED \<equiv> 94"
abbreviation (input) STORE_TRUNCATED :: reason_code where "STORE_TRUNCATED \<equiv> 95"
abbreviation (input) STORE_OVERSIZED :: reason_code where "STORE_OVERSIZED \<equiv> 96"
abbreviation (input) STORE_RECORD_INVALID :: reason_code where "STORE_RECORD_INVALID \<equiv> 97"
abbreviation (input) STORE_CHECKSUM_MISMATCH :: reason_code where "STORE_CHECKSUM_MISMATCH \<equiv> 98"
abbreviation (input) STORE_PARTIAL_TAIL :: reason_code where "STORE_PARTIAL_TAIL \<equiv> 99"
abbreviation (input) STORE_LOCKED :: reason_code where "STORE_LOCKED \<equiv> 100"
abbreviation (input) STORE_RECOVERY_REQUIRED :: reason_code where "STORE_RECOVERY_REQUIRED \<equiv> 101"
abbreviation (input) IO_ERROR :: reason_code where "IO_ERROR \<equiv> 102"
abbreviation (input) IO_TIMEOUT :: reason_code where "IO_TIMEOUT \<equiv> 103"
abbreviation (input) CONNECTION_CLOSED :: reason_code where "CONNECTION_CLOSED \<equiv> 104"
abbreviation (input) CONNECTION_REFUSED :: reason_code where "CONNECTION_REFUSED \<equiv> 105"
abbreviation (input) CONNECTION_RESET :: reason_code where "CONNECTION_RESET \<equiv> 106"
abbreviation (input) ADDRESS_INVALID :: reason_code where "ADDRESS_INVALID \<equiv> 107"
abbreviation (input) BIND_FAILED :: reason_code where "BIND_FAILED \<equiv> 108"
abbreviation (input) LISTEN_FAILED :: reason_code where "LISTEN_FAILED \<equiv> 109"
abbreviation (input) CONNECT_FAILED :: reason_code where "CONNECT_FAILED \<equiv> 110"
abbreviation (input) NETWORK_UNAVAILABLE :: reason_code where "NETWORK_UNAVAILABLE \<equiv> 111"
abbreviation (input) SHUTTING_DOWN :: reason_code where "SHUTTING_DOWN \<equiv> 112"
abbreviation (input) RESOURCE_EXHAUSTED :: reason_code where "RESOURCE_EXHAUSTED \<equiv> 113"
abbreviation (input) QUEUE_FULL :: reason_code where "QUEUE_FULL \<equiv> 114"
abbreviation (input) TOO_MANY_SESSIONS :: reason_code where "TOO_MANY_SESSIONS \<equiv> 115"
abbreviation (input) TOO_MANY_MOVEMENTS :: reason_code where "TOO_MANY_MOVEMENTS \<equiv> 116"
abbreviation (input) HISTORY_LIMIT_REACHED :: reason_code where "HISTORY_LIMIT_REACHED \<equiv> 117"
abbreviation (input) ALLOCATION_LIMIT_EXCEEDED :: reason_code where "ALLOCATION_LIMIT_EXCEEDED \<equiv> 118"
abbreviation (input) BUSY :: reason_code where "BUSY \<equiv> 119"
abbreviation (input) DEADLINE_EXCEEDED :: reason_code where "DEADLINE_EXCEEDED \<equiv> 120"
abbreviation (input) CANCELLED_BY_OPERATOR :: reason_code where "CANCELLED_BY_OPERATOR \<equiv> 121"
abbreviation (input) CLEANUP_FAILED :: reason_code where "CLEANUP_FAILED \<equiv> 122"
abbreviation (input) CLEANUP_SKIPPED :: reason_code where "CLEANUP_SKIPPED \<equiv> 123"
abbreviation (input) QUARANTINED :: reason_code where "QUARANTINED \<equiv> 124"
abbreviation (input) POLICY_VIOLATION :: reason_code where "POLICY_VIOLATION \<equiv> 125"
abbreviation (input) SIZE_OVERFLOW :: reason_code where "SIZE_OVERFLOW \<equiv> 126"
abbreviation (input) DUPLICATE_IDENTITY :: reason_code where "DUPLICATE_IDENTITY \<equiv> 127"
abbreviation (input) SELF_MOVEMENT :: reason_code where "SELF_MOVEMENT \<equiv> 128"
abbreviation (input) NO_EVIDENCE :: reason_code where "NO_EVIDENCE \<equiv> 129"

definition SMF_REASON_CODE_LIST :: "(string \<times> reason_code) list" where
  "SMF_REASON_CODE_LIST =
    [(''OK'', 0), (''INTERNAL_ERROR'', 1), (''NOT_IMPLEMENTED'', 2), (''UNSUPPORTED'', 3),
     (''INVALID_ARGUMENT'', 4), (''INVALID_ID'', 5), (''INVALID_GENERATION'', 6),
     (''INVALID_DIGEST'', 7), (''INVALID_UTF8'', 8), (''INVALID_STATE_KIND'', 9),
     (''INVALID_SIZE'', 10), (''INVALID_POLICY'', 11), (''INVALID_ADDRESS'', 12),
     (''INVALID_STATE_TRANSITION'', 13), (''NOT_FOUND'', 14), (''OBJECT_NOT_FOUND'', 15),
     (''OBJECT_VERSION_NOT_FOUND'', 16), (''MOVEMENT_NOT_FOUND'', 17),
     (''ENDPOINT_NOT_FOUND'', 18), (''ATTEMPT_NOT_FOUND'', 19), (''NOT_AUTHORIZED'', 20),
     (''AUTHORITY_EXPIRED'', 21), (''AUTHORITY_CONSUMED'', 22), (''AUTHORITY_MISMATCH'', 23),
     (''AUTHORITY_REVOKED'', 24), (''AUTHORITY_STALE'', 25), (''STALE_GENERATION'', 26),
     (''STALE_STATE_GENERATION'', 27), (''STALE_MOVEMENT_GENERATION'', 28),
     (''STALE_POLICY_GENERATION'', 29), (''STALE_TOPOLOGY_GENERATION'', 30),
     (''STALE_COMPATIBILITY_GENERATION'', 31), (''STALE_INCARNATION'', 32),
     (''STALE_EPOCH'', 33), (''STALE_ATTEMPT'', 34), (''STALE_SESSION'', 35),
     (''STALE_REPLAY'', 36), (''ENDPOINT_NOT_LIVE'', 37), (''ENDPOINT_LIVENESS_UNKNOWN'', 38),
     (''ENDPOINT_CONTRACT_MISMATCH'', 39), (''COORDINATOR_INCARNATION_MISMATCH'', 40),
     (''REVALIDATION_REQUIRED'', 41), (''COMPATIBILITY_EVIDENCE_MISSING'', 42),
     (''COMPATIBILITY_UNKNOWN'', 43), (''COMPATIBILITY_UNSUPPORTED'', 44),
     (''COMPATIBILITY_MISMATCH'', 45), (''COMPATIBILITY_STALE_EVIDENCE'', 46),
     (''ILLEGAL_TRANSITION'', 47), (''ALREADY_TERMINAL'', 48),
     (''MOVEMENT_NOT_CANCELLABLE'', 49), (''MOVEMENT_NOT_RECONCILABLE'', 50),
     (''MOVEMENT_SUPERSEDED'', 51), (''MOVEMENT_CANCELLED'', 52), (''MOVEMENT_FAILED'', 53),
     (''OUTCOME_UNKNOWN'', 54), (''COMMIT_ALREADY_EXISTS'', 55),
     (''COMMIT_MARKER_INVALID'', 56), (''COMMIT_REFUSED'', 57), (''VERIFY_FAILED'', 58),
     (''INTEGRITY_CHECK_FAILED'', 59), (''CHUNK_OUT_OF_ORDER'', 60), (''CHUNK_CONFLICT'', 61),
     (''CHUNK_INDEX_OUT_OF_RANGE'', 62), (''CHUNK_TOO_LARGE'', 63),
     (''CHUNK_DIGEST_MISMATCH'', 64), (''CONTENT_DIGEST_MISMATCH'', 65),
     (''TRANSFER_INCOMPLETE'', 66), (''BYTE_COUNT_MISMATCH'', 67),
     (''RESUME_INCOMPATIBLE'', 68), (''RESUME_NOT_ALLOWED'', 69), (''DUPLICATE_ATTEMPT'', 70),
     (''ATTEMPT_EXHAUSTED'', 71), (''RETRY_NOT_REPEATABLE'', 72), (''SOURCE_REJECTED'', 73),
     (''DESTINATION_REJECTED'', 74), (''PROTOCOL_VERSION_MISMATCH'', 75),
     (''PROTOCOL_MAGIC_MISMATCH'', 76), (''PROTOCOL_RESERVED_NONZERO'', 77),
     (''PROTOCOL_FLAGS_INVALID'', 78), (''PROTOCOL_UNKNOWN_MESSAGE'', 79),
     (''PROTOCOL_PAYLOAD_TOO_LARGE'', 80), (''PROTOCOL_TRUNCATED'', 81),
     (''PROTOCOL_TRAILING_GARBAGE'', 82), (''PROTOCOL_AUTH_FAILED'', 83),
     (''PROTOCOL_SEQUENCE_REPLAY'', 84), (''PROTOCOL_SEQUENCE_REGRESSION'', 85),
     (''PROTOCOL_STATE_VIOLATION'', 86), (''PROTOCOL_CANONICAL_VIOLATION'', 87),
     (''PROTOCOL_MALFORMED'', 88), (''PROTOCOL_HANDSHAKE_REQUIRED'', 89),
     (''PROTOCOL_HANDSHAKE_FAILED'', 90), (''PROTOCOL_BOUNDS_EXCEEDED'', 91),
     (''STORE_IO_ERROR'', 92), (''STORE_CORRUPT'', 93), (''STORE_VERSION_UNSUPPORTED'', 94),
     (''STORE_TRUNCATED'', 95), (''STORE_OVERSIZED'', 96), (''STORE_RECORD_INVALID'', 97),
     (''STORE_CHECKSUM_MISMATCH'', 98), (''STORE_PARTIAL_TAIL'', 99), (''STORE_LOCKED'', 100),
     (''STORE_RECOVERY_REQUIRED'', 101), (''IO_ERROR'', 102), (''IO_TIMEOUT'', 103),
     (''CONNECTION_CLOSED'', 104), (''CONNECTION_REFUSED'', 105), (''CONNECTION_RESET'', 106),
     (''ADDRESS_INVALID'', 107), (''BIND_FAILED'', 108), (''LISTEN_FAILED'', 109),
     (''CONNECT_FAILED'', 110), (''NETWORK_UNAVAILABLE'', 111), (''SHUTTING_DOWN'', 112),
     (''RESOURCE_EXHAUSTED'', 113), (''QUEUE_FULL'', 114), (''TOO_MANY_SESSIONS'', 115),
     (''TOO_MANY_MOVEMENTS'', 116), (''HISTORY_LIMIT_REACHED'', 117),
     (''ALLOCATION_LIMIT_EXCEEDED'', 118), (''BUSY'', 119), (''DEADLINE_EXCEEDED'', 120),
     (''CANCELLED_BY_OPERATOR'', 121), (''CLEANUP_FAILED'', 122), (''CLEANUP_SKIPPED'', 123),
     (''QUARANTINED'', 124), (''POLICY_VIOLATION'', 125), (''SIZE_OVERFLOW'', 126),
     (''DUPLICATE_IDENTITY'', 127), (''SELF_MOVEMENT'', 128), (''NO_EVIDENCE'', 129)]"

fun spelling_hash :: "nat \<Rightarrow> string \<Rightarrow> nat" where
  "spelling_hash h [] = h"
| "spelling_hash h (c # s) = spelling_hash (3 * h + of_char c) s"

definition ReasonCode_to_string :: "reason_code \<Rightarrow> string" where
  "ReasonCode_to_string code =
    (case find (\<lambda>(name, value). value = code) SMF_REASON_CODE_LIST of
       Some (name, value) \<Rightarrow> name
     | None \<Rightarrow> ''UNRECOGNIZED_REASON_CODE'')"

definition reason_code_from_string :: "string \<Rightarrow> reason_code option" where
  "reason_code_from_string text = map_of SMF_REASON_CODE_LIST text"

definition is_transient :: "reason_code \<Rightarrow> bool" where
  "is_transient code \<longleftrightarrow> code \<in>
     {IO_ERROR, IO_TIMEOUT, CONNECTION_CLOSED, CONNECTION_RESET, CONNECTION_REFUSED,
      CONNECT_FAILED, BUSY, QUEUE_FULL, STORE_IO_ERROR, DEADLINE_EXCEEDED, TRANSFER_INCOMPLETE}"

definition is_staleness :: "reason_code \<Rightarrow> bool" where
  "is_staleness code \<longleftrightarrow> code \<in>
     {STALE_GENERATION, STALE_STATE_GENERATION, STALE_MOVEMENT_GENERATION,
      STALE_POLICY_GENERATION, STALE_TOPOLOGY_GENERATION, STALE_COMPATIBILITY_GENERATION,
      STALE_INCARNATION, STALE_EPOCH, STALE_ATTEMPT, STALE_SESSION, STALE_REPLAY,
      AUTHORITY_EXPIRED, AUTHORITY_CONSUMED, AUTHORITY_STALE, REVALIDATION_REQUIRED,
      COMPATIBILITY_STALE_EVIDENCE}"

section \<open>Status and Result\<close>

datatype status = Status (status_code: reason_code) (status_message: string)

type_synonym 'a result = "status + 'a"

definition Status_success :: status where
  "Status_success = Status OK []"

definition Status_ok :: "status \<Rightarrow> bool" where
  "Status_ok s \<longleftrightarrow> status_code s = OK"

definition Status_to_string :: "status \<Rightarrow> string" where
  "Status_to_string s =
     ReasonCode_to_string (status_code s) @
     (if status_message s \<noteq> [] then '': '' @ status_message s else [])"

definition Result_of_status :: "status \<Rightarrow> 'a result" where
  "Result_of_status s =
     (if Status_ok s then Inl (Status INTERNAL_ERROR ''Result constructed from an OK status'')
      else Inl s)"

definition Result_ok :: "'a result \<Rightarrow> bool" where
  "Result_ok r \<longleftrightarrow> (case r of Inl _ \<Rightarrow> False | Inr _ \<Rightarrow> True)"

definition Result_status :: "'a result \<Rightarrow> status" where
  "Result_status r = (case r of Inl s \<Rightarrow> s | Inr _ \<Rightarrow> Status_success)"

definition Result_value_or :: "'a result \<Rightarrow> 'a \<Rightarrow> 'a" where
  "Result_value_or r fallback = (case r of Inl _ \<Rightarrow> fallback | Inr v \<Rightarrow> v)"

text \<open>\<open>err\<close> returns a failing status from a function that returns a \<^verbatim>\<open>Result\<close>;
  \<open>return_if_error\<close> is \<^verbatim>\<open>SMF_RETURN_IF_ERROR\<close>, \<open>bind_result\<close> the early return on a
  failed \<^verbatim>\<open>Result\<close>.\<close>

abbreviation err :: "reason_code \<Rightarrow> string \<Rightarrow> 'a result" where
  "err code message \<equiv> Inl (Status code message)"

definition return_if_error :: "status \<Rightarrow> status \<Rightarrow> status" where
  "return_if_error s k = (if \<not> Status_ok s then s else k)"

definition bind_result :: "'a result \<Rightarrow> ('a \<Rightarrow> 'b result) \<Rightarrow> 'b result" where
  "bind_result r f = (case r of Inl s \<Rightarrow> Inl s | Inr v \<Rightarrow> f v)"

definition check_status :: "status \<Rightarrow> 'a result \<Rightarrow> 'a result" where
  "check_status s k = (if \<not> Status_ok s then Inl s else k)"

section \<open>Lemmas\<close>

lemma Status_ok_simps [simp]:
  "Status_ok Status_success" "Status_ok (Status c m) \<longleftrightarrow> c = OK"
  "status_code Status_success = OK"
  by (simp_all add: Status_ok_def Status_success_def)

lemma Status_ok_if [simp]:
  "Status_ok (if b then Status c m else s) \<longleftrightarrow> (if b then c = OK else Status_ok s)"
  by simp

lemma return_if_error_ok [simp]:
  "Status_ok (return_if_error s k) \<longleftrightarrow> Status_ok s \<and> Status_ok k"
  by (simp add: return_if_error_def)

lemma return_if_error_success [simp]:
  "Status_ok s \<Longrightarrow> return_if_error s k = k"
  by (simp add: return_if_error_def)

lemma bind_result_simps [simp]:
  "bind_result (Inl s) f = Inl s" "bind_result (Inr v) f = f v"
  by (simp_all add: bind_result_def)

lemma bind_result_Inr_iff:
  "bind_result r f = Inr y \<longleftrightarrow> (\<exists>v. r = Inr v \<and> f v = Inr y)"
  by (cases r) simp_all

lemma check_status_Inr_iff [simp]:
  "check_status s k = Inr y \<longleftrightarrow> Status_ok s \<and> k = Inr y"
  by (simp add: check_status_def)

lemma check_status_ok [simp]: "Status_ok s \<Longrightarrow> check_status s k = k"
  by (simp add: check_status_def)

text \<open>The list is numbered consecutively from zero: the code of an entry is its position.\<close>

lemma SMF_REASON_CODE_LIST_values:
  "map snd SMF_REASON_CODE_LIST = map word_of_nat [0..<130]"
  by (simp add: SMF_REASON_CODE_LIST_def upt_rec)

text \<open>No two entries share a spelling.  The spellings are told apart by a positional
  hash, so that the check compares 130 numbers instead of 130 strings.\<close>

lemma SMF_REASON_CODE_LIST_distinct_hashes:
  "distinct (map (spelling_hash 0) (map fst SMF_REASON_CODE_LIST))"
  by (simp add: SMF_REASON_CODE_LIST_def)

lemma SMF_REASON_CODE_LIST_distinct_names: "distinct (map fst SMF_REASON_CODE_LIST)"
  using SMF_REASON_CODE_LIST_distinct_hashes unfolding distinct_map [of "spelling_hash 0"] by blast

lemma SMF_REASON_CODE_LIST_distinct_values: "distinct (map snd SMF_REASON_CODE_LIST)"
  unfolding SMF_REASON_CODE_LIST_values distinct_map
  by (auto intro!: inj_onI simp: word_of_nat_eq_iff take_bit_nat_eq_self)

lemma SMF_REASON_CODE_LIST_mem_values:
  "code \<in> snd ` set SMF_REASON_CODE_LIST \<longleftrightarrow> code < 130"
proof -
  have "code \<in> snd ` set SMF_REASON_CODE_LIST \<longleftrightarrow> code \<in> set (map snd SMF_REASON_CODE_LIST)"
    by simp
  also have "\<dots> \<longleftrightarrow> code \<in> word_of_nat ` {0..<130}"
    unfolding SMF_REASON_CODE_LIST_values by simp
  also have "\<dots> \<longleftrightarrow> code < 130"
    by (auto simp: image_iff word_less_nat_alt unat_of_nat take_bit_nat_eq_self
        intro!: bexI [of _ "unat code"])
  finally show ?thesis .
qed

text \<open>Searching an association list by value finds the entry, when values are distinct.\<close>

lemma find_by_value:
  assumes "distinct (map snd xs)" "(k, v) \<in> set xs"
  shows "find (\<lambda>(name, value). value = v) xs = Some (k, v)"
  using assms by (induction xs) (auto simp: rev_image_eqI)

lemma ReasonCode_to_string_entry:
  "(name, code) \<in> set SMF_REASON_CODE_LIST \<Longrightarrow> ReasonCode_to_string code = name"
  by (simp add: ReasonCode_to_string_def find_by_value [OF SMF_REASON_CODE_LIST_distinct_values])

lemma reason_code_from_string_entry:
  "(name, code) \<in> set SMF_REASON_CODE_LIST \<Longrightarrow> reason_code_from_string name = Some code"
  by (simp add: reason_code_from_string_def SMF_REASON_CODE_LIST_distinct_names)

end
