(* ===== verification/SMF_Bytes.thy ===== *)
theory SMF_Bytes
  imports SMF_Prelude
begin

text \<open>
  \<^verbatim>\<open>src/bytes.cpp\<close>: hexadecimal conversion, strict UTF-8 validation, comparison that
  reads every byte, and checked 64-bit size arithmetic.  The lemmas relate each routine to a
  reference definition: hexadecimal decoding inverts encoding, UTF-8 validation accepts
  exactly the concatenations of encoded Unicode scalar values, the accumulating comparison is
  equality, and the checked operations are exact.
\<close>

section \<open>Hexadecimal\<close>

definition kHexDigits :: string where
  "kHexDigits = ''0123456789abcdef''"

definition hex_value :: "char \<Rightarrow> int" where
  "hex_value c =
    (let v = of_char c in
     if of_char (CHR ''0'') \<le> v \<and> v \<le> of_char (CHR ''9'') then v - of_char (CHR ''0'')
     else if of_char (CHR ''a'') \<le> v \<and> v \<le> of_char (CHR ''f'') then v - of_char (CHR ''a'') + 10
     else if of_char (CHR ''A'') \<le> v \<and> v \<le> of_char (CHR ''F'') then v - of_char (CHR ''A'') + 10
     else - 1)"

fun to_hex :: "bytes \<Rightarrow> string" where
  "to_hex [] = []"
| "to_hex (b # bs) =
     kHexDigits ! unat (drop_bit 4 b AND 0x0F) # kHexDigits ! unat (b AND 0x0F) # to_hex bs"

text \<open>The decoding loop; \<open>None\<close> is \<^verbatim>\<open>return false\<close>.  The parity test in front of the loop
  is \<open>from_hex\<close>.\<close>

fun from_hex_loop :: "string \<Rightarrow> bytes option" where
  "from_hex_loop (x # y # text) =
     (let hi = hex_value x; lo = hex_value y in
      if hi < 0 \<or> lo < 0 then None
      else map_option ((#) (word_of_int (push_bit 4 hi OR lo))) (from_hex_loop text))"
| "from_hex_loop text = Some []"

definition from_hex :: "string \<Rightarrow> bytes option" where
  "from_hex text = (if length text mod 2 \<noteq> 0 then None else from_hex_loop text)"

section \<open>UTF-8 validation\<close>

definition utf8_lead :: "u32 \<Rightarrow> (nat \<times> u32) option" where
  "utf8_lead lead =
    (if lead AND 0xE0 = 0xC0 then Some (1, lead AND 0x1F)
     else if lead AND 0xF0 = 0xE0 then Some (2, lead AND 0x0F)
     else if lead AND 0xF8 = 0xF0 then Some (3, lead AND 0x07)
     else None)"

fun utf8_continue :: "u32 \<Rightarrow> bytes \<Rightarrow> u32 option" where
  "utf8_continue code_point [] = Some code_point"
| "utf8_continue code_point (b # bs) =
     (let next = (ucast b :: u32) in
      if next AND 0xC0 \<noteq> 0x80 then None
      else utf8_continue (push_bit 6 code_point OR (next AND 0x3F)) bs)"

definition utf8_rejected :: "nat \<Rightarrow> u32 \<Rightarrow> bool" where
  "utf8_rejected continuation code_point \<longleftrightarrow>
     (continuation = 1 \<and> code_point < 0x80) \<or> (continuation = 2 \<and> code_point < 0x800) \<or>
     (continuation = 3 \<and> code_point < 0x10000) \<or> code_point > 0x10FFFF \<or>
     (code_point \<ge> 0xD800 \<and> code_point \<le> 0xDFFF)"

function is_valid_utf8 :: "bytes \<Rightarrow> bool" where
  "is_valid_utf8 [] = True"
| "is_valid_utf8 (b # rest) =
     (let lead = (ucast b :: u32) in
      if lead < 0x80 then is_valid_utf8 rest
      else case utf8_lead lead of
        None \<Rightarrow> False
      | Some (continuation, bits) \<Rightarrow>
          if continuation \<ge> length (b # rest) then False
          else (case utf8_continue bits (take continuation rest) of
            None \<Rightarrow> False
          | Some code_point \<Rightarrow>
              if utf8_rejected continuation code_point then False
              else is_valid_utf8 (drop continuation rest)))"
  by pat_completeness auto
termination
  by (relation "measure length") auto

section \<open>Comparison and checked arithmetic\<close>

definition constant_time_equal :: "bytes \<Rightarrow> bytes \<Rightarrow> bool" where
  "constant_time_equal a b =
    (if length a \<noteq> length b then False
     else fold (\<lambda>(x, y) accumulator. accumulator OR (x XOR y)) (zip a b) (0 :: byte) = 0)"

definition checked_add :: "u64 \<Rightarrow> u64 \<Rightarrow> u64 option" where
  "checked_add a b = (if a > (- 1) - b then None else Some (a + b))"

definition checked_mul :: "u64 \<Rightarrow> u64 \<Rightarrow> u64 option" where
  "checked_mul a b = (if a \<noteq> 0 \<and> b > (- 1) div a then None else Some (a * b))"

section \<open>Reference definition of UTF-8\<close>

definition unicode_scalar :: "nat \<Rightarrow> bool" where
  "unicode_scalar cp \<longleftrightarrow> cp < 0x110000 \<and> \<not> (0xD800 \<le> cp \<and> cp \<le> 0xDFFF)"

definition utf8_encode :: "nat \<Rightarrow> bytes" where
  "utf8_encode cp = map word_of_nat
    (if cp < 0x80 then [cp]
     else if cp < 0x800 then [0xC0 + cp div 64, 0x80 + cp mod 64]
     else if cp < 0x10000 then [0xE0 + cp div 4096, 0x80 + cp div 64 mod 64, 0x80 + cp mod 64]
     else [0xF0 + cp div 262144, 0x80 + cp div 4096 mod 64, 0x80 + cp div 64 mod 64,
           0x80 + cp mod 64])"

section \<open>Masks as arithmetic\<close>

lemma and_window:
  "(n :: nat) AND push_bit j (mask k) = 2 ^ j * (n div 2 ^ j mod 2 ^ k)"
proof -
  have "n AND push_bit j (mask k) = push_bit j (take_bit k (drop_bit j n))"
    by (rule bit_eqI) (auto simp: bit_simps)
  then show ?thesis
    by (simp add: push_bit_eq_mult take_bit_eq_mod drop_bit_eq_div mult.commute)
qed

lemma unat_ucast_u32 [simp]: "unat (ucast b :: u32) = unat b" for b :: byte
  using unat_byte_less [of b]
  by (simp add: unsigned_ucast_eq take_bit_nat_eq_self less_trans [OF unat_byte_less])

lemma or_low_int:
  assumes "0 \<le> l" "l < 2 ^ k"
  shows "push_bit k h OR l = h * 2 ^ k + (l :: int)"
proof -
  have "take_bit k l = l"
    using assms by (simp add: take_bit_int_eq_self)
  then have "push_bit k h OR l = concat_bit k l h"
    by (simp add: concat_bit_def or.commute)
  then show ?thesis
    using \<open>take_bit k l = l\<close> by (simp add: concat_bit_eq push_bit_eq_mult)
qed

lemma or_low_word:
  assumes "l < 2 ^ k"
  shows "push_bit k (word_of_nat h) OR word_of_nat l = (word_of_nat (h * 2 ^ k + l) :: 'a::len word)"
proof -
  have "push_bit k (word_of_nat h) OR word_of_nat l
      = (word_of_int (push_bit k (int h) OR int l) :: 'a word)"
    by (simp add: of_int_or_eq push_bit_eq_mult)
  also have "push_bit k (int h) OR int l = int (h * 2 ^ k + l)"
    using assms by (subst or_low_int) (simp_all flip: of_nat_power add: of_nat_power_less_of_nat_cancel_iff)
  finally show ?thesis
    by (simp only: of_int_of_nat_eq)
qed

lemmas and_masks_nat =
  and_window [of _ 5 3, unfolded mask_eq_exp_minus_1 push_bit_eq_mult, simplified]
  and_window [of _ 0 5, unfolded mask_eq_exp_minus_1 push_bit_eq_mult, simplified]
  and_window [of _ 4 4, unfolded mask_eq_exp_minus_1 push_bit_eq_mult, simplified]
  and_window [of _ 0 4, unfolded mask_eq_exp_minus_1 push_bit_eq_mult, simplified]
  and_window [of _ 3 5, unfolded mask_eq_exp_minus_1 push_bit_eq_mult, simplified]
  and_window [of _ 0 3, unfolded mask_eq_exp_minus_1 push_bit_eq_mult, simplified]
  and_window [of _ 6 2, unfolded mask_eq_exp_minus_1 push_bit_eq_mult, simplified]
  and_window [of _ 0 6, unfolded mask_eq_exp_minus_1 push_bit_eq_mult, simplified]


lemma u32_and_nat: "(word_of_nat n :: u32) AND numeral k = word_of_nat (n AND numeral k)"
  by (simp add: of_nat_and_eq)

lemma u32_of_nat_eq: "a < 4294967296 \<Longrightarrow> c < 4294967296 \<Longrightarrow>
    (word_of_nat a :: u32) = word_of_nat c \<longleftrightarrow> a = c"
  by (simp add: word_of_nat_eq_iff take_bit_nat_eq_self)

lemma u32_of_nat_eq_numeral: "a < 4294967296 \<Longrightarrow> numeral k < (4294967296 :: nat) \<Longrightarrow>
    (word_of_nat a :: u32) = numeral k \<longleftrightarrow> a = numeral k"
  using u32_of_nat_eq [of a "numeral k"] by simp

lemma ucast_byte_u32: "(ucast b :: u32) = word_of_nat (unat b)" for b :: byte
  by simp

lemma nat_div_window:
  assumes "0 < k"
  shows "n div k = q \<longleftrightarrow> q * k \<le> n \<and> n < Suc q * (k :: nat)"
proof -
  have "n div k = q \<longleftrightarrow> q \<le> n div k \<and> n div k < Suc q"
    by auto
  then show ?thesis
    using assms by (simp add: less_eq_div_iff_mult_less_eq div_less_iff_less_mult del: mult_Suc)
qed

lemma nat_mod_offset:
  assumes "q * k \<le> n" "n < Suc q * k"
  shows "n mod k = n - q * (k :: nat)"
proof -
  obtain r where "n = q * k + r"
    using assms(1) le_Suc_ex by blast
  then show ?thesis
    using assms(2) by simp
qed

lemma utf8_continuation_byte:
  assumes "n < 256"
  shows "((word_of_nat n :: u32) AND 0xC0 = 0x80) = (0x80 \<le> n \<and> n < 0xC0)"
proof -
  have "((word_of_nat n :: u32) AND 0xC0 = 0x80) \<longleftrightarrow> 64 * (n div 64 mod 4) = 128"
    by (simp add: u32_and_nat and_masks_nat u32_of_nat_eq_numeral del: of_nat_mult)
  also have "\<dots> \<longleftrightarrow> 0x80 \<le> n \<and> n < 0xC0"
    using assms by (simp add: nat_div_window)
  finally show ?thesis .
qed

lemma utf8_continuation_bits:
  assumes "0x80 \<le> n" "n < 0xC0"
  shows "(word_of_nat n :: u32) AND 0x3F = word_of_nat (n - 0x80)"
proof -
  have "n mod 64 = n - 128"
    using assms nat_mod_offset [of 2 64 n] by simp
  then show ?thesis by (simp add: u32_and_nat and_masks_nat)
qed

lemma utf8_lead_nat:
  assumes "n < 256"
  shows "utf8_lead (word_of_nat n) =
    (if 0xC0 \<le> n \<and> n < 0xE0 then Some (1, word_of_nat (n - 0xC0))
     else if 0xE0 \<le> n \<and> n < 0xF0 then Some (2, word_of_nat (n - 0xE0))
     else if 0xF0 \<le> n \<and> n < 0xF8 then Some (3, word_of_nat (n - 0xF0))
     else None)"
proof -
  have "32 * (n div 32 mod 8) = 192 \<longleftrightarrow> 0xC0 \<le> n \<and> n < 0xE0"
    and "16 * (n div 16 mod 16) = 224 \<longleftrightarrow> 0xE0 \<le> n \<and> n < 0xF0"
    and "8 * (n div 8 mod 32) = 240 \<longleftrightarrow> 0xF0 \<le> n \<and> n < 0xF8"
    using assms by (simp_all add: nat_div_window)
  moreover have "0xC0 \<le> n \<Longrightarrow> n < 0xE0 \<Longrightarrow> n mod 32 = n - 0xC0"
    and "0xE0 \<le> n \<Longrightarrow> n < 0xF0 \<Longrightarrow> n mod 16 = n - 0xE0"
    and "0xF0 \<le> n \<Longrightarrow> n < 0xF8 \<Longrightarrow> n mod 8 = n - 0xF0"
    using nat_mod_offset [of 6 32 n] nat_mod_offset [of 14 16 n] nat_mod_offset [of 30 8 n] by simp_all
  ultimately show ?thesis
    by (simp add: utf8_lead_def u32_and_nat and_masks_nat u32_of_nat_eq_numeral del: of_nat_mult)
qed

lemma utf8_continue_nat:
  "utf8_continue (word_of_nat a) bs =
    (if \<forall>b \<in> set bs. 0x80 \<le> unat b \<and> unat b < 0xC0
     then Some (word_of_nat (foldl (\<lambda>a b. a * 64 + (unat b - 0x80)) a bs)) else None)"
proof (induction bs arbitrary: a)
  case (Cons b bs)
  show ?case
  proof (cases "0x80 \<le> unat b \<and> unat b < 0xC0")
    case True
    then have "unat b - 128 < 2 ^ 6" by auto
    from or_low_word [OF this, of a, where 'a = 32] True show ?thesis
      using Cons.IH [of "a * 64 + (unat b - 128)"]
      by (simp add: utf8_continuation_byte utf8_continuation_bits ucast_byte_u32
          del: of_nat_unat)
  next
    case False
    then show ?thesis
      by (auto simp: utf8_continuation_byte ucast_byte_u32 simp del: of_nat_unat)
  qed
qed simp

lemma u32_of_nat_less: "a < 4294967296 \<Longrightarrow> c < 4294967296 \<Longrightarrow>
    (word_of_nat a :: u32) < word_of_nat c \<longleftrightarrow> a < c"
  by (simp add: word_less_nat_alt unat_of_nat take_bit_nat_eq_self)

lemmas u32_of_nat_less_numeral =
  u32_of_nat_less [of _ "numeral k" for k, unfolded of_nat_numeral]
  u32_of_nat_less [of "numeral k" for k, unfolded of_nat_numeral]

lemmas u32_of_nat_compare = u32_of_nat_less_numeral not_less [symmetric, where 'a = u32]

declare is_valid_utf8.simps(2) [simp del]

lemma utf8_ascii: "(ucast b :: u32) < 0x80 \<longleftrightarrow> unat b < 0x80" for b :: byte
  by (simp add: word_less_nat_alt)

lemmas utf8_lead_byte = utf8_lead_nat [OF unat_byte_less, unfolded of_nat_unat]

lemma is_valid_utf8_Cons_nat:
  "is_valid_utf8 (b # rest) =
    (let n = unat b in
     if n < 0x80 then is_valid_utf8 rest
     else case (if 0xC0 \<le> n \<and> n < 0xE0 then Some (1, n - 0xC0)
                else if 0xE0 \<le> n \<and> n < 0xF0 then Some (2, n - 0xE0)
                else if 0xF0 \<le> n \<and> n < 0xF8 then Some (3, n - 0xF0) else None) of
       None \<Rightarrow> False
     | Some (k, bits) \<Rightarrow>
         k \<le> length rest \<and> (\<forall>c \<in> set (take k rest). 0x80 \<le> unat c \<and> unat c < 0xC0) \<and>
         (let cp = foldl (\<lambda>a b. a * 64 + (unat b - 0x80)) bits (take k rest) in
          \<not> (k = 1 \<and> cp < 0x80) \<and> \<not> (k = 2 \<and> cp < 0x800) \<and> \<not> (k = 3 \<and> cp < 0x10000) \<and>
          unicode_scalar cp) \<and>
         is_valid_utf8 (drop k rest))"
proof -
  have bound: "foldl (\<lambda>a b. a * 64 + (unat b - 0x80)) bits (take k rest) < 4294967296"
    if "bits < 32" "k \<le> 3" "\<forall>c \<in> set (take k rest). unat c < 0xC0" for bits k
  proof -
    have "foldl (\<lambda>a b. a * 64 + (unat b - 0x80)) bits cs < 32 * 64 ^ length cs"
      if "bits < 32" "\<forall>c \<in> set cs. unat c < 0xC0" for cs :: bytes
      using that
    proof (induction cs rule: rev_induct)
      case (snoc c cs)
      then show ?case by auto
    qed simp
    from this [of "take k rest"] that have "foldl (\<lambda>a b. a * 64 + (unat b - 0x80)) bits (take k rest) 
       < 32 * 64 ^ min (length rest) k" by simp
    also have "\<dots> \<le> 32 * 64 ^ 3"
      using that by (intro mult_left_mono power_increasing) auto
    finally show ?thesis by simp
  qed
  let ?cont = "\<lambda>k. \<forall>c \<in> set (take k rest). 0x80 \<le> unat c \<and> unat c < 0xC0"
  let ?cp = "\<lambda>k bits. foldl (\<lambda>a b. a * 64 + (unat b - 0x80)) bits (take k rest)"
  have tail: "(if k \<ge> length (b # rest) then False else case utf8_continue (word_of_nat bits) (take k rest) of
            None \<Rightarrow> False
          | Some code_point \<Rightarrow> if utf8_rejected k code_point then False else V) \<longleftrightarrow>
      k \<le> length rest \<and> ?cont k \<and> \<not> (k = 1 \<and> ?cp k bits < 0x80) \<and> \<not> (k = 2 \<and> ?cp k bits < 0x800) \<and>
      \<not> (k = 3 \<and> ?cp k bits < 0x10000) \<and> unicode_scalar (?cp k bits) \<and> V"
    if "bits < 32" "k \<le> 3" for k bits V
  proof (cases "?cont k")
    case True
    then have "?cp k bits < 4294967296"
      using bound [OF that] by blast
    moreover have "utf8_continue (word_of_nat bits) (take k rest) = Some (word_of_nat (?cp k bits))"
      by (subst utf8_continue_nat) (rule if_P [OF True])
    ultimately show ?thesis
      using True by (auto simp: u32_of_nat_compare unicode_scalar_def utf8_rejected_def)
  next
    case False
    have "utf8_continue (word_of_nat bits) (take k rest) = None"
      by (subst utf8_continue_nat) (rule if_not_P [OF False])
    with False show ?thesis by (simp only: option.case simp_thms if_cancel)
  qed
  have n: "unat b < 256" by simp
  consider "unat b < 0x80" | "0x80 \<le> unat b" "unat b < 0xC0" | "0xC0 \<le> unat b" "unat b < 0xE0"
    | "0xE0 \<le> unat b" "unat b < 0xF0" | "0xF0 \<le> unat b" "unat b < 0xF8" | "0xF8 \<le> unat b"
    by linarith
  then show ?thesis
  proof cases
    case 1
    then show ?thesis
      by (simp add: is_valid_utf8.simps(2) utf8_ascii Let_def)
  next
    case 2
    then show ?thesis
      by (simp add: is_valid_utf8.simps(2) utf8_ascii utf8_lead_byte Let_def)
  next
    case 3
    then have "utf8_lead (ucast b) = Some (1, word_of_nat (unat b - 0xC0))" "unat b - 0xC0 < 32"
      by (auto simp: utf8_lead_byte)
    then show ?thesis
      unfolding is_valid_utf8.simps(2) Let_def utf8_ascii by (simp only: option.case prod.case tail) (use 3 in simp)
  next
    case 4
    then have "utf8_lead (ucast b) = Some (2, word_of_nat (unat b - 0xE0))" "unat b - 0xE0 < 32"
      by (auto simp: utf8_lead_byte)
    then show ?thesis
      unfolding is_valid_utf8.simps(2) Let_def utf8_ascii by (simp only: option.case prod.case tail) (use 4 in simp)
  next
    case 5
    then have "utf8_lead (ucast b) = Some (3, word_of_nat (unat b - 0xF0))" "unat b - 0xF0 < 32"
      by (auto simp: utf8_lead_byte)
    then show ?thesis
      unfolding is_valid_utf8.simps(2) Let_def utf8_ascii by (simp only: option.case prod.case tail) (use 5 in simp)
  next
    case 6
    then show ?thesis
      by (simp add: is_valid_utf8.simps(2) utf8_ascii utf8_lead_byte Let_def)
  qed
qed

lemma byte_of_unat: "word_of_nat (unat b) = (b :: byte)"
  by simp

lemma unat_word_of_nat_byte: "n < 256 \<Longrightarrow> unat (word_of_nat n :: byte) = n"
  by (simp add: unat_of_nat take_bit_nat_eq_self)

lemma base64_digits:
  assumes "y < (64 :: nat)"
  shows "(x * 64 + y) div 64 = x" "(x * 64 + y) mod 64 = y"
    "(x * 64 + y) div 4096 = x div 64" "(x * 64 + y) div 262144 = x div 4096"
  using assms div_mult2_eq [of "x * 64 + y" 64 64] div_mult2_eq [of "x * 64 + y" 64 4096] by simp_all

lemma is_valid_utf8_first:
  assumes "is_valid_utf8 (b # rest)"
  shows "\<exists>cp rest'. unicode_scalar cp \<and> b # rest = utf8_encode cp @ rest' \<and> is_valid_utf8 rest'"
proof -
  let ?n = "unat b"
  consider "?n < 0x80" | "0xC0 \<le> ?n" "?n < 0xE0" | "0xE0 \<le> ?n" "?n < 0xF0" | "0xF0 \<le> ?n" "?n < 0xF8"
    using assms unfolding is_valid_utf8_Cons_nat Let_def by (auto split: if_splits)
  then show ?thesis
  proof cases
    case 1
    then have "unicode_scalar ?n \<and> b # rest = utf8_encode ?n @ rest \<and> is_valid_utf8 rest"
      using assms by (simp add: is_valid_utf8_Cons_nat Let_def unicode_scalar_def utf8_encode_def)
    then show ?thesis by blast
  next
    case 2
    then obtain c r where r: "rest = c # r"
      using assms by (auto simp: is_valid_utf8_Cons_nat Let_def Suc_le_length_iff)
    define x y where "x = ?n - 0xC0" and "y = unat c - 0x80"
    have facts: "0x80 \<le> unat c" "unat c < 0xC0" "\<not> x * 64 + y < 0x80"
        "unicode_scalar (x * 64 + y)" "is_valid_utf8 r"
      using assms 2 unfolding x_def y_def is_valid_utf8_Cons_nat Let_def r by (simp_all del: Nat.add_diff_assoc)
    then have "x < 32" "y < 64" "0xC0 + x = ?n" "0x80 + y = unat c"
      using 2 by (auto simp: x_def y_def)
    then have "utf8_encode (x * 64 + y) = [b, c]"
      using facts by (simp add: utf8_encode_def del: of_nat_add)
    then show ?thesis
      using facts r by (metis append_Cons append_Nil)
  next
    case 3
    then obtain c d r where r: "rest = c # d # r"
      using assms by (auto simp: is_valid_utf8_Cons_nat Let_def numeral_2_eq_2 Suc_le_length_iff)
    define x y z where "x = ?n - 0xE0" and "y = unat c - 0x80" and "z = unat d - 0x80"
    have facts: "0x80 \<le> unat c" "unat c < 0xC0" "0x80 \<le> unat d" "unat d < 0xC0"
        "\<not> (x * 64 + y) * 64 + z < 0x800" "unicode_scalar ((x * 64 + y) * 64 + z)" "is_valid_utf8 r"
      using assms 3 unfolding x_def y_def z_def is_valid_utf8_Cons_nat Let_def r
      by (simp_all add: numeral_2_eq_2 del: Nat.add_diff_assoc)
    then have "x < 16" "y < 64" "z < 64" "0xE0 + x = ?n" "0x80 + y = unat c" "0x80 + z = unat d"
      using 3 by (auto simp: x_def y_def z_def)
    moreover obtain cp where cp: "cp = (x * 64 + y) * 64 + z" by blast
    ultimately have "cp div 4096 = x" "cp div 64 mod 64 = y" "cp mod 64 = z" "cp < 0x10000" "\<not> cp < 0x800"
      using facts(5) by (simp_all only: base64_digits) simp_all
    then have "utf8_encode cp = map word_of_nat [0xE0 + x, 0x80 + y, 0x80 + z]"
      by (simp add: utf8_encode_def del: of_nat_add)
    then have "utf8_encode ((x * 64 + y) * 64 + z) = [b, c, d]"
      unfolding cp \<open>0xE0 + x = ?n\<close> \<open>0x80 + y = unat c\<close> \<open>0x80 + z = unat d\<close> by simp
    then show ?thesis
      using facts r by (metis append_Cons append_Nil)
  next
    case 4
    then obtain c d e r where r: "rest = c # d # e # r"
      using assms by (auto simp: is_valid_utf8_Cons_nat Let_def numeral_3_eq_3 Suc_le_length_iff)
    define x y z v where "x = ?n - 0xF0" and "y = unat c - 0x80" and "z = unat d - 0x80"
      and "v = unat e - 0x80"
    have facts: "0x80 \<le> unat c" "unat c < 0xC0" "0x80 \<le> unat d" "unat d < 0xC0"
        "0x80 \<le> unat e" "unat e < 0xC0" "\<not> ((x * 64 + y) * 64 + z) * 64 + v < 0x10000"
        "unicode_scalar (((x * 64 + y) * 64 + z) * 64 + v)" "is_valid_utf8 r"
      using assms 4 unfolding x_def y_def z_def v_def is_valid_utf8_Cons_nat Let_def r
      by (simp_all add: numeral_3_eq_3 del: Nat.add_diff_assoc)
    then have "x < 8" "y < 64" "z < 64" "v < 64"
        "0xF0 + x = ?n" "0x80 + y = unat c" "0x80 + z = unat d" "0x80 + v = unat e"
      using 4 by (auto simp: x_def y_def z_def v_def)
    moreover obtain cp where cp: "cp = ((x * 64 + y) * 64 + z) * 64 + v" by blast
    ultimately have "cp div 262144 = x" "cp div 4096 mod 64 = y" "cp div 64 mod 64 = z" "cp mod 64 = v"
        "\<not> cp < 0x10000"
      using facts(7) by (simp_all only: base64_digits) simp_all
    then have "utf8_encode cp = map word_of_nat [0xF0 + x, 0x80 + y, 0x80 + z, 0x80 + v]"
      by (simp add: utf8_encode_def del: of_nat_add)
    then have "utf8_encode (((x * 64 + y) * 64 + z) * 64 + v) = [b, c, d, e]"
      unfolding cp \<open>0xF0 + x = ?n\<close> \<open>0x80 + y = unat c\<close> \<open>0x80 + z = unat d\<close> \<open>0x80 + v = unat e\<close>
      by simp
    then show ?thesis
      using facts r by (metis append_Cons append_Nil)
  qed
qed

lemma is_valid_utf8_encode_append:
  assumes "unicode_scalar cp"
  shows "is_valid_utf8 (utf8_encode cp @ rest) = is_valid_utf8 rest"
proof -
  consider "cp < 0x80" | "0x80 \<le> cp" "cp < 0x800" | "0x800 \<le> cp" "cp < 0x10000"
    | "0x10000 \<le> cp" "cp < 0x110000"
    using assms unfolding unicode_scalar_def by linarith
  then show ?thesis
  proof cases
    case 1
    then show ?thesis
      by (simp add: utf8_encode_def is_valid_utf8_Cons_nat Let_def unat_word_of_nat_byte)
  next
    case 2
    then have "cp div 64 < 32" "192 + cp div 64 < 256" by auto
    with 2 assms show ?thesis
      by (simp add: utf8_encode_def is_valid_utf8_Cons_nat Let_def unat_word_of_nat_byte del: of_nat_add)
  next
    case 3
    then have "cp div 4096 < 16" "cp div 64 mod 64 < 64" "cp mod 64 < 64"
       "(cp div 4096 * 64 + cp div 64 mod 64) * 64 + cp mod 64 = cp"
      using div_mult_mod_eq [of cp 64] div_mult_mod_eq [of "cp div 64" 64]
      by (auto simp: div_mult2_eq [symmetric])
    with 3 assms show ?thesis
      by (simp add: utf8_encode_def is_valid_utf8_Cons_nat Let_def unat_word_of_nat_byte numeral_2_eq_2 del: of_nat_add)
  next
    case 4
    define x y z v where "x = cp div 262144" and "y = cp div 4096 mod 64"
      and "z = cp div 64 mod 64" and "v = cp mod 64"
    have "utf8_encode cp = map word_of_nat [0xF0 + x, 0x80 + y, 0x80 + z, 0x80 + v]"
      using 4 by (simp add: utf8_encode_def x_def y_def z_def v_def del: of_nat_add)
    moreover have "x < 8" "y < 64" "z < 64" "v < 64"
      using 4 by (auto simp: x_def y_def z_def v_def)
    moreover have "((x * 64 + y) * 64 + z) * 64 + v = cp"
      using div_mult_mod_eq [of cp 64] div_mult_mod_eq [of "cp div 64" 64]
        div_mult_mod_eq [of "cp div 4096" 64]
      by (simp add: x_def y_def z_def v_def flip: div_mult2_eq)
    moreover have "\<not> cp < 0x10000"
      using 4 by simp
    ultimately show ?thesis
      using assms
      by (simp add: is_valid_utf8_Cons_nat Let_def unat_word_of_nat_byte numeral_3_eq_3 del: of_nat_add)
  qed
qed

lemma is_valid_utf8_iff:
  "is_valid_utf8 bs \<longleftrightarrow> (\<exists>cps. list_all unicode_scalar cps \<and> bs = concat (map utf8_encode cps))"
proof
  assume "is_valid_utf8 bs"
  then show "\<exists>cps. list_all unicode_scalar cps \<and> bs = concat (map utf8_encode cps)"
  proof (induction "length bs" arbitrary: bs rule: less_induct)
    case less
    show ?case
    proof (cases bs)
      case Nil
      then have "list_all unicode_scalar [] \<and> bs = concat (map utf8_encode [])" by simp
      then show ?thesis by blast
    next
      case (Cons b rest)
      then obtain cp rest' where step: "unicode_scalar cp" "bs = utf8_encode cp @ rest'" "is_valid_utf8 rest'"
        using is_valid_utf8_first less.prems by blast
      moreover have "utf8_encode cp \<noteq> []"
        by (simp add: utf8_encode_def)
      ultimately obtain cps where "list_all unicode_scalar cps" "rest' = concat (map utf8_encode cps)"
        using less.hyps [of rest'] by auto
      then have "list_all unicode_scalar (cp # cps) \<and> bs = concat (map utf8_encode (cp # cps))"
        using step by simp
      then show ?thesis by blast
    qed
  qed
next
  assume "\<exists>cps. list_all unicode_scalar cps \<and> bs = concat (map utf8_encode cps)"
  then obtain cps where "list_all unicode_scalar cps" "bs = concat (map utf8_encode cps)" by blast
  then show "is_valid_utf8 bs"
    by (induction cps arbitrary: bs) (simp_all add: is_valid_utf8_encode_append)
qed

lemma is_valid_utf8_append:
  "is_valid_utf8 xs \<Longrightarrow> is_valid_utf8 ys \<Longrightarrow> is_valid_utf8 (xs @ ys)"
  unfolding is_valid_utf8_iff
  by (metis concat_append list_all_append map_append)

lemma is_valid_utf8_ascii: "list_all (\<lambda>b. b < 0x80) bs \<Longrightarrow> is_valid_utf8 bs"
  by (induction bs) (simp_all add: is_valid_utf8_Cons_nat word_less_nat_alt)

section \<open>Hexadecimal lemmas\<close>

lemma hex_value_kHexDigits:
  assumes "k < 16"
  shows "hex_value (kHexDigits ! k) = int k"
proof -
  have "list_all (\<lambda>k. hex_value (kHexDigits ! k) = int k) [0..<16]"
    by code_simp
  then show ?thesis
    using assms by (simp add: list_all_iff)
qed

lemma hex_byte:
  fixes b :: byte
  defines "hi \<equiv> hex_value (kHexDigits ! unat (drop_bit 4 b AND 0x0F))"
    and "lo \<equiv> hex_value (kHexDigits ! unat (b AND 0x0F))"
  shows "0 \<le> hi" "0 \<le> lo" "word_of_int (push_bit 4 hi OR lo) = b"
proof -
  have nat: "unat (drop_bit 4 b AND 0x0F) = unat b div 16" "unat (b AND 0x0F) = unat b mod 16"
    using unat_byte_less [of b]
    by (simp_all add: unsigned_and_eq and_masks_nat drop_bit_eq_div unat_div less_mult_imp_div_less)
  have hi: "hi = int (unat b div 16)" and lo: "lo = int (unat b mod 16)"
    unfolding hi_def lo_def nat by (simp_all add: hex_value_kHexDigits less_mult_imp_div_less)
  show "0 \<le> hi" "0 \<le> lo"
    by (simp_all add: hi lo)
  have "push_bit 4 hi OR lo = int (unat b div 16) * 2 ^ 4 + int (unat b mod 16)"
    unfolding hi lo by (rule or_low_int) simp_all
  also have "\<dots> = int (unat b div 16 * 16 + unat b mod 16)"
    by (simp only: of_nat_add of_nat_mult) simp
  also have "\<dots> = int (unat b)"
    by (simp only: div_mult_mod_eq)
  finally show "word_of_int (push_bit 4 hi OR lo) = b"
    by simp
qed

lemma length_to_hex [simp]: "length (to_hex bs) = 2 * length bs"
  by (induction bs) simp_all

lemma from_hex_loop_to_hex: "from_hex_loop (to_hex bs) = Some bs"
proof (induction bs)
  case (Cons b bs)
  then show ?case
    using hex_byte [of b] by (simp add: Let_def not_less)
qed simp

lemma from_hex_to_hex [simp]: "from_hex (to_hex bs) = Some bs"
  by (simp add: from_hex_def from_hex_loop_to_hex)

lemma from_hex_loop_length: "from_hex_loop s = Some bs \<Longrightarrow> length bs = length s div 2"
  by (induction s arbitrary: bs rule: from_hex_loop.induct)
    (auto simp: Let_def split: if_splits)

lemma from_hex_length: "from_hex s = Some bs \<Longrightarrow> length s = 2 * length bs"
  by (auto simp: from_hex_def dest: from_hex_loop_length split: if_splits)

section \<open>Comparison and checked arithmetic\<close>

lemma xor_eq_0_iff_eq: "a XOR b = 0 \<longleftrightarrow> a = (b :: 'a::len word)"
  by (auto simp: bit_eq_iff bit_simps)

lemma constant_time_fold:
  "length a = length b \<Longrightarrow>
   fold (\<lambda>(x, y) acc. acc OR (x XOR y)) (zip a b) acc = 0 \<longleftrightarrow> acc = 0 \<and> a = (b :: bytes)"
  by (induction a b arbitrary: acc rule: list_induct2) (auto simp: or_eq_0_iff xor_eq_0_iff_eq)

lemma constant_time_equal_iff [simp]: "constant_time_equal a b \<longleftrightarrow> a = b"
  by (auto simp: constant_time_equal_def constant_time_fold)

lemma unat_max_minus: "unat (- 1 - b :: u64) = 18446744073709551615 - unat b"
  using unat_sub [of b "- 1 :: u64"] by simp

lemma checked_add_iff:
  "checked_add a b = (if unat a + unat b < 2 ^ 64 then Some (a + b) else None)"
proof -
  have "- 1 - b < a \<longleftrightarrow> \<not> unat a + unat b < 18446744073709551616"
    unfolding word_less_nat_alt unat_max_minus using unat_u64_less [of b] by arith
  then show ?thesis
    by (simp add: checked_add_def)
qed

lemma checked_mul_iff:
  "checked_mul a b = (if unat a * unat b < 2 ^ 64 then Some (a * b) else None)"
proof (cases "a = 0")
  case False
  then have "0 < unat a"
    by (simp add: unat_pos_iff)
  then have "(- 1) div a < b \<longleftrightarrow> (2 ^ 64 - 1) div unat a < unat b"
    by (simp add: word_less_nat_alt unat_div)
  also have "\<dots> \<longleftrightarrow> 2 ^ 64 - 1 < unat b * unat a"
    using \<open>0 < unat a\<close> by (simp add: div_less_iff_less_mult)
  also have "\<dots> \<longleftrightarrow> \<not> unat a * unat b < 2 ^ 64"
    by (simp add: mult.commute not_less) arith
  finally show ?thesis
    using False by (simp add: checked_mul_def)
qed (simp add: checked_mul_def)

lemma checked_add_Some_iff:
  "checked_add a b = Some c \<longleftrightarrow> unat c = unat a + unat b"
  by (auto simp: checked_add_iff unat_word_ariths word_unat_eq_iff)
    (metis unat_u64_less)

lemma checked_mul_Some_iff:
  "checked_mul a b = Some c \<longleftrightarrow> unat c = unat a * unat b"
  by (auto simp: checked_mul_iff unat_word_ariths word_unat_eq_iff)
    (metis unat_u64_less)
end
