(* ===== verification/SMF_Digest.thy ===== *)
theory SMF_Digest
  imports SMF_Status SMF_Bytes
begin

text \<open>
  \<^verbatim>\<open>src/digest.cpp\<close>: the digest type, incremental SHA-256, HMAC-SHA-256 and the truncated
  tag comparison, written out round by round over 32-bit words, so that the functions
  compute (the standard test vector is evaluated below).

  A \<^verbatim>\<open>Digest\<close> is the 256-bit word its 32 bytes spell.  A hasher is a record with the
  members of \<^verbatim>\<open>class Sha256\<close>.  The only loop that is not structural is the zero padding in
  \<^verbatim>\<open>finalize\<close>; it runs with 64 units of fuel, which \<open>Sha256_pad_zero_absorbed\<close> shows to be
  enough from every state the class can be in.

  The lemmas show that feeding data in pieces is the same as feeding it at once, that the
  incremental hasher computes the one-shot SHA-256 of the padded message, and that
  \<^verbatim>\<open>HmacSha256\<close> is the nested hash of the HMAC definition.
\<close>

type_synonym digest = "256 word"

definition kRoundConstants :: "u32 list" where
  "kRoundConstants =
    concat
     [[0x428a2f98, 0x71374491, 0xb5c0fbcf, 0xe9b5dba5, 0x3956c25b, 0x59f111f1, 0x923f82a4],
      [0xab1c5ed5, 0xd807aa98, 0x12835b01, 0x243185be, 0x550c7dc3, 0x72be5d74, 0x80deb1fe],
      [0x9bdc06a7, 0xc19bf174, 0xe49b69c1, 0xefbe4786, 0x0fc19dc6, 0x240ca1cc, 0x2de92c6f],
      [0x4a7484aa, 0x5cb0a9dc, 0x76f988da, 0x983e5152, 0xa831c66d, 0xb00327c8, 0xbf597fc7],
      [0xc6e00bf3, 0xd5a79147, 0x06ca6351, 0x14292967, 0x27b70a85, 0x2e1b2138, 0x4d2c6dfc],
      [0x53380d13, 0x650a7354, 0x766a0abb, 0x81c2c92e, 0x92722c85, 0xa2bfe8a1, 0xa81a664b],
      [0xc24b8b70, 0xc76c51a3, 0xd192e819, 0xd6990624, 0xf40e3585, 0x106aa070, 0x19a4c116],
      [0x1e376c08, 0x2748774c, 0x34b0bcb5, 0x391c0cb3, 0x4ed8aa4a, 0x5b9cca4f, 0x682e6ff3],
      [0x748f82ee, 0x78a5636f, 0x84c87814, 0x8cc70208, 0x90befffa, 0xa4506ceb, 0xbef9a3f7],
      [0xc67178f2]]"

definition kInitialState :: "u32 list" where
  "kInitialState =
    [0x6a09e667, 0xbb67ae85, 0x3c6ef372, 0xa54ff53a, 0x510e527f, 0x9b05688c, 0x1f83d9ab,
     0x5be0cd19]"

definition rotr :: "u32 \<Rightarrow> nat \<Rightarrow> u32" where
  "rotr value shift = drop_bit shift value OR push_bit (32 - shift) value"

definition load_be32 :: "bytes \<Rightarrow> u32" where
  "load_be32 p = push_bit 24 (ucast (p ! 0)) OR push_bit 16 (ucast (p ! 1)) OR
     push_bit 8 (ucast (p ! 2)) OR ucast (p ! 3)"

definition store_be32 :: "u32 \<Rightarrow> bytes" where
  "store_be32 value =
     [ucast (drop_bit 24 value AND 0xFF), ucast (drop_bit 16 value AND 0xFF),
      ucast (drop_bit 8 value AND 0xFF), ucast (value AND 0xFF)]"

definition Sha256_schedule_step :: "nat \<Rightarrow> u32 list \<Rightarrow> u32 list" where
  "Sha256_schedule_step i w =
     (let s0 = rotr (w ! (i - 15)) 7 XOR rotr (w ! (i - 15)) 18 XOR drop_bit 3 (w ! (i - 15));
          s1 = rotr (w ! (i - 2)) 17 XOR rotr (w ! (i - 2)) 19 XOR drop_bit 10 (w ! (i - 2))
      in w @ [w ! (i - 16) + s0 + w ! (i - 7) + s1])"

definition Sha256_schedule :: "bytes \<Rightarrow> u32 list" where
  "Sha256_schedule block =
     fold Sha256_schedule_step [16..<64] (map (\<lambda>i. load_be32 (drop (i * 4) block)) [0..<16])"

type_synonym sha_vars = "u32 \<times> u32 \<times> u32 \<times> u32 \<times> u32 \<times> u32 \<times> u32 \<times> u32"

definition Sha256_round :: "u32 \<times> u32 \<Rightarrow> sha_vars \<Rightarrow> sha_vars" where
  "Sha256_round = (\<lambda>(k, wi) (a, b, c, d, e, f, g, h).
     let s1 = rotr e 6 XOR rotr e 11 XOR rotr e 25;
         ch = (e AND f) XOR ((NOT e) AND g);
         temp1 = h + s1 + ch + k + wi;
         s0 = rotr a 2 XOR rotr a 13 XOR rotr a 22;
         maj = (a AND b) XOR (a AND c) XOR (b AND c);
         temp2 = s0 + maj
     in (temp1 + temp2, a, b, c, d + temp1, e, f, g))"

fun Sha256_vars :: "u32 list \<Rightarrow> sha_vars" where
  "Sha256_vars [a, b, c, d, e, f, g, h] = (a, b, c, d, e, f, g, h)"
| "Sha256_vars _ = (0, 0, 0, 0, 0, 0, 0, 0)"

definition Sha256_compress :: "u32 list \<Rightarrow> bytes \<Rightarrow> u32 list" where
  "Sha256_compress st block =
     (case fold Sha256_round (zip kRoundConstants (Sha256_schedule block)) (Sha256_vars st) of
        (a, b, c, d, e, f, g, h) \<Rightarrow> map2 (+) st [a, b, c, d, e, f, g, h])"

record sha256_state =
  sha_state :: "u32 list"
  sha_buffer :: bytes
  sha_buffered :: nat
  sha_total :: u64

definition Sha256_reset :: sha256_state where
  "Sha256_reset = \<lparr>sha_state = kInitialState, sha_buffer = replicate 64 0, sha_buffered = 0,
     sha_total = 0\<rparr>"

fun Sha256_blocks :: "u32 list \<Rightarrow> bytes \<Rightarrow> u32 list \<times> bytes" where
  "Sha256_blocks st data =
     (if 64 \<le> length data then Sha256_blocks (Sha256_compress st (take 64 data)) (drop 64 data)
      else (st, data))"

declare Sha256_blocks.simps [simp del]

definition memcpy :: "bytes \<Rightarrow> nat \<Rightarrow> bytes \<Rightarrow> bytes" where
  "memcpy dst offset src = take offset dst @ src @ drop (offset + length src) dst"

definition Sha256_fill_buffer :: "sha256_state \<Rightarrow> bytes \<Rightarrow> sha256_state \<times> nat" where
  "Sha256_fill_buffer s data =
    (if sha_buffered s \<noteq> 0 then
       let need = 64 - sha_buffered s;
           tk = (if length data < need then length data else need);
           s = s\<lparr>sha_buffer := memcpy (sha_buffer s) (sha_buffered s) (take tk data),
                 sha_buffered := sha_buffered s + tk\<rparr>
       in if sha_buffered s = 64
          then (s\<lparr>sha_state := Sha256_compress (sha_state s) (sha_buffer s), sha_buffered := 0\<rparr>, tk)
          else (s, tk)
     else (s, 0))"

definition Sha256_absorb :: "sha256_state \<Rightarrow> bytes \<Rightarrow> sha256_state" where
  "Sha256_absorb s data =
    (case Sha256_blocks (sha_state s) data of
       (st, rest) \<Rightarrow>
         if rest \<noteq> []
         then s\<lparr>sha_state := st, sha_buffer := memcpy (sha_buffer s) 0 rest, sha_buffered := length rest\<rparr>
         else s\<lparr>sha_state := st\<rparr>)"

definition Sha256_update :: "sha256_state \<Rightarrow> bytes \<Rightarrow> sha256_state" where
  "Sha256_update s data =
    (case Sha256_fill_buffer (s\<lparr>sha_total := sha_total s + word_of_nat (length data)\<rparr>) data of
       (s, offset) \<Rightarrow> Sha256_absorb s (drop offset data))"

fun Sha256_pad_zero :: "nat \<Rightarrow> sha256_state \<Rightarrow> sha256_state" where
  "Sha256_pad_zero 0 s = s"
| "Sha256_pad_zero (Suc fuel) s =
     (if sha_buffered s \<noteq> 56 then Sha256_pad_zero fuel (Sha256_update s [0]) else s)"

definition Sha256_length_bytes :: "u64 \<Rightarrow> bytes" where
  "Sha256_length_bytes bit_length = map (\<lambda>i. ucast (drop_bit ((7 - i) * 8) bit_length AND 0xFF)) [0..<8]"

definition Sha256_finalize :: "sha256_state \<Rightarrow> digest \<times> sha256_state" where
  "Sha256_finalize s =
    (let bit_length = sha_total s * 8;
         s = Sha256_update s [0x80];
         s = Sha256_pad_zero 64 s;
         s = Sha256_update s (Sha256_length_bytes bit_length)
     in (be_word (concat (map store_be32 (sha_state s))), Sha256_reset))"

definition sha256 :: "bytes \<Rightarrow> digest" where
  "sha256 data = fst (Sha256_finalize (Sha256_update Sha256_reset data))"


definition Digest_view :: "digest \<Rightarrow> bytes" where
  "Digest_view d = be_bytes 32 d"

definition Digest_from_bytes :: "bytes \<Rightarrow> digest result" where
  "Digest_from_bytes raw =
    (if length raw \<noteq> 32 then err INVALID_DIGEST ''digest requires exactly 32 bytes''
     else Inr (be_word raw))"

definition Digest_from_hex :: "string \<Rightarrow> digest result" where
  "Digest_from_hex text =
    (if length text \<noteq> 64 then err INVALID_DIGEST ''digest hex must be 64 characters''
     else case from_hex text of
       None \<Rightarrow> err INVALID_DIGEST ''digest hex is not valid hexadecimal''
     | Some raw \<Rightarrow>
         if length raw \<noteq> 32 then err INVALID_DIGEST ''digest hex is not valid hexadecimal''
         else Inr (be_word raw))"

definition Digest_hex :: "digest \<Rightarrow> string" where
  "Digest_hex d = to_hex (Digest_view d)"

definition Digest_is_zero :: "digest \<Rightarrow> bool" where
  "Digest_is_zero d \<longleftrightarrow> fold (\<lambda>b accumulator. accumulator OR b) (Digest_view d) (0 :: byte) = 0"

section \<open>HMAC\<close>

record hmac_state =
  hmac_inner :: sha256_state
  hmac_opad :: bytes

definition HmacSha256_key_block :: "bytes \<Rightarrow> bytes" where
  "HmacSha256_key_block key =
    (if length key > 64 then memcpy (replicate 64 0) 0 (Digest_view (sha256 key))
     else memcpy (replicate 64 0) 0 key)"

definition HmacSha256_init :: "bytes \<Rightarrow> hmac_state" where
  "HmacSha256_init key =
    (let key_block = HmacSha256_key_block key;
         ipad = map (\<lambda>b. b XOR 0x36) key_block
     in \<lparr>hmac_inner = Sha256_update Sha256_reset ipad, hmac_opad = map (\<lambda>b. b XOR 0x5C) key_block\<rparr>)"

definition HmacSha256_update :: "hmac_state \<Rightarrow> bytes \<Rightarrow> hmac_state" where
  "HmacSha256_update m data = m\<lparr>hmac_inner := Sha256_update (hmac_inner m) data\<rparr>"

definition HmacSha256_finalize :: "hmac_state \<Rightarrow> digest \<times> hmac_state" where
  "HmacSha256_finalize m =
    (case Sha256_finalize (hmac_inner m) of
       (inner_digest, inner) \<Rightarrow>
         (fst (Sha256_finalize
            (Sha256_update (Sha256_update Sha256_reset (hmac_opad m)) (Digest_view inner_digest))),
          m\<lparr>hmac_inner := inner\<rparr>))"

definition hmac_sha256 :: "bytes \<Rightarrow> bytes \<Rightarrow> digest" where
  "hmac_sha256 key data = fst (HmacSha256_finalize (HmacSha256_update (HmacSha256_init key) data))"

definition verify_truncated_tag :: "digest \<Rightarrow> bytes \<Rightarrow> nat \<Rightarrow> bool" where
  "verify_truncated_tag expected provided tag_bytes =
    (if tag_bytes = 0 \<or> tag_bytes > 32 then False
     else if length provided \<noteq> tag_bytes then False
     else constant_time_equal (take tag_bytes (Digest_view expected)) provided)"

section \<open>Reference definitions\<close>

function blocks64 :: "bytes \<Rightarrow> bytes list" where
  "blocks64 m = (if 64 \<le> length m then take 64 m # blocks64 (drop 64 m) else [])"
  by pat_completeness auto
termination
  by (relation "measure length") auto

declare blocks64.simps [simp del]

definition sha256_padding :: "nat \<Rightarrow> bytes" where
  "sha256_padding n =
     0x80 # replicate ((119 - n mod 64) mod 64) 0 @ Sha256_length_bytes (word_of_nat n * 8)"

definition sha256_reference :: "bytes \<Rightarrow> digest" where
  "sha256_reference m = be_word (concat (map store_be32
     (foldl Sha256_compress kInitialState (blocks64 (m @ sha256_padding (length m))))))"

definition hmac_reference :: "bytes \<Rightarrow> bytes \<Rightarrow> digest" where
  "hmac_reference key data =
    (let k = (if length key > 64 then Digest_view (sha256 key) else key);
         k0 = k @ replicate (64 - length k) 0
     in sha256 (map (\<lambda>b. b XOR 0x5C) k0 @
          Digest_view (sha256 (map (\<lambda>b. b XOR 0x36) k0 @ data))))"

section \<open>The digest type\<close>

lemma length_Digest_view [simp]: "length (Digest_view d) = 32"
  by (simp add: Digest_view_def)

lemma be_word_Digest_view [simp]: "be_word (Digest_view d) = d"
  by (simp add: Digest_view_def)

lemma Digest_view_be_word [simp]: "length bs = 32 \<Longrightarrow> Digest_view (be_word bs) = bs"
  by (simp add: Digest_view_def)

lemma Digest_view_inject [simp]: "Digest_view d = Digest_view e \<longleftrightarrow> d = e"
  by (metis be_word_Digest_view)

lemma Digest_from_bytes_iff [simp]: "Digest_from_bytes raw = Inr d \<longleftrightarrow> raw = Digest_view d"
  by (auto simp: Digest_from_bytes_def)

lemma Digest_from_bytes_view [simp]: "Digest_from_bytes (Digest_view d) = Inr d"
  by simp

lemma Digest_from_hex_hex: "Digest_from_hex (Digest_hex d) = Inr d"
  by (simp add: Digest_from_hex_def Digest_hex_def)

lemma fold_or_eq_0_iff:
  "fold (\<lambda>b acc. acc OR b) bs acc = 0 \<longleftrightarrow> acc = 0 \<and> set bs \<subseteq> {0 :: 'a::len word}"
  by (induction bs arbitrary: acc) (auto simp: or_eq_0_iff)

lemma be_word_replicate_0 [simp]: "be_word (replicate n 0) = (0 :: 'a::len word)"
proof -
  have "be_word_acc (0 :: 'a word) (replicate n 0) = 0"
    by (induction n) simp_all
  then show ?thesis
    by (simp add: be_word_def)
qed

lemma be_bytes_0: "be_bytes n (0 :: 'a::len word) = replicate n 0"
  by (induction n "0 :: 'a word" rule: be_bytes.induct) (simp_all add: replicate_append_same)

lemma Digest_is_zero_iff [simp]: "Digest_is_zero d \<longleftrightarrow> d = 0"
proof
  assume "Digest_is_zero d"
  then have "Digest_view d = replicate 32 0"
    by (simp add: Digest_is_zero_def fold_or_eq_0_iff replicate_eqI subset_singleton_iff)
       (metis empty_iff length_Digest_view list.set(1) replicate_eqI set_empty singletonD zero_neq_numeral list.size(3))
  then show "d = 0"
    by (metis be_word_Digest_view be_word_replicate_0)
next
  assume "d = 0"
  then show "Digest_is_zero d"
    unfolding Digest_is_zero_def fold_or_eq_0_iff by (simp add: Digest_view_def be_bytes_0)
qed

section \<open>Incremental hashing\<close>

lemma Sha256_blocks_short [simp]: "length data < 64 \<Longrightarrow> Sha256_blocks st data = (st, data)"
  by (simp add: Sha256_blocks.simps)

lemma Sha256_blocks_block:
  "length blk = 64 \<Longrightarrow> Sha256_blocks st (blk @ data) = Sha256_blocks (Sha256_compress st blk) data"
  by (subst Sha256_blocks.simps) simp

lemma Sha256_blocks_append:
  "Sha256_blocks st (a @ b) =
     (case Sha256_blocks st a of (st', r) \<Rightarrow> Sha256_blocks st' (r @ b))"
proof (induction st a rule: Sha256_blocks.induct)
  case (1 st a)
  show ?case
  proof (cases "64 \<le> length a")
    case True
    then have "Sha256_blocks st (a @ b) = Sha256_blocks (Sha256_compress st (take 64 a)) (drop 64 a @ b)"
      using Sha256_blocks_block [of "take 64 a" st "drop 64 a @ b"]
      by (simp flip: append_assoc)
    moreover have "Sha256_blocks st a = Sha256_blocks (Sha256_compress st (take 64 a)) (drop 64 a)"
      using True by (subst Sha256_blocks.simps) simp
    ultimately show ?thesis
      using 1 [OF True] by simp
  qed simp
qed

lemma Sha256_blocks_rest: "length (snd (Sha256_blocks st data)) = length data mod 64"
  by (induction st data rule: Sha256_blocks.induct) (simp add: Sha256_blocks.simps le_mod_geq)

lemma Sha256_blocks_foldl: "fst (Sha256_blocks st data) = foldl Sha256_compress st (blocks64 data)"
  by (induction st data rule: Sha256_blocks.induct) (simp add: Sha256_blocks.simps blocks64.simps)

text \<open>\<open>sha_absorbed s m\<close>: the hasher \<open>s\<close> has been fed exactly the bytes \<open>m\<close>.\<close>

definition sha_absorbed :: "sha256_state \<Rightarrow> bytes \<Rightarrow> bool" where
  "sha_absorbed s m \<longleftrightarrow> length (sha_buffer s) = 64 \<and> sha_buffered s < 64 \<and>
     Sha256_blocks kInitialState m = (sha_state s, take (sha_buffered s) (sha_buffer s)) \<and>
     sha_total s = word_of_nat (length m)"

lemma sha_absorbed_reset [simp]: "sha_absorbed Sha256_reset []"
  by (simp add: sha_absorbed_def Sha256_reset_def)

lemma sha_absorbed_buffered: "sha_absorbed s m \<Longrightarrow> sha_buffered s = length m mod 64"
  using Sha256_blocks_rest [of kInitialState m] by (auto simp: sha_absorbed_def)

lemma length_memcpy [simp]:
  "offset + length src \<le> length dst \<Longrightarrow> length (memcpy dst offset src) = length dst"
  by (simp add: memcpy_def)

lemma take_memcpy:
  "offset + length src \<le> length dst \<Longrightarrow>
   take (offset + length src) (memcpy dst offset src) = take offset dst @ src"
  by (simp add: memcpy_def)

lemma sha_absorbed_update:
  assumes "sha_absorbed s m"
  shows "sha_absorbed (Sha256_update s data) (m @ data)"
proof -
  let ?b = "sha_buffered s"
  from assms have buf: "length (sha_buffer s) = 64" "?b < 64"
    and blocks: "Sha256_blocks kInitialState m = (sha_state s, take ?b (sha_buffer s))"
    and total: "sha_total s = word_of_nat (length m)"
    by (auto simp: sha_absorbed_def)
  have absorb: "sha_absorbed (Sha256_absorb t data') m'"
    if "length (sha_buffer t) = 64" "sha_buffered t = 0" "sha_total t = word_of_nat (length m')"
      "Sha256_blocks kInitialState m' = Sha256_blocks (sha_state t) data'" for t data' m'
  proof -
    obtain st rest where r: "Sha256_blocks (sha_state t) data' = (st, rest)"
      by fastforce
    then have "length rest < 64"
      using Sha256_blocks_rest [of "sha_state t" data'] by simp
    then show ?thesis
      using that r take_memcpy [of 0 rest "sha_buffer t"]
      by (simp add: sha_absorbed_def Sha256_absorb_def)
  qed
  consider (empty) "?b = 0" | (partial) "?b \<noteq> 0" "?b + length data < 64"
    | (full) "?b \<noteq> 0" "64 \<le> ?b + length data"
    by linarith
  then show ?thesis
  proof cases
    case empty
    then show ?thesis
      using absorb [of "s\<lparr>sha_total := sha_total s + word_of_nat (length data)\<rparr>" "m @ data" data]
        buf blocks total
      by (simp add: Sha256_update_def Sha256_fill_buffer_def Sha256_blocks_append [of _ m])
  next
    case partial
    then show ?thesis
      using buf blocks total take_memcpy [of ?b data "sha_buffer s"]
      by (simp add: Sha256_update_def Sha256_fill_buffer_def Sha256_absorb_def Let_def
          sha_absorbed_def Sha256_blocks_append [of _ m] less_diff_conv)
  next
    case full
    let ?need = "64 - ?b"
    let ?buf = "memcpy (sha_buffer s) ?b (take ?need data)"
    let ?t = "s\<lparr>sha_total := sha_total s + word_of_nat (length data), sha_buffer := ?buf,
       sha_state := Sha256_compress (sha_state s) ?buf, sha_buffered := 0\<rparr>"
    have len: "length (take ?need data) = ?need" "length ?buf = 64"
      using full buf by simp_all
    have "take 64 ?buf = take ?b (sha_buffer s) @ take ?need data"
      using full buf take_memcpy [of ?b "take ?need data" "sha_buffer s"] by simp
    then have bufeq: "?buf = take ?b (sha_buffer s) @ take ?need data"
      using len by simp
    have "Sha256_blocks kInitialState (m @ data)
        = Sha256_blocks (sha_state s) (?buf @ drop ?need data)"
      unfolding bufeq by (simp add: Sha256_blocks_append [of _ m] blocks)
    also have "\<dots> = Sha256_blocks (sha_state ?t) (drop ?need data)"
      using len by (simp add: Sha256_blocks_block)
    finally have "sha_absorbed (Sha256_absorb ?t (drop ?need data)) (m @ data)"
      using len total by (intro absorb) simp_all
    moreover have "Sha256_update s data = Sha256_absorb ?t (drop ?need data)"
      using full buf by (simp add: Sha256_update_def Sha256_fill_buffer_def Let_def not_less)
    ultimately show ?thesis
      by simp
  qed
qed

text \<open>Feeding a message in any number of pieces absorbs their concatenation.\<close>

lemma sha_absorbed_foldl:
  "sha_absorbed s m \<Longrightarrow> sha_absorbed (foldl Sha256_update s parts) (m @ concat parts)"
proof (induction parts arbitrary: s m)
  case (Cons part parts)
  then show ?case
    using Cons.IH [OF sha_absorbed_update [OF Cons.prems, of part]] by simp
qed simp

lemma pad_zero_count:
  assumes "r < (64 :: nat)"
  shows "(120 - r) mod 64 = (if r \<le> 56 then 56 - r else 120 - r)"
proof (cases "r \<le> 56")
  case True
  then have "120 - r = (56 - r) + 64"
    by simp
  then show ?thesis
    using True by (simp only: mod_add_self2) simp
qed (use assms in simp)

lemma pad_zero_count_Suc:
  assumes "n mod 64 \<noteq> 56"
  shows "(120 - n mod 64) mod 64 = Suc ((120 - Suc n mod 64) mod (64 :: nat))"
proof -
  have "n mod 64 < 64" "Suc n mod 64 < 64"
    by simp_all
  then show ?thesis
    using assms unfolding pad_zero_count [OF \<open>n mod 64 < 64\<close>] pad_zero_count [OF \<open>Suc n mod 64 < 64\<close>]
    by (auto simp: mod_Suc)
qed

text \<open>From a state with \<open>n mod 64\<close> buffered bytes the padding loop appends
  \<open>(120 - n mod 64) mod 64\<close> zero bytes, so 64 units of fuel are always enough.\<close>

lemma Sha256_pad_zero_absorbed:
  assumes "sha_absorbed s m" "(120 - length m mod 64) mod 64 \<le> fuel"
  shows "sha_absorbed (Sha256_pad_zero fuel s) (m @ replicate ((120 - length m mod 64) mod 64) 0)"
    "sha_buffered (Sha256_pad_zero fuel s) = 56"
proof -
  have "sha_absorbed (Sha256_pad_zero fuel s) (m @ replicate ((120 - length m mod 64) mod 64) 0) \<and>
     sha_buffered (Sha256_pad_zero fuel s) = 56"
    using assms
  proof (induction fuel arbitrary: s m)
    case 0
    have "length m mod 64 < 64" by simp
    then have "length m mod 64 = 56"
      using 0(2) by (auto simp: pad_zero_count split: if_splits)
    then show ?case
      using 0(1) sha_absorbed_buffered [OF 0(1)] by simp
  next
    case (Suc fuel)
    show ?case
    proof (cases "length m mod 64 = 56")
      case True
      then show ?thesis
        using Suc.prems(1) sha_absorbed_buffered [OF Suc.prems(1)] by simp
    next
      case False
      let ?k = "\<lambda>n. (120 - n mod 64) mod (64 :: nat)"
      have k: "?k (length m) = Suc (?k (length (m @ [0])))"
        using pad_zero_count_Suc [OF False] by simp
      then have "?k (length (m @ [0])) \<le> fuel"
        using Suc.prems(2) by linarith
      from Suc.IH [OF sha_absorbed_update [OF Suc.prems(1), of "[0]"] this]
      show ?thesis
        using False sha_absorbed_buffered [OF Suc.prems(1)]
        by (simp add: k [unfolded length_append list.size])
    qed
  qed
  then show "sha_absorbed (Sha256_pad_zero fuel s) (m @ replicate ((120 - length m mod 64) mod 64) 0)"
    "sha_buffered (Sha256_pad_zero fuel s) = 56"
    by blast+
qed

lemma length_Sha256_length_bytes [simp]: "length (Sha256_length_bytes n) = 8"
  by (simp add: Sha256_length_bytes_def)

lemma Sha256_finalize_absorbed:
  assumes "sha_absorbed s m"
  shows "Sha256_finalize s = (sha256_reference m, Sha256_reset)"
proof -
  let ?k = "(119 - length m mod 64) mod 64"
  let ?s1 = "Sha256_pad_zero 64 (Sha256_update s [0x80])"
  have "(120 - Suc (length m) mod 64) mod 64 = ?k"
  proof (cases "length m mod 64 = 63")
    case False
    then have "Suc (length m) mod 64 = Suc (length m mod 64)"
      by (simp add: mod_Suc)
    then show ?thesis by simp
  qed (simp add: mod_Suc)
  then have "sha_absorbed ?s1 ((m @ [0x80]) @ replicate ?k 0)"
    using Sha256_pad_zero_absorbed(1) [OF sha_absorbed_update [OF assms, of "[0x80]"], of 64]
      mod_less_divisor [of 64 "120 - Suc (length m) mod 64"] by (simp add: less_imp_le)
  from sha_absorbed_update [OF this, of "Sha256_length_bytes (sha_total s * 8)"]
  have "sha_absorbed (Sha256_update ?s1 (Sha256_length_bytes (sha_total s * 8)))
      (m @ sha256_padding (length m))"
    using assms by (simp add: sha256_padding_def sha_absorbed_def [of s])
  then have "sha_state (Sha256_update ?s1 (Sha256_length_bytes (sha_total s * 8)))
      = foldl Sha256_compress kInitialState (blocks64 (m @ sha256_padding (length m)))"
    by (simp add: sha_absorbed_def flip: Sha256_blocks_foldl)
  then show ?thesis
    by (simp add: Sha256_finalize_def sha256_reference_def Let_def)
qed

lemma sha256_eq_reference: "sha256 m = sha256_reference m"
  using Sha256_finalize_absorbed [OF sha_absorbed_update [OF sha_absorbed_reset, of m]]
  by (simp add: sha256_def)

lemma Sha256_stream:
  "Sha256_finalize (foldl Sha256_update Sha256_reset parts) = (sha256 (concat parts), Sha256_reset)"
  using Sha256_finalize_absorbed [OF sha_absorbed_foldl [OF sha_absorbed_reset]]
  by (simp add: sha256_eq_reference)

lemma sha256_padding_aligns: "(n + length (sha256_padding n)) mod 64 = 0"
proof -
  have "n mod 64 < 64" by simp
  then have "(n mod 64 + Suc ((119 - n mod 64) mod 64 + 8)) mod 64 = 0"
    using pad_zero_count [of "Suc (n mod 64)"] by (cases "n mod 64 = 63") auto
  then show ?thesis
    by (simp add: sha256_padding_def mod_simps)
qed

section \<open>HMAC\<close>

lemma HmacSha256_key_block_pad:
  "HmacSha256_key_block key =
    (let k = (if length key > 64 then Digest_view (sha256 key) else key)
     in k @ replicate (64 - length k) 0)"
  by (simp add: HmacSha256_key_block_def memcpy_def Let_def)

lemma hmac_sha256_eq_reference: "hmac_sha256 key data = hmac_reference key data"
  using Sha256_stream [of "[a, b]" for a b]
  by (simp add: hmac_sha256_def HmacSha256_finalize_def HmacSha256_update_def HmacSha256_init_def
      hmac_reference_def HmacSha256_key_block_pad Let_def)

lemma verify_truncated_tag_iff:
  "verify_truncated_tag expected provided n \<longleftrightarrow>
     0 < n \<and> n \<le> 32 \<and> provided = take n (Digest_view expected)"
  by (auto simp: verify_truncated_tag_def)

end
