(* ===== verification/SMF_Digest_Bits.thy ===== *)
theory SMF_Digest_Bits
  imports SMF_Digest
begin

text \<open>
  The compression function on lists of bits, least significant first. It computes the same words as
  the routine of the code, and it is the form the witnesses evaluate: a rotation of a list of bits
  is a rotation of the list.
\<close>

section \<open>Words as lists of bits\<close>

definition word_of :: "bool list \<Rightarrow> u32" where
  "word_of bs = horner_sum of_bool 2 bs"

lemma bit_word_of: "length bs = 32 \<Longrightarrow> bit (word_of bs) n \<longleftrightarrow> n < 32 \<and> bs ! n"
  by (auto simp: word_of_def bit_horner_sum_bit_word_iff)

fun bits_int :: "bool list \<Rightarrow> int" where
  "bits_int [] = 0"
| "bits_int (False # bs) = 2 * bits_int bs"
| "bits_int (True # bs) = 1 + 2 * bits_int bs"

lemma word_of_code [code]: "word_of bs = word_of_int (bits_int bs)"
  unfolding word_of_def by (induction bs rule: bits_int.induct) simp_all

fun num_bits :: "nat \<Rightarrow> num \<Rightarrow> bool list" where
  "num_bits 0 m = []"
| "num_bits (Suc k) num.One = True # replicate k False"
| "num_bits (Suc k) (num.Bit0 m) = False # num_bits k m"
| "num_bits (Suc k) (num.Bit1 m) = True # num_bits k m"

lemma num_bits_bit: "length (num_bits k m) = k" "n < k \<Longrightarrow> num_bits k m ! n \<longleftrightarrow> bit (numeral m :: int) n"
proof (induction k m arbitrary: n rule: num_bits.induct)
  case (1 m)
  { case 1 show ?case by simp } { case 2 then show ?case by simp }
next
  case (2 k)
  { case 1 show ?case by simp }
  { case 2 then show ?case by (cases n) simp_all }
next
  case (3 k m)
  { case 1 show ?case using 3 by simp }
  { case 2 then show ?case using 3 by (cases n) (simp_all add: bit_numeral_Bit0_Suc_iff) }
next
  case (4 k m)
  { case 1 show ?case using 4 by simp }
  { case 2 then show ?case using 4 by (cases n) (simp_all add: bit_numeral_Bit1_Suc_iff) }
qed

definition int_bits :: "int \<Rightarrow> bool list" where
  "int_bits i = map (bit i) [0..<32]"

lemma int_bits_code [code]:
  "int_bits 0 = replicate 32 False"
  "int_bits (Int.Pos m) = num_bits 32 m"
  "int_bits (Int.Neg m) = map (bit (Int.Neg m)) [0..<32]"
  by (auto simp: int_bits_def num_bits_bit map_replicate_const intro!: nth_equalityI)

definition bits_of :: "u32 \<Rightarrow> bool list" where
  "bits_of w = int_bits (uint w)"

lemma bits_of_nth [simp]: "length (bits_of w) = 32" "n < 32 \<Longrightarrow> bits_of w ! n \<longleftrightarrow> bit w n"
  by (simp_all add: bits_of_def int_bits_def bit_uint_iff)

lemma word_of_bits_of [simp]: "word_of (bits_of w) = w"
  by (rule bit_eqI) (auto simp: bit_word_of dest: bit_imp_le_length)

text \<open>A list of 32 bits that stands for a word; every operation below keeps this.\<close>

definition spells_word :: "bool list \<Rightarrow> u32 \<Rightarrow> bool" where
  "spells_word bs w \<longleftrightarrow> length bs = 32 \<and> word_of bs = w"

lemma spells_wordI: "length bs = 32 \<Longrightarrow> (\<And>n. n < 32 \<Longrightarrow> bs ! n \<longleftrightarrow> bit w n) \<Longrightarrow> spells_word bs w"
  by (auto simp: spells_word_def bit_word_of intro!: bit_eqI dest: bit_imp_le_length)

lemma spells_wordD: "spells_word bs w \<Longrightarrow> length bs = 32" "spells_word bs w \<Longrightarrow> n < 32 \<Longrightarrow> bs ! n \<longleftrightarrow> bit w n"
  by (auto simp: spells_word_def bit_word_of)

lemma spells_bits_of [intro]: "spells_word (bits_of w) w"
  by (simp add: spells_word_def)

section \<open>Operations\<close>

fun zip_bits :: "(bool \<Rightarrow> bool \<Rightarrow> bool) \<Rightarrow> bool list \<Rightarrow> bool list \<Rightarrow> bool list" where
  "zip_bits f (x # xs) (y # ys) = f x y # zip_bits f xs ys"
| "zip_bits f _ _ = []"

definition xor_bits :: "bool list \<Rightarrow> bool list \<Rightarrow> bool list" where
  "xor_bits = zip_bits (\<noteq>)"

definition and_bits :: "bool list \<Rightarrow> bool list \<Rightarrow> bool list" where
  "and_bits = zip_bits (\<and>)"

fun add_bits :: "bool \<Rightarrow> bool list \<Rightarrow> bool list \<Rightarrow> bool list" where
  "add_bits c (x # xs) (y # ys) = ((x \<noteq> y) \<noteq> c) # add_bits (if x then y \<or> c else y \<and> c) xs ys"
| "add_bits c _ _ = []"

text \<open>One equation per pair of bits, for the evaluation.\<close>

lemma xor_bits_code [code]:
  "xor_bits (False # xs) (y # ys) = y # xor_bits xs ys"
  "xor_bits (True # xs) (False # ys) = True # xor_bits xs ys"
  "xor_bits (True # xs) (True # ys) = False # xor_bits xs ys"
  "xor_bits [] ys = []" "xor_bits (x # xs) [] = []"
  by (simp_all add: xor_bits_def)

lemma and_bits_code [code]:
  "and_bits (False # xs) (y # ys) = False # and_bits xs ys"
  "and_bits (True # xs) (y # ys) = y # and_bits xs ys"
  "and_bits [] ys = []" "and_bits (x # xs) [] = []"
  by (simp_all add: and_bits_def)

lemma add_bits_code [code]:
  "add_bits False (False # xs) (y # ys) = y # add_bits False xs ys"
  "add_bits False (True # xs) (False # ys) = True # add_bits False xs ys"
  "add_bits False (True # xs) (True # ys) = False # add_bits True xs ys"
  "add_bits True (True # xs) (y # ys) = y # add_bits True xs ys"
  "add_bits True (False # xs) (True # ys) = False # add_bits True xs ys"
  "add_bits True (False # xs) (False # ys) = True # add_bits False xs ys"
  "add_bits c [] ys = []" "add_bits c (x # xs) [] = []"
  by simp_all

definition rotr_bits :: "nat \<Rightarrow> bool list \<Rightarrow> bool list" where
  "rotr_bits n bs = drop n bs @ take n bs"

definition shr_bits :: "nat \<Rightarrow> bool list \<Rightarrow> bool list" where
  "shr_bits n bs = drop n bs @ replicate n False"

lemma zip_bits_nth: "length xs = length ys \<Longrightarrow> length (zip_bits f xs ys) = length ys \<and>
    (\<forall>n < length ys. zip_bits f xs ys ! n = f (xs ! n) (ys ! n))"
  by (induction f xs ys rule: zip_bits.induct) (auto simp: nth_Cons split: nat.splits)

lemma spells_and: "spells_word xs x \<Longrightarrow> spells_word ys y \<Longrightarrow> spells_word (and_bits xs ys) (x AND y)"
  using zip_bits_nth [of xs ys "(\<and>)"] by (intro spells_wordI) (auto simp: and_bits_def spells_wordD bit_and_iff)

lemma spells_xor: "spells_word xs x \<Longrightarrow> spells_word ys y \<Longrightarrow> spells_word (xor_bits xs ys) (x XOR y)"
  using zip_bits_nth [of xs ys "(\<noteq>)"] by (intro spells_wordI) (auto simp: xor_bits_def spells_wordD bit_xor_iff)

lemma spells_not: "spells_word xs x \<Longrightarrow> spells_word (map Not xs) (NOT x)"
  by (intro spells_wordI) (auto simp: spells_wordD bit_not_iff)

lemma spells_shr: "spells_word xs x \<Longrightarrow> n \<le> 32 \<Longrightarrow> spells_word (shr_bits n xs) (drop_bit n x)"
  by (intro spells_wordI) (auto simp: shr_bits_def spells_wordD bit_drop_bit_eq nth_append dest: bit_imp_le_length)

lemma spells_rotr: "spells_word xs x \<Longrightarrow> 0 < n \<Longrightarrow> n < 32 \<Longrightarrow> spells_word (rotr_bits n xs) (rotr x n)"
  by (intro spells_wordI)
    (auto simp: rotr_bits_def rotr_def spells_wordD bit_or_iff bit_drop_bit_eq bit_push_bit_iff nth_append dest: bit_imp_le_length)

lemma add_bits_sum:
  "length xs = length ys \<Longrightarrow> length (add_bits c xs ys) = length ys \<and>
    (\<exists>k. horner_sum of_bool 2 (add_bits c xs ys) + 2 ^ length ys * k =
      horner_sum of_bool 2 xs + horner_sum of_bool 2 ys + (of_bool c :: u32))"
proof (induction c xs ys rule: add_bits.induct)
  case (1 c x xs y ys)
  let ?c = "if x then y \<or> c else y \<and> c"
  obtain k where "horner_sum of_bool 2 (add_bits ?c xs ys) + 2 ^ length ys * k =
      horner_sum of_bool 2 xs + horner_sum of_bool 2 ys + (of_bool ?c :: u32)"
    using 1 by auto
  then have "2 * (horner_sum of_bool 2 (add_bits ?c xs ys) + 2 ^ length ys * k) =
      2 * (horner_sum of_bool 2 xs + horner_sum of_bool 2 ys + (of_bool ?c :: u32))"
    by (simp only:)
  then have "2 * horner_sum of_bool 2 (add_bits ?c xs ys) + 2 ^ length (y # ys) * k =
      2 * horner_sum of_bool 2 xs + 2 * horner_sum of_bool 2 ys + 2 * (of_bool ?c :: u32)"
    by (simp only: distrib_left power_Suc list.size(4) add_0_right add_Suc_right mult.assoc)
  moreover have "of_bool ((x \<noteq> y) \<noteq> c) + 2 * of_bool ?c = of_bool x + of_bool y + (of_bool c :: u32)"
    by (cases x; cases y; cases c) simp_all
  ultimately have "horner_sum of_bool 2 (add_bits c (x # xs) (y # ys)) + 2 ^ length (y # ys) * k =
      horner_sum of_bool 2 (x # xs) + horner_sum of_bool 2 (y # ys) + (of_bool c :: u32)"
    by (simp only: add_bits.simps horner_sum_simps) (simp add: algebra_simps)
  moreover have "length (add_bits c (x # xs) (y # ys)) = length (y # ys)"
    using 1 by simp
  ultimately show ?case
    by blast
qed auto

lemma spells_add:
  assumes "spells_word xs x" "spells_word ys y"
  shows "spells_word (add_bits False xs ys) (x + y)"
proof -
  have size: "length xs = length ys" "length ys = 32"
    using assms by (simp_all add: spells_word_def)
  obtain k where "horner_sum of_bool 2 (add_bits False xs ys) + 2 ^ length ys * k = word_of xs + word_of ys"
    "length (add_bits False xs ys) = 32"
    using add_bits_sum [OF size(1), of False] size(2) by (auto simp: word_of_def)
  moreover have "(2 ^ length ys :: u32) = 0"
    by (simp add: size(2))
  ultimately show ?thesis
    using assms by (simp add: spells_word_def word_of_def)
qed

lemmas spells_ops = spells_and spells_xor spells_not spells_shr spells_rotr spells_add

section \<open>The compression function\<close>

lemma prod_cases8:
  obtains a b c d e f g h where "v = (a, b, c, d, e, f, g, h)"
  by (metis prod.collapse)

definition byte_bits :: "byte \<Rightarrow> bool list" where
  "byte_bits b = take 8 (int_bits (uint b))"

definition load_bits :: "bytes \<Rightarrow> bool list" where
  "load_bits p = byte_bits (p ! 3) @ byte_bits (p ! 2) @ byte_bits (p ! 1) @ byte_bits (p ! 0)"

lemma byte_bits_nth [simp]: "length (byte_bits b) = 8" "n < 8 \<Longrightarrow> byte_bits b ! n \<longleftrightarrow> bit b n"
  by (simp_all add: byte_bits_def int_bits_def bit_uint_iff)

lemma spells_load: "spells_word (load_bits p) (load_be32 p)"
  by (intro spells_wordI)
    (auto simp: load_bits_def load_be32_def nth_append bit_or_iff bit_push_bit_iff bit_ucast_iff dest: bit_imp_le_length)

definition schedule_step_bits :: "nat \<Rightarrow> bool list list \<Rightarrow> bool list list" where
  "schedule_step_bits i w =
     (let x = w ! (i - 15); y = w ! (i - 2);
          s0 = xor_bits (rotr_bits 7 x) (xor_bits (rotr_bits 18 x) (shr_bits 3 x));
          s1 = xor_bits (rotr_bits 17 y) (xor_bits (rotr_bits 19 y) (shr_bits 10 y))
      in w @ [add_bits False (add_bits False (add_bits False (w ! (i - 16)) s0) (w ! (i - 7))) s1])"

definition schedule_bits :: "bytes \<Rightarrow> bool list list" where
  "schedule_bits block =
     fold schedule_step_bits [16..<64] (map (\<lambda>i. load_bits (drop (i * 4) block)) [0..<16])"

lemma schedule_step_spells:
  assumes "list_all2 spells_word bs w" "16 \<le> i" "length w = i"
  shows "list_all2 spells_word (schedule_step_bits i bs) (Sha256_schedule_step i w)"
proof -
  have nth: "spells_word (bs ! (i - k)) (w ! (i - k))" if "0 < k" "k \<le> 16" for k
    using assms that by (intro list_all2_nthD2 [OF assms(1)]) simp
  show ?thesis
    unfolding schedule_step_bits_def Sha256_schedule_step_def Let_def
    by (intro list_all2_appendI assms(1)) (simp add: spells_ops nth)
qed

lemma schedule_spells: "list_all2 spells_word (schedule_bits block) (Sha256_schedule block)"
proof -
  let ?bs = "map (\<lambda>i. load_bits (drop (i * 4) block)) [0..<16]" and ?w = "map (\<lambda>i. load_be32 (drop (i * 4) block)) [0..<16]"
  have "list_all2 spells_word (fold schedule_step_bits [16..<16 + n] ?bs) (fold Sha256_schedule_step [16..<16 + n] ?w) \<and>
      length (fold Sha256_schedule_step [16..<16 + n] ?w) = 16 + n" for n
  proof (induction n)
    case 0
    show ?case by (simp add: list_all2_conv_all_nth spells_load)
  next
    case (Suc n)
    have next_index: "[16..<16 + Suc n] = [16..<16 + n] @ [16 + n]"
      by (simp only: add_Suc_right upt_Suc_append le_add1)
    have "length (Sha256_schedule_step i w) = Suc (length w)" for i w
      by (simp add: Sha256_schedule_step_def Let_def)
    then show ?case
      using Suc schedule_step_spells [of _ _ "16 + n"] unfolding next_index fold_append by simp
  qed
  from this [of 48] show ?thesis
    by (simp add: schedule_bits_def Sha256_schedule_def)
qed

type_synonym bit_vars = "bool list \<times> bool list \<times> bool list \<times> bool list \<times> bool list \<times> bool list \<times> bool list \<times> bool list"

definition round_bits :: "bool list \<times> bool list \<Rightarrow> bit_vars \<Rightarrow> bit_vars" where
  "round_bits = (\<lambda>(k, wi) (a, b, c, d, e, f, g, h).
     let s1 = xor_bits (rotr_bits 6 e) (xor_bits (rotr_bits 11 e) (rotr_bits 25 e));
         ch = xor_bits (and_bits e f) (and_bits (map Not e) g);
         temp1 = add_bits False (add_bits False (add_bits False (add_bits False h s1) ch) k) wi;
         s0 = xor_bits (rotr_bits 2 a) (xor_bits (rotr_bits 13 a) (rotr_bits 22 a));
         maj = xor_bits (and_bits a b) (xor_bits (and_bits a c) (and_bits b c));
         temp2 = add_bits False s0 maj
     in (add_bits False temp1 temp2, a, b, c, add_bits False d temp1, e, f, g))"

definition spells_vars :: "bit_vars \<Rightarrow> sha_vars \<Rightarrow> bool" where
  "spells_vars = rel_prod spells_word (rel_prod spells_word (rel_prod spells_word (rel_prod spells_word
     (rel_prod spells_word (rel_prod spells_word (rel_prod spells_word spells_word))))))"

lemma round_spells:
  "spells_word k k' \<Longrightarrow> spells_word wi wi' \<Longrightarrow> spells_vars v v' \<Longrightarrow> spells_vars (round_bits (k, wi) v) (Sha256_round (k', wi') v')"
  by (cases v rule: prod_cases8; cases v' rule: prod_cases8) (simp add: spells_vars_def round_bits_def Sha256_round_def Let_def spells_ops)

lemma rounds_spell:
  "list_all2 spells_word ks ks' \<Longrightarrow> list_all2 spells_word ws ws' \<Longrightarrow> spells_vars v v' \<Longrightarrow>
    spells_vars (fold round_bits (zip ks ws) v) (fold Sha256_round (zip ks' ws') v')"
proof (induction ks ks' arbitrary: ws ws' v v' rule: list_all2_induct)
  case (Cons k ks k' ks')
  then show ?case
    by (cases ws; cases ws') (auto simp: round_spells)
qed simp

definition compress_bits :: "bool list list \<Rightarrow> bytes \<Rightarrow> bool list list" where
  "compress_bits st block =
     (case fold round_bits (zip (map bits_of kRoundConstants) (schedule_bits block))
         (st ! 0, st ! 1, st ! 2, st ! 3, st ! 4, st ! 5, st ! 6, st ! 7) of
        (a, b, c, d, e, f, g, h) \<Rightarrow> map2 (add_bits False) st [a, b, c, d, e, f, g, h])"

lemma compress_spells:
  assumes "length st = 8"
  shows "Sha256_compress st block = map word_of (compress_bits (map bits_of st) block)"
proof -
  obtain a b c d e f g h where st: "st = [a, b, c, d, e, f, g, h]"
    using assms by (auto simp: numeral_eq_Suc length_Suc_conv)
  let ?v = "(bits_of a, bits_of b, bits_of c, bits_of d, bits_of e, bits_of f, bits_of g, bits_of h)"
  have "list_all2 spells_word (map bits_of kRoundConstants) kRoundConstants"
    by (simp add: list_all2_conv_all_nth spells_bits_of)
  moreover have "spells_vars ?v (a, b, c, d, e, f, g, h)"
    by (simp add: spells_vars_def spells_bits_of)
  ultimately have "spells_vars (fold round_bits (zip (map bits_of kRoundConstants) (schedule_bits block)) ?v)
      (fold Sha256_round (zip kRoundConstants (Sha256_schedule block)) (a, b, c, d, e, f, g, h))"
    using rounds_spell schedule_spells by blast
  moreover have "word_of (add_bits False (bits_of x) bs) = x + w" if "spells_word bs w" for x bs w
    using spells_add [OF spells_bits_of that] by (simp add: spells_word_def)
  ultimately show ?thesis
    by (simp add: st Sha256_compress_def compress_bits_def spells_vars_def split: prod.splits) auto
qed

lemma Sha256_compress_code [code]:
  "Sha256_compress st block =
    (if length st = 8 then map word_of (compress_bits (map bits_of st) block)
     else case fold Sha256_round (zip kRoundConstants (Sha256_schedule block)) (Sha256_vars st) of
        (a, b, c, d, e, f, g, h) \<Rightarrow> map2 (+) st [a, b, c, d, e, f, g, h])"
  using compress_spells [of st block] by (simp add: Sha256_compress_def)


end
