(* ===== verification/SMF_Codec.thy ===== *)
theory SMF_Codec
  imports SMF_Digest
begin

text \<open>
  \<^verbatim>\<open>include/smf/codec.hpp\<close> and \<^verbatim>\<open>src/codec.cpp\<close>: the canonical binary encoding used by
  the wire protocol, the durable stores and every digest binding.

  An encoder operation is the list of bytes it appends to \<^verbatim>\<open>buffer_\<close>; a sequence of calls is
  their concatenation.  The only mutable member of \<^verbatim>\<open>CanonicalDecoder\<close> is \<^verbatim>\<open>offset_\<close>, so a
  decoder operation takes the constant part (input, limits, \<^verbatim>\<open>over_limit_\<close>) and an offset,
  and returns a status or the value with the new offset.  \<open>bind_dec\<close>, \<open>lift_dec\<close> and
  \<open>check_dec\<close> are the early returns of the source.

  The contract of a canonical codec is the locale \<open>canonical_codec\<close>: the decoder succeeds
  exactly on the encodings of well-formed values.  From that one law the locale derives the
  round trip, injectivity, unambiguous concatenation, rejection of truncated input and
  rejection of trailing bytes; every message and record format of the library interprets it.
\<close>

record decode_limits =
  max_blob_bytes :: nat
  max_text_bytes :: nat
  max_input_bytes :: nat

definition DecodeLimits_default :: decode_limits where
  "DecodeLimits_default =
     \<lparr>max_blob_bytes = 2 ^ 20, max_text_bytes = 64 * 2 ^ 10, max_input_bytes = 8 * 2 ^ 20\<rparr>"

section \<open>The encoder\<close>

definition store_le :: "u64 \<Rightarrow> nat \<Rightarrow> bytes" where
  "store_le value width = map (\<lambda>i. ucast (drop_bit (8 * i) value AND 0xFF)) [0..<width]"

definition enc_u8 :: "u8 \<Rightarrow> bytes" where
  "enc_u8 value = [value]"

definition enc_boolean :: "bool \<Rightarrow> bytes" where
  "enc_boolean value = [if value then 1 else 0]"

definition enc_u16 :: "u16 \<Rightarrow> bytes" where
  "enc_u16 value = store_le (ucast value) 2"

definition enc_u32 :: "u32 \<Rightarrow> bytes" where
  "enc_u32 value = store_le (ucast value) 4"

definition enc_u64 :: "u64 \<Rightarrow> bytes" where
  "enc_u64 value = store_le value 8"

text \<open>An \<^verbatim>\<open>std::int64_t\<close> is kept as the 64-bit word of its two's complement; \<open>sint\<close> reads it.\<close>

definition enc_i64 :: "u64 \<Rightarrow> bytes" where
  "enc_i64 value = store_le value 8"

definition enc_blob :: "bytes \<Rightarrow> bytes" where
  "enc_blob value = store_le (word_of_nat (length value)) 8 @ value"

definition enc_text :: "string \<Rightarrow> bytes" where
  "enc_text value = store_le (word_of_nat (length value)) 8 @ as_bytes value"

definition enc_digest :: "digest \<Rightarrow> bytes" where
  "enc_digest value = Digest_view value"

section \<open>The decoder\<close>

record decoder =
  dec_input :: bytes
  dec_limits :: decode_limits
  dec_over_limit :: bool

type_synonym 'a decode = "decoder \<Rightarrow> nat \<Rightarrow> ('a \<times> nat) result"

definition CanonicalDecoder_make :: "bytes \<Rightarrow> decode_limits \<Rightarrow> decoder" where
  "CanonicalDecoder_make input limits =
     \<lparr>dec_input = input, dec_limits = limits, dec_over_limit = length input > max_input_bytes limits\<rparr>"

definition return_dec :: "'a \<Rightarrow> 'a decode" where
  "return_dec v = (\<lambda>d offset. Inr (v, offset))"

definition bind_dec :: "'a decode \<Rightarrow> ('a \<Rightarrow> 'b decode) \<Rightarrow> 'b decode" where
  "bind_dec p f = (\<lambda>d offset. case p d offset of Inl s \<Rightarrow> Inl s | Inr (v, offset) \<Rightarrow> f v d offset)"

definition fail_dec :: "reason_code \<Rightarrow> string \<Rightarrow> 'a decode" where
  "fail_dec code message = (\<lambda>d offset. Inl (Status code message))"

definition lift_dec :: "'a result \<Rightarrow> 'a decode" where
  "lift_dec r = (\<lambda>d offset. case r of Inl s \<Rightarrow> Inl s | Inr v \<Rightarrow> Inr (v, offset))"

definition check_dec :: "status \<Rightarrow> 'a decode \<Rightarrow> 'a decode" where
  "check_dec s p = (\<lambda>d offset. if \<not> Status_ok s then Inl s else p d offset)"

definition load_le :: "bytes \<Rightarrow> nat \<Rightarrow> u64" where
  "load_le data width = fold (\<lambda>i value. value OR push_bit (8 * i) (ucast (data ! i))) [0..<width] 0"

definition bounds_failure :: "decoder \<Rightarrow> string \<Rightarrow> status" where
  "bounds_failure d what =
    (if dec_over_limit d
     then Status PROTOCOL_BOUNDS_EXCEEDED ''decoded buffer exceeds the configured input limit''
     else Status PROTOCOL_TRUNCATED what)"

definition remaining :: "decoder \<Rightarrow> nat \<Rightarrow> nat" where
  "remaining d offset = length (dec_input d) - offset"

definition at_end :: "decoder \<Rightarrow> nat \<Rightarrow> bool" where
  "at_end d offset \<longleftrightarrow> offset = length (dec_input d)"

definition dec_u8 :: "u8 decode" where
  "dec_u8 d offset =
    (if dec_over_limit d then Inl (bounds_failure d ''u8 read past the end of the buffer'')
     else if remaining d offset < 1 then Inl (bounds_failure d ''u8 read past the end of the buffer'')
     else Inr (dec_input d ! offset, offset + 1))"

definition dec_boolean :: "bool decode" where
  "dec_boolean = bind_dec dec_u8 (\<lambda>raw.
     if raw > 1 then fail_dec PROTOCOL_CANONICAL_VIOLATION
       ''boolean must be encoded as exactly 0x00 or 0x01''
     else return_dec (raw = 1))"

definition dec_u16 :: "u16 decode" where
  "dec_u16 d offset =
    (if dec_over_limit d then Inl (bounds_failure d ''u16 read past the end of the buffer'')
     else if remaining d offset < 2 then Inl (bounds_failure d ''u16 read past the end of the buffer'')
     else Inr (ucast (load_le (drop offset (dec_input d)) 2), offset + 2))"

definition dec_u32 :: "u32 decode" where
  "dec_u32 d offset =
    (if dec_over_limit d then Inl (bounds_failure d ''u32 read past the end of the buffer'')
     else if remaining d offset < 4 then Inl (bounds_failure d ''u32 read past the end of the buffer'')
     else Inr (ucast (load_le (drop offset (dec_input d)) 4), offset + 4))"

definition dec_u64 :: "u64 decode" where
  "dec_u64 d offset =
    (if dec_over_limit d then Inl (bounds_failure d ''u64 read past the end of the buffer'')
     else if remaining d offset < 8 then Inl (bounds_failure d ''u64 read past the end of the buffer'')
     else Inr (load_le (drop offset (dec_input d)) 8, offset + 8))"

definition dec_i64 :: "u64 decode" where
  "dec_i64 = dec_u64"

definition dec_blob :: "nat \<Rightarrow> bytes decode" where
  "dec_blob max_bytes = bind_dec dec_u64 (\<lambda>declared d offset.
     let len = unat declared;
         allowed = (if max_bytes < max_blob_bytes (dec_limits d) then max_bytes
                    else max_blob_bytes (dec_limits d))
     in if len > allowed
        then err PROTOCOL_BOUNDS_EXCEEDED ''declared blob length exceeds the permitted maximum''
        else if len > remaining d offset
        then err PROTOCOL_TRUNCATED ''declared blob length exceeds the remaining input''
        else Inr (take len (drop offset (dec_input d)), offset + len))"

definition dec_text :: "nat \<Rightarrow> string decode" where
  "dec_text max_bytes = (\<lambda>d offset.
     bind_dec
       (dec_blob (if max_bytes < max_text_bytes (dec_limits d) then max_bytes
                  else max_text_bytes (dec_limits d)))
       (\<lambda>raw. if \<not> is_valid_utf8 raw then fail_dec INVALID_UTF8 ''text field is not valid UTF-8''
              else return_dec (as_string_view raw))
       d offset)"

definition dec_digest :: "digest decode" where
  "dec_digest d offset =
    (if dec_over_limit d then Inl (bounds_failure d ''digest read past the end of the buffer'')
     else if remaining d offset < 32 then err PROTOCOL_TRUNCATED ''digest requires 32 bytes''
     else case Digest_from_bytes (take 32 (drop offset (dec_input d))) of
       Inl s \<Rightarrow> Inl s
     | Inr v \<Rightarrow> Inr (v, offset + 32))"

definition dec_count :: "nat \<Rightarrow> nat decode" where
  "dec_count max_count = bind_dec dec_u32 (\<lambda>raw.
     if unat raw > max_count
     then fail_dec PROTOCOL_BOUNDS_EXCEEDED ''declared collection count exceeds the maximum''
     else return_dec (unat raw))"

definition require_end :: "decoder \<Rightarrow> nat \<Rightarrow> status" where
  "require_end d offset =
    (if dec_over_limit d
     then Status PROTOCOL_BOUNDS_EXCEEDED ''decoded buffer exceeds the configured input limit''
     else if \<not> at_end d offset
     then Status PROTOCOL_TRAILING_GARBAGE ''message carried unconsumed trailing bytes''
     else Status_success)"

definition canonical_digest :: "bytes \<Rightarrow> digest" where
  "canonical_digest encoder = sha256 encoder"

definition canonical_mac :: "bytes \<Rightarrow> bytes \<Rightarrow> digest" where
  "canonical_mac key encoder = hmac_sha256 key encoder"

text \<open>The loop of every collection decoder: \<open>n\<close> elements, one after the other.\<close>

fun repeat_dec :: "nat \<Rightarrow> 'a decode \<Rightarrow> 'a list decode" where
  "repeat_dec 0 p = return_dec []"
| "repeat_dec (Suc n) p =
     bind_dec p (\<lambda>x. bind_dec (repeat_dec n p) (\<lambda>xs. return_dec (x # xs)))"

text \<open>The idiom for an enumeration on the wire: read a byte, refuse anything above the last
  enumerator, cast.  \<open>enumerators\<close> lists the enumerators in the order of their values.\<close>

definition dec_enum :: "'e list \<Rightarrow> reason_code \<Rightarrow> string \<Rightarrow> 'e decode" where
  "dec_enum enumerators code message = bind_dec dec_u8 (\<lambda>raw.
     if unat raw > length enumerators - 1 then fail_dec code message else return_dec (enumerators ! unat raw))"

text \<open>The callers' idiom: decode a value from the start of the input and require its end.\<close>

definition decode_whole :: "'a decode \<Rightarrow> decoder \<Rightarrow> 'a result" where
  "decode_whole p d =
    (case p d 0 of
       Inl s \<Rightarrow> Inl s
     | Inr (v, offset) \<Rightarrow> check_status (require_end d offset) (Inr v))"

section \<open>Vocabulary of the codec laws\<close>

text \<open>\<open>spells d i j bs\<close>: the input of \<open>d\<close> between offsets \<open>i\<close> and \<open>j\<close> is \<open>bs\<close>.
  \<open>dec_ok d\<close>: the input is within its own limit, and the blob and text limits are at least
  one MiB and 4096 bytes, which every decoder the program constructs satisfies and which is
  at least the bound each field declares for itself.\<close>

definition spells :: "decoder \<Rightarrow> nat \<Rightarrow> nat \<Rightarrow> bytes \<Rightarrow> bool" where
  "spells d i j bs \<longleftrightarrow> j = i + length bs \<and> take (length bs) (drop i (dec_input d)) = bs"

definition reads :: "decoder \<Rightarrow> nat \<Rightarrow> bytes \<Rightarrow> bool" where
  "reads d i bs \<longleftrightarrow> take (length bs) (drop i (dec_input d)) = bs"

definition dec_ok :: "decoder \<Rightarrow> bool" where
  "dec_ok d \<longleftrightarrow> \<not> dec_over_limit d \<and> 2 ^ 20 \<le> max_blob_bytes (dec_limits d) \<and>
     4096 \<le> max_text_bytes (dec_limits d)"

section \<open>Little-endian integers\<close>

lemma length_store_le [simp]: "length (store_le v n) = n"
  by (simp add: store_le_def)

lemma bit_load_le:
  "bit (load_le data n) k \<longleftrightarrow> k < 64 \<and> k < 8 * n \<and> bit (data ! (k div 8)) (k mod 8)"
proof (induction n)
  case 0
  then show ?case by (simp add: load_le_def)
next
  case (Suc n)
  have step: "load_le data (Suc n) = load_le data n OR push_bit (8 * n) (ucast (data ! n))"
    by (simp add: load_le_def)
  show ?case
  proof (cases "8 * n \<le> k \<and> k < 8 * Suc n")
    case True
    then have "k div 8 = n" "k mod 8 = k - 8 * n"
      by (simp_all add: div_nat_eqI) (metis \<open>8 * n \<le> k \<and> k < 8 * Suc n\<close> nat_mod_offset mult.commute)
    then show ?thesis
      using True by (auto simp: step Suc.IH bit_simps)
  next
    case False
    then show ?thesis
      using bit_imp_le_length [of "data ! n" "k - 8 * n"]
      by (auto simp: step Suc.IH bit_simps)
  qed
qed

lemma bit_255: "bit (255 :: 'a::len word) m \<longleftrightarrow> m < 8 \<and> m < LENGTH('a)"
proof -
  have "(255 :: 'a word) = mask 8"
    by (simp add: mask_eq_exp_minus_1)
  then show ?thesis
    by (auto simp only: bit_mask_iff possible_bit_word)
qed

lemma bit_low_byte: "bit (ucast (x AND 0xFF) :: byte) m \<longleftrightarrow> m < 8 \<and> bit x m" for x :: u64
  unfolding bit_ucast_iff bit_and_iff bit_255 by auto

lemma bit_store_le_nth:
  "i < n \<Longrightarrow> bit (store_le v n ! i) m \<longleftrightarrow> m < 8 \<and> bit v (8 * i + m)"
  by (simp add: store_le_def bit_low_byte bit_drop_bit_eq o_def del: unsigned_and_eq)

lemma load_le_store_le: "load_le (store_le v n @ rest) n = take_bit (8 * n) v"
proof (rule bit_eqI)
  fix k
  show "bit (load_le (store_le v n @ rest) n) k = bit (take_bit (8 * n) v) k"
  proof (cases "k < 8 * n")
    case True
    then have "k div 8 < n" by (simp add: div_less_iff_less_mult mult.commute)
    then show ?thesis
      using True by (auto simp: bit_load_le bit_store_le_nth nth_append bit_take_bit_iff
          dest: bit_imp_le_length)
  qed (simp add: bit_load_le bit_take_bit_iff)
qed

lemma store_le_load_le:
  assumes "n \<le> length bs" "n \<le> 8"
  shows "store_le (load_le bs n) n = take n bs"
proof (rule nth_equalityI)
  fix i assume "i < length (store_le (load_le bs n) n)"
  then have i: "i < n" by simp
  show "store_le (load_le bs n) n ! i = take n bs ! i"
  proof (rule bit_eqI)
    fix m
    have "8 * i + m < 64 \<and> 8 * i + m < 8 * n" if "m < 8"
      using that i assms(2) by linarith
    then show "bit (store_le (load_le bs n) n ! i) m = bit (take n bs ! i) m"
      using i by (cases "m < 8") (auto simp: bit_store_le_nth bit_load_le dest: bit_imp_le_length)
  qed
qed (use assms in simp)

lemma spells_store_le:
  assumes "n \<le> 8"
  shows "spells d i j (store_le w n) \<and> take_bit (8 * n) w = w \<longleftrightarrow>
    n \<le> remaining d i \<and> j = i + n \<and> w = load_le (drop i (dec_input d)) n"
proof
  assume "spells d i j (store_le w n) \<and> take_bit (8 * n) w = w"
  then have *: "j = i + n" "take n (drop i (dec_input d)) = store_le w n" "take_bit (8 * n) w = w"
    by (simp_all add: spells_def)
  then have "n \<le> length (drop i (dec_input d))"
    by (metis length_store_le length_take min.cobounded1)
  moreover have "load_le (drop i (dec_input d)) n = w"
    using load_le_store_le [of w n "drop n (drop i (dec_input d))"] *
    by (metis append_take_drop_id)
  ultimately show "n \<le> remaining d i \<and> j = i + n \<and> w = load_le (drop i (dec_input d)) n"
    using * by (simp add: remaining_def)
next
  assume "n \<le> remaining d i \<and> j = i + n \<and> w = load_le (drop i (dec_input d)) n"
  moreover have "take_bit (8 * n) (load_le x n) = load_le x n" for x
    by (rule bit_eqI) (auto simp: bit_load_le bit_take_bit_iff)
  ultimately show "spells d i j (store_le w n) \<and> take_bit (8 * n) w = w"
    using assms by (simp add: spells_def remaining_def store_le_load_le)
qed

section \<open>Complete characterisation of the primitive decoders\<close>

lemma spells_Nil [simp]: "spells d i j [] \<longleftrightarrow> j = i"
  by (auto simp: spells_def)

lemma take_append_iff:
  "take (length a + length b) xs = a @ b \<longleftrightarrow>
     take (length a) xs = a \<and> take (length b) (drop (length a) xs) = b"
proof
  assume *: "take (length a + length b) xs = a @ b"
  have "take (length a) xs = take (length a) (take (length a + length b) xs)"
    by (simp add: min_def)
  also have "\<dots> = a"
    unfolding * by simp
  finally show "take (length a) xs = a \<and> take (length b) (drop (length a) xs) = b"
    using * by (simp add: take_add)
next
  assume *: "take (length a) xs = a \<and> take (length b) (drop (length a) xs) = b"
  then show "take (length a + length b) xs = a @ b"
    by (simp add: take_add)
qed

lemma spells_append: "spells d i j (a @ b) \<longleftrightarrow> (\<exists>k. spells d i k a \<and> spells d k j b)"
  unfolding spells_def
  by (auto simp: take_append_iff add.commute add.left_commute)

text \<open>The end offset is determined, which makes the laws usable as rewrite rules: a chain of
  reads becomes a conjunction without intermediate offsets.\<close>

lemma spells_reads: "spells d i j bs \<longleftrightarrow> j = i + length bs \<and> reads d i bs"
  by (simp add: spells_def reads_def)

lemma reads_Nil [simp]: "reads d i []"
  by (simp add: reads_def)

lemma reads_append: "reads d i (a @ b) \<longleftrightarrow> reads d i a \<and> reads d (i + length a) b"
  by (simp add: reads_def take_append_iff add.commute)

lemma bind_dec_Inr_iff:
  "bind_dec p f d i = Inr r \<longleftrightarrow> (\<exists>v k. p d i = Inr (v, k) \<and> f v d k = Inr r)"
  by (auto simp: bind_dec_def split: sum.splits)

lemma return_dec_Inr_iff [simp]: "return_dec v d i = Inr (w, j) \<longleftrightarrow> w = v \<and> j = i"
  by (auto simp: return_dec_def)

lemma fail_dec_Inr [simp]: "fail_dec c m d i \<noteq> Inr r"
  by (simp add: fail_dec_def)

lemma lift_dec_Inr_iff [simp]: "lift_dec r d i = Inr (v, j) \<longleftrightarrow> r = Inr v \<and> j = i"
  by (auto simp: lift_dec_def split: sum.splits)

lemma check_dec_Inr_iff [simp]:
  "check_dec s p d i = Inr r \<longleftrightarrow> Status_ok s \<and> p d i = Inr r"
  by (simp add: check_dec_def)

lemma if_dec_Inr_iff [simp]:
  "(if c then fail_dec code m else p) d i = Inr r \<longleftrightarrow> \<not> c \<and> p d i = Inr r"
  by simp

lemmas codec_simps = spells_reads reads_append add.assoc Let_def

lemmas dec_Inr_iffs = bind_dec_Inr_iff return_dec_Inr_iff lift_dec_Inr_iff check_dec_Inr_iff
  if_dec_Inr_iff fail_dec_Inr

lemma dec_u8_iff [codec_iff]:
  assumes "dec_ok d"
  shows "dec_u8 d i = Inr (v, j) \<longleftrightarrow> spells d i j (enc_u8 v)"
proof -
  have "take (Suc 0) (drop i (dec_input d)) = [v] \<longleftrightarrow> i < length (dec_input d) \<and> dec_input d ! i = v"
    by (cases "i < length (dec_input d)") (simp_all add: take_Suc_conv_app_nth hd_drop_conv_nth take_Suc)
  then show ?thesis
    using assms by (auto simp: dec_u8_def dec_ok_def enc_u8_def spells_def remaining_def)
qed

lemma dec_boolean_iff [codec_iff]:
  assumes "dec_ok d"
  shows "dec_boolean d i = Inr (v, j) \<longleftrightarrow> spells d i j (enc_boolean v)"
proof -
  have small: "\<not> 1 < (w :: u8) \<longleftrightarrow> w = 0 \<or> w = 1" for w
  proof -
    have "\<not> 1 < w \<longleftrightarrow> unat w = 0 \<or> unat w = 1"
      by (simp add: word_less_nat_alt) linarith
    then show ?thesis
      by (simp add: word_unat_eq_iff)
  qed
  show ?thesis
    using assms
    by (auto simp: dec_boolean_def dec_Inr_iffs dec_u8_iff enc_boolean_def enc_u8_def small
        split: if_splits)
qed

lemma dec_u64_iff [codec_iff]:
  "dec_ok d \<Longrightarrow> dec_u64 d i = Inr (v, j) \<longleftrightarrow> spells d i j (enc_u64 v)"
  using spells_store_le [of 8 d i j v] take_bit_length_eq [of v]
  by (auto simp: dec_u64_def dec_ok_def enc_u64_def)

lemma dec_i64_iff [codec_iff]:
  "dec_ok d \<Longrightarrow> dec_i64 d i = Inr (v, j) \<longleftrightarrow> spells d i j (enc_i64 v)"
  using dec_u64_iff by (simp add: dec_i64_def enc_i64_def enc_u64_def)

lemma ucast_narrow_iff:
  fixes v :: "'b::len word" and w :: u64
  assumes "LENGTH('b) \<le> 64" "take_bit LENGTH('b) w = w"
  shows "v = ucast w \<longleftrightarrow> (ucast v :: u64) = w"
proof
  assume "v = ucast w"
  moreover have "(ucast (ucast w :: 'b word) :: u64) = take_bit LENGTH('b) w"
    by (rule bit_eqI) (auto simp: bit_simps)
  ultimately show "(ucast v :: u64) = w"
    using assms(2) by simp
next
  assume "(ucast v :: u64) = w"
  then show "v = ucast w"
    using assms(1) by (auto simp: bit_eq_iff bit_simps)
qed

lemma take_bit_ucast_narrow:
  "take_bit LENGTH('b) (ucast (v :: 'b::len word) :: u64) = ucast v"
  by (rule bit_eqI) (auto simp: bit_simps dest: bit_imp_le_length)

lemma take_bit_load_le: "take_bit (8 * n) (load_le x n) = load_le x n"
  by (rule bit_eqI) (auto simp: bit_load_le bit_take_bit_iff)

lemma dec_u32_iff [codec_iff]:
  "dec_ok d \<Longrightarrow> dec_u32 d i = Inr (v, j) \<longleftrightarrow> spells d i j (enc_u32 v)"
  using spells_store_le [of 4 d i j "ucast v"] take_bit_ucast_narrow [of v]
    ucast_narrow_iff [of "load_le (drop i (dec_input d)) 4" v]
    take_bit_load_le [of 4 "drop i (dec_input d)"]
  by (auto simp: dec_u32_def dec_ok_def enc_u32_def)

lemma dec_u16_iff [codec_iff]:
  "dec_ok d \<Longrightarrow> dec_u16 d i = Inr (v, j) \<longleftrightarrow> spells d i j (enc_u16 v)"
  using spells_store_le [of 2 d i j "ucast v"] take_bit_ucast_narrow [of v]
    ucast_narrow_iff [of "load_le (drop i (dec_input d)) 2" v]
    take_bit_load_le [of 2 "drop i (dec_input d)"]
  by (auto simp: dec_u16_def dec_ok_def enc_u16_def)

lemma dec_digest_iff [codec_iff]:
  assumes "dec_ok d"
  shows "dec_digest d i = Inr (v, j) \<longleftrightarrow> spells d i j (enc_digest v)"
proof -
  have "take 32 (drop i (dec_input d)) = Digest_view v \<Longrightarrow> 32 \<le> remaining d i"
    by (metis length_Digest_view length_drop length_take min.cobounded1 remaining_def)
  then show ?thesis
    using assms
    by (auto simp: dec_digest_def dec_ok_def enc_digest_def spells_def split: sum.splits)
qed

lemma enc_blob_eq: "enc_blob b = enc_u64 (word_of_nat (length b)) @ b"
  by (simp add: enc_blob_def enc_u64_def)

lemma enc_text_eq: "enc_text s = enc_blob (as_bytes s)"
  by (simp add: enc_blob_def enc_text_def)

lemma unat_word_of_nat_u64: "n < 18446744073709551616 \<Longrightarrow> unat (word_of_nat n :: u64) = n"
  by (simp add: unat_of_nat take_bit_nat_eq_self)

lemma unat_word_of_nat_u32: "n < 4294967296 \<Longrightarrow> unat (word_of_nat n :: u32) = n"
  by (simp add: unat_of_nat take_bit_nat_eq_self)

lemma spells_length_le: "spells d i j b \<Longrightarrow> length b \<le> remaining d i"
  unfolding spells_def remaining_def
  by (metis length_drop length_take min.cobounded1)

lemma dec_blob_exact:
  assumes "dec_ok d"
  shows "dec_blob m d i = Inr (b, j) \<longleftrightarrow>
    spells d i j (enc_blob b) \<and> length b \<le> m \<and> length b \<le> max_blob_bytes (dec_limits d) \<and>
    length b < 2 ^ 64"
proof
  assume "dec_blob m d i = Inr (b, j)"
  then obtain v k where *: "spells d i k (enc_u64 v)" "unat v \<le> m" "unat v \<le> max_blob_bytes (dec_limits d)"
      "unat v \<le> remaining d k" "b = take (unat v) (drop k (dec_input d))" "j = k + unat v"
    using assms by (auto simp: dec_blob_def bind_dec_Inr_iff dec_u64_iff Let_def split: if_splits)
  then have len: "length b = unat v"
    by (simp add: remaining_def)
  then have "spells d k j b"
    using * by (simp add: spells_def)
  then show "spells d i j (enc_blob b) \<and> length b \<le> m \<and> length b \<le> max_blob_bytes (dec_limits d) \<and>
    length b < 2 ^ 64"
    using * len by (auto simp: enc_blob_eq spells_append)
next
  assume *: "spells d i j (enc_blob b) \<and> length b \<le> m \<and> length b \<le> max_blob_bytes (dec_limits d) \<and>
    length b < 2 ^ 64"
  then obtain k where k: "spells d i k (enc_u64 (word_of_nat (length b)))" "spells d k j b"
    by (auto simp: enc_blob_eq spells_append)
  have "unat (word_of_nat (length b) :: u64) = length b"
    using * by (simp add: unat_word_of_nat_u64)
  then show "dec_blob m d i = Inr (b, j)"
    using assms k * spells_length_le [OF k(2)] dec_u64_iff [OF assms, of i "word_of_nat (length b)" k]
    by (simp add: dec_blob_def bind_dec_def Let_def spells_def)
qed

lemma dec_blob_iff [codec_iff]:
  assumes "dec_ok d" "m \<le> 2 ^ 20"
  shows "dec_blob m d i = Inr (b, j) \<longleftrightarrow> length b \<le> m \<and> spells d i j (enc_blob b)"
  using assms by (auto simp: dec_blob_exact dec_ok_def)

lemma dec_text_iff [codec_iff]:
  assumes "dec_ok d" "m \<le> 4096"
  shows "dec_text m d i = Inr (s, j) \<longleftrightarrow>
    length s \<le> m \<and> is_valid_utf8 (as_bytes s) \<and> spells d i j (enc_text s)"
proof -
  have "m \<le> max_text_bytes (dec_limits d)" "m \<le> 2 ^ 20"
    using assms by (simp_all add: dec_ok_def)
  then have "dec_text m d i =
      bind_dec (dec_blob m) (\<lambda>raw. if \<not> is_valid_utf8 raw then fail_dec INVALID_UTF8 ''text field is not valid UTF-8''
              else return_dec (as_string_view raw)) d i"
    by (auto simp: dec_text_def not_less)
  then show ?thesis
    using dec_blob_iff [OF assms(1) \<open>m \<le> 2 ^ 20\<close>]
    by (auto simp: dec_Inr_iffs enc_text_eq) (metis as_bytes_as_string_view as_string_view_as_bytes as_string_view_simps(1))
qed

lemma dec_count_iff [codec_iff]:
  assumes "dec_ok d"
  shows "dec_count m d i = Inr (n, j) \<longleftrightarrow>
    n \<le> m \<and> n < 2 ^ 32 \<and> spells d i j (enc_u32 (word_of_nat n))"
  using assms
  by (auto simp: dec_count_def dec_Inr_iffs dec_u32_iff unat_word_of_nat_u32 not_less
      intro!: exI [of _ "word_of_nat n"])

section \<open>The contract of a canonical codec\<close>

lemma spells_at:
  "dec_input d = pre @ bs @ post \<Longrightarrow> spells d (length pre) (length pre + length bs) bs"
  by (simp add: spells_def)

lemma spells_whole: "spells d 0 (length (dec_input d)) bs \<longleftrightarrow> dec_input d = bs"
  by (auto simp: spells_def)

text \<open>A decoder over any input whose limits admit it.\<close>

definition generous_decoder :: "bytes \<Rightarrow> decoder" where
  "generous_decoder bs = CanonicalDecoder_make bs
     \<lparr>max_blob_bytes = 2 ^ 20, max_text_bytes = 4096, max_input_bytes = length bs\<rparr>"

lemma generous_decoder_simps [simp]:
  "dec_ok (generous_decoder bs)" "dec_input (generous_decoder bs) = bs"
  by (simp_all add: generous_decoder_def CanonicalDecoder_make_def dec_ok_def)

lemma decode_whole_Inr_iff:
  "decode_whole p d = Inr x \<longleftrightarrow> (\<exists>j. p d 0 = Inr (x, j) \<and> Status_ok (require_end d j))"
  by (auto simp: decode_whole_def split: sum.splits)

locale canonical_codec =
  fixes enc :: "'a \<Rightarrow> bytes"
    and dec :: "'a decode"
    and wf :: "'a \<Rightarrow> bool"
  assumes dec_iff: "dec_ok d \<Longrightarrow> dec d i = Inr (x, j) \<longleftrightarrow> wf x \<and> spells d i j (enc x)"
begin

lemma round_trip:
  "wf x \<Longrightarrow> dec_ok d \<Longrightarrow> dec_input d = pre @ enc x @ post \<Longrightarrow>
   dec d (length pre) = Inr (x, length pre + length (enc x))"
  by (simp add: dec_iff spells_at)

lemma decoded_wf: "dec_ok d \<Longrightarrow> dec d i = Inr (x, j) \<Longrightarrow> wf x"
  by (simp add: dec_iff)

lemma unambiguous:
  assumes "wf x" "wf y" "enc x @ r = enc y @ s"
  shows "x = y \<and> r = s"
proof -
  let ?d = "generous_decoder (enc x @ r)"
  have "dec ?d 0 = Inr (x, length (enc x))"
    using round_trip [of x ?d "[]" r] assms by simp
  moreover have "dec ?d 0 = Inr (y, length (enc y))"
    using round_trip [of y ?d "[]" s] assms by simp
  ultimately show ?thesis
    using assms(3) by simp
qed

lemma encoding_inject: "wf x \<Longrightarrow> wf y \<Longrightarrow> enc x = enc y \<Longrightarrow> x = y"
  using unambiguous [of x y "[]" "[]"] by simp

lemma truncated_rejected:
  assumes "wf x" "dec_ok d" "dec_input d = take n (enc x)" "n < length (enc x)"
  shows "\<exists>s. dec d 0 = Inl s"
proof (cases "dec d 0")
  case (Inr r)
  then obtain y j where "dec d 0 = Inr (y, j)" by (cases r) auto
  then have y: "wf y" "spells d 0 j (enc y)"
    using assms(2) by (simp_all add: dec_iff)
  then have "take (length (enc y)) (take n (enc x)) = enc y"
    using assms(3) by (simp add: spells_def)
  then have "enc y @ drop (length (enc y)) (enc x) = enc x @ []"
    using assms(4) by (metis append_Nil2 append_take_drop_id length_take less_imp_le min.absorb2
        min.cobounded1 min_def take_take)
  then have "x = y"
    using unambiguous [OF y(1) assms(1)] by blast
  then have "length (enc x) \<le> n"
    using \<open>take (length (enc y)) (take n (enc x)) = enc y\<close>
    by (metis length_take min.cobounded1 min.cobounded2 le_trans)
  then show ?thesis
    using assms(4) by simp
qed simp

lemma decode_whole_iff:
  assumes "dec_ok d"
  shows "decode_whole dec d = Inr x \<longleftrightarrow> wf x \<and> dec_input d = enc x"
proof -
  have "decode_whole dec d = Inr x \<longleftrightarrow> wf x \<and> (\<exists>j. spells d 0 j (enc x) \<and> at_end d j)"
    using assms by (auto simp: decode_whole_Inr_iff dec_iff require_end_def dec_ok_def)
  then show ?thesis
    by (auto simp: at_end_def spells_whole)
qed

lemma trailing_rejected:
  assumes "wf x" "dec_ok d" "dec_input d = enc x @ post" "post \<noteq> []"
  shows "decode_whole dec d =
    err PROTOCOL_TRAILING_GARBAGE ''message carried unconsumed trailing bytes''"
  using round_trip [OF assms(1,2), of "[]" post] assms
  by (simp add: decode_whole_def require_end_def at_end_def dec_ok_def check_status_def)

lemma repeat_dec_iff:
  assumes "dec_ok d"
  shows "repeat_dec n dec d i = Inr (xs, j) \<longleftrightarrow>
    length xs = n \<and> list_all wf xs \<and> spells d i j (concat (map enc xs))"
  using assms
proof (induction n arbitrary: i xs)
  case 0
  then show ?case by auto
next
  case (Suc n)
  then show ?case
    by (cases xs) (auto simp: dec_Inr_iffs dec_iff spells_append)
qed

end

interpretation u8_codec: canonical_codec enc_u8 dec_u8 "\<lambda>_. True"
  by unfold_locales (simp add: codec_iff)

interpretation boolean_codec: canonical_codec enc_boolean dec_boolean "\<lambda>_. True"
  by unfold_locales (simp add: codec_iff)

interpretation u16_codec: canonical_codec enc_u16 dec_u16 "\<lambda>_. True"
  by unfold_locales (simp add: codec_iff)

interpretation u32_codec: canonical_codec enc_u32 dec_u32 "\<lambda>_. True"
  by unfold_locales (simp add: codec_iff)

interpretation u64_codec: canonical_codec enc_u64 dec_u64 "\<lambda>_. True"
  by unfold_locales (simp add: codec_iff)

interpretation i64_codec: canonical_codec enc_i64 dec_i64 "\<lambda>_. True"
  by unfold_locales (simp add: codec_iff)

interpretation digest_codec: canonical_codec enc_digest dec_digest "\<lambda>_. True"
  by unfold_locales (simp add: codec_iff)

interpretation text_codec: canonical_codec enc_text "dec_text 4096"
    "\<lambda>s. length s \<le> 4096 \<and> is_valid_utf8 (as_bytes s)"
  by unfold_locales (auto simp: codec_iff)

interpretation blob_codec: canonical_codec enc_blob "dec_blob 1048576" "\<lambda>b. length b \<le> 1048576"
  by unfold_locales (auto simp: codec_iff)

section \<open>Enumerations on the wire\<close>

text \<open>The values of an enumeration are the positions in the list of its enumerators, so the
  cast to and from the underlying byte are inverse to each other.\<close>

locale wire_enum =
  fixes code_of :: "'e \<Rightarrow> u8"
    and enumerators :: "'e list"
  assumes code_positions: "map code_of enumerators = map word_of_nat [0..<length enumerators]"
    and complete: "k \<in> set enumerators"
    and width: "length enumerators \<le> 256"
begin

lemma value_nth: "n < length enumerators \<Longrightarrow> code_of (enumerators ! n) = word_of_nat n"
  using arg_cong [OF code_positions, of "\<lambda>xs. xs ! n"] by simp

lemma cast_value: "enumerators ! unat (code_of k) = k" and value_in_range: "unat (code_of k) < length enumerators"
proof -
  obtain n where n: "n < length enumerators" "k = enumerators ! n"
    using complete [of k] by (auto simp: in_set_conv_nth)
  then have "unat (code_of k) = n"
    using width by (simp add: value_nth unat_word_of_nat_byte)
  then show "enumerators ! unat (code_of k) = k" "unat (code_of k) < length enumerators"
    using n by simp_all
qed

lemma value_cast: "unat v < length enumerators \<Longrightarrow> code_of (enumerators ! unat v) = v"
  by (simp add: value_nth)

lemma value_inject: "code_of k = code_of l \<longleftrightarrow> k = l"
  using cast_value by metis

lemma dec_enum_iff:
  assumes "dec_ok d"
  shows "dec_enum enumerators c m d i = Inr (k, j) \<longleftrightarrow> spells d i j (enc_u8 (code_of k))"
proof -
  have "0 < length enumerators"
    using complete [of undefined] by (cases enumerators) auto
  then have "\<not> unat (v :: u8) > length enumerators - 1 \<longleftrightarrow> unat v < length enumerators" for v
    by linarith
  then show ?thesis
    using assms cast_value [of k] value_in_range [of k]
    by (auto simp: dec_enum_def dec_Inr_iffs dec_u8_iff value_cast
        intro!: exI [of _ "code_of k"])
qed

end

end
