(* ===== verification/SMF_Ids.thy ===== *)
theory SMF_Ids
  imports SMF_Codec
begin

text \<open>
  \<^verbatim>\<open>include/smf/ids.hpp\<close>, \<^verbatim>\<open>src/ids.cpp\<close> and the structural bounds of
  \<^verbatim>\<open>include/smf/limits.hpp\<close>: fixed-width identifiers, generations, endpoint names,
  incarnations, state kinds, the derived identities, and the identifier issuer.

  The template \<^verbatim>\<open>FixedId<Tag, N>\<close> is polymorphic in the width of the word that spells its
  \<^verbatim>\<open>N\<close> bytes.  A \<^verbatim>\<open>Generation\<close> is its 64-bit value.  An \<^verbatim>\<open>EndpointId\<close> is its string; the
  class invariant (empty, or accepted by \<^verbatim>\<open>parse\<close>) is \<open>endpoint_wf\<close>.  The entropy source is an
  interface of the program: the locale \<open>entropy_source\<close>, interpreted on the deterministic
  source; operating-system entropy is not modelled.
\<close>

section \<open>Structural bounds\<close>

abbreviation (input) "kMaxObjectNameBytes \<equiv> (4096 :: nat)"
abbreviation (input) "kMaxEndpointIdBytes \<equiv> (63 :: nat)"
abbreviation (input) "kMaxTextBytes \<equiv> (4096 :: nat)"
abbreviation (input) "kMaxDetailBytes \<equiv> (1024 :: nat)"
abbreviation (input) "kMaxEvidenceAttributes \<equiv> (64 :: nat)"
abbreviation (input) "kMaxEndpoints \<equiv> (4096 :: u32)"
abbreviation (input) "kMaxLinks \<equiv> (16384 :: u32)"
abbreviation (input) "kMaxProvenanceEvents \<equiv> (256 :: nat)"
abbreviation (input) "kMaxChunksPerObject \<equiv> (16777216 :: u64)"
abbreviation (input) "kMaxAttemptsHardLimit \<equiv> (64 :: u32)"
abbreviation (input) "kMinChunkBytes \<equiv> (1024 :: u64)"
abbreviation (input) "kMaxChunkBytes \<equiv> (67108864 :: u64)"
abbreviation (input) "kMaxObjectBytes \<equiv> (1099511627776 :: u64)"
abbreviation (input) "kMaxFramePayloadBytes \<equiv> (1048576 :: nat)"

definition kPeerContract :: string where
  "kPeerContract = ''smf.peer.v1''"

section \<open>Fixed-width identifiers\<close>

type_synonym state_object_id = "256 word"
type_synonym movement_id = "128 word"
type_synonym attempt_id = "128 word"
type_synonym boot_id = "128 word"
type_synonym session_id = "128 word"
type_synonym nonce = "256 word"

definition FixedId_view :: "'a::len word \<Rightarrow> bytes" where
  "FixedId_view v = be_bytes (LENGTH('a) div 8) v"

definition FixedId_from_bytes :: "bytes \<Rightarrow> 'a::len word result" where
  "FixedId_from_bytes raw =
    (if length raw \<noteq> LENGTH('a) div 8 then err INVALID_ID ''identifier has the wrong width''
     else Inr (be_word raw))"

definition FixedId_from_hex :: "string \<Rightarrow> 'a::len word result" where
  "FixedId_from_hex text =
    (case from_hex text of
       None \<Rightarrow> err INVALID_ID ''identifier is not valid hexadecimal of the expected width''
     | Some raw \<Rightarrow>
         if length raw \<noteq> LENGTH('a) div 8
         then err INVALID_ID ''identifier is not valid hexadecimal of the expected width''
         else Inr (be_word raw))"

definition FixedId_hex :: "'a::len word \<Rightarrow> string" where
  "FixedId_hex v = to_hex (FixedId_view v)"

definition FixedId_from_digest :: "digest \<Rightarrow> 'a::len word" where
  "FixedId_from_digest d =
    (let width = (if LENGTH('a) div 8 < 32 then LENGTH('a) div 8 else 32)
     in be_word (take width (Digest_view d) @ replicate (LENGTH('a) div 8 - width) 0))"

definition FixedId_is_zero :: "'a::len word \<Rightarrow> bool" where
  "FixedId_is_zero v \<longleftrightarrow> fold (\<lambda>b accumulator. accumulator OR b) (FixedId_view v) (0 :: byte) = 0"

definition FixedId_encode :: "'a::len word \<Rightarrow> bytes" where
  "FixedId_encode v = enc_blob (FixedId_view v)"

definition FixedId_decode :: "'a::len word decode" where
  "FixedId_decode = bind_dec (dec_blob (LENGTH('a) div 8)) (\<lambda>raw.
     if length raw \<noteq> LENGTH('a) div 8
     then fail_dec PROTOCOL_CANONICAL_VIOLATION ''identifier field has the wrong width''
     else lift_dec (FixedId_from_bytes raw))"

section \<open>Generations\<close>

type_synonym generation = u64

definition Generation_from_value :: "u64 \<Rightarrow> generation result" where
  "Generation_from_value v =
    (if v = 0 then err INVALID_GENERATION ''generation zero is not a valid generation'' else Inr v)"

definition Generation_is_set :: "generation \<Rightarrow> bool" where
  "Generation_is_set g \<longleftrightarrow> g \<noteq> 0"

definition Generation_next :: "generation \<Rightarrow> generation result" where
  "Generation_next g =
    (if g = - 1 then err SIZE_OVERFLOW ''generation space exhausted'' else Inr (g + 1))"

section \<open>Endpoint names\<close>

type_synonym endpoint_id = string

definition is_name_byte :: "char \<Rightarrow> bool" where
  "is_name_byte c \<longleftrightarrow>
    (let v = (of_char c :: nat);
         digit = of_char (CHR ''0'') \<le> v \<and> v \<le> of_char (CHR ''9'');
         lower = of_char (CHR ''a'') \<le> v \<and> v \<le> of_char (CHR ''z'');
         upper = of_char (CHR ''A'') \<le> v \<and> v \<le> of_char (CHR ''Z'')
     in digit \<or> lower \<or> upper \<or> c = CHR ''.'' \<or> c = CHR ''_'' \<or> c = CHR ''-'')"

definition EndpointId_parse :: "string \<Rightarrow> endpoint_id result" where
  "EndpointId_parse text =
    (if text = [] then err INVALID_ID ''endpoint id must not be empty''
     else if length text > kMaxEndpointIdBytes
     then err INVALID_ID ''endpoint id exceeds the maximum length''
     else if hd text = CHR ''-'' \<or> hd text = CHR ''.''
     then err INVALID_ID (''endpoint id must not start with '-' or '.'' @ [CHR 0x27])
     else if \<not> list_all is_name_byte text
     then err INVALID_ID
       (''endpoint id may only contain ASCII letters, digits, '.', '_', and '-'' @ [CHR 0x27])
     else Inr text)"

definition EndpointId_is_valid :: "string \<Rightarrow> bool" where
  "EndpointId_is_valid text =
    (if text = [] \<or> length text > kMaxEndpointIdBytes then False
     else if hd text = CHR ''-'' \<or> hd text = CHR ''.'' then False
     else list_all is_name_byte text)"

definition endpoint_wf :: "endpoint_id \<Rightarrow> bool" where
  "endpoint_wf e \<longleftrightarrow> e = [] \<or> EndpointId_is_valid e"

section \<open>Incarnations\<close>

record incarnation =
  inc_endpoint :: endpoint_id
  inc_boot :: boot_id
  inc_epoch :: generation

definition Incarnation_make :: "endpoint_id \<Rightarrow> boot_id \<Rightarrow> generation \<Rightarrow> incarnation result" where
  "Incarnation_make endpoint boot epoch =
    (if \<not> Generation_is_set epoch
     then err INVALID_GENERATION ''incarnation epoch must be non-zero''
     else if endpoint = [] then err INVALID_ID ''incarnation endpoint must not be empty''
     else if FixedId_is_zero boot then err INVALID_ID ''incarnation boot id must not be zero''
     else Inr \<lparr>inc_endpoint = endpoint, inc_boot = boot, inc_epoch = epoch\<rparr>)"

definition Incarnation_is_set :: "incarnation \<Rightarrow> bool" where
  "Incarnation_is_set i \<longleftrightarrow>
     inc_endpoint i \<noteq> [] \<and> \<not> FixedId_is_zero (inc_boot i) \<and> Generation_is_set (inc_epoch i)"

definition Incarnation_default :: incarnation where
  "Incarnation_default = \<lparr>inc_endpoint = [], inc_boot = 0, inc_epoch = 0\<rparr>"

section \<open>State kinds\<close>

datatype state_kind =
    SK_UNKNOWN | SK_MODEL | SK_ADAPTER | SK_TENSOR | SK_KV | SK_PREFIX | SK_CHECKPOINT
  | SK_ARTIFACT | SK_GENERIC_BLOB

definition state_kinds :: "state_kind list" where
  "state_kinds = [SK_UNKNOWN, SK_MODEL, SK_ADAPTER, SK_TENSOR, SK_KV, SK_PREFIX, SK_CHECKPOINT,
     SK_ARTIFACT, SK_GENERIC_BLOB]"

fun StateKind_value :: "state_kind \<Rightarrow> u8" where
  "StateKind_value SK_UNKNOWN = 0"
| "StateKind_value SK_MODEL = 1"
| "StateKind_value SK_ADAPTER = 2"
| "StateKind_value SK_TENSOR = 3"
| "StateKind_value SK_KV = 4"
| "StateKind_value SK_PREFIX = 5"
| "StateKind_value SK_CHECKPOINT = 6"
| "StateKind_value SK_ARTIFACT = 7"
| "StateKind_value SK_GENERIC_BLOB = 8"

fun StateKind_to_string :: "state_kind \<Rightarrow> string" where
  "StateKind_to_string SK_UNKNOWN = ''UNKNOWN''"
| "StateKind_to_string SK_MODEL = ''MODEL''"
| "StateKind_to_string SK_ADAPTER = ''ADAPTER''"
| "StateKind_to_string SK_TENSOR = ''TENSOR''"
| "StateKind_to_string SK_KV = ''KV''"
| "StateKind_to_string SK_PREFIX = ''PREFIX''"
| "StateKind_to_string SK_CHECKPOINT = ''CHECKPOINT''"
| "StateKind_to_string SK_ARTIFACT = ''ARTIFACT''"
| "StateKind_to_string SK_GENERIC_BLOB = ''GENERIC_BLOB''"

fun state_kind_description :: "state_kind \<Rightarrow> string" where
  "state_kind_description SK_UNKNOWN =
     ''kind is not known to this runtime; the bytes are moved as an opaque blob''"
| "state_kind_description SK_MODEL = ''model weights''"
| "state_kind_description SK_ADAPTER = ''adapter or delta weights''"
| "state_kind_description SK_TENSOR = ''individual tensor payload''"
| "state_kind_description SK_KV = ''attention key/value cache''"
| "state_kind_description SK_PREFIX = ''shared prompt prefix cache''"
| "state_kind_description SK_CHECKPOINT = ''training or serving checkpoint''"
| "state_kind_description SK_ARTIFACT = ''derived artifact''"
| "state_kind_description SK_GENERIC_BLOB = ''generic opaque blob''"

definition state_kind_from_string :: "string \<Rightarrow> state_kind option" where
  "state_kind_from_string text = find (\<lambda>kind. text = StateKind_to_string kind) state_kinds"

definition is_known_state_kind :: "state_kind \<Rightarrow> bool" where
  "is_known_state_kind kind \<longleftrightarrow> kind \<noteq> SK_UNKNOWN"

section \<open>Derived identities\<close>

definition state_object_id_encoding :: "state_kind \<Rightarrow> string \<Rightarrow> bytes" where
  "state_object_id_encoding kind name =
     enc_text ''SMF-STATE-OBJECT-ID-v1'' @ enc_u8 (StateKind_value kind) @ enc_text name"

definition derive_state_object_id :: "state_kind \<Rightarrow> string \<Rightarrow> state_object_id result" where
  "derive_state_object_id kind name =
    (if name = [] then err INVALID_ARGUMENT ''state object name must not be empty''
     else if length name > 4096
     then err INVALID_ARGUMENT ''state object name exceeds the maximum length''
     else if \<not> is_valid_utf8 (as_bytes name)
     then err INVALID_UTF8 ''state object name is not valid UTF-8''
     else Inr (FixedId_from_digest (canonical_digest (state_object_id_encoding kind name))))"

definition chunk_encoding ::
    "state_object_id \<Rightarrow> generation \<Rightarrow> u32 \<Rightarrow> u64 \<Rightarrow> u64 \<Rightarrow> bytes \<Rightarrow> bytes" where
  "chunk_encoding object_id generation chunk_index chunk_offset chunk_length payload =
     enc_text ''SMF-CHUNK-v1'' @ enc_digest object_id @ enc_u64 generation @ enc_u32 chunk_index @
     enc_u64 chunk_offset @ enc_u64 chunk_length @ enc_blob payload"

definition compute_chunk_digest ::
    "state_object_id \<Rightarrow> generation \<Rightarrow> u32 \<Rightarrow> u64 \<Rightarrow> u64 \<Rightarrow> bytes \<Rightarrow> digest" where
  "compute_chunk_digest object_id generation chunk_index chunk_offset chunk_length payload =
     canonical_digest
       (chunk_encoding object_id generation chunk_index chunk_offset chunk_length payload)"

section \<open>Entropy and the identifier issuer\<close>

definition splitmix64 :: "u64 \<Rightarrow> u64 \<times> u64" where
  "splitmix64 st =
    (let st = st + 0x9E3779B97F4A7C15;
         z = st;
         z = (z XOR drop_bit 30 z) * 0xBF58476D1CE4E5B9;
         z = (z XOR drop_bit 27 z) * 0x94D049BB133111EB
     in (z XOR drop_bit 31 z, st))"

record deterministic_entropy =
  de_state :: u64
  de_counter :: u64

definition DeterministicEntropySource_next_u64 ::
    "deterministic_entropy \<Rightarrow> u64 \<times> deterministic_entropy" where
  "DeterministicEntropySource_next_u64 e =
    (case splitmix64 (de_state e) of
       (word, st) \<Rightarrow> (word, \<lparr>de_state = st, de_counter = de_counter e + 1\<rparr>))"

function DeterministicEntropySource_fill ::
    "deterministic_entropy \<Rightarrow> nat \<Rightarrow> bytes \<times> deterministic_entropy" where
  "DeterministicEntropySource_fill e n =
    (if n = 0 then ([], e)
     else case DeterministicEntropySource_next_u64 e of
       (word, e) \<Rightarrow>
         (case DeterministicEntropySource_fill e (n - min 8 n) of
            (rest, e) \<Rightarrow>
              (map (\<lambda>i. ucast (drop_bit (8 * i) word AND 0xFF)) [0..<min 8 n] @ rest, e)))"
  by pat_completeness auto
termination
  by (relation "measure snd") auto

declare DeterministicEntropySource_fill.simps [simp del]

text \<open>Every \<^verbatim>\<open>IdIssuer::new_*\<close> fills an array of the identifier's width.\<close>

definition IdIssuer_new :: "('e \<Rightarrow> nat \<Rightarrow> bytes \<times> 'e) \<Rightarrow> 'e \<Rightarrow> 'a::len word \<times> 'e" where
  "IdIssuer_new fill e = (case fill e (LENGTH('a) div 8) of (raw, e) \<Rightarrow> (be_word raw, e))"

section \<open>Lemmas on identifiers\<close>

text \<open>The two widths the program uses.\<close>

lemma length_FixedId_view [simp]: "length (FixedId_view (v :: 'a::len word)) = LENGTH('a) div 8"
  by (simp add: FixedId_view_def)

lemma be_word_FixedId_view:
  "8 dvd LENGTH('a) \<Longrightarrow> be_word (FixedId_view v) = (v :: 'a::len word)"
  by (simp add: FixedId_view_def)

lemma FixedId_view_be_word:
  "length bs = LENGTH('a) div 8 \<Longrightarrow> FixedId_view (be_word bs :: 'a::len word) = bs"
  by (simp add: FixedId_view_def)

lemma FixedId_is_zero_iff:
  assumes "8 dvd LENGTH('a)"
  shows "FixedId_is_zero v \<longleftrightarrow> v = (0 :: 'a::len word)"
proof
  assume "FixedId_is_zero v"
  then have "set (FixedId_view v) \<subseteq> {0}"
    by (simp add: FixedId_is_zero_def fold_or_eq_0_iff)
  then have "FixedId_view v = replicate (LENGTH('a) div 8) 0"
    by (intro replicate_eqI) auto
  then show "v = 0"
    using be_word_FixedId_view [OF assms, of v] by simp
next
  assume "v = 0"
  then show "FixedId_is_zero v"
    unfolding FixedId_is_zero_def fold_or_eq_0_iff by (auto simp: FixedId_view_def be_bytes_0)
qed

lemma FixedId_is_zero_simps [simp]:
  "FixedId_is_zero v \<longleftrightarrow> v = 0" "FixedId_is_zero w \<longleftrightarrow> w = 0"
  for v :: "128 word" and w :: "256 word"
  by (simp_all add: FixedId_is_zero_iff)

lemma FixedId_from_hex_hex:
  "8 dvd LENGTH('a) \<Longrightarrow> FixedId_from_hex (FixedId_hex v) = Inr (v :: 'a::len word)"
  by (simp add: FixedId_from_hex_def FixedId_hex_def be_word_FixedId_view)

lemma FixedId_from_digest_256 [simp]: "FixedId_from_digest d = d" for d :: digest
  by (simp add: FixedId_from_digest_def)

lemma FixedId_decode_iff:
  assumes "dec_ok d" "8 dvd LENGTH('a)" "LENGTH('a) div 8 \<le> 2 ^ 20"
  shows "FixedId_decode d i = Inr (v, j) \<longleftrightarrow> spells d i j (FixedId_encode (v :: 'a::len word))"
proof -
  have "FixedId_from_bytes raw = Inr v \<longleftrightarrow> raw = FixedId_view v" for raw
    using assms(2) by (auto simp: FixedId_from_bytes_def FixedId_view_be_word be_word_FixedId_view)
  then show ?thesis
    using assms by (auto simp: FixedId_decode_def dec_Inr_iffs dec_blob_iff FixedId_encode_def)
qed

lemma FixedId_decode_iffs [codec_iff]:
  assumes "dec_ok d"
  shows "FixedId_decode d i = Inr (v, j) \<longleftrightarrow> spells d i j (FixedId_encode (v :: 128 word))"
    "FixedId_decode d i = Inr (w, j) \<longleftrightarrow> spells d i j (FixedId_encode (w :: 256 word))"
  using assms by (simp_all add: FixedId_decode_iff)

interpretation id16_codec: canonical_codec "FixedId_encode :: 128 word \<Rightarrow> bytes" FixedId_decode "\<lambda>_. True"
  by unfold_locales (simp add: codec_iff)

interpretation id32_codec: canonical_codec "FixedId_encode :: 256 word \<Rightarrow> bytes" FixedId_decode "\<lambda>_. True"
  by unfold_locales (simp add: codec_iff)

section \<open>Lemmas on generations\<close>

lemma Generation_is_set_simp [simp]: "Generation_is_set g \<longleftrightarrow> g \<noteq> 0"
  by (simp add: Generation_is_set_def)

lemma Generation_next_Inr_iff:
  "Generation_next g = Inr g' \<longleftrightarrow> unat g' = unat g + 1"
proof (cases "g = - 1")
  case True
  have "unat g' \<noteq> 18446744073709551616"
    using unat_u64_less [of g'] by linarith
  then show ?thesis
    using True by (simp add: Generation_next_def)
next
  case False
  then have "unat g \<noteq> 18446744073709551615"
    using unat_u64_max by (metis word_unat_eq_iff)
  then have "unat g + 1 < 18446744073709551616"
    using unat_u64_less [of g] by linarith
  then have "unat (g + 1) = unat g + 1"
    by (simp add: unat_word_ariths)
  then show ?thesis
    using False by (auto simp: Generation_next_def word_unat_eq_iff)
qed

lemma Generation_next_less: "Generation_next g = Inr g' \<Longrightarrow> g < g'"
  by (simp add: Generation_next_Inr_iff word_less_nat_alt)

lemma Generation_next_set: "Generation_next g = Inr g' \<Longrightarrow> g' \<noteq> 0"
  by (auto simp: Generation_next_Inr_iff)

section \<open>Lemmas on endpoint names\<close>

lemma Incarnation_make_Inr_iff:
  "Incarnation_make e b g = Inr i \<longleftrightarrow>
     Incarnation_is_set i \<and> inc_endpoint i = e \<and> inc_boot i = b \<and> inc_epoch i = g"
  by (cases i) (auto simp: Incarnation_make_def Incarnation_is_set_def)

lemma EndpointId_parse_Inr_iff [simp]:
  "EndpointId_parse s = Inr e \<longleftrightarrow> e = s \<and> EndpointId_is_valid s"
  by (auto simp: EndpointId_parse_def EndpointId_is_valid_def)

lemma is_name_byte_ascii: "is_name_byte c \<Longrightarrow> byte_of_char c < 0x80"
proof -
  assume "is_name_byte c"
  then have "(of_char c :: nat) < 128"
    by (auto simp: is_name_byte_def Let_def)
  then show ?thesis
    by (simp add: byte_of_char_def word_less_nat_alt unat_word_of_nat_byte)
qed

lemma EndpointId_is_valid_utf8: "EndpointId_is_valid e \<Longrightarrow> is_valid_utf8 (as_bytes e)"
  by (rule is_valid_utf8_ascii)
    (auto simp: EndpointId_is_valid_def list_all_iff as_bytes_def is_name_byte_ascii split: if_splits)

lemma EndpointId_is_valid_length: "EndpointId_is_valid e \<Longrightarrow> e \<noteq> [] \<and> length e \<le> 63"
  by (auto simp: EndpointId_is_valid_def split: if_splits)

lemma endpoint_wf_text:
  "endpoint_wf e \<Longrightarrow> length e \<le> 63" "endpoint_wf e \<Longrightarrow> is_valid_utf8 (as_bytes e)"
  using EndpointId_is_valid_length EndpointId_is_valid_utf8 by (auto simp: endpoint_wf_def)

section \<open>Lemmas on state kinds\<close>

interpretation state_kind_enum: wire_enum StateKind_value state_kinds
proof
  show "map StateKind_value state_kinds = map word_of_nat [0..<length state_kinds]"
    by (simp add: state_kinds_def upt_rec)
  show "k \<in> set state_kinds" for k
    by (cases k) (simp_all add: state_kinds_def)
qed (simp add: state_kinds_def)

lemmas dec_state_kind_iff [codec_iff] = state_kind_enum.dec_enum_iff

lemma state_kind_from_string_to_string:
  "state_kind_from_string (StateKind_to_string k) = Some k"
  by (cases k) (simp_all add: state_kind_from_string_def state_kinds_def)

lemma StateKind_to_string_from_string:
  "state_kind_from_string s = Some k \<Longrightarrow> StateKind_to_string k = s"
  by (auto simp: state_kind_from_string_def find_Some_iff)

section \<open>Lemmas on derived identities\<close>

lemmas enc_append_inject =
  u8_codec.unambiguous [OF TrueI TrueI] u16_codec.unambiguous [OF TrueI TrueI]
  u32_codec.unambiguous [OF TrueI TrueI] u64_codec.unambiguous [OF TrueI TrueI]
  i64_codec.unambiguous [OF TrueI TrueI] digest_codec.unambiguous [OF TrueI TrueI]
  boolean_codec.unambiguous [OF TrueI TrueI]
  id16_codec.unambiguous [OF TrueI TrueI] id32_codec.unambiguous [OF TrueI TrueI]

lemma enc_blob_inject:
  assumes "length a < 2 ^ 64" "length b < 2 ^ 64" "enc_blob a = enc_blob b"
  shows "a = b"
  using assms u64_codec.unambiguous [where x = "word_of_nat (length a)" and y = "word_of_nat (length b)" and r = a and s = b]
  by (simp add: enc_blob_eq)

lemma chunk_encoding_inject:
  assumes "length p < 2 ^ 64" "length p' < 2 ^ 64"
    "chunk_encoding oid g i off len p = chunk_encoding oid' g' i' off' len' p'"
  shows "oid = oid' \<and> g = g' \<and> i = i' \<and> off = off' \<and> len = len' \<and> p = p'"
  using assms enc_blob_inject [of p p']
  by (auto simp: chunk_encoding_def dest!: enc_append_inject)

lemma state_object_id_encoding_inject:
  assumes "length n < 2 ^ 64" "length n' < 2 ^ 64"
    "state_object_id_encoding k n = state_object_id_encoding k' n'"
  shows "k = k' \<and> n = n'"
  using assms enc_blob_inject [of "as_bytes n" "as_bytes n'"]
  by (auto simp: state_object_id_encoding_def enc_text_eq state_kind_enum.value_inject
      dest!: enc_append_inject)

lemma derive_state_object_id_Inr_iff:
  "derive_state_object_id k n = Inr oid \<longleftrightarrow>
     n \<noteq> [] \<and> length n \<le> 4096 \<and> is_valid_utf8 (as_bytes n) \<and>
     oid = sha256 (state_object_id_encoding k n)"
  by (auto simp: derive_state_object_id_def canonical_digest_def)

section \<open>The issuer over any entropy source\<close>

text \<open>The contract of \<^verbatim>\<open>EntropySource::fill\<close>: the whole span is written.\<close>

locale entropy_source =
  fixes fill :: "'e \<Rightarrow> nat \<Rightarrow> bytes \<times> 'e"
  assumes fill_length: "length (fst (fill e n)) = n"
begin

lemma issued_view:
  "FixedId_view (fst (IdIssuer_new fill e :: 'a::len word \<times> 'e)) = fst (fill e (LENGTH('a) div 8))"
  using fill_length [of e "LENGTH('a) div 8"]
  by (auto simp: IdIssuer_new_def FixedId_view_be_word split: prod.splits)

end

interpretation deterministic: entropy_source DeterministicEntropySource_fill
proof
  show "length (fst (DeterministicEntropySource_fill e n)) = n" for e n
  proof (induction e n rule: DeterministicEntropySource_fill.induct)
    case (1 e n)
    then show ?case
      by (subst DeterministicEntropySource_fill.simps) (force split: prod.splits)
  qed
qed

end
