(* ===== verification/SMF_State_Object.thy ===== *)
theory SMF_State_Object
  imports SMF_Ids
begin

text \<open>
  \<^verbatim>\<open>src/state_object.cpp\<close>: the descriptor of an immutable state object version, its
  validation, its segmentation into chunks and its canonical encoding.

  The lemmas show that decoding accepts exactly the encodings of valid descriptors, and that
  the chunks of a valid descriptor tile the object: every offset and length is defined, they
  fit without overflow, and the slices they select concatenate to the content.
\<close>

record state_object =
  so_object_id :: state_object_id
  so_kind :: state_kind
  so_name :: string
  so_generation :: generation
  so_content_digest :: digest
  so_total_bytes :: u64
  so_chunk_bytes :: u64
  so_chunk_count :: u32
  so_created_unix_millis :: u64
  so_producer :: string
  so_repeatable :: bool

definition ceil_div :: "u64 \<Rightarrow> u64 \<Rightarrow> u64" where
  "ceil_div numerator denominator = (numerator + denominator - 1) div denominator"

definition StateObjectDescriptor_validate :: "state_object \<Rightarrow> status" where
  "StateObjectDescriptor_validate d =
    (if FixedId_is_zero (so_object_id d)
     then Status INVALID_ID ''state object id must not be zero''
     else if so_name d = [] then Status INVALID_ARGUMENT ''state object name must not be empty''
     else if length (so_name d) > kMaxObjectNameBytes
     then Status INVALID_ARGUMENT ''state object name exceeds the maximum length''
     else if \<not> is_valid_utf8 (as_bytes (so_name d))
     then Status INVALID_UTF8 ''state object name is not valid UTF-8''
     else if length (so_name d) > kMaxTextBytes
     then Status INVALID_ARGUMENT ''state object name exceeds the text bound''
     else (case derive_state_object_id (so_kind d) (so_name d) of
       Inl s \<Rightarrow> s
     | Inr derived \<Rightarrow>
         if derived \<noteq> so_object_id d
         then Status INVALID_ID
           ''state object id does not match the canonical identity of its kind and name''
         else if \<not> Generation_is_set (so_generation d)
         then Status INVALID_GENERATION ''state generation must be non-zero''
         else if Digest_is_zero (so_content_digest d)
         then Status INVALID_DIGEST ''content digest must not be zero''
         else if so_total_bytes d > kMaxObjectBytes
         then Status INVALID_SIZE ''state object exceeds the maximum supported size''
         else if so_chunk_bytes d < kMinChunkBytes \<or> so_chunk_bytes d > kMaxChunkBytes
         then Status INVALID_SIZE ''chunk size is outside the supported range''
         else if so_chunk_bytes d = 0 then Status INVALID_SIZE ''chunk size must not be zero''
         else
           (let expected_chunks =
              (if so_total_bytes d = 0 then 0 else ceil_div (so_total_bytes d) (so_chunk_bytes d))
            in if expected_chunks > kMaxChunksPerObject
               then Status INVALID_SIZE ''state object would require too many chunks''
               else if expected_chunks \<noteq> ucast (so_chunk_count d)
               then Status INVALID_SIZE
                 ''chunk count is inconsistent with the total size and chunk size''
               else if length (so_producer d) > kMaxTextBytes
               then Status INVALID_ARGUMENT ''producer string exceeds the text bound''
               else if so_producer d \<noteq> [] \<and> \<not> is_valid_utf8 (as_bytes (so_producer d))
               then Status INVALID_UTF8 ''producer string is not valid UTF-8''
               else Status_success)))"

text \<open>\<open>create\<close> divides by the chunk size before it validates it.  In C++ that division is
  undefined when the chunk size is zero and the object is not empty; \<open>None\<close> stands for it.\<close>

definition StateObjectDescriptor_create ::
    "state_kind \<Rightarrow> string \<Rightarrow> generation \<Rightarrow> digest \<Rightarrow> u64 \<Rightarrow> u64 \<Rightarrow> u64 \<Rightarrow> string \<Rightarrow>
     state_object result option" where
  "StateObjectDescriptor_create kind name generation content_digest total_bytes chunk_bytes
      created_unix_millis producer =
    (case derive_state_object_id kind name of
       Inl s \<Rightarrow> Some (Inl s)
     | Inr object_id \<Rightarrow>
         if total_bytes \<noteq> 0 \<and> chunk_bytes = 0 then None
         else
           (let descriptor =
              \<lparr>so_object_id = object_id, so_kind = kind, so_name = name,
               so_generation = generation, so_content_digest = content_digest,
               so_total_bytes = total_bytes, so_chunk_bytes = chunk_bytes,
               so_chunk_count =
                 (if total_bytes = 0 then 0 else ucast (ceil_div total_bytes chunk_bytes)),
               so_created_unix_millis = created_unix_millis, so_producer = producer,
               so_repeatable = True\<rparr>
            in Some (check_status (StateObjectDescriptor_validate descriptor) (Inr descriptor))))"

definition same_version :: "state_object \<Rightarrow> state_object \<Rightarrow> bool" where
  "same_version d other \<longleftrightarrow>
     so_object_id d = so_object_id other \<and> so_generation d = so_generation other \<and>
     so_content_digest d = so_content_digest other \<and> so_total_bytes d = so_total_bytes other \<and>
     so_chunk_bytes d = so_chunk_bytes other \<and> so_chunk_count d = so_chunk_count other"

definition same_object :: "state_object \<Rightarrow> state_object \<Rightarrow> bool" where
  "same_object d other \<longleftrightarrow> so_object_id d = so_object_id other"

definition chunk_offset :: "state_object \<Rightarrow> u32 \<Rightarrow> u64 result" where
  "chunk_offset d index =
    (if index \<ge> so_chunk_count d
     then err CHUNK_INDEX_OUT_OF_RANGE ''chunk index is outside the object''
     else case checked_mul (ucast index) (so_chunk_bytes d) of
       None \<Rightarrow> err SIZE_OVERFLOW ''chunk offset computation overflowed''
     | Some offset \<Rightarrow>
         if offset \<ge> so_total_bytes d
         then err CHUNK_INDEX_OUT_OF_RANGE ''chunk offset is beyond the object''
         else Inr offset)"

definition chunk_length :: "state_object \<Rightarrow> u32 \<Rightarrow> u64 result" where
  "chunk_length d index =
    bind_result (chunk_offset d index) (\<lambda>offset.
      let rest = so_total_bytes d - offset
      in Inr (if rest < so_chunk_bytes d then rest else so_chunk_bytes d))"

definition StateObjectDescriptor_encode :: "state_object \<Rightarrow> bytes" where
  "StateObjectDescriptor_encode d =
     enc_digest (so_object_id d) @
     enc_u8 (StateKind_value (so_kind d)) @
     enc_text (so_name d) @
     enc_u64 (so_generation d) @
     enc_digest (so_content_digest d) @
     enc_u64 (so_total_bytes d) @
     enc_u64 (so_chunk_bytes d) @
     enc_u32 (so_chunk_count d) @
     enc_i64 (so_created_unix_millis d) @
     enc_text (so_producer d) @
     enc_boolean (so_repeatable d)"

definition StateObjectDescriptor_decode :: "state_object decode" where
  "StateObjectDescriptor_decode =
    bind_dec dec_digest (\<lambda>object_id.
    bind_dec (dec_enum state_kinds INVALID_STATE_KIND ''state kind is not recognized'') (\<lambda>kind.
    bind_dec (dec_text kMaxObjectNameBytes) (\<lambda>name.
    bind_dec dec_u64 (\<lambda>generation.
    bind_dec dec_digest (\<lambda>content.
    bind_dec dec_u64 (\<lambda>total.
    bind_dec dec_u64 (\<lambda>chunk.
    bind_dec dec_u32 (\<lambda>count.
    bind_dec dec_i64 (\<lambda>created.
    bind_dec (dec_text kMaxTextBytes) (\<lambda>producer.
    bind_dec dec_boolean (\<lambda>repeatable.
      let descriptor =
        \<lparr>so_object_id = FixedId_from_digest object_id, so_kind = kind, so_name = name,
         so_generation = generation, so_content_digest = content, so_total_bytes = total,
         so_chunk_bytes = chunk, so_chunk_count = count, so_created_unix_millis = created,
         so_producer = producer, so_repeatable = repeatable\<rparr>
      in check_dec (StateObjectDescriptor_validate descriptor) (return_dec descriptor))))))))))))"

definition descriptor_digest :: "state_object \<Rightarrow> digest" where
  "descriptor_digest d = canonical_digest
     (enc_text ''SMF-STATE-OBJECT-DESCRIPTOR-v1'' @ StateObjectDescriptor_encode d)"

fun decimal :: "nat \<Rightarrow> string" where
  "decimal n =
    (if n < 10 then [char_of (n + 48)] else decimal (n div 10) @ [char_of (n mod 10 + 48)])"

declare decimal.simps [simp del]

definition StateObjectDescriptor_describe :: "state_object \<Rightarrow> string" where
  "StateObjectDescriptor_describe d =
     StateKind_to_string (so_kind d) @ '' '' @ so_name d @ ''@'' @
     decimal (unat (so_generation d)) @ '' '' @ decimal (unat (so_total_bytes d)) @ ''B/'' @
     decimal (unat (so_chunk_count d)) @ ''chunks/'' @ take 12 (Digest_hex (so_content_digest d))"

text \<open>The bytes of the content that chunk \<open>index\<close> carries.\<close>

definition chunk_slice :: "state_object \<Rightarrow> bytes \<Rightarrow> u32 \<Rightarrow> bytes" where
  "chunk_slice d content index =
    (case (chunk_offset d index, chunk_length d index) of
       (Inr offset, Inr len) \<Rightarrow> take (unat len) (drop (unat offset) content)
     | _ \<Rightarrow> [])"

section \<open>Valid descriptors\<close>

abbreviation descriptor_valid :: "state_object \<Rightarrow> bool" where
  "descriptor_valid d \<equiv> Status_ok (StateObjectDescriptor_validate d)"

lemma descriptor_valid_iff:
  "descriptor_valid d \<longleftrightarrow>
    so_object_id d \<noteq> 0 \<and> so_name d \<noteq> [] \<and> length (so_name d) \<le> 4096 \<and>
    is_valid_utf8 (as_bytes (so_name d)) \<and>
    so_object_id d = sha256 (state_object_id_encoding (so_kind d) (so_name d)) \<and>
    so_generation d \<noteq> 0 \<and> so_content_digest d \<noteq> 0 \<and> so_total_bytes d \<le> kMaxObjectBytes \<and>
    kMinChunkBytes \<le> so_chunk_bytes d \<and> so_chunk_bytes d \<le> kMaxChunkBytes \<and>
    ucast (so_chunk_count d) =
      (if so_total_bytes d = 0 then 0 else ceil_div (so_total_bytes d) (so_chunk_bytes d)) \<and>
    ucast (so_chunk_count d) \<le> kMaxChunksPerObject \<and>
    length (so_producer d) \<le> 4096 \<and> is_valid_utf8 (as_bytes (so_producer d))"
proof -
  have nz: "1024 \<le> c \<Longrightarrow> c \<noteq> 0" for c :: u64
    by auto
  show ?thesis
    unfolding StateObjectDescriptor_validate_def derive_state_object_id_def canonical_digest_def Let_def
    using nz [of "so_chunk_bytes d"] by (auto simp: not_less)
qed

lemma StateObjectDescriptor_decode_iff [codec_iff]:
  assumes "dec_ok c"
  shows "StateObjectDescriptor_decode c i = Inr (d, j) \<longleftrightarrow>
    descriptor_valid d \<and> spells c i j (StateObjectDescriptor_encode d)"
  using assms descriptor_valid_iff [of d]
  by (cases d)
    (auto simp: StateObjectDescriptor_decode_def StateObjectDescriptor_encode_def dec_Inr_iffs
      codec_iff codec_simps)

interpretation descriptor_codec: canonical_codec StateObjectDescriptor_encode
    StateObjectDescriptor_decode descriptor_valid
  by unfold_locales (rule StateObjectDescriptor_decode_iff)

section \<open>Segmentation\<close>

lemma unat_ucast_u64 [simp]: "unat (ucast w :: u64) = unat w" for w :: u32
  by (simp add: unsigned_ucast_eq take_bit_nat_eq_self less_trans [OF unat_u32_less])

lemma ceil_less_iff:
  assumes "0 < C"
  shows "i < (T + C - 1) div C \<longleftrightarrow> i * C < (T :: nat)"
proof -
  have "i < (T + C - 1) div C \<longleftrightarrow> Suc i \<le> (T + C - 1) div C"
    by auto
  also have "\<dots> \<longleftrightarrow> Suc i * C \<le> T + C - 1"
    using assms by (simp add: less_eq_div_iff_mult_less_eq)
  also have "\<dots> \<longleftrightarrow> i * C < T"
    using assms by auto
  finally show ?thesis .
qed

lemma descriptor_sizes:
  assumes "descriptor_valid d"
  shows "unat (so_total_bytes d) \<le> 1099511627776" "1024 \<le> unat (so_chunk_bytes d)"
    "unat (so_chunk_bytes d) \<le> 67108864"
  using assms unfolding descriptor_valid_iff by (simp_all add: word_le_nat_alt)

lemma descriptor_chunk_count:
  assumes "descriptor_valid d"
  shows "unat (so_chunk_count d) =
    (unat (so_total_bytes d) + unat (so_chunk_bytes d) - 1) div unat (so_chunk_bytes d)"
proof (cases "so_total_bytes d = 0")
  case True
  then have "(ucast (so_chunk_count d) :: u64) = 0"
    using assms by (simp add: descriptor_valid_iff)
  then have "unat (so_chunk_count d) = 0"
    by (metis unat_ucast_u64 unsigned_0)
  then show ?thesis
    using True descriptor_sizes [OF assms] by simp
next
  case False
  note sizes = descriptor_sizes [OF assms]
  have "unat (so_total_bytes d + so_chunk_bytes d) = unat (so_total_bytes d) + unat (so_chunk_bytes d)"
    using sizes by (simp add: unat_word_ariths)
  then have "unat (so_total_bytes d + so_chunk_bytes d - 1)
      = unat (so_total_bytes d) + unat (so_chunk_bytes d) - 1"
    using sizes by (subst unat_sub) (simp_all add: word_le_nat_alt)
  then have "unat (ceil_div (so_total_bytes d) (so_chunk_bytes d))
      = (unat (so_total_bytes d) + unat (so_chunk_bytes d) - 1) div unat (so_chunk_bytes d)"
    by (simp add: ceil_div_def unat_div)
  then show ?thesis
    using assms False unat_ucast_u64 [of "so_chunk_count d"]
    by (simp add: descriptor_valid_iff del: unat_ucast_u64)
qed

lemma chunk_index_iff:
  assumes "descriptor_valid d"
  shows "i < unat (so_chunk_count d) \<longleftrightarrow> i * unat (so_chunk_bytes d) < unat (so_total_bytes d)"
  unfolding descriptor_chunk_count [OF assms]
  using descriptor_sizes(2) [OF assms] by (intro ceil_less_iff) linarith

lemma chunk_offset_valid:
  assumes "descriptor_valid d" "index < so_chunk_count d"
  shows "\<exists>offset. chunk_offset d index = Inr offset \<and>
    unat offset = unat index * unat (so_chunk_bytes d) \<and> unat offset < unat (so_total_bytes d)"
proof -
  let ?o = "ucast index * so_chunk_bytes d"
  have lt: "unat index * unat (so_chunk_bytes d) < unat (so_total_bytes d)"
    using assms chunk_index_iff [OF assms(1)] by (simp add: word_less_nat_alt)
  then have "unat index * unat (so_chunk_bytes d) < 18446744073709551616"
    using descriptor_sizes(1) [OF assms(1)] by linarith
  then have o: "checked_mul (ucast index) (so_chunk_bytes d) = Some ?o"
      "unat ?o = unat index * unat (so_chunk_bytes d)"
    by (simp_all add: checked_mul_iff unat_word_ariths)
  then have "chunk_offset d index = Inr ?o"
    using lt assms(2) by (simp add: chunk_offset_def not_le [symmetric] word_le_nat_alt)
  then show ?thesis
    using o lt by simp
qed

lemma chunk_length_valid:
  assumes "descriptor_valid d" "index < so_chunk_count d"
  shows "\<exists>len. chunk_length d index = Inr len \<and>
    unat len = min (unat (so_chunk_bytes d))
      (unat (so_total_bytes d) - unat index * unat (so_chunk_bytes d))"
proof -
  obtain offset where o: "chunk_offset d index = Inr offset"
      "unat offset = unat index * unat (so_chunk_bytes d)" "unat offset < unat (so_total_bytes d)"
    using chunk_offset_valid [OF assms] by blast
  then have "unat (so_total_bytes d - offset) = unat (so_total_bytes d) - unat offset"
    by (simp add: unat_sub word_le_nat_alt)
  then show ?thesis
    using o by (auto simp: chunk_length_def Let_def word_less_nat_alt)
qed

lemma chunk_slice_valid:
  assumes "descriptor_valid d" "index < so_chunk_count d"
    "length content = unat (so_total_bytes d)"
  shows "chunk_slice d content index =
    take (unat (so_chunk_bytes d)) (drop (unat index * unat (so_chunk_bytes d)) content)"
proof -
  obtain offset len where "chunk_offset d index = Inr offset"
      "unat offset = unat index * unat (so_chunk_bytes d)" "chunk_length d index = Inr len"
      "unat len = min (unat (so_chunk_bytes d))
        (unat (so_total_bytes d) - unat index * unat (so_chunk_bytes d))"
    using chunk_offset_valid [OF assms(1,2)] chunk_length_valid [OF assms(1,2)] by blast
  then show ?thesis
    using assms(3) by (simp add: chunk_slice_def min_def)
qed

lemma concat_slices:
  "concat (map (\<lambda>i. take C (drop (i * C) xs)) [0..<n]) = take (n * C) xs"
proof (induction n)
  case (Suc n)
  have "take (Suc n * C) xs = take (n * C) xs @ take C (drop (n * C) xs)"
    by (simp add: take_add [symmetric] add.commute)
  then show ?case
    using Suc by simp
qed simp

lemma chunk_slices_reassemble:
  assumes "descriptor_valid d" "length content = unat (so_total_bytes d)"
  shows "concat (map (\<lambda>i. chunk_slice d content (word_of_nat i)) [0..<unat (so_chunk_count d)])
    = content"
proof -
  let ?C = "unat (so_chunk_bytes d)" and ?N = "unat (so_chunk_count d)"
  have "map (\<lambda>i. chunk_slice d content (word_of_nat i)) [0..<?N]
      = map (\<lambda>i. take ?C (drop (i * ?C) content)) [0..<?N]"
  proof (rule map_cong [OF refl])
    fix i assume "i \<in> set [0..<?N]"
    then have "i < ?N" "unat (word_of_nat i :: u32) = i"
      by (simp_all add: unat_word_of_nat_u32 less_trans [OF _ unat_u32_less])
    then show "chunk_slice d content (word_of_nat i) = take ?C (drop (i * ?C) content)"
      using chunk_slice_valid [OF assms(1) _ assms(2), of "word_of_nat i"]
      by (simp add: word_less_nat_alt)
  qed
  then have "concat (map (\<lambda>i. chunk_slice d content (word_of_nat i)) [0..<?N]) = take (?N * ?C) content"
    by (simp only: concat_slices)
  moreover have "length content \<le> ?N * ?C"
    using chunk_index_iff [OF assms(1), of ?N] assms(2) by simp
  ultimately show ?thesis by simp
qed

end
