(* ===== verification/SMF_Transport.thy ===== *)
theory SMF_Transport
  imports SMF_State_Object
begin

text \<open>
  The addresses of \<^verbatim>\<open>include/smf/transport.hpp\<close> and \<^verbatim>\<open>src/transport.cpp\<close>: parsing and
  rendering of \<^verbatim>\<open>SocketAddress\<close>.  The sockets themselves are operating system calls and are not
  modelled.
\<close>

record socket_address =
  sa_host :: string
  sa_port :: u16

definition SocketAddress_default :: socket_address where
  "SocketAddress_default = \<lparr>sa_host = [], sa_port = 0\<rparr>"

text \<open>\<^verbatim>\<open>std::string_view::find\<close> and \<^verbatim>\<open>rfind\<close> of one character.\<close>

definition string_find :: "char \<Rightarrow> string \<Rightarrow> nat option" where
  "string_find c s = (if c \<in> set s then Some (length (takeWhile (\<lambda>x. x \<noteq> c) s)) else None)"

definition string_rfind :: "char \<Rightarrow> string \<Rightarrow> nat option" where
  "string_rfind c s =
    (if c \<in> set s then Some (length s - 1 - length (takeWhile (\<lambda>x. x \<noteq> c) (rev s))) else None)"

definition is_address_space :: "char \<Rightarrow> bool" where
  "is_address_space c \<longleftrightarrow> c = CHR '' '' \<or> c = CHR 0x09 \<or> c = CHR 0x0A \<or> c = CHR 0x0D"

fun parse_port :: "u32 \<Rightarrow> string \<Rightarrow> u32 result" where
  "parse_port port [] = Inr port"
| "parse_port port (c # cs) =
    (if (of_char c :: nat) < 48 \<or> (of_char c :: nat) > 57
     then err ADDRESS_INVALID ''port must be numeric''
     else
       let port = port * 10 + word_of_nat (of_char c - 48)
       in if port > 65535 then err ADDRESS_INVALID ''port is out of range'' else parse_port port cs)"

definition split_address :: "string \<Rightarrow> (string \<times> string) result" where
  "split_address text =
    (if hd text = CHR ''['' then
       (case string_find (CHR '']'') text of
          None \<Rightarrow> err ADDRESS_INVALID (''bracketed address is missing ']'' @ [CHR 0x27])
        | Some closing \<Rightarrow>
            if closing + 1 \<ge> length text \<or> text ! (closing + 1) \<noteq> CHR '':''
            then err ADDRESS_INVALID ''bracketed address is missing a port''
            else Inr (take (closing - 1) (drop 1 text), drop (closing + 2) text))
     else
       (case string_rfind (CHR '':'') text of
          None \<Rightarrow> err ADDRESS_INVALID ''address must be host:port''
        | Some colon \<Rightarrow>
            if CHR '':'' \<in> set (take colon text)
            then err ADDRESS_INVALID ''an IPv6 literal must be enclosed in brackets''
            else Inr (take colon text, drop (colon + 1) text)))"

definition SocketAddress_parse :: "string \<Rightarrow> socket_address result" where
  "SocketAddress_parse text =
    (if text = [] then err ADDRESS_INVALID ''address must not be empty''
     else if list_ex is_address_space text
     then err ADDRESS_INVALID ''address must not contain whitespace''
     else
       bind_result (split_address text) (\<lambda>(host, port_text).
         if port_text = [] then err ADDRESS_INVALID ''address must carry a port''
         else bind_result (parse_port 0 port_text) (\<lambda>port.
           Inr \<lparr>sa_host = host, sa_port = ucast port\<rparr>)))"

definition SocketAddress_loopback :: "u16 \<Rightarrow> socket_address" where
  "SocketAddress_loopback port = \<lparr>sa_host = ''127.0.0.1'', sa_port = port\<rparr>"

definition SocketAddress_to_string :: "socket_address \<Rightarrow> string" where
  "SocketAddress_to_string a =
    (if CHR '':'' \<in> set (sa_host a)
     then ''['' @ sa_host a @ '']:'' @ decimal (unat (sa_port a))
     else if sa_host a = [] then ''127.0.0.1:'' @ decimal (unat (sa_port a))
     else sa_host a @ '':'' @ decimal (unat (sa_port a)))"

section \<open>Lemmas\<close>

lemma parse_port_append:
  "parse_port p (a @ b) = bind_result (parse_port p a) (\<lambda>q. parse_port q b)"
  by (induction p a rule: parse_port.induct) (simp_all add: Let_def)

lemma decimal_digits: "c \<in> set (decimal n) \<Longrightarrow> 48 \<le> (of_char c :: nat) \<and> (of_char c :: nat) \<le> 57"
proof (induction n rule: decimal.induct)
  case (1 n)
  have "n mod 10 < 10" by simp
  then show ?case
    using 1 by (subst (asm) (2) decimal.simps) (auto split: if_splits)
qed

lemma decimal_nonempty: "decimal n \<noteq> []"
  by (subst decimal.simps) simp

lemma parse_port_decimal: "n \<le> 65535 \<Longrightarrow> parse_port 0 (decimal n) = Inr (word_of_nat n)"
proof (induction n rule: decimal.induct)
  case (1 n)
  have digit: "parse_port (word_of_nat (m div 10)) [char_of (m mod 10 + 48)] = Inr (word_of_nat m)"
    if "m \<le> 65535" for m
  proof -
    have "(word_of_nat (m div 10) * 10 + word_of_nat (m mod 10) :: u32) = word_of_nat m"
      by (metis div_mod_decomp of_nat_add of_nat_mult of_nat_numeral)
    moreover have "\<not> (word_of_nat m :: u32) > 65535"
      using that by (simp add: word_less_nat_alt unat_word_of_nat_u32)
    moreover have "m mod 10 < 10"
      by simp
    ultimately show ?thesis
      by simp
  qed
  show ?case
  proof (cases "n < 10")
    case True
    then show ?thesis
      using digit [of n] 1 by (subst decimal.simps) simp
  next
    case False
    then have "decimal n = decimal (n div 10) @ [char_of (n mod 10 + 48)]"
      by (subst decimal.simps) simp
    then show ?thesis
      using 1 False digit [of n] by (simp add: parse_port_append)
  qed
qed

lemma digits_plain:
  "\<not> list_ex is_address_space (decimal n)" "CHR '':'' \<notin> set (decimal n)"
  using decimal_digits [of _ n] by (force simp: list_ex_iff is_address_space_def)+

text \<open>The hosts whose rendering \<open>parse\<close> reads back.\<close>

definition plain_host :: "string \<Rightarrow> bool" where
  "plain_host h \<longleftrightarrow> h \<noteq> [] \<and> \<not> list_ex is_address_space h \<and>
     (if CHR '':'' \<in> set h then CHR '']'' \<notin> set h else hd h \<noteq> CHR ''['')"

lemma split_address_bracketed:
  assumes "CHR '']'' \<notin> set h"
  shows "split_address (''['' @ h @ '']:'' @ p) = Inr (h, p)"
proof -
  have "takeWhile (\<lambda>x. x \<noteq> CHR '']'') (''['' @ h @ '']:'' @ p) = ''['' @ h"
    using assms by (auto simp: takeWhile_append)
  then show ?thesis
    by (simp add: split_address_def string_find_def nth_append)
qed

lemma split_address_plain:
  assumes "CHR '':'' \<notin> set h" "CHR '':'' \<notin> set p" "h \<noteq> []" "hd h \<noteq> CHR ''[''"
  shows "split_address (h @ '':'' @ p) = Inr (h, p)"
proof -
  have "takeWhile (\<lambda>x. x \<noteq> CHR '':'') (rev p @ '':'' @ rev h) = rev p"
    using assms by (auto simp: takeWhile_append)
  then show ?thesis
    using assms by (simp add: split_address_def string_rfind_def)
qed

lemma SocketAddress_parse_to_string:
  assumes "plain_host (sa_host a)"
  shows "SocketAddress_parse (SocketAddress_to_string a) = Inr a"
proof -
  have "unat (sa_port a) \<le> 65535"
    using unat_u16_less [of "sa_port a"] by linarith
  then have port: "parse_port 0 (decimal (unat (sa_port a))) = Inr (word_of_nat (unat (sa_port a)))"
    by (rule parse_port_decimal)
  have "split_address (SocketAddress_to_string a) = Inr (sa_host a, decimal (unat (sa_port a)))"
    using assms digits_plain split_address_bracketed split_address_plain
    by (auto simp: SocketAddress_to_string_def plain_host_def split: if_splits)
  moreover have "\<not> list_ex is_address_space (SocketAddress_to_string a)" "SocketAddress_to_string a \<noteq> []"
    using assms digits_plain
    by (auto simp: SocketAddress_to_string_def plain_host_def is_address_space_def)
  ultimately show ?thesis
    using port decimal_nonempty
    by (cases a) (simp add: SocketAddress_parse_def bit_eq_iff bit_ucast_iff)
qed

text \<open>Every accepted port is a 16-bit number, so the narrowing cast loses nothing.\<close>

lemma parse_port_range: "parse_port p s = Inr q \<Longrightarrow> p \<le> 65535 \<Longrightarrow> q \<le> 65535"
  by (induction p s rule: parse_port.induct) (auto simp: Let_def not_less split: if_splits)

end
