(* ===== verification/SMF_Sample.thy ===== *)
theory SMF_Sample
  imports SMF_State_Object SMF_Digest_Bits
begin

text \<open>
  Concrete values the witnesses of the properties share: a small model object of three chunks.
  Its identity is the digest the program computes, evaluated once here.
\<close>

definition sample_id :: state_object_id where
  "sample_id = 0x354a2a9084afe36ae8e7814d5ee8bf3be478993a88a760fafb805e92d5cc478a"

definition sample_object :: state_object where
  "sample_object =
    \<lparr>so_object_id = sample_id, so_kind = SK_MODEL, so_name = ''m'', so_generation = 1,
     so_content_digest = 7, so_total_bytes = 2500, so_chunk_bytes = 1024, so_chunk_count = 3,
     so_created_unix_millis = 1, so_producer = ''p'', so_repeatable = True\<rparr>"

lemma sample_id_derived: "sha256 (state_object_id_encoding SK_MODEL ''m'') = sample_id"
  by code_simp

lemma derive_sample_id: "derive_state_object_id SK_MODEL ''m'' = Inr sample_id"
  by (simp add: derive_state_object_id_def canonical_digest_def sample_id_derived
      is_valid_utf8_ascii as_bytes_def byte_of_char_def)

lemma sample_object_valid: "descriptor_valid sample_object"
  by (simp add: descriptor_valid_iff sample_object_def sample_id_derived ceil_div_def)
    (simp add: sample_id_def as_bytes_def byte_of_char_def is_valid_utf8.simps)

end
