(* ===== verification/SMF_Encoding_Properties.thy ===== *)
theory SMF_Encoding_Properties
  imports SMF_Digest_Bits SMF_Transport SMF_Sample
begin

text \<open>
  The properties of the byte, digest, identifier and address layers: strict UTF-8, checked
  arithmetic, SHA-256 and HMAC against their reference definitions, what a chunk digest and a
  derived identifier bind, and the round trip of socket addresses.
\<close>

section \<open>Bytes\<close>

text \<open>C30: the UTF-8 validator accepts exactly the byte strings that are the concatenated encodings
  of Unicode scalar values: no overlong form, no surrogate, nothing above U+10FFFF and no
  truncated sequence.\<close>

theorem utf8_accepts_exactly:
  "is_valid_utf8 bs \<longleftrightarrow> (\<exists>cps. list_all unicode_scalar cps \<and> bs = concat (map utf8_encode cps))"
  by (rule is_valid_utf8_iff)

text \<open>Checked addition and multiplication of 64-bit sizes return the exact result when it
  fits and nothing when it would wrap around.\<close>

lemma checked_arithmetic_exact:
  "checked_add a b = (if unat a + unat b < 2 ^ 64 then Some (a + b) else None) \<and>
   checked_mul a b = (if unat a * unat b < 2 ^ 64 then Some (a * b) else None)"
  using checked_add_iff checked_mul_iff by blast

section \<open>Digests\<close>

text \<open>C27: feeding a message to the incremental SHA-256 in any pieces and finalising gives the
  digest of the reference definition on the whole message, and leaves the object reset.\<close>

theorem sha256_streaming:
  "Sha256_finalize (foldl Sha256_update Sha256_reset parts) =
    (sha256_reference (concat parts), Sha256_reset)"
  by (simp add: Sha256_stream sha256_eq_reference)

text \<open>The digest of the three bytes abc is the test vector of the standard.\<close>

lemma sha256_abc:
  "sha256 (as_bytes ''abc'') = 0xba7816bf8f01cfea414140de5dae2223b00361a396177a9cb410ff61f20015ad"
  by code_simp

text \<open>C33: HMAC-SHA-256, with its key block, inner and outer pads, is the reference definition for
  keys of every length.\<close>

theorem hmac_is_reference: "hmac_sha256 key data = hmac_reference key data"
  by (rule hmac_sha256_eq_reference)

section \<open>Identity\<close>

text \<open>Chunks that differ in the object, the generation, the index, the offset, the length or
  the payload have different digests, unless their two different encodings collide under SHA-256.\<close>

lemma chunk_digest_binds:
  assumes "length p < 2 ^ 64" "length p' < 2 ^ 64"
    "(oid, g, i, off, len, p) \<noteq> (oid', g', i', off', len', p')"
  shows "chunk_encoding oid g i off len p \<noteq> chunk_encoding oid' g' i' off' len' p' \<and>
    (compute_chunk_digest oid g i off len p = compute_chunk_digest oid' g' i' off' len' p' \<longleftrightarrow>
     sha256 (chunk_encoding oid g i off len p) = sha256 (chunk_encoding oid' g' i' off' len' p'))"
  using assms(3) chunk_encoding_inject [OF assms(1,2)]
  by (auto simp: compute_chunk_digest_def canonical_digest_def)

text \<open>State objects that differ in kind or name get different identifiers, unless their two
  different encodings collide under SHA-256.\<close>

lemma object_id_binds:
  assumes "derive_state_object_id k n = Inr v" "derive_state_object_id k' n' = Inr v'" "(k, n) \<noteq> (k', n')"
  shows "state_object_id_encoding k n \<noteq> state_object_id_encoding k' n' \<and>
    (v = v' \<longleftrightarrow> sha256 (state_object_id_encoding k n) = sha256 (state_object_id_encoding k' n'))"
  using assms state_object_id_encoding_inject [of n n' k k']
  by (auto simp: derive_state_object_id_Inr_iff)

section \<open>Addresses\<close>

text \<open>A socket address with a plain host survives printing and parsing, bracketed IPv6
  literals included.\<close>

lemma address_round_trip:
  assumes "plain_host (sa_host a)"
  shows "SocketAddress_parse (SocketAddress_to_string a) = Inr a"
  using assms by (rule SocketAddress_parse_to_string)

end
