(* ===== verification/SMF_Chunk_Plan.thy ===== *)
theory SMF_Chunk_Plan
  imports SMF_State_Object
begin

text \<open>
  \<^verbatim>\<open>src/chunk_plan.cpp\<close>: the chunk plan of a descriptor, the resume state of a partially
  staged transfer, the compatibility rule for resuming, and the sample of chunks a coordinator
  probes.  A \<^verbatim>\<open>ChunkPlan\<close> holds only its descriptor, so it is modelled by the descriptor.
  \<^verbatim>\<open>std::set\<close> is the strictly increasing list of its elements.
\<close>

definition ChunkPlan_create :: "state_object \<Rightarrow> state_object result" where
  "ChunkPlan_create descriptor =
     check_status (StateObjectDescriptor_validate descriptor) (Inr descriptor)"

definition ChunkPlan_offset_of :: "state_object \<Rightarrow> u32 \<Rightarrow> u64 result" where
  "ChunkPlan_offset_of plan index = chunk_offset plan index"

definition ChunkPlan_length_of :: "state_object \<Rightarrow> u32 \<Rightarrow> u64 result" where
  "ChunkPlan_length_of plan index = chunk_length plan index"

definition chunk_digest_of :: "state_object \<Rightarrow> u32 \<Rightarrow> bytes \<Rightarrow> digest result" where
  "chunk_digest_of plan index payload =
    bind_result (chunk_offset plan index) (\<lambda>offset.
    bind_result (chunk_length plan index) (\<lambda>len.
      if length payload \<noteq> unat len
      then err BYTE_COUNT_MISMATCH ''chunk payload length does not match the planned chunk length''
      else Inr (compute_chunk_digest (so_object_id plan) (so_generation plan) index offset len
        payload)))"

definition same_segmentation :: "state_object \<Rightarrow> state_object \<Rightarrow> bool" where
  "same_segmentation plan other \<longleftrightarrow> same_version plan other"

definition enforce_policy_bounds :: "state_object \<Rightarrow> u64 \<Rightarrow> u64 \<Rightarrow> u64 \<Rightarrow> status" where
  "enforce_policy_bounds plan min_chunk_bytes max_chunk_bytes max_object_bytes =
    (if so_chunk_bytes plan < min_chunk_bytes \<or> so_chunk_bytes plan > max_chunk_bytes
     then Status POLICY_VIOLATION
       ''object chunk size is outside the policy bounds for this coordinator''
     else if so_total_bytes plan > max_object_bytes
     then Status POLICY_VIOLATION ''object exceeds the maximum size this coordinator will move''
     else Status_success)"

section \<open>Resume state\<close>

record resume_state =
  rs_descriptor :: state_object
  rs_verified_chunks :: u32
  rs_verified_bytes :: u64
  rs_rolling_digest :: digest

definition ResumeState_complete :: "resume_state \<Rightarrow> bool" where
  "ResumeState_complete s \<longleftrightarrow>
     rs_verified_chunks s = so_chunk_count (rs_descriptor s) \<and>
     rs_verified_bytes s = so_total_bytes (rs_descriptor s)"

definition ResumeState_encode :: "resume_state \<Rightarrow> bytes" where
  "ResumeState_encode s =
     StateObjectDescriptor_encode (rs_descriptor s) @ enc_u32 (rs_verified_chunks s) @
     enc_u64 (rs_verified_bytes s) @ enc_digest (rs_rolling_digest s)"

text \<open>The byte accounting loop, for the first \<open>n\<close> chunks.\<close>

fun ResumeState_expected_bytes :: "state_object \<Rightarrow> nat \<Rightarrow> u64 result" where
  "ResumeState_expected_bytes d 0 = Inr 0"
| "ResumeState_expected_bytes d (Suc index) =
    bind_result (ResumeState_expected_bytes d index) (\<lambda>expected_bytes.
    bind_result (chunk_length d (word_of_nat index)) (\<lambda>len.
      case checked_add expected_bytes len of
        None \<Rightarrow> err SIZE_OVERFLOW ''resume state byte accounting overflowed''
      | Some next \<Rightarrow> Inr next))"

definition ResumeState_check :: "resume_state \<Rightarrow> status" where
  "ResumeState_check s =
    (if rs_verified_chunks s > so_chunk_count (rs_descriptor s)
     then Status STORE_RECORD_INVALID ''resume state claims more chunks than the object has''
     else case ResumeState_expected_bytes (rs_descriptor s) (unat (rs_verified_chunks s)) of
       Inl e \<Rightarrow> e
     | Inr expected_bytes \<Rightarrow>
         if expected_bytes \<noteq> rs_verified_bytes s
         then Status STORE_RECORD_INVALID
           ''resume state byte count is inconsistent with its verified chunk prefix''
         else Status_success)"

definition ResumeState_decode :: "resume_state decode" where
  "ResumeState_decode =
    bind_dec StateObjectDescriptor_decode (\<lambda>descriptor.
    bind_dec dec_u32 (\<lambda>chunks.
    bind_dec dec_u64 (\<lambda>bytes.
    bind_dec dec_digest (\<lambda>digest.
      let state = \<lparr>rs_descriptor = descriptor, rs_verified_chunks = chunks,
        rs_verified_bytes = bytes, rs_rolling_digest = digest\<rparr>
      in check_dec (ResumeState_check state) (return_dec state)))))"

definition check_resume_compatible :: "state_object \<Rightarrow> state_object \<Rightarrow> status" where
  "check_resume_compatible planned staged =
    (if \<not> same_object planned staged
     then Status RESUME_INCOMPATIBLE ''staged state belongs to a different state object''
     else if so_generation planned \<noteq> so_generation staged
     then Status RESUME_INCOMPATIBLE ''staged state belongs to a different state generation''
     else if so_content_digest planned \<noteq> so_content_digest staged
     then Status RESUME_INCOMPATIBLE ''staged state was produced from different content''
     else if so_chunk_bytes planned \<noteq> so_chunk_bytes staged
     then Status RESUME_INCOMPATIBLE ''staged state used a different chunk size''
     else if so_chunk_count planned \<noteq> so_chunk_count staged
     then Status RESUME_INCOMPATIBLE ''staged state used a different segmentation''
     else if so_total_bytes planned \<noteq> so_total_bytes staged
     then Status RESUME_INCOMPATIBLE ''staged state has a different total size''
     else Status_success)"

section \<open>The verification sample\<close>

definition sample_mix :: "u64 \<Rightarrow> u64" where
  "sample_mix mixer =
    (let z = mixer;
         z = (z XOR drop_bit 30 z) * 0xBF58476D1CE4E5B9;
         z = (z XOR drop_bit 27 z) * 0x94D049BB133111EB
     in z XOR drop_bit 31 z)"

function sample_loop :: "nat \<Rightarrow> nat \<Rightarrow> u32 \<Rightarrow> nat \<Rightarrow> u64 \<Rightarrow> u32 list \<Rightarrow> u32 list" where
  "sample_loop sample_count max_attempts chunk_count attempts mixer unique =
    (if length unique < sample_count \<and> attempts < max_attempts
     then let mixer = mixer + 0x9E3779B97F4A7C15
          in sample_loop sample_count max_attempts chunk_count (attempts + 1) mixer
               (insort_insert (ucast (sample_mix mixer mod ucast chunk_count)) unique)
     else unique)"
  by pat_completeness auto
termination
  by (relation "measure (\<lambda>(_, max_attempts, _, attempts, _, _). max_attempts - attempts)") auto

declare sample_loop.simps [simp del]

definition verification_sample :: "movement_id \<Rightarrow> u32 \<Rightarrow> u32 \<Rightarrow> u32 list" where
  "verification_sample movement_id chunk_count sample_count =
    (if chunk_count = 0 \<or> sample_count = 0 then []
     else if sample_count \<ge> chunk_count then map word_of_nat [0..<unat chunk_count]
     else
       let seed = sha256 (FixedId_view movement_id);
           mixer = load_le (Digest_view seed) 8
       in sample_loop (unat sample_count) (unat (sample_count * 16)) chunk_count 0 mixer [])"

section \<open>Resume lemmas\<close>

abbreviation resume_valid :: "resume_state \<Rightarrow> bool" where
  "resume_valid s \<equiv> descriptor_valid (rs_descriptor s) \<and> Status_ok (ResumeState_check s)"

lemma ResumeState_decode_iff [codec_iff]:
  "dec_ok c \<Longrightarrow> ResumeState_decode c i = Inr (s, j) \<longleftrightarrow>
    resume_valid s \<and> spells c i j (ResumeState_encode s)"
  by (cases s)
    (auto simp: ResumeState_decode_def ResumeState_encode_def dec_Inr_iffs codec_iff codec_simps)

interpretation resume_codec: canonical_codec ResumeState_encode ResumeState_decode resume_valid
  by unfold_locales (rule ResumeState_decode_iff)

lemma ResumeState_expected_bytes_valid:
  assumes "descriptor_valid d" "n \<le> unat (so_chunk_count d)"
  shows "\<exists>b. ResumeState_expected_bytes d n = Inr b \<and>
    unat b = min (n * unat (so_chunk_bytes d)) (unat (so_total_bytes d))"
  using assms(2)
proof (induction n)
  case (Suc n)
  let ?C = "unat (so_chunk_bytes d)" and ?T = "unat (so_total_bytes d)"
  obtain b where b: "ResumeState_expected_bytes d n = Inr b" "unat b = min (n * ?C) ?T"
    using Suc by auto
  have lt: "n * ?C < ?T" and n: "unat (word_of_nat n :: u32) = n"
    using Suc.prems chunk_index_iff [OF assms(1), of n]
    by (auto simp: unat_word_of_nat_u32 less_trans [OF Suc_le_lessD unat_u32_less])
  then obtain len where len: "chunk_length d (word_of_nat n) = Inr len"
      "unat len = min ?C (?T - n * ?C)"
    using chunk_length_valid [OF assms(1), of "word_of_nat n"] Suc.prems
    by (auto simp: word_less_nat_alt)
  have sum: "unat b + unat len = min (Suc n * ?C) ?T"
    using b len lt by auto
  then have "unat b + unat len < 18446744073709551616"
    using descriptor_sizes(1) [OF assms(1)] by linarith
  then show ?case
    using b len sum by (simp add: checked_add_iff unat_word_ariths)
qed simp

text \<open>A resume state that decodes accounts for exactly the bytes of its chunk prefix; it is
  complete when its prefix is every chunk.\<close>

lemma resume_valid_bytes:
  assumes "resume_valid s"
  shows "unat (rs_verified_bytes s) =
    min (unat (rs_verified_chunks s) * unat (so_chunk_bytes (rs_descriptor s)))
      (unat (so_total_bytes (rs_descriptor s)))"
proof -
  have "rs_verified_chunks s \<le> so_chunk_count (rs_descriptor s)"
    using assms by (auto simp: ResumeState_check_def not_less split: if_splits)
  then have "unat (rs_verified_chunks s) \<le> unat (so_chunk_count (rs_descriptor s))"
    by (simp add: word_le_nat_alt)
  from ResumeState_expected_bytes_valid [OF _ this] assms
  obtain b where "ResumeState_expected_bytes (rs_descriptor s) (unat (rs_verified_chunks s)) = Inr b"
      "unat b = min (unat (rs_verified_chunks s) * unat (so_chunk_bytes (rs_descriptor s)))
        (unat (so_total_bytes (rs_descriptor s)))"
    by blast
  then show ?thesis
    using assms by (auto simp: ResumeState_check_def split: if_splits)
qed

lemma check_resume_compatible_iff:
  "Status_ok (check_resume_compatible planned staged) \<longleftrightarrow> same_version planned staged"
  by (auto simp: check_resume_compatible_def same_version_def same_object_def)

section \<open>Sample lemmas\<close>

lemma sample_index_less:
  fixes z :: u64
  assumes "chunk_count \<noteq> 0"
  shows "(ucast (z mod ucast chunk_count) :: u32) < chunk_count"
proof -
  have "unat (z mod ucast chunk_count) < unat chunk_count"
    using assms by (simp add: unat_mod unat_pos_iff)
  then show ?thesis
    by (simp add: word_less_nat_alt unsigned_ucast_eq take_bit_nat_eq_self
        less_trans [OF _ unat_u32_less])
qed

lemma length_insort_insert: "length (insort_insert x xs) \<le> Suc (length xs)"
  "length xs \<le> length (insort_insert x xs)"
  by (simp_all add: insort_insert_key_def)

text \<open>The invariant of the sampling loop: a strictly increasing list of chunk indices, never
  longer than the requested size, that only grows.\<close>

definition sample_inv :: "nat \<Rightarrow> u32 \<Rightarrow> u32 list \<Rightarrow> bool" where
  "sample_inv sample_count chunk_count xs \<longleftrightarrow>
     sorted xs \<and> distinct xs \<and> set xs \<subseteq> {..<chunk_count} \<and> length xs \<le> sample_count"

lemma sample_loop_inv:
  assumes "chunk_count \<noteq> 0" "sample_inv sample_count chunk_count unique"
  shows "sample_inv sample_count chunk_count
      (sample_loop sample_count m chunk_count a mixer unique) \<and>
    length unique \<le> length (sample_loop sample_count m chunk_count a mixer unique)"
  using assms
proof (induction sample_count m chunk_count a mixer unique rule: sample_loop.induct)
  case (1 sample_count m chunk_count a mixer unique)
  let ?mixer = "mixer + 0x9E3779B97F4A7C15"
  let ?next = "insort_insert (ucast (sample_mix ?mixer mod ucast chunk_count)) unique"
  show ?case
  proof (cases "length unique < sample_count \<and> a < m")
    case True
    then have "sample_inv sample_count chunk_count ?next"
      using "1.prems" sample_index_less [OF "1.prems"(1)]
        length_insort_insert(1) [of "ucast (sample_mix ?mixer mod ucast chunk_count)" unique]
      by (auto simp: sample_inv_def sorted_insort_insert distinct_insort_insert set_insort_insert)
    then show ?thesis
      using "1.IH" [OF True refl "1.prems"(1)] True
        length_insort_insert(2) [of unique "ucast (sample_mix ?mixer mod ucast chunk_count)"]
      by (subst (1 2) sample_loop.simps) (auto simp: Let_def)
  next
    case False
    then have "sample_loop sample_count m chunk_count a mixer unique = unique"
      by (subst sample_loop.simps) (rule if_not_P)
    then show ?thesis
      using "1.prems" by simp
  qed
qed

lemma verification_sample_inv:
  "sample_inv (unat sample_count) chunk_count (verification_sample movement_id chunk_count sample_count)"
proof (cases "chunk_count = 0 \<or> sample_count = 0 \<or> sample_count \<ge> chunk_count")
  case True
  have *: "unat (word_of_nat i :: u32) = i" if "i < unat chunk_count" for i
    using that by (simp add: unat_word_of_nat_u32 less_trans [OF _ unat_u32_less])
  have "sorted (map word_of_nat [0..<unat chunk_count] :: u32 list)"
    by (auto simp: sorted_iff_nth_mono word_le_nat_alt *)
  moreover have "distinct (map word_of_nat [0..<unat chunk_count] :: u32 list)"
    unfolding distinct_map by (auto intro!: inj_onI) (metis *)
  ultimately have "sorted (map word_of_nat [0..<unat chunk_count] :: u32 list)"
    "distinct (map word_of_nat [0..<unat chunk_count] :: u32 list)"
    by blast+
  then show ?thesis
    using True
    by (auto simp: sample_inv_def verification_sample_def word_less_nat_alt word_le_nat_alt *)
next
  case False
  then show ?thesis
    using sample_loop_inv [of chunk_count "unat sample_count" "[]"]
    by (simp add: verification_sample_def Let_def sample_inv_def)
qed

lemma verification_sample_nonempty:
  assumes "chunk_count \<noteq> 0" "sample_count \<noteq> 0" "sample_count \<le> 64"
  shows "verification_sample movement_id chunk_count sample_count \<noteq> []"
proof (cases "sample_count \<ge> chunk_count")
  case True
  then show ?thesis
    using assms by (simp add: verification_sample_def unat_pos_iff)
next
  case False
  define mixer where "mixer = load_le (Digest_view (sha256 (FixedId_view movement_id))) 8"
  have "unat sample_count * 16 < 4294967296"
    using assms(3) by (simp add: word_le_nat_alt)
  then have pos: "0 < unat (sample_count * 16)" "0 < unat sample_count"
    using assms(2) by (simp_all add: unat_word_ariths unat_pos_iff)
  have "verification_sample movement_id chunk_count sample_count =
      sample_loop (unat sample_count) (unat (sample_count * 16)) chunk_count 0 mixer []"
    using False assms by (simp add: verification_sample_def mixer_def Let_def)
  also have "\<dots> = sample_loop (unat sample_count) (unat (sample_count * 16)) chunk_count 1
      (mixer + 0x9E3779B97F4A7C15)
      [ucast (sample_mix (mixer + 0x9E3779B97F4A7C15) mod ucast chunk_count)]"
    using pos by (subst sample_loop.simps) (simp add: Let_def insort_insert_key_def)
  also have "length \<dots> \<ge> 1"
    using sample_loop_inv [OF assms(1), of "unat sample_count"
        "[ucast (sample_mix (mixer + 0x9E3779B97F4A7C15) mod ucast chunk_count)]"
        "unat (sample_count * 16)" 1 "mixer + 0x9E3779B97F4A7C15"]
      sample_index_less [OF assms(1), of "sample_mix (mixer + 0x9E3779B97F4A7C15)"] pos
    by (simp add: sample_inv_def Suc_le_eq)
  finally show ?thesis
    by auto
qed

end
