(* ===== verification/SMF_Movement_State.thy ===== *)
theory SMF_Movement_State
  imports SMF_Codec
begin

text \<open>
  \<^verbatim>\<open>include/smf/movement_state.hpp\<close> and the first half of \<^verbatim>\<open>src/movement.cpp\<close>: the states of
  a movement and the transition relation between them.

  \<open>movement_run\<close> is the step relation with its history.  The lemmas show that terminal states
  are absorbing, that a movement commits only after it was authorized and then either verified
  or reconciled, that a terminal state can always be reached, and that a run is bounded by the
  number of its retries.
\<close>

datatype movement_state =
    MS_PLANNED | MS_AUTHORIZED | MS_TRANSFERRING | MS_BYTES_ARRIVED | MS_VERIFIED | MS_COMMITTED
  | MS_CANCELLED | MS_FAILED | MS_OUTCOME_UNKNOWN | MS_SUPERSEDED

definition movement_states :: "movement_state list" where
  "movement_states = [MS_PLANNED, MS_AUTHORIZED, MS_TRANSFERRING, MS_BYTES_ARRIVED, MS_VERIFIED,
     MS_COMMITTED, MS_CANCELLED, MS_FAILED, MS_OUTCOME_UNKNOWN, MS_SUPERSEDED]"

fun MovementState_value :: "movement_state \<Rightarrow> u8" where
  "MovementState_value MS_PLANNED = 0"
| "MovementState_value MS_AUTHORIZED = 1"
| "MovementState_value MS_TRANSFERRING = 2"
| "MovementState_value MS_BYTES_ARRIVED = 3"
| "MovementState_value MS_VERIFIED = 4"
| "MovementState_value MS_COMMITTED = 5"
| "MovementState_value MS_CANCELLED = 6"
| "MovementState_value MS_FAILED = 7"
| "MovementState_value MS_OUTCOME_UNKNOWN = 8"
| "MovementState_value MS_SUPERSEDED = 9"

definition kTransitions :: "(movement_state \<times> movement_state) list" where
  "kTransitions =
    [(MS_PLANNED, MS_AUTHORIZED),
     (MS_PLANNED, MS_CANCELLED),
     (MS_PLANNED, MS_FAILED),
     (MS_PLANNED, MS_SUPERSEDED),

     (MS_AUTHORIZED, MS_TRANSFERRING),
     (MS_AUTHORIZED, MS_CANCELLED),
     (MS_AUTHORIZED, MS_FAILED),
     (MS_AUTHORIZED, MS_SUPERSEDED),
     (MS_AUTHORIZED, MS_OUTCOME_UNKNOWN),

     (MS_TRANSFERRING, MS_BYTES_ARRIVED),
     (MS_TRANSFERRING, MS_CANCELLED),
     (MS_TRANSFERRING, MS_FAILED),
     (MS_TRANSFERRING, MS_SUPERSEDED),
     (MS_TRANSFERRING, MS_OUTCOME_UNKNOWN),

     (MS_BYTES_ARRIVED, MS_TRANSFERRING),
     (MS_BYTES_ARRIVED, MS_VERIFIED),
     (MS_BYTES_ARRIVED, MS_CANCELLED),
     (MS_BYTES_ARRIVED, MS_FAILED),
     (MS_BYTES_ARRIVED, MS_SUPERSEDED),
     (MS_BYTES_ARRIVED, MS_OUTCOME_UNKNOWN),

     (MS_VERIFIED, MS_COMMITTED),
     (MS_VERIFIED, MS_CANCELLED),
     (MS_VERIFIED, MS_FAILED),
     (MS_VERIFIED, MS_SUPERSEDED),
     (MS_VERIFIED, MS_OUTCOME_UNKNOWN),

     (MS_OUTCOME_UNKNOWN, MS_COMMITTED),
     (MS_OUTCOME_UNKNOWN, MS_FAILED),
     (MS_OUTCOME_UNKNOWN, MS_CANCELLED),
     (MS_OUTCOME_UNKNOWN, MS_SUPERSEDED)]"

fun MovementState_to_string :: "movement_state \<Rightarrow> string" where
  "MovementState_to_string MS_PLANNED = ''PLANNED''"
| "MovementState_to_string MS_AUTHORIZED = ''AUTHORIZED''"
| "MovementState_to_string MS_TRANSFERRING = ''TRANSFERRING''"
| "MovementState_to_string MS_BYTES_ARRIVED = ''BYTES_ARRIVED''"
| "MovementState_to_string MS_VERIFIED = ''VERIFIED''"
| "MovementState_to_string MS_COMMITTED = ''COMMITTED''"
| "MovementState_to_string MS_CANCELLED = ''CANCELLED''"
| "MovementState_to_string MS_FAILED = ''FAILED''"
| "MovementState_to_string MS_OUTCOME_UNKNOWN = ''OUTCOME_UNKNOWN''"
| "MovementState_to_string MS_SUPERSEDED = ''SUPERSEDED''"

definition movement_state_from_string :: "string \<Rightarrow> movement_state option" where
  "movement_state_from_string text =
     find (\<lambda>state. text = MovementState_to_string state) movement_states"

fun is_terminal :: "movement_state \<Rightarrow> bool" where
  "is_terminal MS_COMMITTED = True"
| "is_terminal MS_CANCELLED = True"
| "is_terminal MS_FAILED = True"
| "is_terminal MS_SUPERSEDED = True"
| "is_terminal _ = False"

fun is_active :: "movement_state \<Rightarrow> bool" where
  "is_active MS_PLANNED = True"
| "is_active MS_AUTHORIZED = True"
| "is_active MS_TRANSFERRING = True"
| "is_active MS_BYTES_ARRIVED = True"
| "is_active MS_VERIFIED = True"
| "is_active MS_OUTCOME_UNKNOWN = True"
| "is_active _ = False"

definition is_committed :: "movement_state \<Rightarrow> bool" where
  "is_committed state \<longleftrightarrow> state = MS_COMMITTED"

definition check_transition :: "movement_state \<Rightarrow> movement_state \<Rightarrow> status" where
  "check_transition from to =
    (if is_terminal from
     then Status ALREADY_TERMINAL
       (''movement is already terminal in state '' @ MovementState_to_string from)
     else if list_ex (\<lambda>(a, b). a = from \<and> b = to) kTransitions then Status_success
     else Status ILLEGAL_TRANSITION
       (''cannot move from '' @ MovementState_to_string from @ '' to '' @
        MovementState_to_string to))"

fun describe_transitions :: "movement_state \<Rightarrow> string" where
  "describe_transitions MS_PLANNED = ''AUTHORIZED, CANCELLED, FAILED, SUPERSEDED''"
| "describe_transitions MS_AUTHORIZED =
     ''TRANSFERRING, CANCELLED, FAILED, SUPERSEDED, OUTCOME_UNKNOWN''"
| "describe_transitions MS_TRANSFERRING =
     ''BYTES_ARRIVED, CANCELLED, FAILED, SUPERSEDED, OUTCOME_UNKNOWN''"
| "describe_transitions MS_BYTES_ARRIVED =
     ''VERIFIED, TRANSFERRING (retry), CANCELLED, FAILED, SUPERSEDED, OUTCOME_UNKNOWN''"
| "describe_transitions MS_VERIFIED = ''COMMITTED, CANCELLED, FAILED, SUPERSEDED, OUTCOME_UNKNOWN''"
| "describe_transitions MS_OUTCOME_UNKNOWN = ''COMMITTED, FAILED, CANCELLED, SUPERSEDED''"
| "describe_transitions _ = ''none: terminal''"

section \<open>Runs of the state machine\<close>

abbreviation legal :: "movement_state \<Rightarrow> movement_state \<Rightarrow> bool" where
  "legal a b \<equiv> Status_ok (check_transition a b)"

text \<open>The histories a movement can have, latest state first.\<close>

inductive movement_run :: "movement_state list \<Rightarrow> bool" where
  run_created: "movement_run [MS_PLANNED]"
| run_step: "movement_run (s # h) \<Longrightarrow> legal s t \<Longrightarrow> movement_run (t # s # h)"

inductive_cases movement_run_ConsE: "movement_run (s # h)"

text \<open>The names in a comma separated list, a parenthesised remark dropped.\<close>

function listed_names :: "string \<Rightarrow> string \<Rightarrow> string list" where
  "listed_names word [] = [word]"
| "listed_names word (c # cs) =
    (if c = CHR '','' then word # listed_names [] (drop 1 cs)
     else if c = CHR '' '' then word # listed_names [] (drop 3 (dropWhile (\<lambda>x. x \<noteq> CHR '')'') cs))
     else listed_names (word @ [c]) cs)"
  by pat_completeness auto
termination
  by (relation "measure (length o snd)") (auto simp: less_Suc_eq_le intro: le_trans [OF diff_le_self length_dropWhile_le])

section \<open>Enumerators\<close>

lemma movement_states_complete: "set movement_states = UNIV"
proof -
  have "s \<in> set movement_states" for s
    by (cases s) (simp_all add: movement_states_def)
  then show ?thesis by auto
qed

interpretation movement_state_enum: wire_enum MovementState_value movement_states
proof
  show "x \<in> set movement_states" for x
    by (simp add: movement_states_complete)
qed (auto simp: movement_states_def less_Suc_eq numeral_eq_Suc)

lemmas dec_movement_state_iff [codec_iff] = movement_state_enum.dec_enum_iff

lemma movement_state_from_to_string:
  "movement_state_from_string (MovementState_to_string s) = Some s"
  by (cases s) (simp_all add: movement_state_from_string_def movement_states_def)

lemma movement_state_from_string_sound:
  "movement_state_from_string text = Some s \<Longrightarrow> text = MovementState_to_string s"
  by (auto simp: movement_state_from_string_def find_Some_iff)

section \<open>The transition relation\<close>

lemma active_iff_not_terminal: "is_active s \<longleftrightarrow> \<not> is_terminal s"
  by (cases s) simp_all

lemma legal_iff: "legal s t \<longleftrightarrow> (s, t) \<in> set kTransitions"
  by (cases s) (auto simp: check_transition_def list_ex_iff kTransitions_def)

lemmas legal_cases = legal_iff [unfolded kTransitions_def, simplified]

lemma terminal_no_step: "is_terminal s \<Longrightarrow> \<not> legal s t"
  by (simp add: check_transition_def)

lemma check_transition_cases:
  "legal s t \<and> check_transition s t = Status_success \<or>
   is_terminal s \<and> status_code (check_transition s t) = ALREADY_TERMINAL \<or>
   \<not> is_terminal s \<and> (s, t) \<notin> set kTransitions \<and>
     status_code (check_transition s t) = ILLEGAL_TRANSITION"
  by (auto simp: check_transition_def list_ex_iff)

lemma legal_predecessor:
  assumes "legal s t"
  shows "t \<noteq> MS_PLANNED" "t = MS_COMMITTED \<Longrightarrow> s = MS_VERIFIED \<or> s = MS_OUTCOME_UNKNOWN"
    "t = MS_VERIFIED \<Longrightarrow> s = MS_BYTES_ARRIVED" "t = MS_BYTES_ARRIVED \<Longrightarrow> s = MS_TRANSFERRING"
    "t = MS_TRANSFERRING \<Longrightarrow> s = MS_AUTHORIZED \<or> s = MS_BYTES_ARRIVED"
    "t = MS_OUTCOME_UNKNOWN \<Longrightarrow>
       s \<in> {MS_AUTHORIZED, MS_TRANSFERRING, MS_BYTES_ARRIVED, MS_VERIFIED}"
  using assms by (auto simp: legal_cases)

lemma movement_run_nonterminal:
  "movement_run h \<Longrightarrow> h \<noteq> [] \<and> last h = MS_PLANNED \<and> list_all (\<lambda>s. \<not> is_terminal s) (tl h)"
  by (induction rule: movement_run.induct) (auto dest: terminal_no_step)

lemma movement_run_predecessor:
  "movement_run h \<Longrightarrow> t \<in> set h \<Longrightarrow> t \<noteq> MS_PLANNED \<Longrightarrow> \<exists>s\<in>set h. legal s t"
  by (induction rule: movement_run.induct) auto

lemma movement_run_authorized:
  assumes "movement_run h" and t: "t \<in> set h"
  shows "t \<in> {MS_TRANSFERRING, MS_BYTES_ARRIVED, MS_VERIFIED, MS_OUTCOME_UNKNOWN, MS_COMMITTED} \<Longrightarrow>
      MS_AUTHORIZED \<in> set h"
    and "t = MS_COMMITTED \<Longrightarrow> MS_VERIFIED \<in> set h \<or> MS_OUTCOME_UNKNOWN \<in> set h"
    and "t = MS_VERIFIED \<Longrightarrow> MS_BYTES_ARRIVED \<in> set h"
proof -
  note pre = movement_run_predecessor [OF assms(1)]
  have 1: "MS_AUTHORIZED \<in> set h" if "MS_TRANSFERRING \<in> set h"
    using assms(1) that
  proof (induction rule: movement_run.induct)
    case (run_step s h t)
    have "MS_TRANSFERRING \<in> set (s # h)" if "s = MS_BYTES_ARRIVED"
      using movement_run_predecessor [OF run_step.hyps(1), of s] that legal_predecessor(4) by auto
    then show ?case
      using run_step.IH run_step.prems legal_predecessor(5) [OF run_step.hyps(2)] by auto
  qed simp
  have 2: "MS_TRANSFERRING \<in> set h" if "MS_BYTES_ARRIVED \<in> set h"
    using pre [OF that] legal_predecessor(4) by blast
  have 3: "MS_BYTES_ARRIVED \<in> set h" if "MS_VERIFIED \<in> set h"
    using pre [OF that] legal_predecessor(3) by blast
  have 4: "MS_AUTHORIZED \<in> set h" if "MS_OUTCOME_UNKNOWN \<in> set h"
    using pre [OF that] legal_predecessor(6) 1 2 3 by blast
  have 5: "MS_VERIFIED \<in> set h \<or> MS_OUTCOME_UNKNOWN \<in> set h" if "MS_COMMITTED \<in> set h"
    using pre [OF that] legal_predecessor(2) by blast
  show "MS_AUTHORIZED \<in> set h"
    if "t \<in> {MS_TRANSFERRING, MS_BYTES_ARRIVED, MS_VERIFIED, MS_OUTCOME_UNKNOWN, MS_COMMITTED}"
    using that t 1 2 3 4 5 by blast
  show "MS_VERIFIED \<in> set h \<or> MS_OUTCOME_UNKNOWN \<in> set h" if "t = MS_COMMITTED"
    using that t 5 by blast
  show "MS_BYTES_ARRIVED \<in> set h" if "t = MS_VERIFIED"
    using that t 3 by blast
qed

text \<open>Every step but a retry lowers the rank.\<close>

fun progress_rank :: "movement_state \<Rightarrow> nat" where
  "progress_rank MS_PLANNED = 6"
| "progress_rank MS_AUTHORIZED = 5"
| "progress_rank MS_TRANSFERRING = 4"
| "progress_rank MS_BYTES_ARRIVED = 3"
| "progress_rank MS_VERIFIED = 2"
| "progress_rank MS_OUTCOME_UNKNOWN = 1"
| "progress_rank _ = 0"

fun retries :: "movement_state list \<Rightarrow> nat" where
  "retries (t # s # h) =
     (if s = MS_BYTES_ARRIVED \<and> t = MS_TRANSFERRING then 1 else 0) + retries (s # h)"
| "retries _ = 0"

lemma legal_rank:
  "legal s t \<Longrightarrow> progress_rank t < progress_rank s \<or> s = MS_BYTES_ARRIVED \<and> t = MS_TRANSFERRING"
  by (auto simp: legal_cases)

lemma movement_run_length:
  "movement_run h \<Longrightarrow> length h + progress_rank (hd h) \<le> 7 + 2 * retries h"
proof (induction rule: movement_run.induct)
  case (run_step s h t)
  then show ?case
    using legal_rank [OF run_step.hyps(2)] by auto
qed simp

lemma terminal_reachable:
  assumes "movement_run (s # h)" "\<not> is_terminal s"
  shows "\<exists>t. is_terminal t \<and> movement_run (t # s # h)"
proof -
  have "legal s MS_FAILED"
    using assms(2) by (cases s) (simp_all add: legal_iff kTransitions_def)
  then show ?thesis
    using assms(1) run_step by (intro exI [of _ MS_FAILED]) simp
qed

lemma describe_transitions_names:
  assumes "\<not> is_terminal s"
  shows "set (listed_names [] (describe_transitions s)) = MovementState_to_string ` {t. legal s t}"
proof -
  have "{t. legal s t} = set (map snd (filter (\<lambda>(a, b). a = s) kTransitions))"
    by (auto simp: legal_iff image_iff)
  then show ?thesis
    using assms by (cases s) (simp_all add: kTransitions_def insert_commute)
qed

end
