(* ===== verification/SMF_Provenance.thy ===== *)
theory SMF_Provenance
  imports SMF_Movement_State SMF_Ids
begin

text \<open>
  \<^verbatim>\<open>include/smf/provenance.hpp\<close> and \<^verbatim>\<open>src/provenance.cpp\<close>: provenance events and the bounded
  append-only chain of a movement.

  The contract the movement record relies on is the locale \<open>append_only\<close>: an accepted append
  adds one entry at the end, a refused append changes nothing.  It is interpreted on the chain.
  The codec lemmas show that a decoded chain is contiguous, within its bound and valid.
\<close>

datatype provenance_kind =
    PK_CREATED | PK_AUTHORIZED | PK_GRANT_ISSUED | PK_ATTEMPT_STARTED | PK_PROGRESS
  | PK_BYTES_ARRIVED | PK_VERIFIED | PK_COMMIT_REQUESTED | PK_COMMITTED | PK_CANCELLED | PK_FAILED
  | PK_OUTCOME_UNKNOWN | PK_SUPERSEDED | PK_RECONCILED | PK_RETRY_SCHEDULED | PK_STALE_REJECTED
  | PK_CLEANED | PK_QUARANTINED

definition provenance_kinds :: "provenance_kind list" where
  "provenance_kinds = [PK_CREATED, PK_AUTHORIZED, PK_GRANT_ISSUED, PK_ATTEMPT_STARTED,
     PK_PROGRESS, PK_BYTES_ARRIVED, PK_VERIFIED, PK_COMMIT_REQUESTED, PK_COMMITTED, PK_CANCELLED,
     PK_FAILED, PK_OUTCOME_UNKNOWN, PK_SUPERSEDED, PK_RECONCILED, PK_RETRY_SCHEDULED,
     PK_STALE_REJECTED, PK_CLEANED, PK_QUARANTINED]"

fun ProvenanceEventKind_value :: "provenance_kind \<Rightarrow> u8" where
  "ProvenanceEventKind_value PK_CREATED = 0"
| "ProvenanceEventKind_value PK_AUTHORIZED = 1"
| "ProvenanceEventKind_value PK_GRANT_ISSUED = 2"
| "ProvenanceEventKind_value PK_ATTEMPT_STARTED = 3"
| "ProvenanceEventKind_value PK_PROGRESS = 4"
| "ProvenanceEventKind_value PK_BYTES_ARRIVED = 5"
| "ProvenanceEventKind_value PK_VERIFIED = 6"
| "ProvenanceEventKind_value PK_COMMIT_REQUESTED = 7"
| "ProvenanceEventKind_value PK_COMMITTED = 8"
| "ProvenanceEventKind_value PK_CANCELLED = 9"
| "ProvenanceEventKind_value PK_FAILED = 10"
| "ProvenanceEventKind_value PK_OUTCOME_UNKNOWN = 11"
| "ProvenanceEventKind_value PK_SUPERSEDED = 12"
| "ProvenanceEventKind_value PK_RECONCILED = 13"
| "ProvenanceEventKind_value PK_RETRY_SCHEDULED = 14"
| "ProvenanceEventKind_value PK_STALE_REJECTED = 15"
| "ProvenanceEventKind_value PK_CLEANED = 16"
| "ProvenanceEventKind_value PK_QUARANTINED = 17"

fun ProvenanceEventKind_to_string :: "provenance_kind \<Rightarrow> string" where
  "ProvenanceEventKind_to_string PK_CREATED = ''CREATED''"
| "ProvenanceEventKind_to_string PK_AUTHORIZED = ''AUTHORIZED''"
| "ProvenanceEventKind_to_string PK_GRANT_ISSUED = ''GRANT_ISSUED''"
| "ProvenanceEventKind_to_string PK_ATTEMPT_STARTED = ''ATTEMPT_STARTED''"
| "ProvenanceEventKind_to_string PK_PROGRESS = ''PROGRESS''"
| "ProvenanceEventKind_to_string PK_BYTES_ARRIVED = ''BYTES_ARRIVED''"
| "ProvenanceEventKind_to_string PK_VERIFIED = ''VERIFIED''"
| "ProvenanceEventKind_to_string PK_COMMIT_REQUESTED = ''COMMIT_REQUESTED''"
| "ProvenanceEventKind_to_string PK_COMMITTED = ''COMMITTED''"
| "ProvenanceEventKind_to_string PK_CANCELLED = ''CANCELLED''"
| "ProvenanceEventKind_to_string PK_FAILED = ''FAILED''"
| "ProvenanceEventKind_to_string PK_OUTCOME_UNKNOWN = ''OUTCOME_UNKNOWN''"
| "ProvenanceEventKind_to_string PK_SUPERSEDED = ''SUPERSEDED''"
| "ProvenanceEventKind_to_string PK_RECONCILED = ''RECONCILED''"
| "ProvenanceEventKind_to_string PK_RETRY_SCHEDULED = ''RETRY_SCHEDULED''"
| "ProvenanceEventKind_to_string PK_STALE_REJECTED = ''STALE_REJECTED''"
| "ProvenanceEventKind_to_string PK_CLEANED = ''CLEANED''"
| "ProvenanceEventKind_to_string PK_QUARANTINED = ''QUARANTINED''"

definition provenance_kind_from_string :: "string \<Rightarrow> provenance_kind option" where
  "provenance_kind_from_string text =
     find (\<lambda>kind. text = ProvenanceEventKind_to_string kind) provenance_kinds"

record provenance_event =
  pe_sequence :: u64
  pe_unix_millis :: u64
  pe_kind :: provenance_kind
  pe_state :: movement_state
  pe_movement_generation :: generation
  pe_reason :: reason_code
  pe_actor :: endpoint_id
  pe_actor_boot :: boot_id
  pe_actor_epoch :: generation
  pe_attempt :: attempt_id
  pe_evidence :: digest
  pe_detail :: string

definition ProvenanceEvent_default :: provenance_event where
  "ProvenanceEvent_default =
    \<lparr>pe_sequence = 0, pe_unix_millis = 0, pe_kind = PK_CREATED, pe_state = MS_PLANNED,
     pe_movement_generation = 0, pe_reason = OK, pe_actor = [], pe_actor_boot = 0,
     pe_actor_epoch = 0, pe_attempt = 0, pe_evidence = 0, pe_detail = []\<rparr>"

definition ProvenanceEvent_validate :: "provenance_event \<Rightarrow> status" where
  "ProvenanceEvent_validate e =
    (if pe_sequence e = 0
     then Status STORE_RECORD_INVALID ''provenance sequence must start at one''
     else if sint (pe_unix_millis e) \<le> 0
     then Status STORE_RECORD_INVALID ''provenance event requires a timestamp''
     else if \<not> Generation_is_set (pe_movement_generation e)
     then Status INVALID_GENERATION ''provenance event requires a movement generation''
     else if length (pe_detail e) > kMaxDetailBytes
     then Status STORE_RECORD_INVALID ''provenance detail exceeds the text bound''
     else if pe_detail e \<noteq> [] \<and> \<not> is_valid_utf8 (as_bytes (pe_detail e))
     then Status INVALID_UTF8 ''provenance detail is not valid UTF-8''
     else Status_success)"

definition ProvenanceEvent_encode :: "provenance_event \<Rightarrow> bytes" where
  "ProvenanceEvent_encode e =
     enc_u64 (pe_sequence e) @
     enc_i64 (pe_unix_millis e) @
     enc_u8 (ProvenanceEventKind_value (pe_kind e)) @
     enc_u8 (MovementState_value (pe_state e)) @
     enc_u64 (pe_movement_generation e) @
     enc_u16 (pe_reason e) @
     enc_text (pe_actor e) @
     FixedId_encode (pe_actor_boot e) @
     enc_u64 (pe_actor_epoch e) @
     FixedId_encode (pe_attempt e) @
     enc_digest (pe_evidence e) @
     enc_text (pe_detail e)"

definition ProvenanceEvent_decode :: "provenance_event decode" where
  "ProvenanceEvent_decode =
    bind_dec dec_u64 (\<lambda>sequence.
    bind_dec dec_i64 (\<lambda>time.
    bind_dec (dec_enum provenance_kinds STORE_RECORD_INVALID
      ''provenance kind is not recognized'') (\<lambda>kind.
    bind_dec (dec_enum movement_states STORE_RECORD_INVALID
      ''provenance movement state is not recognized'') (\<lambda>state.
    bind_dec dec_u64 (\<lambda>generation.
    bind_dec dec_u16 (\<lambda>reason.
    bind_dec (dec_text kMaxEndpointIdBytes) (\<lambda>actor.
    bind_dec (if actor \<noteq> [] then lift_dec (EndpointId_parse actor) else return_dec []) (\<lambda>actor.
    bind_dec FixedId_decode (\<lambda>boot.
    bind_dec dec_u64 (\<lambda>epoch.
    bind_dec FixedId_decode (\<lambda>attempt.
    bind_dec dec_digest (\<lambda>evidence.
    bind_dec (dec_text kMaxDetailBytes) (\<lambda>detail.
      let event =
        \<lparr>pe_sequence = sequence, pe_unix_millis = time, pe_kind = kind, pe_state = state,
         pe_movement_generation = generation, pe_reason = reason, pe_actor = actor,
         pe_actor_boot = boot, pe_actor_epoch = epoch, pe_attempt = attempt,
         pe_evidence = evidence, pe_detail = detail\<rparr>
      in check_dec (ProvenanceEvent_validate event) (return_dec event))))))))))))))"

section \<open>The chain\<close>

record provenance_chain =
  pc_events :: "provenance_event list"
  pc_bound :: nat

definition ProvenanceChain_default :: provenance_chain where
  "ProvenanceChain_default = \<lparr>pc_events = [], pc_bound = kMaxProvenanceEvents\<rparr>"

definition next_sequence :: "provenance_chain \<Rightarrow> u64" where
  "next_sequence chain = word_of_nat (length (pc_events chain)) + 1"

definition ProvenanceChain_append ::
    "provenance_event \<Rightarrow> provenance_chain \<Rightarrow> status \<times> provenance_chain" where
  "ProvenanceChain_append event chain =
    (if length (pc_events chain) \<ge> pc_bound chain
     then (Status HISTORY_LIMIT_REACHED
       ''provenance bound reached; the movement's history is already complete'', chain)
     else
       let event = (if pe_sequence event = 0 then event\<lparr>pe_sequence := next_sequence chain\<rparr> else event)
       in if pe_sequence event \<noteq> next_sequence chain
          then (Status STORE_RECORD_INVALID
            ''provenance events must be appended with contiguous sequences'', chain)
          else if \<not> Status_ok (ProvenanceEvent_validate event)
          then (ProvenanceEvent_validate event, chain)
          else (Status_success, chain\<lparr>pc_events := pc_events chain @ [event]\<rparr>))"

definition ProvenanceChain_append_fields ::
    "provenance_kind \<Rightarrow> movement_state \<Rightarrow> generation \<Rightarrow> reason_code \<Rightarrow> u64 \<Rightarrow> string \<Rightarrow>
     provenance_chain \<Rightarrow> status \<times> provenance_chain" where
  "ProvenanceChain_append_fields kind state generation reason now detail chain =
     ProvenanceChain_append
       (ProvenanceEvent_default
          \<lparr>pe_sequence := next_sequence chain, pe_unix_millis := now, pe_kind := kind,
           pe_state := state, pe_movement_generation := generation, pe_reason := reason,
           pe_detail := detail\<rparr>) chain"

definition ProvenanceChain_set_bound :: "nat \<Rightarrow> provenance_chain \<Rightarrow> provenance_chain" where
  "ProvenanceChain_set_bound bound chain =
     chain\<lparr>pc_bound := if bound = 0 then 1
       else if bound > kMaxProvenanceEvents then kMaxProvenanceEvents else bound\<rparr>"

definition ProvenanceChain_last_of :: "provenance_kind \<Rightarrow> provenance_chain \<Rightarrow> provenance_event option"
  where "ProvenanceChain_last_of kind chain = find (\<lambda>e. pe_kind e = kind) (rev (pc_events chain))"

definition ProvenanceChain_encode :: "provenance_chain \<Rightarrow> bytes" where
  "ProvenanceChain_encode chain =
     enc_u32 (word_of_nat (length (pc_events chain))) @
     concat (map ProvenanceEvent_encode (pc_events chain))"

text \<open>The loop of \<open>decode\<close>, from iteration \<open>i\<close> on with \<open>n\<close> iterations to go.\<close>

fun ProvenanceChain_decode_loop :: "nat \<Rightarrow> nat \<Rightarrow> provenance_chain \<Rightarrow> provenance_chain decode" where
  "ProvenanceChain_decode_loop 0 i chain = return_dec chain"
| "ProvenanceChain_decode_loop (Suc n) i chain =
    bind_dec ProvenanceEvent_decode (\<lambda>event.
      if pe_sequence event \<noteq> word_of_nat i + 1
      then fail_dec STORE_RECORD_INVALID ''provenance chain is not contiguous or is out of order''
      else case ProvenanceChain_append event chain of
        (s, chain) \<Rightarrow> check_dec s (ProvenanceChain_decode_loop n (i + 1) chain))"

definition ProvenanceChain_decode :: "provenance_chain decode" where
  "ProvenanceChain_decode =
    bind_dec (dec_count kMaxProvenanceEvents) (\<lambda>count.
    bind_dec (ProvenanceChain_decode_loop count 0 ProvenanceChain_default) (\<lambda>chain.
      if length (pc_events chain) > pc_bound chain
      then fail_dec STORE_RECORD_INVALID ''provenance chain exceeds its bound''
      else return_dec chain))"

section \<open>Events\<close>

interpretation provenance_kind_enum: wire_enum ProvenanceEventKind_value provenance_kinds
proof
  show "map ProvenanceEventKind_value provenance_kinds = map word_of_nat [0..<length provenance_kinds]"
    by (simp add: provenance_kinds_def upt_rec)
  show "k \<in> set provenance_kinds" for k
    by (cases k) (simp_all add: provenance_kinds_def)
qed (simp add: provenance_kinds_def)

lemmas dec_provenance_kind_iff [codec_iff] = provenance_kind_enum.dec_enum_iff

lemma provenance_kind_from_to_string:
  "provenance_kind_from_string (ProvenanceEventKind_to_string k) = Some k"
  by (cases k) (simp_all add: provenance_kind_from_string_def provenance_kinds_def)

text \<open>A well-formed event is valid and names a well-formed actor, or none.\<close>

definition event_wf :: "provenance_event \<Rightarrow> bool" where
  "event_wf e \<longleftrightarrow> Status_ok (ProvenanceEvent_validate e) \<and> endpoint_wf (pe_actor e)"

lemma event_valid_iff:
  "Status_ok (ProvenanceEvent_validate e) \<longleftrightarrow>
    pe_sequence e \<noteq> 0 \<and> 0 < sint (pe_unix_millis e) \<and> pe_movement_generation e \<noteq> 0 \<and>
    length (pe_detail e) \<le> kMaxDetailBytes \<and> is_valid_utf8 (as_bytes (pe_detail e))"
  by (auto simp: ProvenanceEvent_validate_def not_less)

lemma optional_endpoint_iff:
  "(if a \<noteq> [] then lift_dec (EndpointId_parse a) else return_dec []) c i = Inr (e, j) \<longleftrightarrow>
     e = a \<and> j = i \<and> endpoint_wf a"
  by (auto simp: endpoint_wf_def)

lemma ProvenanceEvent_decode_iff [codec_iff]:
  "dec_ok c \<Longrightarrow> ProvenanceEvent_decode c i = Inr (e, j) \<longleftrightarrow>
    event_wf e \<and> spells c i j (ProvenanceEvent_encode e)"
  using event_valid_iff [of e] endpoint_wf_text [of "pe_actor e"]
  by (cases e)
    (auto simp: ProvenanceEvent_decode_def ProvenanceEvent_encode_def event_wf_def
      optional_endpoint_iff dec_Inr_iffs codec_iff codec_simps)

interpretation event_codec: canonical_codec ProvenanceEvent_encode ProvenanceEvent_decode event_wf
  by unfold_locales (rule ProvenanceEvent_decode_iff)

section \<open>The append-only contract\<close>

text \<open>What the users of a history rely on.\<close>

locale append_only =
  fixes entries :: "'s \<Rightarrow> 'e list"
    and append :: "'x \<Rightarrow> 's \<Rightarrow> status \<times> 's"
    and inv :: "'s \<Rightarrow> bool"
    and admissible :: "'x \<Rightarrow> bool"
  assumes accepted: "append x s = (st, s') \<Longrightarrow> Status_ok st \<Longrightarrow> \<exists>e. entries s' = entries s @ [e]"
    and refused: "append x s = (st, s') \<Longrightarrow> \<not> Status_ok st \<Longrightarrow> s' = s"
    and inv_append: "inv s \<Longrightarrow> admissible x \<Longrightarrow> inv (snd (append x s))"
begin

definition append_all :: "'x list \<Rightarrow> 's \<Rightarrow> 's" where
  "append_all xs s = fold (\<lambda>x s. snd (append x s)) xs s"

lemma append_prefix: "\<exists>es. entries (snd (append x s)) = entries s @ es \<and> length es \<le> 1"
proof (cases "append x s")
  case (Pair st s')
  then show ?thesis
    using accepted [OF Pair] refused [OF Pair] by (cases "Status_ok st") auto
qed

lemma append_all_prefix: "\<exists>es. entries (append_all xs s) = entries s @ es \<and> length es \<le> length xs"
proof (induction xs arbitrary: s)
  case Nil
  then show ?case by (simp add: append_all_def)
next
  case (Cons x xs)
  obtain e where e: "entries (snd (append x s)) = entries s @ e" "length e \<le> 1"
    using append_prefix by blast
  obtain es where es: "entries (append_all xs (snd (append x s))) = entries (snd (append x s)) @ es"
      "length es \<le> length xs"
    using Cons.IH by blast
  then show ?case
    using e by (intro exI [of _ "e @ es"]) (simp add: append_all_def)
qed

lemma append_all_inv: "inv s \<Longrightarrow> list_all admissible xs \<Longrightarrow> inv (append_all xs s)"
  by (induction xs arbitrary: s) (simp_all add: append_all_def inv_append)

end

section \<open>The chain invariant\<close>

text \<open>The events are numbered from one without gaps, are well-formed, and fit the bound.\<close>

definition chain_wf :: "provenance_chain \<Rightarrow> bool" where
  "chain_wf chain \<longleftrightarrow>
     map (\<lambda>e. unat (pe_sequence e)) (pc_events chain) = [1..<Suc (length (pc_events chain))] \<and>
     list_all event_wf (pc_events chain) \<and> length (pc_events chain) \<le> kMaxProvenanceEvents \<and>
     1 \<le> pc_bound chain \<and> pc_bound chain \<le> kMaxProvenanceEvents"

lemma chain_wf_default [simp]: "chain_wf ProvenanceChain_default"
  by (simp add: chain_wf_def ProvenanceChain_default_def)

lemma chain_wf_set_bound: "chain_wf chain \<Longrightarrow> chain_wf (ProvenanceChain_set_bound b chain)"
  by (simp add: chain_wf_def ProvenanceChain_set_bound_def)

lemma unat_next_sequence:
  "length (pc_events chain) \<le> 256 \<Longrightarrow> unat (next_sequence chain) = length (pc_events chain) + 1"
  by (simp add: next_sequence_def unat_word_ariths unat_word_of_nat_u64)

lemma ProvenanceChain_append_cases:
  assumes "ProvenanceChain_append event chain = (st, chain')"
  obtains (accepted) e where "st = Status_success" "chain' = chain\<lparr>pc_events := pc_events chain @ [e]\<rparr>"
      "e = event\<lparr>pe_sequence := next_sequence chain\<rparr>" "Status_ok (ProvenanceEvent_validate e)"
      "length (pc_events chain) < pc_bound chain"
  | (refused) "\<not> Status_ok st" "chain' = chain"
proof (cases "pe_sequence event = 0 \<or> pe_sequence event = next_sequence chain")
  case True
  let ?e = "event\<lparr>pe_sequence := next_sequence chain\<rparr>"
  have "(if pe_sequence event = 0 then ?e else event) = ?e"
    using True by auto
  then show ?thesis
    using assms that unfolding ProvenanceChain_append_def Let_def
    by (auto simp: not_le split: if_splits)
next
  case False
  then show ?thesis
    using assms that(2) unfolding ProvenanceChain_append_def Let_def
    by (auto split: if_splits)
qed

lemma chain_wf_append:
  assumes "chain_wf chain" "endpoint_wf (pe_actor event)"
  shows "chain_wf (snd (ProvenanceChain_append event chain))"
proof (cases "ProvenanceChain_append event chain")
  case (Pair st chain')
  then show ?thesis
  proof (cases rule: ProvenanceChain_append_cases)
    case (accepted e)
    then show ?thesis
      using assms Pair unat_next_sequence [of chain]
      by (auto simp: chain_wf_def event_wf_def)
  qed (use assms Pair in simp)
qed

interpretation chain: append_only pc_events ProvenanceChain_append chain_wf
    "\<lambda>event. endpoint_wf (pe_actor event)"
proof
  show "\<exists>e. pc_events s' = pc_events s @ [e]"
    if "ProvenanceChain_append x s = (st, s')" "Status_ok st" for x s st s'
    using that by (cases rule: ProvenanceChain_append_cases) auto
  show "s' = s" if "ProvenanceChain_append x s = (st, s')" "\<not> Status_ok st" for x s st s'
    using that by (cases rule: ProvenanceChain_append_cases) auto
qed (rule chain_wf_append)

text \<open>An event with the next sequence number, a positive timestamp, a generation and a bounded
  UTF-8 detail is accepted while there is room.\<close>

lemma ProvenanceChain_append_accepts:
  assumes "chain_wf chain" "length (pc_events chain) < pc_bound chain"
    "pe_sequence event = next_sequence chain" "0 < sint (pe_unix_millis event)"
    "pe_movement_generation event \<noteq> 0" "length (pe_detail event) \<le> 1024"
    "is_valid_utf8 (as_bytes (pe_detail event))"
  shows "ProvenanceChain_append event chain =
    (Status_success, chain\<lparr>pc_events := pc_events chain @ [event]\<rparr>)"
proof -
  have "unat (next_sequence chain) \<noteq> 0"
    using assms(1) unat_next_sequence [of chain] by (simp add: chain_wf_def)
  then have "pe_sequence event \<noteq> 0"
    using assms(3) by auto
  then have "Status_ok (ProvenanceEvent_validate event)"
    using assms by (simp add: event_valid_iff)
  then show ?thesis
    using assms \<open>pe_sequence event \<noteq> 0\<close> by (simp add: ProvenanceChain_append_def Let_def)
qed

section \<open>The chain codec\<close>

lemma chain_wf_take:
  assumes "chain_wf (chain\<lparr>pc_events := xs @ ys\<rparr>)"
  shows "chain_wf (chain\<lparr>pc_events := xs\<rparr>)"
proof -
  let ?f = "\<lambda>e. unat (pe_sequence e)"
  have "map ?f xs = take (length xs) (map ?f (xs @ ys))"
    by simp
  also have "map ?f (xs @ ys) = [1..<Suc (length xs + length ys)]"
    using assms by (simp add: chain_wf_def del: upt_Suc)
  finally have "map ?f xs = [1..<Suc (length xs)]"
    by (simp del: upt_Suc)
  then show ?thesis
    using assms by (simp add: chain_wf_def)
qed

lemma chain_wf_last:
  assumes "chain_wf (chain\<lparr>pc_events := xs @ [e]\<rparr>)"
  shows "event_wf e \<and> pe_sequence e = word_of_nat (length xs) + 1 \<and> length xs < 256"
proof -
  have "unat (pe_sequence e) = length xs + 1" "length xs < 256"
    using assms by (auto simp: chain_wf_def)
  then have "pe_sequence e = word_of_nat (length xs) + 1"
    by (simp add: word_unat_eq_iff unat_word_ariths unat_word_of_nat_u64)
  then show ?thesis
    using assms by (auto simp: chain_wf_def)
qed

lemma chain_decode_append:
  assumes "chain_wf chain" "pc_bound chain = 256" "event_wf e"
    "pe_sequence e = word_of_nat (length (pc_events chain)) + 1"
  shows "ProvenanceChain_append e chain =
    (if length (pc_events chain) \<ge> 256
     then (Status HISTORY_LIMIT_REACHED
       ''provenance bound reached; the movement's history is already complete'', chain)
     else (Status_success, chain\<lparr>pc_events := pc_events chain @ [e]\<rparr>))"
  using assms ProvenanceChain_append_accepts [OF assms(1), of e]
  by (auto simp: event_wf_def event_valid_iff next_sequence_def ProvenanceChain_append_def)

lemma ProvenanceChain_decode_loop_iff:
  assumes "dec_ok c" "chain_wf chain" "pc_bound chain = 256"
  shows "ProvenanceChain_decode_loop n (length (pc_events chain)) chain c i = Inr (chain', j) \<longleftrightarrow>
    (\<exists>es. length es = n \<and> chain' = chain\<lparr>pc_events := pc_events chain @ es\<rparr> \<and> chain_wf chain' \<and>
      spells c i j (concat (map ProvenanceEvent_encode es)))"
  using assms
proof (induction n arbitrary: chain i)
  case 0
  then show ?case by auto
next
  case (Suc n)
  let ?chain = "\<lambda>es. chain\<lparr>pc_events := pc_events chain @ es\<rparr>"
  have IH: "ProvenanceChain_decode_loop n (length (pc_events chain) + 1) (?chain [e]) c k = Inr (chain', j) \<longleftrightarrow>
      (\<exists>es. length es = n \<and> chain' = ?chain (e # es) \<and> chain_wf chain' \<and>
        spells c k j (concat (map ProvenanceEvent_encode es)))" if "chain_wf (?chain [e])" for e k
    using Suc.IH [of "?chain [e]" k] Suc.prems that by simp
  have wf1: "event_wf e \<and> pe_sequence e = word_of_nat (length (pc_events chain)) + 1 \<and>
      length (pc_events chain) < 256 \<longleftrightarrow> chain_wf (?chain [e])" for e
    using chain_wf_last [of "pc_events chain" e chain] Suc.prems
      chain_wf_append [of chain e] chain_decode_append [of chain e]
    by (auto simp: event_wf_def)
  have wf2: "chain_wf (?chain (e # es)) \<Longrightarrow> chain_wf (?chain [e])" for e es
    using chain_wf_take [of "pc_events chain @ [e]" es chain] by simp
  show ?case
  proof
    assume "ProvenanceChain_decode_loop (Suc n) (length (pc_events chain)) chain c i = Inr (chain', j)"
    then obtain e k where e: "event_wf e" "spells c i k (ProvenanceEvent_encode e)"
        "pe_sequence e = word_of_nat (length (pc_events chain)) + 1"
      and rest: "(case ProvenanceChain_append e chain of
        (s, chain'') \<Rightarrow> check_dec s
          (ProvenanceChain_decode_loop n (length (pc_events chain) + 1) chain'')) c k = Inr (chain', j)"
      using Suc.prems(1) by (auto simp: bind_dec_Inr_iff codec_iff split: if_splits)
    from rest have "chain_wf (?chain [e])"
      and "ProvenanceChain_decode_loop n (length (pc_events chain) + 1) (?chain [e]) c k = Inr (chain', j)"
      using chain_decode_append [OF Suc.prems(2,3) e(1,3)] e wf1 [of e]
      by (auto split: if_splits)
    then show "\<exists>es. length es = Suc n \<and> chain' = ?chain es \<and> chain_wf chain' \<and>
        spells c i j (concat (map ProvenanceEvent_encode es))"
      using IH e(2) by (force simp: spells_append)
  next
    assume "\<exists>es. length es = Suc n \<and> chain' = ?chain es \<and> chain_wf chain' \<and>
        spells c i j (concat (map ProvenanceEvent_encode es))"
    then obtain e es k where es: "length es = n" "chain' = ?chain (e # es)" "chain_wf chain'"
        "spells c i k (ProvenanceEvent_encode e)"
        "spells c k j (concat (map ProvenanceEvent_encode es))"
      by (auto simp: length_Suc_conv spells_append)
    then have wf: "chain_wf (?chain [e])"
      using wf2 by blast
    then have e: "event_wf e" "pe_sequence e = word_of_nat (length (pc_events chain)) + 1"
        "length (pc_events chain) < 256"
      using wf1 by blast+
    have "ProvenanceChain_decode_loop n (length (pc_events chain) + 1) (?chain [e]) c k = Inr (chain', j)"
      using IH [OF wf] es by blast
    then show "ProvenanceChain_decode_loop (Suc n) (length (pc_events chain)) chain c i = Inr (chain', j)"
      using Suc.prems(1) es(4) e chain_decode_append [OF Suc.prems(2,3) e(1,2)]
      by (auto simp: bind_dec_Inr_iff codec_iff intro!: exI [of _ e] exI [of _ k])
  qed
qed

lemma ProvenanceChain_decode_iff [codec_iff]:
  assumes "dec_ok c"
  shows "ProvenanceChain_decode c i = Inr (chain, j) \<longleftrightarrow>
    (chain_wf chain \<and> pc_bound chain = 256) \<and> spells c i j (ProvenanceChain_encode chain)"
proof -
  have loop: "ProvenanceChain_decode_loop n 0 ProvenanceChain_default c k = Inr (chain, j) \<longleftrightarrow>
      length (pc_events chain) = n \<and> pc_bound chain = 256 \<and> chain_wf chain \<and>
      spells c k j (concat (map ProvenanceEvent_encode (pc_events chain)))" for n k
    using ProvenanceChain_decode_loop_iff [OF assms, of ProvenanceChain_default n k chain j]
      chain_wf_default
    by (cases chain) (auto simp: ProvenanceChain_default_def simp del: chain_wf_default)
  have "dec_count 256 c i = Inr (n, k) \<longleftrightarrow> n \<le> 256 \<and> spells c i k (enc_u32 (word_of_nat n))" for n k
    using assms by (auto simp: dec_count_iff)
  moreover have "chain_wf chain \<Longrightarrow> length (pc_events chain) \<le> 256"
    by (simp add: chain_wf_def)
  ultimately show ?thesis
    unfolding ProvenanceChain_decode_def ProvenanceChain_encode_def spells_append
    by (simp add: dec_Inr_iffs loop) (auto, force)
qed

interpretation chain_codec: canonical_codec ProvenanceChain_encode ProvenanceChain_decode
    "\<lambda>chain. chain_wf chain \<and> pc_bound chain = 256"
  by unfold_locales (rule ProvenanceChain_decode_iff)

end
