(* ===== verification/SMF_Movement.thy ===== *)
theory SMF_Movement
  imports SMF_Provenance SMF_State_Object
begin

text \<open>
  \<^verbatim>\<open>include/smf/movement.hpp\<close> and the second half of \<^verbatim>\<open>src/movement.cpp\<close>: the movement record,
  its validation and canonical encoding, and the operations that change it.  An operation that
  mutates its record returns the status together with the record it leaves behind.

  The lemmas show what every branch of \<open>apply_transition\<close> and \<open>record_attempt_started\<close> leaves,
  that accepted operations advance the fencing generation by one and record exactly one event,
  and that the provenance chain of a record is, along every history, a legal execution of the
  state machine that ends in the recorded state.
\<close>

record movement_decision =
  md_allowed :: bool
  md_code :: reason_code
  md_detail :: string

definition MovementDecision_allow :: movement_decision where
  "MovementDecision_allow = \<lparr>md_allowed = True, md_code = OK, md_detail = []\<rparr>"

definition MovementDecision_allow_with :: "reason_code \<Rightarrow> string \<Rightarrow> movement_decision" where
  "MovementDecision_allow_with code detail = \<lparr>md_allowed = True, md_code = code, md_detail = detail\<rparr>"

definition MovementDecision_deny :: "reason_code \<Rightarrow> string \<Rightarrow> movement_decision" where
  "MovementDecision_deny code detail = \<lparr>md_allowed = False, md_code = code, md_detail = detail\<rparr>"

definition MovementDecision_status :: "movement_decision \<Rightarrow> status" where
  "MovementDecision_status d =
     (if md_allowed d then Status_success else Status (md_code d) (md_detail d))"

record movement_record =
  mr_id :: movement_id
  mr_generation :: generation
  mr_object :: state_object
  mr_source :: endpoint_id
  mr_destination :: endpoint_id
  mr_source_incarnation :: incarnation
  mr_destination_incarnation :: incarnation
  mr_compatibility_generation :: generation
  mr_compatibility_evidence :: digest
  mr_topology_generation :: generation
  mr_policy_generation :: generation
  mr_state :: movement_state
  mr_last_reason :: reason_code
  mr_last_detail :: string
  mr_attempt :: attempt_id
  mr_attempt_count :: u32
  mr_bytes_transferred :: u64
  mr_chunks_verified :: u32
  mr_source_verified_digest :: digest
  mr_destination_verified_digest :: digest
  mr_commit_marker_digest :: digest
  mr_created_unix_millis :: u64
  mr_updated_unix_millis :: u64
  mr_repeatable :: bool
  mr_cancel_requested :: bool
  mr_provenance :: provenance_chain

definition MovementRecord_validate :: "movement_record \<Rightarrow> status" where
  "MovementRecord_validate r =
    (if FixedId_is_zero (mr_id r) then Status INVALID_ID ''movement id must not be zero''
     else if \<not> Generation_is_set (mr_generation r)
     then Status INVALID_GENERATION ''movement generation must be non-zero''
     else if \<not> Status_ok (StateObjectDescriptor_validate (mr_object r))
     then StateObjectDescriptor_validate (mr_object r)
     else if mr_source r = [] \<or> mr_destination r = []
     then Status INVALID_ID ''movement must name a source and a destination''
     else if mr_source r = mr_destination r
     then Status SELF_MOVEMENT ''source and destination endpoints are the same''
     else if \<not> Incarnation_is_set (mr_source_incarnation r) \<or>
             \<not> Incarnation_is_set (mr_destination_incarnation r)
     then Status STALE_INCARNATION ''movement must bind both endpoint incarnations''
     else if inc_endpoint (mr_source_incarnation r) \<noteq> mr_source r
     then Status STALE_INCARNATION ''source incarnation names a different endpoint''
     else if inc_endpoint (mr_destination_incarnation r) \<noteq> mr_destination r
     then Status STALE_INCARNATION ''destination incarnation names a different endpoint''
     else if \<not> Generation_is_set (mr_topology_generation r) \<or>
             \<not> Generation_is_set (mr_policy_generation r)
     then Status INVALID_GENERATION
       ''movement must record the topology and policy generations it was decided under''
     else if mr_attempt_count r > kMaxAttemptsHardLimit
     then Status ATTEMPT_EXHAUSTED ''movement records more attempts than are permitted''
     else if mr_chunks_verified r > so_chunk_count (mr_object r)
     then Status STORE_RECORD_INVALID ''movement claims more verified chunks than exist''
     else if is_committed (mr_state r) \<and> Digest_is_zero (mr_commit_marker_digest r)
     then Status COMMIT_MARKER_INVALID
       ''a committed movement must record the digest of its commit marker''
     else if length (mr_last_detail r) > kMaxDetailBytes
     then Status INVALID_ARGUMENT ''movement detail exceeds the text bound''
     else Status_success)"

definition MovementRecord_encode :: "movement_record \<Rightarrow> bytes" where
  "MovementRecord_encode r =
     FixedId_encode (mr_id r) @
     enc_u64 (mr_generation r) @
     StateObjectDescriptor_encode (mr_object r) @
     enc_text (mr_source r) @
     enc_text (mr_destination r) @
     enc_text (inc_endpoint (mr_source_incarnation r)) @
     FixedId_encode (inc_boot (mr_source_incarnation r)) @
     enc_u64 (inc_epoch (mr_source_incarnation r)) @
     enc_text (inc_endpoint (mr_destination_incarnation r)) @
     FixedId_encode (inc_boot (mr_destination_incarnation r)) @
     enc_u64 (inc_epoch (mr_destination_incarnation r)) @
     enc_u64 (mr_compatibility_generation r) @
     enc_digest (mr_compatibility_evidence r) @
     enc_u64 (mr_topology_generation r) @
     enc_u64 (mr_policy_generation r) @
     enc_u8 (MovementState_value (mr_state r)) @
     enc_u16 (mr_last_reason r) @
     enc_text (mr_last_detail r) @
     FixedId_encode (mr_attempt r) @
     enc_u32 (mr_attempt_count r) @
     enc_u64 (mr_bytes_transferred r) @
     enc_u32 (mr_chunks_verified r) @
     enc_digest (mr_source_verified_digest r) @
     enc_digest (mr_destination_verified_digest r) @
     enc_digest (mr_commit_marker_digest r) @
     enc_i64 (mr_created_unix_millis r) @
     enc_i64 (mr_updated_unix_millis r) @
     enc_boolean (mr_repeatable r) @
     enc_boolean (mr_cancel_requested r) @
     ProvenanceChain_encode (mr_provenance r)"

definition MovementRecord_decode :: "movement_record decode" where
  "MovementRecord_decode =
    bind_dec FixedId_decode (\<lambda>mid.
    bind_dec dec_u64 (\<lambda>generation.
    bind_dec StateObjectDescriptor_decode (\<lambda>object.
    bind_dec (dec_text kMaxEndpointIdBytes) (\<lambda>source.
    bind_dec (lift_dec (EndpointId_parse source)) (\<lambda>source_id.
    bind_dec (dec_text kMaxEndpointIdBytes) (\<lambda>destination.
    bind_dec (lift_dec (EndpointId_parse destination)) (\<lambda>destination_id.
    bind_dec (dec_text kMaxEndpointIdBytes) (\<lambda>source_endpoint.
    bind_dec FixedId_decode (\<lambda>source_boot.
    bind_dec dec_u64 (\<lambda>source_epoch.
    bind_dec (dec_text kMaxEndpointIdBytes) (\<lambda>destination_endpoint.
    bind_dec FixedId_decode (\<lambda>destination_boot.
    bind_dec dec_u64 (\<lambda>destination_epoch.
    bind_dec (lift_dec (EndpointId_parse source_endpoint)) (\<lambda>source_parsed.
    bind_dec (lift_dec (EndpointId_parse destination_endpoint)) (\<lambda>destination_parsed.
    bind_dec (lift_dec (Incarnation_make source_parsed source_boot source_epoch))
      (\<lambda>source_incarnation.
    bind_dec (lift_dec (Incarnation_make destination_parsed destination_boot destination_epoch))
      (\<lambda>destination_incarnation.
    bind_dec dec_u64 (\<lambda>compatibility_generation.
    bind_dec dec_digest (\<lambda>compatibility_evidence.
    bind_dec dec_u64 (\<lambda>topology_generation.
    bind_dec dec_u64 (\<lambda>policy_generation.
    bind_dec (dec_enum movement_states STORE_RECORD_INVALID
      ''recorded movement state is not recognized'') (\<lambda>state.
    bind_dec dec_u16 (\<lambda>reason.
    bind_dec (dec_text kMaxDetailBytes) (\<lambda>detail.
    bind_dec FixedId_decode (\<lambda>attempt.
    bind_dec dec_u32 (\<lambda>attempt_count.
    bind_dec dec_u64 (\<lambda>bytes.
    bind_dec dec_u32 (\<lambda>chunks.
    bind_dec dec_digest (\<lambda>source_digest.
    bind_dec dec_digest (\<lambda>destination_digest.
    bind_dec dec_digest (\<lambda>marker.
    bind_dec dec_i64 (\<lambda>created.
    bind_dec dec_i64 (\<lambda>updated.
    bind_dec dec_boolean (\<lambda>repeatable.
    bind_dec dec_boolean (\<lambda>cancel_requested.
    bind_dec ProvenanceChain_decode (\<lambda>provenance.
      let record =
        \<lparr>mr_id = mid, mr_generation = generation, mr_object = object, mr_source = source_id,
         mr_destination = destination_id, mr_source_incarnation = source_incarnation,
         mr_destination_incarnation = destination_incarnation,
         mr_compatibility_generation = compatibility_generation,
         mr_compatibility_evidence = compatibility_evidence,
         mr_topology_generation = topology_generation, mr_policy_generation = policy_generation,
         mr_state = state, mr_last_reason = reason, mr_last_detail = detail,
         mr_attempt = attempt, mr_attempt_count = attempt_count, mr_bytes_transferred = bytes,
         mr_chunks_verified = chunks, mr_source_verified_digest = source_digest,
         mr_destination_verified_digest = destination_digest, mr_commit_marker_digest = marker,
         mr_created_unix_millis = created, mr_updated_unix_millis = updated,
         mr_repeatable = repeatable, mr_cancel_requested = cancel_requested,
         mr_provenance = provenance\<rparr>
      in check_dec (MovementRecord_validate record)
           (return_dec record)))))))))))))))))))))))))))))))))))))"

definition record_digest :: "movement_record \<Rightarrow> digest" where
  "record_digest r = canonical_digest (enc_text ''SMF-MOVEMENT-RECORD-v1'' @ MovementRecord_encode r)"

section \<open>Operations\<close>

definition apply_transition ::
    "movement_record \<Rightarrow> movement_state \<Rightarrow> movement_decision \<Rightarrow> provenance_kind \<Rightarrow> u64 \<Rightarrow>
     status \<times> movement_record" where
  "apply_transition record next decision kind now =
    (let legality = check_transition (mr_state record) next
     in if \<not> Status_ok legality
        then
          let record = record\<lparr>mr_last_reason := status_code legality,
                mr_last_detail := status_message legality\<rparr>;
              (_, chain) = ProvenanceChain_append_fields PK_STALE_REJECTED (mr_state record)
                (mr_generation record) (status_code legality) now (status_message legality)
                (mr_provenance record)
          in (legality, record\<lparr>mr_provenance := chain\<rparr>)
        else case Generation_next (mr_generation record) of
          Inl s \<Rightarrow> (s, record)
        | Inr advanced \<Rightarrow>
            let record = record\<lparr>mr_generation := advanced, mr_state := next,
                  mr_last_reason := md_code decision, mr_last_detail := md_detail decision,
                  mr_updated_unix_millis := now\<rparr>;
                event = ProvenanceEvent_default
                  \<lparr>pe_sequence := next_sequence (mr_provenance record), pe_unix_millis := now,
                   pe_kind := kind, pe_state := next,
                   pe_movement_generation := mr_generation record,
                   pe_reason := md_code decision, pe_detail := md_detail decision\<rparr>;
                (s, chain) = ProvenanceChain_append event (mr_provenance record)
            in (s, record\<lparr>mr_provenance := chain\<rparr>))"

definition record_attempt_started ::
    "movement_record \<Rightarrow> attempt_id \<Rightarrow> u64 \<Rightarrow> status \<times> movement_record" where
  "record_attempt_started record attempt now =
    (if is_terminal (mr_state record)
     then (Status ALREADY_TERMINAL ''movement is already terminal'', record)
     else case Generation_next (mr_generation record) of
       Inl s \<Rightarrow> (s, record)
     | Inr advanced \<Rightarrow>
         let record = record\<lparr>mr_generation := advanced, mr_attempt := attempt,
               mr_attempt_count := mr_attempt_count record + 1, mr_updated_unix_millis := now\<rparr>;
             event = ProvenanceEvent_default
               \<lparr>pe_sequence := next_sequence (mr_provenance record), pe_unix_millis := now,
                pe_kind := PK_ATTEMPT_STARTED, pe_state := mr_state record,
                pe_movement_generation := mr_generation record, pe_reason := OK,
                pe_attempt := attempt,
                pe_detail := ''attempt '' @ decimal (unat (mr_attempt_count record))\<rparr>;
             (s, chain) = ProvenanceChain_append event (mr_provenance record)
         in (s, record\<lparr>mr_provenance := chain\<rparr>))"

definition evaluate_supersession :: "movement_record \<Rightarrow> state_object \<Rightarrow> movement_decision" where
  "evaluate_supersession record current =
    (if \<not> same_object current (mr_object record)
     then MovementDecision_deny STALE_STATE_GENERATION ''source announced a different state object''
     else if so_generation current > so_generation (mr_object record)
     then MovementDecision_deny MOVEMENT_SUPERSEDED
       (''source state generation advanced from '' @
        decimal (unat (so_generation (mr_object record))) @ '' to '' @
        decimal (unat (so_generation current)))
     else if so_content_digest current \<noteq> so_content_digest (mr_object record)
     then MovementDecision_deny STALE_STATE_GENERATION
       ''source content digest changed for the same generation''
     else MovementDecision_allow)"

definition summarize :: "movement_record \<Rightarrow> string" where
  "summarize r =
     take 12 (FixedId_hex (mr_id r)) @ '' '' @ MovementState_to_string (mr_state r) @
     '' gen='' @ decimal (unat (so_generation (mr_object r))) @ '' '' @ mr_source r @ ''->'' @
     mr_destination r @ '' attempts='' @ decimal (unat (mr_attempt_count r)) @ '' bytes='' @
     decimal (unat (mr_bytes_transferred r)) @ '' reason='' @ ReasonCode_to_string (mr_last_reason r)"

section \<open>Well-formed records and their encoding\<close>

abbreviation movement_valid :: "movement_record \<Rightarrow> bool" where
  "movement_valid r \<equiv> Status_ok (MovementRecord_validate r)"

text \<open>What the types of the members promise besides \<open>validate\<close>: endpoint names are parsed
  names, the detail is UTF-8, the chain is well-formed.\<close>

definition movement_wf :: "movement_record \<Rightarrow> bool" where
  "movement_wf r \<longleftrightarrow> movement_valid r \<and> EndpointId_is_valid (mr_source r) \<and>
     EndpointId_is_valid (mr_destination r) \<and> is_valid_utf8 (as_bytes (mr_last_detail r)) \<and>
     chain_wf (mr_provenance r) \<and> pc_bound (mr_provenance r) = 256"

lemma movement_valid_iff:
  "movement_valid r \<longleftrightarrow>
    mr_id r \<noteq> 0 \<and> mr_generation r \<noteq> 0 \<and> descriptor_valid (mr_object r) \<and> mr_source r \<noteq> [] \<and>
    mr_destination r \<noteq> [] \<and> mr_source r \<noteq> mr_destination r \<and>
    Incarnation_is_set (mr_source_incarnation r) \<and> Incarnation_is_set (mr_destination_incarnation r) \<and>
    inc_endpoint (mr_source_incarnation r) = mr_source r \<and>
    inc_endpoint (mr_destination_incarnation r) = mr_destination r \<and>
    mr_topology_generation r \<noteq> 0 \<and> mr_policy_generation r \<noteq> 0 \<and> mr_attempt_count r \<le> 64 \<and>
    mr_chunks_verified r \<le> so_chunk_count (mr_object r) \<and>
    (mr_state r = MS_COMMITTED \<longrightarrow> mr_commit_marker_digest r \<noteq> 0) \<and>
    length (mr_last_detail r) \<le> kMaxDetailBytes"
  unfolding MovementRecord_validate_def is_committed_def by (auto simp: not_less)

lemma MovementRecord_decode_iff [codec_iff]:
  "dec_ok c \<Longrightarrow> MovementRecord_decode c i = Inr (r, j) \<longleftrightarrow>
    movement_wf r \<and> spells c i j (MovementRecord_encode r)"
  using movement_valid_iff [of r] EndpointId_is_valid_utf8 EndpointId_is_valid_length
  by (cases r)
    (auto simp: MovementRecord_decode_def MovementRecord_encode_def movement_wf_def
      Incarnation_make_Inr_iff dec_Inr_iffs codec_iff codec_simps)

interpretation movement_codec: canonical_codec MovementRecord_encode MovementRecord_decode movement_wf
  by unfold_locales (rule MovementRecord_decode_iff)

section \<open>Transitions\<close>

definition transition_event ::
    "movement_record \<Rightarrow> movement_state \<Rightarrow> generation \<Rightarrow> movement_decision \<Rightarrow> provenance_kind \<Rightarrow> u64 \<Rightarrow>
     provenance_event" where
  "transition_event r next g decision kind now =
     ProvenanceEvent_default
       \<lparr>pe_sequence := next_sequence (mr_provenance r), pe_unix_millis := now, pe_kind := kind,
        pe_state := next, pe_movement_generation := g, pe_reason := md_code decision,
        pe_detail := md_detail decision\<rparr>"

definition transitioned ::
    "movement_record \<Rightarrow> movement_state \<Rightarrow> generation \<Rightarrow> movement_decision \<Rightarrow> u64 \<Rightarrow> movement_record" where
  "transitioned r next g decision now =
     r\<lparr>mr_generation := g, mr_state := next, mr_last_reason := md_code decision,
       mr_last_detail := md_detail decision, mr_updated_unix_millis := now\<rparr>"

lemma apply_transition_legal:
  assumes "legal (mr_state r) next" "Generation_next (mr_generation r) = Inr g"
  shows "apply_transition r next decision kind now =
    (let (s, chain) = ProvenanceChain_append (transition_event r next g decision kind now) (mr_provenance r)
     in (s, (transitioned r next g decision now)\<lparr>mr_provenance := chain\<rparr>))"
  using assms
  by (simp add: apply_transition_def transition_event_def transitioned_def Let_def split: prod.splits)

lemma apply_transition_exhausted:
  assumes "legal (mr_state r) next" "Generation_next (mr_generation r) = Inl e"
  shows "apply_transition r next decision kind now = (e, r)"
  using assms by (simp add: apply_transition_def)

text \<open>A refused transition leaves state, generation and every other member alone; only the
  last reason and detail change, and one event may be added to the chain.\<close>

lemma apply_transition_illegal:
  assumes "\<not> legal (mr_state r) next" "apply_transition r next decision kind now = (st, r')"
  shows "st = check_transition (mr_state r) next \<and>
    (\<exists>chain. r' = r\<lparr>mr_last_reason := status_code st, mr_last_detail := status_message st,
        mr_provenance := chain\<rparr> \<and>
      chain = snd (ProvenanceChain_append_fields PK_STALE_REJECTED (mr_state r) (mr_generation r)
        (status_code st) now (status_message st) (mr_provenance r)))"
  using assms by (auto simp: apply_transition_def Let_def split: prod.splits)

lemma apply_transition_okE:
  assumes "apply_transition r next decision kind now = (st, r')" "Status_ok st"
  obtains g e where "legal (mr_state r) next" "unat g = unat (mr_generation r) + 1"
    "e = transition_event r next g decision kind now" "Status_ok (ProvenanceEvent_validate e)"
    "length (pc_events (mr_provenance r)) < pc_bound (mr_provenance r)"
    "r' = (transitioned r next g decision now)
       \<lparr>mr_provenance := (mr_provenance r)\<lparr>pc_events := pc_events (mr_provenance r) @ [e]\<rparr>\<rparr>"
proof -
  have legal: "legal (mr_state r) next"
    using apply_transition_illegal [OF _ assms(1)] assms(2) by blast
  show ?thesis
  proof (cases "Generation_next (mr_generation r)")
    case (Inl e)
    then have "\<not> Status_ok e"
      by (auto simp: Generation_next_def split: if_splits)
    then show ?thesis
      using apply_transition_exhausted [OF legal Inl] assms by simp
  next
    case (Inr g)
    let ?e = "transition_event r next g decision kind now"
    obtain s chain where append: "ProvenanceChain_append ?e (mr_provenance r) = (s, chain)"
      by fastforce
    then have r': "st = s" "r' = (transitioned r next g decision now)\<lparr>mr_provenance := chain\<rparr>"
      using apply_transition_legal [OF legal Inr] assms(1) by auto
    have "?e\<lparr>pe_sequence := next_sequence (mr_provenance r)\<rparr> = ?e"
      by (simp add: transition_event_def)
    from append this show ?thesis
      by (cases rule: ProvenanceChain_append_cases)
        (use that legal Inr r' assms(2) in \<open>auto simp: Generation_next_Inr_iff\<close>)
  qed
qed

definition attempt_event :: "movement_record \<Rightarrow> generation \<Rightarrow> attempt_id \<Rightarrow> u64 \<Rightarrow> provenance_event" where
  "attempt_event r g attempt now =
     ProvenanceEvent_default
       \<lparr>pe_sequence := next_sequence (mr_provenance r), pe_unix_millis := now,
        pe_kind := PK_ATTEMPT_STARTED, pe_state := mr_state r, pe_movement_generation := g,
        pe_reason := OK, pe_attempt := attempt,
        pe_detail := ''attempt '' @ decimal (unat (mr_attempt_count r + 1))\<rparr>"

lemma record_attempt_started_okE:
  assumes "record_attempt_started r attempt now = (st, r')" "Status_ok st"
  obtains g e where "\<not> is_terminal (mr_state r)" "unat g = unat (mr_generation r) + 1"
    "e = attempt_event r g attempt now" "Status_ok (ProvenanceEvent_validate e)"
    "r' = r\<lparr>mr_generation := g, mr_attempt := attempt, mr_attempt_count := mr_attempt_count r + 1,
       mr_updated_unix_millis := now,
       mr_provenance := (mr_provenance r)\<lparr>pc_events := pc_events (mr_provenance r) @ [e]\<rparr>\<rparr>"
proof (cases "Generation_next (mr_generation r)")
  case (Inl e)
  then have "\<not> Status_ok e"
    by (auto simp: Generation_next_def split: if_splits)
  then show ?thesis
    using assms Inl by (auto simp: record_attempt_started_def split: if_splits)
next
  case (Inr g)
  let ?e = "attempt_event r g attempt now"
  obtain s chain where append: "ProvenanceChain_append ?e (mr_provenance r) = (s, chain)"
    by fastforce
  then have r': "\<not> is_terminal (mr_state r)" "st = s"
      "r' = r\<lparr>mr_generation := g, mr_attempt := attempt, mr_attempt_count := mr_attempt_count r + 1,
         mr_updated_unix_millis := now, mr_provenance := chain\<rparr>"
    using assms Inr by (auto simp: record_attempt_started_def attempt_event_def Let_def split: if_splits)
  have "?e\<lparr>pe_sequence := next_sequence (mr_provenance r)\<rparr> = ?e"
    by (simp add: attempt_event_def)
  from append this show ?thesis
    by (cases rule: ProvenanceChain_append_cases)
      (use that Inr r' assms(2) in \<open>auto simp: Generation_next_Inr_iff\<close>)
qed

section \<open>Histories of a record\<close>

text \<open>One step of the life of a record: a transition that was accepted or refused by the state
  machine, or the start of an attempt.  An operation that fails for another reason (the
  generation space or the provenance bound is exhausted, an event is invalid) is not a step.\<close>

inductive record_step :: "movement_record \<Rightarrow> movement_record \<Rightarrow> bool" where
  step_accepted: "apply_transition r next decision kind now = (st, r') \<Longrightarrow> Status_ok st \<Longrightarrow> record_step r r'"
| step_refused: "apply_transition r next decision kind now = (st, r') \<Longrightarrow>
    \<not> legal (mr_state r) next \<Longrightarrow> record_step r r'"
| step_attempt: "record_attempt_started r attempt now = (st, r') \<Longrightarrow> Status_ok st \<Longrightarrow> record_step r r'"

abbreviation record_events :: "movement_record \<Rightarrow> provenance_event list" where
  "record_events r \<equiv> pc_events (mr_provenance r)"

text \<open>The chain of a record tells its story: it starts planned, follows legal transitions, its
  generations never decrease, and it ends in the recorded state, not after the recorded
  generation.\<close>

definition history_ok :: "movement_record \<Rightarrow> bool" where
  "history_ok r \<longleftrightarrow> record_events r \<noteq> [] \<and> pe_state (hd (record_events r)) = MS_PLANNED \<and>
     pe_state (last (record_events r)) = mr_state r \<and>
     successively (\<lambda>a b. (pe_state a = pe_state b \<or> legal (pe_state a) (pe_state b)) \<and>
       pe_movement_generation a \<le> pe_movement_generation b) (record_events r) \<and>
     pe_movement_generation (last (record_events r)) \<le> mr_generation r"

text \<open>What a step does to the members the history is about.\<close>

lemma record_step_effect:
  assumes "record_step r r'"
  shows "(mr_state r' = mr_state r \<or> legal (mr_state r) (mr_state r')) \<and>
    mr_generation r \<le> mr_generation r' \<and>
    (is_terminal (mr_state r) \<longrightarrow> mr_state r' = mr_state r \<and> mr_generation r' = mr_generation r) \<and>
    (record_events r' = record_events r \<and> mr_state r' = mr_state r \<or>
     (\<exists>e. record_events r' = record_events r @ [e] \<and> pe_state e = mr_state r' \<and>
        pe_movement_generation e = mr_generation r'))"
  using assms
proof (cases rule: record_step.cases)
  case (step_accepted target decision kind now st)
  then show ?thesis
    by (elim apply_transition_okE)
      (auto simp: transitioned_def transition_event_def word_le_nat_alt terminal_no_step)
next
  case (step_refused target decision kind now st)
  obtain s chain where append: "ProvenanceChain_append_fields PK_STALE_REJECTED (mr_state r)
      (mr_generation r) (status_code st) now (status_message st) (mr_provenance r) = (s, chain)"
    by fastforce
  then have "chain = mr_provenance r \<or> (\<exists>e. pc_events chain = record_events r @ [e] \<and>
      pe_state e = mr_state r \<and> pe_movement_generation e = mr_generation r)"
    unfolding ProvenanceChain_append_fields_def
    by (cases rule: ProvenanceChain_append_cases) auto
  then show ?thesis
    using apply_transition_illegal [OF step_refused(2,1)] append by auto
next
  case (step_attempt attempt now st)
  then show ?thesis
    by (elim record_attempt_started_okE) (auto simp: attempt_event_def word_le_nat_alt)
qed

lemma history_ok_step: "record_step r r' \<Longrightarrow> history_ok r \<Longrightarrow> history_ok r'"
  by (drule record_step_effect)
    (auto simp: history_ok_def successively_append_iff intro: order_trans)

lemma record_steps_history:
  assumes "record_step\<^sup>*\<^sup>* r r'"
  shows "(history_ok r \<longrightarrow> history_ok r') \<and> mr_generation r \<le> mr_generation r' \<and>
    (\<exists>es. record_events r' = record_events r @ es)"
  using assms
proof (induction rule: rtranclp_induct)
  case (step y z)
  then show ?case
    using record_step_effect [OF step.hyps(2)] history_ok_step [OF step.hyps(2)]
    by (auto intro: order_trans)
qed simp

lemma record_steps_terminal:
  assumes "record_step\<^sup>*\<^sup>* r r'" "is_terminal (mr_state r)"
  shows "mr_state r' = mr_state r \<and> mr_generation r' = mr_generation r"
  using assms
proof (induction rule: rtranclp_induct)
  case (step y z)
  then show ?case
    using record_step_effect [OF step.hyps(2)] by auto
qed simp

text \<open>The states of a chain, repetitions merged, are a run of the state machine.\<close>

lemma history_run:
  assumes "es \<noteq> []" "pe_state (hd es) = MS_PLANNED"
    "successively (\<lambda>a b. (pe_state a = pe_state b \<or> legal (pe_state a) (pe_state b)) \<and>
       pe_movement_generation a \<le> pe_movement_generation b) es"
  shows "\<exists>h. movement_run (pe_state (last es) # h) \<and> set (pe_state (last es) # h) = pe_state ` set es"
  using assms
proof (induction es rule: rev_induct)
  case (snoc e es)
  show ?case
  proof (cases "es = []")
    case True
    then show ?thesis
      using snoc.prems run_created by (intro exI [of _ "[]"]) simp
  next
    case False
    then obtain h where h: "movement_run (pe_state (last es) # h)"
        "set (pe_state (last es) # h) = pe_state ` set es"
      using snoc by (auto simp: successively_append_iff)
    have "pe_state (last es) = pe_state e \<or> legal (pe_state (last es)) (pe_state e)"
      using snoc.prems False by (simp add: successively_append_iff)
    then show ?thesis
    proof
      assume "pe_state (last es) = pe_state e"
      then show ?thesis
        using h by (intro exI [of _ h]) auto
    next
      assume "legal (pe_state (last es)) (pe_state e)"
      then show ?thesis
        using h run_step by (intro exI [of _ "pe_state (last es) # h"]) auto
    qed
  qed
qed simp

lemma history_committed:
  assumes "history_ok r" "mr_state r = MS_COMMITTED"
  shows "\<exists>e\<in>set (record_events r). pe_state e = MS_AUTHORIZED"
    and "\<exists>e\<in>set (record_events r). pe_state e = MS_VERIFIED \<or> pe_state e = MS_OUTCOME_UNKNOWN"
proof -
  obtain h where h: "movement_run (MS_COMMITTED # h)"
      "set (MS_COMMITTED # h) = pe_state ` set (record_events r)"
    using history_run [of "record_events r"] assms by (auto simp: history_ok_def)
  have "MS_AUTHORIZED \<in> pe_state ` set (record_events r)"
    using movement_run_authorized(1) [OF h(1), of MS_COMMITTED] h(2) by auto
  then show "\<exists>e\<in>set (record_events r). pe_state e = MS_AUTHORIZED"
    by (metis imageE)
  have "MS_VERIFIED \<in> pe_state ` set (record_events r) \<or>
      MS_OUTCOME_UNKNOWN \<in> pe_state ` set (record_events r)"
    using movement_run_authorized(2) [OF h(1), of MS_COMMITTED] h(2) by auto
  then show "\<exists>e\<in>set (record_events r). pe_state e = MS_VERIFIED \<or> pe_state e = MS_OUTCOME_UNKNOWN"
    by (metis imageE)
qed

section \<open>Operations keep records well-formed\<close>

lemma check_transition_message:
  "length (status_message (check_transition s t)) \<le> 1024 \<and>
   is_valid_utf8 (as_bytes (status_message (check_transition s t)))"
proof -
  have spelling: "list_all (\<lambda>c. byte_of_char c < 0x80) (MovementState_to_string s)"
      "length (MovementState_to_string s) \<le> 15" for s
    by (cases s; simp add: byte_of_char_def)+
  show ?thesis
    unfolding check_transition_def
    using spelling [of s] spelling [of t]
    by (auto simp: Status_success_def as_bytes_def list_all_iff byte_of_char_def
        intro!: is_valid_utf8_ascii)
qed

lemma apply_transition_wf:
  assumes "movement_wf r" "apply_transition r next decision kind now = (st, r')" "Status_ok st"
    "next = MS_COMMITTED \<Longrightarrow> mr_commit_marker_digest r \<noteq> 0"
  shows "movement_wf r'"
proof -
  obtain g e where e: "legal (mr_state r) next" "unat g = unat (mr_generation r) + 1"
      "e = transition_event r next g decision kind now" "Status_ok (ProvenanceEvent_validate e)"
      "r' = (transitioned r next g decision now)
         \<lparr>mr_provenance := (mr_provenance r)\<lparr>pc_events := record_events r @ [e]\<rparr>\<rparr>"
      "length (record_events r) < pc_bound (mr_provenance r)"
    using apply_transition_okE [OF assms(2,3)] by metis
  have "endpoint_wf (pe_actor e)"
    by (simp add: e(3) transition_event_def ProvenanceEvent_default_def endpoint_wf_def)
  moreover have "ProvenanceChain_append e (mr_provenance r) =
      (Status_success, (mr_provenance r)\<lparr>pc_events := record_events r @ [e]\<rparr>)"
    using e assms(1) by (intro ProvenanceChain_append_accepts)
      (auto simp: movement_wf_def event_valid_iff transition_event_def)
  ultimately have "chain_wf ((mr_provenance r)\<lparr>pc_events := record_events r @ [e]\<rparr>)"
    using chain_wf_append [of "mr_provenance r" e] assms(1) by (simp add: movement_wf_def)
  moreover have "length (md_detail decision) \<le> 1024" "is_valid_utf8 (as_bytes (md_detail decision))"
    using e(4) by (simp_all add: e(3) event_valid_iff transition_event_def)
  moreover have "g \<noteq> 0"
    using e(2) by auto
  ultimately show ?thesis
    using assms(1,4) by (simp add: e(5) movement_wf_def movement_valid_iff transitioned_def)
qed

end
