(* ===== verification/SMF_Object_Properties.thy ===== *)
theory SMF_Object_Properties
  imports SMF_Sample SMF_Chunk_Plan SMF_Movement
begin

text \<open>
  The properties of state objects, chunk plans, the movement state machine, movement records and
  their provenance.
\<close>

section \<open>Concrete records\<close>

definition sample_event :: provenance_event where
  "sample_event = ProvenanceEvent_default
     \<lparr>pe_sequence := 1, pe_unix_millis := 1, pe_kind := PK_CREATED, pe_state := MS_PLANNED,
      pe_movement_generation := 1, pe_reason := OK\<rparr>"

definition sample_record :: movement_record where
  "sample_record =
    \<lparr>mr_id = 1, mr_generation = 1, mr_object = sample_object, mr_source = ''a'', mr_destination = ''b'',
     mr_source_incarnation = \<lparr>inc_endpoint = ''a'', inc_boot = 1, inc_epoch = 1\<rparr>,
     mr_destination_incarnation = \<lparr>inc_endpoint = ''b'', inc_boot = 2, inc_epoch = 1\<rparr>,
     mr_compatibility_generation = 1, mr_compatibility_evidence = 1, mr_topology_generation = 1,
     mr_policy_generation = 1, mr_state = MS_PLANNED, mr_last_reason = OK, mr_last_detail = [],
     mr_attempt = 0, mr_attempt_count = 0, mr_bytes_transferred = 0, mr_chunks_verified = 0,
     mr_source_verified_digest = 0, mr_destination_verified_digest = 0, mr_commit_marker_digest = 0,
     mr_created_unix_millis = 1, mr_updated_unix_millis = 1, mr_repeatable = True,
     mr_cancel_requested = False,
     mr_provenance = \<lparr>pc_events = [sample_event], pc_bound = 256\<rparr>\<rparr>"

text \<open>Driving a record along a list of states, and whether every transition was accepted.\<close>

fun drive :: "movement_record \<Rightarrow> movement_state list \<Rightarrow> movement_record" where
  "drive r [] = r"
| "drive r (s # ss) = drive (snd (apply_transition r s MovementDecision_allow PK_PROGRESS 2)) ss"

fun drives :: "movement_record \<Rightarrow> movement_state list \<Rightarrow> bool" where
  "drives r [] \<longleftrightarrow> True"
| "drives r (s # ss) \<longleftrightarrow>
     Status_ok (fst (apply_transition r s MovementDecision_allow PK_PROGRESS 2)) \<and>
     drives (snd (apply_transition r s MovementDecision_allow PK_PROGRESS 2)) ss"

lemma drives_steps: "drives r ss \<Longrightarrow> record_step\<^sup>*\<^sup>* r (drive r ss)"
proof (induction r ss rule: drives.induct)
  case (2 r s ss)
  let ?r = "snd (apply_transition r s MovementDecision_allow PK_PROGRESS 2)"
  have "record_step r ?r"
    using "2.prems" by (intro step_accepted [OF surjective_pairing]) simp_all
  then show ?case
    using "2.IH" "2.prems" by (simp add: converse_rtranclp_into_rtranclp)
qed simp

definition sample_committed :: movement_record where
  "sample_committed = drive sample_record
     [MS_AUTHORIZED, MS_TRANSFERRING, MS_BYTES_ARRIVED, MS_VERIFIED, MS_COMMITTED]"

lemma sample_drives:
  "drives sample_record [MS_AUTHORIZED, MS_TRANSFERRING, MS_BYTES_ARRIVED, MS_VERIFIED, MS_COMMITTED]"
  by code_simp

lemma sample_committed_state: "mr_state sample_committed = MS_COMMITTED"
  by code_simp

lemma sample_history: "history_ok sample_record"
  by (simp add: history_ok_def sample_record_def sample_event_def ProvenanceEvent_default_def)

lemma sample_record_wf: "movement_wf sample_record"
proof -
  have "EndpointId_is_valid ''a''" "EndpointId_is_valid ''b''"
    by code_simp+
  then show ?thesis
    using sample_object_valid
    by (auto simp: movement_wf_def movement_valid_iff sample_record_def Incarnation_is_set_def
        chain_wf_def sample_event_def ProvenanceEvent_default_def event_wf_def event_valid_iff
        endpoint_wf_def)
qed

section \<open>State objects and chunk plans\<close>

text \<open>C12: for every valid descriptor, the chunks at the offsets and lengths the program computes
  cover the content exactly once and in order: their concatenation is the content.\<close>

theorem chunks_reassemble:
  assumes "descriptor_valid d" "length content = unat (so_total_bytes d)"
  shows "concat (map (\<lambda>i. chunk_slice d content (word_of_nat i)) [0..<unat (so_chunk_count d)])
    = content"
  using assms by (rule chunk_slices_reassemble)

theorem chunks_reassemble_witness:
  "descriptor_valid sample_object \<and>
   concat (map (\<lambda>i. chunk_slice sample_object (replicate 2500 5) (word_of_nat i)) [0..<3]) =
     replicate 2500 5"
  using chunks_reassemble [OF sample_object_valid, of "replicate 2500 5"] sample_object_valid
  by (simp add: sample_object_def)

text \<open>A decoded resume state never claims a byte that its verified chunks do not cover: the
  byte count is the verified chunks' total, cut at the size of the object.\<close>

lemma resume_state_accounts:
  assumes "dec_ok c" "ResumeState_decode c i = Inr (s, j)"
  shows "unat (rs_verified_bytes s) =
    min (unat (rs_verified_chunks s) * unat (so_chunk_bytes (rs_descriptor s)))
      (unat (so_total_bytes (rs_descriptor s)))"
  using assms resume_valid_bytes by (simp add: ResumeState_decode_iff)

definition sample_resume :: resume_state where
  "sample_resume = \<lparr>rs_descriptor = sample_object, rs_verified_chunks = 2, rs_verified_bytes = 2048,
    rs_rolling_digest = 9\<rparr>"

lemma sample_resume_ok: "Status_ok (ResumeState_check sample_resume)"
  by code_simp



section \<open>The movement state machine\<close>

text \<open>C2: whatever path a movement takes, it cannot be transferring, arrived, verified, unknown or
  committed without having been authorized; it cannot be verified without its bytes having
  arrived; and it cannot be committed without having been verified or its outcome left unknown.\<close>

theorem committed_only_with_evidence:
  assumes "movement_run h"
  shows "(set h \<inter> {MS_TRANSFERRING, MS_BYTES_ARRIVED, MS_VERIFIED, MS_OUTCOME_UNKNOWN, MS_COMMITTED} \<noteq> {}
      \<longrightarrow> MS_AUTHORIZED \<in> set h) \<and>
    (MS_COMMITTED \<in> set h \<longrightarrow> MS_VERIFIED \<in> set h \<or> MS_OUTCOME_UNKNOWN \<in> set h) \<and>
    (MS_VERIFIED \<in> set h \<longrightarrow> MS_BYTES_ARRIVED \<in> set h)"
  using movement_run_authorized [OF assms] by blast

theorem committed_only_with_evidence_witness:
  "movement_run [MS_COMMITTED, MS_VERIFIED, MS_BYTES_ARRIVED, MS_TRANSFERRING, MS_AUTHORIZED, MS_PLANNED] \<and>
   MS_AUTHORIZED \<in> set [MS_COMMITTED, MS_VERIFIED, MS_BYTES_ARRIVED, MS_TRANSFERRING, MS_AUTHORIZED, MS_PLANNED]"
proof -
  have "movement_run [MS_COMMITTED, MS_VERIFIED, MS_BYTES_ARRIVED, MS_TRANSFERRING, MS_AUTHORIZED, MS_PLANNED]"
    by (intro run_step run_created) (simp_all add: check_transition_def kTransitions_def)
  then show ?thesis
    using committed_only_with_evidence [of "[MS_COMMITTED, MS_VERIFIED, MS_BYTES_ARRIVED,
        MS_TRANSFERRING, MS_AUTHORIZED, MS_PLANNED]"] by simp
qed

text \<open>C26: a movement cannot run forever without retrying: a history has at most seven states and
  two more for each retry, a terminal state is its last, and from every other state some
  terminal state is one legal transition away.\<close>

theorem movement_run_bounded:
  assumes "movement_run (s # h)"
  shows "length (s # h) \<le> 7 + 2 * retries (s # h) \<and> list_all (\<lambda>t. \<not> is_terminal t) h \<and>
    (\<not> is_terminal s \<longrightarrow> (\<exists>t. is_terminal t \<and> movement_run (t # s # h)))"
  using movement_run_length [OF assms] movement_run_nonterminal [OF assms]
    terminal_reachable [OF assms] by auto

theorem movement_run_bounded_witness:
  "\<exists>t. is_terminal t \<and> movement_run [t, MS_PLANNED]"
  using movement_run_bounded [OF run_created] by simp

section \<open>Movement records\<close>

text \<open>C13: a movement record decodes from a buffer exactly when the buffer is the encoding of that
  record and the record is well formed; trailing bytes, truncation and every alternative
  spelling are refused.\<close>

theorem record_codec_canonical:
  assumes "dec_ok c"
  shows "decode_whole MovementRecord_decode c = Inr r \<longleftrightarrow>
    movement_wf r \<and> dec_input c = MovementRecord_encode r"
  using assms by (rule movement_codec.decode_whole_iff)

theorem record_codec_canonical_witness:
  "decode_whole MovementRecord_decode (generous_decoder (MovementRecord_encode sample_record)) =
    Inr sample_record"
  using record_codec_canonical [of "generous_decoder (MovementRecord_encode sample_record)" sample_record]
    sample_record_wf by simp







end
