(* ===== verification/SMF_Policy.thy ===== *)
theory SMF_Policy
  imports SMF_Ids
begin

text \<open>
  \<^verbatim>\<open>include/smf/policy.hpp\<close> and \<^verbatim>\<open>src/policy.cpp\<close>: the movement policy, its validation, its
  canonical encoding, its comparison through that encoding, and the generation-stamped policy set.
\<close>

record movement_policy =
  mp_max_attempts :: u32
  mp_max_inflight_chunks :: u32
  mp_min_chunk_bytes :: u64
  mp_max_chunk_bytes :: u64
  mp_max_object_bytes :: u64
  mp_max_movement_bytes :: u64
  mp_max_endpoints :: u32
  mp_max_sessions :: u32
  mp_max_movements_in_flight :: u32
  mp_max_provenance_events :: u32
  mp_max_history_records :: u32
  mp_max_store_bytes :: u64
  mp_max_staging_bytes_per_endpoint :: u64
  mp_allow_resume :: bool
  mp_require_compatibility_evidence :: bool
  mp_allow_unknown_kind :: bool
  mp_verify_sample_chunks :: bool
  mp_verify_sample_chunks_count :: u32
  mp_io_budget_millis :: u32
  mp_transfer_budget_millis :: u32

definition MovementPolicy_default :: movement_policy where
  "MovementPolicy_default =
    \<lparr>mp_max_attempts = 3,
     mp_max_inflight_chunks = 8,
     mp_min_chunk_bytes = 4096,
     mp_max_chunk_bytes = 1048576,
     mp_max_object_bytes = 68719476736,
     mp_max_movement_bytes = 68719476736,
     mp_max_endpoints = 256,
     mp_max_sessions = 256,
     mp_max_movements_in_flight = 1024,
     mp_max_provenance_events = 64,
     mp_max_history_records = 200000,
     mp_max_store_bytes = 268435456,
     mp_max_staging_bytes_per_endpoint = 8589934592,
     mp_allow_resume = True,
     mp_require_compatibility_evidence = True,
     mp_allow_unknown_kind = True,
     mp_verify_sample_chunks = True,
     mp_verify_sample_chunks_count = 4,
     mp_io_budget_millis = 30000,
     mp_transfer_budget_millis = 600000\<rparr>"

definition MovementPolicy_validate :: "movement_policy \<Rightarrow> status" where
  "MovementPolicy_validate p =
    (if mp_max_attempts p = 0 \<or> mp_max_attempts p > kMaxAttemptsHardLimit
     then Status INVALID_POLICY ''max_attempts must be between 1 and the hard limit''
     else if mp_max_inflight_chunks p = 0 \<or> mp_max_inflight_chunks p > 1024
     then Status INVALID_POLICY ''max_inflight_chunks must be between 1 and 1024''
     else if mp_min_chunk_bytes p < kMinChunkBytes \<or> mp_min_chunk_bytes p > kMaxChunkBytes
     then Status INVALID_POLICY ''min_chunk_bytes is outside the supported range''
     else if mp_max_chunk_bytes p < mp_min_chunk_bytes p \<or> mp_max_chunk_bytes p > kMaxChunkBytes
     then Status INVALID_POLICY ''max_chunk_bytes is outside the supported range''
     else if mp_max_object_bytes p = 0 \<or> mp_max_object_bytes p > kMaxObjectBytes
     then Status INVALID_POLICY ''max_object_bytes is outside the supported range''
     else if mp_max_movement_bytes p = 0 \<or> mp_max_movement_bytes p > kMaxObjectBytes
     then Status INVALID_POLICY ''max_movement_bytes is outside the supported range''
     else if mp_max_endpoints p = 0 \<or> mp_max_endpoints p > kMaxEndpoints
     then Status INVALID_POLICY ''max_endpoints is outside the supported range''
     else if mp_max_sessions p = 0 \<or> mp_max_sessions p > 8192
     then Status INVALID_POLICY ''max_sessions is outside the supported range''
     else if mp_max_movements_in_flight p = 0 \<or> mp_max_movements_in_flight p > 100000
     then Status INVALID_POLICY ''max_movements_in_flight is outside the supported range''
     else if mp_max_provenance_events p = 0 \<or> unat (mp_max_provenance_events p) > kMaxProvenanceEvents
     then Status INVALID_POLICY ''max_provenance_events is outside the supported range''
     else if mp_max_history_records p = 0 \<or> mp_max_history_records p > 10000000
     then Status INVALID_POLICY ''max_history_records is outside the supported range''
     else if mp_max_store_bytes p < 1048576
     then Status INVALID_POLICY ''max_store_bytes is implausibly small''
     else if mp_max_staging_bytes_per_endpoint p < mp_max_chunk_bytes p
     then Status INVALID_POLICY ''staging budget must be able to hold at least one chunk''
     else if mp_verify_sample_chunks_count p = 0 \<or> mp_verify_sample_chunks_count p > 64
     then Status INVALID_POLICY ''verify_sample_chunks_count is outside the supported range''
     else if mp_io_budget_millis p = 0 \<or> mp_io_budget_millis p > 3600000
     then Status INVALID_POLICY ''io_budget_millis is outside the supported range''
     else if mp_transfer_budget_millis p = 0 \<or> mp_transfer_budget_millis p > 86400000
     then Status INVALID_POLICY ''transfer_budget_millis is outside the supported range''
     else Status_success)"

definition MovementPolicy_encode :: "movement_policy \<Rightarrow> bytes" where
  "MovementPolicy_encode p =
     enc_u32 (mp_max_attempts p) @
     enc_u32 (mp_max_inflight_chunks p) @
     enc_u64 (mp_min_chunk_bytes p) @
     enc_u64 (mp_max_chunk_bytes p) @
     enc_u64 (mp_max_object_bytes p) @
     enc_u64 (mp_max_movement_bytes p) @
     enc_u32 (mp_max_endpoints p) @
     enc_u32 (mp_max_sessions p) @
     enc_u32 (mp_max_movements_in_flight p) @
     enc_u32 (mp_max_provenance_events p) @
     enc_u32 (mp_max_history_records p) @
     enc_u64 (mp_max_store_bytes p) @
     enc_u64 (mp_max_staging_bytes_per_endpoint p) @
     enc_boolean (mp_allow_resume p) @
     enc_boolean (mp_require_compatibility_evidence p) @
     enc_boolean (mp_allow_unknown_kind p) @
     enc_boolean (mp_verify_sample_chunks p) @
     enc_u32 (mp_verify_sample_chunks_count p) @
     enc_u32 (mp_io_budget_millis p) @
     enc_u32 (mp_transfer_budget_millis p)"

definition MovementPolicy_decode :: "movement_policy decode" where
  "MovementPolicy_decode =
    bind_dec dec_u32 (\<lambda>max_attempts.
    bind_dec dec_u32 (\<lambda>inflight.
    bind_dec dec_u64 (\<lambda>min_chunk.
    bind_dec dec_u64 (\<lambda>max_chunk.
    bind_dec dec_u64 (\<lambda>max_object.
    bind_dec dec_u64 (\<lambda>max_movement.
    bind_dec dec_u32 (\<lambda>max_endpoints.
    bind_dec dec_u32 (\<lambda>max_sessions.
    bind_dec dec_u32 (\<lambda>max_in_flight.
    bind_dec dec_u32 (\<lambda>max_provenance.
    bind_dec dec_u32 (\<lambda>max_history.
    bind_dec dec_u64 (\<lambda>max_store.
    bind_dec dec_u64 (\<lambda>max_staging.
    bind_dec dec_boolean (\<lambda>allow_resume.
    bind_dec dec_boolean (\<lambda>require_compat.
    bind_dec dec_boolean (\<lambda>allow_unknown.
    bind_dec dec_boolean (\<lambda>verify_sample.
    bind_dec dec_u32 (\<lambda>verify_count.
    bind_dec dec_u32 (\<lambda>io_budget.
    bind_dec dec_u32 (\<lambda>transfer_budget.
      let policy =
        \<lparr>mp_max_attempts = max_attempts,
         mp_max_inflight_chunks = inflight,
         mp_min_chunk_bytes = min_chunk,
         mp_max_chunk_bytes = max_chunk,
         mp_max_object_bytes = max_object,
         mp_max_movement_bytes = max_movement,
         mp_max_endpoints = max_endpoints,
         mp_max_sessions = max_sessions,
         mp_max_movements_in_flight = max_in_flight,
         mp_max_provenance_events = max_provenance,
         mp_max_history_records = max_history,
         mp_max_store_bytes = max_store,
         mp_max_staging_bytes_per_endpoint = max_staging,
         mp_allow_resume = allow_resume,
         mp_require_compatibility_evidence = require_compat,
         mp_allow_unknown_kind = allow_unknown,
         mp_verify_sample_chunks = verify_sample,
         mp_verify_sample_chunks_count = verify_count,
         mp_io_budget_millis = io_budget,
         mp_transfer_budget_millis = transfer_budget\<rparr>
      in check_dec (MovementPolicy_validate policy) (return_dec policy)))))))))))))))))))))"

definition MovementPolicy_eq :: "movement_policy \<Rightarrow> movement_policy \<Rightarrow> bool" where
  "MovementPolicy_eq p other \<longleftrightarrow> MovementPolicy_encode p = MovementPolicy_encode other"

record policy_set =
  ps_generation :: generation
  ps_policy :: movement_policy

definition PolicySet_validate :: "policy_set \<Rightarrow> status" where
  "PolicySet_validate s =
    (if \<not> Generation_is_set (ps_generation s)
     then Status INVALID_GENERATION ''policy generation must be non-zero''
     else MovementPolicy_validate (ps_policy s))"

definition PolicySet_encode :: "policy_set \<Rightarrow> bytes" where
  "PolicySet_encode s = enc_u64 (ps_generation s) @ MovementPolicy_encode (ps_policy s)"

definition PolicySet_digest :: "policy_set \<Rightarrow> digest" where
  "PolicySet_digest s = canonical_digest (enc_text ''SMF-POLICY-SET-v1'' @ PolicySet_encode s)"

definition PolicySet_decode :: "policy_set decode" where
  "PolicySet_decode =
    bind_dec dec_u64 (\<lambda>generation.
    bind_dec MovementPolicy_decode (\<lambda>policy.
      let set = \<lparr>ps_generation = generation, ps_policy = policy\<rparr>
      in check_dec (PolicySet_validate set) (return_dec set)))"

section \<open>Lemmas\<close>

abbreviation policy_valid :: "movement_policy \<Rightarrow> bool" where
  "policy_valid p \<equiv> Status_ok (MovementPolicy_validate p)"

abbreviation policy_set_valid :: "policy_set \<Rightarrow> bool" where
  "policy_set_valid s \<equiv> Status_ok (PolicySet_validate s)"

lemma policy_valid_bounds:
  assumes "policy_valid p"
  shows "mp_max_attempts p \<noteq> 0" "mp_max_attempts p \<le> kMaxAttemptsHardLimit"
    "kMinChunkBytes \<le> mp_min_chunk_bytes p" "mp_min_chunk_bytes p \<le> mp_max_chunk_bytes p"
    "mp_max_chunk_bytes p \<le> kMaxChunkBytes" "mp_max_object_bytes p \<le> kMaxObjectBytes"
    "mp_max_endpoints p \<le> kMaxEndpoints" "mp_max_provenance_events p \<noteq> 0"
    "unat (mp_max_provenance_events p) \<le> kMaxProvenanceEvents"
    "mp_max_chunk_bytes p \<le> mp_max_staging_bytes_per_endpoint p"
    "mp_verify_sample_chunks_count p \<noteq> 0" "mp_verify_sample_chunks_count p \<le> 64"
  using assms unfolding MovementPolicy_validate_def
  by (simp_all add: not_less split: if_splits)

lemma MovementPolicy_default_valid: "policy_valid MovementPolicy_default"
  by (simp add: MovementPolicy_validate_def MovementPolicy_default_def)

lemma MovementPolicy_decode_iff [codec_iff]:
  "dec_ok c \<Longrightarrow> MovementPolicy_decode c i = Inr (p, j) \<longleftrightarrow>
    policy_valid p \<and> spells c i j (MovementPolicy_encode p)"
  by (cases p)
    (auto simp: MovementPolicy_decode_def MovementPolicy_encode_def dec_Inr_iffs codec_iff codec_simps)

interpretation policy_codec: canonical_codec MovementPolicy_encode MovementPolicy_decode policy_valid
  by unfold_locales (rule MovementPolicy_decode_iff)

lemma PolicySet_decode_iff [codec_iff]:
  "dec_ok c \<Longrightarrow> PolicySet_decode c i = Inr (s, j) \<longleftrightarrow>
    policy_set_valid s \<and> spells c i j (PolicySet_encode s)"
  by (cases s)
    (auto simp: PolicySet_decode_def PolicySet_encode_def PolicySet_validate_def dec_Inr_iffs
      codec_iff codec_simps)

interpretation policy_set_codec: canonical_codec PolicySet_encode PolicySet_decode policy_set_valid
  by unfold_locales (rule PolicySet_decode_iff)

text \<open>Comparing two policies by their encodings is comparing the policies, valid or not.\<close>

lemma MovementPolicy_eq_iff: "MovementPolicy_eq p q \<longleftrightarrow> p = q"
proof
  assume "MovementPolicy_eq p q"
  then show "p = q"
    by (cases p; cases q)
      (auto simp: MovementPolicy_eq_def MovementPolicy_encode_def
        dest!: enc_append_inject u32_codec.encoding_inject [OF TrueI TrueI])
qed (simp add: MovementPolicy_eq_def)

end
