(* ===== verification/SMF_Registry.thy ===== *)
theory SMF_Registry
  imports SMF_Status
begin

text \<open>
  The contract of a keyed registry, shared by the topology view and the compatibility registry:
  a successful insertion binds exactly one key, a successful deletion unbinds exactly one key,
  and a refused operation changes nothing.  \<open>stored\<close> is what the registry keeps of an inserted
  value, which may stamp it.
\<close>

locale keyed_registry =
  fixes lookup :: "'s \<Rightarrow> 'k \<Rightarrow> 'v option"
    and put :: "'v \<Rightarrow> 's \<Rightarrow> status \<times> 's"
    and remove :: "'k \<Rightarrow> 's \<Rightarrow> status \<times> 's"
    and key_of :: "'v \<Rightarrow> 'k"
    and stored :: "'s \<Rightarrow> 'v \<Rightarrow> 'v"
    and inv :: "'s \<Rightarrow> bool"
  assumes put_ok: "inv s \<Longrightarrow> put v s = (st, s') \<Longrightarrow> Status_ok st \<Longrightarrow>
      lookup s' = (lookup s)(key_of v \<mapsto> stored s v)"
    and put_refused: "inv s \<Longrightarrow> put v s = (st, s') \<Longrightarrow> \<not> Status_ok st \<Longrightarrow> s' = s"
    and put_inv: "inv s \<Longrightarrow> inv (snd (put v s))"
    and remove_ok: "inv s \<Longrightarrow> remove k s = (st, s') \<Longrightarrow> Status_ok st \<Longrightarrow>
      lookup s k \<noteq> None \<and> lookup s' = (lookup s)(k := None)"
    and remove_refused: "inv s \<Longrightarrow> remove k s = (st, s') \<Longrightarrow> \<not> Status_ok st \<Longrightarrow>
      lookup s k = None \<and> s' = s"
    and remove_inv: "inv s \<Longrightarrow> inv (snd (remove k s))"
begin

lemma lookup_put_same:
  "inv s \<Longrightarrow> put v s = (st, s') \<Longrightarrow> Status_ok st \<Longrightarrow> lookup s' (key_of v) = Some (stored s v)"
  by (simp add: put_ok)

lemma lookup_put_other:
  "inv s \<Longrightarrow> k \<noteq> key_of v \<Longrightarrow> lookup (snd (put v s)) k = lookup s k"
  by (cases "put v s"; cases "Status_ok (fst (put v s))") (auto simp: put_ok dest: put_refused)

lemma lookup_remove_same: "inv s \<Longrightarrow> lookup (snd (remove k s)) k = None"
  by (cases "remove k s"; cases "Status_ok (fst (remove k s))")
    (auto dest: remove_ok remove_refused)

lemma lookup_remove_other:
  "inv s \<Longrightarrow> l \<noteq> k \<Longrightarrow> lookup (snd (remove k s)) l = lookup s l"
  by (cases "remove k s"; cases "Status_ok (fst (remove k s))")
    (auto dest: remove_ok remove_refused)

lemma remove_ok_iff: "inv s \<Longrightarrow> Status_ok (fst (remove k s)) \<longleftrightarrow> lookup s k \<noteq> None"
  by (cases "remove k s"; cases "Status_ok (fst (remove k s))")
    (auto dest: remove_ok remove_refused)

lemma remove_twice_refused:
  assumes "inv s"
  shows "\<not> Status_ok (fst (remove k (snd (remove k s))))"
  using assms remove_ok_iff [OF remove_inv [OF assms], of k k] lookup_remove_same [OF assms, of k]
  by simp

lemma put_remove_restores:
  assumes "inv s" "put v s = (st, s')" "Status_ok st" "lookup s (key_of v) = None"
  shows "lookup (snd (remove (key_of v) s')) = lookup s"
proof -
  have "inv s'"
    using put_inv [OF assms(1), of v] assms(2) by simp
  then show ?thesis
    using assms put_ok [OF assms(1-3)] remove_ok_iff [of s' "key_of v"]
      remove_ok [of s' "key_of v"]
    by (cases "remove (key_of v) s'") (auto simp: fun_eq_iff)
qed

end

end
