(* ===== verification/SMF_Topology.thy ===== *)
theory SMF_Topology
  imports SMF_Registry SMF_Transport
begin

text \<open>
  \<^verbatim>\<open>include/smf/topology.hpp\<close> and \<^verbatim>\<open>src/topology.cpp\<close>: the coordinator's view of the registered
  endpoints.  The vector of registrations and the index into it are both modelled; \<open>topology_wf\<close>
  is the invariant that ties them together, and \<open>topology_lookup\<close> is the map they implement.

  The lemmas show that every operation keeps the invariant, that the view implements the keyed
  registry contract, that a recorded incarnation epoch never goes backwards while an endpoint
  stays registered, and that the topology generation never decreases.
\<close>

record registration =
  er_endpoint :: endpoint_id
  er_incarnation :: incarnation
  er_service_address :: socket_address
  er_data_address :: socket_address
  er_contract :: string
  er_capability_digest :: digest
  er_registered_unix_millis :: u64
  er_live :: bool

record link_descriptor =
  ld_from :: endpoint_id
  ld_to :: endpoint_id
  ld_observed :: bool
  ld_rtt_micros :: u32
  ld_bytes_per_second :: u64

record topology_view =
  tv_coordinator :: incarnation
  tv_generation :: generation
  tv_endpoints :: "registration list"
  tv_links :: "link_descriptor list"
  tv_index :: "endpoint_id \<rightharpoonup> nat"

definition TopologyView_default :: topology_view where
  "TopologyView_default =
    \<lparr>tv_coordinator = Incarnation_default, tv_generation = 1, tv_endpoints = [], tv_links = [],
     tv_index = Map.empty\<rparr>"

definition EndpointRegistration_validate :: "registration \<Rightarrow> status" where
  "EndpointRegistration_validate r =
    (if er_endpoint r = [] then Status INVALID_ID ''endpoint registration requires an endpoint id''
     else if \<not> Incarnation_is_set (er_incarnation r)
     then Status STALE_INCARNATION ''endpoint registration requires a complete incarnation''
     else if inc_endpoint (er_incarnation r) \<noteq> er_endpoint r
     then Status STALE_INCARNATION ''endpoint registration incarnation names a different endpoint''
     else if sa_port (er_service_address r) = 0
     then Status INVALID_ADDRESS ''endpoint registration requires a service port''
     else if sa_port (er_data_address r) = 0
     then Status INVALID_ADDRESS ''endpoint registration requires a data port''
     else if er_contract r = [] \<or> length (er_contract r) > kMaxTextBytes
     then Status ENDPOINT_CONTRACT_MISMATCH
       ''endpoint registration requires a bounded contract string''
     else if Digest_is_zero (er_capability_digest r)
     then Status INVALID_DIGEST ''endpoint registration requires a capability digest''
     else Status_success)"

definition TopologyView_advance :: "topology_view \<Rightarrow> generation result \<times> topology_view" where
  "TopologyView_advance v =
    (case Generation_next (tv_generation v) of
       Inl s \<Rightarrow> (Inl s, v)
     | Inr g \<Rightarrow> (Inr g, v\<lparr>tv_generation := g\<rparr>))"

definition TopologyView_put :: "u32 \<Rightarrow> registration \<Rightarrow> topology_view \<Rightarrow> status \<times> topology_view" where
  "TopologyView_put max_endpoints registration v =
    (if \<not> Status_ok (EndpointRegistration_validate registration)
     then (EndpointRegistration_validate registration, v)
     else case tv_index v (er_endpoint registration) of
       Some position \<Rightarrow>
         if inc_epoch (er_incarnation (tv_endpoints v ! position)) > inc_epoch (er_incarnation registration)
         then (Status STALE_EPOCH
           ''registration carries an epoch older than the one already recorded'', v)
         else (Status_success, v\<lparr>tv_endpoints := (tv_endpoints v)[position := registration]\<rparr>)
     | None \<Rightarrow>
         if length (tv_endpoints v) \<ge> unat max_endpoints
         then (Status RESOURCE_EXHAUSTED ''topology endpoint bound reached'', v)
         else (Status_success,
           v\<lparr>tv_index := (tv_index v)(er_endpoint registration \<mapsto> length (tv_endpoints v)),
             tv_endpoints := tv_endpoints v @ [registration]\<rparr>))"

definition TopologyView_remove :: "endpoint_id \<Rightarrow> topology_view \<Rightarrow> status \<times> topology_view" where
  "TopologyView_remove endpoint v =
    (case tv_index v endpoint of
       None \<Rightarrow> (Status ENDPOINT_NOT_FOUND ''endpoint is not registered'', v)
     | Some position \<Rightarrow>
         (Status_success,
          v\<lparr>tv_endpoints := take position (tv_endpoints v) @ drop (Suc position) (tv_endpoints v),
            tv_index := (\<lambda>e. map_option (\<lambda>p. if p > position then p - 1 else p)
              (((tv_index v)(endpoint := None)) e)),
            tv_links := filter (\<lambda>link. \<not> (ld_from link = endpoint \<or> ld_to link = endpoint)) (tv_links v)\<rparr>))"

definition TopologyView_mark_dead :: "endpoint_id \<Rightarrow> topology_view \<Rightarrow> status \<times> topology_view" where
  "TopologyView_mark_dead endpoint v =
    (case tv_index v endpoint of
       None \<Rightarrow> (Status ENDPOINT_NOT_FOUND ''endpoint is not registered'', v)
     | Some position \<Rightarrow>
         let v = v\<lparr>tv_endpoints := (tv_endpoints v)[position := (tv_endpoints v ! position)\<lparr>er_live := False\<rparr>]\<rparr>
         in case TopologyView_advance v of
              (Inl s, v) \<Rightarrow> (s, v)
            | (Inr _, v) \<Rightarrow> (Status_success, v))"

definition TopologyView_find :: "endpoint_id \<Rightarrow> topology_view \<Rightarrow> registration result" where
  "TopologyView_find endpoint v =
    (case tv_index v endpoint of
       None \<Rightarrow> err ENDPOINT_NOT_FOUND ''endpoint is not registered''
     | Some position \<Rightarrow> Inr (tv_endpoints v ! position))"

definition TopologyView_contains :: "endpoint_id \<Rightarrow> topology_view \<Rightarrow> bool" where
  "TopologyView_contains endpoint v \<longleftrightarrow> tv_index v endpoint \<noteq> None"

fun replace_link :: "link_descriptor \<Rightarrow> link_descriptor list \<Rightarrow> link_descriptor list option" where
  "replace_link link [] = None"
| "replace_link link (item # rest) =
    (if ld_from item = ld_from link \<and> ld_to item = ld_to link then Some (link # rest)
     else map_option ((#) item) (replace_link link rest))"

definition TopologyView_put_link :: "u32 \<Rightarrow> link_descriptor \<Rightarrow> topology_view \<Rightarrow> status \<times> topology_view" where
  "TopologyView_put_link max_links link v =
    (if ld_from link = ld_to link
     then (Status INVALID_ARGUMENT ''a link must connect two distinct endpoints'', v)
     else case replace_link link (tv_links v) of
       Some links \<Rightarrow> (Status_success, v\<lparr>tv_links := links\<rparr>)
     | None \<Rightarrow>
         if length (tv_links v) \<ge> unat max_links
         then (Status RESOURCE_EXHAUSTED ''topology link bound reached'', v)
         else (Status_success, v\<lparr>tv_links := tv_links v @ [link]\<rparr>))"

definition TopologyView_find_link :: "endpoint_id \<Rightarrow> endpoint_id \<Rightarrow> topology_view \<Rightarrow> link_descriptor result" where
  "TopologyView_find_link from to v =
    (case find (\<lambda>item. ld_from item = from \<and> ld_to item = to) (tv_links v) of
       None \<Rightarrow> err NOT_FOUND ''no link descriptor is recorded for that pair''
     | Some link \<Rightarrow> Inr link)"

definition TopologyView_live_count :: "topology_view \<Rightarrow> nat" where
  "TopologyView_live_count v = length (filter er_live (tv_endpoints v))"

definition TopologyView_reset_dynamic_state :: "topology_view \<Rightarrow> topology_view" where
  "TopologyView_reset_dynamic_state v =
     snd (TopologyView_advance (v\<lparr>tv_endpoints := [], tv_links := [], tv_index := Map.empty\<rparr>))"

section \<open>The invariant\<close>

abbreviation registration_valid :: "registration \<Rightarrow> bool" where
  "registration_valid r \<equiv> Status_ok (EndpointRegistration_validate r)"

definition topology_lookup :: "topology_view \<Rightarrow> endpoint_id \<Rightarrow> registration option" where
  "topology_lookup v e = map_option (\<lambda>p. tv_endpoints v ! p) (tv_index v e)"

text \<open>The index holds exactly the positions of the registrations, under their names; links
  connect distinct endpoints and no pair has two.\<close>

definition index_ok :: "registration list \<Rightarrow> (endpoint_id \<rightharpoonup> nat) \<Rightarrow> bool" where
  "index_ok rs m \<longleftrightarrow> (\<forall>e p. m e = Some p \<longleftrightarrow> p < length rs \<and> er_endpoint (rs ! p) = e)"

definition topology_wf :: "topology_view \<Rightarrow> bool" where
  "topology_wf v \<longleftrightarrow>
     index_ok (tv_endpoints v) (tv_index v) \<and>
     list_all registration_valid (tv_endpoints v) \<and>
     distinct (map (\<lambda>l. (ld_from l, ld_to l)) (tv_links v)) \<and>
     list_all (\<lambda>l. ld_from l \<noteq> ld_to l) (tv_links v)"

lemma index_okD:
  assumes "index_ok rs m" "m e = Some p"
  shows "p < length rs" "er_endpoint (rs ! p) = e"
  using assms by (simp_all add: index_ok_def)

lemma index_ok_inject:
  assumes "index_ok rs m" "m e = Some p" "m e' = Some p"
  shows "e = e'"
  using index_okD(2) [OF assms(1,2)] index_okD(2) [OF assms(1,3)] by simp

lemma index_ok_position: "index_ok rs m \<Longrightarrow> p < length rs \<Longrightarrow> m (er_endpoint (rs ! p)) = Some p"
  by (simp add: index_ok_def)

lemma index_ok_distinct:
  assumes "index_ok rs m"
  shows "distinct (map er_endpoint rs)"
  unfolding distinct_conv_nth
proof (intro allI impI)
  fix i j
  assume "i < length (map er_endpoint rs)" "j < length (map er_endpoint rs)" "i \<noteq> j"
  then show "map er_endpoint rs ! i \<noteq> map er_endpoint rs ! j"
    using index_ok_position [OF assms, of i] index_ok_position [OF assms, of j] by auto
qed

lemma index_ok_update:
  assumes "index_ok rs m" "m (er_endpoint r) = Some p"
  shows "index_ok (rs[p := r]) m"
  using assms index_okD [OF assms] by (auto simp: index_ok_def nth_list_update)

lemma index_ok_append:
  assumes "index_ok rs m" "m (er_endpoint r) = None"
  shows "index_ok (rs @ [r]) (m(er_endpoint r \<mapsto> length rs))"
proof -
  have "er_endpoint (rs ! p) \<noteq> er_endpoint r" if "p < length rs" for p
    using that assms index_ok_position by fastforce
  then show ?thesis
    using assms unfolding index_ok_def by (auto simp: nth_append less_Suc_eq)
qed

lemma erase_nth:
  assumes "p < length xs" "q < length xs - 1"
  shows "(take p xs @ drop (Suc p) xs) ! q = xs ! (if q < p then q else q + 1)"
  using assms by (auto simp: nth_append min_def not_less)

lemma index_ok_erase:
  assumes "index_ok rs m" "m e = Some p"
  shows "index_ok (take p rs @ drop (Suc p) rs)
    (\<lambda>x. map_option (\<lambda>q. if q > p then q - 1 else q) ((m(e := None)) x))"
  unfolding index_ok_def
proof (intro allI)
  fix x q
  let ?up = "\<lambda>q. if q < p then q else q + 1"
  note p = index_okD [OF assms]
  have len: "length (take p rs @ drop (Suc p) rs) = length rs - 1"
    using p(1) by simp
  have "map_option (\<lambda>q. if q > p then q - 1 else q) ((m(e := None)) x) = Some q \<longleftrightarrow>
      x \<noteq> e \<and> m x = Some (?up q)"
  proof -
    have "m x \<noteq> Some p" if "x \<noteq> e"
      using that index_okD(2) [OF assms(1), of x p] p(2) by auto
    then show ?thesis
      by (cases "m x") (auto split: if_splits)
  qed
  also have "\<dots> \<longleftrightarrow> x \<noteq> e \<and> ?up q < length rs \<and> er_endpoint (rs ! ?up q) = x"
    using assms(1) by (simp add: index_ok_def)
  also have "\<dots> \<longleftrightarrow> q < length rs - 1 \<and> er_endpoint (rs ! ?up q) = x"
  proof -
    have "er_endpoint (rs ! ?up q) \<noteq> e" if "?up q < length rs"
      using that index_ok_position [OF assms(1) that] assms(2) by auto
    then show ?thesis
      using p(1) by (auto simp: less_diff_conv)
  qed
  also have "\<dots> \<longleftrightarrow> q < length (take p rs @ drop (Suc p) rs) \<and>
      er_endpoint ((take p rs @ drop (Suc p) rs) ! q) = x"
    unfolding len using erase_nth [OF p(1), of q] by (cases "q < length rs - 1") simp_all
  finally show "map_option (\<lambda>q. if q > p then q - 1 else q) ((m(e := None)) x) = Some q \<longleftrightarrow>
      q < length (take p rs @ drop (Suc p) rs) \<and> er_endpoint ((take p rs @ drop (Suc p) rs) ! q) = x" .
qed

lemma find_lookup:
  "TopologyView_find e v =
    (case topology_lookup v e of
       None \<Rightarrow> err ENDPOINT_NOT_FOUND ''endpoint is not registered'' | Some r \<Rightarrow> Inr r)"
  by (simp add: TopologyView_find_def topology_lookup_def split: option.splits)

lemma contains_lookup: "TopologyView_contains e v \<longleftrightarrow> topology_lookup v e \<noteq> None"
  by (simp add: TopologyView_contains_def topology_lookup_def)

lemma topology_wf_default: "topology_wf TopologyView_default"
  by (simp add: topology_wf_def index_ok_def TopologyView_default_def)

lemma replace_link_Some:
  assumes "replace_link link ls = Some ls'"
  shows "map (\<lambda>l. (ld_from l, ld_to l)) ls' = map (\<lambda>l. (ld_from l, ld_to l)) ls" "link \<in> set ls'"
    "set ls' \<subseteq> insert link (set ls)"
  using assms by (induction ls arbitrary: ls') (auto split: if_splits)

lemma replace_link_None:
  "replace_link link ls = None \<longleftrightarrow> (ld_from link, ld_to link) \<notin> (\<lambda>l. (ld_from l, ld_to l)) ` set ls"
  by (induction ls) auto

section \<open>Operations keep the invariant\<close>

lemma topology_wf_advance: "topology_wf v \<Longrightarrow> topology_wf (snd (TopologyView_advance v))"
  by (simp add: TopologyView_advance_def topology_wf_def split: sum.splits)

lemma topology_wf_put: "topology_wf v \<Longrightarrow> topology_wf (snd (TopologyView_put n r v))"
  by (auto simp: TopologyView_put_def topology_wf_def index_ok_update index_ok_append list_all_iff
      dest: subsetD [OF set_update_subset_insert] split: option.splits)

lemma topology_wf_remove: "topology_wf v \<Longrightarrow> topology_wf (snd (TopologyView_remove e v))"
  using index_ok_erase [of "tv_endpoints v" "tv_index v" e]
  by (auto simp: TopologyView_remove_def topology_wf_def list_all_iff
      dest: in_set_takeD in_set_dropD intro: distinct_map_filter split: option.splits)

lemma topology_wf_mark_dead: "topology_wf v \<Longrightarrow> topology_wf (snd (TopologyView_mark_dead e v))"
proof (cases "tv_index v e")
  case (Some p)
  assume wf: "topology_wf v"
  let ?r = "(tv_endpoints v ! p)\<lparr>er_live := False\<rparr>"
  let ?v = "v\<lparr>tv_endpoints := (tv_endpoints v)[p := ?r]\<rparr>"
  have p: "p < length (tv_endpoints v)" "er_endpoint ?r = e"
    using index_okD [of "tv_endpoints v" "tv_index v" e p] Some wf by (auto simp: topology_wf_def)
  moreover have "EndpointRegistration_validate ?r = EndpointRegistration_validate (tv_endpoints v ! p)"
    by (simp add: EndpointRegistration_validate_def)
  ultimately have "registration_valid ?r"
    using wf by (simp add: topology_wf_def list_all_length)
  then have "topology_wf ?v"
    using wf p Some by (auto simp: topology_wf_def index_ok_update list_all_iff
        dest: subsetD [OF set_update_subset_insert])
  then show ?thesis
    using topology_wf_advance [of ?v] Some
    by (auto simp: TopologyView_mark_dead_def Let_def split: prod.splits sum.splits)
qed (simp add: TopologyView_mark_dead_def)

lemma topology_wf_put_link:
  assumes "topology_wf v"
  shows "topology_wf (snd (TopologyView_put_link n l v))"
proof (cases "replace_link l (tv_links v)")
  case None
  then have "(ld_from l, ld_to l) \<notin> (\<lambda>l. (ld_from l, ld_to l)) ` set (tv_links v)"
    by (simp add: replace_link_None)
  then show ?thesis
    using assms None by (auto simp: TopologyView_put_link_def topology_wf_def)
next
  case (Some ls)
  then show ?thesis
    using assms replace_link_Some [OF Some]
    by (auto simp: TopologyView_put_link_def topology_wf_def list_all_iff)
qed

lemma topology_wf_reset: "topology_wf (TopologyView_reset_dynamic_state v)"
  unfolding TopologyView_reset_dynamic_state_def
  by (rule topology_wf_advance) (simp add: topology_wf_def index_ok_def)

lemmas topology_wf_ops = topology_wf_put topology_wf_remove topology_wf_mark_dead
  topology_wf_put_link topology_wf_reset topology_wf_advance

section \<open>The registry contract\<close>

lemma put_lookup:
  assumes "topology_wf v" "TopologyView_put n r v = (st, v')" "Status_ok st"
  shows "topology_lookup v' = (topology_lookup v)(er_endpoint r \<mapsto> r)"
proof (cases "tv_index v (er_endpoint r)")
  case None
  have "tv_index v e = Some p \<Longrightarrow> p < length (tv_endpoints v)" for e p
    using assms(1) index_okD(1) by (auto simp: topology_wf_def)
  then show ?thesis
    using assms(2,3) None
    by (auto simp: TopologyView_put_def topology_lookup_def fun_eq_iff nth_append
        split: if_splits intro!: option.map_cong)
next
  case (Some p)
  have p: "tv_index v e = Some p \<longleftrightarrow> e = er_endpoint r" "p < length (tv_endpoints v)" for e
    using assms(1) Some index_ok_inject index_okD(1) unfolding topology_wf_def by metis+
  have "topology_lookup v' e = ((topology_lookup v)(er_endpoint r \<mapsto> r)) e" for e
    using assms Some p(1) [of e] p(2)
    by (cases "tv_index v e")
      (auto simp: TopologyView_put_def topology_lookup_def nth_list_update split: if_splits)
  then show ?thesis
    by (simp add: fun_eq_iff)
qed

lemma put_refused: "TopologyView_put n r v = (st, v') \<Longrightarrow> \<not> Status_ok st \<Longrightarrow> v' = v"
  by (auto simp: TopologyView_put_def split: if_splits option.splits)

lemma remove_lookup:
  assumes "topology_wf v" "TopologyView_remove e v = (st, v')" "Status_ok st"
  shows "topology_lookup v e \<noteq> None \<and> topology_lookup v' = (topology_lookup v)(e := None)"
proof -
  have ok: "index_ok (tv_endpoints v) (tv_index v)"
    using assms(1) by (simp add: topology_wf_def)
  obtain p where p: "tv_index v e = Some p"
      "v' = v\<lparr>tv_endpoints := take p (tv_endpoints v) @ drop (Suc p) (tv_endpoints v),
        tv_index := (\<lambda>x. map_option (\<lambda>q. if q > p then q - 1 else q) (((tv_index v)(e := None)) x)),
        tv_links := filter (\<lambda>link. \<not> (ld_from link = e \<or> ld_to link = e)) (tv_links v)\<rparr>"
    using assms(2,3) by (auto simp: TopologyView_remove_def split: option.splits)
  have "topology_lookup v' x = ((topology_lookup v)(e := None)) x" for x
  proof (cases "x = e \<or> tv_index v x = None")
    case True
    then show ?thesis
      using p by (auto simp: topology_lookup_def)
  next
    case False
    then obtain q where q: "tv_index v x = Some q" "x \<noteq> e" by auto
    then have "q < length (tv_endpoints v)" "q \<noteq> p"
      using index_okD [OF ok q(1)] index_okD [OF ok p(1)] by auto
    then have "(if q > p then q - 1 else q) < length (tv_endpoints v) - 1"
      using index_okD(1) [OF ok p(1)] by auto
    then show ?thesis
      using p q \<open>q \<noteq> p\<close> erase_nth [OF index_okD(1) [OF ok p(1)], of "if q > p then q - 1 else q"]
      by (auto simp: topology_lookup_def split: if_splits)
  qed
  then show ?thesis
    using p(1) by (auto simp: topology_lookup_def)
qed

lemma remove_refused:
  "TopologyView_remove e v = (st, v') \<Longrightarrow> \<not> Status_ok st \<Longrightarrow> topology_lookup v e = None \<and> v' = v"
  by (auto simp: TopologyView_remove_def topology_lookup_def split: option.splits)

interpretation topology: keyed_registry topology_lookup "TopologyView_put n" TopologyView_remove
    er_endpoint "\<lambda>_ r. r" topology_wf
  by unfold_locales (auto simp: topology_wf_ops put_lookup dest: put_refused remove_lookup remove_refused)

section \<open>Epochs and generations\<close>

lemma mark_dead_lookup:
  assumes "topology_wf v"
  shows "topology_lookup (snd (TopologyView_mark_dead e v)) =
    (case topology_lookup v e of None \<Rightarrow> topology_lookup v
     | Some r \<Rightarrow> (topology_lookup v)(e \<mapsto> r\<lparr>er_live := False\<rparr>))"
proof (cases "tv_index v e")
  case (Some p)
  have p: "tv_index v x = Some p \<longleftrightarrow> x = e" "p < length (tv_endpoints v)" for x
    using assms(1) Some index_ok_inject index_okD(1) unfolding topology_wf_def by metis+
  let ?r = "tv_endpoints v ! p"
  have "topology_lookup (snd (TopologyView_mark_dead e v)) x =
      ((topology_lookup v)(e \<mapsto> ?r\<lparr>er_live := False\<rparr>)) x" for x
    using Some p(1) [of x] p(2)
    by (cases "tv_index v x") (auto simp: TopologyView_mark_dead_def TopologyView_advance_def
        topology_lookup_def nth_list_update Let_def split: sum.splits)
  then show ?thesis
    using Some by (simp add: fun_eq_iff topology_lookup_def)
qed (simp add: TopologyView_mark_dead_def topology_lookup_def)

text \<open>A step that keeps registrations: anything but a removal and a reset.\<close>

inductive topology_update :: "topology_view \<Rightarrow> topology_view \<Rightarrow> bool" where
  update_put: "topology_update v (snd (TopologyView_put n r v))"
| update_dead: "topology_update v (snd (TopologyView_mark_dead e v))"
| update_link: "topology_update v (snd (TopologyView_put_link n l v))"
| update_advance: "topology_update v (snd (TopologyView_advance v))"

lemma advance_lookup [simp]: "topology_lookup (snd (TopologyView_advance v)) = topology_lookup v"
  by (simp add: TopologyView_advance_def topology_lookup_def fun_eq_iff split: sum.splits)

lemma put_link_lookup [simp]: "topology_lookup (snd (TopologyView_put_link n l v)) = topology_lookup v"
  by (simp add: TopologyView_put_link_def topology_lookup_def fun_eq_iff split: option.splits)

lemma put_epoch:
  assumes "topology_wf v" "topology_lookup v e = Some r"
  shows "\<exists>r'. topology_lookup (snd (TopologyView_put n reg v)) e = Some r' \<and>
    inc_epoch (er_incarnation r) \<le> inc_epoch (er_incarnation r')"
proof (cases "TopologyView_put n reg v")
  case (Pair st v')
  show ?thesis
  proof (cases "Status_ok st \<and> e = er_endpoint reg")
    case True
    then have "\<not> inc_epoch (er_incarnation r) > inc_epoch (er_incarnation reg)"
      using Pair assms(2)
      by (auto simp: TopologyView_put_def topology_lookup_def split: if_splits)
    then show ?thesis
      using put_lookup [OF assms(1) Pair] Pair True by auto
  next
    case False
    then show ?thesis
      using Pair assms put_lookup [OF assms(1) Pair] put_refused [OF Pair]
      by (cases "Status_ok st") auto
  qed
qed

lemma topology_update_epoch:
  assumes "topology_update v v'" "topology_wf v" "topology_lookup v e = Some r"
  shows "topology_wf v' \<and> (\<exists>r'. topology_lookup v' e = Some r' \<and>
    inc_epoch (er_incarnation r) \<le> inc_epoch (er_incarnation r'))"
  using assms
proof (cases rule: topology_update.cases)
  case (update_put n reg)
  then show ?thesis
    using assms put_epoch [OF assms(2,3)] by (simp add: topology_wf_ops)
next
  case (update_dead x)
  then show ?thesis
    using assms by (auto simp: topology_wf_ops mark_dead_lookup split: option.splits)
qed (use assms in \<open>simp_all add: topology_wf_ops\<close>)

lemma topology_updates_epoch:
  assumes "topology_update\<^sup>*\<^sup>* v v'" "topology_wf v" "topology_lookup v e = Some r"
  shows "topology_wf v' \<and> (\<exists>r'. topology_lookup v' e = Some r' \<and>
    inc_epoch (er_incarnation r) \<le> inc_epoch (er_incarnation r'))"
  using assms
proof (induction rule: rtranclp_induct)
  case (step y z)
  then show ?case
    using topology_update_epoch [OF step.hyps(2)] by (metis order_trans)
qed auto

lemma advance_generation: "tv_generation v \<le> tv_generation (snd (TopologyView_advance v))"
  using Generation_next_less
  by (fastforce simp: TopologyView_advance_def intro: less_imp_le split: sum.splits)

lemma put_then_find:
  assumes "topology_wf v" "TopologyView_put n r v = (st, v')" "Status_ok st"
  shows "TopologyView_find (er_endpoint r) v' = Inr r"
  using topology.lookup_put_same [OF assms] by (simp add: find_lookup)

end
