(* ===== verification/SMF_Compatibility.thy ===== *)
theory SMF_Compatibility
  imports SMF_Registry SMF_State_Object
begin

text \<open>
  \<^verbatim>\<open>include/smf/compatibility.hpp\<close> and \<^verbatim>\<open>src/compatibility.cpp\<close>: compatibility evidence and the
  registry that publishes it.  The attributes of a piece of evidence are the association list a
  \<^verbatim>\<open>std::map\<close> iterates over.

  The registry implements the keyed registry contract; a query never invents a verdict, and the
  evidence it returns is about the queried version and destination.
\<close>

datatype compatibility_verdict = CV_UNKNOWN | CV_SUPPORTED | CV_UNSUPPORTED

fun CompatibilityVerdict_value :: "compatibility_verdict \<Rightarrow> u8" where
  "CompatibilityVerdict_value CV_UNKNOWN = 0"
| "CompatibilityVerdict_value CV_SUPPORTED = 1"
| "CompatibilityVerdict_value CV_UNSUPPORTED = 2"

fun CompatibilityVerdict_to_string :: "compatibility_verdict \<Rightarrow> string" where
  "CompatibilityVerdict_to_string CV_UNKNOWN = ''UNKNOWN''"
| "CompatibilityVerdict_to_string CV_SUPPORTED = ''SUPPORTED''"
| "CompatibilityVerdict_to_string CV_UNSUPPORTED = ''UNSUPPORTED''"

definition compatibility_verdict_from_string :: "string \<Rightarrow> compatibility_verdict option" where
  "compatibility_verdict_from_string text =
    (if text = ''UNKNOWN'' then Some CV_UNKNOWN
     else if text = ''SUPPORTED'' then Some CV_SUPPORTED
     else if text = ''UNSUPPORTED'' then Some CV_UNSUPPORTED
     else None)"

record evidence =
  ce_generation :: generation
  ce_object_id :: state_object_id
  ce_state_generation :: generation
  ce_content_digest :: digest
  ce_destination :: endpoint_id
  ce_verdict :: compatibility_verdict
  ce_contract :: string
  ce_attributes :: "(string \<times> string) list"
  ce_observed_unix_millis :: u64
  ce_evidence_digest :: digest

fun check_attributes :: "(string \<times> string) list \<Rightarrow> status" where
  "check_attributes [] = Status_success"
| "check_attributes ((k, v) # entries) =
    (if k = [] \<or> length k > kMaxTextBytes \<or> \<not> is_valid_utf8 (as_bytes k)
     then Status INVALID_ARGUMENT ''compatibility attribute key is not usable''
     else if length v > kMaxTextBytes \<or> \<not> is_valid_utf8 (as_bytes v)
     then Status INVALID_ARGUMENT ''compatibility attribute value is not usable''
     else check_attributes entries)"

definition CompatibilityEvidence_validate :: "evidence \<Rightarrow> status" where
  "CompatibilityEvidence_validate e =
    (if \<not> Generation_is_set (ce_generation e)
     then Status INVALID_GENERATION ''compatibility generation must be non-zero''
     else if FixedId_is_zero (ce_object_id e)
     then Status INVALID_ID ''compatibility evidence must name a state object''
     else if \<not> Generation_is_set (ce_state_generation e)
     then Status INVALID_GENERATION ''compatibility evidence must name a generation''
     else if Digest_is_zero (ce_content_digest e)
     then Status INVALID_DIGEST ''compatibility evidence must bind a content digest''
     else if ce_destination e = []
     then Status INVALID_ID ''compatibility evidence must name a destination''
     else if ce_contract e = []
     then Status INVALID_ARGUMENT ''compatibility evidence must name a contract''
     else if length (ce_contract e) > kMaxTextBytes \<or> \<not> is_valid_utf8 (as_bytes (ce_contract e))
     then Status INVALID_ARGUMENT ''compatibility contract string is not usable''
     else if length (ce_attributes e) > kMaxEvidenceAttributes
     then Status INVALID_ARGUMENT ''compatibility evidence carries too many attributes''
     else if \<not> Status_ok (check_attributes (ce_attributes e)) then check_attributes (ce_attributes e)
     else if sint (ce_observed_unix_millis e) \<le> 0
     then Status INVALID_ARGUMENT ''compatibility evidence needs an observation time''
     else Status_success)"

definition applies_to :: "evidence \<Rightarrow> state_object \<Rightarrow> endpoint_id \<Rightarrow> bool" where
  "applies_to e descriptor destination_id \<longleftrightarrow>
     ce_object_id e = so_object_id descriptor \<and> ce_state_generation e = so_generation descriptor \<and>
     ce_content_digest e = so_content_digest descriptor \<and> ce_destination e = destination_id"

definition evidence_encoding :: "evidence \<Rightarrow> bytes" where
  "evidence_encoding e =
     enc_text ''SMF-COMPATIBILITY-EVIDENCE-v1'' @
     enc_digest (ce_object_id e) @
     enc_u64 (ce_state_generation e) @
     enc_digest (ce_content_digest e) @
     enc_text (ce_destination e) @
     enc_u8 (CompatibilityVerdict_value (ce_verdict e)) @
     enc_text (ce_contract e) @
     enc_u32 (word_of_nat (length (ce_attributes e))) @
     concat (map (\<lambda>(k, v). enc_text k @ enc_text v) (ce_attributes e))"

type_synonym evidence_key = "state_object_id \<times> generation \<times> endpoint_id"

record compatibility_registry =
  cr_evidence :: "evidence_key \<rightharpoonup> evidence"
  cr_generation :: generation

definition CompatibilityRegistry_default :: compatibility_registry where
  "CompatibilityRegistry_default = \<lparr>cr_evidence = Map.empty, cr_generation = 1\<rparr>"

definition evidence_key :: "evidence \<Rightarrow> evidence_key" where
  "evidence_key e = (ce_object_id e, ce_state_generation e, ce_destination e)"

text \<open>What \<open>publish\<close> writes into the evidence before it validates it.\<close>

definition stamp_evidence :: "u64 \<Rightarrow> compatibility_registry \<Rightarrow> evidence \<Rightarrow> evidence" where
  "stamp_evidence now r e =
     e\<lparr>ce_evidence_digest := canonical_digest (evidence_encoding e),
       ce_observed_unix_millis :=
         (if sint (ce_observed_unix_millis e) \<le> 0 then now else ce_observed_unix_millis e),
       ce_generation := cr_generation r\<rparr>"

definition advance_compatibility :: "compatibility_registry \<Rightarrow> compatibility_registry" where
  "advance_compatibility r =
    (case Generation_next (cr_generation r) of Inl _ \<Rightarrow> r | Inr g \<Rightarrow> r\<lparr>cr_generation := g\<rparr>)"

definition CompatibilityRegistry_publish ::
    "u64 \<Rightarrow> evidence \<Rightarrow> compatibility_registry \<Rightarrow> status \<times> compatibility_registry" where
  "CompatibilityRegistry_publish now evidence r =
    (let evidence = stamp_evidence now r evidence
     in if \<not> Status_ok (CompatibilityEvidence_validate evidence)
        then (CompatibilityEvidence_validate evidence, r)
        else (Status_success, advance_compatibility
          (r\<lparr>cr_evidence := (cr_evidence r)(evidence_key evidence \<mapsto> evidence)\<rparr>)))"

definition CompatibilityRegistry_withdraw ::
    "evidence_key \<Rightarrow> compatibility_registry \<Rightarrow> status \<times> compatibility_registry" where
  "CompatibilityRegistry_withdraw key r =
    (if cr_evidence r key = None
     then (Status NOT_FOUND ''no compatibility evidence is recorded for that subject'', r)
     else (Status_success, advance_compatibility (r\<lparr>cr_evidence := (cr_evidence r)(key := None)\<rparr>)))"

definition CompatibilityRegistry_query ::
    "compatibility_registry \<Rightarrow> state_object \<Rightarrow> endpoint_id \<Rightarrow> evidence result" where
  "CompatibilityRegistry_query r descriptor destination =
    (case cr_evidence r (so_object_id descriptor, so_generation descriptor, destination) of
       None \<Rightarrow> err NO_EVIDENCE
         (''no compatibility evidence has been published for this object version at this '' @
          ''destination; the verdict is unknown, not positive'')
     | Some evidence \<Rightarrow> Inr evidence)"

section \<open>Lemmas\<close>

lemma compatibility_verdict_from_to_string:
  "compatibility_verdict_from_string (CompatibilityVerdict_to_string v) = Some v"
  by (cases v) (simp_all add: compatibility_verdict_from_string_def)

lemma verdict_value_inject: "CompatibilityVerdict_value v = CompatibilityVerdict_value w \<longleftrightarrow> v = w"
  by (cases v; cases w) simp_all

lemma advance_evidence [simp]: "cr_evidence (advance_compatibility r) = cr_evidence r"
  by (simp add: advance_compatibility_def split: sum.splits)

lemma advance_generation_le: "cr_generation r \<le> cr_generation (advance_compatibility r)"
  using Generation_next_less
  by (fastforce simp: advance_compatibility_def intro: less_imp_le split: sum.splits)

lemma stamp_key [simp]: "evidence_key (stamp_evidence now r e) = evidence_key e"
  by (simp add: evidence_key_def stamp_evidence_def)

text \<open>Recorded evidence is valid, is filed under its own subject, and carries its digest.\<close>

definition registry_wf :: "compatibility_registry \<Rightarrow> bool" where
  "registry_wf r \<longleftrightarrow>
     (\<forall>k e. cr_evidence r k = Some e \<longrightarrow> k = evidence_key e \<and>
        Status_ok (CompatibilityEvidence_validate e) \<and>
        ce_evidence_digest e = canonical_digest (evidence_encoding e) \<and>
        ce_generation e \<le> cr_generation r) \<and>
     cr_generation r \<noteq> 0"

lemma registry_wf_default: "registry_wf CompatibilityRegistry_default"
  by (simp add: registry_wf_def CompatibilityRegistry_default_def)

lemma registry_wf_advance:
  assumes "registry_wf r"
  shows "registry_wf (advance_compatibility r)"
proof (cases "Generation_next (cr_generation r)")
  case (Inr g)
  then show ?thesis
    using assms Generation_next_less [OF Inr] Generation_next_set [OF Inr]
    by (force simp: registry_wf_def advance_compatibility_def)
qed (use assms in \<open>simp add: advance_compatibility_def\<close>)

lemma registry_wf_publish:
  assumes "registry_wf r"
  shows "registry_wf (snd (CompatibilityRegistry_publish now e r))"
proof -
  let ?e = "stamp_evidence now r e"
  have "evidence_encoding ?e = evidence_encoding e"
    by (simp add: evidence_encoding_def stamp_evidence_def)
  then have "ce_evidence_digest ?e = canonical_digest (evidence_encoding ?e)"
      "ce_generation ?e = cr_generation r"
    by (simp_all add: stamp_evidence_def)
  then have "registry_wf (r\<lparr>cr_evidence := (cr_evidence r)(evidence_key ?e \<mapsto> ?e)\<rparr>)"
    if "Status_ok (CompatibilityEvidence_validate ?e)"
    using that assms by (auto simp: registry_wf_def)
  then show ?thesis
    using assms registry_wf_advance by (auto simp: CompatibilityRegistry_publish_def Let_def)
qed

lemma registry_wf_withdraw:
  assumes "registry_wf r"
  shows "registry_wf (snd (CompatibilityRegistry_withdraw k r))"
proof -
  have "registry_wf (r\<lparr>cr_evidence := (cr_evidence r)(k := None)\<rparr>)"
    using assms by (auto simp: registry_wf_def)
  then show ?thesis
    using assms registry_wf_advance by (auto simp: CompatibilityRegistry_withdraw_def)
qed

interpretation compatibility: keyed_registry cr_evidence "CompatibilityRegistry_publish now"
    CompatibilityRegistry_withdraw evidence_key "stamp_evidence now" registry_wf
  by unfold_locales
    (auto simp: CompatibilityRegistry_publish_def CompatibilityRegistry_withdraw_def Let_def
      registry_wf_publish [unfolded CompatibilityRegistry_publish_def Let_def]
      registry_wf_withdraw [unfolded CompatibilityRegistry_withdraw_def] split: if_splits)

lemma query_subject:
  assumes "registry_wf r" "CompatibilityRegistry_query r d dest = Inr e"
  shows "ce_object_id e = so_object_id d \<and> ce_state_generation e = so_generation d \<and>
    ce_destination e = dest \<and> Status_ok (CompatibilityEvidence_validate e)"
  using assms
  by (fastforce simp: CompatibilityRegistry_query_def registry_wf_def evidence_key_def
      split: option.splits)

lemma publish_then_query:
  assumes "registry_wf r" "CompatibilityRegistry_publish now e r = (st, r')" "Status_ok st"
    "so_object_id d = ce_object_id e" "so_generation d = ce_state_generation e"
  shows "CompatibilityRegistry_query r' d (ce_destination e) = Inr (stamp_evidence now r e)"
  using compatibility.lookup_put_same [OF assms(1-3)] assms(4,5)
  by (simp add: CompatibilityRegistry_query_def evidence_key_def)

lemma withdraw_then_query:
  assumes "registry_wf r" "k = (so_object_id d, so_generation d, dest)"
  shows "\<exists>m. CompatibilityRegistry_query (snd (CompatibilityRegistry_withdraw k r)) d dest =
    Inl (Status NO_EVIDENCE m)"
  using compatibility.lookup_remove_same [OF assms(1), of k] assms(2)
  by (simp add: CompatibilityRegistry_query_def)

end
