(* ===== verification/SMF_Registry_Properties.thy ===== *)
theory SMF_Registry_Properties
  imports SMF_Sample SMF_Policy SMF_Topology SMF_Compatibility
begin

text \<open>
  The properties of the coordinator's registries: the topology view as the map it implements,
  the epochs it records, compatibility evidence and the policy digest.
\<close>

section \<open>Topology\<close>

text \<open>C25: the vector and index of the topology view implement a map from endpoint to registration:
  an accepted registration overwrites exactly its own entry, a refused one changes nothing,
  removal deletes exactly one entry, lookups read the map, and the invariant between vector and
  index is kept.\<close>

theorem topology_implements_map:
  assumes "topology_wf v"
  shows "topology_wf (snd (TopologyView_put n r v)) \<and> topology_wf (snd (TopologyView_remove e v)) \<and>
    topology_lookup (snd (TopologyView_put n r v)) =
      (if Status_ok (fst (TopologyView_put n r v)) then (topology_lookup v)(er_endpoint r \<mapsto> r)
       else topology_lookup v) \<and>
    topology_lookup (snd (TopologyView_remove e v)) = (topology_lookup v)(e := None) \<and>
    (Status_ok (fst (TopologyView_remove e v)) \<longleftrightarrow> topology_lookup v e \<noteq> None) \<and>
    TopologyView_find e v =
      (case topology_lookup v e of
         None \<Rightarrow> err ENDPOINT_NOT_FOUND ''endpoint is not registered'' | Some r \<Rightarrow> Inr r)"
proof -
  have "topology_lookup (snd (TopologyView_put n r v)) =
      (if Status_ok (fst (TopologyView_put n r v)) then (topology_lookup v)(er_endpoint r \<mapsto> r)
       else topology_lookup v)"
    using topology.put_ok [OF assms, of n r] topology.put_refused [OF assms, of n r]
    by (cases "TopologyView_put n r v") auto
  moreover have "topology_lookup (snd (TopologyView_remove e v)) = (topology_lookup v)(e := None)"
    using topology.lookup_remove_same [OF assms, of e] topology.lookup_remove_other [OF assms]
    by (auto simp: fun_eq_iff)
  ultimately show ?thesis
    using topology.put_inv [OF assms, of n r] topology.remove_inv [OF assms, of e]
      topology.remove_ok_iff [OF assms, of e] by (simp add: find_lookup)
qed

definition sample_registration :: registration where
  "sample_registration =
    \<lparr>er_endpoint = ''a'', er_incarnation = \<lparr>inc_endpoint = ''a'', inc_boot = 1, inc_epoch = 3\<rparr>,
     er_service_address = \<lparr>sa_host = ''h'', sa_port = 1\<rparr>,
     er_data_address = \<lparr>sa_host = ''h'', sa_port = 2\<rparr>,
     er_contract = kPeerContract, er_capability_digest = 1, er_registered_unix_millis = 1, er_live = True\<rparr>"

lemma sample_put_ok: "Status_ok (fst (TopologyView_put 8 sample_registration TopologyView_default))"
  by (simp add: TopologyView_put_def TopologyView_default_def sample_registration_def
      EndpointRegistration_validate_def Incarnation_is_set_def kPeerContract_def Let_def
      TopologyView_advance_def split: prod.splits sum.splits)

theorem topology_implements_map_witness:
  "topology_wf TopologyView_default \<and>
   topology_lookup (snd (TopologyView_put 8 sample_registration TopologyView_default)) ''a'' =
     Some sample_registration"
  using topology_implements_map [OF topology_wf_default, of 8 sample_registration] sample_put_ok
    topology_wf_default by (simp add: sample_registration_def)

text \<open>C34: while an endpoint stays registered, no sequence of registrations, liveness changes,
  link updates and generation advances takes its recorded incarnation epoch backwards.\<close>

theorem recorded_epoch_monotone:
  assumes "topology_update\<^sup>*\<^sup>* v v'" "topology_wf v" "topology_lookup v e = Some r"
  shows "\<exists>r'. topology_lookup v' e = Some r' \<and>
    inc_epoch (er_incarnation r) \<le> inc_epoch (er_incarnation r')"
  using topology_updates_epoch [OF assms] by blast

theorem recorded_epoch_monotone_witness:
  "\<exists>r'. topology_lookup (snd (TopologyView_mark_dead ''a''
      (snd (TopologyView_put 8 sample_registration TopologyView_default)))) ''a'' = Some r' \<and>
    3 \<le> inc_epoch (er_incarnation r')"
proof -
  let ?v = "snd (TopologyView_put 8 sample_registration TopologyView_default)"
  have "topology_wf ?v" "topology_lookup ?v ''a'' = Some sample_registration"
    using topology.put_inv [OF topology_wf_default, of 8 sample_registration]
      topology.lookup_put_same [OF topology_wf_default surjective_pairing sample_put_ok]
    by (simp_all add: sample_registration_def)
  moreover have "topology_update\<^sup>*\<^sup>* ?v (snd (TopologyView_mark_dead ''a'' ?v))"
    by (rule r_into_rtranclp) (rule update_dead)
  ultimately have "\<exists>r'. topology_lookup (snd (TopologyView_mark_dead ''a'' ?v)) ''a'' = Some r' \<and>
      inc_epoch (er_incarnation sample_registration) \<le> inc_epoch (er_incarnation r')"
    by (intro recorded_epoch_monotone)
  then show ?thesis
    by (simp add: sample_registration_def)
qed

section \<open>Compatibility evidence\<close>

text \<open>C35: evidence found for an object and a destination is valid, names exactly that object, its
  generation and that destination; evidence that was just published is what a query returns,
  and after a withdrawal the query reports that there is none.\<close>

theorem compatibility_query_sound:
  assumes "registry_wf r"
  shows "(CompatibilityRegistry_query r d dest = Inr e \<longrightarrow>
      ce_object_id e = so_object_id d \<and> ce_state_generation e = so_generation d \<and>
      ce_destination e = dest \<and> Status_ok (CompatibilityEvidence_validate e)) \<and>
    (Status_ok (fst (CompatibilityRegistry_publish now ev r)) \<and> so_object_id d = ce_object_id ev \<and>
       so_generation d = ce_state_generation ev \<longrightarrow>
     CompatibilityRegistry_query (snd (CompatibilityRegistry_publish now ev r)) d (ce_destination ev) =
       Inr (stamp_evidence now r ev)) \<and>
    (\<exists>m. CompatibilityRegistry_query
       (snd (CompatibilityRegistry_withdraw (so_object_id d, so_generation d, dest) r)) d dest =
       Inl (Status NO_EVIDENCE m))"
  using query_subject [OF assms] publish_then_query [OF assms surjective_pairing]
    withdraw_then_query [OF assms refl] by auto

definition sample_evidence :: evidence where
  "sample_evidence =
    \<lparr>ce_generation = 1, ce_object_id = sample_id, ce_state_generation = 1, ce_content_digest = 7,
     ce_destination = ''b'', ce_verdict = CV_SUPPORTED, ce_contract = kPeerContract,
     ce_attributes = [], ce_observed_unix_millis = 1, ce_evidence_digest = 0\<rparr>"

lemma sample_publish_ok:
  "Status_ok (fst (CompatibilityRegistry_publish 1 sample_evidence CompatibilityRegistry_default))"
proof -
  have "is_valid_utf8 (as_bytes kPeerContract)"
    by code_simp
  then show ?thesis
    by (simp add: CompatibilityRegistry_publish_def stamp_evidence_def sample_evidence_def Let_def
        CompatibilityEvidence_validate_def CompatibilityRegistry_default_def sample_id_def kPeerContract_def)
qed

theorem compatibility_query_sound_witness:
  "CompatibilityRegistry_query
     (snd (CompatibilityRegistry_publish 1 sample_evidence CompatibilityRegistry_default))
     sample_object ''b'' = Inr (stamp_evidence 1 CompatibilityRegistry_default sample_evidence)"
  using compatibility_query_sound [OF registry_wf_default, of sample_object "''b''" _ 1 sample_evidence]
    sample_publish_ok by (simp add: sample_object_def sample_evidence_def)

section \<open>Policy\<close>

text \<open>Policies that differ in the generation or in any limit have different digests, unless
  their two different encodings collide under SHA-256.\<close>

lemma policy_digest_binds:
  assumes "policy_set_valid p" "policy_set_valid q" "p \<noteq> q"
  shows "PolicySet_encode p \<noteq> PolicySet_encode q \<and>
    (PolicySet_digest p = PolicySet_digest q \<longleftrightarrow>
     sha256 (enc_text ''SMF-POLICY-SET-v1'' @ PolicySet_encode p) =
     sha256 (enc_text ''SMF-POLICY-SET-v1'' @ PolicySet_encode q))"
  using assms(3) policy_set_codec.encoding_inject [OF assms(1,2)]
  by (auto simp: PolicySet_digest_def canonical_digest_def)

end
