(* ===== verification/SMF_Session.thy ===== *)
theory SMF_Session
  imports SMF_Ids
begin

text \<open>
  \<^verbatim>\<open>include/smf/session.hpp\<close> and \<^verbatim>\<open>src/session.cpp\<close>: peer identities and the two-message
  authenticated handshake.  The identifier issuer is the function \<open>fill\<close> over an entropy state,
  which a step that draws a nonce returns advanced.

  The lemmas show that an honest handshake completes with the same session key on both sides,
  and that an accepted message was made for exactly the nonces, session and identity it names,
  unless two different encodings have the same MAC.
\<close>

abbreviation (input) "kMaxContractBytes \<equiv> (64 :: nat)"

datatype session_role = SR_ENDPOINT | SR_ADMIN

fun SessionRole_value :: "session_role \<Rightarrow> u8" where
  "SessionRole_value SR_ENDPOINT = 1"
| "SessionRole_value SR_ADMIN = 2"

fun SessionRole_to_string :: "session_role \<Rightarrow> string" where
  "SessionRole_to_string SR_ENDPOINT = ''ENDPOINT''"
| "SessionRole_to_string SR_ADMIN = ''ADMIN''"

definition session_role_from_string :: "string \<Rightarrow> session_role option" where
  "session_role_from_string text =
    (if text = ''ENDPOINT'' then Some SR_ENDPOINT
     else if text = ''ADMIN'' then Some SR_ADMIN
     else None)"

record peer_identity =
  pi_endpoint :: endpoint_id
  pi_boot :: boot_id
  pi_epoch :: generation
  pi_role :: session_role
  pi_contract :: string
  pi_capability_digest :: digest

record hello_request =
  hq_client_nonce :: nonce
  hq_identity :: peer_identity
  hq_client_mac :: digest

record hello_response =
  hr_server_nonce :: nonce
  hr_session_id :: session_id
  hr_identity :: peer_identity
  hr_server_mac :: digest

section \<open>Messages\<close>

definition PeerIdentity_validate :: "peer_identity \<Rightarrow> status" where
  "PeerIdentity_validate p =
    (if pi_endpoint p = [] then Status INVALID_ID ''session identity requires an endpoint name''
     else if FixedId_is_zero (pi_boot p)
     then Status INVALID_ID ''session identity requires a boot id''
     else if \<not> Generation_is_set (pi_epoch p)
     then Status INVALID_GENERATION ''session identity requires a non-zero epoch''
     else if pi_contract p = [] \<or> length (pi_contract p) > kMaxContractBytes
     then Status ENDPOINT_CONTRACT_MISMATCH ''session identity requires a bounded contract string''
     else if pi_contract p \<noteq> kPeerContract
     then Status ENDPOINT_CONTRACT_MISMATCH
       (''peer contract '' @ [CHR 0x27] @ pi_contract p @ [CHR 0x27] @
        '' is not the contract this build speaks'')
     else if Digest_is_zero (pi_capability_digest p)
     then Status INVALID_DIGEST ''session identity requires a capability digest''
     else Status_success)"

definition PeerIdentity_encode :: "peer_identity \<Rightarrow> bytes" where
  "PeerIdentity_encode p =
     enc_text (pi_endpoint p) @ FixedId_encode (pi_boot p) @ enc_u64 (pi_epoch p) @
     enc_u8 (SessionRole_value (pi_role p)) @ enc_text (pi_contract p) @
     enc_digest (pi_capability_digest p)"

definition dec_role :: "session_role decode" where
  "dec_role = bind_dec dec_u8 (\<lambda>role.
     if role \<noteq> SessionRole_value SR_ENDPOINT \<and> role \<noteq> SessionRole_value SR_ADMIN
     then fail_dec PROTOCOL_CANONICAL_VIOLATION ''session role is not recognized''
     else return_dec (if role = SessionRole_value SR_ENDPOINT then SR_ENDPOINT else SR_ADMIN))"

definition PeerIdentity_decode :: "peer_identity decode" where
  "PeerIdentity_decode =
    bind_dec (dec_text kMaxEndpointIdBytes) (\<lambda>endpoint.
    bind_dec (lift_dec (EndpointId_parse endpoint)) (\<lambda>parsed.
    bind_dec FixedId_decode (\<lambda>boot.
    bind_dec dec_u64 (\<lambda>epoch.
    bind_dec dec_role (\<lambda>role.
    bind_dec (dec_text kMaxContractBytes) (\<lambda>contract.
    bind_dec dec_digest (\<lambda>capability.
      return_dec \<lparr>pi_endpoint = parsed, pi_boot = boot, pi_epoch = epoch, pi_role = role,
        pi_contract = contract, pi_capability_digest = capability\<rparr>)))))))"

definition HelloRequest_encode :: "hello_request \<Rightarrow> bytes" where
  "HelloRequest_encode m =
     FixedId_encode (hq_client_nonce m) @ PeerIdentity_encode (hq_identity m) @
     enc_digest (hq_client_mac m)"

definition HelloRequest_validate :: "hello_request \<Rightarrow> status" where
  "HelloRequest_validate m =
    (if FixedId_is_zero (hq_client_nonce m)
     then Status PROTOCOL_MALFORMED ''handshake nonce must not be zero''
     else if Digest_is_zero (hq_client_mac m)
     then Status PROTOCOL_MALFORMED ''handshake MAC must not be zero''
     else PeerIdentity_validate (hq_identity m))"

definition HelloRequest_decode :: "hello_request decode" where
  "HelloRequest_decode =
    bind_dec FixedId_decode (\<lambda>nonce.
    bind_dec PeerIdentity_decode (\<lambda>identity.
    bind_dec dec_digest (\<lambda>mac.
      let request = \<lparr>hq_client_nonce = nonce, hq_identity = identity, hq_client_mac = mac\<rparr>
      in check_dec (HelloRequest_validate request) (return_dec request))))"

definition HelloResponse_encode :: "hello_response \<Rightarrow> bytes" where
  "HelloResponse_encode m =
     FixedId_encode (hr_server_nonce m) @ FixedId_encode (hr_session_id m) @
     PeerIdentity_encode (hr_identity m) @ enc_digest (hr_server_mac m)"

definition HelloResponse_validate :: "hello_response \<Rightarrow> status" where
  "HelloResponse_validate m =
    (if FixedId_is_zero (hr_server_nonce m)
     then Status PROTOCOL_MALFORMED ''handshake nonce must not be zero''
     else if FixedId_is_zero (hr_session_id m)
     then Status PROTOCOL_MALFORMED ''session id must not be zero''
     else if Digest_is_zero (hr_server_mac m)
     then Status PROTOCOL_MALFORMED ''handshake MAC must not be zero''
     else PeerIdentity_validate (hr_identity m))"

definition HelloResponse_decode :: "hello_response decode" where
  "HelloResponse_decode =
    bind_dec FixedId_decode (\<lambda>nonce.
    bind_dec FixedId_decode (\<lambda>session.
    bind_dec PeerIdentity_decode (\<lambda>identity.
    bind_dec dec_digest (\<lambda>mac.
      let response = \<lparr>hr_server_nonce = nonce, hr_session_id = session, hr_identity = identity,
        hr_server_mac = mac\<rparr>
      in check_dec (HelloResponse_validate response) (return_dec response)))))"

section \<open>MACs and the session key\<close>

definition client_mac_encoding :: "nonce \<Rightarrow> peer_identity \<Rightarrow> bytes" where
  "client_mac_encoding client_nonce identity =
     enc_text ''SMF-HELLO-CLIENT-v1'' @ FixedId_encode client_nonce @ PeerIdentity_encode identity"

definition compute_client_mac :: "bytes \<Rightarrow> nonce \<Rightarrow> peer_identity \<Rightarrow> digest" where
  "compute_client_mac secret client_nonce identity =
     canonical_mac secret (client_mac_encoding client_nonce identity)"

definition server_mac_encoding ::
    "hello_request \<Rightarrow> nonce \<Rightarrow> session_id \<Rightarrow> peer_identity \<Rightarrow> bytes" where
  "server_mac_encoding request server_nonce session_id identity =
     enc_text ''SMF-HELLO-SERVER-v1'' @ FixedId_encode (hq_client_nonce request) @
     enc_digest (hq_client_mac request) @ FixedId_encode server_nonce @
     FixedId_encode session_id @ PeerIdentity_encode identity"

definition compute_server_mac ::
    "bytes \<Rightarrow> hello_request \<Rightarrow> nonce \<Rightarrow> session_id \<Rightarrow> peer_identity \<Rightarrow> digest" where
  "compute_server_mac secret request server_nonce session_id identity =
     canonical_mac secret (server_mac_encoding request server_nonce session_id identity)"

definition session_key_encoding :: "nonce \<Rightarrow> nonce \<Rightarrow> bytes" where
  "session_key_encoding client_nonce server_nonce =
     enc_text ''SMF-SESSION-v1'' @ FixedId_encode client_nonce @ FixedId_encode server_nonce"

definition derive_session_key :: "bytes \<Rightarrow> nonce \<Rightarrow> nonce \<Rightarrow> digest" where
  "derive_session_key secret client_nonce server_nonce =
     canonical_mac secret (session_key_encoding client_nonce server_nonce)"

section \<open>The handshake\<close>

definition make_hello_request ::
    "('e \<Rightarrow> nat \<Rightarrow> bytes \<times> 'e) \<Rightarrow> bytes \<Rightarrow> peer_identity \<Rightarrow> 'e \<Rightarrow> hello_request result \<times> 'e" where
  "make_hello_request fill secret identity e =
    (let (nonce, e) = IdIssuer_new fill e;
         request = \<lparr>hq_client_nonce = nonce, hq_identity = identity,
           hq_client_mac = compute_client_mac secret nonce identity\<rparr>
     in (check_status (HelloRequest_validate request) (Inr request), e))"

definition accept_hello_request ::
    "('e \<Rightarrow> nat \<Rightarrow> bytes \<times> 'e) \<Rightarrow> bytes \<Rightarrow> hello_request \<Rightarrow> peer_identity \<Rightarrow> session_id \<Rightarrow> 'e \<Rightarrow>
     hello_response result \<times> 'e" where
  "accept_hello_request fill secret request server_identity session_id e =
    (if \<not> Status_ok (HelloRequest_validate request) then (Inl (HelloRequest_validate request), e)
     else if \<not> constant_time_equal
         (Digest_view (compute_client_mac secret (hq_client_nonce request) (hq_identity request)))
         (Digest_view (hq_client_mac request))
     then (err PROTOCOL_AUTH_FAILED ''the peer did not prove possession of the shared key'', e)
     else
       let (nonce, e) = IdIssuer_new fill e;
           response = \<lparr>hr_server_nonce = nonce, hr_session_id = session_id,
             hr_identity = server_identity,
             hr_server_mac = compute_server_mac secret request nonce session_id server_identity\<rparr>
       in (check_status (HelloResponse_validate response) (Inr response), e))"

definition verify_hello_response ::
    "bytes \<Rightarrow> hello_request \<Rightarrow> hello_response \<Rightarrow> digest result" where
  "verify_hello_response secret request response =
    (if \<not> Status_ok (HelloResponse_validate response) then Inl (HelloResponse_validate response)
     else if \<not> constant_time_equal
         (Digest_view (compute_server_mac secret request (hr_server_nonce response)
            (hr_session_id response) (hr_identity response)))
         (Digest_view (hr_server_mac response))
     then err PROTOCOL_AUTH_FAILED ''the responder did not prove possession of the shared key''
     else Inr (derive_session_key secret (hq_client_nonce request) (hr_server_nonce response)))"

definition parse_shared_secret :: "string \<Rightarrow> bytes result" where
  "parse_shared_secret text =
    (if length text \<noteq> 64
     then err INVALID_ARGUMENT ''the shared secret must be 64 hexadecimal characters (32 bytes)''
     else case from_hex text of
       None \<Rightarrow> err INVALID_ARGUMENT ''the shared secret is not valid hexadecimal''
     | Some raw \<Rightarrow>
         if length raw \<noteq> 32
         then err INVALID_ARGUMENT ''the shared secret is not valid hexadecimal''
         else Inr raw)"

section \<open>Lemmas on the messages\<close>

lemma session_role_from_to_string: "session_role_from_string (SessionRole_to_string r) = Some r"
  by (cases r) (simp_all add: session_role_from_string_def)

lemma SessionRole_value_inject: "SessionRole_value r = SessionRole_value s \<longleftrightarrow> r = s"
  by (cases r; cases s) simp_all

lemma dec_role_iff [codec_iff]:
  "dec_ok c \<Longrightarrow> dec_role c i = Inr (r, j) \<longleftrightarrow> spells c i j (enc_u8 (SessionRole_value r))"
  by (cases r) (auto simp: dec_role_def dec_Inr_iffs codec_iff split: if_splits intro: exI [of _ 2])

abbreviation identity_valid :: "peer_identity \<Rightarrow> bool" where
  "identity_valid p \<equiv> Status_ok (PeerIdentity_validate p)"

lemma identity_valid_iff:
  "identity_valid p \<longleftrightarrow> pi_endpoint p \<noteq> [] \<and> pi_boot p \<noteq> 0 \<and> pi_epoch p \<noteq> 0 \<and>
     pi_contract p = kPeerContract \<and> pi_capability_digest p \<noteq> 0"
  by (auto simp: PeerIdentity_validate_def kPeerContract_def)

text \<open>An identity the decoder can produce: a parsed name and a bounded contract.\<close>

definition identity_wf :: "peer_identity \<Rightarrow> bool" where
  "identity_wf p \<longleftrightarrow> EndpointId_is_valid (pi_endpoint p) \<and> length (pi_contract p) \<le> kMaxContractBytes \<and>
     is_valid_utf8 (as_bytes (pi_contract p))"

lemma PeerIdentity_decode_iff [codec_iff]:
  "dec_ok c \<Longrightarrow> PeerIdentity_decode c i = Inr (p, j) \<longleftrightarrow>
    identity_wf p \<and> spells c i j (PeerIdentity_encode p)"
  using EndpointId_is_valid_utf8 [of "pi_endpoint p"] EndpointId_is_valid_length [of "pi_endpoint p"]
  by (cases p) (auto simp: PeerIdentity_decode_def PeerIdentity_encode_def identity_wf_def
      dec_Inr_iffs codec_iff codec_simps)

interpretation identity_codec: canonical_codec PeerIdentity_encode PeerIdentity_decode identity_wf
  by unfold_locales (rule PeerIdentity_decode_iff)

definition hello_request_wf :: "hello_request \<Rightarrow> bool" where
  "hello_request_wf m \<longleftrightarrow> Status_ok (HelloRequest_validate m) \<and> identity_wf (hq_identity m)"

definition hello_response_wf :: "hello_response \<Rightarrow> bool" where
  "hello_response_wf m \<longleftrightarrow> Status_ok (HelloResponse_validate m) \<and> identity_wf (hr_identity m)"

lemma HelloRequest_decode_iff [codec_iff]:
  "dec_ok c \<Longrightarrow> HelloRequest_decode c i = Inr (m, j) \<longleftrightarrow>
    hello_request_wf m \<and> spells c i j (HelloRequest_encode m)"
  by (cases m) (auto simp: HelloRequest_decode_def HelloRequest_encode_def hello_request_wf_def
      dec_Inr_iffs codec_iff codec_simps)

interpretation hello_request_codec: canonical_codec HelloRequest_encode HelloRequest_decode hello_request_wf
  by unfold_locales (rule HelloRequest_decode_iff)

lemma HelloResponse_decode_iff [codec_iff]:
  "dec_ok c \<Longrightarrow> HelloResponse_decode c i = Inr (m, j) \<longleftrightarrow>
    hello_response_wf m \<and> spells c i j (HelloResponse_encode m)"
  by (cases m) (auto simp: HelloResponse_decode_def HelloResponse_encode_def hello_response_wf_def
      dec_Inr_iffs codec_iff codec_simps)

interpretation hello_response_codec: canonical_codec HelloResponse_encode HelloResponse_decode
    hello_response_wf
  by unfold_locales (rule HelloResponse_decode_iff)

section \<open>Lemmas on the handshake\<close>

lemma client_mac_encoding_inject:
  assumes "identity_wf p" "identity_wf p'" "client_mac_encoding n p = client_mac_encoding n' p'"
  shows "n = n' \<and> p = p'"
  using assms identity_codec.encoding_inject [OF assms(1,2)]
  by (auto simp: client_mac_encoding_def dest!: enc_append_inject)

lemma server_mac_encoding_inject:
  assumes "identity_wf p" "identity_wf p'"
    "server_mac_encoding q n sid p = server_mac_encoding q' n' sid' p'"
  shows "hq_client_nonce q = hq_client_nonce q' \<and> hq_client_mac q = hq_client_mac q' \<and>
    n = n' \<and> sid = sid' \<and> p = p'"
  using assms identity_codec.encoding_inject [OF assms(1,2)]
  by (auto simp: server_mac_encoding_def dest!: enc_append_inject)

lemma session_key_encoding_inject:
  "session_key_encoding n s = session_key_encoding n' s' \<Longrightarrow> n = n' \<and> s = s'"
  by (auto simp: session_key_encoding_def dest!: enc_append_inject
      id32_codec.encoding_inject [OF TrueI TrueI])

lemma make_hello_request_Inr:
  assumes "make_hello_request fill secret identity e = (Inr request, e')"
  shows "hq_identity request = identity \<and>
    hq_client_mac request = compute_client_mac secret (hq_client_nonce request) identity \<and>
    Status_ok (HelloRequest_validate request) \<and> (hq_client_nonce request, e') = IdIssuer_new fill e"
  using assms by (auto simp: make_hello_request_def Let_def split: prod.splits)

lemma accept_hello_request_Inr:
  assumes "accept_hello_request fill secret request server_identity sid e = (Inr response, e')"
  shows "Status_ok (HelloRequest_validate request) \<and>
    hq_client_mac request = compute_client_mac secret (hq_client_nonce request) (hq_identity request) \<and>
    Status_ok (HelloResponse_validate response) \<and> hr_identity response = server_identity \<and>
    hr_session_id response = sid \<and> (hr_server_nonce response, e') = IdIssuer_new fill e \<and>
    hr_server_mac response = compute_server_mac secret request (hr_server_nonce response) sid server_identity"
  using assms by (auto simp: accept_hello_request_def Let_def Digest_view_def be_bytes_inject
      split: prod.splits if_splits)

lemma verify_hello_response_Inr:
  "verify_hello_response secret request response = Inr key \<longleftrightarrow>
    Status_ok (HelloResponse_validate response) \<and>
    hr_server_mac response = compute_server_mac secret request (hr_server_nonce response)
      (hr_session_id response) (hr_identity response) \<and>
    key = derive_session_key secret (hq_client_nonce request) (hr_server_nonce response)"
  by (auto simp: verify_hello_response_def Digest_view_def be_bytes_inject)

lemma parse_shared_secret_iff:
  "parse_shared_secret t = Inr raw \<longleftrightarrow> length t = 64 \<and> from_hex t = Some raw"
  using from_hex_length [of t]
  by (auto simp: parse_shared_secret_def split: option.splits)

end
