(* ===== verification/SMF_Framing.thy ===== *)
theory SMF_Framing
  imports SMF_Ids
begin

text \<open>
  \<^verbatim>\<open>include/smf/framing.hpp\<close> and \<^verbatim>\<open>src/framing.cpp\<close>: frame headers, the authenticated frame codec
  and the framed stream.

  A \<^verbatim>\<open>MessageType\<close> is its 16-bit value, with the enumerators as abbreviations.  The connection under
  a \<^verbatim>\<open>FrameStream\<close> is an operating system socket: \<^verbatim>\<open>receive_some\<close> is a parameter of the model, and
  \<open>delivers\<close> states what the stream relies on.

  The lemmas show that the 40 header bytes and the header determine each other, that what one
  codec encodes the peer's codec accepts, that an accepted frame carries the expected tag and the
  expected sequence number and is never accepted twice, and that a frame is received whatever the
  fragmentation of the stream.
\<close>

section \<open>Message types\<close>

type_synonym message_type = u16

abbreviation (input) "MT_INVALID \<equiv> (0 :: message_type)"
abbreviation (input) "MT_HELLO \<equiv> (1 :: message_type)"
abbreviation (input) "MT_HELLO_ACK \<equiv> (2 :: message_type)"
abbreviation (input) "MT_HELLO_REJECT \<equiv> (3 :: message_type)"
abbreviation (input) "MT_REGISTER \<equiv> (10 :: message_type)"
abbreviation (input) "MT_REGISTER_ACK \<equiv> (11 :: message_type)"
abbreviation (input) "MT_ANNOUNCE_OBJECT \<equiv> (12 :: message_type)"
abbreviation (input) "MT_ANNOUNCE_ACK \<equiv> (13 :: message_type)"
abbreviation (input) "MT_HEARTBEAT \<equiv> (14 :: message_type)"
abbreviation (input) "MT_HEARTBEAT_ACK \<equiv> (15 :: message_type)"
abbreviation (input) "MT_GRANT_TRANSFER \<equiv> (20 :: message_type)"
abbreviation (input) "MT_GRANT_ACK \<equiv> (21 :: message_type)"
abbreviation (input) "MT_EXECUTE_MOVEMENT \<equiv> (22 :: message_type)"
abbreviation (input) "MT_ATTEMPT_RESULT \<equiv> (23 :: message_type)"
abbreviation (input) "MT_CANCEL \<equiv> (24 :: message_type)"
abbreviation (input) "MT_CANCEL_ACK \<equiv> (25 :: message_type)"
abbreviation (input) "MT_COMMIT_REQUEST \<equiv> (30 :: message_type)"
abbreviation (input) "MT_COMMIT_RESULT \<equiv> (31 :: message_type)"
abbreviation (input) "MT_VERIFY_REQUEST \<equiv> (32 :: message_type)"
abbreviation (input) "MT_VERIFY_RESPONSE \<equiv> (33 :: message_type)"
abbreviation (input) "MT_AUTHORITY_QUERY \<equiv> (34 :: message_type)"
abbreviation (input) "MT_AUTHORITY_REPORT \<equiv> (35 :: message_type)"
abbreviation (input) "MT_CLEANUP_REQUEST \<equiv> (36 :: message_type)"
abbreviation (input) "MT_CLEANUP_RESULT \<equiv> (37 :: message_type)"
abbreviation (input) "MT_DATA_BEGIN \<equiv> (40 :: message_type)"
abbreviation (input) "MT_DATA_BEGIN_ACK \<equiv> (41 :: message_type)"
abbreviation (input) "MT_DATA_CHUNK \<equiv> (42 :: message_type)"
abbreviation (input) "MT_DATA_CHUNK_ACK \<equiv> (43 :: message_type)"
abbreviation (input) "MT_DATA_END \<equiv> (44 :: message_type)"
abbreviation (input) "MT_DATA_RESULT \<equiv> (45 :: message_type)"
abbreviation (input) "MT_DATA_ABORT \<equiv> (46 :: message_type)"
abbreviation (input) "MT_SUBMIT_MOVEMENT \<equiv> (50 :: message_type)"
abbreviation (input) "MT_MOVEMENT_ACCEPTED \<equiv> (51 :: message_type)"
abbreviation (input) "MT_QUERY_MOVEMENT \<equiv> (52 :: message_type)"
abbreviation (input) "MT_MOVEMENT_STATUS \<equiv> (53 :: message_type)"
abbreviation (input) "MT_LIST_MOVEMENTS \<equiv> (54 :: message_type)"
abbreviation (input) "MT_MOVEMENT_LIST \<equiv> (55 :: message_type)"
abbreviation (input) "MT_CANCEL_MOVEMENT \<equiv> (56 :: message_type)"
abbreviation (input) "MT_RECONCILE_MOVEMENT \<equiv> (57 :: message_type)"
abbreviation (input) "MT_PROVENANCE_REQUEST \<equiv> (58 :: message_type)"
abbreviation (input) "MT_PROVENANCE_REPORT \<equiv> (59 :: message_type)"
abbreviation (input) "MT_TOPOLOGY_REQUEST \<equiv> (60 :: message_type)"
abbreviation (input) "MT_TOPOLOGY_REPORT \<equiv> (61 :: message_type)"
abbreviation (input) "MT_POLICY_REQUEST \<equiv> (62 :: message_type)"
abbreviation (input) "MT_POLICY_REPORT \<equiv> (63 :: message_type)"
abbreviation (input) "MT_SHUTDOWN \<equiv> (64 :: message_type)"
abbreviation (input) "MT_SHUTDOWN_ACK \<equiv> (65 :: message_type)"
abbreviation (input) "MT_ERROR \<equiv> (99 :: message_type)"

definition MessageType_names :: "(message_type \<times> string) list" where
  "MessageType_names =
    [(MT_INVALID, ''INVALID''),
     (MT_HELLO, ''HELLO''),
     (MT_HELLO_ACK, ''HELLO_ACK''),
     (MT_HELLO_REJECT, ''HELLO_REJECT''),
     (MT_REGISTER, ''REGISTER''),
     (MT_REGISTER_ACK, ''REGISTER_ACK''),
     (MT_ANNOUNCE_OBJECT, ''ANNOUNCE_OBJECT''),
     (MT_ANNOUNCE_ACK, ''ANNOUNCE_ACK''),
     (MT_HEARTBEAT, ''HEARTBEAT''),
     (MT_HEARTBEAT_ACK, ''HEARTBEAT_ACK''),
     (MT_GRANT_TRANSFER, ''GRANT_TRANSFER''),
     (MT_GRANT_ACK, ''GRANT_ACK''),
     (MT_EXECUTE_MOVEMENT, ''EXECUTE_MOVEMENT''),
     (MT_ATTEMPT_RESULT, ''ATTEMPT_RESULT''),
     (MT_CANCEL, ''CANCEL''),
     (MT_CANCEL_ACK, ''CANCEL_ACK''),
     (MT_COMMIT_REQUEST, ''COMMIT_REQUEST''),
     (MT_COMMIT_RESULT, ''COMMIT_RESULT''),
     (MT_VERIFY_REQUEST, ''VERIFY_REQUEST''),
     (MT_VERIFY_RESPONSE, ''VERIFY_RESPONSE''),
     (MT_AUTHORITY_QUERY, ''AUTHORITY_QUERY''),
     (MT_AUTHORITY_REPORT, ''AUTHORITY_REPORT''),
     (MT_CLEANUP_REQUEST, ''CLEANUP_REQUEST''),
     (MT_CLEANUP_RESULT, ''CLEANUP_RESULT''),
     (MT_DATA_BEGIN, ''DATA_BEGIN''),
     (MT_DATA_BEGIN_ACK, ''DATA_BEGIN_ACK''),
     (MT_DATA_CHUNK, ''DATA_CHUNK''),
     (MT_DATA_CHUNK_ACK, ''DATA_CHUNK_ACK''),
     (MT_DATA_END, ''DATA_END''),
     (MT_DATA_RESULT, ''DATA_RESULT''),
     (MT_DATA_ABORT, ''DATA_ABORT''),
     (MT_SUBMIT_MOVEMENT, ''SUBMIT_MOVEMENT''),
     (MT_MOVEMENT_ACCEPTED, ''MOVEMENT_ACCEPTED''),
     (MT_QUERY_MOVEMENT, ''QUERY_MOVEMENT''),
     (MT_MOVEMENT_STATUS, ''MOVEMENT_STATUS''),
     (MT_LIST_MOVEMENTS, ''LIST_MOVEMENTS''),
     (MT_MOVEMENT_LIST, ''MOVEMENT_LIST''),
     (MT_CANCEL_MOVEMENT, ''CANCEL_MOVEMENT''),
     (MT_RECONCILE_MOVEMENT, ''RECONCILE_MOVEMENT''),
     (MT_PROVENANCE_REQUEST, ''PROVENANCE_REQUEST''),
     (MT_PROVENANCE_REPORT, ''PROVENANCE_REPORT''),
     (MT_TOPOLOGY_REQUEST, ''TOPOLOGY_REQUEST''),
     (MT_TOPOLOGY_REPORT, ''TOPOLOGY_REPORT''),
     (MT_POLICY_REQUEST, ''POLICY_REQUEST''),
     (MT_POLICY_REPORT, ''POLICY_REPORT''),
     (MT_SHUTDOWN, ''SHUTDOWN''),
     (MT_SHUTDOWN_ACK, ''SHUTDOWN_ACK''),
     (MT_ERROR, ''ERROR'')]"

definition MessageType_to_string :: "message_type \<Rightarrow> string" where
  "MessageType_to_string type =
    (case map_of MessageType_names type of
       Some name \<Rightarrow> name
     | None \<Rightarrow> ''UNRECOGNIZED_MESSAGE_TYPE'')"

definition message_type_from_value :: "u16 \<Rightarrow> message_type option" where
  "message_type_from_value v =
    (if v = 0 then None
     else if v = 99 then Some MT_ERROR
     else if v \<ge> 1 \<and> v \<le> 3 then Some v
     else if v \<ge> 10 \<and> v \<le> 15 then Some v
     else if v \<ge> 20 \<and> v \<le> 25 then Some v
     else if v \<ge> 30 \<and> v \<le> 37 then Some v
     else if v \<ge> 40 \<and> v \<le> 46 then Some v
     else if v \<ge> 50 \<and> v \<le> 65 then Some v
     else None)"

definition is_handshake_message :: "message_type \<Rightarrow> bool" where
  "is_handshake_message type \<longleftrightarrow> type = MT_HELLO \<or> type = MT_HELLO_ACK \<or> type = MT_HELLO_REJECT"

section \<open>Frame headers\<close>

abbreviation (input) "FLAG_AUTHENTICATED \<equiv> (0x01 :: u8)"
abbreviation (input) "FLAG_RESPONSE \<equiv> (0x02 :: u8)"
abbreviation (input) "FLAG_ERROR \<equiv> (0x04 :: u8)"

definition kKnownFlags :: u8 where
  "kKnownFlags = FLAG_AUTHENTICATED OR FLAG_RESPONSE OR FLAG_ERROR"

definition kFrameMagic :: bytes where
  "kFrameMagic = as_bytes ''SMF1''"

abbreviation (input) "kProtocolVersion \<equiv> (1 :: u8)"
abbreviation (input) "kFrameHeaderBytes \<equiv> (40 :: nat)"
abbreviation (input) "kFrameAuthTagBytes \<equiv> (16 :: nat)"

record frame_header =
  fh_version :: u8
  fh_flags :: u8
  fh_type :: message_type
  fh_payload_length :: u32
  fh_sequence :: u64
  fh_auth_tag :: digest

record frame =
  fr_header :: frame_header
  fr_payload :: bytes

definition Frame_authenticated :: "frame \<Rightarrow> bool" where
  "Frame_authenticated f \<longleftrightarrow> fh_flags (fr_header f) AND FLAG_AUTHENTICATED \<noteq> 0"

definition Frame_is_error :: "frame \<Rightarrow> bool" where
  "Frame_is_error f \<longleftrightarrow> fh_flags (fr_header f) AND FLAG_ERROR \<noteq> 0"

text \<open>The span passed in is always of the header's size; every byte that is not written stays zero.\<close>

definition encode_frame_header :: "frame_header \<Rightarrow> bytes" where
  "encode_frame_header header =
     kFrameMagic @ [fh_version header, fh_flags header, 0, 0] @
     store_le (ucast (fh_type header)) 2 @ [0, 0] @
     store_le (ucast (fh_payload_length header)) 4 @
     store_le (fh_sequence header) 8 @
     take kFrameAuthTagBytes (Digest_view (fh_auth_tag header))"

definition decode_frame_header :: "bytes \<Rightarrow> u32 \<Rightarrow> frame_header result" where
  "decode_frame_header input max_payload_bytes =
    (if length input \<noteq> kFrameHeaderBytes
     then err PROTOCOL_TRUNCATED ''frame header is not the fixed size''
     else if take 4 input \<noteq> kFrameMagic
     then err PROTOCOL_MAGIC_MISMATCH ''frame magic does not match''
     else if input ! 4 \<noteq> kProtocolVersion
     then err PROTOCOL_VERSION_MISMATCH ''frame protocol version is not supported''
     else if input ! 5 AND NOT kKnownFlags \<noteq> 0
     then err PROTOCOL_FLAGS_INVALID ''frame carries unknown flag bits''
     else if load_le (drop 6 input) 2 \<noteq> 0 \<or> load_le (drop 10 input) 2 \<noteq> 0
     then err PROTOCOL_RESERVED_NONZERO ''frame reserved fields must be zero''
     else
       let raw_type = load_le (drop 8 input) 2
       in if raw_type > 0xFFFF then err PROTOCOL_MALFORMED ''frame message type is out of range''
          else case message_type_from_value (ucast raw_type) of
            None \<Rightarrow> err PROTOCOL_UNKNOWN_MESSAGE ''frame message type is not recognized''
          | Some type \<Rightarrow>
              let payload_length = load_le (drop 12 input) 4;
                  sequence = load_le (drop 16 input) 8
              in if payload_length > ucast max_payload_bytes
                 then err PROTOCOL_PAYLOAD_TOO_LARGE
                   ''frame declares a payload longer than the permitted bound''
                 else if sequence = 0
                 then err PROTOCOL_CANONICAL_VIOLATION ''frame sequence numbers start at one''
                 else Inr \<lparr>fh_version = input ! 4, fh_flags = input ! 5, fh_type = type,
                   fh_payload_length = ucast payload_length, fh_sequence = sequence,
                   fh_auth_tag = be_word (take kFrameAuthTagBytes (drop 24 input) @ replicate 16 0)\<rparr>)"

definition frame_auth_tag :: "bytes \<Rightarrow> frame_header \<Rightarrow> bytes \<Rightarrow> digest" where
  "frame_auth_tag session_key header payload =
     fst (HmacSha256_finalize
       (HmacSha256_update (HmacSha256_update (HmacSha256_init session_key)
          (take 24 (encode_frame_header header))) payload))"

section \<open>The frame codec\<close>

record frame_codec =
  fc_key :: "digest option"
  fc_send_sequence :: u64
  fc_expected_sequence :: u64

definition FrameCodec_default :: frame_codec where
  "FrameCodec_default = \<lparr>fc_key = None, fc_send_sequence = 1, fc_expected_sequence = 1\<rparr>"

definition FrameCodec_set_session_key :: "bytes \<Rightarrow> frame_codec \<Rightarrow> frame_codec" where
  "FrameCodec_set_session_key key c =
     (let width = (if length key < 32 then length key else 32)
      in c\<lparr>fc_key := Some (be_word (take width key @ replicate (32 - width) 0))\<rparr>)"

definition FrameCodec_clear_session_key :: "frame_codec \<Rightarrow> frame_codec" where
  "FrameCodec_clear_session_key c = c\<lparr>fc_key := None\<rparr>"

definition FrameCodec_reset_sequences :: "frame_codec \<Rightarrow> frame_codec" where
  "FrameCodec_reset_sequences c = c\<lparr>fc_send_sequence := 1, fc_expected_sequence := 1\<rparr>"

definition FrameCodec_encode ::
    "message_type \<Rightarrow> u8 \<Rightarrow> bytes \<Rightarrow> u32 \<Rightarrow> frame_codec \<Rightarrow> bytes result \<times> frame_codec" where
  "FrameCodec_encode type flags payload max_payload_bytes c =
    (if length payload > unat max_payload_bytes
     then (err PROTOCOL_PAYLOAD_TOO_LARGE ''outbound payload exceeds the frame bound'', c)
     else if is_handshake_message type \<and> fc_key c \<noteq> None
     then (err PROTOCOL_STATE_VIOLATION
       ''handshake messages are only exchanged before the session is keyed'', c)
     else if \<not> is_handshake_message type \<and> fc_key c = None
     then (err PROTOCOL_HANDSHAKE_REQUIRED
       ''a session must be authenticated before any other message is sent'', c)
     else
       let header = \<lparr>fh_version = kProtocolVersion, fh_flags = flags, fh_type = type,
             fh_payload_length = word_of_nat (length payload), fh_sequence = fc_send_sequence c,
             fh_auth_tag = 0\<rparr>;
           header = (case fc_key c of
               None \<Rightarrow> header
             | Some key \<Rightarrow>
                 let header = header\<lparr>fh_flags := fh_flags header OR FLAG_AUTHENTICATED\<rparr>
                 in header\<lparr>fh_auth_tag := frame_auth_tag (Digest_view key) header payload\<rparr>)
       in (Inr (encode_frame_header header @ payload),
           c\<lparr>fc_send_sequence := fc_send_sequence c + 1\<rparr>))"

definition FrameCodec_verify ::
    "frame_header \<Rightarrow> bytes \<Rightarrow> u32 \<Rightarrow> frame_codec \<Rightarrow> status \<times> frame_codec" where
  "FrameCodec_verify header payload max_payload_bytes c =
    (if length payload > unat max_payload_bytes
     then (Status PROTOCOL_PAYLOAD_TOO_LARGE ''received payload exceeds the frame bound'', c)
     else if length payload \<noteq> unat (fh_payload_length header)
     then (Status PROTOCOL_TRUNCATED
       ''received payload length does not match the declared length'', c)
     else
       let authenticated = fh_flags header AND FLAG_AUTHENTICATED \<noteq> 0;
           admission =
             (if is_handshake_message (fh_type header) then
                (if authenticated
                 then Status PROTOCOL_STATE_VIOLATION
                   ''handshake messages must not be marked authenticated''
                 else Status_success)
              else if \<not> authenticated
              then Status PROTOCOL_HANDSHAKE_REQUIRED
                ''unauthenticated frame arrived outside the handshake''
              else case fc_key c of
                None \<Rightarrow> Status PROTOCOL_HANDSHAKE_REQUIRED
                  ''authenticated frame arrived before the session key was established''
              | Some key \<Rightarrow>
                  if \<not> constant_time_equal
                      (take kFrameAuthTagBytes (Digest_view (frame_auth_tag (Digest_view key) header payload)))
                      (take kFrameAuthTagBytes (Digest_view (fh_auth_tag header)))
                  then Status PROTOCOL_AUTH_FAILED ''frame authentication tag did not verify''
                  else Status_success)
       in if \<not> Status_ok admission then (admission, c)
          else if fh_sequence header < fc_expected_sequence c
          then (Status PROTOCOL_SEQUENCE_REPLAY ''frame sequence number has already been consumed'', c)
          else if fh_sequence header > fc_expected_sequence c
          then (Status PROTOCOL_SEQUENCE_REGRESSION
            ''frame sequence number skipped ahead of the expected value'', c)
          else (Status_success, c\<lparr>fc_expected_sequence := fc_expected_sequence c + 1\<rparr>))"

section \<open>The framed stream\<close>

text \<open>\<open>receive_some\<close> takes the number of bytes asked for and the connection.  \<open>offset\<close> counts what
  is already read: a close at offset zero is orderly, later it is a truncation.\<close>

function read_exactly ::
    "(nat \<Rightarrow> 'c \<Rightarrow> bytes result \<times> 'c) \<Rightarrow> nat \<Rightarrow> nat \<Rightarrow> 'c \<Rightarrow> bytes result \<times> 'c" where
  "read_exactly receive_some offset wanted c =
    (if wanted = 0 then (Inr [], c)
     else case receive_some wanted c of
       (Inl s, c) \<Rightarrow> (Inl s, c)
     | (Inr received, c) \<Rightarrow>
         if received = [] then
           (if offset = 0 then (err CONNECTION_CLOSED ''peer closed the connection'', c)
            else (err PROTOCOL_TRUNCATED ''connection closed mid-frame'', c))
         else case read_exactly receive_some (offset + length received) (wanted - length received) c of
           (Inl s, c) \<Rightarrow> (Inl s, c)
         | (Inr rest, c) \<Rightarrow> (Inr (received @ rest), c))"
  by pat_completeness auto
termination
  by (relation "measure (\<lambda>(_, _, wanted, _). wanted)") auto

declare read_exactly.simps [simp del]

definition FrameStream_receive ::
    "(nat \<Rightarrow> 'c \<Rightarrow> bytes result \<times> 'c) \<Rightarrow> u32 \<Rightarrow> frame_codec \<times> 'c \<Rightarrow>
     frame result \<times> frame_codec \<times> 'c" where
  "FrameStream_receive receive_some max_payload_bytes = (\<lambda>(codec, c).
    case read_exactly receive_some 0 kFrameHeaderBytes c of
      (Inl s, c) \<Rightarrow> (Inl s, codec, c)
    | (Inr header_bytes, c) \<Rightarrow>
        (case decode_frame_header header_bytes max_payload_bytes of
           Inl s \<Rightarrow> (Inl s, codec, c)
         | Inr header \<Rightarrow>
             (case read_exactly receive_some 0 (unat (fh_payload_length header)) c of
                (Inl s, c) \<Rightarrow> (Inl s, codec, c)
              | (Inr payload, c) \<Rightarrow>
                  (case FrameCodec_verify header payload max_payload_bytes codec of
                     (verified, codec) \<Rightarrow>
                       if \<not> Status_ok verified then (Inl verified, codec, c)
                       else (Inr \<lparr>fr_header = header, fr_payload = payload\<rparr>, codec, c)))))"

text \<open>What the stream relies on: asked for some bytes, the connection hands over a non-empty piece
  of what is pending, no longer than asked for, while anything is pending.\<close>

definition delivers :: "(nat \<Rightarrow> 'c \<Rightarrow> bytes result \<times> 'c) \<Rightarrow> ('c \<Rightarrow> bytes) \<Rightarrow> bool" where
  "delivers receive_some pending \<longleftrightarrow>
    (\<forall>n c. 0 < n \<and> pending c \<noteq> [] \<longrightarrow>
      (\<exists>bs c'. receive_some n c = (Inr bs, c') \<and> bs \<noteq> [] \<and> length bs \<le> n \<and>
         pending c = bs @ pending c'))"

section \<open>Header bytes\<close>

lemma reads_store_le:
  assumes "n \<le> 8" "take_bit (8 * n) w = w"
  shows "reads d i (store_le w n) \<longleftrightarrow> n \<le> remaining d i \<and> load_le (drop i (dec_input d)) n = w"
  using spells_store_le [OF assms(1), of d i "i + n" w] assms(2) by (auto simp: spells_reads)

lemma take_bit_load_le_width: "take_bit (8 * n) (load_le bs n) = load_le bs n"
  by (rule bit_eqI) (auto simp: bit_load_le bit_take_bit_iff)

lemma store_le_zero: "store_le 0 2 = [0, 0]"
  by (simp add: store_le_def numeral_2_eq_2)

lemma length_kFrameMagic [simp]: "length kFrameMagic = 4"
  by (simp add: kFrameMagic_def as_bytes_def)

lemma length_encode_frame_header [simp]: "length (encode_frame_header h) = 40"
  by (simp add: encode_frame_header_def)

lemma reads_pair:
  "reads d i [a, b] \<longleftrightarrow> i + 1 < length (dec_input d) \<and> dec_input d ! i = a \<and> dec_input d ! (i + 1) = b"
proof (cases "i + 1 < length (dec_input d)")
  case True
  then have "take 2 (drop i (dec_input d)) = [dec_input d ! i, dec_input d ! (i + 1)]"
    by (simp add: numeral_2_eq_2 take_Suc_conv_app_nth hd_drop_conv_nth)
  then show ?thesis
    using True by (auto simp: reads_def numeral_2_eq_2)
next
  case False
  then have "take 2 (drop i (dec_input d)) \<noteq> [a, b]"
    by (auto dest: arg_cong [of _ _ length])
  then show ?thesis
    using False by (simp add: reads_def numeral_2_eq_2)
qed

lemma ucast_take_bit:
  "take_bit 16 (ucast t :: u64) = ucast t" "take_bit 32 (ucast l :: u64) = ucast l"
  for t :: u16 and l :: u32
  by (rule bit_eqI, auto simp: bit_take_bit_iff bit_ucast_iff dest: bit_imp_le_length)+

lemma encode_frame_header_iff:
  "b = encode_frame_header h \<longleftrightarrow>
    length b = 40 \<and> take 4 b = kFrameMagic \<and> b ! 4 = fh_version h \<and> b ! 5 = fh_flags h \<and>
    load_le (drop 6 b) 2 = 0 \<and> load_le (drop 8 b) 2 = ucast (fh_type h) \<and>
    load_le (drop 10 b) 2 = 0 \<and> load_le (drop 12 b) 4 = ucast (fh_payload_length h) \<and>
    load_le (drop 16 b) 8 = fh_sequence h \<and>
    take 16 (drop 24 b) = take 16 (Digest_view (fh_auth_tag h))"
proof (cases "length b = 40")
  case True
  let ?d = "generous_decoder b"
  have enc: "encode_frame_header h =
      kFrameMagic @ [fh_version h, fh_flags h] @ store_le 0 2 @ store_le (ucast (fh_type h)) 2 @
      store_le 0 2 @ store_le (ucast (fh_payload_length h)) 4 @ store_le (fh_sequence h) 8 @
      take 16 (Digest_view (fh_auth_tag h))"
    by (simp add: encode_frame_header_def store_le_zero)
  have "b = encode_frame_header h \<longleftrightarrow> reads ?d 0 (encode_frame_header h)"
    using True spells_whole [of ?d "encode_frame_header h"] by (auto simp: spells_reads)
  also have "\<dots> \<longleftrightarrow> reads ?d 0 kFrameMagic \<and> reads ?d 4 [fh_version h, fh_flags h] \<and>
      reads ?d 6 (store_le 0 2) \<and> reads ?d 8 (store_le (ucast (fh_type h)) 2) \<and>
      reads ?d 10 (store_le 0 2) \<and> reads ?d 12 (store_le (ucast (fh_payload_length h)) 4) \<and>
      reads ?d 16 (store_le (fh_sequence h) 8) \<and> reads ?d 24 (take 16 (Digest_view (fh_auth_tag h)))"
    unfolding enc reads_append by simp
  finally show ?thesis
    using True ucast_take_bit(1) [of "fh_type h"]
      ucast_take_bit(2) [of "fh_payload_length h"] take_bit_length_eq [of "fh_sequence h"]
    by (simp add: reads_store_le reads_pair remaining_def) (simp add: reads_def)
qed auto

definition header_wf :: "u32 \<Rightarrow> frame_header \<Rightarrow> bool" where
  "header_wf max_payload_bytes h \<longleftrightarrow>
     fh_version h = kProtocolVersion \<and> fh_flags h AND NOT kKnownFlags = 0 \<and>
     message_type_from_value (fh_type h) = Some (fh_type h) \<and>
     fh_payload_length h \<le> max_payload_bytes \<and> fh_sequence h \<noteq> 0 \<and>
     drop 16 (Digest_view (fh_auth_tag h)) = replicate 16 0"

lemma message_type_from_value_same: "message_type_from_value v = Some t \<Longrightarrow> t = v"
  by (auto simp: message_type_from_value_def split: if_splits)

lemma auth_tag_iff:
  assumes "length t = 16"
  shows "d = be_word (t @ replicate 16 0) \<longleftrightarrow>
    take 16 (Digest_view d) = t \<and> drop 16 (Digest_view d) = replicate 16 0"
proof
  assume "d = be_word (t @ replicate 16 0)"
  then have "Digest_view d = t @ replicate 16 0"
    using assms by (simp add: Digest_view_def)
  then show "take 16 (Digest_view d) = t \<and> drop 16 (Digest_view d) = replicate 16 0"
    using assms by simp
next
  assume "take 16 (Digest_view d) = t \<and> drop 16 (Digest_view d) = replicate 16 0"
  then have "t @ replicate 16 0 = Digest_view d"
    by (metis append_take_drop_id)
  then show "d = be_word (t @ replicate 16 0)"
    by (simp add: Digest_view_def)
qed

lemma narrow_iff:
  fixes w v :: u64 and t :: u16 and l :: u32
  assumes "take_bit 16 w = w" "take_bit 32 v = v"
  shows "ucast w = t \<longleftrightarrow> w = ucast t" "ucast v = l \<longleftrightarrow> v = ucast l"
proof -
  have "ucast (ucast w :: u16) = w" "ucast (ucast t :: u64) = t"
    using arg_cong [OF assms(1), of "\<lambda>x. bit x k" for k]
    by (auto simp: bit_eq_iff bit_ucast_iff bit_take_bit_iff)
  then show "ucast w = t \<longleftrightarrow> w = ucast t"
    by metis
  have "ucast (ucast v :: u32) = v" "ucast (ucast l :: u64) = l"
    using arg_cong [OF assms(2), of "\<lambda>x. bit x k" for k]
    by (auto simp: bit_eq_iff bit_ucast_iff bit_take_bit_iff)
  then show "ucast v = l \<longleftrightarrow> v = ucast l"
    by metis
qed

lemma unat_ucast_frame_length: "unat (ucast l :: u64) = unat l" for l :: u32
  by (simp add: unsigned_ucast_eq take_bit_nat_eq_self less_trans [OF unat_u32_less])

lemma unat_ucast_type: "unat (ucast t :: u64) = unat t" for t :: u16
  by (simp add: unsigned_ucast_eq take_bit_nat_eq_self less_trans [OF unat_u16_less])

lemma decode_frame_header_iff:
  "decode_frame_header b n = Inr h \<longleftrightarrow> header_wf n h \<and> b = encode_frame_header h"
proof (cases "length b = 40")
  case True
  let ?t = "load_le (drop 8 b) 2" and ?l = "load_le (drop 12 b) 4"
  have w: "take_bit 16 ?t = ?t" "take_bit 32 ?l = ?l"
    using take_bit_load_le_width [of 2 "drop 8 b"] take_bit_load_le_width [of 4 "drop 12 b"] by simp_all
  have t: "\<not> ?t > 0xFFFF"
  proof -
    have "unat ?t = unat (ucast ?t :: u16)"
      using narrow_iff(1) [OF w, of "ucast ?t"] unat_ucast_type by metis
    then have "unat ?t < 65536"
      using unat_u16_less by metis
    then show ?thesis
      by (simp add: word_less_nat_alt)
  qed
  have l: "?l > ucast n \<longleftrightarrow> (ucast ?l :: u32) > n"
    using narrow_iff(2) [OF w] by (metis unat_ucast_frame_length word_less_nat_alt)
  define T where "T = (ucast ?t :: u16)"
  define L where "L = (ucast ?l :: u32)"
  let ?tag = "take 16 (drop 24 b)"
  have "decode_frame_header b n = Inr h \<longleftrightarrow>
      take 4 b = kFrameMagic \<and> b ! 4 = 1 \<and> b ! 5 AND NOT kKnownFlags = 0 \<and>
      load_le (drop 6 b) 2 = 0 \<and> load_le (drop 10 b) 2 = 0 \<and>
      message_type_from_value T = Some (fh_type h) \<and> L \<le> n \<and> load_le (drop 16 b) 8 \<noteq> 0 \<and>
      fh_version h = b ! 4 \<and> fh_flags h = b ! 5 \<and> fh_payload_length h = L \<and>
      fh_sequence h = load_le (drop 16 b) 8 \<and> fh_auth_tag h = be_word (?tag @ replicate 16 0)"
    using True t l unfolding decode_frame_header_def Let_def T_def [symmetric] L_def [symmetric]
    by (cases h) (auto simp: not_less split: option.splits)
  moreover have "b = encode_frame_header h \<longleftrightarrow>
      take 4 b = kFrameMagic \<and> b ! 4 = fh_version h \<and> b ! 5 = fh_flags h \<and>
      load_le (drop 6 b) 2 = 0 \<and> T = fh_type h \<and> load_le (drop 10 b) 2 = 0 \<and>
      L = fh_payload_length h \<and> load_le (drop 16 b) 8 = fh_sequence h \<and>
      ?tag = take 16 (Digest_view (fh_auth_tag h))"
    unfolding encode_frame_header_iff T_def L_def narrow_iff [OF w] using True by simp
  moreover have "fh_auth_tag h = be_word (?tag @ replicate 16 0) \<longleftrightarrow>
      take 16 (Digest_view (fh_auth_tag h)) = ?tag \<and>
      drop 16 (Digest_view (fh_auth_tag h)) = replicate 16 0"
    using True by (intro auth_tag_iff) simp
  ultimately show ?thesis
    unfolding header_wf_def using message_type_from_value_same [of T "fh_type h"] by metis
qed (auto simp: decode_frame_header_def)

section \<open>Authentication\<close>

lemma frame_auth_tag_hmac:
  "frame_auth_tag key h payload = hmac_sha256 key (take 24 (encode_frame_header h) @ payload)"
  using Sha256_stream [of "[a, b, c]" for a b c] Sha256_stream [of "[a, b]" for a b]
  by (simp add: frame_auth_tag_def hmac_sha256_eq_reference HmacSha256_finalize_def
      HmacSha256_update_def HmacSha256_init_def hmac_reference_def HmacSha256_key_block_pad Let_def)

text \<open>The 24 authenticated bytes hold every member of the header but the tag.\<close>

lemma authenticated_prefix:
  "take 24 (encode_frame_header h) =
     kFrameMagic @ [fh_version h, fh_flags h, 0, 0] @ store_le (ucast (fh_type h)) 2 @ [0, 0] @
     store_le (ucast (fh_payload_length h)) 4 @ store_le (fh_sequence h) 8"
  by (simp add: encode_frame_header_def)

lemma authenticated_prefix_tag [simp]:
  "take 24 (encode_frame_header (h\<lparr>fh_auth_tag := t\<rparr>)) = take 24 (encode_frame_header h)"
  by (simp add: authenticated_prefix)

lemma authenticated_prefix_inject:
  assumes "take 24 (encode_frame_header h) = take 24 (encode_frame_header h')"
  shows "h' = h\<lparr>fh_auth_tag := fh_auth_tag h'\<rparr>"
proof -
  let ?h = "h\<lparr>fh_auth_tag := fh_auth_tag h'\<rparr>"
  have "encode_frame_header ?h = take 24 (encode_frame_header ?h) @ take 16 (Digest_view (fh_auth_tag h'))"
    by (simp add: encode_frame_header_def)
  also have "\<dots> = take 24 (encode_frame_header h') @ take 16 (Digest_view (fh_auth_tag h'))"
    using assms by simp
  also have "\<dots> = encode_frame_header h'"
    by (simp add: encode_frame_header_def)
  finally have "encode_frame_header h' = encode_frame_header ?h"
    by simp
  then have "(ucast (fh_type h') :: u64) = ucast (fh_type h)"
    "(ucast (fh_payload_length h') :: u64) = ucast (fh_payload_length h)"
    "fh_version h' = fh_version h" "fh_flags h' = fh_flags h" "fh_sequence h' = fh_sequence h"
    using encode_frame_header_iff [of "encode_frame_header h'" ?h]
      encode_frame_header_iff [of "encode_frame_header h'" h'] by simp_all
  then show ?thesis
    using unat_ucast_type unat_ucast_frame_length
    by (cases h; cases h') (auto simp: word_unat_eq_iff)
qed

lemma frame_auth_tag_ignores_tag [simp]:
  "frame_auth_tag key (h\<lparr>fh_auth_tag := t\<rparr>) payload = frame_auth_tag key h payload"
  by (simp add: frame_auth_tag_hmac)

lemma verify_okD:
  assumes "FrameCodec_verify h payload n c = (st, c')" "Status_ok st"
  shows "fh_sequence h = fc_expected_sequence c"
    and "c' = c\<lparr>fc_expected_sequence := fc_expected_sequence c + 1\<rparr>"
    and "length payload = unat (fh_payload_length h)" and "length payload \<le> unat n"
    and "\<not> is_handshake_message (fh_type h) \<Longrightarrow> \<exists>key. fc_key c = Some key \<and>
      take 16 (Digest_view (fh_auth_tag h)) =
      take 16 (Digest_view (hmac_sha256 (Digest_view key) (take 24 (encode_frame_header h) @ payload)))"
  using assms unfolding FrameCodec_verify_def Let_def frame_auth_tag_hmac
  by (auto simp: not_less split: if_splits option.splits)

lemma verify_refused: "FrameCodec_verify h payload n c = (st, c') \<Longrightarrow> \<not> Status_ok st \<Longrightarrow> c' = c"
  unfolding FrameCodec_verify_def Let_def by (auto split: if_splits)

lemma verify_stale:
  assumes "fh_sequence h < fc_expected_sequence c"
  shows "\<not> Status_ok (fst (FrameCodec_verify h payload n c))"
proof (cases "FrameCodec_verify h payload n c")
  case (Pair st c')
  then show ?thesis
    using verify_okD(1) [OF Pair] assms by auto
qed

text \<open>The frames a codec accepts out of any sequence of arrivals.\<close>

fun accepted :: "u32 \<Rightarrow> (frame_header \<times> bytes) list \<Rightarrow> frame_codec \<Rightarrow> (frame_header \<times> bytes) list" where
  "accepted n [] c = []"
| "accepted n ((h, payload) # frames) c =
    (case FrameCodec_verify h payload n c of
       (st, c') \<Rightarrow> if Status_ok st then (h, payload) # accepted n frames c' else accepted n frames c')"

lemma accepted_consecutive:
  assumes "unat (fc_expected_sequence c) + length frames < 2 ^ 64"
  shows "map (\<lambda>(h, _). unat (fh_sequence h)) (accepted n frames c) =
    [unat (fc_expected_sequence c)..<unat (fc_expected_sequence c) + length (accepted n frames c)]"
  using assms
proof (induction n frames c rule: accepted.induct)
  case (2 n h payload frames c)
  obtain st c' where v: "FrameCodec_verify h payload n c = (st, c')"
    by fastforce
  show ?case
  proof (cases "Status_ok st")
    case True
    have "unat (fc_expected_sequence c + 1) = unat (fc_expected_sequence c) + 1"
      using "2.prems" by (simp add: unat_word_ariths)
    then have e: "unat (fc_expected_sequence c') = unat (fc_expected_sequence c) + 1"
      using verify_okD(2) [OF v True] by simp
    then have "map (\<lambda>(h, _). unat (fh_sequence h)) (accepted n frames c') =
        [unat (fc_expected_sequence c) + 1..<unat (fc_expected_sequence c) + 1 + length (accepted n frames c')]"
      using "2.IH"(1) [OF v [symmetric] True] "2.prems" by simp
    then show ?thesis
      using v True verify_okD(1) [OF v True] by (simp add: upt_conv_Cons del: upt_Suc)
  next
    case False
    then show ?thesis
      using "2.IH"(2) [OF v [symmetric] False] "2.prems" v verify_refused [OF v False] by simp
  qed
qed simp

section \<open>A frame reaches the peer\<close>

text \<open>The header a peer decodes: the tag cut to the 16 bytes that travel.\<close>

definition wire_header :: "frame_header \<Rightarrow> frame_header" where
  "wire_header h =
     h\<lparr>fh_auth_tag := be_word (take 16 (Digest_view (fh_auth_tag h)) @ replicate 16 0)\<rparr>"

lemma Digest_view_cut:
  "Digest_view (be_word (take 16 (Digest_view t) @ replicate 16 0)) = take 16 (Digest_view t) @ replicate 16 0"
  by (simp add: Digest_view_def)

lemma encode_wire_header: "encode_frame_header (wire_header h) = encode_frame_header h"
  by (simp add: encode_frame_header_def wire_header_def Digest_view_cut)

lemma decode_wire_header:
  assumes "fh_version h = 1" "fh_flags h AND NOT kKnownFlags = 0"
    "message_type_from_value (fh_type h) = Some (fh_type h)" "fh_payload_length h \<le> n"
    "fh_sequence h \<noteq> 0"
  shows "decode_frame_header (encode_frame_header h) n = Inr (wire_header h)"
proof -
  have "header_wf n (wire_header h)"
    using assms by (simp add: header_wf_def wire_header_def Digest_view_cut)
  then show ?thesis
    unfolding decode_frame_header_iff encode_wire_header by simp
qed

lemma word_of_nat_length:
  assumes "length payload \<le> unat (n :: u32)"
  shows "unat (word_of_nat (length payload) :: u32) = length payload"
    "(word_of_nat (length payload) :: u32) \<le> n"
proof -
  have "length payload < 2 ^ 32"
    using le_less_trans [OF assms unat_u32_less] by simp
  then show "unat (word_of_nat (length payload) :: u32) = length payload"
    by (simp add: unat_word_of_nat_u32)
  then show "(word_of_nat (length payload) :: u32) \<le> n"
    using assms by (simp add: word_le_nat_alt)
qed

lemma authenticated_flag:
  "(f OR 1) AND 1 \<noteq> (0 :: u8)" "f AND NOT kKnownFlags = 0 \<Longrightarrow> (f OR 1) AND NOT kKnownFlags = 0"
proof -
  show "(f OR 1) AND 1 \<noteq> (0 :: u8)"
    by (auto simp: bit_eq_iff bit_simps intro!: exI [of _ 0])
  assume "f AND NOT kKnownFlags = 0"
  moreover have "1 AND NOT kKnownFlags = (0 :: u8)"
    by (simp add: kKnownFlags_def)
  ultimately show "(f OR 1) AND NOT kKnownFlags = 0"
    by (simp add: bit.conj_disj_distrib2)
qed

lemma encode_then_verify:
  assumes enc: "FrameCodec_encode type flags payload n sender = (Inr bs, sender')"
    and peer: "fc_key receiver = fc_key sender"
      "fc_expected_sequence receiver = fc_send_sequence sender" "fc_send_sequence sender \<noteq> 0"
    and type: "message_type_from_value type = Some type"
    and flags: "flags AND NOT kKnownFlags = 0" "fc_key sender = None \<Longrightarrow> flags AND 1 = 0"
  shows "\<exists>h receiver'. bs = encode_frame_header h @ payload \<and> fh_type h = type \<and>
    fh_payload_length h = word_of_nat (length payload) \<and> length payload \<le> unat n \<and>
    decode_frame_header (encode_frame_header h) n = Inr (wire_header h) \<and>
    FrameCodec_verify (wire_header h) payload n receiver = (Status_success, receiver') \<and>
    fc_key receiver' = fc_key sender' \<and>
    fc_expected_sequence receiver' = fc_send_sequence sender'"
proof -
  let ?h0 = "\<lparr>fh_version = 1, fh_flags = flags, fh_type = type,
    fh_payload_length = word_of_nat (length payload), fh_sequence = fc_send_sequence sender,
    fh_auth_tag = 0\<rparr>"
  let ?r = "receiver\<lparr>fc_expected_sequence := fc_expected_sequence receiver + 1\<rparr>"
  have len: "length payload \<le> unat n" and
    sender': "sender' = sender\<lparr>fc_send_sequence := fc_send_sequence sender + 1\<rparr>"
    using enc by (auto simp: FrameCodec_encode_def Let_def split: if_splits)
  note sizes = word_of_nat_length [OF len]
  show ?thesis
  proof (cases "fc_key sender")
    case None
    then have hs: "is_handshake_message type" and bs: "bs = encode_frame_header ?h0 @ payload"
      using enc by (auto simp: FrameCodec_encode_def Let_def split: if_splits)
    have "decode_frame_header (encode_frame_header ?h0) n = Inr (wire_header ?h0)"
      using assms sizes by (intro decode_wire_header) simp_all
    moreover have "FrameCodec_verify (wire_header ?h0) payload n receiver = (Status_success, ?r)"
      using hs len sizes peer flags None by (simp add: FrameCodec_verify_def wire_header_def)
    ultimately show ?thesis
      using bs len peer sender' by (intro exI [of _ ?h0] exI [of _ ?r]) simp
  next
    case (Some key)
    let ?h1 = "?h0\<lparr>fh_flags := flags OR 1\<rparr>"
    let ?h2 = "?h1\<lparr>fh_auth_tag := frame_auth_tag (Digest_view key) ?h1 payload\<rparr>"
    have hs: "\<not> is_handshake_message type" and bs: "bs = encode_frame_header ?h2 @ payload"
      using enc Some by (auto simp: FrameCodec_encode_def Let_def split: if_splits)
    have "decode_frame_header (encode_frame_header ?h2) n = Inr (wire_header ?h2)"
      using assms sizes authenticated_flag(2) by (intro decode_wire_header) simp_all
    moreover have "FrameCodec_verify (wire_header ?h2) payload n receiver = (Status_success, ?r)"
      using hs len sizes peer Some authenticated_flag(1) [of flags]
      by (simp add: FrameCodec_verify_def wire_header_def Digest_view_cut frame_auth_tag_hmac
          authenticated_prefix)
    ultimately show ?thesis
      using bs len peer sender' by (intro exI [of _ ?h2] exI [of _ ?r]) simp
  qed
qed

lemma read_exactly_delivers:
  assumes "delivers receive_some pending"
  shows "pending c = bs @ rest \<Longrightarrow> length bs = n \<Longrightarrow>
    \<exists>c'. read_exactly receive_some offset n c = (Inr bs, c') \<and> pending c' = rest"
proof (induction n arbitrary: c bs offset rule: less_induct)
  case (less n)
  show ?case
  proof (cases "n = 0")
    case True
    then show ?thesis
      using less.prems by (simp add: read_exactly.simps)
  next
    case False
    then have "0 < n \<and> pending c \<noteq> []"
      using less.prems by auto
    then obtain ps c' where ps: "receive_some n c = (Inr ps, c')" "ps \<noteq> []" "length ps \<le> n"
        "pending c = ps @ pending c'"
      using assms unfolding delivers_def by metis
    then have "take (length ps) bs = ps" "pending c' = drop (length ps) bs @ rest"
      using less.prems by (auto simp: append_eq_append_conv_if split: if_splits)
    then have bs: "bs = ps @ drop (length ps) bs" "pending c' = drop (length ps) bs @ rest"
      by (metis append_take_drop_id)+
    then obtain c'' where c'': "read_exactly receive_some (offset + length ps) (n - length ps) c' =
        (Inr (drop (length ps) bs), c'')" "pending c'' = rest"
      using less.IH [of "n - length ps" c' "drop (length ps) bs"] ps less.prems False
      by (metis diff_less length_drop length_greater_0_conv bot_nat_0.not_eq_extremum)
    have "read_exactly receive_some offset n c = (Inr (ps @ drop (length ps) bs), c'')"
      using ps c''(1) False by (subst read_exactly.simps) simp
    then show ?thesis
      using bs(1) c''(2) by metis
  qed
qed

lemma receive_frame:
  assumes deliver: "delivers receive_some pending"
    and enc: "FrameCodec_encode type flags payload n sender = (Inr bs, sender')"
    and peer: "fc_key receiver = fc_key sender"
      "fc_expected_sequence receiver = fc_send_sequence sender" "fc_send_sequence sender \<noteq> 0"
    and type: "message_type_from_value type = Some type"
    and flags: "flags AND NOT kKnownFlags = 0" "fc_key sender = None \<Longrightarrow> flags AND 1 = 0"
    and c: "pending c = bs @ rest"
  shows "\<exists>f receiver' c'. FrameStream_receive receive_some n (receiver, c) = (Inr f, receiver', c') \<and>
    fh_type (fr_header f) = type \<and> fr_payload f = payload \<and> pending c' = rest \<and>
    fc_key receiver' = fc_key sender' \<and>
    fc_expected_sequence receiver' = fc_send_sequence sender'"
proof -
  obtain h receiver' where h: "bs = encode_frame_header h @ payload" "fh_type h = type"
      "fh_payload_length h = word_of_nat (length payload)" "length payload \<le> unat n"
      "decode_frame_header (encode_frame_header h) n = Inr (wire_header h)"
      "FrameCodec_verify (wire_header h) payload n receiver = (Status_success, receiver')"
      "fc_key receiver' = fc_key sender'"
      "fc_expected_sequence receiver' = fc_send_sequence sender'"
    using encode_then_verify [OF enc peer type flags] by blast
  obtain c1 where c1: "read_exactly receive_some 0 40 c = (Inr (encode_frame_header h), c1)"
      "pending c1 = payload @ rest"
    using read_exactly_delivers [OF deliver, of c "encode_frame_header h" "payload @ rest" 40] c h(1)
    by auto
  have len: "unat (fh_payload_length (wire_header h)) = length payload"
    using word_of_nat_length [OF h(4)] h(3) by (simp add: wire_header_def)
  obtain c2 where c2: "read_exactly receive_some 0 (length payload) c1 = (Inr payload, c2)"
      "pending c2 = rest"
    using read_exactly_delivers [OF deliver c1(2)] by blast
  have "FrameStream_receive receive_some n (receiver, c) =
      (Inr \<lparr>fr_header = wire_header h, fr_payload = payload\<rparr>, receiver', c2)"
    using c1(1) c2(1) h(5,6) len by (simp add: FrameStream_receive_def)
  then show ?thesis
    using h c2(2) by (auto simp: wire_header_def)
qed

end
