(* ===== verification/SMF_Wire_Base.thy ===== *)
theory SMF_Wire_Base
  imports SMF_Session SMF_Policy SMF_Movement SMF_Framing SMF_Topology
begin

text \<open>
  The shared checks, bounded readers and writers at the top of \<^verbatim>\<open>src/wire.cpp\<close>, and the framed
  helpers at the end of \<^verbatim>\<open>include/smf/wire.hpp\<close>, which are templates over the message type: a
  message enters them as its frame type, \<open>validate\<close>, \<open>encode\<close> and \<open>decode\<close>.

  The locale \<open>wire_message\<close> is the contract every message keeps: a canonical codec whose encoding
  starts with the domain string of the message and whose decoded values validate.  From it follow
  the end-to-end law of \<open>send_message\<close> and \<open>decode_message\<close> and the rejection of a payload made for
  another message.
\<close>

abbreviation (input) "kMaxWireHostBytes \<equiv> (255 :: nat)"
abbreviation (input) "kMaxWireContractBytes \<equiv> (128 :: nat)"
abbreviation (input) "kMaxWireChunkBytes \<equiv> (2 ^ 20 :: nat)"
abbreviation (input) "kMaxWireDomainBytes \<equiv> (64 :: nat)"
abbreviation (input) "kMaxWireListLimit \<equiv> (1024 :: u32)"
abbreviation (input) "kMaxMovementSummaries \<equiv> (256 :: nat)"

datatype effect_class = EC_REPEATABLE | EC_NON_REPEATABLE

definition effect_classes :: "effect_class list" where
  "effect_classes = [EC_REPEATABLE, EC_NON_REPEATABLE]"

fun EffectClass_value :: "effect_class \<Rightarrow> u8" where
  "EffectClass_value EC_REPEATABLE = 0"
| "EffectClass_value EC_NON_REPEATABLE = 1"

section \<open>Small shared checks\<close>

definition check_domain :: "string \<Rightarrow> 'a decode \<Rightarrow> 'a decode" where
  "check_domain expected rest = bind_dec (dec_text kMaxWireDomainBytes) (\<lambda>found.
     if found \<noteq> expected
     then fail_dec PROTOCOL_CANONICAL_VIOLATION ''message domain string is not the expected one''
     else rest)"

definition require_bound :: "string \<Rightarrow> nat \<Rightarrow> string \<Rightarrow> status" where
  "require_bound v bound what =
    (if length v > bound then Status INVALID_SIZE (what @ '' exceeds the wire bound'')
     else if v \<noteq> [] \<and> \<not> is_valid_utf8 (as_bytes v)
     then Status INVALID_UTF8 (what @ '' is not valid UTF-8'')
     else Status_success)"

definition require_digest :: "digest \<Rightarrow> string \<Rightarrow> status" where
  "require_digest v what =
    (if Digest_is_zero v then Status INVALID_DIGEST (what @ '' must not be zero'')
     else Status_success)"

definition require_endpoint :: "endpoint_id \<Rightarrow> string \<Rightarrow> status" where
  "require_endpoint v what =
    (if v = [] \<or> \<not> EndpointId_is_valid v
     then Status INVALID_ID (what @ '' is not a valid endpoint id'')
     else Status_success)"

definition require_generation :: "generation \<Rightarrow> string \<Rightarrow> status" where
  "require_generation v what =
    (if \<not> Generation_is_set v then Status INVALID_GENERATION (what @ '' must be non-zero'')
     else Status_success)"

definition require_role :: "u8 \<Rightarrow> status" where
  "require_role role =
    (if role \<noteq> SessionRole_value SR_ENDPOINT \<and> role \<noteq> SessionRole_value SR_ADMIN
     then Status PROTOCOL_CANONICAL_VIOLATION ''session role is not recognized''
     else Status_success)"

definition require_address :: "socket_address \<Rightarrow> bool \<Rightarrow> string \<Rightarrow> status" where
  "require_address address allow_unset what =
    (if allow_unset \<and> sa_host address = [] \<and> sa_port address = 0 then Status_success
     else if sa_host address = [] then Status INVALID_ADDRESS (what @ '' requires a host'')
     else if length (sa_host address) > kMaxWireHostBytes
     then Status INVALID_ADDRESS (what @ '' host exceeds the wire bound'')
     else if sa_port address = 0 then Status INVALID_ADDRESS (what @ '' requires a port'')
     else Status_success)"

definition require_incarnation :: "incarnation \<Rightarrow> endpoint_id \<Rightarrow> string \<Rightarrow> status" where
  "require_incarnation v expected what =
    (if \<not> Incarnation_is_set v then Status STALE_INCARNATION (what @ '' is not complete'')
     else if inc_endpoint v \<noteq> expected
     then Status STALE_INCARNATION (what @ '' names a different endpoint than the message does'')
     else Status_success)"

text \<open>The loop of a collection's \<^verbatim>\<open>validate\<close>: the first element that fails decides.\<close>

fun validate_all :: "('a \<Rightarrow> status) \<Rightarrow> 'a list \<Rightarrow> status" where
  "validate_all validate [] = Status_success"
| "validate_all validate (x # xs) = return_if_error (validate x) (validate_all validate xs)"

section \<open>Bounded readers\<close>

definition read_endpoint :: "endpoint_id decode" where
  "read_endpoint = bind_dec (dec_text kMaxEndpointIdBytes) (\<lambda>raw.
     if raw = [] then fail_dec INVALID_ID ''endpoint id must not be empty''
     else lift_dec (EndpointId_parse raw))"

definition read_address :: "socket_address decode" where
  "read_address =
     bind_dec (dec_text kMaxWireHostBytes) (\<lambda>host.
     bind_dec dec_u16 (\<lambda>port.
       return_dec \<lparr>sa_host = host, sa_port = port\<rparr>))"

definition read_detail :: "string decode" where
  "read_detail = dec_text kMaxDetailBytes"

definition read_reason :: "reason_code decode" where
  "read_reason = bind_dec dec_u16 (\<lambda>raw.
     if raw > NO_EVIDENCE
     then fail_dec PROTOCOL_CANONICAL_VIOLATION ''reason code is outside the known range''
     else return_dec raw)"

definition read_movement_state :: "movement_state decode" where
  "read_movement_state =
     dec_enum movement_states PROTOCOL_CANONICAL_VIOLATION ''movement state is not recognized''"

definition read_effect_class :: "effect_class decode" where
  "read_effect_class =
     dec_enum effect_classes PROTOCOL_CANONICAL_VIOLATION ''effect class is not recognized''"

definition read_generation :: "generation decode" where
  "read_generation = dec_u64"

definition read_incarnation :: "incarnation decode" where
  "read_incarnation =
     bind_dec read_endpoint (\<lambda>endpoint.
     bind_dec FixedId_decode (\<lambda>boot.
     bind_dec dec_u64 (\<lambda>epoch.
       return_dec \<lparr>inc_endpoint = endpoint, inc_boot = boot, inc_epoch = epoch\<rparr>)))"

definition read_registration :: "registration decode" where
  "read_registration =
     bind_dec read_endpoint (\<lambda>endpoint.
     bind_dec read_incarnation (\<lambda>incarnation.
     bind_dec read_address (\<lambda>service.
     bind_dec read_address (\<lambda>data.
     bind_dec (dec_text kMaxWireContractBytes) (\<lambda>contract.
     bind_dec dec_digest (\<lambda>capability.
     bind_dec dec_i64 (\<lambda>registered.
     bind_dec dec_boolean (\<lambda>live.
       return_dec \<lparr>er_endpoint = endpoint, er_incarnation = incarnation, er_service_address = service,
         er_data_address = data, er_contract = contract, er_capability_digest = capability,
         er_registered_unix_millis = registered, er_live = live\<rparr>))))))))"

section \<open>Writers\<close>

definition write_address :: "socket_address \<Rightarrow> bytes" where
  "write_address address = enc_text (sa_host address) @ enc_u16 (sa_port address)"

definition write_detail :: "string \<Rightarrow> bytes" where
  "write_detail detail = enc_text detail"

definition write_reason :: "reason_code \<Rightarrow> bytes" where
  "write_reason code = enc_u16 code"

definition write_generation :: "generation \<Rightarrow> bytes" where
  "write_generation v = enc_u64 v"

definition write_incarnation :: "incarnation \<Rightarrow> bytes" where
  "write_incarnation v =
     enc_text (inc_endpoint v) @ FixedId_encode (inc_boot v) @ enc_u64 (inc_epoch v)"

definition write_registration :: "registration \<Rightarrow> bytes" where
  "write_registration r =
     enc_text (er_endpoint r) @ write_incarnation (er_incarnation r) @
     write_address (er_service_address r) @ write_address (er_data_address r) @
     enc_text (er_contract r) @ enc_digest (er_capability_digest r) @
     enc_i64 (er_registered_unix_millis r) @ enc_boolean (er_live r)"

section \<open>Framed helpers\<close>

definition decode_message_limits :: "bytes \<Rightarrow> decode_limits" where
  "decode_message_limits payload =
     \<lparr>max_blob_bytes = (if length payload > 64 * 2 ^ 20 then length payload else 64 * 2 ^ 20),
      max_text_bytes = kMaxObjectNameBytes,
      max_input_bytes = length payload + 1\<rparr>"

definition decode_message :: "'m decode \<Rightarrow> frame \<Rightarrow> 'm result" where
  "decode_message decode frame =
     decode_whole decode
       (CanonicalDecoder_make (fr_payload frame) (decode_message_limits (fr_payload frame)))"

definition FrameStream_send ::
    "(bytes \<Rightarrow> 'c \<Rightarrow> status \<times> 'c) \<Rightarrow> u32 \<Rightarrow> message_type \<Rightarrow> bytes \<Rightarrow> u8 \<Rightarrow> frame_codec \<times> 'c \<Rightarrow>
     status \<times> frame_codec \<times> 'c" where
  "FrameStream_send send_all max_payload_bytes type payload extra_flags = (\<lambda>(codec, c).
     case FrameCodec_encode type extra_flags payload max_payload_bytes codec of
       (Inl s, codec) \<Rightarrow> (s, codec, c)
     | (Inr frame, codec) \<Rightarrow> (case send_all frame c of (s, c) \<Rightarrow> (s, codec, c)))"

definition send_message ::
    "(bytes \<Rightarrow> 'c \<Rightarrow> status \<times> 'c) \<Rightarrow> u32 \<Rightarrow> message_type \<Rightarrow> ('m \<Rightarrow> status) \<Rightarrow> ('m \<Rightarrow> bytes) \<Rightarrow> 'm \<Rightarrow>
     frame_codec \<times> 'c \<Rightarrow> status \<times> frame_codec \<times> 'c" where
  "send_message send_all max_payload_bytes type validate encode message stream =
    (if \<not> Status_ok (validate message) then (validate message, stream)
     else FrameStream_send send_all max_payload_bytes type (encode message) 0 stream)"

definition receive_message ::
    "(nat \<Rightarrow> 'c \<Rightarrow> bytes result \<times> 'c) \<Rightarrow> u32 \<Rightarrow> message_type \<Rightarrow> 'm decode \<Rightarrow> frame_codec \<times> 'c \<Rightarrow>
     'm result \<times> frame_codec \<times> 'c" where
  "receive_message receive_some max_payload_bytes type decode stream =
    (case FrameStream_receive receive_some max_payload_bytes stream of
       (Inl s, stream) \<Rightarrow> (Inl s, stream)
     | (Inr frame, stream) \<Rightarrow>
         if fh_type (fr_header frame) \<noteq> type
         then (err PROTOCOL_UNKNOWN_MESSAGE
           (''expected '' @ MessageType_to_string type @ '', received '' @
            MessageType_to_string (fh_type (fr_header frame))), stream)
         else (decode_message decode frame, stream))"

section \<open>Lemmas on the checks and readers\<close>

lemma require_ok [simp]:
  "Status_ok (require_bound v bound what) \<longleftrightarrow> length v \<le> bound \<and> is_valid_utf8 (as_bytes v)"
  "Status_ok (require_digest d what) \<longleftrightarrow> d \<noteq> 0"
  "Status_ok (require_endpoint e what) \<longleftrightarrow> EndpointId_is_valid e"
  "Status_ok (require_generation g what) \<longleftrightarrow> g \<noteq> 0"
  "Status_ok (require_role r) \<longleftrightarrow> r = 1 \<or> r = 2"
  "Status_ok (require_incarnation i e what) \<longleftrightarrow> Incarnation_is_set i \<and> inc_endpoint i = e"
  using EndpointId_is_valid_length [of e]
  by (auto simp: require_bound_def require_digest_def require_endpoint_def require_generation_def
      require_role_def require_incarnation_def)

lemma require_address_ok [simp]:
  "Status_ok (require_address a unset what) \<longleftrightarrow>
    (unset \<and> sa_host a = [] \<and> sa_port a = 0) \<or>
    (sa_host a \<noteq> [] \<and> length (sa_host a) \<le> kMaxWireHostBytes \<and> sa_port a \<noteq> 0)"
  by (auto simp: require_address_def)

lemma validate_all_ok [simp]:
  "Status_ok (validate_all validate xs) \<longleftrightarrow> list_all (\<lambda>x. Status_ok (validate x)) xs"
  by (induction xs) simp_all

text \<open>What the readers guarantee of the values they return.\<close>

definition address_wf :: "socket_address \<Rightarrow> bool" where
  "address_wf a \<longleftrightarrow> length (sa_host a) \<le> kMaxWireHostBytes \<and> is_valid_utf8 (as_bytes (sa_host a))"

abbreviation incarnation_wf :: "incarnation \<Rightarrow> bool" where
  "incarnation_wf v \<equiv> EndpointId_is_valid (inc_endpoint v)"

definition registration_wf :: "registration \<Rightarrow> bool" where
  "registration_wf r \<longleftrightarrow> EndpointId_is_valid (er_endpoint r) \<and> incarnation_wf (er_incarnation r) \<and>
     address_wf (er_service_address r) \<and> address_wf (er_data_address r) \<and>
     length (er_contract r) \<le> kMaxWireContractBytes \<and> is_valid_utf8 (as_bytes (er_contract r))"

abbreviation reason_wf :: "reason_code \<Rightarrow> bool" where
  "reason_wf code \<equiv> code \<le> NO_EVIDENCE"

interpretation effect_class_enum: wire_enum EffectClass_value effect_classes
proof
  show "k \<in> set effect_classes" for k
    by (cases k) (simp_all add: effect_classes_def)
qed (auto simp: effect_classes_def)

lemma read_enum_iffs [codec_iff]:
  "dec_ok c \<Longrightarrow> read_movement_state c i = Inr (s, j) \<longleftrightarrow> spells c i j (enc_u8 (MovementState_value s))"
  "dec_ok c \<Longrightarrow> read_effect_class c i = Inr (e, j) \<longleftrightarrow> spells c i j (enc_u8 (EffectClass_value e))"
  by (simp_all add: read_movement_state_def read_effect_class_def codec_iff
      effect_class_enum.dec_enum_iff)

lemma read_endpoint_iff [codec_iff]:
  "dec_ok c \<Longrightarrow> read_endpoint c i = Inr (e, j) \<longleftrightarrow>
    EndpointId_is_valid e \<and> spells c i j (enc_text e)"
  using EndpointId_is_valid_utf8 [of e] EndpointId_is_valid_length [of e]
  by (auto simp: read_endpoint_def dec_Inr_iffs codec_iff)

lemma read_address_iff [codec_iff]:
  "dec_ok c \<Longrightarrow> read_address c i = Inr (a, j) \<longleftrightarrow> address_wf a \<and> spells c i j (write_address a)"
  by (cases a) (auto simp: read_address_def write_address_def address_wf_def dec_Inr_iffs codec_iff
      codec_simps)

lemma read_detail_iff [codec_iff]:
  "dec_ok c \<Longrightarrow> read_detail c i = Inr (s, j) \<longleftrightarrow>
    length s \<le> kMaxDetailBytes \<and> is_valid_utf8 (as_bytes s) \<and> spells c i j (write_detail s)"
  by (simp add: read_detail_def write_detail_def codec_iff)

lemma read_reason_iff [codec_iff]:
  "dec_ok c \<Longrightarrow> read_reason c i = Inr (code, j) \<longleftrightarrow> reason_wf code \<and> spells c i j (write_reason code)"
  by (auto simp: read_reason_def write_reason_def dec_Inr_iffs codec_iff not_less)

lemma read_generation_iff [codec_iff]:
  "dec_ok c \<Longrightarrow> read_generation c i = Inr (g, j) \<longleftrightarrow> spells c i j (write_generation g)"
  by (simp add: read_generation_def write_generation_def codec_iff)

lemma read_incarnation_iff [codec_iff]:
  "dec_ok c \<Longrightarrow> read_incarnation c i = Inr (v, j) \<longleftrightarrow>
    incarnation_wf v \<and> spells c i j (write_incarnation v)"
  by (cases v) (auto simp: read_incarnation_def write_incarnation_def dec_Inr_iffs codec_iff
      codec_simps)

lemma read_registration_iff [codec_iff]:
  "dec_ok c \<Longrightarrow> read_registration c i = Inr (r, j) \<longleftrightarrow>
    registration_wf r \<and> spells c i j (write_registration r)"
  by (cases r) (auto simp: read_registration_def write_registration_def registration_wf_def
      dec_Inr_iffs codec_iff codec_simps)

interpretation registration_codec: canonical_codec write_registration read_registration registration_wf
  by unfold_locales (rule read_registration_iff)

section \<open>The contract of a wire message\<close>

definition domain_ok :: "string \<Rightarrow> bool" where
  "domain_ok domain \<longleftrightarrow> length domain \<le> kMaxWireDomainBytes \<and>
     list_all (\<lambda>c. of_char c < (128 :: nat)) domain"

lemma domain_ok_utf8: "domain_ok domain \<Longrightarrow> is_valid_utf8 (as_bytes domain)"
  by (rule is_valid_utf8_ascii)
    (auto simp: domain_ok_def as_bytes_def list_all_iff byte_of_char_def word_less_nat_alt
      unat_of_nat take_bit_eq_mod)

lemma check_domain_iff [codec_iff]:
  "dec_ok c \<Longrightarrow> domain_ok domain \<Longrightarrow>
    check_domain domain p c i = Inr (x, j) \<longleftrightarrow>
    (\<exists>k. spells c i k (enc_text domain) \<and> p c k = Inr (x, j))"
  using domain_ok_utf8 [of domain] by (auto simp: check_domain_def domain_ok_def dec_Inr_iffs codec_iff)

lemma check_domain_other:
  assumes "dec_ok c" "domain_ok other" "other \<noteq> domain" "reads c i (enc_text other)"
  shows "check_domain domain p c i =
    err PROTOCOL_CANONICAL_VIOLATION ''message domain string is not the expected one''"
proof -
  have "dec_text kMaxWireDomainBytes c i = Inr (other, i + length (enc_text other))"
    using assms domain_ok_utf8 [of other] by (simp add: dec_text_iff domain_ok_def spells_reads)
  then show ?thesis
    using assms(3) by (simp add: check_domain_def bind_dec_def fail_dec_def)
qed

lemmas wire_message_simps = domain_ok_def message_type_from_value_def is_handshake_message_def

text \<open>The bytes a connection accepts become pending at the peer.\<close>

definition transmits :: "(bytes \<Rightarrow> 'c \<Rightarrow> status \<times> 'c) \<Rightarrow> ('c \<Rightarrow> bytes) \<Rightarrow> bool" where
  "transmits send_all pending \<longleftrightarrow>
    (\<forall>bs c. \<exists>c'. send_all bs c = (Status_success, c') \<and> pending c' = pending c @ bs)"

text \<open>The receiving side of a conversation is in step with the sending side.\<close>

definition in_step :: "frame_codec \<Rightarrow> frame_codec \<Rightarrow> bool" where
  "in_step sender receiver \<longleftrightarrow> fc_key receiver = fc_key sender \<and>
     fc_expected_sequence receiver = fc_send_sequence sender"

locale wire_message = canonical_codec encode decode wf
  for encode :: "'m \<Rightarrow> bytes" and decode :: "'m decode" and wf :: "'m \<Rightarrow> bool" +
  fixes validate :: "'m \<Rightarrow> status"
    and domain :: string
    and type :: message_type
  assumes wf_valid: "wf m \<Longrightarrow> Status_ok (validate m)"
    and domain_bound: "domain_ok domain"
    and domain_checked: "\<exists>rest. decode = check_domain domain rest"
    and type_known: "message_type_from_value type = Some type"
    and type_session: "\<not> is_handshake_message type"
begin

lemma foreign_domain_rejected:
  assumes "dec_ok d" "domain_ok other" "other \<noteq> domain" "reads d i (enc_text other)"
  shows "decode d i =
    err PROTOCOL_CANONICAL_VIOLATION ''message domain string is not the expected one''"
  using domain_checked check_domain_other [OF assms] by auto

lemma decode_message_iff: "decode_message decode f = Inr m \<longleftrightarrow> wf m \<and> fr_payload f = encode m"
proof -
  have "dec_ok (CanonicalDecoder_make bs (decode_message_limits bs))" for bs
    by (simp add: dec_ok_def CanonicalDecoder_make_def decode_message_limits_def)
  then show ?thesis
    by (simp add: decode_message_def decode_whole_iff CanonicalDecoder_make_def)
qed

lemma send_message_accepts:
  assumes "transmits send_all pending" "wf m" "fc_key sender \<noteq> None" "length (encode m) \<le> unat n"
  shows "\<exists>sender' c'. send_message send_all n type validate encode m (sender, c) =
    (Status_success, sender', c')"
proof -
  obtain bs sender' where "FrameCodec_encode type 0 (encode m) n sender = (Inr bs, sender')"
    using assms(3,4) type_session by (auto simp: FrameCodec_encode_def Let_def)
  moreover obtain c' where "send_all bs c = (Status_success, c')"
    using assms(1) unfolding transmits_def by blast
  ultimately show ?thesis
    using wf_valid [OF assms(2)] by (simp add: send_message_def FrameStream_send_def)
qed

lemma sent_message_received:
  assumes "transmits send_all pending" "delivers receive_some pending" "wf m"
    "in_step sender receiver" "fc_send_sequence sender \<noteq> 0" "pending c = []"
    "send_message send_all n type validate encode m (sender, c) = (s, sender', c')" "Status_ok s"
    "fc_key sender \<noteq> None"
  shows "\<exists>receiver' c''. receive_message receive_some n type decode (receiver, c') =
    (Inr m, receiver', c'') \<and> in_step sender' receiver' \<and> pending c'' = []"
proof -
  obtain bs where enc: "FrameCodec_encode type 0 (encode m) n sender = (Inr bs, sender')"
      and send: "send_all bs c = (s, c')"
    using assms(7,8) wf_valid [OF assms(3)]
    by (auto simp: send_message_def FrameStream_send_def split: prod.splits sum.splits if_splits)
      (auto simp: FrameCodec_encode_def Let_def split: if_splits)
  obtain c1 where "send_all bs c = (Status_success, c1)" "pending c1 = pending c @ bs"
    using assms(1) unfolding transmits_def by blast
  then have "pending c' = bs @ []"
    using send assms(6) by simp
  then obtain f receiver' c'' where
      "FrameStream_receive receive_some n (receiver, c') = (Inr f, receiver', c'')"
      "fh_type (fr_header f) = type" "fr_payload f = encode m" "pending c'' = []"
      "in_step sender' receiver'"
    using receive_frame [OF assms(2) enc _ _ assms(5) type_known, of receiver c' "[]"] assms(4)
    unfolding in_step_def by auto
  then show ?thesis
    using assms(3) decode_message_iff [of f m] by (simp add: receive_message_def)
qed

end

lemma wire_messageI:
  assumes "\<And>d i x j. dec_ok d \<Longrightarrow> decode d i = Inr (x, j) \<longleftrightarrow> good x \<and> spells d i j (encode x)"
    and "\<And>m. good m \<Longrightarrow> Status_ok (validate m)"
    and "decode = check_domain domain rest" "domain_ok domain"
    and "message_type_from_value type = Some type" "\<not> is_handshake_message type"
  shows "wire_message encode decode good validate domain type"
  using assms by unfold_locales auto

end
