(* ===== verification/SMF_Wire_Control.thy ===== *)
theory SMF_Wire_Control
  imports SMF_Wire_Base
begin

text \<open>
  The registration, authority and attempt messages of \<^verbatim>\<open>include/smf/wire.hpp\<close> and \<^verbatim>\<open>src/wire.cpp\<close>:
  a record per struct, with the source's \<open>validate\<close>, \<open>encode\<close> and \<open>decode\<close>, field by field in the
  order of the source, and the signature of a transfer grant.

  The laws show that each decoder succeeds exactly on the encodings of well-formed messages, and
  that each message keeps the contract \<open>wire_message\<close>.
\<close>

section \<open>PeerIdentityHint\<close>

record peer_identity_hint =
  pih_endpoint :: endpoint_id
  pih_boot :: boot_id
  pih_epoch :: generation
  pih_role :: u8
  pih_contract :: string
  pih_capability_digest :: digest

definition PeerIdentityHint_validate :: "peer_identity_hint \<Rightarrow> status" where
  "PeerIdentityHint_validate m =
    (return_if_error (require_endpoint (pih_endpoint m) ''peer endpoint'') (
     if FixedId_is_zero (pih_boot m)
     then Status INVALID_ID ''peer boot id must not be zero''
     else return_if_error (require_generation (pih_epoch m) ''peer incarnation epoch'') (
     return_if_error (require_role (pih_role m)) (
     if pih_contract m = []
     then Status ENDPOINT_CONTRACT_MISMATCH ''peer contract must not be empty''
     else return_if_error (require_bound (pih_contract m) kMaxWireContractBytes ''peer contract'') (
     require_digest (pih_capability_digest m) ''peer capability digest'')))))"

definition PeerIdentityHint_encode :: "peer_identity_hint \<Rightarrow> bytes" where
  "PeerIdentityHint_encode m =
     enc_text ''SMF-MSG-PEER-IDENTITY-HINT-v1'' @ enc_text (pih_endpoint m) @
     FixedId_encode (pih_boot m) @ enc_u64 (pih_epoch m) @ enc_u8 (pih_role m) @
     enc_text (pih_contract m) @ enc_digest (pih_capability_digest m)"

definition PeerIdentityHint_decode :: "peer_identity_hint decode" where
  "PeerIdentityHint_decode =
     check_domain ''SMF-MSG-PEER-IDENTITY-HINT-v1'' (
     bind_dec read_endpoint (\<lambda>endpoint.
     bind_dec FixedId_decode (\<lambda>boot.
     bind_dec dec_u64 (\<lambda>epoch.
     bind_dec dec_u8 (\<lambda>role. check_dec (require_role role) (
     bind_dec (dec_text kMaxWireContractBytes) (\<lambda>contract.
     bind_dec dec_digest (\<lambda>capability.
       let m = \<lparr>pih_endpoint = endpoint, pih_boot = boot, pih_epoch = epoch,
         pih_role = role, pih_contract = contract, pih_capability_digest = capability\<rparr>
       in check_dec (PeerIdentityHint_validate m) (return_dec m)))))))))"

section \<open>TransferGrant\<close>

record transfer_grant =
  tg_movement_id :: movement_id
  tg_movement_generation :: generation
  tg_attempt :: attempt_id
  tg_object :: state_object
  tg_source :: endpoint_id
  tg_source_incarnation :: incarnation
  tg_destination :: endpoint_id
  tg_destination_incarnation :: incarnation
  tg_policy_generation :: generation
  tg_grant_nonce :: nonce
  tg_max_bytes :: u64
  tg_max_chunks :: u32
  tg_issued_unix_millis :: u64
  tg_effect_class :: effect_class
  tg_signature :: digest

definition TransferGrant_validate :: "transfer_grant \<Rightarrow> status" where
  "TransferGrant_validate m =
    (if FixedId_is_zero (tg_movement_id m)
     then Status INVALID_ID ''transfer grant requires a movement id''
     else return_if_error (require_generation (tg_movement_generation m) ''movement generation'') (
     if FixedId_is_zero (tg_attempt m)
     then Status INVALID_ID ''transfer grant requires a transfer attempt id''
     else return_if_error (StateObjectDescriptor_validate (tg_object m)) (
     return_if_error (require_endpoint (tg_source m) ''grant source'') (
     return_if_error (require_endpoint (tg_destination m) ''grant destination'') (
     if tg_source m = tg_destination m
     then Status SELF_MOVEMENT ''a transfer grant must move bytes between two endpoints''
     else return_if_error (require_incarnation (tg_source_incarnation m) (tg_source m) ''source incarnation'') (
     return_if_error (require_incarnation (tg_destination_incarnation m) (tg_destination m) ''destination incarnation'') (
     return_if_error (require_generation (tg_policy_generation m) ''policy generation'') (
     if FixedId_is_zero (tg_grant_nonce m)
     then Status INVALID_ID ''transfer grant requires a nonce''
     else if tg_max_bytes m = 0
     then Status INVALID_SIZE ''transfer grant requires a non-zero byte budget''
     else if tg_max_chunks m = 0
     then Status INVALID_SIZE ''transfer grant requires a non-zero chunk budget''
     else if sint (tg_issued_unix_millis m) \<le> 0
     then Status INVALID_ARGUMENT ''transfer grant requires an issue timestamp''
     else if Digest_is_zero (tg_signature m)
     then Status INVALID_DIGEST ''transfer grant is not signed''
     else Status_success))))))))"

definition TransferGrant_encode_unsigned :: "transfer_grant \<Rightarrow> bytes" where
  "TransferGrant_encode_unsigned m =
     FixedId_encode (tg_movement_id m) @ enc_u64 (tg_movement_generation m) @
     FixedId_encode (tg_attempt m) @ StateObjectDescriptor_encode (tg_object m) @
     enc_text (tg_source m) @ write_incarnation (tg_source_incarnation m) @
     enc_text (tg_destination m) @ write_incarnation (tg_destination_incarnation m) @
     enc_u64 (tg_policy_generation m) @ FixedId_encode (tg_grant_nonce m) @
     enc_u64 (tg_max_bytes m) @ enc_u32 (tg_max_chunks m) @ enc_i64 (tg_issued_unix_millis m) @
     enc_u8 (EffectClass_value (tg_effect_class m))"

definition TransferGrant_encode :: "transfer_grant \<Rightarrow> bytes" where
  "TransferGrant_encode m =
     TransferGrant_encode_unsigned m @ enc_digest (tg_signature m)"

definition TransferGrant_decode :: "transfer_grant decode" where
  "TransferGrant_decode =
     bind_dec FixedId_decode (\<lambda>movement_id.
     bind_dec read_generation (\<lambda>generation.
     bind_dec FixedId_decode (\<lambda>attempt.
     bind_dec StateObjectDescriptor_decode (\<lambda>object.
     bind_dec read_endpoint (\<lambda>source.
     bind_dec read_incarnation (\<lambda>source_incarnation.
     bind_dec read_endpoint (\<lambda>destination.
     bind_dec read_incarnation (\<lambda>destination_incarnation.
     bind_dec read_generation (\<lambda>policy_generation.
     bind_dec FixedId_decode (\<lambda>nonce.
     bind_dec dec_u64 (\<lambda>max_bytes.
     bind_dec dec_u32 (\<lambda>max_chunks.
     bind_dec dec_i64 (\<lambda>issued.
     bind_dec read_effect_class (\<lambda>effect.
     bind_dec dec_digest (\<lambda>signature.
       let m = \<lparr>tg_movement_id = movement_id, tg_movement_generation = generation,
         tg_attempt = attempt, tg_object = object, tg_source = source,
         tg_source_incarnation = source_incarnation, tg_destination = destination,
         tg_destination_incarnation = destination_incarnation,
         tg_policy_generation = policy_generation, tg_grant_nonce = nonce,
         tg_max_bytes = max_bytes, tg_max_chunks = max_chunks, tg_issued_unix_millis = issued,
         tg_effect_class = effect, tg_signature = signature\<rparr>
       in check_dec (TransferGrant_validate m) (return_dec m))))))))))))))))"

section \<open>RegisterRequest\<close>

record register_request =
  rr_identity :: peer_identity_hint
  rr_service_address :: socket_address
  rr_data_address :: socket_address
  rr_inventory_digest :: digest

definition RegisterRequest_validate :: "register_request \<Rightarrow> status" where
  "RegisterRequest_validate m =
    (return_if_error (PeerIdentityHint_validate (rr_identity m)) (
     return_if_error (require_address (rr_service_address m) False ''service address'') (
     return_if_error (require_address (rr_data_address m) True ''data address'') (
     require_digest (rr_inventory_digest m) ''inventory digest''))))"

definition RegisterRequest_encode :: "register_request \<Rightarrow> bytes" where
  "RegisterRequest_encode m =
     enc_text ''SMF-MSG-REGISTER-REQUEST-v1'' @ PeerIdentityHint_encode (rr_identity m) @
     write_address (rr_service_address m) @ write_address (rr_data_address m) @
     enc_digest (rr_inventory_digest m)"

definition RegisterRequest_decode :: "register_request decode" where
  "RegisterRequest_decode =
     check_domain ''SMF-MSG-REGISTER-REQUEST-v1'' (
     bind_dec PeerIdentityHint_decode (\<lambda>identity.
     bind_dec read_address (\<lambda>service.
     bind_dec read_address (\<lambda>data.
     bind_dec dec_digest (\<lambda>inventory.
       let m = \<lparr>rr_identity = identity, rr_service_address = service,
         rr_data_address = data, rr_inventory_digest = inventory\<rparr>
       in check_dec (RegisterRequest_validate m) (return_dec m))))))"

section \<open>RegisterAck\<close>

record register_ack =
  ra_topology_generation :: generation
  ra_policy_generation :: generation
  ra_coordinator :: incarnation
  ra_policy_digest :: digest
  ra_max_inflight_chunks :: u32
  ra_max_chunk_bytes :: u64
  ra_max_object_bytes :: u64
  ra_io_budget_millis :: u32
  ra_transfer_budget_millis :: u32

definition RegisterAck_validate :: "register_ack \<Rightarrow> status" where
  "RegisterAck_validate m =
    (return_if_error (require_generation (ra_topology_generation m) ''topology generation'') (
     return_if_error (require_generation (ra_policy_generation m) ''policy generation'') (
     if \<not> Incarnation_is_set (ra_coordinator m)
     then Status STALE_INCARNATION ''registration ack requires a coordinator incarnation''
     else return_if_error (require_digest (ra_policy_digest m) ''policy digest'') (
     if ra_max_inflight_chunks m = 0
     then Status INVALID_POLICY ''registration ack requires a non-zero in-flight bound''
     else if ra_max_chunk_bytes m = 0
     then Status INVALID_POLICY ''registration ack requires a non-zero chunk bound''
     else if ra_max_object_bytes m = 0
     then Status INVALID_POLICY ''registration ack requires a non-zero object bound''
     else if ra_io_budget_millis m = 0
     then Status INVALID_POLICY ''registration ack requires a non-zero io budget''
     else if ra_transfer_budget_millis m = 0
     then Status INVALID_POLICY ''registration ack requires a non-zero transfer budget''
     else Status_success))))"

definition RegisterAck_encode :: "register_ack \<Rightarrow> bytes" where
  "RegisterAck_encode m =
     enc_text ''SMF-MSG-REGISTER-ACK-v1'' @ write_generation (ra_topology_generation m) @
     write_generation (ra_policy_generation m) @ write_incarnation (ra_coordinator m) @
     enc_digest (ra_policy_digest m) @ enc_u32 (ra_max_inflight_chunks m) @
     enc_u64 (ra_max_chunk_bytes m) @ enc_u64 (ra_max_object_bytes m) @
     enc_u32 (ra_io_budget_millis m) @ enc_u32 (ra_transfer_budget_millis m)"

definition RegisterAck_decode :: "register_ack decode" where
  "RegisterAck_decode =
     check_domain ''SMF-MSG-REGISTER-ACK-v1'' (
     bind_dec read_generation (\<lambda>topology.
     bind_dec read_generation (\<lambda>policy.
     bind_dec read_incarnation (\<lambda>coordinator.
     bind_dec dec_digest (\<lambda>digest.
     bind_dec dec_u32 (\<lambda>inflight.
     bind_dec dec_u64 (\<lambda>chunk_bytes.
     bind_dec dec_u64 (\<lambda>object_bytes.
     bind_dec dec_u32 (\<lambda>io_budget.
     bind_dec dec_u32 (\<lambda>transfer_budget.
       let m = \<lparr>ra_topology_generation = topology, ra_policy_generation = policy,
         ra_coordinator = coordinator, ra_policy_digest = digest,
         ra_max_inflight_chunks = inflight, ra_max_chunk_bytes = chunk_bytes,
         ra_max_object_bytes = object_bytes, ra_io_budget_millis = io_budget,
         ra_transfer_budget_millis = transfer_budget\<rparr>
       in check_dec (RegisterAck_validate m) (return_dec m)))))))))))"

section \<open>AnnounceObject\<close>

record announce_object =
  ao_descriptor :: state_object

definition AnnounceObject_validate :: "announce_object \<Rightarrow> status" where
  "AnnounceObject_validate m =
    (StateObjectDescriptor_validate (ao_descriptor m))"

definition AnnounceObject_encode :: "announce_object \<Rightarrow> bytes" where
  "AnnounceObject_encode m =
     enc_text ''SMF-MSG-ANNOUNCE-OBJECT-v1'' @ StateObjectDescriptor_encode (ao_descriptor m)"

definition AnnounceObject_decode :: "announce_object decode" where
  "AnnounceObject_decode =
     check_domain ''SMF-MSG-ANNOUNCE-OBJECT-v1'' (
     bind_dec StateObjectDescriptor_decode (\<lambda>descriptor.
       let m = \<lparr>ao_descriptor = descriptor\<rparr>
       in check_dec (AnnounceObject_validate m) (return_dec m)))"

section \<open>AnnounceAck\<close>

record announce_ack =
  aa_code :: reason_code
  aa_detail :: string

definition AnnounceAck_validate :: "announce_ack \<Rightarrow> status" where
  "AnnounceAck_validate m =
    (require_bound (aa_detail m) kMaxDetailBytes ''detail'')"

definition AnnounceAck_encode :: "announce_ack \<Rightarrow> bytes" where
  "AnnounceAck_encode m =
     enc_text ''SMF-MSG-ANNOUNCE-ACK-v1'' @ write_reason (aa_code m) @ write_detail (aa_detail m)"

definition AnnounceAck_decode :: "announce_ack decode" where
  "AnnounceAck_decode =
     check_domain ''SMF-MSG-ANNOUNCE-ACK-v1'' (
     bind_dec read_reason (\<lambda>code.
     bind_dec read_detail (\<lambda>detail.
       let m = \<lparr>aa_code = code, aa_detail = detail\<rparr>
       in check_dec (AnnounceAck_validate m) (return_dec m))))"

section \<open>GrantTransfer\<close>

record grant_transfer =
  gt_grant :: transfer_grant

definition GrantTransfer_validate :: "grant_transfer \<Rightarrow> status" where
  "GrantTransfer_validate m =
    (TransferGrant_validate (gt_grant m))"

definition GrantTransfer_encode :: "grant_transfer \<Rightarrow> bytes" where
  "GrantTransfer_encode m =
     enc_text ''SMF-MSG-GRANT-TRANSFER-v1'' @ TransferGrant_encode (gt_grant m)"

definition GrantTransfer_decode :: "grant_transfer decode" where
  "GrantTransfer_decode =
     check_domain ''SMF-MSG-GRANT-TRANSFER-v1'' (
     bind_dec TransferGrant_decode (\<lambda>grant.
       let m = \<lparr>gt_grant = grant\<rparr>
       in check_dec (GrantTransfer_validate m) (return_dec m)))"

section \<open>GrantAck\<close>

record grant_ack =
  ga_nonce :: digest
  ga_code :: reason_code
  ga_detail :: string

definition GrantAck_validate :: "grant_ack \<Rightarrow> status" where
  "GrantAck_validate m =
    (return_if_error (require_digest (ga_nonce m) ''grant nonce'') (
     require_bound (ga_detail m) kMaxDetailBytes ''detail''))"

definition GrantAck_encode :: "grant_ack \<Rightarrow> bytes" where
  "GrantAck_encode m =
     enc_text ''SMF-MSG-GRANT-ACK-v1'' @ enc_digest (ga_nonce m) @ write_reason (ga_code m) @
     write_detail (ga_detail m)"

definition GrantAck_decode :: "grant_ack decode" where
  "GrantAck_decode =
     check_domain ''SMF-MSG-GRANT-ACK-v1'' (
     bind_dec dec_digest (\<lambda>nonce.
     bind_dec read_reason (\<lambda>code.
     bind_dec read_detail (\<lambda>detail.
       let m = \<lparr>ga_nonce = nonce, ga_code = code, ga_detail = detail\<rparr>
       in check_dec (GrantAck_validate m) (return_dec m)))))"

section \<open>ExecuteMovement\<close>

record execute_movement =
  em_movement_id :: movement_id
  em_movement_generation :: generation
  em_attempt :: attempt_id
  em_nonce :: digest
  em_source :: endpoint_id

definition ExecuteMovement_validate :: "execute_movement \<Rightarrow> status" where
  "ExecuteMovement_validate m =
    (if FixedId_is_zero (em_movement_id m)
     then Status INVALID_ID ''execute movement requires a movement id''
     else return_if_error (require_generation (em_movement_generation m) ''movement generation'') (
     if FixedId_is_zero (em_attempt m)
     then Status INVALID_ID ''execute movement requires a transfer attempt id''
     else return_if_error (require_digest (em_nonce m) ''execute movement nonce'') (
     require_endpoint (em_source m) ''execute movement source'')))"

definition ExecuteMovement_encode :: "execute_movement \<Rightarrow> bytes" where
  "ExecuteMovement_encode m =
     enc_text ''SMF-MSG-EXECUTE-MOVEMENT-v1'' @ FixedId_encode (em_movement_id m) @
     write_generation (em_movement_generation m) @ FixedId_encode (em_attempt m) @
     enc_digest (em_nonce m) @ enc_text (em_source m)"

definition ExecuteMovement_decode :: "execute_movement decode" where
  "ExecuteMovement_decode =
     check_domain ''SMF-MSG-EXECUTE-MOVEMENT-v1'' (
     bind_dec FixedId_decode (\<lambda>movement_id.
     bind_dec read_generation (\<lambda>generation.
     bind_dec FixedId_decode (\<lambda>attempt.
     bind_dec dec_digest (\<lambda>nonce.
     bind_dec read_endpoint (\<lambda>source.
       let m = \<lparr>em_movement_id = movement_id, em_movement_generation = generation,
         em_attempt = attempt, em_nonce = nonce, em_source = source\<rparr>
       in check_dec (ExecuteMovement_validate m) (return_dec m)))))))"

section \<open>AttemptResult\<close>

record attempt_result =
  ar_movement_id :: movement_id
  ar_movement_generation :: generation
  ar_attempt :: attempt_id
  ar_state :: movement_state
  ar_code :: reason_code
  ar_detail :: string
  ar_verified_digest :: digest
  ar_bytes :: u64
  ar_chunks :: u32
  ar_marker_digest :: digest

definition AttemptResult_validate :: "attempt_result \<Rightarrow> status" where
  "AttemptResult_validate m =
    (if FixedId_is_zero (ar_movement_id m)
     then Status INVALID_ID ''attempt result requires a movement id''
     else return_if_error (require_generation (ar_movement_generation m) ''movement generation'') (
     if FixedId_is_zero (ar_attempt m)
     then Status INVALID_ID ''attempt result requires a transfer attempt id''
     else require_bound (ar_detail m) kMaxDetailBytes ''detail''))"

definition AttemptResult_encode :: "attempt_result \<Rightarrow> bytes" where
  "AttemptResult_encode m =
     enc_text ''SMF-MSG-ATTEMPT-RESULT-v1'' @ FixedId_encode (ar_movement_id m) @
     write_generation (ar_movement_generation m) @ FixedId_encode (ar_attempt m) @
     enc_u8 (MovementState_value (ar_state m)) @ write_reason (ar_code m) @
     write_detail (ar_detail m) @ enc_digest (ar_verified_digest m) @ enc_u64 (ar_bytes m) @
     enc_u32 (ar_chunks m) @ enc_digest (ar_marker_digest m)"

definition AttemptResult_decode :: "attempt_result decode" where
  "AttemptResult_decode =
     check_domain ''SMF-MSG-ATTEMPT-RESULT-v1'' (
     bind_dec FixedId_decode (\<lambda>movement_id.
     bind_dec read_generation (\<lambda>generation.
     bind_dec FixedId_decode (\<lambda>attempt.
     bind_dec read_movement_state (\<lambda>state.
     bind_dec read_reason (\<lambda>code.
     bind_dec read_detail (\<lambda>detail.
     bind_dec dec_digest (\<lambda>verified.
     bind_dec dec_u64 (\<lambda>bytes.
     bind_dec dec_u32 (\<lambda>chunks.
     bind_dec dec_digest (\<lambda>marker.
       let m = \<lparr>ar_movement_id = movement_id, ar_movement_generation = generation,
         ar_attempt = attempt, ar_state = state, ar_code = code, ar_detail = detail,
         ar_verified_digest = verified, ar_bytes = bytes, ar_chunks = chunks,
         ar_marker_digest = marker\<rparr>
       in check_dec (AttemptResult_validate m) (return_dec m))))))))))))"

section \<open>CancelRequest\<close>

record cancel_request =
  cq_movement_id :: movement_id
  cq_movement_generation :: generation

definition CancelRequest_validate :: "cancel_request \<Rightarrow> status" where
  "CancelRequest_validate m =
    (if FixedId_is_zero (cq_movement_id m)
     then Status INVALID_ID ''cancel request requires a movement id''
     else require_generation (cq_movement_generation m) ''movement generation'')"

definition CancelRequest_encode :: "cancel_request \<Rightarrow> bytes" where
  "CancelRequest_encode m =
     enc_text ''SMF-MSG-CANCEL-REQUEST-v1'' @ FixedId_encode (cq_movement_id m) @
     write_generation (cq_movement_generation m)"

definition CancelRequest_decode :: "cancel_request decode" where
  "CancelRequest_decode =
     check_domain ''SMF-MSG-CANCEL-REQUEST-v1'' (
     bind_dec FixedId_decode (\<lambda>movement_id.
     bind_dec read_generation (\<lambda>generation.
       let m = \<lparr>cq_movement_id = movement_id, cq_movement_generation = generation\<rparr>
       in check_dec (CancelRequest_validate m) (return_dec m))))"

section \<open>CancelAck\<close>

record cancel_ack =
  ca_movement_id :: movement_id
  ca_movement_generation :: generation
  ca_code :: reason_code
  ca_detail :: string

definition CancelAck_validate :: "cancel_ack \<Rightarrow> status" where
  "CancelAck_validate m =
    (if FixedId_is_zero (ca_movement_id m)
     then Status INVALID_ID ''cancel ack requires a movement id''
     else return_if_error (require_generation (ca_movement_generation m) ''movement generation'') (
     require_bound (ca_detail m) kMaxDetailBytes ''detail''))"

definition CancelAck_encode :: "cancel_ack \<Rightarrow> bytes" where
  "CancelAck_encode m =
     enc_text ''SMF-MSG-CANCEL-ACK-v1'' @ FixedId_encode (ca_movement_id m) @
     write_generation (ca_movement_generation m) @ write_reason (ca_code m) @
     write_detail (ca_detail m)"

definition CancelAck_decode :: "cancel_ack decode" where
  "CancelAck_decode =
     check_domain ''SMF-MSG-CANCEL-ACK-v1'' (
     bind_dec FixedId_decode (\<lambda>movement_id.
     bind_dec read_generation (\<lambda>generation.
     bind_dec read_reason (\<lambda>code.
     bind_dec read_detail (\<lambda>detail.
       let m = \<lparr>ca_movement_id = movement_id, ca_movement_generation = generation,
         ca_code = code, ca_detail = detail\<rparr>
       in check_dec (CancelAck_validate m) (return_dec m))))))"

section \<open>The signature of a transfer grant\<close>

definition TransferGrant_signed_encoding :: "transfer_grant \<Rightarrow> bytes" where
  "TransferGrant_signed_encoding m =
     enc_text ''SMF-TRANSFER-GRANT-v1'' @ TransferGrant_encode_unsigned m"

definition TransferGrant_compute_signature :: "bytes \<Rightarrow> transfer_grant \<Rightarrow> digest" where
  "TransferGrant_compute_signature key m = canonical_mac key (TransferGrant_signed_encoding m)"

definition TransferGrant_sign :: "bytes \<Rightarrow> transfer_grant \<Rightarrow> status \<times> transfer_grant" where
  "TransferGrant_sign key m =
    (let m = m\<lparr>tg_signature := TransferGrant_compute_signature key m\<rparr>
     in (TransferGrant_validate m, m))"

definition TransferGrant_verify_signature :: "bytes \<Rightarrow> transfer_grant \<Rightarrow> status" where
  "TransferGrant_verify_signature key m =
     return_if_error (TransferGrant_validate m) (
     if \<not> constant_time_equal (Digest_view (TransferGrant_compute_signature key m))
         (Digest_view (tg_signature m))
     then Status PROTOCOL_AUTH_FAILED ''transfer grant signature did not verify''
     else Status_success)"

section \<open>Laws of the messages\<close>

definition peer_identity_hint_wf :: "peer_identity_hint \<Rightarrow> bool" where
  "peer_identity_hint_wf m \<longleftrightarrow> Status_ok (PeerIdentityHint_validate m)"

lemma PeerIdentityHint_decode_iff [codec_iff]:
  "dec_ok c \<Longrightarrow> PeerIdentityHint_decode c i = Inr (m, j) \<longleftrightarrow>
    peer_identity_hint_wf m \<and> spells c i j (PeerIdentityHint_encode m)"
  by (cases m)
    (auto simp: PeerIdentityHint_decode_def PeerIdentityHint_encode_def peer_identity_hint_wf_def
      PeerIdentityHint_validate_def domain_ok_def dec_Inr_iffs codec_iff codec_simps)

interpretation peer_identity_hint_codec: canonical_codec PeerIdentityHint_encode
  PeerIdentityHint_decode peer_identity_hint_wf
  by unfold_locales (rule PeerIdentityHint_decode_iff)

definition transfer_grant_wf :: "transfer_grant \<Rightarrow> bool" where
  "transfer_grant_wf m \<longleftrightarrow> Status_ok (TransferGrant_validate m)"

lemma TransferGrant_valid_names:
  "Status_ok (TransferGrant_validate m) \<Longrightarrow> descriptor_valid (tg_object m) \<and>
    EndpointId_is_valid (tg_source m) \<and> EndpointId_is_valid (tg_destination m) \<and>
    inc_endpoint (tg_source_incarnation m) = tg_source m \<and>
    inc_endpoint (tg_destination_incarnation m) = tg_destination m"
  by (simp add: TransferGrant_validate_def split: if_splits)

lemma TransferGrant_decode_iff [codec_iff]:
  "dec_ok c \<Longrightarrow> TransferGrant_decode c i = Inr (m, j) \<longleftrightarrow>
    transfer_grant_wf m \<and> spells c i j (TransferGrant_encode m)"
  using TransferGrant_valid_names [of m]
  by (cases m)
    (auto simp: TransferGrant_decode_def TransferGrant_encode_def transfer_grant_wf_def
      TransferGrant_encode_unsigned_def write_generation_def dec_Inr_iffs codec_iff
      codec_simps)

interpretation transfer_grant_codec: canonical_codec TransferGrant_encode
  TransferGrant_decode transfer_grant_wf
  by unfold_locales (rule TransferGrant_decode_iff)

definition register_request_wf :: "register_request \<Rightarrow> bool" where
  "register_request_wf m \<longleftrightarrow> Status_ok (RegisterRequest_validate m) \<and>
     peer_identity_hint_wf (rr_identity m) \<and>
     address_wf (rr_service_address m) \<and>
     address_wf (rr_data_address m)"

lemma RegisterRequest_decode_iff [codec_iff]:
  "dec_ok c \<Longrightarrow> RegisterRequest_decode c i = Inr (m, j) \<longleftrightarrow>
    register_request_wf m \<and> spells c i j (RegisterRequest_encode m)"
  by (cases m)
    (auto simp: RegisterRequest_decode_def RegisterRequest_encode_def register_request_wf_def
      domain_ok_def dec_Inr_iffs codec_iff codec_simps)

interpretation register_request: wire_message RegisterRequest_encode RegisterRequest_decode
  register_request_wf RegisterRequest_validate "''SMF-MSG-REGISTER-REQUEST-v1''" MT_REGISTER
  by (rule wire_messageI [OF RegisterRequest_decode_iff _ RegisterRequest_decode_def])
    (simp_all add: register_request_wf_def wire_message_simps)

definition register_ack_wf :: "register_ack \<Rightarrow> bool" where
  "register_ack_wf m \<longleftrightarrow> Status_ok (RegisterAck_validate m) \<and>
     incarnation_wf (ra_coordinator m)"

lemma RegisterAck_decode_iff [codec_iff]:
  "dec_ok c \<Longrightarrow> RegisterAck_decode c i = Inr (m, j) \<longleftrightarrow>
    register_ack_wf m \<and> spells c i j (RegisterAck_encode m)"
  by (cases m)
    (auto simp: RegisterAck_decode_def RegisterAck_encode_def register_ack_wf_def domain_ok_def
      dec_Inr_iffs codec_iff codec_simps)

interpretation register_ack: wire_message RegisterAck_encode RegisterAck_decode
  register_ack_wf RegisterAck_validate "''SMF-MSG-REGISTER-ACK-v1''" MT_REGISTER_ACK
  by (rule wire_messageI [OF RegisterAck_decode_iff _ RegisterAck_decode_def])
    (simp_all add: register_ack_wf_def wire_message_simps)

definition announce_object_wf :: "announce_object \<Rightarrow> bool" where
  "announce_object_wf m \<longleftrightarrow> Status_ok (AnnounceObject_validate m)"

lemma AnnounceObject_decode_iff [codec_iff]:
  "dec_ok c \<Longrightarrow> AnnounceObject_decode c i = Inr (m, j) \<longleftrightarrow>
    announce_object_wf m \<and> spells c i j (AnnounceObject_encode m)"
  by (cases m)
    (auto simp: AnnounceObject_decode_def AnnounceObject_encode_def announce_object_wf_def
      AnnounceObject_validate_def domain_ok_def dec_Inr_iffs codec_iff codec_simps)

interpretation announce_object: wire_message AnnounceObject_encode AnnounceObject_decode
  announce_object_wf AnnounceObject_validate "''SMF-MSG-ANNOUNCE-OBJECT-v1''" MT_ANNOUNCE_OBJECT
  by (rule wire_messageI [OF AnnounceObject_decode_iff _ AnnounceObject_decode_def])
    (simp_all add: announce_object_wf_def wire_message_simps)

definition announce_ack_wf :: "announce_ack \<Rightarrow> bool" where
  "announce_ack_wf m \<longleftrightarrow> Status_ok (AnnounceAck_validate m) \<and>
     reason_wf (aa_code m)"

lemma AnnounceAck_decode_iff [codec_iff]:
  "dec_ok c \<Longrightarrow> AnnounceAck_decode c i = Inr (m, j) \<longleftrightarrow>
    announce_ack_wf m \<and> spells c i j (AnnounceAck_encode m)"
  by (cases m)
    (auto simp: AnnounceAck_decode_def AnnounceAck_encode_def announce_ack_wf_def
      AnnounceAck_validate_def domain_ok_def dec_Inr_iffs codec_iff codec_simps)

interpretation announce_ack: wire_message AnnounceAck_encode AnnounceAck_decode
  announce_ack_wf AnnounceAck_validate "''SMF-MSG-ANNOUNCE-ACK-v1''" MT_ANNOUNCE_ACK
  by (rule wire_messageI [OF AnnounceAck_decode_iff _ AnnounceAck_decode_def])
    (simp_all add: announce_ack_wf_def wire_message_simps)

definition grant_transfer_wf :: "grant_transfer \<Rightarrow> bool" where
  "grant_transfer_wf m \<longleftrightarrow> Status_ok (GrantTransfer_validate m) \<and>
     transfer_grant_wf (gt_grant m)"

lemma GrantTransfer_decode_iff [codec_iff]:
  "dec_ok c \<Longrightarrow> GrantTransfer_decode c i = Inr (m, j) \<longleftrightarrow>
    grant_transfer_wf m \<and> spells c i j (GrantTransfer_encode m)"
  by (cases m)
    (auto simp: GrantTransfer_decode_def GrantTransfer_encode_def grant_transfer_wf_def
      domain_ok_def dec_Inr_iffs codec_iff codec_simps)

interpretation grant_transfer: wire_message GrantTransfer_encode GrantTransfer_decode
  grant_transfer_wf GrantTransfer_validate "''SMF-MSG-GRANT-TRANSFER-v1''" MT_GRANT_TRANSFER
  by (rule wire_messageI [OF GrantTransfer_decode_iff _ GrantTransfer_decode_def])
    (simp_all add: grant_transfer_wf_def wire_message_simps)

definition grant_ack_wf :: "grant_ack \<Rightarrow> bool" where
  "grant_ack_wf m \<longleftrightarrow> Status_ok (GrantAck_validate m) \<and>
     reason_wf (ga_code m)"

lemma GrantAck_decode_iff [codec_iff]:
  "dec_ok c \<Longrightarrow> GrantAck_decode c i = Inr (m, j) \<longleftrightarrow>
    grant_ack_wf m \<and> spells c i j (GrantAck_encode m)"
  by (cases m)
    (auto simp: GrantAck_decode_def GrantAck_encode_def grant_ack_wf_def GrantAck_validate_def
      domain_ok_def dec_Inr_iffs codec_iff codec_simps)

interpretation grant_ack: wire_message GrantAck_encode GrantAck_decode
  grant_ack_wf GrantAck_validate "''SMF-MSG-GRANT-ACK-v1''" MT_GRANT_ACK
  by (rule wire_messageI [OF GrantAck_decode_iff _ GrantAck_decode_def])
    (simp_all add: grant_ack_wf_def wire_message_simps)

definition execute_movement_wf :: "execute_movement \<Rightarrow> bool" where
  "execute_movement_wf m \<longleftrightarrow> Status_ok (ExecuteMovement_validate m)"

lemma ExecuteMovement_decode_iff [codec_iff]:
  "dec_ok c \<Longrightarrow> ExecuteMovement_decode c i = Inr (m, j) \<longleftrightarrow>
    execute_movement_wf m \<and> spells c i j (ExecuteMovement_encode m)"
  by (cases m)
    (auto simp: ExecuteMovement_decode_def ExecuteMovement_encode_def execute_movement_wf_def
      ExecuteMovement_validate_def domain_ok_def dec_Inr_iffs codec_iff codec_simps)

interpretation execute_movement: wire_message ExecuteMovement_encode ExecuteMovement_decode
  execute_movement_wf ExecuteMovement_validate "''SMF-MSG-EXECUTE-MOVEMENT-v1''" MT_EXECUTE_MOVEMENT
  by (rule wire_messageI [OF ExecuteMovement_decode_iff _ ExecuteMovement_decode_def])
    (simp_all add: execute_movement_wf_def wire_message_simps)

definition attempt_result_wf :: "attempt_result \<Rightarrow> bool" where
  "attempt_result_wf m \<longleftrightarrow> Status_ok (AttemptResult_validate m) \<and>
     reason_wf (ar_code m)"

lemma AttemptResult_decode_iff [codec_iff]:
  "dec_ok c \<Longrightarrow> AttemptResult_decode c i = Inr (m, j) \<longleftrightarrow>
    attempt_result_wf m \<and> spells c i j (AttemptResult_encode m)"
  by (cases m)
    (auto simp: AttemptResult_decode_def AttemptResult_encode_def attempt_result_wf_def
      AttemptResult_validate_def domain_ok_def dec_Inr_iffs codec_iff codec_simps)

interpretation attempt_result: wire_message AttemptResult_encode AttemptResult_decode
  attempt_result_wf AttemptResult_validate "''SMF-MSG-ATTEMPT-RESULT-v1''" MT_ATTEMPT_RESULT
  by (rule wire_messageI [OF AttemptResult_decode_iff _ AttemptResult_decode_def])
    (simp_all add: attempt_result_wf_def wire_message_simps)

definition cancel_request_wf :: "cancel_request \<Rightarrow> bool" where
  "cancel_request_wf m \<longleftrightarrow> Status_ok (CancelRequest_validate m)"

lemma CancelRequest_decode_iff [codec_iff]:
  "dec_ok c \<Longrightarrow> CancelRequest_decode c i = Inr (m, j) \<longleftrightarrow>
    cancel_request_wf m \<and> spells c i j (CancelRequest_encode m)"
  by (cases m)
    (auto simp: CancelRequest_decode_def CancelRequest_encode_def cancel_request_wf_def
      domain_ok_def dec_Inr_iffs codec_iff codec_simps)

interpretation cancel_request: wire_message CancelRequest_encode CancelRequest_decode
  cancel_request_wf CancelRequest_validate "''SMF-MSG-CANCEL-REQUEST-v1''" MT_CANCEL
  by (rule wire_messageI [OF CancelRequest_decode_iff _ CancelRequest_decode_def])
    (simp_all add: cancel_request_wf_def wire_message_simps)

definition cancel_ack_wf :: "cancel_ack \<Rightarrow> bool" where
  "cancel_ack_wf m \<longleftrightarrow> Status_ok (CancelAck_validate m) \<and>
     reason_wf (ca_code m)"

lemma CancelAck_decode_iff [codec_iff]:
  "dec_ok c \<Longrightarrow> CancelAck_decode c i = Inr (m, j) \<longleftrightarrow>
    cancel_ack_wf m \<and> spells c i j (CancelAck_encode m)"
  by (cases m)
    (auto simp: CancelAck_decode_def CancelAck_encode_def cancel_ack_wf_def
      CancelAck_validate_def domain_ok_def dec_Inr_iffs codec_iff codec_simps)

interpretation cancel_ack: wire_message CancelAck_encode CancelAck_decode
  cancel_ack_wf CancelAck_validate "''SMF-MSG-CANCEL-ACK-v1''" MT_CANCEL_ACK
  by (rule wire_messageI [OF CancelAck_decode_iff _ CancelAck_decode_def])
    (simp_all add: cancel_ack_wf_def wire_message_simps)

section \<open>Laws of the signature\<close>

lemma TransferGrant_unsigned_update [simp]:
  "TransferGrant_encode_unsigned (m\<lparr>tg_signature := s\<rparr>) = TransferGrant_encode_unsigned m"
  "TransferGrant_signed_encoding (m\<lparr>tg_signature := s\<rparr>) = TransferGrant_signed_encoding m"
  "TransferGrant_compute_signature key (m\<lparr>tg_signature := s\<rparr>) = TransferGrant_compute_signature key m"
  by (simp_all add: TransferGrant_encode_unsigned_def TransferGrant_signed_encoding_def
      TransferGrant_compute_signature_def)

lemma transfer_grant_wf_resign:
  "transfer_grant_wf m \<Longrightarrow> s \<noteq> 0 \<Longrightarrow> transfer_grant_wf (m\<lparr>tg_signature := s\<rparr>)"
  by (simp add: transfer_grant_wf_def TransferGrant_validate_def split: if_splits)

lemma transfer_grant_wf_signed: "transfer_grant_wf m \<Longrightarrow> tg_signature m \<noteq> 0"
  by (simp add: transfer_grant_wf_def TransferGrant_validate_def split: if_splits)

lemma TransferGrant_signed_encoding_inject:
  assumes "transfer_grant_wf m" "transfer_grant_wf m'"
    "TransferGrant_signed_encoding m = TransferGrant_signed_encoding m'"
  shows "m = m'\<lparr>tg_signature := tg_signature m\<rparr>"
proof (rule transfer_grant_codec.encoding_inject)
  show "transfer_grant_wf (m'\<lparr>tg_signature := tg_signature m\<rparr>)"
    using assms transfer_grant_wf_signed transfer_grant_wf_resign by blast
  show "TransferGrant_encode m = TransferGrant_encode (m'\<lparr>tg_signature := tg_signature m\<rparr>)"
    using assms(3) by (simp add: TransferGrant_encode_def TransferGrant_signed_encoding_def)
qed (rule assms)

lemma TransferGrant_verify_signature_iff:
  "Status_ok (TransferGrant_verify_signature key m) \<longleftrightarrow>
    transfer_grant_wf m \<and> tg_signature m = TransferGrant_compute_signature key m"
  by (auto simp: TransferGrant_verify_signature_def transfer_grant_wf_def Digest_view_def be_bytes_inject)

lemma TransferGrant_sign_then_verify:
  "TransferGrant_sign key m = (s, m') \<Longrightarrow> Status_ok s \<Longrightarrow> Status_ok (TransferGrant_verify_signature key m')"
  by (auto simp: TransferGrant_sign_def TransferGrant_verify_signature_iff transfer_grant_wf_def Let_def)

end
