(* ===== verification/SMF_Wire_Commit.thy ===== *)
theory SMF_Wire_Commit
  imports SMF_Wire_Base
begin

text \<open>
  The commit, verification, authority and cleanup messages of \<^verbatim>\<open>include/smf/wire.hpp\<close> and
  \<^verbatim>\<open>src/wire.cpp\<close> that the coordinator exchanges with a destination.

  The laws show that each decoder succeeds exactly on the encodings of well-formed messages, and
  that each message keeps the contract \<open>wire_message\<close>.
\<close>

section \<open>CommitRequest\<close>

record commit_request =
  cmq_movement_id :: movement_id
  cmq_movement_generation :: generation
  cmq_attempt :: attempt_id
  cmq_object :: state_object
  cmq_source :: endpoint_id

definition CommitRequest_validate :: "commit_request \<Rightarrow> status" where
  "CommitRequest_validate m =
    (if FixedId_is_zero (cmq_movement_id m)
     then Status INVALID_ID ''commit request requires a movement id''
     else return_if_error (require_generation (cmq_movement_generation m) ''movement generation'') (
     if FixedId_is_zero (cmq_attempt m)
     then Status INVALID_ID ''commit request requires a transfer attempt id''
     else StateObjectDescriptor_validate (cmq_object m)))"

definition CommitRequest_encode :: "commit_request \<Rightarrow> bytes" where
  "CommitRequest_encode m =
     enc_text ''SMF-MSG-COMMIT-REQUEST-v1'' @ FixedId_encode (cmq_movement_id m) @
     write_generation (cmq_movement_generation m) @ FixedId_encode (cmq_attempt m) @
     StateObjectDescriptor_encode (cmq_object m) @ enc_text (cmq_source m)"

definition CommitRequest_decode :: "commit_request decode" where
  "CommitRequest_decode =
     check_domain ''SMF-MSG-COMMIT-REQUEST-v1'' (
     bind_dec FixedId_decode (\<lambda>movement_id.
     bind_dec read_generation (\<lambda>generation.
     bind_dec FixedId_decode (\<lambda>attempt.
     bind_dec StateObjectDescriptor_decode (\<lambda>object.
     bind_dec (dec_text kMaxEndpointIdBytes) (\<lambda>source.
     bind_dec (if source \<noteq> [] then lift_dec (EndpointId_parse source) else return_dec []) (\<lambda>parsed.
       let m = \<lparr>cmq_movement_id = movement_id, cmq_movement_generation = generation,
         cmq_attempt = attempt, cmq_object = object, cmq_source = parsed\<rparr>
       in check_dec (CommitRequest_validate m) (return_dec m))))))))"

section \<open>CommitResult\<close>

record commit_result =
  cmr_movement_id :: movement_id
  cmr_movement_generation :: generation
  cmr_code :: reason_code
  cmr_marker_digest :: digest
  cmr_detail :: string

definition CommitResult_validate :: "commit_result \<Rightarrow> status" where
  "CommitResult_validate m =
    (if FixedId_is_zero (cmr_movement_id m)
     then Status INVALID_ID ''commit result requires a movement id''
     else return_if_error (require_generation (cmr_movement_generation m) ''movement generation'') (
     require_bound (cmr_detail m) kMaxDetailBytes ''detail''))"

definition CommitResult_encode :: "commit_result \<Rightarrow> bytes" where
  "CommitResult_encode m =
     enc_text ''SMF-MSG-COMMIT-RESULT-v1'' @ FixedId_encode (cmr_movement_id m) @
     write_generation (cmr_movement_generation m) @ write_reason (cmr_code m) @
     enc_digest (cmr_marker_digest m) @ write_detail (cmr_detail m)"

definition CommitResult_decode :: "commit_result decode" where
  "CommitResult_decode =
     check_domain ''SMF-MSG-COMMIT-RESULT-v1'' (
     bind_dec FixedId_decode (\<lambda>movement_id.
     bind_dec read_generation (\<lambda>generation.
     bind_dec read_reason (\<lambda>code.
     bind_dec dec_digest (\<lambda>marker.
     bind_dec read_detail (\<lambda>detail.
       let m = \<lparr>cmr_movement_id = movement_id, cmr_movement_generation = generation,
         cmr_code = code, cmr_marker_digest = marker, cmr_detail = detail\<rparr>
       in check_dec (CommitResult_validate m) (return_dec m)))))))"

section \<open>VerifyRequest\<close>

record verify_request =
  vq_movement_id :: movement_id
  vq_movement_generation :: generation
  vq_object_id :: state_object_id
  vq_object_generation :: generation
  vq_full_digest_requested :: bool
  vq_chunk_index :: u32
  vq_chunk_bytes :: u64

definition VerifyRequest_validate :: "verify_request \<Rightarrow> status" where
  "VerifyRequest_validate m =
    (if FixedId_is_zero (vq_movement_id m)
     then Status INVALID_ID ''verify request requires a movement id''
     else return_if_error (require_generation (vq_movement_generation m) ''movement generation'') (
     if FixedId_is_zero (vq_object_id m)
     then Status INVALID_ID ''verify request requires a state object id''
     else require_generation (vq_object_generation m) ''state object generation''))"

definition VerifyRequest_encode :: "verify_request \<Rightarrow> bytes" where
  "VerifyRequest_encode m =
     enc_text ''SMF-MSG-VERIFY-REQUEST-v1'' @ FixedId_encode (vq_movement_id m) @
     write_generation (vq_movement_generation m) @ FixedId_encode (vq_object_id m) @
     write_generation (vq_object_generation m) @ enc_boolean (vq_full_digest_requested m) @
     enc_u32 (vq_chunk_index m) @ enc_u64 (vq_chunk_bytes m)"

definition VerifyRequest_decode :: "verify_request decode" where
  "VerifyRequest_decode =
     check_domain ''SMF-MSG-VERIFY-REQUEST-v1'' (
     bind_dec FixedId_decode (\<lambda>movement_id.
     bind_dec read_generation (\<lambda>generation.
     bind_dec FixedId_decode (\<lambda>object_id.
     bind_dec read_generation (\<lambda>object_generation.
     bind_dec dec_boolean (\<lambda>full.
     bind_dec dec_u32 (\<lambda>chunk.
     bind_dec dec_u64 (\<lambda>chunk_bytes.
       let m = \<lparr>vq_movement_id = movement_id, vq_movement_generation = generation,
         vq_object_id = object_id, vq_object_generation = object_generation,
         vq_full_digest_requested = full, vq_chunk_index = chunk,
         vq_chunk_bytes = chunk_bytes\<rparr>
       in check_dec (VerifyRequest_validate m) (return_dec m)))))))))"

section \<open>VerifyResponse\<close>

record verify_response =
  vr_movement_id :: movement_id
  vr_object_id :: state_object_id
  vr_object_generation :: generation
  vr_code :: reason_code
  vr_stored_digest :: digest
  vr_stored_bytes :: u64
  vr_stored_chunks :: u32
  vr_chunk_index :: u32
  vr_chunk_digest :: digest
  vr_chunk_payload :: bytes

definition VerifyResponse_validate :: "verify_response \<Rightarrow> status" where
  "VerifyResponse_validate m =
    (if FixedId_is_zero (vr_movement_id m)
     then Status INVALID_ID ''verify response requires a movement id''
     else if FixedId_is_zero (vr_object_id m)
     then Status INVALID_ID ''verify response requires a state object id''
     else return_if_error (require_generation (vr_object_generation m) ''state object generation'') (
     if length (vr_chunk_payload m) > kMaxWireChunkBytes
     then Status INVALID_SIZE ''verify response payload exceeds the chunk bound''
     else Status_success))"

definition VerifyResponse_encode :: "verify_response \<Rightarrow> bytes" where
  "VerifyResponse_encode m =
     enc_text ''SMF-MSG-VERIFY-RESPONSE-v1'' @ FixedId_encode (vr_movement_id m) @
     FixedId_encode (vr_object_id m) @ write_generation (vr_object_generation m) @
     write_reason (vr_code m) @ enc_digest (vr_stored_digest m) @ enc_u64 (vr_stored_bytes m) @
     enc_u32 (vr_stored_chunks m) @ enc_u32 (vr_chunk_index m) @ enc_digest (vr_chunk_digest m) @
     enc_blob (vr_chunk_payload m)"

definition VerifyResponse_decode :: "verify_response decode" where
  "VerifyResponse_decode =
     check_domain ''SMF-MSG-VERIFY-RESPONSE-v1'' (
     bind_dec FixedId_decode (\<lambda>movement_id.
     bind_dec FixedId_decode (\<lambda>object_id.
     bind_dec read_generation (\<lambda>object_generation.
     bind_dec read_reason (\<lambda>code.
     bind_dec dec_digest (\<lambda>stored_digest.
     bind_dec dec_u64 (\<lambda>stored_bytes.
     bind_dec dec_u32 (\<lambda>stored_chunks.
     bind_dec dec_u32 (\<lambda>chunk_index.
     bind_dec dec_digest (\<lambda>chunk_digest.
     bind_dec (dec_blob kMaxWireChunkBytes) (\<lambda>payload.
       let m = \<lparr>vr_movement_id = movement_id, vr_object_id = object_id,
         vr_object_generation = object_generation, vr_code = code,
         vr_stored_digest = stored_digest, vr_stored_bytes = stored_bytes,
         vr_stored_chunks = stored_chunks, vr_chunk_index = chunk_index,
         vr_chunk_digest = chunk_digest, vr_chunk_payload = payload\<rparr>
       in check_dec (VerifyResponse_validate m) (return_dec m))))))))))))"

section \<open>AuthorityQuery\<close>

record authority_query =
  aq_movement_id :: movement_id
  aq_object_id :: state_object_id
  aq_object_generation :: generation

definition AuthorityQuery_validate :: "authority_query \<Rightarrow> status" where
  "AuthorityQuery_validate m =
    (if FixedId_is_zero (aq_movement_id m)
     then Status INVALID_ID ''authority query requires a movement id''
     else if FixedId_is_zero (aq_object_id m)
     then Status INVALID_ID ''authority query requires a state object id''
     else require_generation (aq_object_generation m) ''state object generation'')"

definition AuthorityQuery_encode :: "authority_query \<Rightarrow> bytes" where
  "AuthorityQuery_encode m =
     enc_text ''SMF-MSG-AUTHORITY-QUERY-v1'' @ FixedId_encode (aq_movement_id m) @
     FixedId_encode (aq_object_id m) @ write_generation (aq_object_generation m)"

definition AuthorityQuery_decode :: "authority_query decode" where
  "AuthorityQuery_decode =
     check_domain ''SMF-MSG-AUTHORITY-QUERY-v1'' (
     bind_dec FixedId_decode (\<lambda>movement_id.
     bind_dec FixedId_decode (\<lambda>object_id.
     bind_dec read_generation (\<lambda>object_generation.
       let m = \<lparr>aq_movement_id = movement_id, aq_object_id = object_id,
         aq_object_generation = object_generation\<rparr>
       in check_dec (AuthorityQuery_validate m) (return_dec m)))))"

section \<open>AuthorityReport\<close>

record authority_report =
  arp_movement_id :: movement_id
  arp_code :: reason_code
  arp_bytes_present :: bool
  arp_verified :: bool
  arp_marker_present :: bool
  arp_authoritative :: bool
  arp_marker_digest :: digest
  arp_stored_bytes :: u64
  arp_detail :: string

definition AuthorityReport_validate :: "authority_report \<Rightarrow> status" where
  "AuthorityReport_validate m =
    (if FixedId_is_zero (arp_movement_id m)
     then Status INVALID_ID ''authority report requires a movement id''
     else require_bound (arp_detail m) kMaxDetailBytes ''detail'')"

definition AuthorityReport_encode :: "authority_report \<Rightarrow> bytes" where
  "AuthorityReport_encode m =
     enc_text ''SMF-MSG-AUTHORITY-REPORT-v1'' @ FixedId_encode (arp_movement_id m) @
     write_reason (arp_code m) @ enc_boolean (arp_bytes_present m) @
     enc_boolean (arp_verified m) @ enc_boolean (arp_marker_present m) @
     enc_boolean (arp_authoritative m) @ enc_digest (arp_marker_digest m) @
     enc_u64 (arp_stored_bytes m) @ write_detail (arp_detail m)"

definition AuthorityReport_decode :: "authority_report decode" where
  "AuthorityReport_decode =
     check_domain ''SMF-MSG-AUTHORITY-REPORT-v1'' (
     bind_dec FixedId_decode (\<lambda>movement_id.
     bind_dec read_reason (\<lambda>code.
     bind_dec dec_boolean (\<lambda>bytes_present.
     bind_dec dec_boolean (\<lambda>verified.
     bind_dec dec_boolean (\<lambda>marker_present.
     bind_dec dec_boolean (\<lambda>authoritative.
     bind_dec dec_digest (\<lambda>marker.
     bind_dec dec_u64 (\<lambda>stored_bytes.
     bind_dec read_detail (\<lambda>detail.
       let m = \<lparr>arp_movement_id = movement_id, arp_code = code,
         arp_bytes_present = bytes_present, arp_verified = verified,
         arp_marker_present = marker_present, arp_authoritative = authoritative,
         arp_marker_digest = marker, arp_stored_bytes = stored_bytes, arp_detail = detail\<rparr>
       in check_dec (AuthorityReport_validate m) (return_dec m)))))))))))"

section \<open>CleanupRequest\<close>

record cleanup_request =
  clq_movement_id :: movement_id
  clq_quarantine :: bool

definition CleanupRequest_validate :: "cleanup_request \<Rightarrow> status" where
  "CleanupRequest_validate m =
    (if FixedId_is_zero (clq_movement_id m)
     then Status INVALID_ID ''cleanup request requires a movement id''
     else Status_success)"

definition CleanupRequest_encode :: "cleanup_request \<Rightarrow> bytes" where
  "CleanupRequest_encode m =
     enc_text ''SMF-MSG-CLEANUP-REQUEST-v1'' @ FixedId_encode (clq_movement_id m) @
     enc_boolean (clq_quarantine m)"

definition CleanupRequest_decode :: "cleanup_request decode" where
  "CleanupRequest_decode =
     check_domain ''SMF-MSG-CLEANUP-REQUEST-v1'' (
     bind_dec FixedId_decode (\<lambda>movement_id.
     bind_dec dec_boolean (\<lambda>quarantine.
       let m = \<lparr>clq_movement_id = movement_id, clq_quarantine = quarantine\<rparr>
       in check_dec (CleanupRequest_validate m) (return_dec m))))"

section \<open>CleanupResult\<close>

record cleanup_result =
  clr_movement_id :: movement_id
  clr_code :: reason_code
  clr_bytes_removed :: u64
  clr_entries_removed :: u32
  clr_detail :: string

definition CleanupResult_validate :: "cleanup_result \<Rightarrow> status" where
  "CleanupResult_validate m =
    (if FixedId_is_zero (clr_movement_id m)
     then Status INVALID_ID ''cleanup result requires a movement id''
     else require_bound (clr_detail m) kMaxDetailBytes ''detail'')"

definition CleanupResult_encode :: "cleanup_result \<Rightarrow> bytes" where
  "CleanupResult_encode m =
     enc_text ''SMF-MSG-CLEANUP-RESULT-v1'' @ FixedId_encode (clr_movement_id m) @
     write_reason (clr_code m) @ enc_u64 (clr_bytes_removed m) @ enc_u32 (clr_entries_removed m) @
     write_detail (clr_detail m)"

definition CleanupResult_decode :: "cleanup_result decode" where
  "CleanupResult_decode =
     check_domain ''SMF-MSG-CLEANUP-RESULT-v1'' (
     bind_dec FixedId_decode (\<lambda>movement_id.
     bind_dec read_reason (\<lambda>code.
     bind_dec dec_u64 (\<lambda>bytes_removed.
     bind_dec dec_u32 (\<lambda>entries_removed.
     bind_dec read_detail (\<lambda>detail.
       let m = \<lparr>clr_movement_id = movement_id, clr_code = code,
         clr_bytes_removed = bytes_removed, clr_entries_removed = entries_removed,
         clr_detail = detail\<rparr>
       in check_dec (CleanupResult_validate m) (return_dec m)))))))"

section \<open>Laws of the messages\<close>

definition commit_request_wf :: "commit_request \<Rightarrow> bool" where
  "commit_request_wf m \<longleftrightarrow> Status_ok (CommitRequest_validate m) \<and>
     endpoint_wf (cmq_source m)"

lemma CommitRequest_decode_iff [codec_iff]:
  "dec_ok c \<Longrightarrow> CommitRequest_decode c i = Inr (m, j) \<longleftrightarrow>
    commit_request_wf m \<and> spells c i j (CommitRequest_encode m)"
  by (cases m)
    (auto simp: CommitRequest_decode_def CommitRequest_encode_def commit_request_wf_def
      CommitRequest_validate_def optional_endpoint_iff endpoint_wf_text domain_ok_def
      dec_Inr_iffs codec_iff codec_simps)

interpretation commit_request: wire_message CommitRequest_encode CommitRequest_decode
  commit_request_wf CommitRequest_validate "''SMF-MSG-COMMIT-REQUEST-v1''" MT_COMMIT_REQUEST
  by (rule wire_messageI [OF CommitRequest_decode_iff _ CommitRequest_decode_def])
    (simp_all add: commit_request_wf_def wire_message_simps)

definition commit_result_wf :: "commit_result \<Rightarrow> bool" where
  "commit_result_wf m \<longleftrightarrow> Status_ok (CommitResult_validate m) \<and>
     reason_wf (cmr_code m)"

lemma CommitResult_decode_iff [codec_iff]:
  "dec_ok c \<Longrightarrow> CommitResult_decode c i = Inr (m, j) \<longleftrightarrow>
    commit_result_wf m \<and> spells c i j (CommitResult_encode m)"
  by (cases m)
    (auto simp: CommitResult_decode_def CommitResult_encode_def commit_result_wf_def
      CommitResult_validate_def domain_ok_def dec_Inr_iffs codec_iff codec_simps)

interpretation commit_result: wire_message CommitResult_encode CommitResult_decode
  commit_result_wf CommitResult_validate "''SMF-MSG-COMMIT-RESULT-v1''" MT_COMMIT_RESULT
  by (rule wire_messageI [OF CommitResult_decode_iff _ CommitResult_decode_def])
    (simp_all add: commit_result_wf_def wire_message_simps)

definition verify_request_wf :: "verify_request \<Rightarrow> bool" where
  "verify_request_wf m \<longleftrightarrow> Status_ok (VerifyRequest_validate m)"

lemma VerifyRequest_decode_iff [codec_iff]:
  "dec_ok c \<Longrightarrow> VerifyRequest_decode c i = Inr (m, j) \<longleftrightarrow>
    verify_request_wf m \<and> spells c i j (VerifyRequest_encode m)"
  by (cases m)
    (auto simp: VerifyRequest_decode_def VerifyRequest_encode_def verify_request_wf_def
      domain_ok_def dec_Inr_iffs codec_iff codec_simps)

interpretation verify_request: wire_message VerifyRequest_encode VerifyRequest_decode
  verify_request_wf VerifyRequest_validate "''SMF-MSG-VERIFY-REQUEST-v1''" MT_VERIFY_REQUEST
  by (rule wire_messageI [OF VerifyRequest_decode_iff _ VerifyRequest_decode_def])
    (simp_all add: verify_request_wf_def wire_message_simps)

definition verify_response_wf :: "verify_response \<Rightarrow> bool" where
  "verify_response_wf m \<longleftrightarrow> Status_ok (VerifyResponse_validate m) \<and>
     reason_wf (vr_code m)"

lemma VerifyResponse_decode_iff [codec_iff]:
  "dec_ok c \<Longrightarrow> VerifyResponse_decode c i = Inr (m, j) \<longleftrightarrow>
    verify_response_wf m \<and> spells c i j (VerifyResponse_encode m)"
  by (cases m)
    (auto simp: VerifyResponse_decode_def VerifyResponse_encode_def verify_response_wf_def
      VerifyResponse_validate_def domain_ok_def dec_Inr_iffs codec_iff codec_simps)

interpretation verify_response: wire_message VerifyResponse_encode VerifyResponse_decode
  verify_response_wf VerifyResponse_validate "''SMF-MSG-VERIFY-RESPONSE-v1''" MT_VERIFY_RESPONSE
  by (rule wire_messageI [OF VerifyResponse_decode_iff _ VerifyResponse_decode_def])
    (simp_all add: verify_response_wf_def wire_message_simps)

definition authority_query_wf :: "authority_query \<Rightarrow> bool" where
  "authority_query_wf m \<longleftrightarrow> Status_ok (AuthorityQuery_validate m)"

lemma AuthorityQuery_decode_iff [codec_iff]:
  "dec_ok c \<Longrightarrow> AuthorityQuery_decode c i = Inr (m, j) \<longleftrightarrow>
    authority_query_wf m \<and> spells c i j (AuthorityQuery_encode m)"
  by (cases m)
    (auto simp: AuthorityQuery_decode_def AuthorityQuery_encode_def authority_query_wf_def
      domain_ok_def dec_Inr_iffs codec_iff codec_simps)

interpretation authority_query: wire_message AuthorityQuery_encode AuthorityQuery_decode
  authority_query_wf AuthorityQuery_validate "''SMF-MSG-AUTHORITY-QUERY-v1''" MT_AUTHORITY_QUERY
  by (rule wire_messageI [OF AuthorityQuery_decode_iff _ AuthorityQuery_decode_def])
    (simp_all add: authority_query_wf_def wire_message_simps)

definition authority_report_wf :: "authority_report \<Rightarrow> bool" where
  "authority_report_wf m \<longleftrightarrow> Status_ok (AuthorityReport_validate m) \<and>
     reason_wf (arp_code m)"

lemma AuthorityReport_decode_iff [codec_iff]:
  "dec_ok c \<Longrightarrow> AuthorityReport_decode c i = Inr (m, j) \<longleftrightarrow>
    authority_report_wf m \<and> spells c i j (AuthorityReport_encode m)"
  by (cases m)
    (auto simp: AuthorityReport_decode_def AuthorityReport_encode_def authority_report_wf_def
      AuthorityReport_validate_def domain_ok_def dec_Inr_iffs codec_iff codec_simps)

interpretation authority_report: wire_message AuthorityReport_encode AuthorityReport_decode
  authority_report_wf AuthorityReport_validate "''SMF-MSG-AUTHORITY-REPORT-v1''" MT_AUTHORITY_REPORT
  by (rule wire_messageI [OF AuthorityReport_decode_iff _ AuthorityReport_decode_def])
    (simp_all add: authority_report_wf_def wire_message_simps)

definition cleanup_request_wf :: "cleanup_request \<Rightarrow> bool" where
  "cleanup_request_wf m \<longleftrightarrow> Status_ok (CleanupRequest_validate m)"

lemma CleanupRequest_decode_iff [codec_iff]:
  "dec_ok c \<Longrightarrow> CleanupRequest_decode c i = Inr (m, j) \<longleftrightarrow>
    cleanup_request_wf m \<and> spells c i j (CleanupRequest_encode m)"
  by (cases m)
    (auto simp: CleanupRequest_decode_def CleanupRequest_encode_def cleanup_request_wf_def
      domain_ok_def dec_Inr_iffs codec_iff codec_simps)

interpretation cleanup_request: wire_message CleanupRequest_encode CleanupRequest_decode
  cleanup_request_wf CleanupRequest_validate "''SMF-MSG-CLEANUP-REQUEST-v1''" MT_CLEANUP_REQUEST
  by (rule wire_messageI [OF CleanupRequest_decode_iff _ CleanupRequest_decode_def])
    (simp_all add: cleanup_request_wf_def wire_message_simps)

definition cleanup_result_wf :: "cleanup_result \<Rightarrow> bool" where
  "cleanup_result_wf m \<longleftrightarrow> Status_ok (CleanupResult_validate m) \<and>
     reason_wf (clr_code m)"

lemma CleanupResult_decode_iff [codec_iff]:
  "dec_ok c \<Longrightarrow> CleanupResult_decode c i = Inr (m, j) \<longleftrightarrow>
    cleanup_result_wf m \<and> spells c i j (CleanupResult_encode m)"
  by (cases m)
    (auto simp: CleanupResult_decode_def CleanupResult_encode_def cleanup_result_wf_def
      CleanupResult_validate_def domain_ok_def dec_Inr_iffs codec_iff codec_simps)

interpretation cleanup_result: wire_message CleanupResult_encode CleanupResult_decode
  cleanup_result_wf CleanupResult_validate "''SMF-MSG-CLEANUP-RESULT-v1''" MT_CLEANUP_RESULT
  by (rule wire_messageI [OF CleanupResult_decode_iff _ CleanupResult_decode_def])
    (simp_all add: cleanup_result_wf_def wire_message_simps)

end
