(* ===== verification/SMF_Wire_Data.thy ===== *)
theory SMF_Wire_Data
  imports SMF_Wire_Base
begin

text \<open>
  The data plane messages of \<^verbatim>\<open>include/smf/wire.hpp\<close> and \<^verbatim>\<open>src/wire.cpp\<close> that a source and a
  destination exchange while the chunks of an object move.

  The laws show that each decoder succeeds exactly on the encodings of well-formed messages, and
  that each message keeps the contract \<open>wire_message\<close>.
\<close>

section \<open>DataBegin\<close>

record data_begin =
  db_nonce :: digest
  db_movement_id :: movement_id
  db_movement_generation :: generation
  db_attempt :: attempt_id
  db_object :: state_object
  db_destination :: endpoint_id
  db_destination_incarnation :: incarnation
  db_resume_from_chunk :: u32
  db_resume_from_offset :: u64

definition DataBegin_validate :: "data_begin \<Rightarrow> status" where
  "DataBegin_validate m =
    (return_if_error (require_digest (db_nonce m) ''data begin nonce'') (
     if FixedId_is_zero (db_movement_id m)
     then Status INVALID_ID ''data begin requires a movement id''
     else return_if_error (require_generation (db_movement_generation m) ''movement generation'') (
     if FixedId_is_zero (db_attempt m)
     then Status INVALID_ID ''data begin requires a transfer attempt id''
     else return_if_error (StateObjectDescriptor_validate (db_object m)) (
     return_if_error (require_endpoint (db_destination m) ''data begin destination'') (
     require_incarnation (db_destination_incarnation m) (db_destination m) ''destination incarnation'')))))"

definition DataBegin_encode :: "data_begin \<Rightarrow> bytes" where
  "DataBegin_encode m =
     enc_text ''SMF-MSG-DATA-BEGIN-v1'' @ enc_digest (db_nonce m) @
     FixedId_encode (db_movement_id m) @ write_generation (db_movement_generation m) @
     FixedId_encode (db_attempt m) @ StateObjectDescriptor_encode (db_object m) @
     enc_text (db_destination m) @ write_incarnation (db_destination_incarnation m)"

definition DataBegin_decode :: "data_begin decode" where
  "DataBegin_decode =
     check_domain ''SMF-MSG-DATA-BEGIN-v1'' (
     bind_dec dec_digest (\<lambda>nonce.
     bind_dec FixedId_decode (\<lambda>movement_id.
     bind_dec read_generation (\<lambda>generation.
     bind_dec FixedId_decode (\<lambda>attempt.
     bind_dec StateObjectDescriptor_decode (\<lambda>object.
     bind_dec read_endpoint (\<lambda>destination.
     bind_dec read_incarnation (\<lambda>incarnation.
       let m = \<lparr>db_nonce = nonce, db_movement_id = movement_id,
         db_movement_generation = generation, db_attempt = attempt, db_object = object,
         db_destination = destination, db_destination_incarnation = incarnation,
         db_resume_from_chunk = 0, db_resume_from_offset = 0\<rparr>
       in check_dec (DataBegin_validate m) (return_dec m)))))))))"

section \<open>DataBeginAck\<close>

record data_begin_ack =
  dba_nonce :: digest
  dba_code :: reason_code
  dba_resume_from_chunk :: u32
  dba_resume_from_offset :: u64
  dba_detail :: string

definition DataBeginAck_validate :: "data_begin_ack \<Rightarrow> status" where
  "DataBeginAck_validate m =
    (return_if_error (require_digest (dba_nonce m) ''data begin ack nonce'') (
     require_bound (dba_detail m) kMaxDetailBytes ''detail''))"

definition DataBeginAck_encode :: "data_begin_ack \<Rightarrow> bytes" where
  "DataBeginAck_encode m =
     enc_text ''SMF-MSG-DATA-BEGIN-ACK-v1'' @ enc_digest (dba_nonce m) @
     write_reason (dba_code m) @ enc_u32 (dba_resume_from_chunk m) @
     enc_u64 (dba_resume_from_offset m) @ write_detail (dba_detail m)"

definition DataBeginAck_decode :: "data_begin_ack decode" where
  "DataBeginAck_decode =
     check_domain ''SMF-MSG-DATA-BEGIN-ACK-v1'' (
     bind_dec dec_digest (\<lambda>nonce.
     bind_dec read_reason (\<lambda>code.
     bind_dec dec_u32 (\<lambda>resume_chunk.
     bind_dec dec_u64 (\<lambda>resume_offset.
     bind_dec read_detail (\<lambda>detail.
       let m = \<lparr>dba_nonce = nonce, dba_code = code, dba_resume_from_chunk = resume_chunk,
         dba_resume_from_offset = resume_offset, dba_detail = detail\<rparr>
       in check_dec (DataBeginAck_validate m) (return_dec m)))))))"

section \<open>DataChunk\<close>

record data_chunk =
  dc_movement_id :: movement_id
  dc_attempt :: attempt_id
  dc_chunk_index :: u32
  dc_chunk_offset :: u64
  dc_chunk_length :: u64
  dc_chunk_digest :: digest
  dc_payload :: bytes

definition DataChunk_validate :: "data_chunk \<Rightarrow> status" where
  "DataChunk_validate m =
    (if FixedId_is_zero (dc_movement_id m)
     then Status INVALID_ID ''data chunk requires a movement id''
     else if FixedId_is_zero (dc_attempt m)
     then Status INVALID_ID ''data chunk requires a transfer attempt id''
     else if length (dc_payload m) > kMaxWireChunkBytes
     then Status INVALID_SIZE ''data chunk payload exceeds the chunk bound''
     else if dc_chunk_length m \<noteq> word_of_nat (length (dc_payload m))
     then Status INVALID_SIZE ''data chunk length does not match the payload it carries''
     else Status_success)"

definition DataChunk_encode :: "data_chunk \<Rightarrow> bytes" where
  "DataChunk_encode m =
     enc_text ''SMF-MSG-DATA-CHUNK-v1'' @ FixedId_encode (dc_movement_id m) @
     FixedId_encode (dc_attempt m) @ enc_u32 (dc_chunk_index m) @ enc_u64 (dc_chunk_offset m) @
     enc_u64 (dc_chunk_length m) @ enc_digest (dc_chunk_digest m) @ enc_blob (dc_payload m)"

definition DataChunk_decode :: "data_chunk decode" where
  "DataChunk_decode =
     check_domain ''SMF-MSG-DATA-CHUNK-v1'' (
     bind_dec FixedId_decode (\<lambda>movement_id.
     bind_dec FixedId_decode (\<lambda>attempt.
     bind_dec dec_u32 (\<lambda>chunk_index.
     bind_dec dec_u64 (\<lambda>chunk_offset.
     bind_dec dec_u64 (\<lambda>chunk_length.
     bind_dec dec_digest (\<lambda>chunk_digest.
     bind_dec (dec_blob kMaxWireChunkBytes) (\<lambda>payload.
       let m = \<lparr>dc_movement_id = movement_id, dc_attempt = attempt,
         dc_chunk_index = chunk_index, dc_chunk_offset = chunk_offset,
         dc_chunk_length = chunk_length, dc_chunk_digest = chunk_digest,
         dc_payload = payload\<rparr>
       in check_dec (DataChunk_validate m) (return_dec m)))))))))"

section \<open>DataChunkAck\<close>

record data_chunk_ack =
  dca_movement_id :: movement_id
  dca_attempt :: attempt_id
  dca_highest_contiguous_index :: u32
  dca_duplicates_ignored :: u32

definition DataChunkAck_validate :: "data_chunk_ack \<Rightarrow> status" where
  "DataChunkAck_validate m =
    (if FixedId_is_zero (dca_movement_id m)
     then Status INVALID_ID ''data chunk ack requires a movement id''
     else if FixedId_is_zero (dca_attempt m)
     then Status INVALID_ID ''data chunk ack requires a transfer attempt id''
     else Status_success)"

definition DataChunkAck_encode :: "data_chunk_ack \<Rightarrow> bytes" where
  "DataChunkAck_encode m =
     enc_text ''SMF-MSG-DATA-CHUNK-ACK-v1'' @ FixedId_encode (dca_movement_id m) @
     FixedId_encode (dca_attempt m) @ enc_u32 (dca_highest_contiguous_index m) @
     enc_u32 (dca_duplicates_ignored m)"

definition DataChunkAck_decode :: "data_chunk_ack decode" where
  "DataChunkAck_decode =
     check_domain ''SMF-MSG-DATA-CHUNK-ACK-v1'' (
     bind_dec FixedId_decode (\<lambda>movement_id.
     bind_dec FixedId_decode (\<lambda>attempt.
     bind_dec dec_u32 (\<lambda>highest.
     bind_dec dec_u32 (\<lambda>duplicates.
       let m = \<lparr>dca_movement_id = movement_id, dca_attempt = attempt,
         dca_highest_contiguous_index = highest, dca_duplicates_ignored = duplicates\<rparr>
       in check_dec (DataChunkAck_validate m) (return_dec m))))))"

section \<open>DataEnd\<close>

record data_end =
  de_movement_id :: movement_id
  de_attempt :: attempt_id
  de_total_chunks :: u32
  de_total_bytes :: u64
  de_content_digest :: digest

definition DataEnd_validate :: "data_end \<Rightarrow> status" where
  "DataEnd_validate m =
    (if FixedId_is_zero (de_movement_id m)
     then Status INVALID_ID ''data end requires a movement id''
     else if FixedId_is_zero (de_attempt m)
     then Status INVALID_ID ''data end requires a transfer attempt id''
     else if de_total_bytes m > 0 \<and> Digest_is_zero (de_content_digest m)
     then Status INVALID_DIGEST ''data end requires the digest of what was sent''
     else Status_success)"

definition DataEnd_encode :: "data_end \<Rightarrow> bytes" where
  "DataEnd_encode m =
     enc_text ''SMF-MSG-DATA-END-v1'' @ FixedId_encode (de_movement_id m) @
     FixedId_encode (de_attempt m) @ enc_u32 (de_total_chunks m) @ enc_u64 (de_total_bytes m) @
     enc_digest (de_content_digest m)"

definition DataEnd_decode :: "data_end decode" where
  "DataEnd_decode =
     check_domain ''SMF-MSG-DATA-END-v1'' (
     bind_dec FixedId_decode (\<lambda>movement_id.
     bind_dec FixedId_decode (\<lambda>attempt.
     bind_dec dec_u32 (\<lambda>total_chunks.
     bind_dec dec_u64 (\<lambda>total_bytes.
     bind_dec dec_digest (\<lambda>content.
       let m = \<lparr>de_movement_id = movement_id, de_attempt = attempt,
         de_total_chunks = total_chunks, de_total_bytes = total_bytes,
         de_content_digest = content\<rparr>
       in check_dec (DataEnd_validate m) (return_dec m)))))))"

section \<open>DataResult\<close>

record data_result =
  dr_movement_id :: movement_id
  dr_attempt :: attempt_id
  dr_code :: reason_code
  dr_stored_digest :: digest
  dr_stored_bytes :: u64
  dr_stored_chunks :: u32
  dr_marker_digest :: digest
  dr_detail :: string

definition DataResult_validate :: "data_result \<Rightarrow> status" where
  "DataResult_validate m =
    (if FixedId_is_zero (dr_movement_id m)
     then Status INVALID_ID ''data result requires a movement id''
     else if FixedId_is_zero (dr_attempt m)
     then Status INVALID_ID ''data result requires a transfer attempt id''
     else require_bound (dr_detail m) kMaxDetailBytes ''detail'')"

definition DataResult_encode :: "data_result \<Rightarrow> bytes" where
  "DataResult_encode m =
     enc_text ''SMF-MSG-DATA-RESULT-v1'' @ FixedId_encode (dr_movement_id m) @
     FixedId_encode (dr_attempt m) @ write_reason (dr_code m) @ enc_digest (dr_stored_digest m) @
     enc_u64 (dr_stored_bytes m) @ enc_u32 (dr_stored_chunks m) @
     enc_digest (dr_marker_digest m) @ write_detail (dr_detail m)"

definition DataResult_decode :: "data_result decode" where
  "DataResult_decode =
     check_domain ''SMF-MSG-DATA-RESULT-v1'' (
     bind_dec FixedId_decode (\<lambda>movement_id.
     bind_dec FixedId_decode (\<lambda>attempt.
     bind_dec read_reason (\<lambda>code.
     bind_dec dec_digest (\<lambda>stored_digest.
     bind_dec dec_u64 (\<lambda>stored_bytes.
     bind_dec dec_u32 (\<lambda>stored_chunks.
     bind_dec dec_digest (\<lambda>marker.
     bind_dec read_detail (\<lambda>detail.
       let m = \<lparr>dr_movement_id = movement_id, dr_attempt = attempt, dr_code = code,
         dr_stored_digest = stored_digest, dr_stored_bytes = stored_bytes,
         dr_stored_chunks = stored_chunks, dr_marker_digest = marker, dr_detail = detail\<rparr>
       in check_dec (DataResult_validate m) (return_dec m))))))))))"

section \<open>DataAbort\<close>

record data_abort =
  dab_movement_id :: movement_id
  dab_attempt :: attempt_id
  dab_code :: reason_code
  dab_detail :: string

definition DataAbort_validate :: "data_abort \<Rightarrow> status" where
  "DataAbort_validate m =
    (if FixedId_is_zero (dab_movement_id m)
     then Status INVALID_ID ''data abort requires a movement id''
     else if FixedId_is_zero (dab_attempt m)
     then Status INVALID_ID ''data abort requires a transfer attempt id''
     else require_bound (dab_detail m) kMaxDetailBytes ''detail'')"

definition DataAbort_encode :: "data_abort \<Rightarrow> bytes" where
  "DataAbort_encode m =
     enc_text ''SMF-MSG-DATA-ABORT-v1'' @ FixedId_encode (dab_movement_id m) @
     FixedId_encode (dab_attempt m) @ write_reason (dab_code m) @ write_detail (dab_detail m)"

definition DataAbort_decode :: "data_abort decode" where
  "DataAbort_decode =
     check_domain ''SMF-MSG-DATA-ABORT-v1'' (
     bind_dec FixedId_decode (\<lambda>movement_id.
     bind_dec FixedId_decode (\<lambda>attempt.
     bind_dec read_reason (\<lambda>code.
     bind_dec read_detail (\<lambda>detail.
       let m = \<lparr>dab_movement_id = movement_id, dab_attempt = attempt, dab_code = code,
         dab_detail = detail\<rparr>
       in check_dec (DataAbort_validate m) (return_dec m))))))"

section \<open>Laws of the messages\<close>

definition data_begin_wf :: "data_begin \<Rightarrow> bool" where
  "data_begin_wf m \<longleftrightarrow> Status_ok (DataBegin_validate m) \<and>
     db_resume_from_chunk m = 0 \<and>
     db_resume_from_offset m = 0"

lemma DataBegin_decode_iff [codec_iff]:
  "dec_ok c \<Longrightarrow> DataBegin_decode c i = Inr (m, j) \<longleftrightarrow>
    data_begin_wf m \<and> spells c i j (DataBegin_encode m)"
  by (cases m)
    (auto simp: DataBegin_decode_def DataBegin_encode_def data_begin_wf_def
      DataBegin_validate_def domain_ok_def dec_Inr_iffs codec_iff codec_simps)

interpretation data_begin: wire_message DataBegin_encode DataBegin_decode
  data_begin_wf DataBegin_validate "''SMF-MSG-DATA-BEGIN-v1''" MT_DATA_BEGIN
  by (rule wire_messageI [OF DataBegin_decode_iff _ DataBegin_decode_def])
    (simp_all add: data_begin_wf_def wire_message_simps)

definition data_begin_ack_wf :: "data_begin_ack \<Rightarrow> bool" where
  "data_begin_ack_wf m \<longleftrightarrow> Status_ok (DataBeginAck_validate m) \<and>
     reason_wf (dba_code m)"

lemma DataBeginAck_decode_iff [codec_iff]:
  "dec_ok c \<Longrightarrow> DataBeginAck_decode c i = Inr (m, j) \<longleftrightarrow>
    data_begin_ack_wf m \<and> spells c i j (DataBeginAck_encode m)"
  by (cases m)
    (auto simp: DataBeginAck_decode_def DataBeginAck_encode_def data_begin_ack_wf_def
      DataBeginAck_validate_def domain_ok_def dec_Inr_iffs codec_iff codec_simps)

interpretation data_begin_ack: wire_message DataBeginAck_encode DataBeginAck_decode
  data_begin_ack_wf DataBeginAck_validate "''SMF-MSG-DATA-BEGIN-ACK-v1''" MT_DATA_BEGIN_ACK
  by (rule wire_messageI [OF DataBeginAck_decode_iff _ DataBeginAck_decode_def])
    (simp_all add: data_begin_ack_wf_def wire_message_simps)

definition data_chunk_wf :: "data_chunk \<Rightarrow> bool" where
  "data_chunk_wf m \<longleftrightarrow> Status_ok (DataChunk_validate m)"

lemma DataChunk_decode_iff [codec_iff]:
  "dec_ok c \<Longrightarrow> DataChunk_decode c i = Inr (m, j) \<longleftrightarrow>
    data_chunk_wf m \<and> spells c i j (DataChunk_encode m)"
  by (cases m)
    (auto simp: DataChunk_decode_def DataChunk_encode_def data_chunk_wf_def
      DataChunk_validate_def domain_ok_def dec_Inr_iffs codec_iff codec_simps)

interpretation data_chunk: wire_message DataChunk_encode DataChunk_decode
  data_chunk_wf DataChunk_validate "''SMF-MSG-DATA-CHUNK-v1''" MT_DATA_CHUNK
  by (rule wire_messageI [OF DataChunk_decode_iff _ DataChunk_decode_def])
    (simp_all add: data_chunk_wf_def wire_message_simps)

definition data_chunk_ack_wf :: "data_chunk_ack \<Rightarrow> bool" where
  "data_chunk_ack_wf m \<longleftrightarrow> Status_ok (DataChunkAck_validate m)"

lemma DataChunkAck_decode_iff [codec_iff]:
  "dec_ok c \<Longrightarrow> DataChunkAck_decode c i = Inr (m, j) \<longleftrightarrow>
    data_chunk_ack_wf m \<and> spells c i j (DataChunkAck_encode m)"
  by (cases m)
    (auto simp: DataChunkAck_decode_def DataChunkAck_encode_def data_chunk_ack_wf_def
      domain_ok_def dec_Inr_iffs codec_iff codec_simps)

interpretation data_chunk_ack: wire_message DataChunkAck_encode DataChunkAck_decode
  data_chunk_ack_wf DataChunkAck_validate "''SMF-MSG-DATA-CHUNK-ACK-v1''" MT_DATA_CHUNK_ACK
  by (rule wire_messageI [OF DataChunkAck_decode_iff _ DataChunkAck_decode_def])
    (simp_all add: data_chunk_ack_wf_def wire_message_simps)

definition data_end_wf :: "data_end \<Rightarrow> bool" where
  "data_end_wf m \<longleftrightarrow> Status_ok (DataEnd_validate m)"

lemma DataEnd_decode_iff [codec_iff]:
  "dec_ok c \<Longrightarrow> DataEnd_decode c i = Inr (m, j) \<longleftrightarrow>
    data_end_wf m \<and> spells c i j (DataEnd_encode m)"
  by (cases m)
    (auto simp: DataEnd_decode_def DataEnd_encode_def data_end_wf_def domain_ok_def dec_Inr_iffs
      codec_iff codec_simps)

interpretation data_end: wire_message DataEnd_encode DataEnd_decode
  data_end_wf DataEnd_validate "''SMF-MSG-DATA-END-v1''" MT_DATA_END
  by (rule wire_messageI [OF DataEnd_decode_iff _ DataEnd_decode_def])
    (simp_all add: data_end_wf_def wire_message_simps)

definition data_result_wf :: "data_result \<Rightarrow> bool" where
  "data_result_wf m \<longleftrightarrow> Status_ok (DataResult_validate m) \<and>
     reason_wf (dr_code m)"

lemma DataResult_decode_iff [codec_iff]:
  "dec_ok c \<Longrightarrow> DataResult_decode c i = Inr (m, j) \<longleftrightarrow>
    data_result_wf m \<and> spells c i j (DataResult_encode m)"
  by (cases m)
    (auto simp: DataResult_decode_def DataResult_encode_def data_result_wf_def
      DataResult_validate_def domain_ok_def dec_Inr_iffs codec_iff codec_simps)

interpretation data_result: wire_message DataResult_encode DataResult_decode
  data_result_wf DataResult_validate "''SMF-MSG-DATA-RESULT-v1''" MT_DATA_RESULT
  by (rule wire_messageI [OF DataResult_decode_iff _ DataResult_decode_def])
    (simp_all add: data_result_wf_def wire_message_simps)

definition data_abort_wf :: "data_abort \<Rightarrow> bool" where
  "data_abort_wf m \<longleftrightarrow> Status_ok (DataAbort_validate m) \<and>
     reason_wf (dab_code m)"

lemma DataAbort_decode_iff [codec_iff]:
  "dec_ok c \<Longrightarrow> DataAbort_decode c i = Inr (m, j) \<longleftrightarrow>
    data_abort_wf m \<and> spells c i j (DataAbort_encode m)"
  by (cases m)
    (auto simp: DataAbort_decode_def DataAbort_encode_def data_abort_wf_def
      DataAbort_validate_def domain_ok_def dec_Inr_iffs codec_iff codec_simps)

interpretation data_abort: wire_message DataAbort_encode DataAbort_decode
  data_abort_wf DataAbort_validate "''SMF-MSG-DATA-ABORT-v1''" MT_DATA_ABORT
  by (rule wire_messageI [OF DataAbort_decode_iff _ DataAbort_decode_def])
    (simp_all add: data_abort_wf_def wire_message_simps)

end
