(* ===== verification/SMF_Wire_Admin.thy ===== *)
theory SMF_Wire_Admin
  imports SMF_Wire_Base
begin

text \<open>
  The administrative messages of \<^verbatim>\<open>include/smf/wire.hpp\<close> and \<^verbatim>\<open>src/wire.cpp\<close>: submitting,
  querying, listing, cancelling and reconciling movements, the read-only reports, and shutdown.
  A message whose payload is only its domain string is the unit value.

  The laws show that each decoder succeeds exactly on the encodings of well-formed messages, and
  that each message keeps the contract \<open>wire_message\<close>.
\<close>

section \<open>SubmitMovement\<close>

record submit_movement =
  sm_object_id :: state_object_id
  sm_object_generation :: generation
  sm_source :: endpoint_id
  sm_destination :: endpoint_id

definition SubmitMovement_validate :: "submit_movement \<Rightarrow> status" where
  "SubmitMovement_validate m =
    (if FixedId_is_zero (sm_object_id m)
     then Status INVALID_ID ''submit movement requires a state object id''
     else return_if_error (require_generation (sm_object_generation m) ''state object generation'') (
     return_if_error (require_endpoint (sm_source m) ''submit movement source'') (
     return_if_error (require_endpoint (sm_destination m) ''submit movement destination'') (
     if sm_source m = sm_destination m
     then Status SELF_MOVEMENT ''source and destination endpoints are the same''
     else Status_success))))"

definition SubmitMovement_encode :: "submit_movement \<Rightarrow> bytes" where
  "SubmitMovement_encode m =
     enc_text ''SMF-MSG-SUBMIT-MOVEMENT-v1'' @ FixedId_encode (sm_object_id m) @
     write_generation (sm_object_generation m) @ enc_text (sm_source m) @
     enc_text (sm_destination m)"

definition SubmitMovement_decode :: "submit_movement decode" where
  "SubmitMovement_decode =
     check_domain ''SMF-MSG-SUBMIT-MOVEMENT-v1'' (
     bind_dec FixedId_decode (\<lambda>object_id.
     bind_dec read_generation (\<lambda>object_generation.
     bind_dec read_endpoint (\<lambda>source.
     bind_dec read_endpoint (\<lambda>destination.
       let m = \<lparr>sm_object_id = object_id, sm_object_generation = object_generation,
         sm_source = source, sm_destination = destination\<rparr>
       in check_dec (SubmitMovement_validate m) (return_dec m))))))"

section \<open>MovementAccepted\<close>

record movement_accepted =
  ma_movement_id :: movement_id
  ma_state :: movement_state
  ma_code :: reason_code
  ma_detail :: string

definition MovementAccepted_validate :: "movement_accepted \<Rightarrow> status" where
  "MovementAccepted_validate m =
    (if FixedId_is_zero (ma_movement_id m)
     then Status INVALID_ID ''movement accepted requires a movement id''
     else require_bound (ma_detail m) kMaxDetailBytes ''detail'')"

definition MovementAccepted_encode :: "movement_accepted \<Rightarrow> bytes" where
  "MovementAccepted_encode m =
     enc_text ''SMF-MSG-MOVEMENT-ACCEPTED-v1'' @ FixedId_encode (ma_movement_id m) @
     enc_u8 (MovementState_value (ma_state m)) @ write_reason (ma_code m) @
     write_detail (ma_detail m)"

definition MovementAccepted_decode :: "movement_accepted decode" where
  "MovementAccepted_decode =
     check_domain ''SMF-MSG-MOVEMENT-ACCEPTED-v1'' (
     bind_dec FixedId_decode (\<lambda>movement_id.
     bind_dec read_movement_state (\<lambda>state.
     bind_dec read_reason (\<lambda>code.
     bind_dec read_detail (\<lambda>detail.
       let m = \<lparr>ma_movement_id = movement_id, ma_state = state, ma_code = code,
         ma_detail = detail\<rparr>
       in check_dec (MovementAccepted_validate m) (return_dec m))))))"

section \<open>QueryMovement\<close>

record query_movement =
  qm_movement_id :: movement_id

definition QueryMovement_validate :: "query_movement \<Rightarrow> status" where
  "QueryMovement_validate m =
    (if FixedId_is_zero (qm_movement_id m)
     then Status INVALID_ID ''query movement requires a movement id''
     else Status_success)"

definition QueryMovement_encode :: "query_movement \<Rightarrow> bytes" where
  "QueryMovement_encode m =
     enc_text ''SMF-MSG-QUERY-MOVEMENT-v1'' @ FixedId_encode (qm_movement_id m)"

definition QueryMovement_decode :: "query_movement decode" where
  "QueryMovement_decode =
     check_domain ''SMF-MSG-QUERY-MOVEMENT-v1'' (
     bind_dec FixedId_decode (\<lambda>movement_id.
       let m = \<lparr>qm_movement_id = movement_id\<rparr>
       in check_dec (QueryMovement_validate m) (return_dec m)))"

section \<open>MovementStatus\<close>

record movement_status =
  mst_record :: movement_record

definition MovementStatus_validate :: "movement_status \<Rightarrow> status" where
  "MovementStatus_validate m =
    (MovementRecord_validate (mst_record m))"

definition MovementStatus_encode :: "movement_status \<Rightarrow> bytes" where
  "MovementStatus_encode m =
     enc_text ''SMF-MSG-MOVEMENT-STATUS-v1'' @ MovementRecord_encode (mst_record m)"

definition MovementStatus_decode :: "movement_status decode" where
  "MovementStatus_decode =
     check_domain ''SMF-MSG-MOVEMENT-STATUS-v1'' (
     bind_dec MovementRecord_decode (\<lambda>record.
       let m = \<lparr>mst_record = record\<rparr>
       in check_dec (MovementStatus_validate m) (return_dec m)))"

section \<open>ListMovements\<close>

record list_movements =
  lm_limit :: u32
  lm_offset :: u32

definition ListMovements_validate :: "list_movements \<Rightarrow> status" where
  "ListMovements_validate m =
    (if lm_limit m = 0 \<or> lm_limit m > kMaxWireListLimit
     then Status PROTOCOL_BOUNDS_EXCEEDED ''list movements requires a page size inside the wire bound''
     else Status_success)"

definition ListMovements_encode :: "list_movements \<Rightarrow> bytes" where
  "ListMovements_encode m =
     enc_text ''SMF-MSG-LIST-MOVEMENTS-v1'' @ enc_u32 (lm_limit m) @ enc_u32 (lm_offset m)"

definition ListMovements_decode :: "list_movements decode" where
  "ListMovements_decode =
     check_domain ''SMF-MSG-LIST-MOVEMENTS-v1'' (
     bind_dec dec_u32 (\<lambda>limit.
     bind_dec dec_u32 (\<lambda>offset.
       let m = \<lparr>lm_limit = limit, lm_offset = offset\<rparr>
       in check_dec (ListMovements_validate m) (return_dec m))))"

section \<open>MovementSummary\<close>

record movement_summary =
  msm_movement_id :: movement_id
  msm_state :: movement_state
  msm_object_id :: state_object_id
  msm_object_generation :: generation
  msm_source :: endpoint_id
  msm_destination :: endpoint_id
  msm_last_reason :: reason_code
  msm_attempt_count :: u32
  msm_bytes_transferred :: u64

definition MovementSummary_validate :: "movement_summary \<Rightarrow> status" where
  "MovementSummary_validate m =
    (if FixedId_is_zero (msm_movement_id m)
     then Status INVALID_ID ''movement summary requires a movement id''
     else if FixedId_is_zero (msm_object_id m)
     then Status INVALID_ID ''movement summary requires a state object id''
     else return_if_error (require_generation (msm_object_generation m) ''state object generation'') (
     return_if_error (require_endpoint (msm_source m) ''movement summary source'') (
     return_if_error (require_endpoint (msm_destination m) ''movement summary destination'') (
     if msm_source m = msm_destination m
     then Status SELF_MOVEMENT ''source and destination endpoints are the same''
     else Status_success))))"

definition MovementSummary_encode :: "movement_summary \<Rightarrow> bytes" where
  "MovementSummary_encode m =
     enc_text ''SMF-MSG-MOVEMENT-SUMMARY-v1'' @ FixedId_encode (msm_movement_id m) @
     enc_u8 (MovementState_value (msm_state m)) @ FixedId_encode (msm_object_id m) @
     write_generation (msm_object_generation m) @ enc_text (msm_source m) @
     enc_text (msm_destination m) @ write_reason (msm_last_reason m) @
     enc_u32 (msm_attempt_count m) @ enc_u64 (msm_bytes_transferred m)"

definition MovementSummary_decode :: "movement_summary decode" where
  "MovementSummary_decode =
     check_domain ''SMF-MSG-MOVEMENT-SUMMARY-v1'' (
     bind_dec FixedId_decode (\<lambda>movement_id.
     bind_dec read_movement_state (\<lambda>state.
     bind_dec FixedId_decode (\<lambda>object_id.
     bind_dec read_generation (\<lambda>object_generation.
     bind_dec read_endpoint (\<lambda>source.
     bind_dec read_endpoint (\<lambda>destination.
     bind_dec read_reason (\<lambda>reason.
     bind_dec dec_u32 (\<lambda>attempt_count.
     bind_dec dec_u64 (\<lambda>bytes.
       let m = \<lparr>msm_movement_id = movement_id, msm_state = state,
         msm_object_id = object_id, msm_object_generation = object_generation,
         msm_source = source, msm_destination = destination, msm_last_reason = reason,
         msm_attempt_count = attempt_count, msm_bytes_transferred = bytes\<rparr>
       in check_dec (MovementSummary_validate m) (return_dec m)))))))))))"

section \<open>MovementList\<close>

record movement_list =
  ml_movements :: "movement_summary list"

definition MovementList_validate :: "movement_list \<Rightarrow> status" where
  "MovementList_validate m =
    (if length (ml_movements m) > kMaxMovementSummaries
     then Status PROTOCOL_BOUNDS_EXCEEDED ''movement list exceeds the wire bound''
     else return_if_error (validate_all MovementSummary_validate (ml_movements m)) (
     Status_success))"

definition MovementList_encode :: "movement_list \<Rightarrow> bytes" where
  "MovementList_encode m =
     enc_text ''SMF-MSG-MOVEMENT-LIST-v1'' @ enc_u32 (word_of_nat (length (ml_movements m))) @
     concat (map MovementSummary_encode (ml_movements m))"

definition MovementList_decode :: "movement_list decode" where
  "MovementList_decode =
     check_domain ''SMF-MSG-MOVEMENT-LIST-v1'' (
     bind_dec (dec_count kMaxMovementSummaries) (\<lambda>count.
     bind_dec (repeat_dec count MovementSummary_decode) (\<lambda>movements.
       let m = \<lparr>ml_movements = movements\<rparr>
       in check_dec (MovementList_validate m) (return_dec m))))"

section \<open>CancelMovement\<close>

record cancel_movement =
  cam_movement_id :: movement_id

definition CancelMovement_validate :: "cancel_movement \<Rightarrow> status" where
  "CancelMovement_validate m =
    (if FixedId_is_zero (cam_movement_id m)
     then Status INVALID_ID ''cancel movement requires a movement id''
     else Status_success)"

definition CancelMovement_encode :: "cancel_movement \<Rightarrow> bytes" where
  "CancelMovement_encode m =
     enc_text ''SMF-MSG-CANCEL-MOVEMENT-v1'' @ FixedId_encode (cam_movement_id m)"

definition CancelMovement_decode :: "cancel_movement decode" where
  "CancelMovement_decode =
     check_domain ''SMF-MSG-CANCEL-MOVEMENT-v1'' (
     bind_dec FixedId_decode (\<lambda>movement_id.
       let m = \<lparr>cam_movement_id = movement_id\<rparr>
       in check_dec (CancelMovement_validate m) (return_dec m)))"

section \<open>ReconcileMovement\<close>

record reconcile_movement =
  rcm_movement_id :: movement_id

definition ReconcileMovement_validate :: "reconcile_movement \<Rightarrow> status" where
  "ReconcileMovement_validate m =
    (if FixedId_is_zero (rcm_movement_id m)
     then Status INVALID_ID ''reconcile movement requires a movement id''
     else Status_success)"

definition ReconcileMovement_encode :: "reconcile_movement \<Rightarrow> bytes" where
  "ReconcileMovement_encode m =
     enc_text ''SMF-MSG-RECONCILE-MOVEMENT-v1'' @ FixedId_encode (rcm_movement_id m)"

definition ReconcileMovement_decode :: "reconcile_movement decode" where
  "ReconcileMovement_decode =
     check_domain ''SMF-MSG-RECONCILE-MOVEMENT-v1'' (
     bind_dec FixedId_decode (\<lambda>movement_id.
       let m = \<lparr>rcm_movement_id = movement_id\<rparr>
       in check_dec (ReconcileMovement_validate m) (return_dec m)))"

section \<open>ProvenanceRequest\<close>

record provenance_request =
  pq_movement_id :: movement_id

definition ProvenanceRequest_validate :: "provenance_request \<Rightarrow> status" where
  "ProvenanceRequest_validate m =
    (if FixedId_is_zero (pq_movement_id m)
     then Status INVALID_ID ''provenance request requires a movement id''
     else Status_success)"

definition ProvenanceRequest_encode :: "provenance_request \<Rightarrow> bytes" where
  "ProvenanceRequest_encode m =
     enc_text ''SMF-MSG-PROVENANCE-REQUEST-v1'' @ FixedId_encode (pq_movement_id m)"

definition ProvenanceRequest_decode :: "provenance_request decode" where
  "ProvenanceRequest_decode =
     check_domain ''SMF-MSG-PROVENANCE-REQUEST-v1'' (
     bind_dec FixedId_decode (\<lambda>movement_id.
       let m = \<lparr>pq_movement_id = movement_id\<rparr>
       in check_dec (ProvenanceRequest_validate m) (return_dec m)))"

section \<open>ProvenanceReport\<close>

record provenance_report =
  prp_movement_id :: movement_id
  prp_code :: reason_code
  prp_events :: "provenance_event list"

fun validate_events :: "nat \<Rightarrow> provenance_event list \<Rightarrow> status" where
  "validate_events position [] = Status_success"
| "validate_events position (e # es) =
     return_if_error (ProvenanceEvent_validate e)
       (if pe_sequence e \<noteq> word_of_nat position
        then Status STORE_RECORD_INVALID ''provenance report is not contiguous or is out of order''
        else validate_events (position + 1) es)"

definition ProvenanceReport_validate :: "provenance_report \<Rightarrow> status" where
  "ProvenanceReport_validate m =
    (if FixedId_is_zero (prp_movement_id m)
     then Status INVALID_ID ''provenance report requires a movement id''
     else if length (prp_events m) > kMaxProvenanceEvents
     then Status HISTORY_LIMIT_REACHED ''provenance report exceeds the wire bound''
     else return_if_error (validate_events 1 (prp_events m)) (
     Status_success))"

definition ProvenanceReport_encode :: "provenance_report \<Rightarrow> bytes" where
  "ProvenanceReport_encode m =
     enc_text ''SMF-MSG-PROVENANCE-REPORT-v1'' @ FixedId_encode (prp_movement_id m) @
     write_reason (prp_code m) @ enc_u32 (word_of_nat (length (prp_events m))) @
     concat (map ProvenanceEvent_encode (prp_events m))"

definition ProvenanceReport_decode :: "provenance_report decode" where
  "ProvenanceReport_decode =
     check_domain ''SMF-MSG-PROVENANCE-REPORT-v1'' (
     bind_dec FixedId_decode (\<lambda>movement_id.
     bind_dec read_reason (\<lambda>code.
     bind_dec (dec_count kMaxProvenanceEvents) (\<lambda>count.
     bind_dec (repeat_dec count ProvenanceEvent_decode) (\<lambda>events.
       let m = \<lparr>prp_movement_id = movement_id, prp_code = code, prp_events = events\<rparr>
       in check_dec (ProvenanceReport_validate m) (return_dec m))))))"

section \<open>TopologyRequest\<close>

type_synonym topology_request = unit

definition TopologyRequest_validate :: "topology_request \<Rightarrow> status" where
  "TopologyRequest_validate m =
    (Status_success)"

definition TopologyRequest_encode :: "topology_request \<Rightarrow> bytes" where
  "TopologyRequest_encode m =
     enc_text ''SMF-MSG-TOPOLOGY-REQUEST-v1''"

definition TopologyRequest_decode :: "topology_request decode" where
  "TopologyRequest_decode =
     check_domain ''SMF-MSG-TOPOLOGY-REQUEST-v1'' (
       check_dec (TopologyRequest_validate ()) (return_dec ()))"

section \<open>TopologyReport\<close>

record topology_report =
  trp_topology_generation :: generation
  trp_coordinator :: incarnation
  trp_endpoints :: "registration list"

definition TopologyReport_validate :: "topology_report \<Rightarrow> status" where
  "TopologyReport_validate m =
    (return_if_error (require_generation (trp_topology_generation m) ''topology generation'') (
     if \<not> Incarnation_is_set (trp_coordinator m)
     then Status STALE_INCARNATION ''topology report requires a coordinator incarnation''
     else if length (trp_endpoints m) > unat kMaxEndpoints
     then Status PROTOCOL_BOUNDS_EXCEEDED ''topology report exceeds the wire bound''
     else return_if_error (validate_all EndpointRegistration_validate (trp_endpoints m)) (
     Status_success)))"

definition TopologyReport_encode :: "topology_report \<Rightarrow> bytes" where
  "TopologyReport_encode m =
     enc_text ''SMF-MSG-TOPOLOGY-REPORT-v1'' @ write_generation (trp_topology_generation m) @
     write_incarnation (trp_coordinator m) @ enc_u32 (word_of_nat (length (trp_endpoints m))) @
     concat (map write_registration (trp_endpoints m))"

definition TopologyReport_decode :: "topology_report decode" where
  "TopologyReport_decode =
     check_domain ''SMF-MSG-TOPOLOGY-REPORT-v1'' (
     bind_dec read_generation (\<lambda>generation.
     bind_dec read_incarnation (\<lambda>coordinator.
     bind_dec (dec_count (unat kMaxEndpoints)) (\<lambda>count.
     bind_dec (repeat_dec count read_registration) (\<lambda>endpoints.
       let m = \<lparr>trp_topology_generation = generation, trp_coordinator = coordinator,
         trp_endpoints = endpoints\<rparr>
       in check_dec (TopologyReport_validate m) (return_dec m))))))"

section \<open>PolicyRequest\<close>

type_synonym policy_request = unit

definition PolicyRequest_validate :: "policy_request \<Rightarrow> status" where
  "PolicyRequest_validate m =
    (Status_success)"

definition PolicyRequest_encode :: "policy_request \<Rightarrow> bytes" where
  "PolicyRequest_encode m =
     enc_text ''SMF-MSG-POLICY-REQUEST-v1''"

definition PolicyRequest_decode :: "policy_request decode" where
  "PolicyRequest_decode =
     check_domain ''SMF-MSG-POLICY-REQUEST-v1'' (
       check_dec (PolicyRequest_validate ()) (return_dec ()))"

section \<open>PolicyReport\<close>

record policy_report =
  ppr_policy :: policy_set
  ppr_policy_digest :: digest

definition PolicyReport_validate :: "policy_report \<Rightarrow> status" where
  "PolicyReport_validate m =
    (return_if_error (PolicySet_validate (ppr_policy m)) (
     require_digest (ppr_policy_digest m) ''policy digest''))"

definition PolicyReport_encode :: "policy_report \<Rightarrow> bytes" where
  "PolicyReport_encode m =
     enc_text ''SMF-MSG-POLICY-REPORT-v1'' @ PolicySet_encode (ppr_policy m) @
     enc_digest (ppr_policy_digest m)"

definition PolicyReport_decode :: "policy_report decode" where
  "PolicyReport_decode =
     check_domain ''SMF-MSG-POLICY-REPORT-v1'' (
     bind_dec PolicySet_decode (\<lambda>policy.
     bind_dec dec_digest (\<lambda>digest.
       let m = \<lparr>ppr_policy = policy, ppr_policy_digest = digest\<rparr>
       in check_dec (PolicyReport_validate m) (return_dec m))))"

section \<open>ShutdownRequest\<close>

type_synonym shutdown_request = unit

definition ShutdownRequest_validate :: "shutdown_request \<Rightarrow> status" where
  "ShutdownRequest_validate m =
    (Status_success)"

definition ShutdownRequest_encode :: "shutdown_request \<Rightarrow> bytes" where
  "ShutdownRequest_encode m =
     enc_text ''SMF-MSG-SHUTDOWN-REQUEST-v1''"

definition ShutdownRequest_decode :: "shutdown_request decode" where
  "ShutdownRequest_decode =
     check_domain ''SMF-MSG-SHUTDOWN-REQUEST-v1'' (
       check_dec (ShutdownRequest_validate ()) (return_dec ()))"

section \<open>ShutdownAck\<close>

record shutdown_ack =
  sda_code :: reason_code
  sda_detail :: string

definition ShutdownAck_validate :: "shutdown_ack \<Rightarrow> status" where
  "ShutdownAck_validate m =
    (require_bound (sda_detail m) kMaxDetailBytes ''detail'')"

definition ShutdownAck_encode :: "shutdown_ack \<Rightarrow> bytes" where
  "ShutdownAck_encode m =
     enc_text ''SMF-MSG-SHUTDOWN-ACK-v1'' @ write_reason (sda_code m) @
     write_detail (sda_detail m)"

definition ShutdownAck_decode :: "shutdown_ack decode" where
  "ShutdownAck_decode =
     check_domain ''SMF-MSG-SHUTDOWN-ACK-v1'' (
     bind_dec read_reason (\<lambda>code.
     bind_dec read_detail (\<lambda>detail.
       let m = \<lparr>sda_code = code, sda_detail = detail\<rparr>
       in check_dec (ShutdownAck_validate m) (return_dec m))))"

section \<open>ErrorMessage\<close>

record error_message =
  erm_code :: reason_code
  erm_detail :: string

definition ErrorMessage_validate :: "error_message \<Rightarrow> status" where
  "ErrorMessage_validate m =
    (require_bound (erm_detail m) kMaxDetailBytes ''detail'')"

definition ErrorMessage_encode :: "error_message \<Rightarrow> bytes" where
  "ErrorMessage_encode m =
     enc_text ''SMF-MSG-ERROR-MESSAGE-v1'' @ write_reason (erm_code m) @
     write_detail (erm_detail m)"

definition ErrorMessage_decode :: "error_message decode" where
  "ErrorMessage_decode =
     check_domain ''SMF-MSG-ERROR-MESSAGE-v1'' (
     bind_dec read_reason (\<lambda>code.
     bind_dec read_detail (\<lambda>detail.
       let m = \<lparr>erm_code = code, erm_detail = detail\<rparr>
       in check_dec (ErrorMessage_validate m) (return_dec m))))"

section \<open>Laws of the messages\<close>

definition submit_movement_wf :: "submit_movement \<Rightarrow> bool" where
  "submit_movement_wf m \<longleftrightarrow> Status_ok (SubmitMovement_validate m)"

lemma SubmitMovement_decode_iff [codec_iff]:
  "dec_ok c \<Longrightarrow> SubmitMovement_decode c i = Inr (m, j) \<longleftrightarrow>
    submit_movement_wf m \<and> spells c i j (SubmitMovement_encode m)"
  by (cases m)
    (auto simp: SubmitMovement_decode_def SubmitMovement_encode_def submit_movement_wf_def
      SubmitMovement_validate_def domain_ok_def dec_Inr_iffs codec_iff codec_simps)

interpretation submit_movement: wire_message SubmitMovement_encode SubmitMovement_decode
  submit_movement_wf SubmitMovement_validate "''SMF-MSG-SUBMIT-MOVEMENT-v1''" MT_SUBMIT_MOVEMENT
  by (rule wire_messageI [OF SubmitMovement_decode_iff _ SubmitMovement_decode_def])
    (simp_all add: submit_movement_wf_def wire_message_simps)

definition movement_accepted_wf :: "movement_accepted \<Rightarrow> bool" where
  "movement_accepted_wf m \<longleftrightarrow> Status_ok (MovementAccepted_validate m) \<and>
     reason_wf (ma_code m)"

lemma MovementAccepted_decode_iff [codec_iff]:
  "dec_ok c \<Longrightarrow> MovementAccepted_decode c i = Inr (m, j) \<longleftrightarrow>
    movement_accepted_wf m \<and> spells c i j (MovementAccepted_encode m)"
  by (cases m)
    (auto simp: MovementAccepted_decode_def MovementAccepted_encode_def movement_accepted_wf_def
      MovementAccepted_validate_def domain_ok_def dec_Inr_iffs codec_iff codec_simps)

interpretation movement_accepted: wire_message MovementAccepted_encode MovementAccepted_decode
  movement_accepted_wf MovementAccepted_validate "''SMF-MSG-MOVEMENT-ACCEPTED-v1''" MT_MOVEMENT_ACCEPTED
  by (rule wire_messageI [OF MovementAccepted_decode_iff _ MovementAccepted_decode_def])
    (simp_all add: movement_accepted_wf_def wire_message_simps)

definition query_movement_wf :: "query_movement \<Rightarrow> bool" where
  "query_movement_wf m \<longleftrightarrow> Status_ok (QueryMovement_validate m)"

lemma QueryMovement_decode_iff [codec_iff]:
  "dec_ok c \<Longrightarrow> QueryMovement_decode c i = Inr (m, j) \<longleftrightarrow>
    query_movement_wf m \<and> spells c i j (QueryMovement_encode m)"
  by (cases m)
    (auto simp: QueryMovement_decode_def QueryMovement_encode_def query_movement_wf_def
      domain_ok_def dec_Inr_iffs codec_iff codec_simps)

interpretation query_movement: wire_message QueryMovement_encode QueryMovement_decode
  query_movement_wf QueryMovement_validate "''SMF-MSG-QUERY-MOVEMENT-v1''" MT_QUERY_MOVEMENT
  by (rule wire_messageI [OF QueryMovement_decode_iff _ QueryMovement_decode_def])
    (simp_all add: query_movement_wf_def wire_message_simps)

definition movement_status_wf :: "movement_status \<Rightarrow> bool" where
  "movement_status_wf m \<longleftrightarrow> Status_ok (MovementStatus_validate m) \<and>
     movement_wf (mst_record m)"

lemma MovementStatus_decode_iff [codec_iff]:
  "dec_ok c \<Longrightarrow> MovementStatus_decode c i = Inr (m, j) \<longleftrightarrow>
    movement_status_wf m \<and> spells c i j (MovementStatus_encode m)"
  by (cases m)
    (auto simp: MovementStatus_decode_def MovementStatus_encode_def movement_status_wf_def
      domain_ok_def dec_Inr_iffs codec_iff codec_simps)

interpretation movement_status: wire_message MovementStatus_encode MovementStatus_decode
  movement_status_wf MovementStatus_validate "''SMF-MSG-MOVEMENT-STATUS-v1''" MT_MOVEMENT_STATUS
  by (rule wire_messageI [OF MovementStatus_decode_iff _ MovementStatus_decode_def])
    (simp_all add: movement_status_wf_def wire_message_simps)

definition list_movements_wf :: "list_movements \<Rightarrow> bool" where
  "list_movements_wf m \<longleftrightarrow> Status_ok (ListMovements_validate m)"

lemma ListMovements_decode_iff [codec_iff]:
  "dec_ok c \<Longrightarrow> ListMovements_decode c i = Inr (m, j) \<longleftrightarrow>
    list_movements_wf m \<and> spells c i j (ListMovements_encode m)"
  by (cases m)
    (auto simp: ListMovements_decode_def ListMovements_encode_def list_movements_wf_def
      domain_ok_def dec_Inr_iffs codec_iff codec_simps)

interpretation list_movements: wire_message ListMovements_encode ListMovements_decode
  list_movements_wf ListMovements_validate "''SMF-MSG-LIST-MOVEMENTS-v1''" MT_LIST_MOVEMENTS
  by (rule wire_messageI [OF ListMovements_decode_iff _ ListMovements_decode_def])
    (simp_all add: list_movements_wf_def wire_message_simps)

definition movement_summary_wf :: "movement_summary \<Rightarrow> bool" where
  "movement_summary_wf m \<longleftrightarrow> Status_ok (MovementSummary_validate m) \<and>
     reason_wf (msm_last_reason m)"

lemma MovementSummary_decode_iff [codec_iff]:
  "dec_ok c \<Longrightarrow> MovementSummary_decode c i = Inr (m, j) \<longleftrightarrow>
    movement_summary_wf m \<and> spells c i j (MovementSummary_encode m)"
  by (cases m)
    (auto simp: MovementSummary_decode_def MovementSummary_encode_def movement_summary_wf_def
      MovementSummary_validate_def domain_ok_def dec_Inr_iffs codec_iff codec_simps)

interpretation movement_summary_codec: canonical_codec MovementSummary_encode
  MovementSummary_decode movement_summary_wf
  by unfold_locales (rule MovementSummary_decode_iff)

definition movement_list_wf :: "movement_list \<Rightarrow> bool" where
  "movement_list_wf m \<longleftrightarrow> Status_ok (MovementList_validate m) \<and>
     list_all movement_summary_wf (ml_movements m)"

lemma MovementList_decode_iff [codec_iff]:
  "dec_ok c \<Longrightarrow> MovementList_decode c i = Inr (m, j) \<longleftrightarrow>
    movement_list_wf m \<and> spells c i j (MovementList_encode m)"
  by (cases m)
    (auto simp: MovementList_decode_def MovementList_encode_def movement_list_wf_def
      MovementList_validate_def movement_summary_codec.repeat_dec_iff domain_ok_def
      dec_Inr_iffs codec_iff codec_simps)

interpretation movement_list: wire_message MovementList_encode MovementList_decode
  movement_list_wf MovementList_validate "''SMF-MSG-MOVEMENT-LIST-v1''" MT_MOVEMENT_LIST
  by (rule wire_messageI [OF MovementList_decode_iff _ MovementList_decode_def])
    (simp_all add: movement_list_wf_def wire_message_simps)

definition cancel_movement_wf :: "cancel_movement \<Rightarrow> bool" where
  "cancel_movement_wf m \<longleftrightarrow> Status_ok (CancelMovement_validate m)"

lemma CancelMovement_decode_iff [codec_iff]:
  "dec_ok c \<Longrightarrow> CancelMovement_decode c i = Inr (m, j) \<longleftrightarrow>
    cancel_movement_wf m \<and> spells c i j (CancelMovement_encode m)"
  by (cases m)
    (auto simp: CancelMovement_decode_def CancelMovement_encode_def cancel_movement_wf_def
      domain_ok_def dec_Inr_iffs codec_iff codec_simps)

interpretation cancel_movement: wire_message CancelMovement_encode CancelMovement_decode
  cancel_movement_wf CancelMovement_validate "''SMF-MSG-CANCEL-MOVEMENT-v1''" MT_CANCEL_MOVEMENT
  by (rule wire_messageI [OF CancelMovement_decode_iff _ CancelMovement_decode_def])
    (simp_all add: cancel_movement_wf_def wire_message_simps)

definition reconcile_movement_wf :: "reconcile_movement \<Rightarrow> bool" where
  "reconcile_movement_wf m \<longleftrightarrow> Status_ok (ReconcileMovement_validate m)"

lemma ReconcileMovement_decode_iff [codec_iff]:
  "dec_ok c \<Longrightarrow> ReconcileMovement_decode c i = Inr (m, j) \<longleftrightarrow>
    reconcile_movement_wf m \<and> spells c i j (ReconcileMovement_encode m)"
  by (cases m)
    (auto simp: ReconcileMovement_decode_def ReconcileMovement_encode_def
      reconcile_movement_wf_def domain_ok_def dec_Inr_iffs codec_iff codec_simps)

interpretation reconcile_movement: wire_message ReconcileMovement_encode ReconcileMovement_decode
  reconcile_movement_wf ReconcileMovement_validate "''SMF-MSG-RECONCILE-MOVEMENT-v1''" MT_RECONCILE_MOVEMENT
  by (rule wire_messageI [OF ReconcileMovement_decode_iff _ ReconcileMovement_decode_def])
    (simp_all add: reconcile_movement_wf_def wire_message_simps)

definition provenance_request_wf :: "provenance_request \<Rightarrow> bool" where
  "provenance_request_wf m \<longleftrightarrow> Status_ok (ProvenanceRequest_validate m)"

lemma ProvenanceRequest_decode_iff [codec_iff]:
  "dec_ok c \<Longrightarrow> ProvenanceRequest_decode c i = Inr (m, j) \<longleftrightarrow>
    provenance_request_wf m \<and> spells c i j (ProvenanceRequest_encode m)"
  by (cases m)
    (auto simp: ProvenanceRequest_decode_def ProvenanceRequest_encode_def
      provenance_request_wf_def domain_ok_def dec_Inr_iffs codec_iff codec_simps)

interpretation provenance_request: wire_message ProvenanceRequest_encode ProvenanceRequest_decode
  provenance_request_wf ProvenanceRequest_validate "''SMF-MSG-PROVENANCE-REQUEST-v1''" MT_PROVENANCE_REQUEST
  by (rule wire_messageI [OF ProvenanceRequest_decode_iff _ ProvenanceRequest_decode_def])
    (simp_all add: provenance_request_wf_def wire_message_simps)

definition provenance_report_wf :: "provenance_report \<Rightarrow> bool" where
  "provenance_report_wf m \<longleftrightarrow> Status_ok (ProvenanceReport_validate m) \<and>
     reason_wf (prp_code m) \<and>
     list_all event_wf (prp_events m)"

lemma ProvenanceReport_decode_iff [codec_iff]:
  "dec_ok c \<Longrightarrow> ProvenanceReport_decode c i = Inr (m, j) \<longleftrightarrow>
    provenance_report_wf m \<and> spells c i j (ProvenanceReport_encode m)"
  by (cases m)
    (auto simp: ProvenanceReport_decode_def ProvenanceReport_encode_def provenance_report_wf_def
      ProvenanceReport_validate_def event_codec.repeat_dec_iff domain_ok_def
      dec_Inr_iffs codec_iff codec_simps)

interpretation provenance_report: wire_message ProvenanceReport_encode ProvenanceReport_decode
  provenance_report_wf ProvenanceReport_validate "''SMF-MSG-PROVENANCE-REPORT-v1''" MT_PROVENANCE_REPORT
  by (rule wire_messageI [OF ProvenanceReport_decode_iff _ ProvenanceReport_decode_def])
    (simp_all add: provenance_report_wf_def wire_message_simps)

definition topology_request_wf :: "topology_request \<Rightarrow> bool" where
  "topology_request_wf m \<longleftrightarrow> Status_ok (TopologyRequest_validate m)"

lemma TopologyRequest_decode_iff [codec_iff]:
  "dec_ok c \<Longrightarrow> TopologyRequest_decode c i = Inr (m, j) \<longleftrightarrow>
    topology_request_wf m \<and> spells c i j (TopologyRequest_encode m)"
  by (auto simp: TopologyRequest_decode_def TopologyRequest_encode_def topology_request_wf_def
      domain_ok_def dec_Inr_iffs codec_iff codec_simps)

interpretation topology_request: wire_message TopologyRequest_encode TopologyRequest_decode
  topology_request_wf TopologyRequest_validate "''SMF-MSG-TOPOLOGY-REQUEST-v1''" MT_TOPOLOGY_REQUEST
  by (rule wire_messageI [OF TopologyRequest_decode_iff _ TopologyRequest_decode_def])
    (simp_all add: topology_request_wf_def wire_message_simps)

definition topology_report_wf :: "topology_report \<Rightarrow> bool" where
  "topology_report_wf m \<longleftrightarrow> Status_ok (TopologyReport_validate m) \<and>
     incarnation_wf (trp_coordinator m) \<and>
     list_all registration_wf (trp_endpoints m)"

lemma TopologyReport_decode_iff [codec_iff]:
  "dec_ok c \<Longrightarrow> TopologyReport_decode c i = Inr (m, j) \<longleftrightarrow>
    topology_report_wf m \<and> spells c i j (TopologyReport_encode m)"
  by (cases m)
    (auto simp: TopologyReport_decode_def TopologyReport_encode_def topology_report_wf_def
      TopologyReport_validate_def registration_codec.repeat_dec_iff domain_ok_def
      dec_Inr_iffs codec_iff codec_simps)

interpretation topology_report: wire_message TopologyReport_encode TopologyReport_decode
  topology_report_wf TopologyReport_validate "''SMF-MSG-TOPOLOGY-REPORT-v1''" MT_TOPOLOGY_REPORT
  by (rule wire_messageI [OF TopologyReport_decode_iff _ TopologyReport_decode_def])
    (simp_all add: topology_report_wf_def wire_message_simps)

definition policy_request_wf :: "policy_request \<Rightarrow> bool" where
  "policy_request_wf m \<longleftrightarrow> Status_ok (PolicyRequest_validate m)"

lemma PolicyRequest_decode_iff [codec_iff]:
  "dec_ok c \<Longrightarrow> PolicyRequest_decode c i = Inr (m, j) \<longleftrightarrow>
    policy_request_wf m \<and> spells c i j (PolicyRequest_encode m)"
  by (auto simp: PolicyRequest_decode_def PolicyRequest_encode_def policy_request_wf_def
      domain_ok_def dec_Inr_iffs codec_iff codec_simps)

interpretation policy_request: wire_message PolicyRequest_encode PolicyRequest_decode
  policy_request_wf PolicyRequest_validate "''SMF-MSG-POLICY-REQUEST-v1''" MT_POLICY_REQUEST
  by (rule wire_messageI [OF PolicyRequest_decode_iff _ PolicyRequest_decode_def])
    (simp_all add: policy_request_wf_def wire_message_simps)

definition policy_report_wf :: "policy_report \<Rightarrow> bool" where
  "policy_report_wf m \<longleftrightarrow> Status_ok (PolicyReport_validate m)"

lemma PolicyReport_decode_iff [codec_iff]:
  "dec_ok c \<Longrightarrow> PolicyReport_decode c i = Inr (m, j) \<longleftrightarrow>
    policy_report_wf m \<and> spells c i j (PolicyReport_encode m)"
  by (cases m)
    (auto simp: PolicyReport_decode_def PolicyReport_encode_def policy_report_wf_def
      PolicyReport_validate_def domain_ok_def dec_Inr_iffs codec_iff codec_simps)

interpretation policy_report: wire_message PolicyReport_encode PolicyReport_decode
  policy_report_wf PolicyReport_validate "''SMF-MSG-POLICY-REPORT-v1''" MT_POLICY_REPORT
  by (rule wire_messageI [OF PolicyReport_decode_iff _ PolicyReport_decode_def])
    (simp_all add: policy_report_wf_def wire_message_simps)

definition shutdown_request_wf :: "shutdown_request \<Rightarrow> bool" where
  "shutdown_request_wf m \<longleftrightarrow> Status_ok (ShutdownRequest_validate m)"

lemma ShutdownRequest_decode_iff [codec_iff]:
  "dec_ok c \<Longrightarrow> ShutdownRequest_decode c i = Inr (m, j) \<longleftrightarrow>
    shutdown_request_wf m \<and> spells c i j (ShutdownRequest_encode m)"
  by (auto simp: ShutdownRequest_decode_def ShutdownRequest_encode_def shutdown_request_wf_def
      domain_ok_def dec_Inr_iffs codec_iff codec_simps)

interpretation shutdown_request: wire_message ShutdownRequest_encode ShutdownRequest_decode
  shutdown_request_wf ShutdownRequest_validate "''SMF-MSG-SHUTDOWN-REQUEST-v1''" MT_SHUTDOWN
  by (rule wire_messageI [OF ShutdownRequest_decode_iff _ ShutdownRequest_decode_def])
    (simp_all add: shutdown_request_wf_def wire_message_simps)

definition shutdown_ack_wf :: "shutdown_ack \<Rightarrow> bool" where
  "shutdown_ack_wf m \<longleftrightarrow> Status_ok (ShutdownAck_validate m) \<and>
     reason_wf (sda_code m)"

lemma ShutdownAck_decode_iff [codec_iff]:
  "dec_ok c \<Longrightarrow> ShutdownAck_decode c i = Inr (m, j) \<longleftrightarrow>
    shutdown_ack_wf m \<and> spells c i j (ShutdownAck_encode m)"
  by (cases m)
    (auto simp: ShutdownAck_decode_def ShutdownAck_encode_def shutdown_ack_wf_def
      ShutdownAck_validate_def domain_ok_def dec_Inr_iffs codec_iff codec_simps)

interpretation shutdown_ack: wire_message ShutdownAck_encode ShutdownAck_decode
  shutdown_ack_wf ShutdownAck_validate "''SMF-MSG-SHUTDOWN-ACK-v1''" MT_SHUTDOWN_ACK
  by (rule wire_messageI [OF ShutdownAck_decode_iff _ ShutdownAck_decode_def])
    (simp_all add: shutdown_ack_wf_def wire_message_simps)

definition error_message_wf :: "error_message \<Rightarrow> bool" where
  "error_message_wf m \<longleftrightarrow> Status_ok (ErrorMessage_validate m) \<and>
     reason_wf (erm_code m)"

lemma ErrorMessage_decode_iff [codec_iff]:
  "dec_ok c \<Longrightarrow> ErrorMessage_decode c i = Inr (m, j) \<longleftrightarrow>
    error_message_wf m \<and> spells c i j (ErrorMessage_encode m)"
  by (cases m)
    (auto simp: ErrorMessage_decode_def ErrorMessage_encode_def error_message_wf_def
      ErrorMessage_validate_def domain_ok_def dec_Inr_iffs codec_iff codec_simps)

interpretation error_message: wire_message ErrorMessage_encode ErrorMessage_decode
  error_message_wf ErrorMessage_validate "''SMF-MSG-ERROR-MESSAGE-v1''" MT_ERROR
  by (rule wire_messageI [OF ErrorMessage_decode_iff _ ErrorMessage_decode_def])
    (simp_all add: error_message_wf_def wire_message_simps)

end
