(* ===== verification/SMF_Wire.thy ===== *)
theory SMF_Wire
  imports SMF_Wire_Control SMF_Wire_Commit SMF_Wire_Data SMF_Wire_Admin
begin

text \<open>
  The message table at the end of \<^verbatim>\<open>include/smf/wire.hpp\<close>: the frame type that carries each
  message, by the domain string the message starts with.  The lemmas show that no two messages
  share a domain string and no two standalone messages share a frame type, and what that gives
  the decoders.
\<close>

definition MessageTypeFor :: "(string \<times> message_type) list" where
  "MessageTypeFor =
    [(''SMF-MSG-REGISTER-REQUEST-v1'', MT_REGISTER),
     (''SMF-MSG-REGISTER-ACK-v1'', MT_REGISTER_ACK),
     (''SMF-MSG-ANNOUNCE-OBJECT-v1'', MT_ANNOUNCE_OBJECT),
     (''SMF-MSG-ANNOUNCE-ACK-v1'', MT_ANNOUNCE_ACK),
     (''SMF-MSG-GRANT-TRANSFER-v1'', MT_GRANT_TRANSFER),
     (''SMF-MSG-GRANT-ACK-v1'', MT_GRANT_ACK),
     (''SMF-MSG-EXECUTE-MOVEMENT-v1'', MT_EXECUTE_MOVEMENT),
     (''SMF-MSG-ATTEMPT-RESULT-v1'', MT_ATTEMPT_RESULT),
     (''SMF-MSG-CANCEL-REQUEST-v1'', MT_CANCEL),
     (''SMF-MSG-CANCEL-ACK-v1'', MT_CANCEL_ACK),
     (''SMF-MSG-COMMIT-REQUEST-v1'', MT_COMMIT_REQUEST),
     (''SMF-MSG-COMMIT-RESULT-v1'', MT_COMMIT_RESULT),
     (''SMF-MSG-VERIFY-REQUEST-v1'', MT_VERIFY_REQUEST),
     (''SMF-MSG-VERIFY-RESPONSE-v1'', MT_VERIFY_RESPONSE),
     (''SMF-MSG-AUTHORITY-QUERY-v1'', MT_AUTHORITY_QUERY),
     (''SMF-MSG-AUTHORITY-REPORT-v1'', MT_AUTHORITY_REPORT),
     (''SMF-MSG-CLEANUP-REQUEST-v1'', MT_CLEANUP_REQUEST),
     (''SMF-MSG-CLEANUP-RESULT-v1'', MT_CLEANUP_RESULT),
     (''SMF-MSG-DATA-BEGIN-v1'', MT_DATA_BEGIN),
     (''SMF-MSG-DATA-BEGIN-ACK-v1'', MT_DATA_BEGIN_ACK),
     (''SMF-MSG-DATA-CHUNK-v1'', MT_DATA_CHUNK),
     (''SMF-MSG-DATA-CHUNK-ACK-v1'', MT_DATA_CHUNK_ACK),
     (''SMF-MSG-DATA-END-v1'', MT_DATA_END),
     (''SMF-MSG-DATA-RESULT-v1'', MT_DATA_RESULT),
     (''SMF-MSG-DATA-ABORT-v1'', MT_DATA_ABORT),
     (''SMF-MSG-SUBMIT-MOVEMENT-v1'', MT_SUBMIT_MOVEMENT),
     (''SMF-MSG-MOVEMENT-ACCEPTED-v1'', MT_MOVEMENT_ACCEPTED),
     (''SMF-MSG-QUERY-MOVEMENT-v1'', MT_QUERY_MOVEMENT),
     (''SMF-MSG-MOVEMENT-STATUS-v1'', MT_MOVEMENT_STATUS),
     (''SMF-MSG-LIST-MOVEMENTS-v1'', MT_LIST_MOVEMENTS),
     (''SMF-MSG-MOVEMENT-SUMMARY-v1'', MT_INVALID),
     (''SMF-MSG-MOVEMENT-LIST-v1'', MT_MOVEMENT_LIST),
     (''SMF-MSG-CANCEL-MOVEMENT-v1'', MT_CANCEL_MOVEMENT),
     (''SMF-MSG-RECONCILE-MOVEMENT-v1'', MT_RECONCILE_MOVEMENT),
     (''SMF-MSG-PROVENANCE-REQUEST-v1'', MT_PROVENANCE_REQUEST),
     (''SMF-MSG-PROVENANCE-REPORT-v1'', MT_PROVENANCE_REPORT),
     (''SMF-MSG-TOPOLOGY-REQUEST-v1'', MT_TOPOLOGY_REQUEST),
     (''SMF-MSG-TOPOLOGY-REPORT-v1'', MT_TOPOLOGY_REPORT),
     (''SMF-MSG-POLICY-REQUEST-v1'', MT_POLICY_REQUEST),
     (''SMF-MSG-POLICY-REPORT-v1'', MT_POLICY_REPORT),
     (''SMF-MSG-SHUTDOWN-REQUEST-v1'', MT_SHUTDOWN),
     (''SMF-MSG-SHUTDOWN-ACK-v1'', MT_SHUTDOWN_ACK),
     (''SMF-MSG-ERROR-MESSAGE-v1'', MT_ERROR)]"

text \<open>The summary of a movement travels inside a list only; it has no frame type of its own.\<close>

definition standalone_messages :: "(string \<times> message_type) list" where
  "standalone_messages = filter (\<lambda>(_, type). type \<noteq> MT_INVALID) MessageTypeFor"

lemma MessageTypeFor_domains:
  "list_all (\<lambda>(domain, _). domain_ok domain) MessageTypeFor"
  by (simp add: MessageTypeFor_def domain_ok_def)

lemma MessageTypeFor_distinct: "distinct (map fst MessageTypeFor)"
  by (simp add: MessageTypeFor_def)

lemma standalone_types_distinct: "distinct (map snd standalone_messages)"
  by (simp add: standalone_messages_def MessageTypeFor_def)

lemma standalone_types_known:
  "list_all (\<lambda>(_, type). message_type_from_value type = Some type \<and> \<not> is_handshake_message type)
    standalone_messages"
  by (simp add: standalone_messages_def MessageTypeFor_def wire_message_simps)

lemma listed_domain_ok: "(domain, type) \<in> set MessageTypeFor \<Longrightarrow> domain_ok domain"
  using MessageTypeFor_domains by (auto simp: list_all_iff)

end
