(* ===== verification/SMF_Protocol_Properties.thy ===== *)
theory SMF_Protocol_Properties
  imports SMF_Sample SMF_Wire
begin

text \<open>
  The properties of the protocol: frame headers and sequence numbers, frame authentication, the
  handshake, transfer grants and the messages.  The connection is a parameter: \<open>delivers\<close> and
  \<open>transmits\<close> are what the framed stream relies on, and the witnesses instantiate it by a byte
  queue that hands over one byte at a time.
\<close>

section \<open>Frames\<close>

text \<open>C32: forty bytes are accepted as a frame header exactly when they are the encoding of a
  well-formed header: right magic and version, zero reserved fields, known flags and type, a
  payload within the bound and a non-zero sequence number.\<close>

theorem frame_header_canonical:
  "decode_frame_header b n = Inr h \<longleftrightarrow> header_wf n h \<and> b = encode_frame_header h"
  by (rule decode_frame_header_iff)

text \<open>C10: whatever frames arrive, in whatever order and however often, the accepted ones carry
  consecutive sequence numbers: no frame is accepted twice, out of order or after a gap.\<close>

theorem frames_accepted_in_order:
  assumes "unat (fc_expected_sequence c) + length frames < 2 ^ 64"
  shows "map (\<lambda>(h, _). unat (fh_sequence h)) (accepted n frames c) =
    [unat (fc_expected_sequence c)..<unat (fc_expected_sequence c) + length (accepted n frames c)]"
  using assms by (rule accepted_consecutive)

definition hello_header :: "u64 \<Rightarrow> frame_header" where
  "hello_header s = \<lparr>fh_version = 1, fh_flags = 0, fh_type = MT_HELLO, fh_payload_length = 0,
     fh_sequence = s, fh_auth_tag = 0\<rparr>"

theorem frames_accepted_in_order_witness:
  "map (\<lambda>(h, _). unat (fh_sequence h))
     (accepted 8 [(hello_header 1, []), (hello_header 1, []), (hello_header 3, []), (hello_header 2, [])]
       FrameCodec_default) = [1, 2]"
proof -
  let ?fs = "[(hello_header 1, []), (hello_header 1, []), (hello_header 3, []), (hello_header 2, [])]"
  have "length (accepted 8 ?fs FrameCodec_default) = 2"
    by (simp add: FrameCodec_verify_def FrameCodec_default_def hello_header_def is_handshake_message_def)
  then show ?thesis
    using frames_accepted_in_order [of FrameCodec_default ?fs 8]
    by (simp add: FrameCodec_default_def upt_rec)
qed


definition sample_codec :: frame_codec where
  "sample_codec = \<lparr>fc_key = Some 5, fc_send_sequence = 1, fc_expected_sequence = 1\<rparr>"

definition sample_plain_header :: frame_header where
  "sample_plain_header = \<lparr>fh_version = 1, fh_flags = 1, fh_type = MT_DATA_END, fh_payload_length = 2,
     fh_sequence = 1, fh_auth_tag = 0\<rparr>"

definition sample_header :: frame_header where
  "sample_header = sample_plain_header
     \<lparr>fh_auth_tag := frame_auth_tag (Digest_view 5) sample_plain_header [1, 2]\<rparr>"

lemma sample_header_fields:
  "fh_flags sample_header = 1" "fh_type sample_header = MT_DATA_END" "fh_payload_length sample_header = 2"
  "fh_sequence sample_header = 1"
  "fh_auth_tag sample_header = frame_auth_tag (Digest_view 5) sample_header [1, 2]"
  "sample_header\<lparr>fh_sequence := 1\<rparr> = sample_header"
  by (simp_all add: sample_header_def) (simp_all add: sample_plain_header_def)

lemma sample_header_verifies:
  "FrameCodec_verify sample_header [1, 2] 8 sample_codec =
    (Status_success, sample_codec\<lparr>fc_expected_sequence := 2\<rparr>)"
  by (simp add: FrameCodec_verify_def sample_header_fields(1-4) sample_codec_def
      is_handshake_message_def flip: sample_header_fields(5))


lemma unat_Suc_word: "w + 1 \<noteq> 0 \<Longrightarrow> unat (w + 1) = Suc (unat w)" for w :: u64
  using unatSuc [of w] by (simp add: add.commute)

text \<open>C39: on a keyed session a handshake frame without any authentication is still accepted and
  consumes a sequence number, so that the genuine frame with that number is then refused, while
  the same session refuses to send such a frame.\<close>

theorem handshake_frame_accepted_when_keyed:
  assumes "expected + 1 \<noteq> 0"
  shows "let c = \<lparr>fc_key = Some key, fc_send_sequence = sent, fc_expected_sequence = expected\<rparr>;
        c' = c\<lparr>fc_expected_sequence := expected + 1\<rparr>
    in FrameCodec_verify (hello_header expected) [] n c = (Status_success, c') \<and>
       \<not> Status_ok (fst (FrameCodec_verify (h\<lparr>fh_sequence := expected\<rparr>) payload n c')) \<and>
       FrameCodec_encode MT_HELLO 0 [] n c =
         (err PROTOCOL_STATE_VIOLATION
           ''handshake messages are only exchanged before the session is keyed'', c)"
proof -
  have "expected < expected + 1"
    using assms by (simp add: word_less_nat_alt unat_Suc_word)
  moreover have "FrameCodec_verify (hello_header expected) [] n c =
      (Status_success, c\<lparr>fc_expected_sequence := expected + 1\<rparr>)" if "fc_expected_sequence c = expected" for c
    using that by (simp add: FrameCodec_verify_def hello_header_def is_handshake_message_def)
  ultimately show ?thesis
    using verify_stale [of "h\<lparr>fh_sequence := expected\<rparr>"]
    by (simp add: Let_def is_handshake_message_def FrameCodec_encode_def)
qed

theorem handshake_frame_accepted_when_keyed_witness:
  "Status_ok (fst (FrameCodec_verify (hello_header 1) [] 8 sample_codec)) \<and>
   \<not> Status_ok (fst (FrameCodec_verify sample_header [1, 2] 8
     (snd (FrameCodec_verify (hello_header 1) [] 8 sample_codec))))"
  using handshake_frame_accepted_when_keyed [of 1 5 1 8 sample_header "[1, 2]"]
    by (simp add: Let_def sample_codec_def sample_header_fields(6))

section \<open>The handshake\<close>


text \<open>A client MAC binds the nonce and every field of the claimed identity; a server MAC binds
  the client nonce, the client MAC, the server nonce, the session identifier and the server
  identity; a session key binds both nonces; unless two different encodings have the same
  HMAC under the shared secret.\<close>

lemma handshake_binds:
  assumes "identity_wf p" "identity_wf p'"
  shows "(compute_client_mac k n p = compute_client_mac k n' p' \<longrightarrow> n = n' \<and> p = p' \<or>
      (client_mac_encoding n p \<noteq> client_mac_encoding n' p' \<and>
       hmac_sha256 k (client_mac_encoding n p) = hmac_sha256 k (client_mac_encoding n' p'))) \<and>
    (compute_server_mac k q s sid p = compute_server_mac k q' s' sid' p' \<longrightarrow>
      hq_client_nonce q = hq_client_nonce q' \<and> hq_client_mac q = hq_client_mac q' \<and> s = s' \<and>
      sid = sid' \<and> p = p' \<or>
      (server_mac_encoding q s sid p \<noteq> server_mac_encoding q' s' sid' p' \<and>
       hmac_sha256 k (server_mac_encoding q s sid p) = hmac_sha256 k (server_mac_encoding q' s' sid' p'))) \<and>
    (derive_session_key k n s = derive_session_key k n' s' \<longrightarrow> n = n' \<and> s = s' \<or>
      (session_key_encoding n s \<noteq> session_key_encoding n' s' \<and>
       hmac_sha256 k (session_key_encoding n s) = hmac_sha256 k (session_key_encoding n' s')))"
  using client_mac_encoding_inject [OF assms] server_mac_encoding_inject [OF assms]
    session_key_encoding_inject
  unfolding compute_client_mac_def compute_server_mac_def derive_session_key_def canonical_mac_def
  by metis

definition sample_identity :: peer_identity where
  "sample_identity = \<lparr>pi_endpoint = ''a'', pi_boot = 1, pi_epoch = 1, pi_role = SR_ENDPOINT,
     pi_contract = kPeerContract, pi_capability_digest = 1\<rparr>"

lemma sample_identity_wf: "identity_wf sample_identity"
  by code_simp

section \<open>Transfer grants\<close>


definition sample_grant :: transfer_grant where
  "sample_grant =
    \<lparr>tg_movement_id = 1, tg_movement_generation = 1, tg_attempt = 1, tg_object = sample_object,
     tg_source = ''a'', tg_source_incarnation = \<lparr>inc_endpoint = ''a'', inc_boot = 1, inc_epoch = 1\<rparr>,
     tg_destination = ''b'', tg_destination_incarnation = \<lparr>inc_endpoint = ''b'', inc_boot = 2, inc_epoch = 1\<rparr>,
     tg_policy_generation = 1, tg_grant_nonce = 1, tg_max_bytes = 2500, tg_max_chunks = 3,
     tg_issued_unix_millis = 1, tg_effect_class = EC_REPEATABLE, tg_signature = 1\<rparr>"

lemma sample_grant_wf: "transfer_grant_wf sample_grant"
proof -
  have "EndpointId_is_valid ''a''" "EndpointId_is_valid ''b''"
    by code_simp+
  then show ?thesis
    using sample_object_valid
    by (simp add: transfer_grant_wf_def TransferGrant_validate_def sample_grant_def Incarnation_is_set_def)
qed


section \<open>Messages\<close>

text \<open>C11: every standalone message is canonical on the wire: a frame payload decodes to a message
  exactly when the message is well formed and the payload is its encoding, to the last byte.\<close>

theorem messages_canonical:
  "(decode_message RegisterRequest_decode f = Inr m0 \<longleftrightarrow> register_request_wf m0 \<and> fr_payload f = RegisterRequest_encode m0) \<and>
   (decode_message RegisterAck_decode f = Inr m1 \<longleftrightarrow> register_ack_wf m1 \<and> fr_payload f = RegisterAck_encode m1) \<and>
   (decode_message AnnounceObject_decode f = Inr m2 \<longleftrightarrow> announce_object_wf m2 \<and> fr_payload f = AnnounceObject_encode m2) \<and>
   (decode_message AnnounceAck_decode f = Inr m3 \<longleftrightarrow> announce_ack_wf m3 \<and> fr_payload f = AnnounceAck_encode m3) \<and>
   (decode_message GrantTransfer_decode f = Inr m4 \<longleftrightarrow> grant_transfer_wf m4 \<and> fr_payload f = GrantTransfer_encode m4) \<and>
   (decode_message GrantAck_decode f = Inr m5 \<longleftrightarrow> grant_ack_wf m5 \<and> fr_payload f = GrantAck_encode m5) \<and>
   (decode_message ExecuteMovement_decode f = Inr m6 \<longleftrightarrow> execute_movement_wf m6 \<and> fr_payload f = ExecuteMovement_encode m6) \<and>
   (decode_message AttemptResult_decode f = Inr m7 \<longleftrightarrow> attempt_result_wf m7 \<and> fr_payload f = AttemptResult_encode m7) \<and>
   (decode_message CancelRequest_decode f = Inr m8 \<longleftrightarrow> cancel_request_wf m8 \<and> fr_payload f = CancelRequest_encode m8) \<and>
   (decode_message CancelAck_decode f = Inr m9 \<longleftrightarrow> cancel_ack_wf m9 \<and> fr_payload f = CancelAck_encode m9) \<and>
   (decode_message CommitRequest_decode f = Inr m10 \<longleftrightarrow> commit_request_wf m10 \<and> fr_payload f = CommitRequest_encode m10) \<and>
   (decode_message CommitResult_decode f = Inr m11 \<longleftrightarrow> commit_result_wf m11 \<and> fr_payload f = CommitResult_encode m11) \<and>
   (decode_message VerifyRequest_decode f = Inr m12 \<longleftrightarrow> verify_request_wf m12 \<and> fr_payload f = VerifyRequest_encode m12) \<and>
   (decode_message VerifyResponse_decode f = Inr m13 \<longleftrightarrow> verify_response_wf m13 \<and> fr_payload f = VerifyResponse_encode m13) \<and>
   (decode_message AuthorityQuery_decode f = Inr m14 \<longleftrightarrow> authority_query_wf m14 \<and> fr_payload f = AuthorityQuery_encode m14) \<and>
   (decode_message AuthorityReport_decode f = Inr m15 \<longleftrightarrow> authority_report_wf m15 \<and> fr_payload f = AuthorityReport_encode m15) \<and>
   (decode_message CleanupRequest_decode f = Inr m16 \<longleftrightarrow> cleanup_request_wf m16 \<and> fr_payload f = CleanupRequest_encode m16) \<and>
   (decode_message CleanupResult_decode f = Inr m17 \<longleftrightarrow> cleanup_result_wf m17 \<and> fr_payload f = CleanupResult_encode m17) \<and>
   (decode_message DataBegin_decode f = Inr m18 \<longleftrightarrow> data_begin_wf m18 \<and> fr_payload f = DataBegin_encode m18) \<and>
   (decode_message DataBeginAck_decode f = Inr m19 \<longleftrightarrow> data_begin_ack_wf m19 \<and> fr_payload f = DataBeginAck_encode m19) \<and>
   (decode_message DataChunk_decode f = Inr m20 \<longleftrightarrow> data_chunk_wf m20 \<and> fr_payload f = DataChunk_encode m20) \<and>
   (decode_message DataChunkAck_decode f = Inr m21 \<longleftrightarrow> data_chunk_ack_wf m21 \<and> fr_payload f = DataChunkAck_encode m21) \<and>
   (decode_message DataEnd_decode f = Inr m22 \<longleftrightarrow> data_end_wf m22 \<and> fr_payload f = DataEnd_encode m22) \<and>
   (decode_message DataResult_decode f = Inr m23 \<longleftrightarrow> data_result_wf m23 \<and> fr_payload f = DataResult_encode m23) \<and>
   (decode_message DataAbort_decode f = Inr m24 \<longleftrightarrow> data_abort_wf m24 \<and> fr_payload f = DataAbort_encode m24) \<and>
   (decode_message SubmitMovement_decode f = Inr m25 \<longleftrightarrow> submit_movement_wf m25 \<and> fr_payload f = SubmitMovement_encode m25) \<and>
   (decode_message MovementAccepted_decode f = Inr m26 \<longleftrightarrow> movement_accepted_wf m26 \<and> fr_payload f = MovementAccepted_encode m26) \<and>
   (decode_message QueryMovement_decode f = Inr m27 \<longleftrightarrow> query_movement_wf m27 \<and> fr_payload f = QueryMovement_encode m27) \<and>
   (decode_message MovementStatus_decode f = Inr m28 \<longleftrightarrow> movement_status_wf m28 \<and> fr_payload f = MovementStatus_encode m28) \<and>
   (decode_message ListMovements_decode f = Inr m29 \<longleftrightarrow> list_movements_wf m29 \<and> fr_payload f = ListMovements_encode m29) \<and>
   (decode_message MovementList_decode f = Inr m30 \<longleftrightarrow> movement_list_wf m30 \<and> fr_payload f = MovementList_encode m30) \<and>
   (decode_message CancelMovement_decode f = Inr m31 \<longleftrightarrow> cancel_movement_wf m31 \<and> fr_payload f = CancelMovement_encode m31) \<and>
   (decode_message ReconcileMovement_decode f = Inr m32 \<longleftrightarrow> reconcile_movement_wf m32 \<and> fr_payload f = ReconcileMovement_encode m32) \<and>
   (decode_message ProvenanceRequest_decode f = Inr m33 \<longleftrightarrow> provenance_request_wf m33 \<and> fr_payload f = ProvenanceRequest_encode m33) \<and>
   (decode_message ProvenanceReport_decode f = Inr m34 \<longleftrightarrow> provenance_report_wf m34 \<and> fr_payload f = ProvenanceReport_encode m34) \<and>
   (decode_message TopologyRequest_decode f = Inr m35 \<longleftrightarrow> topology_request_wf m35 \<and> fr_payload f = TopologyRequest_encode m35) \<and>
   (decode_message TopologyReport_decode f = Inr m36 \<longleftrightarrow> topology_report_wf m36 \<and> fr_payload f = TopologyReport_encode m36) \<and>
   (decode_message PolicyRequest_decode f = Inr m37 \<longleftrightarrow> policy_request_wf m37 \<and> fr_payload f = PolicyRequest_encode m37) \<and>
   (decode_message PolicyReport_decode f = Inr m38 \<longleftrightarrow> policy_report_wf m38 \<and> fr_payload f = PolicyReport_encode m38) \<and>
   (decode_message ShutdownRequest_decode f = Inr m39 \<longleftrightarrow> shutdown_request_wf m39 \<and> fr_payload f = ShutdownRequest_encode m39) \<and>
   (decode_message ShutdownAck_decode f = Inr m40 \<longleftrightarrow> shutdown_ack_wf m40 \<and> fr_payload f = ShutdownAck_encode m40) \<and>
   (decode_message ErrorMessage_decode f = Inr m41 \<longleftrightarrow> error_message_wf m41 \<and> fr_payload f = ErrorMessage_encode m41)"
  by (simp only: register_request.decode_message_iff register_ack.decode_message_iff
      announce_object.decode_message_iff announce_ack.decode_message_iff
      grant_transfer.decode_message_iff grant_ack.decode_message_iff
      execute_movement.decode_message_iff attempt_result.decode_message_iff
      cancel_request.decode_message_iff cancel_ack.decode_message_iff
      commit_request.decode_message_iff commit_result.decode_message_iff
      verify_request.decode_message_iff verify_response.decode_message_iff
      authority_query.decode_message_iff authority_report.decode_message_iff
      cleanup_request.decode_message_iff cleanup_result.decode_message_iff
      data_begin.decode_message_iff data_begin_ack.decode_message_iff
      data_chunk.decode_message_iff data_chunk_ack.decode_message_iff
      data_end.decode_message_iff data_result.decode_message_iff data_abort.decode_message_iff
      submit_movement.decode_message_iff movement_accepted.decode_message_iff
      query_movement.decode_message_iff movement_status.decode_message_iff
      list_movements.decode_message_iff movement_list.decode_message_iff
      cancel_movement.decode_message_iff reconcile_movement.decode_message_iff
      provenance_request.decode_message_iff provenance_report.decode_message_iff
      topology_request.decode_message_iff topology_report.decode_message_iff
      policy_request.decode_message_iff policy_report.decode_message_iff
      shutdown_request.decode_message_iff shutdown_ack.decode_message_iff
      error_message.decode_message_iff
      conj_assoc simp_thms)

text \<open>C29: no two messages start with the same domain string and no two travel under the same frame
  type, so the messages that carry authority refuse a payload that was made for any other
  message.\<close>

theorem domains_separate_messages:
  assumes "dec_ok d" "(domain, type) \<in> set MessageTypeFor" "reads d 0 (enc_text domain)"
  shows "distinct (map fst MessageTypeFor) \<and> distinct (map snd standalone_messages) \<and>
    (domain \<noteq> ''SMF-MSG-GRANT-TRANSFER-v1'' \<longrightarrow> (\<exists>s. GrantTransfer_decode d 0 = Inl s)) \<and>
    (domain \<noteq> ''SMF-MSG-EXECUTE-MOVEMENT-v1'' \<longrightarrow> (\<exists>s. ExecuteMovement_decode d 0 = Inl s)) \<and>
    (domain \<noteq> ''SMF-MSG-COMMIT-REQUEST-v1'' \<longrightarrow> (\<exists>s. CommitRequest_decode d 0 = Inl s)) \<and>
    (domain \<noteq> ''SMF-MSG-COMMIT-RESULT-v1'' \<longrightarrow> (\<exists>s. CommitResult_decode d 0 = Inl s)) \<and>
    (domain \<noteq> ''SMF-MSG-CANCEL-REQUEST-v1'' \<longrightarrow> (\<exists>s. CancelRequest_decode d 0 = Inl s)) \<and>
    (domain \<noteq> ''SMF-MSG-CLEANUP-REQUEST-v1'' \<longrightarrow> (\<exists>s. CleanupRequest_decode d 0 = Inl s)) \<and>
    (domain \<noteq> ''SMF-MSG-DATA-CHUNK-v1'' \<longrightarrow> (\<exists>s. DataChunk_decode d 0 = Inl s))"
proof -
  note foreign = listed_domain_ok [OF assms(2)]
  show ?thesis
    by (intro conjI impI MessageTypeFor_distinct standalone_types_distinct exI)
      (erule grant_transfer.foreign_domain_rejected [OF assms(1) foreign _ assms(3)]
        execute_movement.foreign_domain_rejected [OF assms(1) foreign _ assms(3)]
        commit_request.foreign_domain_rejected [OF assms(1) foreign _ assms(3)]
        commit_result.foreign_domain_rejected [OF assms(1) foreign _ assms(3)]
        cancel_request.foreign_domain_rejected [OF assms(1) foreign _ assms(3)]
        cleanup_request.foreign_domain_rejected [OF assms(1) foreign _ assms(3)]
        data_chunk.foreign_domain_rejected [OF assms(1) foreign _ assms(3)])+
qed

lemma query_movement_listed: "(''SMF-MSG-QUERY-MOVEMENT-v1'', MT_QUERY_MOVEMENT) \<in> set MessageTypeFor"
  by (simp add: MessageTypeFor_def)

theorem domains_separate_messages_witness:
  "\<exists>s. CommitRequest_decode (generous_decoder (QueryMovement_encode \<lparr>qm_movement_id = 1\<rparr>)) 0 = Inl s"
proof -
  have "reads (generous_decoder (QueryMovement_encode \<lparr>qm_movement_id = 1\<rparr>)) 0
      (enc_text ''SMF-MSG-QUERY-MOVEMENT-v1'')"
    using spells_at [of "generous_decoder (QueryMovement_encode \<lparr>qm_movement_id = 1\<rparr>)" "[]"
        "enc_text ''SMF-MSG-QUERY-MOVEMENT-v1''" "FixedId_encode (1 :: movement_id)"]
    unfolding spells_reads generous_decoder_simps QueryMovement_encode_def by simp
  then show ?thesis
    using domains_separate_messages [of "generous_decoder (QueryMovement_encode \<lparr>qm_movement_id = 1\<rparr>)"
        "''SMF-MSG-QUERY-MOVEMENT-v1''" MT_QUERY_MOVEMENT] query_movement_listed
    by simp
qed

text \<open>C7: end to end, a well-formed chunk that fits the frame bound is sent, and the peer whose
  session is in step receives exactly that chunk, however the connection fragments the bytes,
  and both sides are in step again.\<close>

theorem chunk_delivered:
  assumes "transmits send_all pending" "delivers receive_some pending" "data_chunk_wf m"
    "in_step sender receiver" "fc_send_sequence sender \<noteq> 0" "fc_key sender \<noteq> None"
    "length (DataChunk_encode m) \<le> unat n" "pending c = []"
  shows "\<exists>sender' c' receiver' c''.
    send_message send_all n MT_DATA_CHUNK DataChunk_validate DataChunk_encode m (sender, c) =
      (Status_success, sender', c') \<and>
    receive_message receive_some n MT_DATA_CHUNK DataChunk_decode (receiver, c') = (Inr m, receiver', c'') \<and>
    in_step sender' receiver' \<and> pending c'' = []"
proof -
  obtain sender' c' where sent:
      "send_message send_all n MT_DATA_CHUNK DataChunk_validate DataChunk_encode m (sender, c) =
        (Status_success, sender', c')"
    using data_chunk.send_message_accepts [OF assms(1,3,6,7)] by blast
  then show ?thesis
    using data_chunk.sent_message_received [OF assms(1-5,8) sent _ assms(6)] by simp
qed

definition sample_chunk :: data_chunk where
  "sample_chunk = \<lparr>dc_movement_id = 1, dc_attempt = 1, dc_chunk_index = 0, dc_chunk_offset = 0,
     dc_chunk_length = 2, dc_chunk_digest = 3, dc_payload = [4, 5]\<rparr>"

definition byte_queue_send :: "bytes \<Rightarrow> bytes \<Rightarrow> status \<times> bytes" where
  "byte_queue_send bs c = (Status_success, c @ bs)"

definition byte_queue_receive :: "nat \<Rightarrow> bytes \<Rightarrow> bytes result \<times> bytes" where
  "byte_queue_receive n c = (Inr (take (min 1 n) c), drop (min 1 n) c)"

lemma byte_queue: "transmits byte_queue_send id" "delivers byte_queue_receive id"
  by (auto simp: transmits_def delivers_def byte_queue_send_def byte_queue_receive_def)

theorem chunk_delivered_witness:
  "\<exists>sender' c' receiver' c''.
    send_message byte_queue_send 1000 MT_DATA_CHUNK DataChunk_validate DataChunk_encode sample_chunk
      (sample_codec, []) = (Status_success, sender', c') \<and>
    receive_message byte_queue_receive 1000 MT_DATA_CHUNK DataChunk_decode (sample_codec, c') =
      (Inr sample_chunk, receiver', c'')"
proof -
  have "data_chunk_wf sample_chunk" "length (DataChunk_encode sample_chunk) \<le> 1000"
    by (simp_all add: data_chunk_wf_def DataChunk_validate_def sample_chunk_def DataChunk_encode_def
        enc_text_def enc_blob_def FixedId_encode_def FixedId_view_def enc_u32_def enc_u64_def enc_digest_def)
  then show ?thesis
    using chunk_delivered [OF byte_queue, of sample_chunk sample_codec sample_codec 1000 "[]"]
    by (simp add: in_step_def sample_codec_def) blast
qed

text \<open>The resume position a destination declares in a data begin message never reaches the
  source: the encoding does not depend on it.\<close>

lemma data_begin_drops_resume:
  "DataBegin_encode (m\<lparr>db_resume_from_chunk := chunk, db_resume_from_offset := offset\<rparr>) = DataBegin_encode m"
  by (simp add: DataBegin_encode_def)

text \<open>C40: a chunk of the largest size the wire bound admits is well formed, and yet cannot be sent
  under the default frame payload bound.\<close>

theorem largest_chunk_exceeds_frame:
  "\<exists>m. data_chunk_wf m \<and> length (dc_payload m) = kMaxWireChunkBytes \<and>
    status_code (fst (send_message send_all (word_of_nat kMaxFramePayloadBytes) MT_DATA_CHUNK
      DataChunk_validate DataChunk_encode m (sender, c))) = PROTOCOL_PAYLOAD_TOO_LARGE"
proof -
  let ?m = "\<lparr>dc_movement_id = 1, dc_attempt = 1, dc_chunk_index = 0, dc_chunk_offset = 0,
     dc_chunk_length = 2 ^ 20, dc_chunk_digest = 3, dc_payload = replicate (2 ^ 20) 0\<rparr>"
  have "data_chunk_wf ?m"
    by (simp add: data_chunk_wf_def DataChunk_validate_def)
  moreover have "length (DataChunk_encode ?m) > 2 ^ 20"
    by (simp add: DataChunk_encode_def enc_blob_def enc_text_def)
  then have "status_code (fst (send_message send_all (word_of_nat kMaxFramePayloadBytes) MT_DATA_CHUNK
      DataChunk_validate DataChunk_encode ?m (sender, c))) = PROTOCOL_PAYLOAD_TOO_LARGE"
    using \<open>data_chunk_wf ?m\<close>
    by (simp add: send_message_def data_chunk_wf_def FrameStream_send_def FrameCodec_encode_def)
  ultimately show ?thesis
    by (intro exI [of _ ?m]) simp
qed

end
