(* ===== verification/SMF_File.thy ===== *)
theory SMF_File
  imports SMF_Status "HOL-Library.AList" "HOL-Library.Sublist"
begin

text \<open>
  Files (src/file_utils.hpp, src/file_utils.cpp) over a model of what the program uses of the
  operating system.

  A file system is a table of nodes by path, the locks that are held, and a script with the
  outcomes of the coming system calls: a call takes the next entry of the script, and succeeds
  when the script is exhausted. A failing call carries the number of bytes it transferred, so a
  short write leaves a prefix behind. A crash of the process leaves what a run leaves in which
  every call from some point on fails without transferring anything. The queries
  \<^verbatim>\<open>exists\<close> and \<^verbatim>\<open>file_size\<close> read the table and take no entry. Bytes
  written through a handle are in the file at once: the buffer of the C library is not modelled.

  Operations that act on files return a result and the state they leave; a
  \<^verbatim>\<open>Status\<close> is a \<open>unit result\<close>.
\<close>

section \<open>Actions on a state\<close>

type_synonym ('s, 'a) io = "'s \<Rightarrow> 'a result \<times> 's"

definition return_io :: "'a \<Rightarrow> ('s, 'a) io" where
  "return_io x s = (Inr x, s)"

definition fail_io :: "reason_code \<Rightarrow> string \<Rightarrow> ('s, 'a) io" where
  "fail_io code message s = (err code message, s)"

definition lift_io :: "'a result \<Rightarrow> ('s, 'a) io" where
  "lift_io r s = (r, s)"

definition bind_io :: "('s, 'a) io \<Rightarrow> ('a \<Rightarrow> ('s, 'b) io) \<Rightarrow> ('s, 'b) io" where
  "bind_io m k s = (case m s of (Inl e, s) \<Rightarrow> (Inl e, s) | (Inr x, s) \<Rightarrow> k x s)"

section \<open>The file system\<close>

type_synonym path = "string list"

datatype node = File bytes | Directory

datatype io_outcome = IO_done | IO_failed nat

record file_system =
  fs_nodes :: "(path \<times> node) list"
  fs_script :: "io_outcome list"
  fs_locked :: "path list"

definition fs_lookup :: "file_system \<Rightarrow> path \<Rightarrow> node option" where
  "fs_lookup fs p = map_of (fs_nodes fs) p"

definition file_contents :: "file_system \<Rightarrow> path \<Rightarrow> bytes" where
  "file_contents fs p = (case fs_lookup fs p of Some (File b) \<Rightarrow> b | _ \<Rightarrow> [])"

definition is_file :: "file_system \<Rightarrow> path \<Rightarrow> bool" where
  "is_file fs p \<longleftrightarrow> (case fs_lookup fs p of Some (File _) \<Rightarrow> True | _ \<Rightarrow> False)"

definition is_directory :: "file_system \<Rightarrow> path \<Rightarrow> bool" where
  "is_directory fs p \<longleftrightarrow> p = [] \<or> fs_lookup fs p = Some Directory"

definition set_node :: "path \<Rightarrow> node \<Rightarrow> file_system \<Rightarrow> file_system" where
  "set_node p n fs = fs\<lparr>fs_nodes := AList.update p n (fs_nodes fs)\<rparr>"

definition drop_nodes :: "(path \<Rightarrow> bool) \<Rightarrow> file_system \<Rightarrow> file_system" where
  "drop_nodes P fs = fs\<lparr>fs_nodes := filter (\<lambda>(q, _). \<not> P q) (fs_nodes fs)\<rparr>"

definition os_outcome :: "file_system \<Rightarrow> io_outcome \<times> file_system" where
  "os_outcome fs =
    (case fs_script fs of
       [] \<Rightarrow> (IO_done, fs)
     | outcome # rest \<Rightarrow> (outcome, fs\<lparr>fs_script := rest\<rparr>))"

definition os_call :: "string \<Rightarrow> (file_system, unit) io" where
  "os_call what fs =
    (case os_outcome fs of
       (IO_done, fs) \<Rightarrow> (Inr (), fs)
     | (IO_failed _, fs) \<Rightarrow> (err STORE_IO_ERROR what, fs))"

definition path_string :: "path \<Rightarrow> string" where
  "path_string p = concat (map (\<lambda>c. ''/'' @ c) p)"

definition path_suffix :: "path \<Rightarrow> string \<Rightarrow> path" where
  "path_suffix p s = butlast p @ [last p @ s]"

section \<open>What the program uses of std::filesystem\<close>

text \<open>Each of these returns its error code as a flag, true for an error.\<close>

definition fs_exists :: "file_system \<Rightarrow> path \<Rightarrow> bool" where
  "fs_exists fs p \<longleftrightarrow> p = [] \<or> fs_lookup fs p \<noteq> None"

definition fs_file_size :: "file_system \<Rightarrow> path \<Rightarrow> nat option" where
  "fs_file_size fs p = (case fs_lookup fs p of Some (File b) \<Rightarrow> Some (length b) | _ \<Rightarrow> None)"

definition fs_create_directories :: "path \<Rightarrow> file_system \<Rightarrow> bool \<times> file_system" where
  "fs_create_directories p fs =
    (case os_outcome fs of
       (IO_failed _, fs) \<Rightarrow> (True, fs)
     | (IO_done, fs) \<Rightarrow>
         if list_ex (is_file fs) (prefixes p) then (True, fs)
         else (False, fold (\<lambda>q. set_node q Directory) (tl (prefixes p)) fs))"

definition fs_remove :: "path \<Rightarrow> file_system \<Rightarrow> bool \<times> file_system" where
  "fs_remove p fs =
    (case os_outcome fs of
       (IO_failed _, fs) \<Rightarrow> (True, fs)
     | (IO_done, fs) \<Rightarrow>
         if list_ex (\<lambda>(q, _). strict_prefix p q) (fs_nodes fs) then (True, fs)
         else (False, drop_nodes (\<lambda>q. q = p) fs))"

definition fs_remove_all :: "path \<Rightarrow> file_system \<Rightarrow> bool \<times> file_system" where
  "fs_remove_all p fs =
    (case os_outcome fs of
       (IO_failed _, fs) \<Rightarrow> (True, fs)
     | (IO_done, fs) \<Rightarrow> (False, drop_nodes (prefix p) fs))"

definition fs_rename :: "path \<Rightarrow> path \<Rightarrow> file_system \<Rightarrow> bool \<times> file_system" where
  "fs_rename a b fs =
    (case os_outcome fs of
       (IO_failed _, fs) \<Rightarrow> (True, fs)
     | (IO_done, fs) \<Rightarrow>
         if b = [] \<or> \<not> is_directory fs (butlast b) then (True, fs)
         else case fs_lookup fs a of
           None \<Rightarrow> (True, fs)
         | Some (File c) \<Rightarrow>
             if fs_lookup fs b = Some Directory then (True, fs)
             else (False, set_node b (File c) (drop_nodes (\<lambda>q. q = a) fs))
         | Some Directory \<Rightarrow>
             if is_file fs b \<or> prefix a b \<or> list_ex (\<lambda>(q, _). strict_prefix b q) (fs_nodes fs)
             then (True, fs)
             else (False,
               (drop_nodes (\<lambda>q. prefix a q \<or> q = b) fs)\<lparr>fs_nodes :=
                  map (\<lambda>(q, n). (b @ drop (length a) q, n)) (filter (\<lambda>(q, _). prefix a q) (fs_nodes fs)) @
                  fs_nodes (drop_nodes (\<lambda>q. prefix a q \<or> q = b) fs)\<rparr>))"

section \<open>File handles\<close>

text \<open>An open handle is a path and a position; \<open>None\<close> is the null \<^verbatim>\<open>FILE*\<close>.\<close>

record file_handle =
  hd_path :: path
  hd_position :: nat

type_synonym handle_world = "file_handle option \<times> file_system"

definition fopen_existing :: "path \<Rightarrow> file_system \<Rightarrow> file_handle option \<times> file_system" where
  "fopen_existing p fs =
    (case os_outcome fs of
       (IO_failed _, fs) \<Rightarrow> (None, fs)
     | (IO_done, fs) \<Rightarrow>
         (if is_file fs p then Some \<lparr>hd_path = p, hd_position = 0\<rparr> else None, fs))"

definition fopen_truncating :: "path \<Rightarrow> file_system \<Rightarrow> file_handle option \<times> file_system" where
  "fopen_truncating p fs =
    (case os_outcome fs of
       (IO_failed _, fs) \<Rightarrow> (None, fs)
     | (IO_done, fs) \<Rightarrow>
         if p = [] \<or> fs_lookup fs p = Some Directory \<or> \<not> is_directory fs (butlast p) then (None, fs)
         else (Some \<lparr>hd_path = p, hd_position = 0\<rparr>, set_node p (File []) fs))"

definition FileHandle_close :: "handle_world \<Rightarrow> handle_world" where
  "FileHandle_close = (\<lambda>(h, fs). (None, fs))"

definition FileHandle_open :: "path \<Rightarrow> bool \<Rightarrow> (handle_world, unit) io" where
  "FileHandle_open p for_write w =
    (let (_, fs) = FileHandle_close w;
         (file, fs) = fopen_existing p fs;
         (file, fs) = (if file = None \<and> for_write then fopen_truncating p fs else (file, fs))
     in if file = None then (err STORE_IO_ERROR (''could not open '' @ path_string p), (None, fs))
        else (Inr (), (file, fs)))"

definition write_at :: "nat \<Rightarrow> bytes \<Rightarrow> bytes \<Rightarrow> bytes" where
  "write_at pos data old =
     take pos (old @ replicate (pos - length old) 0) @ data @ drop (pos + length data) old"

definition set_contents :: "path \<Rightarrow> bytes \<Rightarrow> file_system \<Rightarrow> file_system" where
  "set_contents p b fs = (if is_file fs p then set_node p (File b) fs else fs)"

definition FileHandle_write :: "bytes \<Rightarrow> (handle_world, unit) io" where
  "FileHandle_write data = (\<lambda>(h, fs).
    case h of
      None \<Rightarrow> (err STORE_IO_ERROR ''file is not open'', (h, fs))
    | Some f \<Rightarrow>
        if data = [] then (Inr (), (h, fs))
        else
          let (outcome, fs) = os_outcome fs;
              written = (case outcome of IO_done \<Rightarrow> length data | IO_failed n \<Rightarrow> min n (length data));
              contents = write_at (hd_position f) (take written data) (file_contents fs (hd_path f));
              fs = (if written = 0 then fs else set_contents (hd_path f) contents fs);
              h = Some (f\<lparr>hd_position := hd_position f + written\<rparr>)
          in if written \<noteq> length data then (err STORE_IO_ERROR ''short write'', (h, fs))
             else (Inr (), (h, fs)))"

definition FileHandle_read :: "nat \<Rightarrow> (handle_world, bytes) io" where
  "FileHandle_read count = (\<lambda>(h, fs).
    case h of
      None \<Rightarrow> (err STORE_IO_ERROR ''file is not open'', (h, fs))
    | Some f \<Rightarrow>
        let (outcome, fs) = os_outcome fs;
            available = take count (drop (hd_position f) (file_contents fs (hd_path f)));
            data = (case outcome of IO_done \<Rightarrow> available | IO_failed n \<Rightarrow> take n available);
            h = Some (f\<lparr>hd_position := hd_position f + length data\<rparr>)
        in if length data \<noteq> count \<and> outcome \<noteq> IO_done then (err STORE_IO_ERROR ''read error'', (h, fs))
           else (Inr data, (h, fs)))"

definition on_system :: "(file_system, 'a) io \<Rightarrow> (handle_world, 'a) io" where
  "on_system m = (\<lambda>(h, fs). case m fs of (r, fs) \<Rightarrow> (r, (h, fs)))"

definition FileHandle_sync :: "(handle_world, unit) io" where
  "FileHandle_sync w =
    (if fst w = None then (Inr (), w)
     else bind_io (on_system (os_call ''flush failed'')) (\<lambda>_.
       on_system (os_call ''fsync failed'')) w)"

definition set_position :: "nat \<Rightarrow> handle_world \<Rightarrow> handle_world" where
  "set_position pos = (\<lambda>(h, fs). (map_option (\<lambda>f. f\<lparr>hd_position := pos\<rparr>) h, fs))"

definition FileHandle_seek :: "nat \<Rightarrow> (handle_world, unit) io" where
  "FileHandle_seek offset w =
    (if fst w = None then (err STORE_IO_ERROR ''file is not open'', w)
     else case on_system (os_call ''seek failed'') w of
       (Inl s, w) \<Rightarrow> (Inl s, w)
     | (Inr _, w) \<Rightarrow>
         if offset \<ge> 2 ^ 63 then (err STORE_IO_ERROR ''seek failed'', w)
         else (Inr (), set_position offset w))"

definition resize :: "nat \<Rightarrow> bytes \<Rightarrow> bytes" where
  "resize n b = take n b @ replicate (n - length b) 0"

definition FileHandle_truncate_at :: "nat \<Rightarrow> (handle_world, unit) io" where
  "FileHandle_truncate_at offset = (\<lambda>(h, fs).
    case h of
      None \<Rightarrow> (err STORE_IO_ERROR ''file is not open'', (h, fs))
    | Some f \<Rightarrow>
        bind_io (on_system (os_call ''flush before truncate failed'')) (\<lambda>_.
        bind_io (on_system (os_call ''truncate failed'')) (\<lambda>_ (h, fs).
          FileHandle_seek offset
            (h, set_contents (hd_path f) (resize offset (file_contents fs (hd_path f))) fs))) (h, fs))"

definition FileHandle_size :: "(handle_world, nat) io" where
  "FileHandle_size = (\<lambda>(h, fs).
    case h of
      None \<Rightarrow> (err STORE_IO_ERROR ''file is not open'', (h, fs))
    | Some f \<Rightarrow>
        bind_io (on_system (os_call ''tell failed'')) (\<lambda>_.
        bind_io (on_system (os_call ''seek to end failed'')) (\<lambda>_.
        bind_io (on_system (os_call ''tell failed'')) (\<lambda>_.
        bind_io (on_system (os_call ''seek back failed'')) (\<lambda>_ (h, fs).
          (Inr (length (file_contents fs (hd_path f))), (h, fs)))))) (h, fs))"

section \<open>Locks and whole files\<close>

type_synonym lock_world = "path option \<times> file_system"

definition FileLock_release :: "lock_world \<Rightarrow> lock_world" where
  "FileLock_release = (\<lambda>(held, fs).
    case held of
      None \<Rightarrow> (None, fs)
    | Some p \<Rightarrow> (None, fs\<lparr>fs_locked := removeAll p (fs_locked fs)\<rparr>))"

definition FileLock_acquire :: "path \<Rightarrow> (lock_world, unit) io" where
  "FileLock_acquire p w =
    (let (_, fs) = FileLock_release w;
         (outcome, fs) = os_outcome fs
     in if outcome \<noteq> IO_done \<or> fs_lookup fs p = Some Directory \<or> \<not> is_directory fs (butlast p)
        then (err STORE_IO_ERROR ''could not open the lock file'', (None, fs))
        else
          let fs = (if is_file fs p then fs else set_node p (File []) fs)
          in if p \<in> set (fs_locked fs)
             then (err STORE_LOCKED ''the directory is already in use by another process'', (None, fs))
             else (Inr (), (Some p, fs\<lparr>fs_locked := p # fs_locked fs\<rparr>)))"

definition sync_existing_file :: "path \<Rightarrow> (file_system, unit) io" where
  "sync_existing_file p fs =
    (let (outcome, fs) = os_outcome fs
     in if outcome \<noteq> IO_done \<or> \<not> fs_exists fs p
        then (err STORE_IO_ERROR ''could not open the file to sync it'', fs)
        else os_call ''fsync failed'' fs)"

text \<open>A handle local to a block: it is open for the block and closed on every way out of it.\<close>

definition with_handle :: "(handle_world, 'a) io \<Rightarrow> (file_system, 'a) io" where
  "with_handle m fs = (case m (None, fs) of (r, (_, fs)) \<Rightarrow> (r, fs))"

definition replace_temporary :: "path \<Rightarrow> path" where
  "replace_temporary target = path_suffix target ''.tmp-replace''"

definition atomic_replace_file :: "path \<Rightarrow> bytes \<Rightarrow> bool \<Rightarrow> (file_system, unit) io" where
  "atomic_replace_file target contents sync_to_disk fs =
    (let (_, fs) = fs_remove (replace_temporary target) fs
     in bind_io (with_handle (
          bind_io (FileHandle_open (replace_temporary target) True) (\<lambda>_.
          bind_io (FileHandle_write contents) (\<lambda>_.
            if sync_to_disk then FileHandle_sync else return_io ())))) (\<lambda>_ fs.
          let (error, fs) = fs_rename (replace_temporary target) target fs
          in if error
             then let (_, fs) = fs_remove (replace_temporary target) fs
                  in (err STORE_IO_ERROR ''atomic replacement failed'', fs)
             else (Inr (), fs)) fs)"

section \<open>Laws of actions and nodes\<close>

named_theorems io_simps

lemma bind_io_simps [io_simps]:
  "bind_io (return_io x) k = k x" "bind_io (fail_io c what) k = fail_io c what"
  "m s = (Inr x, s') \<Longrightarrow> bind_io m k s = k x s'" "m s = (Inl e, s') \<Longrightarrow> bind_io m k s = (Inl e, s')"
  by (auto simp: bind_io_def return_io_def fail_io_def fun_eq_iff)

lemma bind_io_Inr_iff:
  "bind_io m k s = (Inr y, t) \<longleftrightarrow> (\<exists>x s'. m s = (Inr x, s') \<and> k x s' = (Inr y, t))"
  by (auto simp: bind_io_def split: prod.splits sum.splits)

lemma bind_io_Inl_iff:
  "bind_io m k s = (Inl e, t) \<longleftrightarrow>
     m s = (Inl e, t) \<or> (\<exists>x s'. m s = (Inr x, s') \<and> k x s' = (Inl e, t))"
  by (auto simp: bind_io_def split: prod.splits sum.splits)

lemma map_of_filter_key: "map_of (filter (\<lambda>(q, _). P q) xs) = (\<lambda>q. if P q then map_of xs q else None)"
  by (induction xs) (auto simp: fun_eq_iff)

lemma fs_lookup_simps [simp]:
  "fs_lookup (set_node p n fs) q = (if q = p then Some n else fs_lookup fs q)"
  "fs_lookup (drop_nodes P fs) q = (if P q then None else fs_lookup fs q)"
  "fs_lookup (fs\<lparr>fs_script := sc\<rparr>) q = fs_lookup fs q"
  "fs_lookup (fs\<lparr>fs_locked := l\<rparr>) q = fs_lookup fs q"
  by (simp_all add: fs_lookup_def set_node_def drop_nodes_def map_of_filter_key update_conv')

lemma fs_fields_simps [simp]:
  "fs_script (set_node p n fs) = fs_script fs" "fs_locked (set_node p n fs) = fs_locked fs"
  "fs_script (drop_nodes P fs) = fs_script fs" "fs_locked (drop_nodes P fs) = fs_locked fs"
  by (simp_all add: set_node_def drop_nodes_def)

lemma file_simps [simp]:
  "is_file (fs\<lparr>fs_script := sc\<rparr>) p = is_file fs p"
  "is_directory (fs\<lparr>fs_script := sc\<rparr>) p = is_directory fs p"
  "file_contents (fs\<lparr>fs_script := sc\<rparr>) p = file_contents fs p"
  "is_file (set_node q (File b) fs) p \<longleftrightarrow> p = q \<or> is_file fs p"
  "file_contents (set_node q (File b) fs) p = (if p = q then b else file_contents fs p)"
  by (simp_all add: is_file_def is_directory_def file_contents_def)

lemma is_file_iff: "is_file fs p \<longleftrightarrow> fs_lookup fs p = Some (File (file_contents fs p))"
  by (auto simp: is_file_def file_contents_def split: option.splits node.splits)

lemma fs_lookup_set_contents [simp]:
  "fs_lookup (set_contents p b fs) q = (if q = p \<and> is_file fs p then Some (File b) else fs_lookup fs q)"
  "fs_script (set_contents p b fs) = fs_script fs" "fs_locked (set_contents p b fs) = fs_locked fs"
  "is_file (set_contents p b fs) q = is_file fs q"
  "file_contents (set_contents p b fs) q = (if q = p \<and> is_file fs p then b else file_contents fs q)"
  by (auto simp: set_contents_def is_file_def file_contents_def)

lemma os_outcome_lookup:
  "os_outcome fs = (out, fs') \<Longrightarrow> fs_lookup fs' = fs_lookup fs \<and> fs_locked fs' = fs_locked fs"
  by (auto simp: os_outcome_def fun_eq_iff split: list.splits)

lemma os_outcome_done [io_simps]: "fs_script fs = [] \<Longrightarrow> os_outcome fs = (IO_done, fs)"
  by (simp add: os_outcome_def)

lemma os_call_done [io_simps]: "fs_script fs = [] \<Longrightarrow> os_call what fs = (Inr (), fs)"
  by (simp add: os_call_def os_outcome_done)

lemma os_call_lookup: "os_call what fs = (r, fs') \<Longrightarrow> fs_lookup fs' = fs_lookup fs"
  by (auto simp: os_call_def dest: os_outcome_lookup split: prod.splits io_outcome.splits)

section \<open>Handles when no call fails\<close>

lemma write_at_end [simp]: "write_at (length old) data old = old @ data"
  by (simp add: write_at_def)

lemma write_at_inside:
  "pos \<le> length old \<Longrightarrow> write_at pos data old = take pos old @ data @ drop (pos + length data) old"
  by (simp add: write_at_def)

lemma length_write_at:
  "pos \<le> length old \<Longrightarrow> length (write_at pos data old) = max (length old) (pos + length data)"
  by (simp add: write_at_inside)

lemma FileHandle_seek_done [io_simps]:
  "fs_script fs = [] \<Longrightarrow> offset < 2 ^ 63 \<Longrightarrow>
   FileHandle_seek offset (Some f, fs) = (Inr (), (Some (f\<lparr>hd_position := offset\<rparr>), fs))"
  by (simp add: FileHandle_seek_def on_system_def set_position_def io_simps)

lemma FileHandle_sync_done [io_simps]:
  "fs_script fs = [] \<Longrightarrow> FileHandle_sync (h, fs) = (Inr (), (h, fs))"
  by (simp add: FileHandle_sync_def on_system_def bind_io_def io_simps)

lemma FileHandle_size_done [io_simps]:
  "fs_script fs = [] \<Longrightarrow>
   FileHandle_size (Some f, fs) = (Inr (length (file_contents fs (hd_path f))), (Some f, fs))"
  by (simp add: FileHandle_size_def on_system_def bind_io_def io_simps)

lemma FileHandle_read_done [io_simps]:
  "fs_script fs = [] \<Longrightarrow>
   FileHandle_read n (Some f, fs) =
     (Inr (take n (drop (hd_position f) (file_contents fs (hd_path f)))),
      (Some (f\<lparr>hd_position := hd_position f +
          length (take n (drop (hd_position f) (file_contents fs (hd_path f))))\<rparr>), fs))"
  by (simp add: FileHandle_read_def io_simps)

lemma FileHandle_write_done [io_simps]:
  "fs_script fs = [] \<Longrightarrow> data \<noteq> [] \<Longrightarrow>
   FileHandle_write data (Some f, fs) =
     (Inr (), (Some (f\<lparr>hd_position := hd_position f + length data\<rparr>),
       set_contents (hd_path f) (write_at (hd_position f) data (file_contents fs (hd_path f))) fs))"
  by (simp add: FileHandle_write_def io_simps)

lemma FileHandle_write_Nil [io_simps]: "FileHandle_write [] (Some f, fs) = (Inr (), (Some f, fs))"
  by (simp add: FileHandle_write_def)

lemma FileHandle_truncate_done [io_simps]:
  "fs_script fs = [] \<Longrightarrow> offset < 2 ^ 63 \<Longrightarrow>
   FileHandle_truncate_at offset (Some f, fs) =
     (Inr (), (Some (f\<lparr>hd_position := offset\<rparr>),
       set_contents (hd_path f) (resize offset (file_contents fs (hd_path f))) fs))"
  by (simp add: FileHandle_truncate_at_def on_system_def bind_io_def io_simps)

lemma FileHandle_open_existing [io_simps]:
  "fs_script fs = [] \<Longrightarrow> is_file fs p \<Longrightarrow>
   FileHandle_open p wr (h, fs) = (Inr (), (Some \<lparr>hd_path = p, hd_position = 0\<rparr>, fs))"
  by (simp add: FileHandle_open_def FileHandle_close_def fopen_existing_def io_simps)

lemma FileHandle_open_new [io_simps]:
  "fs_script fs = [] \<Longrightarrow> fs_lookup fs p = None \<Longrightarrow> p \<noteq> [] \<Longrightarrow> is_directory fs (butlast p) \<Longrightarrow>
   FileHandle_open p True (h, fs) =
     (Inr (), (Some \<lparr>hd_path = p, hd_position = 0\<rparr>, set_node p (File []) fs))"
  by (simp add: FileHandle_open_def FileHandle_close_def fopen_existing_def fopen_truncating_def
      is_file_def io_simps)

section \<open>Handles whatever calls fail\<close>

text \<open>\<open>avoids p m\<close>: an action whose handle is not on \<open>p\<close> leaves the node at \<open>p\<close>
  alone, whichever of its calls fail.\<close>

definition avoids :: "path \<Rightarrow> (handle_world, 'a) io \<Rightarrow> bool" where
  "avoids p m \<longleftrightarrow> (\<forall>h fs r h' fs'. p \<notin> hd_path ` set_option h \<longrightarrow> m (h, fs) = (r, (h', fs')) \<longrightarrow>
     p \<notin> hd_path ` set_option h' \<and> fs_lookup fs' p = fs_lookup fs p)"

named_theorems avoids_intros

lemma avoidsD:
  "avoids p m \<Longrightarrow> p \<notin> hd_path ` set_option h \<Longrightarrow> m (h, fs) = (r, (h', fs')) \<Longrightarrow>
   p \<notin> hd_path ` set_option h' \<and> fs_lookup fs' p = fs_lookup fs p"
  unfolding avoids_def by blast

lemma avoids_bind [avoids_intros]:
  assumes "avoids p m" "\<And>x. avoids p (k x)"
  shows "avoids p (bind_io m k)"
  unfolding avoids_def
proof (intro allI impI)
  fix h fs r h' fs'
  assume h: "p \<notin> hd_path ` set_option h" and run: "bind_io m k (h, fs) = (r, (h', fs'))"
  obtain r1 h1 fs1 where m: "m (h, fs) = (r1, (h1, fs1))"
    by (metis prod.collapse)
  note first = avoidsD [OF assms(1) h m]
  show "p \<notin> hd_path ` set_option h' \<and> fs_lookup fs' p = fs_lookup fs p"
  proof (cases r1)
    case (Inl e)
    then show ?thesis using first run m by (simp add: bind_io_def)
  next
    case (Inr x)
    then show ?thesis using first run m avoidsD [OF assms(2), of h1 x fs1 r h' fs'] by (simp add: bind_io_def)
  qed
qed

lemma avoids_return [avoids_intros]: "avoids p (return_io x)"
  by (simp add: avoids_def return_io_def)

lemma avoids_if [avoids_intros]: "avoids p m \<Longrightarrow> avoids p m' \<Longrightarrow> avoids p (if b then m else m')"
  by simp

lemma avoids_call [avoids_intros]: "avoids p (on_system (os_call what))"
  by (auto simp: avoids_def on_system_def dest: os_call_lookup split: prod.splits)

lemma avoids_sync [avoids_intros]: "avoids p FileHandle_sync"
proof -
  have "avoids p (bind_io (on_system (os_call ''flush failed'')) (\<lambda>_. on_system (os_call ''fsync failed'')))"
    by (intro avoids_intros)
  then show ?thesis
    by (auto simp: avoids_def FileHandle_sync_def)
qed

lemma avoids_write [avoids_intros]: "avoids p (FileHandle_write data)"
  by (auto simp: avoids_def FileHandle_write_def Let_def dest: os_outcome_lookup
      split: option.splits prod.splits if_splits)

lemma avoids_open [avoids_intros]: "p \<noteq> q \<Longrightarrow> avoids p (FileHandle_open q wr)"
  by (auto simp: avoids_def FileHandle_open_def FileHandle_close_def fopen_existing_def
      fopen_truncating_def Let_def dest!: os_outcome_lookup
      split: prod.splits if_splits io_outcome.splits)

lemma avoids_with_handle:
  "avoids p m \<Longrightarrow> with_handle m fs = (r, fs') \<Longrightarrow> fs_lookup fs' p = fs_lookup fs p"
  unfolding avoids_def with_handle_def
  by (auto split: prod.splits)

lemma FileHandle_open_okD:
  assumes "FileHandle_open p True (h, fs) = (Inr u, (h', fs'))" "fs_lookup fs p = None"
  shows "h' = Some \<lparr>hd_path = p, hd_position = 0\<rparr>" "fs_lookup fs' p = Some (File [])"
  using assms
  by (auto simp: FileHandle_open_def FileHandle_close_def fopen_existing_def fopen_truncating_def
      Let_def is_file_def dest!: os_outcome_lookup split: prod.splits if_splits io_outcome.splits)

lemma FileHandle_write_okD:
  assumes "FileHandle_write data (Some f, fs) = (Inr u, (h', fs'))" "is_file fs (hd_path f)"
  shows "h' = Some (f\<lparr>hd_position := hd_position f + length data\<rparr>)"
    "fs_lookup fs' (hd_path f) = Some (File
      (if data = [] then file_contents fs (hd_path f)
       else write_at (hd_position f) data (file_contents fs (hd_path f))))"
  using assms
  by (auto simp: FileHandle_write_def Let_def is_file_iff file_contents_def is_file_def
      dest!: os_outcome_lookup split: prod.splits if_splits io_outcome.splits)

lemma FileHandle_write_append:
  assumes "FileHandle_write data (Some f, fs) = (Inr u, (h', fs'))" "is_file fs (hd_path f)"
    "hd_position f = length (file_contents fs (hd_path f))"
  shows "h' = Some (f\<lparr>hd_position := hd_position f + length data\<rparr>)" "is_file fs' (hd_path f)"
    "file_contents fs' (hd_path f) = file_contents fs (hd_path f) @ data"
proof -
  have "fs_lookup fs' (hd_path f) = Some (File (file_contents fs (hd_path f) @ data))"
    using FileHandle_write_okD(2) [OF assms(1,2)] assms(3) by auto
  then show "h' = Some (f\<lparr>hd_position := hd_position f + length data\<rparr>)" "is_file fs' (hd_path f)"
    "file_contents fs' (hd_path f) = file_contents fs (hd_path f) @ data"
    using FileHandle_write_okD(1) [OF assms(1,2)] by (simp_all add: is_file_def file_contents_def)
qed

lemma FileHandle_sync_lookup:
  "FileHandle_sync (h, fs) = (r, (h', fs')) \<Longrightarrow> h' = h \<and> fs_lookup fs' = fs_lookup fs"
  by (auto simp: FileHandle_sync_def on_system_def bind_io_def dest!: os_call_lookup
      split: prod.splits if_splits sum.splits)

lemma fs_remove_lookup:
  "fs_remove p fs = (e, fs') \<Longrightarrow> q \<noteq> p \<Longrightarrow> fs_lookup fs' q = fs_lookup fs q"
  by (auto simp: fs_remove_def dest!: os_outcome_lookup split: prod.splits if_splits io_outcome.splits)

lemma fs_remove_absent:
  "fs_remove p fs = (e, fs') \<Longrightarrow> fs_lookup fs p = None \<Longrightarrow> fs_lookup fs' p = None"
  by (auto simp: fs_remove_def dest!: os_outcome_lookup split: prod.splits if_splits io_outcome.splits)

lemma fs_rename_file:
  assumes "fs_rename a b fs = (e, fs')" "fs_lookup fs a = Some (File c)" "a \<noteq> b"
  shows "if e then fs_lookup fs' = fs_lookup fs
    else fs_lookup fs' = (fs_lookup fs)(a := None, b := Some (File c))"
  using assms
  by (auto simp: fs_rename_def fun_eq_iff dest!: os_outcome_lookup
      split: prod.splits if_splits io_outcome.splits node.splits option.splits)

lemma write_at_prefix: "a \<le> pos \<Longrightarrow> a \<le> length old \<Longrightarrow> take a (write_at pos data old) = take a old"
  by (simp add: write_at_def min_def)

lemma write_at_written:
  "pos \<le> length old \<Longrightarrow> take (pos + length data) (write_at pos data old) = take pos old @ data"
  by (simp add: write_at_inside min_def)

lemma FileHandle_seek_any:
  assumes "FileHandle_seek offset (Some f, fs) = (r, (h', fs'))"
  shows "\<exists>f'. h' = Some f' \<and> hd_path f' = hd_path f \<and> (r = Inr u \<longrightarrow> hd_position f' = offset) \<and>
    fs_lookup fs' = fs_lookup fs"
  using assms
  by (auto simp: FileHandle_seek_def on_system_def set_position_def dest!: os_call_lookup
      split: prod.splits sum.splits if_splits)

lemma FileHandle_write_any:
  assumes "FileHandle_write data (Some f, fs) = (r, (h', fs'))" "is_file fs (hd_path f)"
  obtains n where "n \<le> length data" "h' = Some (f\<lparr>hd_position := hd_position f + n\<rparr>)"
    "is_file fs' (hd_path f)" "r = Inr u \<Longrightarrow> n = length data"
    "file_contents fs' (hd_path f) =
      (if n = 0 then file_contents fs (hd_path f)
       else write_at (hd_position f) (take n data) (file_contents fs (hd_path f)))"
    "\<And>p. p \<noteq> hd_path f \<Longrightarrow> fs_lookup fs' p = fs_lookup fs p"
proof (cases "data = []")
  case True
  then show thesis
    using assms that [of 0] by (cases f) (simp add: FileHandle_write_def)
next
  case False
  obtain out fs1 where out: "os_outcome fs = (out, fs1)" by fastforce
  then have fs1: "is_file fs1 p = is_file fs p" "file_contents fs1 p = file_contents fs p"
    "fs_lookup fs1 p = fs_lookup fs p" for p
    using os_outcome_lookup [OF out] by (simp_all add: is_file_def file_contents_def)
  define n where "n = (case out of IO_done \<Rightarrow> length data | IO_failed n \<Rightarrow> min n (length data))"
  show thesis
    using assms False out fs1
    by (intro that [of n]; cases out; cases "n = 0")
      (auto simp: FileHandle_write_def n_def Let_def split: if_splits)
qed

section \<open>Running an action\<close>

text \<open>\<open>run_io P m Q E\<close>: from every state with \<open>P\<close> the action \<open>m\<close> ends with a value
  in \<open>Q\<close> or with an error in \<open>E\<close>.\<close>

definition run_io ::
    "('s \<Rightarrow> bool) \<Rightarrow> ('s, 'a) io \<Rightarrow> ('a \<Rightarrow> 's \<Rightarrow> bool) \<Rightarrow> (status \<Rightarrow> 's \<Rightarrow> bool) \<Rightarrow> bool" where
  "run_io P m Q E \<longleftrightarrow> (\<forall>s r s'. P s \<longrightarrow> m s = (r, s') \<longrightarrow> (case r of Inr x \<Rightarrow> Q x s' | Inl e \<Rightarrow> E e s'))"

lemma run_io_bind:
  assumes "run_io P m R E" "\<And>x. run_io (R x) (k x) Q E"
  shows "run_io P (bind_io m k) Q E"
  unfolding run_io_def
proof (intro allI impI)
  fix s r s'
  assume P: "P s" and run: "bind_io m k s = (r, s')"
  obtain r1 s1 where m: "m s = (r1, s1)" by fastforce
  then have "case r1 of Inr x \<Rightarrow> R x s1 | Inl e \<Rightarrow> E e s1"
    using assms(1) P unfolding run_io_def by blast
  then show "case r of Inr x \<Rightarrow> Q x s' | Inl e \<Rightarrow> E e s'"
    using m run assms(2) unfolding run_io_def by (cases r1) (auto simp: bind_io_def)
qed

lemma run_io_return: "run_io (Q x) (return_io x) Q E"
  by (simp add: run_io_def return_io_def)

lemma run_io_weaken:
  assumes "run_io P m Q E" "\<And>s. P' s \<Longrightarrow> P s" "\<And>x s. Q x s \<Longrightarrow> Q' x s" "\<And>e s. E e s \<Longrightarrow> E' e s"
  shows "run_io P' m Q' E'"
  using assms unfolding run_io_def by (auto split: sum.splits) (metis (no_types) sum.case)+

lemma run_ioD:
  "run_io P m Q E \<Longrightarrow> P s \<Longrightarrow> m s = (r, s') \<Longrightarrow> (case r of Inr x \<Rightarrow> Q x s' | Inl e \<Rightarrow> E e s')"
  unfolding run_io_def by blast

section \<open>Atomic replacement\<close>

lemma replace_temporary_neq [simp]: "replace_temporary p \<noteq> p" "p \<noteq> replace_temporary p"
proof -
  have "last (replace_temporary p) \<noteq> last p"
    by (simp add: replace_temporary_def path_suffix_def)
  then show "replace_temporary p \<noteq> p" "p \<noteq> replace_temporary p" by auto
qed

lemma write_new_file:
  assumes "with_handle (bind_io (FileHandle_open p True) (\<lambda>_. bind_io (FileHandle_write data) (\<lambda>_.
      if sync then FileHandle_sync else return_io ()))) fs = (Inr u, fs')"
    "fs_lookup fs p = None"
  shows "fs_lookup fs' p = Some (File data)"
proof -
  obtain h' u0 h1 fs1 u1 h2 fs2 where
    opened: "FileHandle_open p True (None, fs) = (Inr u0, (h1, fs1))" and
    written: "FileHandle_write data (h1, fs1) = (Inr u1, (h2, fs2))" and
    synced: "(if sync then FileHandle_sync else return_io ()) (h2, fs2) = (Inr u, (h', fs'))"
    using assms(1) by (auto simp: with_handle_def bind_io_Inr_iff split: prod.splits)
  note new = FileHandle_open_okD [OF opened assms(2)]
  have "is_file fs1 p" "file_contents fs1 p = []"
    using new(2) by (simp_all add: is_file_def file_contents_def)
  then have "fs_lookup fs2 p = Some (File data)"
    using FileHandle_write_okD(2) [of data "\<lparr>hd_path = p, hd_position = 0\<rparr>" fs1 u1 h2 fs2] written new(1)
    by (simp add: write_at_def split: if_splits)
  then show ?thesis
    using synced by (auto simp: return_io_def dest: FileHandle_sync_lookup split: if_splits)
qed

lemma atomic_replace_file_cases:
  assumes "atomic_replace_file target data sync fs = (r, fs')"
    "fs_lookup fs (replace_temporary target) = None"
  shows "fs_lookup fs' target = (if r = Inr () then Some (File data) else fs_lookup fs target)"
    "q \<noteq> target \<Longrightarrow> q \<noteq> replace_temporary target \<Longrightarrow> fs_lookup fs' q = fs_lookup fs q"
proof -
  let ?t = "replace_temporary target"
  let ?block = "bind_io (FileHandle_open ?t True) (\<lambda>_. bind_io (FileHandle_write data) (\<lambda>_.
      if sync then FileHandle_sync else return_io ()))"
  obtain e fs1 where removed: "fs_remove ?t fs = (e, fs1)" by fastforce
  obtain r2 fs2 where block: "with_handle ?block fs1 = (r2, fs2)" by fastforce
  have absent: "fs_lookup fs1 ?t = None"
    using fs_remove_absent [OF removed assms(2)] .
  have others: "fs_lookup fs2 p = fs_lookup fs p" if "p \<noteq> ?t" for p
    using avoids_with_handle [of p ?block fs1 r2 fs2] block fs_remove_lookup [OF removed that] that
    by (simp add: avoids_intros)
  have "(fs_lookup fs' target = (if r = Inr () then Some (File data) else fs_lookup fs target)) \<and>
    (q \<noteq> target \<longrightarrow> q \<noteq> ?t \<longrightarrow> fs_lookup fs' q = fs_lookup fs q)"
  proof (cases r2)
    case (Inl s)
    then show ?thesis
      using assms(1) removed block others by (auto simp: atomic_replace_file_def bind_io_def)
  next
    case (Inr u)
    obtain e3 fs3 where renamed: "fs_rename ?t target fs2 = (e3, fs3)" by fastforce
    have "fs_lookup fs2 ?t = Some (File data)"
      using write_new_file block absent Inr by blast
    then have three: "if e3 then fs_lookup fs3 = fs_lookup fs2
        else fs_lookup fs3 = (fs_lookup fs2)(?t := None, target := Some (File data))"
      using fs_rename_file [OF renamed] by simp
    obtain e4 fs4 where cleaned: "fs_remove ?t fs3 = (e4, fs4)" by fastforce
    have "fs_lookup fs4 p = fs_lookup fs3 p" if "p \<noteq> ?t" for p
      using fs_remove_lookup [OF cleaned that] .
    then show ?thesis
      using assms(1) removed block Inr renamed cleaned three others
      by (auto simp: atomic_replace_file_def bind_io_def split: if_splits)
  qed
  then show "fs_lookup fs' target = (if r = Inr () then Some (File data) else fs_lookup fs target)"
    "q \<noteq> target \<Longrightarrow> q \<noteq> ?t \<Longrightarrow> fs_lookup fs' q = fs_lookup fs q"
    by blast+
qed

end
