(* ===== verification/SMF_Movement_Store.thy ===== *)
theory SMF_Movement_Store
  imports SMF_File SMF_Movement "HOL-Library.Mapping"
begin

text \<open>
  The durable store of movement records (movement_store.hpp, movement_store.cpp): a log of
  checksummed records, an index rebuilt from it by sequential recovery, retention and compaction.
  An operation acts on the store and the file system and returns a result with both. The mutex is
  not modelled: each operation holds it for its whole body. Offsets and file sizes are natural
  numbers, since a file is shorter than \<open>2 ^ 63\<close> bytes; sequence numbers and counters are
  64-bit words. The log line that \<^verbatim>\<open>open\<close> prints is left out.
\<close>

section \<open>Persistent coordinator state\<close>

record coordinator_state =
  cps_epoch :: generation
  cps_policy_generation :: generation
  cps_compatibility_generation :: generation
  cps_topology_generation :: generation
  cps_policy_digest :: digest
  cps_last_saved_unix_millis :: u64

definition CoordinatorPersistentState_encode :: "coordinator_state \<Rightarrow> bytes" where
  "CoordinatorPersistentState_encode s =
     enc_u64 (cps_epoch s) @
     enc_u64 (cps_policy_generation s) @
     enc_u64 (cps_compatibility_generation s) @
     enc_u64 (cps_topology_generation s) @
     enc_digest (cps_policy_digest s) @
     enc_i64 (cps_last_saved_unix_millis s)"

definition CoordinatorPersistentState_decode :: "coordinator_state decode" where
  "CoordinatorPersistentState_decode =
     bind_dec dec_u64 (\<lambda>epoch.
     bind_dec dec_u64 (\<lambda>policy.
     bind_dec dec_u64 (\<lambda>compatibility.
     bind_dec dec_u64 (\<lambda>topology.
     bind_dec dec_digest (\<lambda>digest.
     bind_dec dec_i64 (\<lambda>saved.
       if \<not> Generation_is_set epoch
       then fail_dec STORE_RECORD_INVALID ''persisted coordinator epoch must be non-zero''
       else return_dec
         \<lparr>cps_epoch = epoch, cps_policy_generation = policy, cps_compatibility_generation = compatibility,
          cps_topology_generation = topology, cps_policy_digest = digest,
          cps_last_saved_unix_millis = saved\<rparr>))))))"

section \<open>The store\<close>

abbreviation (input) kMovementStoreFormatVersion :: u16 where "kMovementStoreFormatVersion \<equiv> 1"

definition kFileMagic :: bytes where
  "kFileMagic = as_bytes ''SMFMST01''"

definition kRecordMagic :: bytes where
  "kRecordMagic = as_bytes ''SMFR''"

abbreviation (input) kFileHeaderBytes :: nat where "kFileHeaderBytes \<equiv> 96"

abbreviation (input) kRecordHeaderBytes :: nat where "kRecordHeaderBytes \<equiv> 56"

abbreviation (input) kRecordMovement :: u8 where "kRecordMovement \<equiv> 1"
abbreviation (input) kRecordCoordinatorState :: u8 where "kRecordCoordinatorState \<equiv> 2"
abbreviation (input) kRecordRetire :: u8 where "kRecordRetire \<equiv> 3"

definition record_checksum :: "bytes \<Rightarrow> bytes \<Rightarrow> digest" where
  "record_checksum header_prefix payload =
     fst (Sha256_finalize (Sha256_update (Sha256_update Sha256_reset (take 24 header_prefix)) payload))"

record store_options =
  mso_directory :: path
  mso_max_record_bytes :: u32
  mso_max_store_bytes :: u64
  mso_max_history_records :: u32
  mso_retention_completed :: u32
  mso_sync_on_write :: bool
  mso_exclusive_lock :: bool

definition MovementStoreOptions_default :: "path \<Rightarrow> store_options" where
  "MovementStoreOptions_default directory =
     \<lparr>mso_directory = directory, mso_max_record_bytes = 4 * 2 ^ 20, mso_max_store_bytes = 256 * 2 ^ 20,
      mso_max_history_records = 200000, mso_retention_completed = 10000, mso_sync_on_write = True,
      mso_exclusive_lock = True\<rparr>"

record recovery_report =
  msr_created :: bool
  msr_partial_tail_truncated :: bool
  msr_truncated_bytes :: u64
  msr_records_read :: u64
  msr_records_applied :: u64
  msr_movements_loaded :: u64
  msr_retired_loaded :: u64

record store_stats =
  mss_records_appended :: u64
  mss_records_read :: u64
  mss_index_lookup_steps :: u64
  mss_compactions :: u64
  mss_retired_total :: u64
  mss_bytes_written :: u64
  mss_bytes_on_disk :: u64
  mss_live_movements :: nat

record movement_store =
  mst_options :: store_options
  mst_log_path :: path
  mst_lock_path :: path
  mst_file :: "file_handle option"
  mst_lock_handle :: "path option"
  mst_log_bytes :: nat
  mst_append_offset :: nat
  mst_next_sequence :: u64
  mst_records :: "(movement_id, movement_record) mapping"
  mst_order :: "movement_id list"
  mst_coordinator_state :: "coordinator_state option"
  mst_stats :: store_stats

type_synonym store_world = "movement_store \<times> file_system"

definition StoreRecoveryReport_default :: recovery_report where
  "StoreRecoveryReport_default =
     \<lparr>msr_created = False, msr_partial_tail_truncated = False, msr_truncated_bytes = 0,
      msr_records_read = 0, msr_records_applied = 0, msr_movements_loaded = 0, msr_retired_loaded = 0\<rparr>"

definition MovementStore_new :: "store_options \<Rightarrow> movement_store" where
  "MovementStore_new options =
     \<lparr>mst_options = options, mst_log_path = mso_directory options @ [''movements.smf''],
      mst_lock_path = mso_directory options @ [''movements.lock''], mst_file = None,
      mst_lock_handle = None, mst_log_bytes = 0, mst_append_offset = 0, mst_next_sequence = 1,
      mst_records = Mapping.empty, mst_order = [], mst_coordinator_state = None,
      mst_stats = \<lparr>mss_records_appended = 0, mss_records_read = 0, mss_index_lookup_steps = 0,
        mss_compactions = 0, mss_retired_total = 0, mss_bytes_written = 0, mss_bytes_on_disk = 0,
        mss_live_movements = 0\<rparr>\<rparr>"

definition file_header :: bytes where
  "file_header =
    (let header = kFileMagic @ store_le (ucast kMovementStoreFormatVersion) 2 @ replicate 2 0 @
           store_le (word_of_nat kFileHeaderBytes) 4 @ replicate 48 0
     in header @ Digest_view (sha256 header))"

definition record_header :: "u8 \<Rightarrow> u64 \<Rightarrow> bytes \<Rightarrow> bytes" where
  "record_header type sequence payload =
    (let header = kRecordMagic @ [ucast kMovementStoreFormatVersion, type] @ replicate 2 0 @
           store_le sequence 8 @ store_le (word_of_nat (length payload)) 4 @ replicate 4 0
     in header @ Digest_view (record_checksum header payload))"

section \<open>Applying and appending records\<close>

definition set_stats :: "(store_stats \<Rightarrow> store_stats) \<Rightarrow> movement_store \<Rightarrow> movement_store" where
  "set_stats f st = st\<lparr>mst_stats := f (mst_stats st)\<rparr>"

definition index_insert :: "movement_record \<Rightarrow> movement_store \<Rightarrow> movement_store" where
  "index_insert r st =
    (let is_new = Mapping.lookup (mst_records st) (mr_id r) = None;
         st = st\<lparr>mst_records := Mapping.update (mr_id r) r (mst_records st),
              mst_order := (if is_new then mst_order st @ [mr_id r] else mst_order st)\<rparr>
     in set_stats (\<lambda>t. t\<lparr>mss_live_movements := Mapping.size (mst_records st)\<rparr>) st)"

definition index_erase :: "movement_id \<Rightarrow> movement_store \<Rightarrow> movement_store" where
  "index_erase i st =
    (let st = st\<lparr>mst_records := Mapping.delete i (mst_records st), mst_order := removeAll i (mst_order st)\<rparr>
     in set_stats (\<lambda>t. t\<lparr>mss_retired_total := mss_retired_total t + 1\<rparr>) st)"

definition apply_record :: "u8 \<Rightarrow> bytes \<Rightarrow> movement_store \<Rightarrow> unit result \<times> movement_store" where
  "apply_record type payload st =
    (let max_record = unat (mso_max_record_bytes (mst_options st));
         decoder = CanonicalDecoder_make payload
           \<lparr>max_blob_bytes = max_record, max_text_bytes = kMaxTextBytes, max_input_bytes = max_record + 2 ^ 16\<rparr>
     in if type = kRecordMovement then
          (case decode_whole MovementRecord_decode decoder of
             Inl s \<Rightarrow> (Inl s, st)
           | Inr r \<Rightarrow> (Inr (), index_insert r st))
        else if type = kRecordCoordinatorState then
          (case decode_whole CoordinatorPersistentState_decode decoder of
             Inl s \<Rightarrow> (Inl s, st)
           | Inr s \<Rightarrow> (Inr (), st\<lparr>mst_coordinator_state := Some s\<rparr>))
        else if type = kRecordRetire then
          (case decode_whole FixedId_decode decoder of
             Inl s \<Rightarrow> (Inl s, st)
           | Inr i \<Rightarrow>
               (Inr (),
                if Mapping.lookup (mst_records st) i \<noteq> None
                then set_stats (\<lambda>t. t\<lparr>mss_live_movements := Mapping.size (Mapping.delete i (mst_records st))\<rparr>)
                  (index_erase i st)
                else st))
        else (err STORE_RECORD_INVALID ''store record type is not recognized'', st))"

definition on_file :: "(handle_world, 'a) io \<Rightarrow> (store_world, 'a) io" where
  "on_file m = (\<lambda>(st, fs). case m (mst_file st, fs) of (r, (h, fs)) \<Rightarrow> (r, (st\<lparr>mst_file := h\<rparr>, fs)))"

definition modify_store :: "(movement_store \<Rightarrow> movement_store) \<Rightarrow> (store_world, unit) io" where
  "modify_store f = (\<lambda>(st, fs). (Inr (), (f st, fs)))"

definition append_record :: "u8 \<Rightarrow> bytes \<Rightarrow> (store_world, unit) io" where
  "append_record type payload = (\<lambda>(st, fs).
    if mst_file st = None then (err STORE_IO_ERROR ''store file is not open'', (st, fs))
    else if length payload > unat (mso_max_record_bytes (mst_options st))
    then (err STORE_OVERSIZED ''record payload exceeds the configured maximum'', (st, fs))
    else
      let header = record_header type (mst_next_sequence st) payload;
          bytes = kRecordHeaderBytes + length payload
      in bind_io (modify_store (\<lambda>st. st\<lparr>mst_next_sequence := mst_next_sequence st + 1\<rparr>)) (\<lambda>_.
         bind_io (on_file (FileHandle_seek (mst_append_offset st))) (\<lambda>_.
         bind_io (on_file (FileHandle_write header)) (\<lambda>_.
         bind_io (on_file (FileHandle_write payload)) (\<lambda>_.
         bind_io (if mso_sync_on_write (mst_options st) then on_file FileHandle_sync else return_io ()) (\<lambda>_.
           modify_store (\<lambda>st.
             let offset = mst_append_offset st + bytes
             in set_stats (\<lambda>t. t\<lparr>mss_records_appended := mss_records_appended t + 1,
                    mss_bytes_written := mss_bytes_written t + word_of_nat bytes,
                    mss_bytes_on_disk := word_of_nat offset\<rparr>)
                  (st\<lparr>mst_append_offset := offset, mst_log_bytes := offset\<rparr>))))))) (st, fs))"

section \<open>Operations\<close>

definition live_movements_now :: "movement_store \<Rightarrow> movement_store" where
  "live_movements_now st =
     set_stats (\<lambda>t. t\<lparr>mss_live_movements := Mapping.size (mst_records st)\<rparr>) st"

definition bytes_on_disk_now :: "movement_store \<Rightarrow> movement_store" where
  "bytes_on_disk_now st =
     set_stats (\<lambda>t. t\<lparr>mss_bytes_on_disk := word_of_nat (mst_append_offset st)\<rparr>) st"

fun retention_victims ::
    "nat \<Rightarrow> (movement_id, movement_record) mapping \<Rightarrow> movement_id list \<Rightarrow> movement_id list" where
  "retention_victims to_retire records [] = []"
| "retention_victims to_retire records (i # rest) =
    (if to_retire = 0 then []
     else case Mapping.lookup records i of
       None \<Rightarrow> retention_victims to_retire records rest
     | Some r \<Rightarrow>
         if \<not> is_terminal (mr_state r) then retention_victims to_retire records rest
         else i # retention_victims (to_retire - 1) records rest)"

fun retire_victims :: "movement_id list \<Rightarrow> (store_world, unit) io" where
  "retire_victims [] = return_io ()"
| "retire_victims (i # rest) =
     bind_io (append_record kRecordRetire (FixedId_encode i)) (\<lambda>_.
     bind_io (modify_store (index_erase i)) (\<lambda>_.
       retire_victims rest))"

definition enforce_retention :: "(store_world, unit) io" where
  "enforce_retention = (\<lambda>(st, fs).
    let size = Mapping.size (mst_records st);
        retention = unat (mso_retention_completed (mst_options st))
    in if retention = 0 then (Inr (), (st, fs))
       else if size \<le> retention then (Inr (), (st, fs))
       else if size \<le> unat (mso_max_history_records (mst_options st)) then (Inr (), (st, fs))
       else
         bind_io (retire_victims (retention_victims (size - retention) (mst_records st) (mst_order st)))
           (\<lambda>_. modify_store (\<lambda>st. bytes_on_disk_now (live_movements_now st))) (st, fs))"

definition MovementStore_put :: "movement_record \<Rightarrow> (store_world, unit) io" where
  "MovementStore_put record =
    (let valid = MovementRecord_validate record
     in if \<not> Status_ok valid then lift_io (Inl valid)
        else
          bind_io (append_record kRecordMovement (MovementRecord_encode record)) (\<lambda>_.
          bind_io (modify_store (index_insert record)) (\<lambda>_.
          bind_io enforce_retention (\<lambda>_.
            modify_store bytes_on_disk_now))))"

definition MovementStore_retire :: "movement_id \<Rightarrow> (store_world, unit) io" where
  "MovementStore_retire i = (\<lambda>(st, fs).
    if Mapping.lookup (mst_records st) i = None
    then (err MOVEMENT_NOT_FOUND ''movement is not present in the store'', (st, fs))
    else
      bind_io (append_record kRecordRetire (FixedId_encode i)) (\<lambda>_.
        modify_store (\<lambda>st. live_movements_now (index_erase i st))) (st, fs))"

definition count_lookup :: "movement_store \<Rightarrow> movement_store" where
  "count_lookup = set_stats (\<lambda>t. t\<lparr>mss_index_lookup_steps := mss_index_lookup_steps t + 1\<rparr>)"

definition MovementStore_get :: "movement_id \<Rightarrow> movement_store \<Rightarrow> movement_record result \<times> movement_store" where
  "MovementStore_get i st =
    (case Mapping.lookup (mst_records st) i of
       None \<Rightarrow> (err MOVEMENT_NOT_FOUND ''movement is not present in the store'', count_lookup st)
     | Some r \<Rightarrow> (Inr r, count_lookup st))"

definition MovementStore_contains :: "movement_id \<Rightarrow> movement_store \<Rightarrow> bool \<times> movement_store" where
  "MovementStore_contains i st = (Mapping.lookup (mst_records st) i \<noteq> None, count_lookup st)"

definition MovementStore_size :: "movement_store \<Rightarrow> nat" where
  "MovementStore_size st = Mapping.size (mst_records st)"

definition MovementStore_list :: "u32 \<Rightarrow> u32 \<Rightarrow> movement_store \<Rightarrow> movement_record list" where
  "MovementStore_list limit offset st =
    (let order = mst_order st; skip = unat offset
     in if skip \<ge> length order then []
        else
          let count = min (length order - skip) (unat limit)
          in List.map_filter
               (\<lambda>i. Mapping.lookup (mst_records st) (order ! (length order - 1 - skip - i))) [0..<count])"

definition MovementStore_sync :: "(store_world, unit) io" where
  "MovementStore_sync w =
    (if mst_file (fst w) = None then (err STORE_IO_ERROR ''store file is not open'', w)
     else on_file FileHandle_sync w)"

definition MovementStore_save_coordinator_state :: "coordinator_state \<Rightarrow> (store_world, unit) io" where
  "MovementStore_save_coordinator_state s =
     bind_io (append_record kRecordCoordinatorState (CoordinatorPersistentState_encode s)) (\<lambda>_.
       modify_store (\<lambda>st. st\<lparr>mst_coordinator_state := Some s\<rparr>))"

definition MovementStore_load_coordinator_state :: "movement_store \<Rightarrow> coordinator_state result" where
  "MovementStore_load_coordinator_state st =
    (case mst_coordinator_state st of
       None \<Rightarrow> err NOT_FOUND ''no coordinator state has been persisted yet''
     | Some s \<Rightarrow> Inr s)"

definition MovementStore_stats :: "movement_store \<Rightarrow> store_stats" where
  "MovementStore_stats st =
     (mst_stats st)\<lparr>mss_bytes_on_disk := word_of_nat (mst_append_offset st),
       mss_live_movements := Mapping.size (mst_records st)\<rparr>"

definition MovementStore_history_records :: "movement_store \<Rightarrow> u64" where
  "MovementStore_history_records st = mss_records_appended (mst_stats st)"

section \<open>Compaction\<close>

fun compact_write :: "(u8 \<times> bytes) list \<Rightarrow> u64 \<Rightarrow> nat \<Rightarrow> (handle_world, nat) io" where
  "compact_write [] sequence offset = return_io offset"
| "compact_write ((type, payload) # rest) sequence offset =
     bind_io (FileHandle_write (record_header type (sequence + 1) payload)) (\<lambda>_.
     bind_io (FileHandle_write payload) (\<lambda>_.
       compact_write rest (sequence + 1) (offset + kRecordHeaderBytes + length payload)))"

definition compact_entries :: "movement_store \<Rightarrow> (u8 \<times> bytes) list" where
  "compact_entries st =
     map (\<lambda>r. (kRecordMovement, MovementRecord_encode r))
       (List.map_filter (Mapping.lookup (mst_records st)) (mst_order st)) @
     (case mst_coordinator_state st of
        None \<Rightarrow> []
      | Some s \<Rightarrow> [(kRecordCoordinatorState, CoordinatorPersistentState_encode s)])"

definition MovementStore_compact :: "(store_world, unit) io" where
  "MovementStore_compact = (\<lambda>(st, fs).
    let temporary = path_suffix (mst_log_path st) ''.compact'';
        (_, fs) = fs_remove temporary fs
    in case with_handle (
         bind_io (FileHandle_open temporary True) (\<lambda>_.
         bind_io (FileHandle_write file_header) (\<lambda>_.
         bind_io (compact_write (compact_entries st) 0 kFileHeaderBytes) (\<lambda>offset.
         bind_io FileHandle_sync (\<lambda>_. return_io offset))))) fs of
         (Inl s, fs) \<Rightarrow> (Inl s, (st, fs))
       | (Inr offset, fs) \<Rightarrow>
           let st = st\<lparr>mst_file := None\<rparr>;
               (error, fs) = fs_rename temporary (mst_log_path st) fs
           in if error
              then let (_, fs) = fs_remove temporary fs
                   in (err STORE_IO_ERROR ''atomic store replacement failed'', (st, fs))
              else case bind_io (FileHandle_open (mst_log_path st) True) (\<lambda>_. FileHandle_seek offset)
                     (None, fs) of
                (Inl s, (_, fs)) \<Rightarrow> (Inl s, (st, fs))
              | (Inr _, (file, fs)) \<Rightarrow>
                  (Inr (),
                   (set_stats (\<lambda>t. t\<lparr>mss_compactions := mss_compactions t + 1,
                        mss_bytes_on_disk := word_of_nat offset\<rparr>)
                      (st\<lparr>mst_file := file, mst_append_offset := offset, mst_log_bytes := offset\<rparr>), fs)))"

section \<open>Recovery\<close>

definition check_file_header :: "bytes \<Rightarrow> unit result" where
  "check_file_header header =
    (if length header \<noteq> kFileHeaderBytes
     then err STORE_TRUNCATED ''store file header is incomplete''
     else if take 8 header \<noteq> kFileMagic
     then err STORE_CORRUPT ''store file magic does not match''
     else if load_le (drop 8 header) 2 \<noteq> ucast kMovementStoreFormatVersion
     then err STORE_VERSION_UNSUPPORTED ''store file format version is not supported''
     else if load_le (drop 12 header) 4 \<noteq> word_of_nat kFileHeaderBytes
     then err STORE_CORRUPT ''store file header size is not recognised''
     else if \<not> constant_time_equal (Digest_view (sha256 (take 64 header))) (drop 64 header)
     then err STORE_CHECKSUM_MISMATCH ''store file header checksum mismatch''
     else Inr ())"

type_synonym recovery_world = "movement_store \<times> handle_world"

definition on_handle :: "(handle_world, 'a) io \<Rightarrow> (recovery_world, 'a) io" where
  "on_handle m = (\<lambda>(st, w). case m w of (r, w) \<Rightarrow> (r, (st, w)))"

text \<open>One turn of the recovery loop: \<open>Inr None\<close> breaks out of it at a torn tail,
  \<open>Inr (Some (n, q))\<close> has applied a record of \<open>n\<close> payload bytes and sequence \<open>q\<close>.\<close>

definition recover_record ::
    "nat \<Rightarrow> nat \<Rightarrow> u64 \<Rightarrow> bytes \<Rightarrow> bytes \<Rightarrow> (recovery_world, (nat \<times> u64) option) io" where
  "recover_record file_size offset sequence header payload = (\<lambda>(st, w).
    let expected = record_checksum header payload;
        checksum_ok = constant_time_equal (Digest_view expected) (drop 24 header);
        next_offset = offset + kRecordHeaderBytes + length payload;
        record_sequence = load_le (drop 8 header) 8
    in if \<not> checksum_ok
       then (if next_offset \<ge> file_size then (Inr None, (st, w))
             else (err STORE_CHECKSUM_MISMATCH ''store record checksum mismatch'', (st, w)))
       else if record_sequence \<le> sequence
       then (err STORE_RECORD_INVALID ''store record sequence is not strictly increasing'', (st, w))
       else case apply_record (header ! 5) payload st of
         (Inl s, st) \<Rightarrow> (Inl s, (st, w))
       | (Inr _, st) \<Rightarrow> (Inr (Some (length payload, record_sequence)), (st, w)))"

definition recover_step :: "nat \<Rightarrow> nat \<Rightarrow> u64 \<Rightarrow> (recovery_world, (nat \<times> u64) option) io" where
  "recover_step file_size offset sequence =
     bind_io (on_handle (FileHandle_read kRecordHeaderBytes)) (\<lambda>header (st, w).
       if length header \<noteq> kRecordHeaderBytes then (Inr None, (st, w))
       else if take 4 header \<noteq> kRecordMagic
       then (err STORE_CORRUPT ''store record magic does not match'', (st, w))
       else if header ! 4 \<noteq> ucast kMovementStoreFormatVersion
       then (err STORE_VERSION_UNSUPPORTED ''store record version is not supported'', (st, w))
       else if load_le (drop 6 header) 2 \<noteq> 0 \<or> load_le (drop 20 header) 4 \<noteq> 0
       then (err STORE_RECORD_INVALID ''store record reserved fields are non-zero'', (st, w))
       else
         let payload_length = unat (load_le (drop 16 header) 4)
         in if payload_length > unat (mso_max_record_bytes (mst_options st))
            then (err STORE_OVERSIZED ''store record declares an oversized payload'', (st, w))
            else if payload_length > file_size - offset - kRecordHeaderBytes then (Inr None, (st, w))
            else
              bind_io (on_handle (if payload_length = 0 then return_io [] else FileHandle_read payload_length))
                (\<lambda>payload.
                  if length payload \<noteq> payload_length then return_io None
                  else recover_record file_size offset sequence header payload) (st, w))"

function recover_loop ::
    "nat \<Rightarrow> nat \<Rightarrow> u64 \<Rightarrow> recovery_report \<Rightarrow> (recovery_world, nat \<times> u64 \<times> recovery_report) io" where
  "recover_loop file_size offset sequence report w =
    (if offset \<ge> file_size then (Inr (offset, sequence, report), w)
     else case recover_step file_size offset sequence w of
       (Inl s, w) \<Rightarrow> (Inl s, w)
     | (Inr None, w) \<Rightarrow>
         (Inr (offset, sequence, report\<lparr>msr_partial_tail_truncated := True,
            msr_truncated_bytes := word_of_nat (file_size - offset)\<rparr>), w)
     | (Inr (Some (n, q)), w) \<Rightarrow>
         recover_loop file_size (offset + kRecordHeaderBytes + n) q
           (report\<lparr>msr_records_read := msr_records_read report + 1,
              msr_records_applied := msr_records_applied report + 1\<rparr>) w)"
  by pat_completeness auto
termination
  by (relation "measure (\<lambda>(file_size, offset, _). file_size - offset)") auto

declare recover_loop.simps [simp del]

definition recover_log :: "bool \<Rightarrow> nat \<Rightarrow> (recovery_world, nat \<times> u64 \<times> recovery_report) io" where
  "recover_log created file_size = (\<lambda>(st, w).
     bind_io (on_handle (FileHandle_open (mst_log_path st) True)) (\<lambda>_.
     bind_io (on_handle
       (if created then bind_io (FileHandle_write file_header) (\<lambda>_. FileHandle_sync)
        else bind_io (FileHandle_read kFileHeaderBytes) (\<lambda>header. lift_io (check_file_header header)))) (\<lambda>_.
     bind_io (recover_loop file_size kFileHeaderBytes 0
       (StoreRecoveryReport_default\<lparr>msr_created := created\<rparr>)) (\<lambda>(offset, sequence, report).
     bind_io (on_handle
       (if msr_partial_tail_truncated report
        then bind_io (FileHandle_truncate_at offset) (\<lambda>_. FileHandle_sync)
        else return_io ())) (\<lambda>_.
       return_io (offset, sequence, report))))) (st, w))"

definition open_locked :: "(store_world, recovery_report) io" where
  "open_locked = (\<lambda>(st, fs).
    case (if fs_exists fs (mst_log_path st) then fs_file_size fs (mst_log_path st) else Some 0) of
      None \<Rightarrow> (err STORE_IO_ERROR ''could not determine the store file size'', (st, fs))
    | Some existing_size \<Rightarrow>
        let created = (existing_size = 0);
            file_size = (if created then kFileHeaderBytes else existing_size)
        in case recover_log created file_size (st, (None, fs)) of
          (Inl s, (st, (_, fs))) \<Rightarrow> (Inl s, (st, fs))
        | (Inr (offset, sequence, report), (st, (_, fs))) \<Rightarrow>
            bind_io (on_file (FileHandle_open (mst_log_path st) True)) (\<lambda>_.
            bind_io (on_file (FileHandle_seek offset)) (\<lambda>_.
            bind_io (modify_store (\<lambda>st.
              set_stats (\<lambda>t. t\<lparr>mss_records_read := msr_records_read report,
                  mss_bytes_on_disk := word_of_nat offset,
                  mss_live_movements := Mapping.size (mst_records st)\<rparr>)
                (st\<lparr>mst_next_sequence := sequence + 1\<rparr>))) (\<lambda>_.
              return_io (report\<lparr>msr_movements_loaded := word_of_nat (Mapping.size (mst_records st)),
                msr_retired_loaded := mss_retired_total (mst_stats st)\<rparr>))))
              (st\<lparr>mst_log_bytes := offset, mst_append_offset := offset\<rparr>, fs))"

definition MovementStore_destroy :: "movement_store \<Rightarrow> file_system \<Rightarrow> file_system" where
  "MovementStore_destroy st fs = snd (FileLock_release (mst_lock_handle st, fs))"

definition MovementStore_open ::
    "store_options \<Rightarrow> (file_system, movement_store \<times> recovery_report) io" where
  "MovementStore_open options fs =
    (if mso_directory options = [] then (err INVALID_ARGUMENT ''store directory must not be empty'', fs)
     else if mso_max_record_bytes options = 0 \<or> mso_max_record_bytes options > 64 * 2 ^ 20
     then (err INVALID_ARGUMENT ''max_record_bytes is outside the supported range'', fs)
     else if mso_max_history_records options = 0
     then (err INVALID_ARGUMENT ''max_history_records must be non-zero'', fs)
     else
       let st = MovementStore_new options;
           (error, fs) = fs_create_directories (mso_directory options) fs
       in if error then (err STORE_IO_ERROR ''could not create the store directory'', fs)
          else
            let (acquired, lock, fs) =
                  (if mso_exclusive_lock options then FileLock_acquire (mst_lock_path st) (None, fs)
                   else (Inr (), (None, fs)))
            in case acquired of
              Inl s \<Rightarrow> (Inl s, fs)
            | Inr _ \<Rightarrow>
                (case open_locked (st\<lparr>mst_lock_handle := lock\<rparr>, fs) of
                   (Inl s, (st, fs)) \<Rightarrow> (Inl s, MovementStore_destroy st fs)
                 | (Inr report, (st, fs)) \<Rightarrow> (Inr (st, report), fs)))"

end
