(* ===== verification/SMF_File_Laws.thy ===== *)
theory SMF_File_Laws
  imports SMF_File
begin

text \<open>
  Laws of the file layer that its clients share: what each call leaves of the other paths when any
  call may fail, what it does when none does, and reading a whole file through a handle of its own.
\<close>

section \<open>Directories, removal and renaming\<close>

lemma fold_set_node:
  "fs_lookup (fold (\<lambda>q. set_node q n) ps fs) q = (if q \<in> set ps then Some n else fs_lookup fs q)"
  "fs_script (fold (\<lambda>q. set_node q n) ps fs) = fs_script fs"
  "fs_locked (fold (\<lambda>q. set_node q n) ps fs) = fs_locked fs"
  by (induction ps arbitrary: fs) auto

lemma set_tl_prefixes: "set (tl (prefixes p)) = {q. prefix q p \<and> q \<noteq> []}"
  by (cases p) (auto simp: prefixes.simps prefix_Cons)

lemma fs_create_directories_done:
  assumes "fs_script fs = []" "\<not> list_ex (is_file fs) (prefixes p)"
  shows "\<exists>fs'. fs_create_directories p fs = (False, fs') \<and> fs_script fs' = [] \<and>
    fs_locked fs' = fs_locked fs \<and>
    fs_lookup fs' = (\<lambda>q. if prefix q p \<and> q \<noteq> [] then Some Directory else fs_lookup fs q)"
  using assms
  by (auto simp: fs_create_directories_def io_simps fold_set_node set_tl_prefixes fun_eq_iff)

lemma path_suffix_simps:
  "path_suffix p s \<noteq> []" "butlast (path_suffix p s) = butlast p" "s \<noteq> [] \<Longrightarrow> path_suffix p s \<noteq> p"
  "butlast p \<noteq> path_suffix p s"
proof -
  show "butlast p \<noteq> path_suffix p s"
    by (simp add: path_suffix_def)
  show "path_suffix p s \<noteq> p" if "s \<noteq> []"
    using that by (metis append_self_conv last_snoc path_suffix_def)
qed (simp_all add: path_suffix_def)

lemma fs_remove_done:
  assumes "fs_script fs = []" "fs_lookup fs p = None"
  shows "fs_script (snd (fs_remove p fs)) = []" "fs_lookup (snd (fs_remove p fs)) = fs_lookup fs"
  using assms by (auto simp: fs_remove_def io_simps fun_eq_iff)

lemma fs_rename_done:
  assumes "fs_script fs = []" "fs_lookup fs a = Some (File c)" "b \<noteq> []" "is_directory fs (butlast b)"
    "fs_lookup fs b \<noteq> Some Directory" "a \<noteq> b"
  shows "\<exists>fs'. fs_rename a b fs = (False, fs') \<and> fs_script fs' = [] \<and>
    fs_lookup fs' = (fs_lookup fs)(a := None, b := Some (File c))"
  using assms by (auto simp: fs_rename_def io_simps fun_eq_iff)

lemma fs_create_directories_any:
  assumes "fs_create_directories p fs = (e, fs')"
  shows "is_file fs q \<or> \<not> prefix q p \<Longrightarrow> fs_lookup fs' q = fs_lookup fs q"
  using assms
  by (auto simp: fs_create_directories_def fold_set_node set_tl_prefixes list_ex_iff is_file_def
      dest!: os_outcome_lookup split: prod.splits io_outcome.splits if_splits)

lemma fs_create_directories_file: "fs_create_directories p fs = (e, fs') \<Longrightarrow> is_file fs' q \<longleftrightarrow> is_file fs q"
  by (auto simp: fs_create_directories_def fold_set_node set_tl_prefixes list_ex_iff is_file_def
      dest!: os_outcome_lookup split: prod.splits io_outcome.splits if_splits)

lemma fs_remove_all_any:
  "fs_remove_all p fs = (e, fs') \<Longrightarrow> \<not> prefix p q \<Longrightarrow> fs_lookup fs' q = fs_lookup fs q"
  by (auto simp: fs_remove_all_def dest!: os_outcome_lookup split: prod.splits io_outcome.splits)

lemma FileHandle_open_write_any:
  assumes "FileHandle_open p True (None, fs) = (Inr u, (h', fs'))"
  shows "h' = Some \<lparr>hd_path = p, hd_position = 0\<rparr>" "is_file fs' p"
    "file_contents fs' p = [] \<or> file_contents fs' p = file_contents fs p"
    "q \<noteq> p \<Longrightarrow> fs_lookup fs' q = fs_lookup fs q"
  using assms
  by (auto simp: FileHandle_open_def FileHandle_close_def fopen_existing_def fopen_truncating_def
      Let_def is_file_def file_contents_def dest!: os_outcome_lookup
      split: prod.splits if_splits io_outcome.splits)

text \<open>An atomic replacement touches its target and its temporary file only.\<close>

lemma atomic_replace_file_others:
  assumes "atomic_replace_file target data sync fs = (r, fs')" "q \<noteq> target" "q \<noteq> replace_temporary target"
  shows "fs_lookup fs' q = fs_lookup fs q"
proof -
  let ?t = "replace_temporary target"
  let ?block = "bind_io (FileHandle_open ?t True) (\<lambda>_. bind_io (FileHandle_write data) (\<lambda>_.
      if sync then FileHandle_sync else return_io ()))"
  obtain e fs1 where removed: "fs_remove ?t fs = (e, fs1)" by fastforce
  obtain r2 fs2 where block: "with_handle ?block fs1 = (r2, fs2)" by fastforce
  have two: "fs_lookup fs2 q = fs_lookup fs q"
    using avoids_with_handle [of q ?block fs1 r2 fs2] block fs_remove_lookup [OF removed assms(3)] assms(3)
    by (simp add: avoids_intros)
  show ?thesis
  proof (cases r2)
    case (Inl s)
    then show ?thesis
      using assms(1) removed block two by (auto simp: atomic_replace_file_def bind_io_def)
  next
    case (Inr u)
    obtain h1 fs3 h2 fs4 u1 u2 h3 where
      opened: "FileHandle_open ?t True (None, fs1) = (Inr u1, (h1, fs3))" and
      written: "FileHandle_write data (h1, fs3) = (Inr u2, (h2, fs4))" and
      synced: "(if sync then FileHandle_sync else return_io ()) (h2, fs4) = (Inr u, (h3, fs2))"
      using block Inr by (auto simp: with_handle_def bind_io_Inr_iff split: prod.splits)
    have "is_file fs4 ?t"
      using FileHandle_open_write_any [OF opened] written
      by (metis FileHandle_write_any file_handle.select_convs(1))
    then have "is_file fs2 ?t"
      using synced FileHandle_sync_lookup by (cases sync) (auto simp: return_io_def is_file_def)
    then obtain c where c: "fs_lookup fs2 ?t = Some (File c)"
      by (auto simp: is_file_iff)
    obtain e3 fs5 where renamed: "fs_rename ?t target fs2 = (e3, fs5)" by fastforce
    have three: "fs_lookup fs5 q = fs_lookup fs2 q"
      using fs_rename_file [OF renamed c] assms(2,3) by (auto split: if_splits)
    obtain e4 fs6 where cleaned: "fs_remove ?t fs5 = (e4, fs6)" by fastforce
    show ?thesis
      using assms(1) removed block Inr renamed cleaned two three fs_remove_lookup [OF cleaned assms(3)]
      by (auto simp: atomic_replace_file_def bind_io_def split: if_splits)
  qed
qed

lemma atomic_replace_file_done:
  assumes "fs_script fs = []" "target \<noteq> []" "is_directory fs (butlast target)"
    "fs_lookup fs target \<noteq> Some Directory" "fs_lookup fs (replace_temporary target) = None"
  shows "\<exists>fs'. atomic_replace_file target data sync fs = (Inr (), fs') \<and> fs_script fs' = [] \<and>
    fs_lookup fs' = (fs_lookup fs)(target := Some (File data))"
proof -
  let ?t = "replace_temporary target"
  obtain e fs1 where removed: "fs_remove ?t fs = (e, fs1)" by fastforce
  have one: "fs_script fs1 = []" "fs_lookup fs1 = fs_lookup fs"
    using fs_remove_done [OF assms(1,5)] removed by simp_all
  have path: "butlast ?t = butlast target" "?t \<noteq> []"
    by (simp_all add: replace_temporary_def path_suffix_simps)
  let ?f = "\<lparr>hd_path = ?t, hd_position = 0\<rparr>"
  have dir: "is_directory fs1 (butlast ?t)" "fs_lookup fs1 ?t = None"
    using assms(3,5) one(2) path(1) by (simp_all add: is_directory_def)
  have opened: "FileHandle_open ?t True (None, fs1) = (Inr (), (Some ?f, set_node ?t (File []) fs1))"
    using one dir path(2) by (simp add: io_simps)
  have "\<exists>h fs2. FileHandle_write data (Some ?f, set_node ?t (File []) fs1) = (Inr (), (h, fs2)) \<and>
      fs_script fs2 = [] \<and> fs_lookup fs2 = (fs_lookup fs)(?t := Some (File data))"
    using one by (cases "data = []") (auto simp: io_simps write_at_def fun_eq_iff)
  then obtain h fs2 where written: "FileHandle_write data (Some ?f, set_node ?t (File []) fs1) = (Inr (), (h, fs2))"
    "fs_script fs2 = []" "fs_lookup fs2 = (fs_lookup fs)(?t := Some (File data))"
    by blast
  have block: "with_handle (bind_io (FileHandle_open ?t True) (\<lambda>_. bind_io (FileHandle_write data) (\<lambda>_.
      if sync then FileHandle_sync else return_io ()))) fs1 = (Inr (), fs2)"
    using opened written(1,2)
    by (cases sync) (simp_all add: with_handle_def bind_io_def io_simps return_io_def)
  have "is_directory fs2 (butlast target)" "fs_lookup fs2 target \<noteq> Some Directory" "fs_lookup fs2 ?t = Some (File data)"
    using assms(3-5) written(3) by (auto simp: is_directory_def)
  then obtain fs3 where renamed: "fs_rename ?t target fs2 = (False, fs3)" "fs_script fs3 = []"
    "fs_lookup fs3 = (fs_lookup fs2)(?t := None, target := Some (File data))"
    using fs_rename_done [OF written(2), of ?t data target] assms(2) by auto
  have "fs_lookup fs3 = (fs_lookup fs)(target := Some (File data))"
    using renamed(3) written(3) assms(5) by (auto simp: fun_eq_iff)
  then show ?thesis
    using removed block renamed(1,2) by (simp add: atomic_replace_file_def bind_io_def)
qed

section \<open>Reading, whatever calls fail\<close>

lemma FileHandle_read_okD:
  assumes "FileHandle_read n (h, fs) = (Inr data, (h', fs'))"
  obtains f where "h = Some f" "h' = Some (f\<lparr>hd_position := hd_position f + length data\<rparr>)"
    "fs_lookup fs' = fs_lookup fs" "data = take (length data) (drop (hd_position f) (file_contents fs (hd_path f)))"
    "length data \<le> n" "length data < n \<Longrightarrow> data = drop (hd_position f) (file_contents fs (hd_path f))"
proof -
  obtain f where f: "h = Some f"
    using assms by (cases h) (auto simp: FileHandle_read_def)
  obtain out fs1 where out: "os_outcome fs = (out, fs1)" by fastforce
  let ?a = "take n (drop (hd_position f) (file_contents fs (hd_path f)))"
  have same: "fs_lookup fs1 = fs_lookup fs" "file_contents fs1 (hd_path f) = file_contents fs (hd_path f)"
    using os_outcome_lookup [OF out] by (simp_all add: file_contents_def)
  define d where "d = (case out of IO_done \<Rightarrow> ?a | IO_failed k \<Rightarrow> take k ?a)"
  have run: "FileHandle_read n (h, fs) =
      (if length d \<noteq> n \<and> out \<noteq> IO_done then err STORE_IO_ERROR ''read error'' else Inr d,
       (Some (f\<lparr>hd_position := hd_position f + length d\<rparr>), fs1))"
    by (cases out) (simp_all add: FileHandle_read_def Let_def f out same(2) d_def)
  then have "data = d" "h' = Some (f\<lparr>hd_position := hd_position f + length data\<rparr>)" "fs' = fs1"
    "length d = n \<or> out = IO_done"
    using assms by (auto split: if_splits)
  moreover have "d = ?a" if "length d = n \<or> out = IO_done"
    using that by (cases out) (simp_all add: d_def)
  ultimately have result: "data = ?a" "h' = Some (f\<lparr>hd_position := hd_position f + length data\<rparr>)" "fs' = fs1"
    by simp_all
  show thesis
  proof (rule that [OF f result(2)])
    show "data = drop (hd_position f) (file_contents fs (hd_path f))" if "length data < n"
      using that unfolding result(1) by simp
  qed (simp_all add: result(1,3) same(1) min_def)
qed

lemma FileHandle_open_read_any:
  assumes "FileHandle_open p False (None, fs) = (r, (h', fs'))"
  shows "fs_lookup fs' = fs_lookup fs" "r = Inr u \<Longrightarrow> is_file fs p \<and> h' = Some \<lparr>hd_path = p, hd_position = 0\<rparr>"
  using assms
  by (auto simp: FileHandle_open_def FileHandle_close_def fopen_existing_def is_file_def Let_def
      dest!: os_outcome_lookup split: prod.splits if_splits io_outcome.splits)

lemma os_call_any: "on_system (os_call what) (h, fs) = (r, (h', fs')) \<Longrightarrow> h' = h \<and> fs_lookup fs' = fs_lookup fs"
  by (auto simp: on_system_def dest!: os_call_lookup split: prod.splits)

lemma FileHandle_size_any:
  assumes "FileHandle_size (Some f, fs) = (r, (h', fs'))"
  shows "h' = Some f" "fs_lookup fs' = fs_lookup fs" "r = Inr n \<Longrightarrow> n = length (file_contents fs (hd_path f))"
proof -
  have "h' = Some f \<and> fs_lookup fs' = fs_lookup fs \<and> (r = Inr n \<longrightarrow> n = length (file_contents fs (hd_path f)))"
    using assms
    by (cases r)
      (auto simp: FileHandle_size_def bind_io_Inr_iff bind_io_Inl_iff file_contents_def dest!: os_call_any)
  then show "h' = Some f" "fs_lookup fs' = fs_lookup fs" "r = Inr n \<Longrightarrow> n = length (file_contents fs (hd_path f))"
    by auto
qed

lemma FileHandle_read_any:
  assumes "FileHandle_read n (Some f, fs) = (r, (h', fs'))"
  shows "fs_lookup fs' = fs_lookup fs" "\<exists>k. h' = Some (f\<lparr>hd_position := k\<rparr>)"
    "r = Inr data \<Longrightarrow> data = take n (drop (hd_position f) (file_contents fs (hd_path f)))"
proof -
  obtain out fs1 where out: "os_outcome fs = (out, fs1)" by fastforce
  note same = os_outcome_lookup [OF out]
  show "fs_lookup fs' = fs_lookup fs" "\<exists>k. h' = Some (f\<lparr>hd_position := k\<rparr>)"
    using assms same by (auto simp: FileHandle_read_def out Let_def split: if_splits)
  show "data = take n (drop (hd_position f) (file_contents fs (hd_path f)))" if "r = Inr data"
  proof -
    have run: "FileHandle_read n (Some f, fs) = (Inr data, (h', fs'))"
      using assms that by simp
    obtain "data = take (length data) (drop (hd_position f) (file_contents fs (hd_path f)))" "length data \<le> n"
      "length data < n \<Longrightarrow> data = drop (hd_position f) (file_contents fs (hd_path f))"
      using FileHandle_read_okD [OF run] by auto
    then show ?thesis
      by (cases "length data < n") (metis take_all_iff length_take min.cobounded2 less_imp_le nat_less_le, metis le_antisym not_less)
  qed
qed

text \<open>A whole file, read through its own handle with a bound on its size.\<close>

definition slurp :: "path \<Rightarrow> (nat \<Rightarrow> bool) \<Rightarrow> status \<Rightarrow> status \<Rightarrow> (bytes \<Rightarrow> 'a result) \<Rightarrow> (file_system, 'a) io" where
  "slurp p bad oversized truncated parse = with_handle (
     bind_io (FileHandle_open p False) (\<lambda>_.
     bind_io FileHandle_size (\<lambda>size.
       if bad size then lift_io (Inl oversized)
       else bind_io (FileHandle_read size) (\<lambda>buffer.
         if length buffer \<noteq> size then lift_io (Inl truncated) else lift_io (parse buffer)))))"

lemma slurp_any:
  assumes "slurp p bad oversized truncated parse fs = (r, fs')"
  shows "fs_lookup fs' = fs_lookup fs"
    "r = Inr x \<Longrightarrow> \<exists>b. fs_lookup fs p = Some (File b) \<and> \<not> bad (length b) \<and> parse b = Inr x"
proof -
  obtain r1 h1 fs1 where one: "FileHandle_open p False (None, fs) = (r1, (h1, fs1))"
    by (metis prod.collapse)
  note opened = FileHandle_open_read_any [OF one]
  have "fs_lookup fs' = fs_lookup fs \<and>
    (r = Inr x \<longrightarrow> (\<exists>b. fs_lookup fs p = Some (File b) \<and> \<not> bad (length b) \<and> parse b = Inr x))"
  proof (cases r1)
    case (Inl e)
    then show ?thesis
      using assms one opened(1) by (auto simp: slurp_def with_handle_def bind_io_def)
  next
    case (Inr u)
    let ?f = "\<lparr>hd_path = p, hd_position = 0\<rparr>"
    have f: "h1 = Some ?f" "is_file fs p" using opened(2) Inr by auto
    obtain r2 h2 fs2 where two: "FileHandle_size (Some ?f, fs1) = (r2, (h2, fs2))"
      by (metis prod.collapse)
    note size = FileHandle_size_any [OF two]
    obtain r3 h3 fs3 where three: "FileHandle_read (length (file_contents fs p)) (Some ?f, fs2) = (r3, (h3, fs3))"
      by (metis prod.collapse)
    note read = FileHandle_read_any [OF three]
    have same: "file_contents fs1 p = file_contents fs p" "file_contents fs2 p = file_contents fs p"
      using opened(1) size(2) by (simp_all add: file_contents_def)
    have node: "fs_lookup fs p = Some (File (file_contents fs p))"
      using f(2) by (simp add: is_file_iff)
    show ?thesis
    proof (cases r2)
      case (Inl e)
      then show ?thesis
        using assms one two f size opened(1) Inr by (auto simp: slurp_def with_handle_def bind_io_def)
    next
      case n: (Inr n)
      then have len: "n = length (file_contents fs p)" using size(3) same by simp
      show ?thesis
        using assms one two three f size(1,2) opened(1) Inr n len read(1,3) same node
        by (cases r3)
          (auto simp: slurp_def with_handle_def bind_io_def lift_io_def split: if_splits)
    qed
  qed
  then show "fs_lookup fs' = fs_lookup fs"
    "r = Inr x \<Longrightarrow> \<exists>b. fs_lookup fs p = Some (File b) \<and> \<not> bad (length b) \<and> parse b = Inr x"
    by auto
qed

lemma slurp_done:
  assumes "fs_script fs = []" "fs_lookup fs p = Some (File b)" "\<not> bad (length b)"
  shows "slurp p bad oversized truncated parse fs = (parse b, fs)"
  using assms
  by (simp add: slurp_def with_handle_def bind_io_def io_simps lift_io_def is_file_def file_contents_def)

lemma lift_io_fuse:
  "fail_io c what = lift_io (err c what)" "return_io x = lift_io (Inr x)"
  "(if P then lift_io r else lift_io r') = lift_io (if P then r else r')"
  "bind_io (lift_io r) (\<lambda>x. lift_io (g x)) = lift_io (bind_result r g)"
  by (cases r; auto simp: fun_eq_iff fail_io_def return_io_def lift_io_def bind_io_def)+

text \<open>Actions that only read leave every node alone, on every way out.\<close>

definition read_only :: "(handle_world, 'a) io \<Rightarrow> bool" where
  "read_only m \<longleftrightarrow> (\<forall>h fs. fs_lookup (snd (snd (m (h, fs)))) = fs_lookup fs)"

named_theorems read_only_intros

lemma read_only_bind [read_only_intros]: "read_only m \<Longrightarrow> (\<And>x. read_only (k x)) \<Longrightarrow> read_only (bind_io m k)"
  unfolding read_only_def bind_io_def by (auto split: prod.splits sum.splits) (metis snd_conv)+

lemma read_only_if [read_only_intros]: "read_only m \<Longrightarrow> read_only m' \<Longrightarrow> read_only (if b then m else m')"
  by simp

lemma read_only_pure [read_only_intros]:
  "read_only (return_io x)" "read_only (fail_io c what)" "read_only (lift_io r)"
  by (simp_all add: read_only_def return_io_def fail_io_def lift_io_def)

lemma read_only_handle [read_only_intros]:
  "read_only (FileHandle_open p False)" "read_only FileHandle_size" "read_only (FileHandle_read n)"
  "read_only (FileHandle_seek n)" "read_only FileHandle_sync"
proof -
  have call: "read_only (on_system (os_call what))" for what
    using os_call_any unfolding read_only_def by (metis prod.collapse)
  show "read_only (FileHandle_open p False)"
    by (auto simp: read_only_def FileHandle_open_def FileHandle_close_def fopen_existing_def Let_def
        dest!: os_outcome_lookup split: prod.splits io_outcome.splits)
  show "read_only FileHandle_size"
  proof -
    have "read_only (bind_io (on_system (os_call a)) (\<lambda>_. bind_io (on_system (os_call b)) (\<lambda>_.
        bind_io (on_system (os_call c)) (\<lambda>_. bind_io (on_system (os_call d)) (\<lambda>_ (h, fs). (Inr (g fs), (h, fs)))))))"
      for a b c d and g :: "file_system \<Rightarrow> nat"
      by (intro read_only_intros call) (simp add: read_only_def)
    then show ?thesis
      unfolding read_only_def FileHandle_size_def by (auto split: option.splits)
  qed
  show "read_only (FileHandle_read n)"
    by (auto simp: read_only_def FileHandle_read_def Let_def dest!: os_outcome_lookup
        split: option.splits prod.splits)
  show "read_only (FileHandle_seek n)"
    using call [of "''seek failed''"]
    by (auto simp: read_only_def FileHandle_seek_def set_position_def split: prod.splits sum.splits)
      (metis snd_conv)+
  show "read_only FileHandle_sync"
    using FileHandle_sync_lookup unfolding read_only_def by (metis prod.collapse)
qed

lemma read_only_with_handle: "read_only m \<Longrightarrow> with_handle m fs = (r, fs') \<Longrightarrow> fs_lookup fs' = fs_lookup fs"
  unfolding read_only_def with_handle_def by (auto split: prod.splits) (metis snd_conv)+

end
