(* ===== verification/SMF_Store_Log.thy ===== *)
theory SMF_Store_Log
  imports SMF_Movement_Store SMF_File_Laws
begin

text \<open>
  The log behind the movement store. A log is a list of entries with sequence numbers; the index
  of the store is what replaying the entries gives. The laws relate the bytes of the file to the
  log: recovery of a file that holds a log and a torn tail ends with the index of the log; an
  append, whichever of its calls fail, either extends the log by its entry or leaves it alone.
\<close>

section \<open>Entries\<close>

datatype log_entry =
    Movement_entry movement_record
  | State_entry coordinator_state
  | Retire_entry movement_id

fun entry_type :: "log_entry \<Rightarrow> u8" where
  "entry_type (Movement_entry _) = 1"
| "entry_type (State_entry _) = 2"
| "entry_type (Retire_entry _) = 3"

fun entry_payload :: "log_entry \<Rightarrow> bytes" where
  "entry_payload (Movement_entry r) = MovementRecord_encode r"
| "entry_payload (State_entry s) = CoordinatorPersistentState_encode s"
| "entry_payload (Retire_entry i) = FixedId_encode i"

fun entry_wf :: "log_entry \<Rightarrow> bool" where
  "entry_wf (Movement_entry r) \<longleftrightarrow> movement_wf r"
| "entry_wf (State_entry s) \<longleftrightarrow> cps_epoch s \<noteq> 0"
| "entry_wf (Retire_entry i) \<longleftrightarrow> True"

type_synonym store_index =
  "(movement_id, movement_record) mapping \<times> movement_id list \<times> coordinator_state option"

definition store_index :: "movement_store \<Rightarrow> store_index" where
  "store_index st = (mst_records st, mst_order st, mst_coordinator_state st)"

fun apply_entry :: "log_entry \<Rightarrow> store_index \<Rightarrow> store_index" where
  "apply_entry (Movement_entry r) (records, order, state) =
     (Mapping.update (mr_id r) r records,
      if Mapping.lookup records (mr_id r) = None then order @ [mr_id r] else order, state)"
| "apply_entry (State_entry s) (records, order, state) = (records, order, Some s)"
| "apply_entry (Retire_entry i) (records, order, state) =
     (if Mapping.lookup records i = None then (records, order, state)
      else (Mapping.delete i records, removeAll i order, state))"

lemma CoordinatorPersistentState_decode_iff [codec_iff]:
  "dec_ok c \<Longrightarrow> CoordinatorPersistentState_decode c i = Inr (s, j) \<longleftrightarrow>
    cps_epoch s \<noteq> 0 \<and> spells c i j (CoordinatorPersistentState_encode s)"
  by (cases s) (auto simp: CoordinatorPersistentState_decode_def CoordinatorPersistentState_encode_def
      dec_Inr_iffs codec_iff codec_simps)

interpretation coordinator_state_codec: canonical_codec CoordinatorPersistentState_encode
    CoordinatorPersistentState_decode "\<lambda>s. cps_epoch s \<noteq> 0"
  by unfold_locales (rule CoordinatorPersistentState_decode_iff)

lemma store_index_simps [simp]:
  "store_index (set_stats f st) = store_index st"
  "mst_options (set_stats f st) = mst_options st"
  "store_index (index_insert r st) = apply_entry (Movement_entry r) (store_index st)"
  "mst_options (index_insert r st) = mst_options st"
  "store_index (index_erase i st) =
     (Mapping.delete i (mst_records st), removeAll i (mst_order st), mst_coordinator_state st)"
  "mst_options (index_erase i st) = mst_options st"
  by (simp_all add: store_index_def set_stats_def index_insert_def index_erase_def Let_def)

definition record_limits_ok :: "store_options \<Rightarrow> bool" where
  "record_limits_ok options \<longleftrightarrow>
     2 ^ 20 \<le> unat (mso_max_record_bytes options) \<and> unat (mso_max_record_bytes options) \<le> 64 * 2 ^ 20"

definition entry_ok :: "store_options \<Rightarrow> log_entry \<Rightarrow> bool" where
  "entry_ok options e \<longleftrightarrow> entry_wf e \<and> length (entry_payload e) \<le> unat (mso_max_record_bytes options)"

text \<open>\<open>applied es st st'\<close>: the index of \<open>st'\<close> is that of \<open>st\<close> after the
  entries \<open>es\<close>; the rest of the store but for its statistics is the same.\<close>

definition applied :: "log_entry list \<Rightarrow> movement_store \<Rightarrow> movement_store \<Rightarrow> bool" where
  "applied es st st' \<longleftrightarrow> store_index st' = fold apply_entry es (store_index st) \<and>
     mst_options st' = mst_options st \<and> mst_log_path st' = mst_log_path st \<and>
     mst_lock_path st' = mst_lock_path st \<and> mst_file st' = mst_file st \<and>
     mst_lock_handle st' = mst_lock_handle st"

lemma apply_record_entry:
  assumes "record_limits_ok (mst_options st)" "entry_ok (mst_options st) e"
  shows "\<exists>st'. apply_record (entry_type e) (entry_payload e) st = (Inr (), st') \<and> applied [e] st st'"
proof -
  let ?max = "unat (mso_max_record_bytes (mst_options st))"
  let ?d = "CanonicalDecoder_make (entry_payload e)
    \<lparr>max_blob_bytes = ?max, max_text_bytes = kMaxTextBytes, max_input_bytes = ?max + 2 ^ 16\<rparr>"
  have ok: "dec_ok ?d" and input: "dec_input ?d = entry_payload e"
    using assms by (simp_all add: dec_ok_def CanonicalDecoder_make_def record_limits_ok_def
        entry_ok_def)
  show ?thesis
  proof (cases e)
    case (Movement_entry r)
    then have "decode_whole MovementRecord_decode ?d = Inr r"
      using movement_codec.decode_whole_iff [OF ok] input assms(2) by (simp add: entry_ok_def)
    then show ?thesis
      using Movement_entry
      by (simp add: apply_record_def Let_def index_insert_def set_stats_def store_index_def applied_def)
  next
    case (State_entry s)
    then have "decode_whole CoordinatorPersistentState_decode ?d = Inr s"
      using coordinator_state_codec.decode_whole_iff [OF ok] input assms(2) by (simp add: entry_ok_def)
    then show ?thesis
      using State_entry by (simp add: apply_record_def Let_def store_index_def applied_def)
  next
    case (Retire_entry i)
    then have "decode_whole FixedId_decode ?d = Inr i"
      using id16_codec.decode_whole_iff [OF ok] input by simp
    then show ?thesis
      using Retire_entry
      by (simp add: apply_record_def Let_def index_erase_def set_stats_def store_index_def applied_def)
  qed
qed

section \<open>Bytes of the log\<close>

lemma length_kRecordMagic [simp]: "length kRecordMagic = 4"
  by (simp add: kRecordMagic_def as_bytes_def)

lemma length_kFileMagic [simp]: "length kFileMagic = 8"
  by (simp add: kFileMagic_def as_bytes_def)

lemma length_file_header [simp]: "length file_header = 96"
  by (simp add: file_header_def Let_def)

lemma file_header_nonempty [simp]: "file_header \<noteq> []"
  by (metis length_file_header list.size(3) zero_neq_numeral)

lemma length_record_header [simp]: "length (record_header t q p) = 56"
  by (simp add: record_header_def Let_def)

lemma check_file_header_ok [simp]: "check_file_header file_header = Inr ()"
  using load_le_store_le [of 1 2] load_le_store_le [of 96 4]
  by (simp add: check_file_header_def file_header_def Let_def   take_bit_eq_mod constant_time_equal_iff)

lemma load_le_replicate_0 [simp]: "load_le (replicate n 0 @ rest) n = 0"
  by (rule bit_eqI) (auto simp: bit_load_le nth_append div_less_iff_less_mult mult.commute)

lemma record_checksum_prefix: "length m = 24 \<Longrightarrow> record_checksum (m @ rest) p = record_checksum m p"
  by (simp add: record_checksum_def)

lemma record_header_fields:
  assumes "length p < 2 ^ 32"
  shows "take 4 (record_header t q p) = kRecordMagic" "record_header t q p ! 4 = 1"
    "record_header t q p ! 5 = t" "load_le (drop 6 (record_header t q p)) 2 = 0"
    "load_le (drop 8 (record_header t q p)) 8 = q"
    "unat (load_le (drop 16 (record_header t q p)) 4) = length p"
    "load_le (drop 20 (record_header t q p)) 4 = 0"
    "drop 24 (record_header t q p) = Digest_view (record_checksum (record_header t q p) p)"
proof -
  let ?m = "kRecordMagic @ [1, t] @ replicate 2 0 @ store_le q 8 @
    store_le (word_of_nat (length p)) 4 @ replicate 4 0"
  let ?s = "Digest_view (record_checksum ?m p)"
  have h: "record_header t q p = ?m @ ?s"
    by (simp add: record_header_def Let_def )
  have "load_le (store_le q 8 @ r) 8 = q" for r
    using take_bit_length_eq [of q] by (simp add: load_le_store_le)
  moreover have "unat (load_le (store_le (word_of_nat (length p)) 4 @ r) 4) = length p" for r
    using assms by (simp add: load_le_store_le unsigned_take_bit_eq unsigned_of_nat take_bit_nat_eq_self)
  moreover have "record_checksum (?m @ ?s) p = record_checksum ?m p"
    by (rule record_checksum_prefix) simp
  ultimately show "take 4 (record_header t q p) = kRecordMagic" "record_header t q p ! 4 = 1"
    "record_header t q p ! 5 = t" "load_le (drop 6 (record_header t q p)) 2 = 0"
    "load_le (drop 8 (record_header t q p)) 8 = q"
    "unat (load_le (drop 16 (record_header t q p)) 4) = length p"
    "load_le (drop 20 (record_header t q p)) 4 = 0"
    "drop 24 (record_header t q p) = Digest_view (record_checksum (record_header t q p) p)"
    unfolding h by (simp_all add: nth_append)
qed

definition record_bytes :: "u64 \<times> log_entry \<Rightarrow> bytes" where
  "record_bytes = (\<lambda>(q, e). record_header (entry_type e) q (entry_payload e) @ entry_payload e)"

definition log_bytes :: "(u64 \<times> log_entry) list \<Rightarrow> bytes" where
  "log_bytes log = file_header @ concat (map record_bytes log)"

lemma record_bytes_fields:
  assumes "record_limits_ok options" "entry_ok options e"
  shows "length (record_bytes (q, e)) = 56 + length (entry_payload e)" "length (entry_payload e) < 2 ^ 32"
  using assms by (simp_all add: record_bytes_def record_limits_ok_def entry_ok_def)

lemma recover_step_bytes:
  assumes "fs_script fs = []" "file_contents fs (hd_path f) = pre @ (record_header t q p @ p) @ post"
    "hd_position f = length pre" "length p < 2 ^ 32" "length p \<le> unat (mso_max_record_bytes (mst_options st))"
    "sequence < q"
  shows "recover_step (length (pre @ (record_header t q p @ p) @ post)) (length pre) sequence (st, (Some f, fs)) =
    (case apply_record t p st of
       (Inl s, st') \<Rightarrow> (Inl s, (st', (Some (f\<lparr>hd_position := length (pre @ record_header t q p @ p)\<rparr>), fs)))
     | (Inr _, st') \<Rightarrow> (Inr (Some (length p, q)),
         (st', (Some (f\<lparr>hd_position := length (pre @ record_header t q p @ p)\<rparr>), fs))))"
proof -
  let ?h = "record_header t q p"
  let ?n = "length (pre @ (?h @ p) @ post)"
  note fields = record_header_fields [OF assms(4), of t q]
  let ?f1 = "f\<lparr>hd_position := length pre + 56\<rparr>"
  let ?f2 = "f\<lparr>hd_position := length (pre @ ?h @ p)\<rparr>"
  have one: "on_handle (FileHandle_read kRecordHeaderBytes) (st, (Some f, fs)) =
      (Inr ?h, (st, (Some ?f1, fs)))"
    using assms(1-3) by (simp add: on_handle_def io_simps)
  have two: "on_handle (if length p = 0 then return_io [] else FileHandle_read (length p)) (st, (Some ?f1, fs)) =
      (Inr p, (st, (Some ?f2, fs)))"
    using assms(1-3) by (simp add: on_handle_def io_simps return_io_def)
  have three: "recover_record ?n (length pre) sequence ?h p (st, (Some ?f2, fs)) =
      (case apply_record t p st of
         (Inl s, st') \<Rightarrow> (Inl s, (st', (Some ?f2, fs)))
       | (Inr _, st') \<Rightarrow> (Inr (Some (length p, q)), (st', (Some ?f2, fs))))"
    using assms(6) [folded not_le]
    by (simp add: recover_record_def Let_def fields constant_time_equal_iff split: prod.splits sum.splits)
  have "length p \<le> ?n - length pre - kRecordHeaderBytes"
    by simp
  then show ?thesis
    using assms(5) two three
    by (simp add: recover_step_def bind_io_def one fields Let_def split: prod.splits sum.splits)
qed

lemma recover_step_entry:
  assumes "fs_script fs = []" "file_contents fs (hd_path f) = pre @ record_bytes (q, e) @ post"
    "hd_position f = length pre" "record_limits_ok (mst_options st)" "entry_ok (mst_options st) e" "sequence < q"
  shows "\<exists>st'. recover_step (length (pre @ record_bytes (q, e) @ post)) (length pre) sequence (st, (Some f, fs)) =
      (Inr (Some (length (entry_payload e), q)),
       (st', (Some (f\<lparr>hd_position := length (pre @ record_bytes (q, e))\<rparr>), fs))) \<and> applied [e] st st'"
proof -
  obtain st' where st': "apply_record (entry_type e) (entry_payload e) st = (Inr (), st')" "applied [e] st st'"
    using apply_record_entry [OF assms(4,5)] by blast
  have "length (entry_payload e) < 2 ^ 32" "length (entry_payload e) \<le> unat (mso_max_record_bytes (mst_options st))"
    using record_bytes_fields(2) [OF assms(4,5)] assms(5) by (auto simp: entry_ok_def)
  then show ?thesis
    using recover_step_bytes [OF assms(1), of f pre "entry_type e" q "entry_payload e" post st sequence] assms st'
    by (simp add: record_bytes_def)
qed

lemma recover_step_torn:
  assumes "fs_script fs = []" "file_contents fs (hd_path f) = pre @ take k (record_bytes (q, e))"
    "hd_position f = length pre" "k < length (record_bytes (q, e))"
    "record_limits_ok (mst_options st)" "entry_ok (mst_options st) e"
  shows "\<exists>f'. recover_step (length (pre @ take k (record_bytes (q, e)))) (length pre) sequence (st, (Some f, fs)) =
    (Inr None, (st, (Some f', fs))) \<and> hd_path f' = hd_path f"
proof -
  let ?h = "record_header (entry_type e) q (entry_payload e)" and ?p = "entry_payload e"
  have len: "length ?p < 2 ^ 32" "length ?p \<le> unat (mso_max_record_bytes (mst_options st))"
    using record_bytes_fields(2) [OF assms(5,6)] assms(6) by (auto simp: entry_ok_def)
  note fields = record_header_fields [OF len(1), of "entry_type e" q]
  have k: "k < 56 + length ?p"
    using assms(4) by (simp add: record_bytes_def)
  show ?thesis
  proof (cases "k < 56")
    case True
    then have "take 56 (take k (record_bytes (q, e))) = take k (record_bytes (q, e))"
      "length (take k (record_bytes (q, e))) = k"
      using assms(4) by (simp_all add: min_def)
    then show ?thesis
      using True assms(1-3) by (simp add: recover_step_def bind_io_def on_handle_def io_simps)
  next
    case False
    then have "take 56 (take k (record_bytes (q, e))) = ?h"
      by (simp add: record_bytes_def min_def)
    moreover have "length (take k (record_bytes (q, e))) = k"
      using assms(4) by simp
    moreover have "k - 56 < length ?p"
      using False k by simp
    ultimately show ?thesis
      using False len(2) assms(1-3)
      by (simp add: recover_step_def bind_io_def on_handle_def io_simps fields Let_def)
  qed
qed

fun sequenced :: "u64 \<Rightarrow> (u64 \<times> log_entry) list \<Rightarrow> bool" where
  "sequenced s [] \<longleftrightarrow> True"
| "sequenced s ((q, e) # log) \<longleftrightarrow> s < q \<and> sequenced q log"

fun last_sequence :: "u64 \<Rightarrow> (u64 \<times> log_entry) list \<Rightarrow> u64" where
  "last_sequence s [] = s"
| "last_sequence s ((q, e) # log) = last_sequence q log"

text \<open>A torn tail: a proper prefix of some record, the empty one included.\<close>

definition torn :: "store_options \<Rightarrow> bytes \<Rightarrow> bool" where
  "torn options tail \<longleftrightarrow> (\<exists>k q e. tail = take k (record_bytes (q, e)) \<and>
     k < length (record_bytes (q, e)) \<and> entry_ok options e)"

text \<open>Recovery passes over the records of a log, whatever follows them.\<close>

lemma recover_loop_prefix:
  assumes "fs_script fs = []" "record_limits_ok options" "\<forall>(q, e) \<in> set log. entry_ok options e"
    "sequenced sequence log" "mst_options st = options" "hd_position f = length pre"
    "file_contents fs (hd_path f) = pre @ concat (map record_bytes log) @ tail"
  shows "\<exists>st' f' report'.
    recover_loop (length (pre @ concat (map record_bytes log) @ tail)) (length pre) sequence report
      (st, (Some f, fs)) =
    recover_loop (length (pre @ concat (map record_bytes log) @ tail)) (length (pre @ concat (map record_bytes log)))
      (last_sequence sequence log) report' (st', (Some f', fs)) \<and>
    applied (map snd log) st st' \<and> hd_path f' = hd_path f \<and>
    hd_position f' = length (pre @ concat (map record_bytes log)) \<and>
    msr_partial_tail_truncated report' = msr_partial_tail_truncated report"
  using assms(3-7)
proof (induction log arbitrary: sequence st f pre report)
  case Nil
  then show ?case
    by (intro exI [of _ st] exI [of _ f] exI [of _ report]) (simp add: applied_def)
next
  case (Cons r log)
  obtain q e where r: "r = (q, e)" by fastforce
  let ?rest = "concat (map record_bytes log) @ tail"
  let ?f1 = "f\<lparr>hd_position := length (pre @ record_bytes (q, e))\<rparr>"
  let ?rep = "report\<lparr>msr_records_read := msr_records_read report + 1,
      msr_records_applied := msr_records_applied report + 1\<rparr>"
  obtain st1 where st1: "recover_step (length (pre @ record_bytes (q, e) @ ?rest)) (length pre) sequence
      (st, (Some f, fs)) = (Inr (Some (length (entry_payload e), q)), (st1, (Some ?f1, fs)))"
    "applied [e] st st1"
    using recover_step_entry [OF assms(1), of f pre q e ?rest st sequence] Cons.prems assms(2) r by auto
  have opt: "mst_options st1 = options"
    using st1(2) Cons.prems(3) by (simp add: applied_def)
  obtain st' f' report' where ih:
    "recover_loop (length ((pre @ record_bytes (q, e)) @ ?rest)) (length (pre @ record_bytes (q, e))) q ?rep
      (st1, (Some ?f1, fs)) =
     recover_loop (length ((pre @ record_bytes (q, e)) @ ?rest))
      (length ((pre @ record_bytes (q, e)) @ concat (map record_bytes log))) (last_sequence q log) report'
      (st', (Some f', fs))"
    "applied (map snd log) st1 st'" "hd_path f' = hd_path f"
    "hd_position f' = length ((pre @ record_bytes (q, e)) @ concat (map record_bytes log))"
    "msr_partial_tail_truncated report' = msr_partial_tail_truncated report"
    using Cons.IH [of q st1 ?f1 "pre @ record_bytes (q, e)" ?rep] Cons.prems opt r by auto
  have "recover_loop (length (pre @ concat (map record_bytes (r # log)) @ tail)) (length pre) sequence report
      (st, (Some f, fs)) =
      recover_loop (length ((pre @ record_bytes (q, e)) @ ?rest)) (length (pre @ record_bytes (q, e))) q ?rep
      (st1, (Some ?f1, fs))"
    using st1(1) r by (subst recover_loop.simps) (simp add: record_bytes_def add.assoc)
  then show ?case
    using ih st1(2) r
    by (intro exI [of _ st'] exI [of _ f'] exI [of _ report']) (auto simp: applied_def)
qed

lemma recover_loop_log:
  assumes "fs_script fs = []" "record_limits_ok options" "\<forall>(q, e) \<in> set log. entry_ok options e"
    "torn options tail" "sequenced sequence log" "mst_options st = options" "hd_position f = length pre"
    "file_contents fs (hd_path f) = pre @ concat (map record_bytes log) @ tail"
  shows "\<exists>st' f' report'.
    recover_loop (length (pre @ concat (map record_bytes log) @ tail)) (length pre) sequence report
      (st, (Some f, fs)) =
      (Inr (length (pre @ concat (map record_bytes log)), last_sequence sequence log, report'),
       (st', (Some f', fs))) \<and>
    applied (map snd log) st st' \<and> hd_path f' = hd_path f \<and>
    msr_partial_tail_truncated report' = (tail \<noteq> [] \<or> msr_partial_tail_truncated report)"
proof -
  let ?pre = "pre @ concat (map record_bytes log)"
  obtain st' f' report' where skip:
    "recover_loop (length (pre @ concat (map record_bytes log) @ tail)) (length pre) sequence report
      (st, (Some f, fs)) =
     recover_loop (length (?pre @ tail)) (length ?pre) (last_sequence sequence log) report' (st', (Some f', fs))"
    "applied (map snd log) st st'" "hd_path f' = hd_path f" "hd_position f' = length ?pre"
    "msr_partial_tail_truncated report' = msr_partial_tail_truncated report"
    using recover_loop_prefix [OF assms(1-3,5-8)] by (metis append.assoc)
  show ?thesis
  proof (cases "tail = []")
    case True
    then show ?thesis
      using skip by (auto simp: recover_loop.simps)
  next
    case False
    obtain k q e where tail: "tail = take k (record_bytes (q, e))" "k < length (record_bytes (q, e))"
      "entry_ok options e"
      using assms(4) unfolding torn_def by blast
    have "mst_options st' = options" "file_contents fs (hd_path f') = ?pre @ take k (record_bytes (q, e))"
      using skip(2,3) assms(6,8) tail(1) by (simp_all add: applied_def)
    then obtain f'' where f'': "recover_step (length (?pre @ tail)) (length ?pre) (last_sequence sequence log)
        (st', (Some f', fs)) = (Inr None, (st', (Some f'', fs)))" "hd_path f'' = hd_path f'"
      using recover_step_torn [OF assms(1), of f' ?pre k q e st'] tail skip(4) assms(2) by auto
    have "recover_loop (length (?pre @ tail)) (length ?pre) (last_sequence sequence log) report'
        (st', (Some f', fs)) =
        (Inr (length ?pre, last_sequence sequence log, report'\<lparr>msr_partial_tail_truncated := True,
            msr_truncated_bytes := word_of_nat (length tail)\<rparr>), (st', (Some f'', fs)))"
      using False f''(1) by (subst recover_loop.simps) simp
    then show ?thesis
      using skip f''(2) False by auto
  qed
qed

section \<open>The log file behind a store\<close>

definition empty_index :: store_index where
  "empty_index = (Mapping.empty, [], None)"

definition log_index :: "(u64 \<times> log_entry) list \<Rightarrow> store_index" where
  "log_index log = fold apply_entry (map snd log) empty_index"

text \<open>\<open>log_file log st fs\<close>: the file of the store starts with the bytes of \<open>log\<close> up to
  the offset at which the store appends; the sequence numbers of \<open>log\<close> increase and the next one
  is above them. What follows that offset is residue of appends that failed.\<close>

definition log_file :: "(u64 \<times> log_entry) list \<Rightarrow> movement_store \<Rightarrow> file_system \<Rightarrow> bool" where
  "log_file log st fs \<longleftrightarrow>
     (\<exists>f. mst_file st = Some f \<and> hd_path f = mst_log_path st) \<and> is_file fs (mst_log_path st) \<and>
     mst_append_offset st = length (log_bytes log) \<and>
     take (length (log_bytes log)) (file_contents fs (mst_log_path st)) = log_bytes log \<and>
     sequenced 0 log \<and> last_sequence 0 log < mst_next_sequence st \<and>
     record_limits_ok (mst_options st) \<and> (\<forall>(q, e) \<in> set log. entry_ok (mst_options st) e)"

definition log_clean :: "movement_store \<Rightarrow> file_system \<Rightarrow> bool" where
  "log_clean st fs \<longleftrightarrow> length (file_contents fs (mst_log_path st)) = mst_append_offset st"

lemma log_clean_contents:
  "log_file log st fs \<Longrightarrow> log_clean st fs \<Longrightarrow> file_contents fs (mst_log_path st) = log_bytes log"
  by (metis log_clean_def log_file_def take_all_iff order_refl)

lemma log_bytes_append: "log_bytes (log @ log') = log_bytes log @ concat (map record_bytes log')"
  by (simp add: log_bytes_def)

lemma log_index_append: "log_index (log @ [(q, e)]) = apply_entry e (log_index log)"
  by (simp add: log_index_def)

lemma sequenced_append:
  "sequenced s (log @ [(q, e)]) \<longleftrightarrow> sequenced s log \<and> last_sequence s log < q"
  by (induction s log rule: sequenced.induct) auto

lemma last_sequence_append [simp]: "last_sequence s (log @ [(q, e)]) = q"
  by (induction s log rule: sequenced.induct) auto

section \<open>Appending\<close>

text \<open>What an append leaves alone in the store and in the file system.\<close>

definition store_frame ::
    "movement_store \<Rightarrow> file_system \<Rightarrow> movement_store \<Rightarrow> file_system \<Rightarrow> bool" where
  "store_frame st0 fs0 st fs \<longleftrightarrow>
     mst_options st = mst_options st0 \<and> mst_log_path st = mst_log_path st0 \<and>
     mst_lock_path st = mst_lock_path st0 \<and> mst_lock_handle st = mst_lock_handle st0 \<and>
     (\<forall>p. p \<noteq> mst_log_path st0 \<longrightarrow> fs_lookup fs p = fs_lookup fs0 p)"

text \<open>\<open>writing\<close>: past the log the file holds the bytes \<open>w\<close> and the handle stands behind them.\<close>

definition writing ::
    "(u64 \<times> log_entry) list \<Rightarrow> movement_store \<Rightarrow> file_system \<Rightarrow> bytes \<Rightarrow> store_world \<Rightarrow> bool" where
  "writing log st0 fs0 w = (\<lambda>(st, fs).
     log_file log st fs \<and> store_index st = store_index st0 \<and> store_frame st0 fs0 st fs \<and>
     mst_next_sequence st = mst_next_sequence st0 \<and>
     map_option hd_position (mst_file st) = Some (length (log_bytes log @ w)) \<and>
     take (length (log_bytes log @ w)) (file_contents fs (mst_log_path st)) = log_bytes log @ w)"

definition interrupted ::
    "(u64 \<times> log_entry) list \<Rightarrow> movement_store \<Rightarrow> file_system \<Rightarrow> status \<Rightarrow> store_world \<Rightarrow> bool" where
  "interrupted log st0 fs0 e = (\<lambda>(st, fs).
     log_file log st fs \<and> store_index st = store_index st0 \<and> store_frame st0 fs0 st fs \<and>
     mst_next_sequence st = mst_next_sequence st0)"

lemma writing_seek:
  "run_io (\<lambda>s. interrupted log st0 fs0 e s) (on_file (FileHandle_seek (length (log_bytes log))))
     (\<lambda>_. writing log st0 fs0 []) (interrupted log st0 fs0)"
  unfolding run_io_def
proof (intro allI impI)
  fix s r s'
  assume pre: "interrupted log st0 fs0 e s"
    and run: "on_file (FileHandle_seek (length (log_bytes log))) s = (r, s')"
  obtain st fs where s: "s = (st, fs)" by fastforce
  obtain f where f: "mst_file st = Some f" "hd_path f = mst_log_path st"
    using pre s by (auto simp: interrupted_def log_file_def)
  obtain h' fs' where seek: "FileHandle_seek (length (log_bytes log)) (Some f, fs) = (r, (h', fs'))"
    and s': "s' = (st\<lparr>mst_file := h'\<rparr>, fs')"
    using run s f(1) by (auto simp: on_file_def split: prod.splits)
  obtain f' where f': "h' = Some f'" "hd_path f' = hd_path f" "r = Inr () \<longrightarrow> hd_position f' = length (log_bytes log)"
    "fs_lookup fs' = fs_lookup fs"
    using FileHandle_seek_any [OF seek, of "()"] by blast
  have "interrupted log st0 fs0 x s'" for x
    using pre s s' f f' by (auto simp: interrupted_def log_file_def store_frame_def store_index_def
        is_file_def file_contents_def)
  then show "case r of Inr x \<Rightarrow> writing log st0 fs0 [] s' | Inl e \<Rightarrow> interrupted log st0 fs0 e s'"
    using s' f' by (cases r) (auto simp: writing_def interrupted_def log_file_def)
qed

lemma writing_write:
  "run_io (writing log st0 fs0 w) (on_file (FileHandle_write data))
     (\<lambda>_. writing log st0 fs0 (w @ data)) (interrupted log st0 fs0)"
  unfolding run_io_def
proof (intro allI impI)
  fix s r s'
  assume pre: "writing log st0 fs0 w s" and run: "on_file (FileHandle_write data) s = (r, s')"
  obtain st fs where s: "s = (st, fs)" by fastforce
  obtain f where f: "mst_file st = Some f" "hd_path f = mst_log_path st"
    "hd_position f = length (log_bytes log @ w)"
    using pre s by (auto simp: writing_def log_file_def)
  have isf: "is_file fs (hd_path f)"
    using pre s f by (simp add: writing_def log_file_def)
  obtain h' fs' where wr: "FileHandle_write data (Some f, fs) = (r, (h', fs'))"
    and s': "s' = (st\<lparr>mst_file := h'\<rparr>, fs')"
    using run s f(1) by (auto simp: on_file_def split: prod.splits)
  let ?old = "file_contents fs (hd_path f)" and ?a = "length (log_bytes log @ w)"
  obtain n where n: "n \<le> length data" "h' = Some (f\<lparr>hd_position := hd_position f + n\<rparr>)"
    "is_file fs' (hd_path f)" "r = Inr () \<Longrightarrow> n = length data"
    "file_contents fs' (hd_path f) = (if n = 0 then ?old else write_at (hd_position f) (take n data) ?old)"
    "\<And>p. p \<noteq> hd_path f \<Longrightarrow> fs_lookup fs' p = fs_lookup fs p"
    using FileHandle_write_any [OF wr isf, of "()"] by blast
  have old: "take ?a ?old = log_bytes log @ w"
    using pre s f by (simp add: writing_def)
  then have len: "?a \<le> length ?old"
    by (metis length_take min.cobounded1)
  have new: "take (?a + n) (file_contents fs' (hd_path f)) = log_bytes log @ w @ take n data"
    using n(1,5) old len f(3) write_at_written [of ?a ?old "take n data"]
    by (auto simp: min.absorb2)
  have "take (length (log_bytes log)) (file_contents fs' (hd_path f)) = log_bytes log"
    using arg_cong [OF new, of "take (length (log_bytes log))"] by (simp add: min.absorb1)
  then have "interrupted log st0 fs0 x s'" for x
    using pre s s' f n by (auto simp: interrupted_def writing_def log_file_def store_frame_def store_index_def)
  then have inter: "interrupted log st0 fs0 x s'" for x .
  show "case r of Inr x \<Rightarrow> writing log st0 fs0 (w @ data) s' | Inl e \<Rightarrow> interrupted log st0 fs0 e s'"
  proof (cases r)
    case (Inr x)
    then have "n = length data" using n(4) by simp
    then show ?thesis
      using inter [of Status_success] Inr s' f n(2) new pre s
      by (simp add: writing_def interrupted_def add.assoc)
  qed (simp add: inter)
qed

lemma writing_sync:
  "run_io (writing log st0 fs0 w) (on_file FileHandle_sync) (\<lambda>_. writing log st0 fs0 w) (interrupted log st0 fs0)"
  by (auto simp: run_io_def on_file_def writing_def interrupted_def log_file_def store_frame_def
      store_index_def is_file_def file_contents_def dest!: FileHandle_sync_lookup
      split: prod.splits sum.splits)

lemma word_less_Suc: "q \<noteq> - 1 \<Longrightarrow> q < q + 1" for q :: u64
  using unatSuc [of q] by (simp add: word_less_nat_alt eq_neg_iff_add_eq_0 add.commute)

lemma bind_modify_store [simp]: "bind_io (modify_store g) k (st, fs) = k () (g st, fs)"
  by (simp add: bind_io_def modify_store_def)

lemma append_record_any:
  assumes "log_file log st fs" "entry_ok (mst_options st) e" "mst_next_sequence st \<noteq> - 1"
    "append_record (entry_type e) (entry_payload e) (st, fs) = (r, (st', fs'))"
  shows "store_index st' = store_index st" "store_frame st fs st' fs'"
    "mst_next_sequence st' = mst_next_sequence st + 1"
    "log_file (if r = Inr () then log @ [(mst_next_sequence st, e)] else log) st' fs'"
proof -
  let ?q = "mst_next_sequence st" and ?p = "entry_payload e"
  let ?h = "record_header (entry_type e) ?q ?p"
  let ?st1 = "st\<lparr>mst_next_sequence := ?q + 1\<rparr>"
  let ?log = "log @ [(?q, e)]"
  let ?fin = "\<lambda>st. let offset = mst_append_offset st + (56 + length ?p)
     in set_stats (\<lambda>t. t\<lparr>mss_records_appended := mss_records_appended t + 1,
            mss_bytes_written := mss_bytes_written t + word_of_nat (56 + length ?p),
            mss_bytes_on_disk := word_of_nat offset\<rparr>)
          (st\<lparr>mst_append_offset := offset, mst_log_bytes := offset\<rparr>)"
  let ?sync = "if mso_sync_on_write (mst_options st) then on_file FileHandle_sync else return_io ()"
  let ?Q = "\<lambda>_ (st', fs'). log_file ?log st' fs' \<and> store_index st' = store_index st \<and>
     store_frame st fs st' fs' \<and> mst_next_sequence st' = ?q + 1"
  have q: "?q < ?q + 1" "last_sequence 0 log < ?q"
    using assms(1,3) word_less_Suc by (auto simp: log_file_def)
  have start: "interrupted log ?st1 fs Status_success (?st1, fs)"
    using assms(1) q by (auto simp: interrupted_def log_file_def store_frame_def store_index_def)
  have sync: "run_io (writing log ?st1 fs (([] @ ?h) @ ?p)) ?sync
      (\<lambda>_. writing log ?st1 fs (([] @ ?h) @ ?p)) (interrupted log ?st1 fs)"
    by (simp add: writing_sync run_io_return [where Q = "\<lambda>_. writing log ?st1 fs w" for w])
  have fin: "run_io (writing log ?st1 fs (([] @ ?h) @ ?p)) (modify_store ?fin) ?Q (interrupted log ?st1 fs)"
    using q assms(2)
    by (auto simp: run_io_def modify_store_def writing_def log_file_def store_frame_def store_index_def
        set_stats_def Let_def log_bytes_append record_bytes_def sequenced_append)
  have run: "run_io (interrupted log ?st1 fs Status_success)
      (bind_io (on_file (FileHandle_seek (mst_append_offset st))) (\<lambda>_. bind_io (on_file (FileHandle_write ?h))
        (\<lambda>_. bind_io (on_file (FileHandle_write ?p)) (\<lambda>_. bind_io ?sync (\<lambda>_. modify_store ?fin)))))
      ?Q (interrupted log ?st1 fs)"
    using assms(1) writing_seek [of log ?st1 fs Status_success] sync fin
    by (intro run_io_bind [OF _ run_io_bind [OF writing_write run_io_bind [OF writing_write run_io_bind]]])
      (auto simp: log_file_def)
  have "length ?p \<le> unat (mso_max_record_bytes (mst_options st))" "mst_file st \<noteq> None"
    using assms(1,2) by (auto simp: entry_ok_def log_file_def)
  then have "bind_io (on_file (FileHandle_seek (mst_append_offset st))) (\<lambda>_. bind_io (on_file (FileHandle_write ?h))
        (\<lambda>_. bind_io (on_file (FileHandle_write ?p)) (\<lambda>_. bind_io ?sync (\<lambda>_. modify_store ?fin)))) (?st1, fs) =
        (r, (st', fs'))"
    using assms(4)
    by (cases "mso_sync_on_write (mst_options st)") (auto simp: append_record_def Let_def)
  from run_ioD [OF run start this]
  have "store_index st' = store_index st \<and> store_frame st fs st' fs' \<and> mst_next_sequence st' = ?q + 1 \<and>
      log_file (if r = Inr () then ?log else log) st' fs'"
    by (cases r) (auto simp: interrupted_def store_frame_def store_index_def)
  then show "store_index st' = store_index st" "store_frame st fs st' fs'"
    "mst_next_sequence st' = ?q + 1" "log_file (if r = Inr () then ?log else log) st' fs'"
    by blast+
qed

section \<open>Opening a store on its log\<close>

lemma recover_log_existing:
  assumes "fs_script fs = []" "is_file fs (mst_log_path st)" "record_limits_ok (mst_options st)"
    "file_contents fs (mst_log_path st) = log_bytes log @ tail" "torn (mst_options st) tail"
    "sequenced 0 log" "\<forall>(q, e) \<in> set log. entry_ok (mst_options st) e" "length (log_bytes log) < 2 ^ 63"
  shows "\<exists>st' h' fs' report. recover_log False (length (log_bytes log @ tail)) (st, (None, fs)) =
      (Inr (length (log_bytes log), last_sequence 0 log, report), (st', (h', fs'))) \<and>
    applied (map snd log) st st' \<and> msr_partial_tail_truncated report = (tail \<noteq> []) \<and>
    fs_script fs' = [] \<and> fs_locked fs' = fs_locked fs \<and>
    fs_lookup fs' = (fs_lookup fs)(mst_log_path st := Some (File (log_bytes log)))"
proof -
  let ?p = "mst_log_path st"
  let ?f = "\<lparr>hd_path = ?p, hd_position = 96\<rparr>"
  let ?rep = "StoreRecoveryReport_default\<lparr>msr_created := False\<rparr>"
  obtain st' f' report where loop: "recover_loop (length (log_bytes log @ tail)) 96 0 ?rep (st, (Some ?f, fs)) =
      (Inr (length (log_bytes log), last_sequence 0 log, report), (st', (Some f', fs)))"
    "applied (map snd log) st st'" "hd_path f' = ?p" "msr_partial_tail_truncated report = (tail \<noteq> [])"
    using recover_loop_log [OF assms(1,3,7,5,6) refl, of ?f file_header ?rep] assms(4)
    by (auto simp: log_bytes_def StoreRecoveryReport_default_def)
  have read: "on_handle (bind_io (FileHandle_read 96) (\<lambda>header. lift_io (check_file_header header)))
      (st, (Some \<lparr>hd_path = ?p, hd_position = 0\<rparr>, fs)) = (Inr (), (st, (Some ?f, fs)))"
    using assms(1,4) by (simp add: on_handle_def bind_io_def io_simps lift_io_def log_bytes_def)
  have opened: "on_handle (FileHandle_open ?p True) (st, (None, fs)) =
      (Inr (), (st, (Some \<lparr>hd_path = ?p, hd_position = 0\<rparr>, fs)))"
    using assms(1,2) by (simp add: on_handle_def io_simps)
  show ?thesis
  proof (cases "tail = []")
    case True
    then have "fs_lookup fs = (fs_lookup fs)(?p := Some (File (log_bytes log)))"
      using assms(2,4) by (auto simp: is_file_iff)
    then show ?thesis
      using True loop assms(1)
      by (simp add: recover_log_def bind_io_def opened read on_handle_def [of "return_io ()"] return_io_def)
  next
    case False
    let ?fs = "set_contents ?p (log_bytes log) fs"
    have "on_handle (bind_io (FileHandle_truncate_at (length (log_bytes log))) (\<lambda>_. FileHandle_sync))
        (st', (Some f', fs)) = (Inr (), (st', (Some (f'\<lparr>hd_position := length (log_bytes log)\<rparr>), ?fs)))"
      using assms(1,4,8) loop(3)
      by (simp add: on_handle_def bind_io_def io_simps resize_def)
    then have "recover_log False (length (log_bytes log @ tail)) (st, (None, fs)) =
      (Inr (length (log_bytes log), last_sequence 0 log, report),
       (st', (Some (f'\<lparr>hd_position := length (log_bytes log)\<rparr>), ?fs)))"
      using False loop(1,4)
      by (simp add: recover_log_def bind_io_def opened read return_io_def)
    moreover have "fs_lookup ?fs = (fs_lookup fs)(?p := Some (File (log_bytes log)))"
      using assms(2) by (auto simp: fun_eq_iff)
    ultimately show ?thesis
      using loop assms(1) by auto
  qed
qed

lemma open_locked_log:
  assumes "fs_script fs = []" "is_file fs (mst_log_path st)" "record_limits_ok (mst_options st)"
    "file_contents fs (mst_log_path st) = log_bytes log @ tail" "torn (mst_options st) tail"
    "sequenced 0 log" "\<forall>(q, e) \<in> set log. entry_ok (mst_options st) e" "length (log_bytes log) < 2 ^ 63"
    "last_sequence 0 log \<noteq> - 1" "store_index st = empty_index" "mst_file st = None"
  shows "\<exists>report st' fs'. open_locked (st, fs) = (Inr report, (st', fs')) \<and> log_file log st' fs' \<and>
    log_clean st' fs' \<and> store_index st' = log_index log \<and> store_frame st fs st' fs' \<and>
    msr_partial_tail_truncated report = (tail \<noteq> []) \<and> fs_script fs' = [] \<and> fs_locked fs' = fs_locked fs \<and>
    mst_next_sequence st' = last_sequence 0 log + 1"
proof -
  let ?p = "mst_log_path st"
  have size: "fs_exists fs ?p" "fs_file_size fs ?p = Some (length (log_bytes log @ tail))"
    using assms(2,4) by (auto simp: fs_exists_def fs_file_size_def is_file_iff)
  obtain st' h' fs' report where rec:
    "recover_log False (length (log_bytes log @ tail)) (st, (None, fs)) =
      (Inr (length (log_bytes log), last_sequence 0 log, report), (st', (h', fs')))"
    "applied (map snd log) st st'" "msr_partial_tail_truncated report = (tail \<noteq> [])"
    "fs_script fs' = []" "fs_locked fs' = fs_locked fs"
    "fs_lookup fs' = (fs_lookup fs)(?p := Some (File (log_bytes log)))"
    using recover_log_existing [OF assms(1-8)] by blast
  have fs': "is_file fs' ?p" "file_contents fs' ?p = log_bytes log"
    using rec(6) by (simp_all add: is_file_def file_contents_def)
  have path: "mst_log_path st' = ?p" "mst_file st' = None" "mst_options st' = mst_options st"
    using rec(2) assms(11) by (simp_all add: applied_def)
  have pos: "log_bytes log \<noteq> []"
    by (simp add: log_bytes_def)
  let ?f = "\<lparr>hd_path = ?p, hd_position = length (log_bytes log)\<rparr>"
  define st2 where "st2 = set_stats (\<lambda>t. t\<lparr>mss_records_read := msr_records_read report,
        mss_bytes_on_disk := word_of_nat (length (log_bytes log)),
        mss_live_movements := Mapping.size (mst_records st')\<rparr>)
      (st'\<lparr>mst_log_bytes := length (log_bytes log), mst_append_offset := length (log_bytes log),
        mst_file := Some ?f, mst_next_sequence := last_sequence 0 log + 1\<rparr>)"
  have "\<exists>report'. open_locked (st, fs) = (Inr report', (st2, fs')) \<and>
      msr_partial_tail_truncated report' = msr_partial_tail_truncated report"
    using size pos rec(1,4) fs' path assms(8)
    by (simp add: open_locked_def Let_def bind_io_def on_file_def io_simps modify_store_def return_io_def
        st2_def set_stats_def)
  moreover have "log_file log st2 fs'" "log_clean st2 fs'" "store_index st2 = log_index log"
    "store_frame st fs st2 fs'" "mst_next_sequence st2 = last_sequence 0 log + 1"
    using rec(2,6) fs' path assms word_less_Suc [OF assms(9)]
    by (auto simp: st2_def log_file_def log_clean_def store_frame_def set_stats_def applied_def
        store_index_def log_index_def empty_index_def)
  ultimately show ?thesis
    using rec(3-5) by blast
qed

lemma FileLock_acquire_done:
  assumes "fs_script fs = []" "is_directory fs (butlast p)" "fs_lookup fs p \<noteq> Some Directory"
    "p \<notin> set (fs_locked fs)"
  shows "\<exists>fs'. FileLock_acquire p (None, fs) = (Inr (), (Some p, fs')) \<and> fs_script fs' = [] \<and>
    (\<forall>q. q \<noteq> p \<longrightarrow> fs_lookup fs' q = fs_lookup fs q)"
  using assms by (simp add: FileLock_acquire_def FileLock_release_def io_simps Let_def)

text \<open>The directory can be created, the lock file opened, and nobody holds the lock.\<close>

definition openable :: "store_options \<Rightarrow> file_system \<Rightarrow> bool" where
  "openable options fs \<longleftrightarrow>
     fs_script fs = [] \<and> mso_directory options \<noteq> [] \<and> record_limits_ok options \<and>
     mso_max_history_records options \<noteq> 0 \<and> \<not> list_ex (is_file fs) (prefixes (mso_directory options)) \<and>
     fs_lookup fs (mso_directory options @ [''movements.lock'']) \<noteq> Some Directory \<and>
     mso_directory options @ [''movements.lock''] \<notin> set (fs_locked fs)"

definition log_path :: "store_options \<Rightarrow> path" where
  "log_path options = mso_directory options @ [''movements.smf'']"

text \<open>What \<^verbatim>\<open>open\<close> does before it looks at the log.\<close>

lemma MovementStore_open_prelude:
  assumes "openable options fs"
  shows "\<exists>lock fs2. MovementStore_open options fs =
      (case open_locked ((MovementStore_new options)\<lparr>mst_lock_handle := lock\<rparr>, fs2) of
         (Inl s, (st, fs)) \<Rightarrow> (Inl s, MovementStore_destroy st fs)
       | (Inr report, (st, fs)) \<Rightarrow> (Inr (st, report), fs)) \<and>
    fs_script fs2 = [] \<and> fs_lookup fs2 (log_path options) = fs_lookup fs (log_path options) \<and>
    is_directory fs2 (mso_directory options) \<and>
    (\<forall>q. q \<noteq> mso_directory options @ [''movements.lock''] \<longrightarrow> fs_lookup fs2 q =
      (if prefix q (mso_directory options) \<and> q \<noteq> [] then Some Directory else fs_lookup fs q))"
proof -
  let ?dir = "mso_directory options" and ?lock = "mso_directory options @ [''movements.lock'']"
  have range: "\<not> (mso_max_record_bytes options = 0 \<or> mso_max_record_bytes options > 64 * 2 ^ 20)"
    using assms(1) by (auto simp: openable_def record_limits_ok_def word_less_nat_alt unat_eq_0)
  obtain fs1 where fs1: "fs_create_directories ?dir fs = (False, fs1)" "fs_script fs1 = []"
    "fs_locked fs1 = fs_locked fs"
    "fs_lookup fs1 = (\<lambda>q. if prefix q ?dir \<and> q \<noteq> [] then Some Directory else fs_lookup fs q)"
    using fs_create_directories_done [of fs ?dir] assms(1) by (auto simp: openable_def)
  define lock where "lock = (if mso_exclusive_lock options then Some ?lock else None)"
  obtain fs2 where fs2: "(if mso_exclusive_lock options then FileLock_acquire ?lock (None, fs1)
      else (Inr (), (None, fs1))) = (Inr (), (lock, fs2))" "fs_script fs2 = []"
    "\<And>q. q \<noteq> ?lock \<Longrightarrow> fs_lookup fs2 q = fs_lookup fs1 q"
    using FileLock_acquire_done [of fs1 ?lock] assms(1) fs1 that [of fs1]
    by (cases "mso_exclusive_lock options") (auto simp: openable_def lock_def is_directory_def)
  have "fs_lookup fs2 (log_path options) = fs_lookup fs (log_path options)"
    "is_directory fs2 (mso_directory options)"
    using fs2(3) fs1(4) by (simp_all add: log_path_def is_directory_def)
  moreover have "mst_lock_path (MovementStore_new options) = ?lock"
    by (simp add: MovementStore_new_def)
  then have "MovementStore_open options fs =
      (case open_locked ((MovementStore_new options)\<lparr>mst_lock_handle := lock\<rparr>, fs2) of
         (Inl s, (st, fs)) \<Rightarrow> (Inl s, MovementStore_destroy st fs)
       | (Inr report, (st, fs)) \<Rightarrow> (Inr (st, report), fs))"
    using assms(1) range fs1(1) fs2(1)
    by (cases "mso_exclusive_lock options") (auto simp: MovementStore_open_def Let_def openable_def)
  moreover have "\<forall>q. q \<noteq> ?lock \<longrightarrow> fs_lookup fs2 q =
      (if prefix q ?dir \<and> q \<noteq> [] then Some Directory else fs_lookup fs q)"
    using fs2(3) fs1(4) by simp
  ultimately show ?thesis
    using fs2(2) by blast
qed

lemma MovementStore_open_log:
  assumes "openable options fs" "is_file fs (log_path options)"
    "file_contents fs (log_path options) = log_bytes log @ tail" "torn options tail"
    "sequenced 0 log" "\<forall>(q, e) \<in> set log. entry_ok options e" "length (log_bytes log) < 2 ^ 63"
    "last_sequence 0 log \<noteq> - 1"
  shows "\<exists>st' report fs'. MovementStore_open options fs = (Inr (st', report), fs') \<and>
    log_file log st' fs' \<and> log_clean st' fs' \<and> store_index st' = log_index log \<and>
    mst_options st' = options \<and> mst_log_path st' = log_path options \<and>
    msr_partial_tail_truncated report = (tail \<noteq> []) \<and> fs_script fs' = [] \<and>
    mst_next_sequence st' = last_sequence 0 log + 1 \<and>
    (\<forall>q. q \<noteq> log_path options \<longrightarrow> q \<noteq> mso_directory options @ [''movements.lock''] \<longrightarrow> fs_lookup fs' q =
      (if prefix q (mso_directory options) \<and> q \<noteq> [] then Some Directory else fs_lookup fs q))"
proof -
  obtain lock fs2 where prelude: "MovementStore_open options fs =
      (case open_locked ((MovementStore_new options)\<lparr>mst_lock_handle := lock\<rparr>, fs2) of
         (Inl s, (st, fs)) \<Rightarrow> (Inl s, MovementStore_destroy st fs)
       | (Inr report, (st, fs)) \<Rightarrow> (Inr (st, report), fs))"
    "fs_script fs2 = []" "fs_lookup fs2 (log_path options) = fs_lookup fs (log_path options)"
    "\<forall>q. q \<noteq> mso_directory options @ [''movements.lock''] \<longrightarrow> fs_lookup fs2 q =
      (if prefix q (mso_directory options) \<and> q \<noteq> [] then Some Directory else fs_lookup fs q)"
    using MovementStore_open_prelude [OF assms(1)] by blast
  let ?st = "(MovementStore_new options)\<lparr>mst_lock_handle := lock\<rparr>"
  have st: "mst_options ?st = options" "mst_log_path ?st = log_path options" "mst_file ?st = None"
    "store_index ?st = empty_index"
    by (simp_all add: MovementStore_new_def log_path_def store_index_def empty_index_def)
  have log2: "is_file fs2 (log_path options)" "file_contents fs2 (log_path options) = log_bytes log @ tail"
    using assms(2,3) prelude(3) by (simp_all add: is_file_def file_contents_def)
  obtain report st' fs' where opened: "open_locked (?st, fs2) = (Inr report, (st', fs'))"
    "log_file log st' fs'" "log_clean st' fs'" "store_index st' = log_index log" "store_frame ?st fs2 st' fs'"
    "msr_partial_tail_truncated report = (tail \<noteq> [])" "fs_script fs' = []"
    "mst_next_sequence st' = last_sequence 0 log + 1"
    using open_locked_log [of fs2 ?st log tail] log2 prelude(2) st assms by (auto simp: openable_def)
  then show ?thesis
    using prelude(1,4) st by (auto simp: store_frame_def)
qed

text \<open>A file whose log is followed by something recovery refuses cannot be opened.\<close>

lemma MovementStore_open_refused:
  assumes "openable options fs" "is_file fs (log_path options)"
    "file_contents fs (log_path options) = log_bytes log @ tail" "tail \<noteq> []"
    "sequenced 0 log" "\<forall>(q, e) \<in> set log. entry_ok options e"
    "\<And>st f fs'. fs_script fs' = [] \<Longrightarrow> file_contents fs' (hd_path f) = log_bytes log @ tail \<Longrightarrow>
      hd_position f = length (log_bytes log) \<Longrightarrow> mst_options st = options \<Longrightarrow>
      \<exists>w. recover_step (length (log_bytes log @ tail)) (length (log_bytes log)) (last_sequence 0 log)
        (st, (Some f, fs')) = (Inl s, w)"
  shows "\<exists>fs'. MovementStore_open options fs = (Inl s, fs')"
proof -
  obtain lock fs2 where prelude: "MovementStore_open options fs =
      (case open_locked ((MovementStore_new options)\<lparr>mst_lock_handle := lock\<rparr>, fs2) of
         (Inl s, (st, fs)) \<Rightarrow> (Inl s, MovementStore_destroy st fs)
       | (Inr report, (st, fs)) \<Rightarrow> (Inr (st, report), fs))"
    "fs_script fs2 = []" "fs_lookup fs2 (log_path options) = fs_lookup fs (log_path options)"
    using MovementStore_open_prelude [OF assms(1)] by blast
  let ?st = "(MovementStore_new options)\<lparr>mst_lock_handle := lock\<rparr>" and ?p = "log_path options"
  let ?f = "\<lparr>hd_path = ?p, hd_position = 96\<rparr>" and ?n = "length (log_bytes log @ tail)"
  let ?rep = "StoreRecoveryReport_default\<lparr>msr_created := False\<rparr>"
  have st: "mst_options ?st = options" "mst_log_path ?st = ?p"
    by (simp_all add: MovementStore_new_def log_path_def)
  have log2: "is_file fs2 ?p" "file_contents fs2 ?p = log_bytes log @ tail"
    using assms(2,3) prelude(3) by (simp_all add: is_file_def file_contents_def)
  have limits: "record_limits_ok options"
    using assms(1) by (simp add: openable_def)
  obtain st' f' report' where skip: "recover_loop ?n 96 0 ?rep (?st, (Some ?f, fs2)) =
      recover_loop ?n (length (log_bytes log)) (last_sequence 0 log) report' (st', (Some f', fs2))"
    "applied (map snd log) ?st st'" "hd_path f' = ?p" "hd_position f' = length (log_bytes log)"
    using recover_loop_prefix [OF prelude(2) limits assms(6,5) st(1), of ?f file_header tail ?rep] log2(2)
    by (auto simp: log_bytes_def)
  obtain w where "recover_step ?n (length (log_bytes log)) (last_sequence 0 log) (st', (Some f', fs2)) = (Inl s, w)"
    using assms(7) [OF prelude(2), of f' st'] skip log2(2) st(1) by (auto simp: applied_def)
  then have loop: "recover_loop ?n 96 0 ?rep (?st, (Some ?f, fs2)) = (Inl s, w)"
    unfolding skip(1) using assms(4) by (subst recover_loop.simps) simp
  have nonempty: "log_bytes log \<noteq> []" by (simp add: log_bytes_def)
  have read: "on_handle (bind_io (FileHandle_read 96) (\<lambda>header. lift_io (check_file_header header)))
      (?st, (Some \<lparr>hd_path = ?p, hd_position = 0\<rparr>, fs2)) = (Inr (), (?st, (Some ?f, fs2)))"
    using prelude(2) log2(2) by (simp add: on_handle_def bind_io_def io_simps lift_io_def log_bytes_def)
  have opened: "on_handle (FileHandle_open ?p True) (?st, (None, fs2)) =
      (Inr (), (?st, (Some \<lparr>hd_path = ?p, hd_position = 0\<rparr>, fs2)))"
    using prelude(2) log2(1) by (simp add: on_handle_def io_simps)
  have "recover_log False ?n (?st, (None, fs2)) = (Inl s, w)"
    using st(2) loop by (simp add: recover_log_def bind_io_def opened read)
  moreover have "fs_exists fs2 ?p" "fs_file_size fs2 ?p = Some ?n"
    using log2 by (auto simp: fs_exists_def fs_file_size_def is_file_iff)
  ultimately have "\<exists>w. open_locked (?st, fs2) = (Inl s, w)"
    using nonempty st(2) by (cases w) (auto simp: open_locked_def Let_def split: prod.splits)
  then show ?thesis
    using prelude(1) by (auto split: prod.splits)
qed

lemma recover_step_bad_magic:
  assumes "fs_script fs = []" "file_contents fs (hd_path f) = pre @ tail" "hd_position f = length pre"
    "56 \<le> length tail" "take 4 tail \<noteq> kRecordMagic"
  shows "\<exists>w. recover_step n (length pre) q (st, (Some f, fs)) =
    (err STORE_CORRUPT ''store record magic does not match'', w)"
  using assms by (simp add: recover_step_def bind_io_def on_handle_def io_simps)

end
