(* ===== verification/SMF_Store_History.thy ===== *)
theory SMF_Store_History
  imports SMF_Store_Log
begin

text \<open>
  Histories of the movement store: every operation, whichever of its calls fail, keeps the index
  in memory equal to the replay of the log at the front of the file; recovery after a crash in the
  middle of an append gives the index back; compaction replaces the log by a shorter one with the
  same index.
\<close>

section \<open>The index\<close>

fun index_wf :: "store_index \<Rightarrow> bool" where
  "index_wf (records, order, state) \<longleftrightarrow>
     distinct order \<and> set order = Mapping.keys records \<and>
     (\<forall>i r. Mapping.lookup records i = Some r \<longrightarrow> mr_id r = i)"

lemma keys_iff_lookup: "i \<in> Mapping.keys m \<longleftrightarrow> Mapping.lookup m i \<noteq> None"
  by (simp add: keys_is_none_rep Option.is_none_def)

lemma lookup_delete_if:
  "Mapping.lookup (Mapping.delete k m) i = (if i = k then None else Mapping.lookup m i)"
  by (cases "i = k") (simp_all add: lookup_delete lookup_delete_neq)

lemma index_wf_apply: "index_wf ix \<Longrightarrow> index_wf (apply_entry e ix)"
  by (cases ix; cases e)
    (auto simp: keys_iff_lookup lookup_update' lookup_delete_if distinct_removeAll keys_update
      split: if_splits)

lemma index_wf_log: "index_wf (log_index log)"
proof (induction log rule: rev_induct)
  case Nil
  then show ?case by (simp add: log_index_def empty_index_def)
next
  case (snoc x log)
  then show ?case by (cases x) (simp add: log_index_append index_wf_apply)
qed

definition store_ok :: "(u64 \<times> log_entry) list \<Rightarrow> movement_store \<Rightarrow> file_system \<Rightarrow> bool" where
  "store_ok log st fs \<longleftrightarrow> log_file log st fs \<and> store_index st = log_index log \<and>
     mst_log_path st = log_path (mst_options st)"

lemma store_ok_wf: "store_ok log st fs \<Longrightarrow> index_wf (store_index st)"
  by (simp add: store_ok_def index_wf_log)

lemma store_frame_trans:
  "store_frame st fs st1 fs1 \<Longrightarrow> store_frame st1 fs1 st2 fs2 \<Longrightarrow> store_frame st fs st2 fs2"
  by (simp add: store_frame_def)

text \<open>An append followed by the same change of the index, or no change where the append failed.\<close>

lemma append_then_modify:
  assumes "store_ok log st fs" "entry_ok (mst_options st) e" "unat (mst_next_sequence st) + 1 < 2 ^ 64"
    "append_record (entry_type e) (entry_payload e) (st, fs) = (r, (st', fs'))"
    "\<And>s. store_index (g s) = apply_entry e (store_index s) \<or> \<not> index_wf (store_index s)"
    "\<And>s. g s = s\<lparr>mst_records := mst_records (g s), mst_order := mst_order (g s),
       mst_coordinator_state := mst_coordinator_state (g s), mst_stats := mst_stats (g s)\<rparr>"
  shows "if r = Inr () then store_ok (log @ [(mst_next_sequence st, e)]) (g st') fs' \<and> store_frame st fs (g st') fs' \<and>
      unat (mst_next_sequence (g st')) = unat (mst_next_sequence st) + 1
    else store_ok log st' fs' \<and> store_frame st fs st' fs' \<and>
      unat (mst_next_sequence st') = unat (mst_next_sequence st) + 1"
proof -
  let ?q = "mst_next_sequence st"
  have q: "?q \<noteq> - 1" "unat (?q + 1) = unat ?q + 1"
  proof -
    show "?q \<noteq> - 1"
      using assms(3) by auto
    then show "unat (?q + 1) = unat ?q + 1"
      using unatSuc [of ?q] by (simp add: eq_neg_iff_add_eq_0 add.commute)
  qed
  have lf: "log_file log st fs" and ix: "store_index st = log_index log"
    and path: "mst_log_path st = log_path (mst_options st)"
    using assms(1) by (simp_all add: store_ok_def)
  note app = append_record_any [OF lf assms(2) q(1) assms(4)]
  have "mst_options (g st') = mst_options st'" "mst_log_path (g st') = mst_log_path st'"
    "mst_lock_path (g st') = mst_lock_path st'" "mst_lock_handle (g st') = mst_lock_handle st'"
    "mst_file (g st') = mst_file st'" "mst_append_offset (g st') = mst_append_offset st'"
    "mst_next_sequence (g st') = mst_next_sequence st'"
    by (subst assms(6); simp)+
  moreover have "store_index (g st') = apply_entry e (store_index st')"
    using assms(5) [of st'] app(1) store_ok_wf [OF assms(1)] by simp
  ultimately show ?thesis
    using app ix q(2) path
    by (auto simp: store_ok_def log_file_def store_frame_def log_index_append)
qed

section \<open>Operations under failing calls\<close>

text \<open>The log has grown by the entries \<open>es\<close> and at most \<open>k\<close> sequence numbers are used up.\<close>

definition grown ::
    "(u64 \<times> log_entry) list \<Rightarrow> movement_store \<Rightarrow> file_system \<Rightarrow> nat \<Rightarrow> log_entry list \<Rightarrow>
     movement_store \<Rightarrow> file_system \<Rightarrow> bool" where
  "grown log st fs k es st' fs' \<longleftrightarrow> (\<exists>log'. map snd log' = es \<and> store_ok (log @ log') st' fs' \<and>
     store_frame st fs st' fs' \<and> unat (mst_next_sequence st') \<le> unat (mst_next_sequence st) + k)"

lemma grown_refl: "store_ok log st fs \<Longrightarrow> grown log st fs k [] st fs"
  by (simp add: grown_def store_frame_def)

lemma grown_same_index:
  assumes "grown log st fs k es st' fs'"
    "st'' = st'\<lparr>mst_stats := mst_stats st''\<rparr>"
  shows "grown log st fs k es st'' fs'"
proof -
  have "mst_options st'' = mst_options st'" "mst_log_path st'' = mst_log_path st'"
    "mst_lock_path st'' = mst_lock_path st'" "mst_lock_handle st'' = mst_lock_handle st'"
    "mst_file st'' = mst_file st'" "mst_append_offset st'' = mst_append_offset st'"
    "mst_next_sequence st'' = mst_next_sequence st'" "store_index st'' = store_index st'"
    by (subst assms(2); simp add: store_index_def)+
  then show ?thesis
    using assms(1) by (simp add: grown_def store_ok_def log_file_def store_frame_def)
qed

lemma grown_trans:
  assumes "grown log st fs j es st1 fs1"
    "\<And>log1. store_ok log1 st1 fs1 \<Longrightarrow> grown log1 st1 fs1 k es' st2 fs2"
  shows "grown log st fs (j + k) (es @ es') st2 fs2"
proof -
  obtain log1 where one: "map snd log1 = es" "store_ok (log @ log1) st1 fs1" "store_frame st fs st1 fs1"
    "unat (mst_next_sequence st1) \<le> unat (mst_next_sequence st) + j"
    using assms(1) by (auto simp: grown_def)
  obtain log2 where two: "map snd log2 = es'" "store_ok ((log @ log1) @ log2) st2 fs2"
    "store_frame st1 fs1 st2 fs2" "unat (mst_next_sequence st2) \<le> unat (mst_next_sequence st1) + k"
    using assms(2) [OF one(2)] by (auto simp: grown_def)
  show ?thesis
    unfolding grown_def using one two store_frame_trans [OF one(3) two(3)]
    by (intro exI [of _ "log1 @ log2"]) auto
qed

lemma append_grown:
  assumes "store_ok log st fs" "entry_ok (mst_options st) e" "unat (mst_next_sequence st) + 1 < 2 ^ 64"
    "bind_io (append_record (entry_type e) (entry_payload e)) (\<lambda>_. modify_store g) (st, fs) = (r, (st', fs'))"
    "\<And>s. store_index (g s) = apply_entry e (store_index s) \<or> \<not> index_wf (store_index s)"
    "\<And>s. g s = s\<lparr>mst_records := mst_records (g s), mst_order := mst_order (g s),
       mst_coordinator_state := mst_coordinator_state (g s), mst_stats := mst_stats (g s)\<rparr>"
  shows "grown log st fs 1 (if r = Inr () then [e] else []) st' fs'"
proof -
  obtain r1 st1 fs1 where app: "append_record (entry_type e) (entry_payload e) (st, fs) = (r1, (st1, fs1))"
    by (metis prod.collapse)
  note post = append_then_modify [OF assms(1-3) app, of g, OF assms(5,6)]
  show ?thesis
  proof (cases r1)
    case (Inl s)
    then show ?thesis
      using post assms(4) app by (auto simp: bind_io_def grown_def)
  next
    case (Inr u)
    then have "r = Inr ()" "st' = g st1" "fs' = fs1"
      using assms(4) app by (simp_all add: bind_io_def modify_store_def)
    then show ?thesis
      using post Inr by (auto simp: grown_def intro!: exI [of _ "[(mst_next_sequence st, e)]"])
  qed
qed

lemma length_movement_id [simp]: "length (FixedId_encode (i :: movement_id)) = 24"
  by (simp add: FixedId_encode_def enc_blob_def)

lemma retire_entry_ok: "record_limits_ok options \<Longrightarrow> entry_ok options (Retire_entry i)"
  by (simp add: entry_ok_def record_limits_ok_def)

lemma index_erase_entry:
  "store_index (index_erase i s) = apply_entry (Retire_entry i) (store_index s) \<or> \<not> index_wf (store_index s)"
proof (cases "Mapping.lookup (mst_records s) i = None")
  case True
  then have "Mapping.delete i (mst_records s) = mst_records s"
    by (intro mapping_eqI) (simp add: lookup_delete_if)
  moreover have "removeAll i (mst_order s) = mst_order s" if "index_wf (store_index s)"
    using True that by (simp add: store_index_def keys_iff_lookup)
  ultimately show ?thesis
    using True by (auto simp: store_index_def index_erase_def set_stats_def Let_def)
qed (auto simp: store_index_def index_erase_def set_stats_def Let_def)

lemma retire_victims_grown:
  assumes "store_ok log st fs" "unat (mst_next_sequence st) + length vs < 2 ^ 64"
    "retire_victims vs (st, fs) = (r, (st', fs'))"
  shows "\<exists>n. grown log st fs (length vs) (map Retire_entry (take n vs)) st' fs' \<and>
    (r = Inr () \<longrightarrow> length vs \<le> n)"
  using assms
proof (induction vs arbitrary: log st fs)
  case Nil
  then show ?case
    by (auto simp: return_io_def intro: grown_refl)
next
  case (Cons i vs)
  obtain r1 st1 fs1 where one: "bind_io (append_record 3 (FixedId_encode i)) (\<lambda>_. modify_store (index_erase i))
      (st, fs) = (r1, (st1, fs1))"
    by (metis prod.collapse)
  have assoc: "retire_victims (i # vs) (st, fs) =
      (case r1 of Inl s \<Rightarrow> (Inl s, (st1, fs1)) | Inr _ \<Rightarrow> retire_victims vs (st1, fs1))"
    using one by (auto simp: bind_io_def modify_store_def split: prod.splits sum.splits)
  have limits: "record_limits_ok (mst_options st)"
    using Cons.prems(1) by (simp add: store_ok_def log_file_def)
  have grow1: "grown log st fs 1 (if r1 = Inr () then [Retire_entry i] else []) st1 fs1"
    using append_grown [OF Cons.prems(1) retire_entry_ok [OF limits, of i], of "index_erase i" r1 st1 fs1]
      Cons.prems(2) one index_erase_entry
    by (simp add: index_erase_def set_stats_def)
  show ?case
  proof (cases r1)
    case (Inl s)
    then show ?thesis
      using assoc Cons.prems(3) grow1
      by (intro exI [of _ 0]) (auto simp: grown_def intro: le_trans)
  next
    case (Inr u)
    then have run: "retire_victims vs (st1, fs1) = (r, (st', fs'))"
      using assoc Cons.prems(3) by simp
    obtain log1 where log1: "store_ok (log @ log1) st1 fs1" "map snd log1 = [Retire_entry i]"
      "store_frame st fs st1 fs1" "unat (mst_next_sequence st1) \<le> unat (mst_next_sequence st) + 1"
      using grow1 Inr by (auto simp: grown_def)
    have bound: "unat (mst_next_sequence st1) + length vs < 2 ^ 64"
      using log1(4) Cons.prems(2) by simp
    obtain n where n: "grown (log @ log1) st1 fs1 (length vs) (map Retire_entry (take n vs)) st' fs'"
      "r = Inr () \<longrightarrow> length vs \<le> n"
      using Cons.IH [OF log1(1) bound run] by blast
    obtain log2 where "map snd log2 = map Retire_entry (take n vs)" "store_ok ((log @ log1) @ log2) st' fs'"
      "store_frame st1 fs1 st' fs'" "unat (mst_next_sequence st') \<le> unat (mst_next_sequence st1) + length vs"
      using n(1) by (auto simp: grown_def)
    then have "grown log st fs (length (i # vs)) (map Retire_entry (take (Suc n) (i # vs))) st' fs'"
      using log1 store_frame_trans [OF log1(3)] unfolding grown_def
      by (intro exI [of _ "log1 @ log2"]) auto
    then show ?thesis
      using n(2) by (intro exI [of _ "Suc n"]) simp
  qed
qed

lemma length_retention_victims: "length (retention_victims n records order) \<le> length order"
  by (induction n records order rule: retention_victims.induct) (auto split: option.splits)

lemma retention_victims_terminal:
  "i \<in> set (retention_victims n records order) \<Longrightarrow>
   i \<in> set order \<and> (\<exists>r. Mapping.lookup records i = Some r \<and> is_terminal (mr_state r))"
  by (induction n records order rule: retention_victims.induct) (auto split: option.splits if_splits)

lemma enforce_retention_grown:
  assumes "store_ok log st fs" "unat (mst_next_sequence st) + length (mst_order st) < 2 ^ 64"
    "enforce_retention (st, fs) = (r, (st', fs'))"
  shows "\<exists>vs. grown log st fs (length (mst_order st)) (map Retire_entry vs) st' fs' \<and>
    (\<forall>i \<in> set vs. \<exists>m. Mapping.lookup (mst_records st) i = Some m \<and> is_terminal (mr_state m))"
proof -
  define vs where "vs = retention_victims (Mapping.size (mst_records st) -
      unat (mso_retention_completed (mst_options st))) (mst_records st) (mst_order st)"
  have len: "length vs \<le> length (mst_order st)"
    by (simp add: vs_def length_retention_victims)
  obtain r1 st1 fs1 where run: "retire_victims vs (st, fs) = (r1, (st1, fs1))"
    by (metis prod.collapse)
  obtain n where "grown log st fs (length vs) (map Retire_entry (take n vs)) st1 fs1"
    using retire_victims_grown [OF assms(1) _ run] assms(2) len by auto
  then have n: "grown log st fs (length (mst_order st)) (map Retire_entry (take n vs)) st1 fs1"
    using len by (auto simp: grown_def)
  have n': "grown log st fs (length (mst_order st)) (map Retire_entry (take n vs))
      (bytes_on_disk_now (live_movements_now st1)) fs1"
    using grown_same_index [OF n] by (simp add: bytes_on_disk_now_def live_movements_now_def set_stats_def)
  have same: "grown log st fs (length (mst_order st)) (map Retire_entry []) st fs"
    using grown_refl [OF assms(1)] by simp
  have victims: "\<forall>i \<in> set (take n vs). \<exists>m. Mapping.lookup (mst_records st) i = Some m \<and> is_terminal (mr_state m)"
    using retention_victims_terminal set_take_subset [of n vs] unfolding vs_def by blast
  have "(st', fs') = (st, fs) \<or> (st', fs') = (st1, fs1) \<or>
      (st', fs') = (bytes_on_disk_now (live_movements_now st1), fs1)"
    using assms(3) run
    by (auto simp: enforce_retention_def Let_def vs_def bind_io_def modify_store_def
        split: if_splits sum.splits)
  then show ?thesis
    using n n' same victims by (metis Pair_inject empty_iff empty_set)
qed

lemma index_insert_frame:
  "index_insert m s = s\<lparr>mst_records := mst_records (index_insert m s), mst_order := mst_order (index_insert m s),
     mst_coordinator_state := mst_coordinator_state (index_insert m s), mst_stats := mst_stats (index_insert m s)\<rparr>"
  by (simp add: index_insert_def set_stats_def Let_def)

lemma movement_valid_wf: "movement_wf r \<Longrightarrow> Status_ok (MovementRecord_validate r)"
  by (simp add: movement_wf_def)

lemma MovementStore_put_grown:
  assumes "store_ok log st fs" "entry_ok (mst_options st) (Movement_entry m)"
    "unat (mst_next_sequence st) + length (mst_order st) + 2 < 2 ^ 64"
    "MovementStore_put m (st, fs) = (r, (st', fs'))"
  shows "\<exists>es. grown log st fs (length (mst_order st) + 2) es st' fs' \<and>
    (r = Inr () \<longrightarrow> (\<exists>vs. es = Movement_entry m # map Retire_entry vs \<and>
      (\<forall>i \<in> set vs. \<exists>n. Mapping.lookup (Mapping.update (mr_id m) m (mst_records st)) i = Some n \<and>
         is_terminal (mr_state n))))"
proof -
  have valid: "Status_ok (MovementRecord_validate m)"
    using assms(2) by (simp add: entry_ok_def movement_valid_wf)
  obtain r1 st1 fs1 where one: "bind_io (append_record 1 (MovementRecord_encode m))
      (\<lambda>_. modify_store (index_insert m)) (st, fs) = (r1, (st1, fs1))"
    by (metis prod.collapse)
  have grow1: "grown log st fs 1 (if r1 = Inr () then [Movement_entry m] else []) st1 fs1"
    using append_grown [OF assms(1,2), of "index_insert m" r1 st1 fs1, OF _ _ _ index_insert_frame] assms(3) one
    by simp
  have put: "MovementStore_put m (st, fs) =
      (case r1 of Inl s \<Rightarrow> (Inl s, (st1, fs1))
       | Inr _ \<Rightarrow> bind_io enforce_retention (\<lambda>_. modify_store bytes_on_disk_now) (st1, fs1))"
    using one valid
    by (auto simp: MovementStore_put_def Let_def bind_io_def modify_store_def split: prod.splits sum.splits)
  show ?thesis
  proof (cases r1)
    case (Inl s)
    then have "r = Inl s" "st' = st1" "fs' = fs1" using put assms(4) by simp_all
    then show ?thesis
      using grow1 Inl by (intro exI [of _ "[]"]) (auto simp: grown_def)
  next
    case (Inr u)
    obtain r2 st2 fs2 where two: "enforce_retention (st1, fs1) = (r2, (st2, fs2))"
      by (metis prod.collapse)
    have "grown log st fs 1 [Movement_entry m] st1 fs1"
      using grow1 Inr by simp
    then obtain log1 where log1: "map snd log1 = [Movement_entry m]" "store_ok (log @ log1) st1 fs1"
      "store_frame st fs st1 fs1" "unat (mst_next_sequence st1) \<le> unat (mst_next_sequence st) + 1"
      unfolding grown_def by (elim exE conjE) (rule that)
    have st1: "store_index st1 = apply_entry (Movement_entry m) (store_index st)"
      using log1(1,2) assms(1) by (auto simp: store_ok_def log_index_append)
    have order: "length (mst_order st1) \<le> length (mst_order st) + 1"
      "mst_records st1 = Mapping.update (mr_id m) m (mst_records st)"
      using st1 by (auto simp: store_index_def split: if_splits)
    obtain vs where vs: "grown (log @ log1) st1 fs1 (length (mst_order st1)) (map Retire_entry vs) st2 fs2"
      "\<forall>i \<in> set vs. \<exists>n. Mapping.lookup (mst_records st1) i = Some n \<and> is_terminal (mr_state n)"
      using enforce_retention_grown [OF log1(2) _ two] log1(4) order(1) assms(3) by fastforce
    have "grown log st fs (length (mst_order st) + 2) (Movement_entry m # map Retire_entry vs) st2 fs2"
      using vs(1) log1 order(1) store_frame_trans [OF log1(3)] unfolding grown_def
      by (fastforce intro: exI [of _ "log1 @ log2" for log2])
    then have both: "grown log st fs (length (mst_order st) + 2) (Movement_entry m # map Retire_entry vs) st2 fs2"
      "grown log st fs (length (mst_order st) + 2) (Movement_entry m # map Retire_entry vs)
        (bytes_on_disk_now st2) fs2"
      using grown_same_index by (simp_all add: bytes_on_disk_now_def set_stats_def)
    have "(st', fs') = (st2, fs2) \<or> (st', fs') = (bytes_on_disk_now st2, fs2)"
      using put Inr assms(4) two by (auto simp: bind_io_def modify_store_def split: sum.splits)
    then show ?thesis
      using both vs(2) order(2) by auto
  qed
qed

section \<open>Histories\<close>

datatype store_op =
    Put_op movement_record
  | Retire_op movement_id
  | Save_op coordinator_state

fun run_store_op :: "store_op \<Rightarrow> (store_world, unit) io" where
  "run_store_op (Put_op m) = MovementStore_put m"
| "run_store_op (Retire_op i) = MovementStore_retire i"
| "run_store_op (Save_op s) = MovementStore_save_coordinator_state s"

fun store_op_ok :: "store_options \<Rightarrow> store_op \<Rightarrow> bool" where
  "store_op_ok options (Put_op m) \<longleftrightarrow> entry_ok options (Movement_entry m)"
| "store_op_ok options (Retire_op i) \<longleftrightarrow> True"
| "store_op_ok options (Save_op s) \<longleftrightarrow> entry_ok options (State_entry s)"

text \<open>A history of operations, failed ones included, that does not exhaust the sequence numbers.\<close>

inductive store_run :: "store_world \<Rightarrow> store_world \<Rightarrow> bool" where
  store_run_refl: "store_run w w"
| store_run_step: "store_run w (st, fs) \<Longrightarrow> store_op_ok (mst_options st) op \<Longrightarrow>
    unat (mst_next_sequence st) + length (mst_order st) + 2 < 2 ^ 64 \<Longrightarrow>
    run_store_op op (st, fs) = (r, w') \<Longrightarrow> store_run w w'"

lemma run_store_op_grown:
  assumes "store_ok log st fs" "store_op_ok (mst_options st) op"
    "unat (mst_next_sequence st) + length (mst_order st) + 2 < 2 ^ 64"
    "run_store_op op (st, fs) = (r, (st', fs'))"
  shows "\<exists>es. grown log st fs (length (mst_order st) + 2) es st' fs'"
proof (cases op)
  case (Put_op m)
  then show ?thesis
    using MovementStore_put_grown [of log st fs m r st' fs'] assms by auto
next
  case (Retire_op i)
  let ?g = "\<lambda>st. live_movements_now (index_erase i st)"
  have limits: "record_limits_ok (mst_options st)"
    using assms(1) by (simp add: store_ok_def log_file_def)
  have frame: "?g s = s\<lparr>mst_records := mst_records (?g s), mst_order := mst_order (?g s),
       mst_coordinator_state := mst_coordinator_state (?g s), mst_stats := mst_stats (?g s)\<rparr>" for s
    by (simp add: live_movements_now_def index_erase_def set_stats_def Let_def)
  have index: "store_index (?g s) = apply_entry (Retire_entry i) (store_index s) \<or> \<not> index_wf (store_index s)" for s
    using index_erase_entry [of i s] by (simp add: live_movements_now_def)
  show ?thesis
  proof (cases "Mapping.lookup (mst_records st) i = None")
    case True
    then show ?thesis
      using Retire_op assms grown_refl [OF assms(1)] by (auto simp: MovementStore_retire_def)
  next
    case False
    then have "bind_io (append_record (entry_type (Retire_entry i)) (entry_payload (Retire_entry i)))
        (\<lambda>_. modify_store ?g) (st, fs) = (r, (st', fs'))"
      using Retire_op assms(4) by (auto simp: MovementStore_retire_def)
    from append_grown [OF assms(1) retire_entry_ok [OF limits] _ this index frame] show ?thesis
      using assms(3) by (fastforce simp: grown_def)
  qed
next
  case (Save_op s)
  let ?g = "\<lambda>st. st\<lparr>mst_coordinator_state := Some s\<rparr>"
  have "bind_io (append_record (entry_type (State_entry s)) (entry_payload (State_entry s)))
      (\<lambda>_. modify_store ?g) (st, fs) = (r, (st', fs'))"
    using Save_op assms(4) by (simp add: MovementStore_save_coordinator_state_def)
  from append_grown [OF assms(1) _ _ this] show ?thesis
    using Save_op assms(2,3) by (fastforce simp: grown_def store_index_def)
qed

lemma store_run_ok:
  assumes "store_run w w'" "store_ok log (fst w) (snd w)"
  shows "\<exists>log'. store_ok (log @ log') (fst w') (snd w') \<and> store_frame (fst w) (snd w) (fst w') (snd w')"
  using assms
proof (induction rule: store_run.induct)
  case (store_run_refl w)
  then show ?case
    by (intro exI [of _ "[]"]) (simp add: store_frame_def)
next
  case (store_run_step w st fs op r w')
  obtain st' fs' where w': "w' = (st', fs')" by fastforce
  obtain log1 where log1: "store_ok (log @ log1) st fs" "store_frame (fst w) (snd w) st fs"
    using store_run_step by auto
  obtain es where "grown (log @ log1) st fs (length (mst_order st) + 2) es st' fs'"
    using run_store_op_grown [OF log1(1)] store_run_step w' by blast
  then obtain log2 where "store_ok ((log @ log1) @ log2) st' fs'" "store_frame st fs st' fs'"
    by (auto simp: grown_def)
  then show ?case
    using store_frame_trans [OF log1(2)] w' by (intro exI [of _ "log1 @ log2"]) auto
qed

lemma torn_prefix:
  "entry_ok options e \<Longrightarrow> k < length (record_bytes (q, e)) \<Longrightarrow> torn options (take k (record_bytes (q, e)))"
  unfolding torn_def by blast

lemma torn_Nil: "record_limits_ok options \<Longrightarrow> torn options []"
  using torn_prefix [OF retire_entry_ok [of options 0], of 0 0] by (simp add: record_bytes_def)

section \<open>Crashes\<close>

lemma store_crash:
  assumes "store_ok log st fs" "openable (mst_options st) disk" "is_file disk (mst_log_path st)"
    "file_contents disk (mst_log_path st) =
       take (mst_append_offset st) (file_contents fs (mst_log_path st)) @ take k (record_bytes (q, e))"
    "entry_ok (mst_options st) e" "mst_next_sequence st \<le> q" "q \<noteq> - 1"
    "mst_append_offset st + length (record_bytes (q, e)) < 2 ^ 63"
  shows "\<exists>st' report disk' log'. MovementStore_open (mst_options st) disk = (Inr (st', report), disk') \<and>
    store_ok log' st' disk' \<and> log_clean st' disk' \<and>
    store_index st' =
      (if k < length (record_bytes (q, e)) then store_index st else apply_entry e (store_index st)) \<and>
    msr_partial_tail_truncated report = (0 < k \<and> k < length (record_bytes (q, e)))"
proof -
  have lf: "log_file log st fs" "store_index st = log_index log" "mst_log_path st = log_path (mst_options st)"
    using assms(1) by (simp_all add: store_ok_def)
  have log: "sequenced 0 log" "last_sequence 0 log < mst_next_sequence st"
    "\<forall>(q, e) \<in> set log. entry_ok (mst_options st) e" "mst_append_offset st = length (log_bytes log)"
    using lf(1) by (simp_all add: log_file_def)
  have bytes: "file_contents disk (log_path (mst_options st)) = log_bytes log @ take k (record_bytes (q, e))"
    using assms(4) lf by (simp add: log_file_def)
  have isf: "is_file disk (log_path (mst_options st))"
    using assms(3) lf(3) by simp
  show ?thesis
  proof (cases "k < length (record_bytes (q, e))")
    case True
    have "last_sequence 0 log \<noteq> - 1"
      using log(2) by (metis word_order.extremum_strict)
    then show ?thesis
      using MovementStore_open_log [OF assms(2) isf bytes torn_prefix [OF assms(5) True] log(1,3)]
        assms(8) log(4) lf True
      by (auto simp: store_ok_def)
  next
    case False
    have limits: "record_limits_ok (mst_options st)"
      using assms(2) by (simp add: openable_def)
    have "sequenced 0 (log @ [(q, e)])" "last_sequence 0 (log @ [(q, e)]) = q"
      using log(1,2) assms(6) by (auto simp: sequenced_append)
    then show ?thesis
      using MovementStore_open_log [OF assms(2) isf, of "log @ [(q, e)]" "[]"] torn_Nil [OF limits]
        bytes False assms(5,7,8) log(3,4) lf
      by (auto simp: store_ok_def log_bytes_append log_index_append) (metis log_index_append)
  qed
qed

section \<open>A new store\<close>

lemma recover_log_created:
  assumes "fs_script fs = []" "fs_lookup fs p = None" "p \<noteq> []" "is_directory fs (butlast p)" "mst_log_path st = p"
  shows "\<exists>h' fs' report. recover_log True 96 (st, (None, fs)) = (Inr (96, 0, report), (st, (h', fs'))) \<and>
    fs_script fs' = [] \<and> fs_lookup fs' = (fs_lookup fs)(p := Some (File file_header))"
proof -
  let ?fs = "set_contents p (write_at 0 file_header []) (set_node p (File []) fs)"
  let ?rep = "StoreRecoveryReport_default\<lparr>msr_created := True\<rparr>"
  have lookup: "fs_lookup ?fs = (fs_lookup fs)(p := Some (File file_header))"
    by (auto simp: fun_eq_iff write_at_def)
  have loop: "recover_loop 96 96 0 rep w = (Inr (96, 0, rep), w)" for rep w
    by (simp add: recover_loop.simps)
  have "recover_log True 96 (st, (None, fs)) =
      (Inr (96, 0, ?rep), (st, (Some \<lparr>hd_path = p, hd_position = 96\<rparr>, ?fs)))"
    using assms
    by (simp add: recover_log_def bind_io_def on_handle_def io_simps loop return_io_def
        StoreRecoveryReport_default_def)
  then show ?thesis
    using lookup assms(1) by auto
qed

lemma MovementStore_open_new:
  assumes "openable options fs" "fs_lookup fs (log_path options) = None"
  shows "\<exists>st report fs'. MovementStore_open options fs = (Inr (st, report), fs') \<and>
    store_ok [] st fs' \<and> log_clean st fs' \<and> mst_options st = options \<and> mst_next_sequence st = 1 \<and>
    fs_script fs' = []"
proof -
  let ?p = "log_path options"
  obtain lock fs2 where prelude: "MovementStore_open options fs =
      (case open_locked ((MovementStore_new options)\<lparr>mst_lock_handle := lock\<rparr>, fs2) of
         (Inl s, (st, fs)) \<Rightarrow> (Inl s, MovementStore_destroy st fs)
       | (Inr report, (st, fs)) \<Rightarrow> (Inr (st, report), fs))"
    "fs_script fs2 = []" "fs_lookup fs2 ?p = fs_lookup fs ?p" "is_directory fs2 (mso_directory options)"
    using MovementStore_open_prelude [OF assms(1)] by blast
  let ?st = "(MovementStore_new options)\<lparr>mst_lock_handle := lock\<rparr>"
  have st: "mst_options ?st = options" "mst_log_path ?st = ?p" "mst_file ?st = None" "store_index ?st = empty_index"
    "?p \<noteq> []" "butlast ?p = mso_directory options"
    by (simp_all add: MovementStore_new_def log_path_def store_index_def empty_index_def)
  obtain h' fs' report where rec: "recover_log True 96 (?st, (None, fs2)) = (Inr (96, 0, report), (?st, (h', fs')))"
    "fs_script fs' = []" "fs_lookup fs' = (fs_lookup fs2)(?p := Some (File file_header))"
    using recover_log_created [of fs2 ?p ?st] prelude st assms(2) by auto
  have fs': "is_file fs' ?p" "file_contents fs' ?p = file_header"
    using rec(3) by (simp_all add: is_file_def file_contents_def)
  let ?f = "\<lparr>hd_path = ?p, hd_position = 96\<rparr>"
  define st2 where "st2 = set_stats (\<lambda>t. t\<lparr>mss_records_read := msr_records_read report,
        mss_bytes_on_disk := 96, mss_live_movements := Mapping.size (mst_records ?st)\<rparr>)
      (?st\<lparr>mst_log_bytes := 96, mst_append_offset := 96, mst_file := Some ?f, mst_next_sequence := 1\<rparr>)"
  have "\<exists>report'. open_locked (?st, fs2) = (Inr report', (st2, fs'))"
    using prelude(3) assms(2) st rec fs'
    by (simp add: open_locked_def Let_def bind_io_def on_file_def io_simps modify_store_def return_io_def
        st2_def set_stats_def fs_exists_def)
  moreover have "record_limits_ok options"
    using assms(1) by (simp add: openable_def)
  then have "store_ok [] st2 fs'" "log_clean st2 fs'" "mst_options st2 = options" "mst_next_sequence st2 = 1"
    using fs' st
    by (auto simp: st2_def store_ok_def log_file_def log_clean_def set_stats_def log_bytes_def
        store_index_def log_index_def)
  ultimately show ?thesis
    using prelude(1) rec(2) by auto
qed

section \<open>Compaction\<close>

text \<open>The entries compaction keeps: the live records in order, then the coordinator state.\<close>

definition live_entries :: "movement_store \<Rightarrow> log_entry list" where
  "live_entries st =
     map Movement_entry (List.map_filter (Mapping.lookup (mst_records st)) (mst_order st)) @
     (case mst_coordinator_state st of None \<Rightarrow> [] | Some s \<Rightarrow> [State_entry s])"

fun numbered :: "u64 \<Rightarrow> log_entry list \<Rightarrow> (u64 \<times> log_entry) list" where
  "numbered q [] = []"
| "numbered q (e # es) = (q + 1, e) # numbered (q + 1) es"

lemma compact_entries_live: "compact_entries st = map (\<lambda>e. (entry_type e, entry_payload e)) (live_entries st)"
  by (simp add: compact_entries_def live_entries_def split: option.splits)

lemma map_snd_numbered [simp]: "map snd (numbered q es) = es"
  by (induction es arbitrary: q) auto

lemma numbered_sequenced:
  assumes "unat q + length es < 2 ^ 64"
  shows "sequenced q (numbered q es) \<and> unat (last_sequence q (numbered q es)) = unat q + length es"
  using assms
proof (induction es arbitrary: q)
  case (Cons e es)
  have "q \<noteq> - 1" using Cons.prems by auto
  then have q: "q < q + 1" "unat (q + 1) = unat q + 1"
    using word_less_Suc [of q] unatSuc [of q] by (simp_all add: eq_neg_iff_add_eq_0 add.commute)
  then show ?case
    using Cons.IH [of "q + 1"] Cons.prems by simp
qed simp

lemma compact_write_okD:
  assumes "compact_write (map (\<lambda>e. (entry_type e, entry_payload e)) es) q offset (Some f, fs) =
      (Inr n, (h', fs'))"
    "is_file fs (hd_path f)" "hd_position f = length (file_contents fs (hd_path f))"
  shows "is_file fs' (hd_path f) \<and> n = offset + length (concat (map record_bytes (numbered q es))) \<and>
    file_contents fs' (hd_path f) =
      file_contents fs (hd_path f) @ concat (map record_bytes (numbered q es))"
  using assms
proof (induction es arbitrary: q offset f fs)
  case Nil
  then show ?case by (simp add: return_io_def)
next
  case (Cons e es)
  let ?h = "record_header (entry_type e) (q + 1) (entry_payload e)" and ?p = "entry_payload e"
  obtain u1 h1 fs1 u2 h2 fs2 where
    one: "FileHandle_write ?h (Some f, fs) = (Inr u1, (h1, fs1))" and
    two: "FileHandle_write ?p (h1, fs1) = (Inr u2, (h2, fs2))" and
    rest: "compact_write (map (\<lambda>e. (entry_type e, entry_payload e)) es) (q + 1) (offset + 56 + length ?p)
      (h2, fs2) = (Inr n, (h', fs'))"
    using Cons.prems(1) by (auto simp: bind_io_Inr_iff)
  let ?f1 = "f\<lparr>hd_position := hd_position f + length ?h\<rparr>"
  let ?f2 = "f\<lparr>hd_position := hd_position f + length ?h + length ?p\<rparr>"
  note w1 = FileHandle_write_append [OF one Cons.prems(2,3)]
  have two': "FileHandle_write ?p (Some ?f1, fs1) = (Inr u2, (h2, fs2))"
    using two w1(1) by simp
  have w2: "h2 = Some ?f2" "is_file fs2 (hd_path ?f2)"
    "file_contents fs2 (hd_path ?f2) = file_contents fs (hd_path f) @ ?h @ ?p"
    using FileHandle_write_append [OF two'] w1 Cons.prems(3) by simp_all
  have pos2: "hd_position ?f2 = length (file_contents fs2 (hd_path ?f2))"
    using w2(3) Cons.prems(3) by simp
  show ?case
    using Cons.IH [OF _ w2(2) pos2, of "q + 1" "offset + 56 + length ?p"] rest w2(1,3)
    by (simp add: record_bytes_def)
qed

lemma avoids_compact_write: "avoids p (compact_write es q offset)"
  by (induction es q offset rule: compact_write.induct) (auto intro!: avoids_intros)

lemma lookup_fold_update:
  assumes "distinct (map mr_id rs)"
  shows "Mapping.lookup (fold (\<lambda>r. Mapping.update (mr_id r) r) rs records) i =
    (case find (\<lambda>r. mr_id r = i) rs of None \<Rightarrow> Mapping.lookup records i | Some r \<Rightarrow> Some r)"
  using assms
proof (induction rs arbitrary: records)
  case (Cons r rs)
  have "find (\<lambda>r. mr_id r = i) rs = None" if "mr_id r = i"
    using Cons.prems that by (fastforce simp: find_None_iff image_iff)
  then show ?case
    using Cons by (auto simp: lookup_update' split: option.splits)
qed simp

lemma fold_movement_entries:
  assumes "distinct (map mr_id rs)" "\<forall>r \<in> set rs. Mapping.lookup records (mr_id r) = None"
  shows "fold apply_entry (map Movement_entry rs) (records, order, state) =
    (fold (\<lambda>r. Mapping.update (mr_id r) r) rs records, order @ map mr_id rs, state)"
  using assms
proof (induction rs arbitrary: records order)
  case (Cons a rs)
  have "\<forall>r \<in> set rs. Mapping.lookup (Mapping.update (mr_id a) a records) (mr_id r) = None"
    using Cons.prems by (fastforce simp: lookup_update' image_iff)
  then show ?case
    using Cons by simp
qed simp

lemma live_index:
  assumes "index_wf (store_index st)"
  shows "fold apply_entry (live_entries st) empty_index = store_index st"
proof -
  let ?m = "mst_records st" and ?order = "mst_order st"
  let ?rs = "map (\<lambda>i. the (Mapping.lookup ?m i)) ?order"
  have wf: "distinct ?order" "set ?order = Mapping.keys ?m"
    "\<And>i r. Mapping.lookup ?m i = Some r \<Longrightarrow> mr_id r = i"
    using assms by (auto simp: store_index_def)
  have rs: "List.map_filter (Mapping.lookup ?m) ?order = ?rs"
    using wf(2) by (auto simp: List.map_filter_def keys_iff_lookup intro!: filter_True)
  have ids: "map mr_id ?rs = ?order"
    using wf(2,3) by (auto simp: keys_iff_lookup intro!: map_idI)
  have "Mapping.lookup (fold (\<lambda>r. Mapping.update (mr_id r) r) ?rs Mapping.empty) i = Mapping.lookup ?m i" for i
  proof (cases "i \<in> set ?order")
    case True
    then obtain r where r: "Mapping.lookup ?m i = Some r" using wf(2) by (auto simp: keys_iff_lookup)
    have "find (\<lambda>r. mr_id r = i) ?rs = Some r"
    proof (cases "find (\<lambda>r. mr_id r = i) ?rs")
      case None
      then show ?thesis
        using True r wf(3) by (auto simp: find_None_iff)
    next
      case (Some x)
      then have "x \<in> set ?rs" "mr_id x = i"
        by (fastforce simp: find_Some_iff)+
      then obtain j where "j \<in> set ?order" "x = the (Mapping.lookup ?m j)" "mr_id x = i"
        by auto
      then have "x = r"
        using wf(2,3) r by (auto simp: keys_iff_lookup)
      then show ?thesis using Some by simp
    qed
    then show ?thesis
      using lookup_fold_update [of ?rs Mapping.empty i] ids wf(1) r by simp
  next
    case False
    have "find (\<lambda>r. mr_id r = i) ?rs = None"
      using False wf(2,3) by (auto simp: find_None_iff keys_iff_lookup)
    moreover have "Mapping.lookup ?m i = None"
      using False wf(2) by (auto simp: keys_iff_lookup)
    ultimately show ?thesis
      using lookup_fold_update [of ?rs Mapping.empty i] ids wf(1) by simp
  qed
  then have "fold (\<lambda>r. Mapping.update (mr_id r) r) ?rs Mapping.empty = ?m"
    by (rule mapping_eqI)
  then have "fold apply_entry (map Movement_entry ?rs) empty_index = (?m, ?order, None)"
    using fold_movement_entries [of ?rs Mapping.empty "[]" None] ids wf(1) by (simp add: empty_index_def)
  then show ?thesis
    by (cases "mst_coordinator_state st") (simp_all add: live_entries_def rs store_index_def)
qed

lemma length_le_last_sequence: "sequenced q log \<Longrightarrow> unat q + length log \<le> unat (last_sequence q log)"
  by (induction q log rule: sequenced.induct) (auto simp: word_less_nat_alt)

lemma log_index_contents:
  assumes "log_index log = (records, order, state)"
  shows "\<forall>i r. Mapping.lookup records i = Some r \<longrightarrow> Movement_entry r \<in> snd ` set log"
    "\<forall>s. state = Some s \<longrightarrow> State_entry s \<in> snd ` set log"
    "length order + (if state = None then 0 else 1) \<le> length log"
proof -
  have "(\<forall>i r. Mapping.lookup records i = Some r \<longrightarrow> Movement_entry r \<in> snd ` set log) \<and>
    (\<forall>s. state = Some s \<longrightarrow> State_entry s \<in> snd ` set log) \<and>
    length order + (if state = None then 0 else 1) \<le> length log"
    using assms
  proof (induction log arbitrary: records order state rule: rev_induct)
    case Nil
    then show ?case by (auto simp: log_index_def empty_index_def)
  next
    case (snoc x log)
    obtain q e where x: "x = (q, e)" by fastforce
    obtain records' order' state' where ix: "log_index log = (records', order', state')"
      by (metis prod.collapse)
    show ?case
      using snoc.IH [OF ix] snoc.prems
      by (cases e)
        (auto simp: x log_index_append ix lookup_update' lookup_delete_if
          split: if_splits intro: le_trans [OF length_filter_le] simp: removeAll_filter_not_eq)
  qed
  then show "\<forall>i r. Mapping.lookup records i = Some r \<longrightarrow> Movement_entry r \<in> snd ` set log"
    "\<forall>s. state = Some s \<longrightarrow> State_entry s \<in> snd ` set log"
    "length order + (if state = None then 0 else 1) \<le> length log"
    by blast+
qed

lemma compacted_log:
  assumes "store_ok log st fs"
  defines "clog \<equiv> numbered 0 (live_entries st)"
  shows "log_index clog = log_index log" "sequenced 0 clog" "last_sequence 0 clog < mst_next_sequence st"
    "\<forall>(q, e) \<in> set clog. entry_ok (mst_options st) e"
proof -
  have lf: "log_file log st fs" "store_index st = log_index log"
    using assms(1) by (simp_all add: store_ok_def)
  have wf: "index_wf (store_index st)"
    using store_ok_wf [OF assms(1)] .
  show "log_index clog = log_index log"
    using live_index [OF wf] lf(2) by (simp add: log_index_def clog_def)
  note contents = log_index_contents [of log "mst_records st" "mst_order st" "mst_coordinator_state st",
      folded store_index_def, OF lf(2) [symmetric]]
  have "length (live_entries st) \<le> length log"
  proof -
    have "length (List.map_filter (Mapping.lookup (mst_records st)) (mst_order st)) \<le> length (mst_order st)"
      by (simp add: List.map_filter_def)
    then show ?thesis
      using contents(3) by (auto simp: live_entries_def split: option.splits)
  qed
  also have "\<dots> \<le> unat (last_sequence 0 log)"
    using length_le_last_sequence [of 0 log] lf(1) by (simp add: log_file_def)
  also have "\<dots> < unat (mst_next_sequence st)"
    using lf(1) by (simp add: log_file_def word_less_nat_alt)
  finally have len: "length (live_entries st) < unat (mst_next_sequence st)" .
  then have "unat (0 :: u64) + length (live_entries st) < 2 ^ 64"
    using less_trans [OF len unat_u64_less] by simp
  then show "sequenced 0 clog" "last_sequence 0 clog < mst_next_sequence st"
    using numbered_sequenced [of 0 "live_entries st"] len by (simp_all add: clog_def word_less_nat_alt)
  have "e \<in> snd ` set log" if "e \<in> set (live_entries st)" for e
    using that contents(1,2)
    by (auto simp: live_entries_def List.map_filter_def split: option.splits if_splits)
  moreover have "entry_ok (mst_options st) e" if "e \<in> snd ` set log" for e
    using lf(1) that by (auto simp: log_file_def)
  moreover have "e \<in> set (live_entries st)" if "(q, e) \<in> set clog" for q e
    using that map_snd_numbered [of 0 "live_entries st"] unfolding clog_def
    by (metis image_eqI list.set_map snd_conv)
  ultimately show "\<forall>(q, e) \<in> set clog. entry_ok (mst_options st) e"
    by blast
qed

lemma FileHandle_write_ready:
  assumes "fs_script fs = []" "is_file fs (hd_path f)"
  shows "\<exists>f' fs'. FileHandle_write data (Some f, fs) = (Inr (), (Some f', fs')) \<and> fs_script fs' = [] \<and>
    hd_path f' = hd_path f \<and> is_file fs' (hd_path f)"
  using assms by (cases "data = []") (auto simp: io_simps)

lemma compact_write_done:
  assumes "fs_script fs = []" "is_file fs (hd_path f)"
  shows "\<exists>n f' fs'. compact_write es q offset (Some f, fs) = (Inr n, (Some f', fs')) \<and>
    fs_script fs' = [] \<and> hd_path f' = hd_path f"
  using assms
proof (induction es q offset arbitrary: f fs rule: compact_write.induct)
  case (2 type payload rest q offset)
  obtain f1 fs1 where one: "FileHandle_write (record_header type (q + 1) payload) (Some f, fs) =
      (Inr (), (Some f1, fs1))" "fs_script fs1 = []" "hd_path f1 = hd_path f" "is_file fs1 (hd_path f1)"
    using FileHandle_write_ready [OF "2.prems"] by fastforce
  obtain f2 fs2 where two: "FileHandle_write payload (Some f1, fs1) = (Inr (), (Some f2, fs2))"
    "fs_script fs2 = []" "hd_path f2 = hd_path f" "is_file fs2 (hd_path f2)"
    using FileHandle_write_ready [OF one(2,4)] one(3) by fastforce
  show ?case
    using "2.IH" [OF two(2,4)] one two by (simp add: bind_io_def)
qed (simp add: return_io_def)

lemma write_compacted:
  fixes st :: movement_store
  assumes "fs_script fs = []" "fs_lookup fs t = None" "t \<noteq> []" "is_directory fs (butlast t)"
  defines "clog \<equiv> numbered 0 (live_entries st)"
  shows "\<exists>fs'. with_handle (
      bind_io (FileHandle_open t True) (\<lambda>_.
      bind_io (FileHandle_write file_header) (\<lambda>_.
      bind_io (compact_write (compact_entries st) 0 96) (\<lambda>offset.
      bind_io FileHandle_sync (\<lambda>_. return_io offset))))) fs = (Inr (length (log_bytes clog)), fs') \<and>
    fs_script fs' = [] \<and> fs_lookup fs' = (fs_lookup fs)(t := Some (File (log_bytes clog)))"
proof -
  let ?es = "map (\<lambda>e. (entry_type e, entry_payload e)) (live_entries st)"
  let ?fs1 = "set_node t (File []) fs" and ?f = "\<lparr>hd_path = t, hd_position = 0\<rparr>"
  let ?fs2 = "set_contents t (write_at 0 file_header []) ?fs1"
  let ?f2 = "\<lparr>hd_path = t, hd_position = 96\<rparr>"
  have opened: "FileHandle_open t True (None, fs) = (Inr (), (Some ?f, ?fs1))"
    using assms by (simp add: io_simps)
  have header: "FileHandle_write file_header (Some ?f, ?fs1) = (Inr (), (Some ?f2, ?fs2))"
    using assms(1) by (simp add: io_simps)
  have two: "fs_script ?fs2 = []" "is_file ?fs2 (hd_path ?f2)" "file_contents ?fs2 (hd_path ?f2) = file_header"
    using assms(1) by (simp_all add: write_at_def)
  obtain n f3 fs3 where wr: "compact_write ?es 0 96 (Some ?f2, ?fs2) = (Inr n, (Some f3, fs3))"
    "fs_script fs3 = []"
    using compact_write_done [OF two(1,2)] by blast
  note written = compact_write_okD [OF wr(1) two(2)]
  have three: "is_file fs3 t" "n = length (log_bytes clog)" "file_contents fs3 t = log_bytes clog"
    using written two(3) by (simp_all add: log_bytes_def clog_def)
  have "fs_lookup fs3 q = fs_lookup fs q" if "q \<noteq> t" for q
    using avoidsD [OF avoids_compact_write [of q] _ wr(1)] that by simp
  then have "fs_lookup fs3 = (fs_lookup fs)(t := Some (File (log_bytes clog)))"
    using three(1,3) by (auto simp: fun_eq_iff is_file_iff)
  moreover have "with_handle (
      bind_io (FileHandle_open t True) (\<lambda>_.
      bind_io (FileHandle_write file_header) (\<lambda>_.
      bind_io (compact_write (compact_entries st) 0 96) (\<lambda>offset.
      bind_io FileHandle_sync (\<lambda>_. return_io offset))))) fs = (Inr n, fs3)"
    using wr by (simp add: with_handle_def bind_io_def opened header compact_entries_live io_simps return_io_def)
  ultimately show ?thesis
    using wr(2) three(2) by blast
qed

lemma MovementStore_compact_done:
  assumes "store_ok log st fs" "fs_script fs = []" "is_directory fs (butlast (mst_log_path st))"
    "fs_lookup fs (path_suffix (mst_log_path st) ''.compact'') = None" "mst_log_path st \<noteq> []"
  defines "clog \<equiv> numbered 0 (live_entries st)"
  assumes "length (log_bytes clog) < 2 ^ 63"
  shows "\<exists>st' fs'. MovementStore_compact (st, fs) = (Inr (), (st', fs')) \<and> store_ok clog st' fs' \<and>
    log_clean st' fs' \<and> store_index st' = store_index st \<and> store_frame st fs st' fs' \<and>
    mst_next_sequence st' = mst_next_sequence st \<and> fs_script fs' = []"
proof -
  let ?p = "mst_log_path st"
  let ?t = "path_suffix ?p ''.compact''"
  obtain e fs1 where fs1: "fs_remove ?t fs = (e, fs1)" "fs_script fs1 = []" "fs_lookup fs1 = fs_lookup fs"
    using fs_remove_done [OF assms(2,4)] by (metis prod.collapse snd_conv)
  have dir: "is_directory fs1 (butlast ?p)"
    using assms(3) fs1(3) by (simp add: is_directory_def)
  obtain fs2 where fs2: "with_handle (
      bind_io (FileHandle_open ?t True) (\<lambda>_.
      bind_io (FileHandle_write file_header) (\<lambda>_.
      bind_io (compact_write (compact_entries st) 0 96) (\<lambda>offset.
      bind_io FileHandle_sync (\<lambda>_. return_io offset))))) fs1 = (Inr (length (log_bytes clog)), fs2)"
    "fs_script fs2 = []" "fs_lookup fs2 = (fs_lookup fs)(?t := Some (File (log_bytes clog)))"
    using write_compacted [OF fs1(2), of ?t st] fs1(3) assms(4) dir
    by (auto simp: path_suffix_simps clog_def)
  have isf: "is_file fs ?p"
    using assms(1) by (auto simp: store_ok_def log_file_def)
  have neq: "?t \<noteq> ?p" by (simp add: path_suffix_simps)
  obtain fs3 where fs3: "fs_rename ?t ?p fs2 = (False, fs3)" "fs_script fs3 = []"
    "fs_lookup fs3 = (fs_lookup fs)(?t := None, ?p := Some (File (log_bytes clog)))"
    using fs_rename_done [OF fs2(2), of ?t "log_bytes clog" ?p] fs2(3) assms(5) dir isf neq fs1(3)
    by (auto simp: is_directory_def is_file_iff path_suffix_simps)
  let ?f = "\<lparr>hd_path = ?p, hd_position = length (log_bytes clog)\<rparr>"
  have p3: "is_file fs3 ?p" "file_contents fs3 ?p = log_bytes clog"
    using fs3(3) by (simp_all add: is_file_def file_contents_def)
  define st' where "st' = set_stats (\<lambda>t. t\<lparr>mss_compactions := mss_compactions t + 1,
      mss_bytes_on_disk := word_of_nat (length (log_bytes clog))\<rparr>)
    (st\<lparr>mst_file := Some ?f, mst_append_offset := length (log_bytes clog), mst_log_bytes := length (log_bytes clog)\<rparr>)"
  have "MovementStore_compact (st, fs) = (Inr (), (st', fs3))"
    using fs1(1) fs2(1) fs3(1,2) p3(1) assms(7)
    by (simp add: MovementStore_compact_def Let_def bind_io_def io_simps st'_def set_stats_def)
  moreover have "store_ok clog st' fs3" "log_clean st' fs3" "store_index st' = store_index st"
    "store_frame st fs st' fs3" "mst_next_sequence st' = mst_next_sequence st"
    using p3 compacted_log [OF assms(1), folded clog_def] assms(1,4) fs3(3)
    by (auto simp: st'_def store_ok_def log_file_def log_clean_def store_frame_def set_stats_def store_index_def)
  ultimately show ?thesis
    using fs3(2) by blast
qed

end
