(* ===== verification/SMF_Store_Properties.thy ===== *)
theory SMF_Store_Properties
  imports SMF_Store_History SMF_Object_Properties
begin

text \<open>Properties of the files and of the movement store.\<close>

section \<open>Appends, byte by byte\<close>

lemma write_at_twice:
  "pos \<le> length old \<Longrightarrow> write_at (pos + length a) b (write_at pos a old) = write_at pos (a @ b) old"
  by (simp add: write_at_def min_def ac_simps)

lemma record_header_nonempty [simp]: "record_header t q p \<noteq> []"
  by (metis length_record_header list.size(3) zero_neq_numeral)

text \<open>The state an append leaves: the sequence number is used up, the file holds the record.\<close>

lemma append_record_bytes:
  assumes "fs_script fs = []" "mst_file st = Some f" "hd_path f = mst_log_path st" "is_file fs (mst_log_path st)"
    "length p \<le> unat (mso_max_record_bytes (mst_options st))" "mst_append_offset st < 2 ^ 63"
    "mst_append_offset st \<le> length (file_contents fs (mst_log_path st))"
  shows "\<exists>st' fs' f'. append_record t p (st, fs) = (Inr (), (st', fs')) \<and> fs_script fs' = [] \<and>
    mst_file st' = Some f' \<and> hd_path f' = mst_log_path st \<and> mst_log_path st' = mst_log_path st \<and>
    mst_options st' = mst_options st \<and> store_index st' = store_index st \<and>
    mst_append_offset st' = mst_append_offset st + 56 + length p \<and>
    mst_next_sequence st' = mst_next_sequence st + 1 \<and> is_file fs' (mst_log_path st) \<and>
    file_contents fs' (mst_log_path st) =
      write_at (mst_append_offset st) (record_header t (mst_next_sequence st) p @ p)
        (file_contents fs (mst_log_path st))"
  using assms write_at_twice [of "mst_append_offset st" "file_contents fs (mst_log_path st)"
      "record_header t (mst_next_sequence st) p" p]
  by (cases "p = []"; cases "mso_sync_on_write (mst_options st)")
    (auto simp: append_record_def Let_def bind_io_def on_file_def modify_store_def io_simps return_io_def
      set_stats_def store_index_def)

text \<open>The same append when the last call, the fsync, fails.\<close>

lemma append_record_unsynced:
  assumes "fs_script fs = [IO_done, IO_done, IO_done, IO_done, IO_failed n]" "mst_file st = Some f"
    "hd_path f = mst_log_path st" "is_file fs (mst_log_path st)" "mso_sync_on_write (mst_options st)" "p \<noteq> []"
    "length p \<le> unat (mso_max_record_bytes (mst_options st))" "mst_append_offset st < 2 ^ 63"
    "mst_append_offset st \<le> length (file_contents fs (mst_log_path st))"
  shows "\<exists>st' fs' f'. append_record t p (st, fs) = (err STORE_IO_ERROR ''fsync failed'', (st', fs')) \<and>
    fs_script fs' = [] \<and> mst_file st' = Some f' \<and> hd_path f' = mst_log_path st \<and>
    mst_log_path st' = mst_log_path st \<and> mst_options st' = mst_options st \<and>
    store_index st' = store_index st \<and> mst_append_offset st' = mst_append_offset st \<and>
    mst_next_sequence st' = mst_next_sequence st + 1 \<and> is_file fs' (mst_log_path st) \<and>
    file_contents fs' (mst_log_path st) =
      write_at (mst_append_offset st) (record_header t (mst_next_sequence st) p @ p)
        (file_contents fs (mst_log_path st))"
  using assms write_at_twice [of "mst_append_offset st" "file_contents fs (mst_log_path st)"
      "record_header t (mst_next_sequence st) p" p]
  by (auto simp: append_record_def Let_def bind_io_def on_file_def modify_store_def
      FileHandle_seek_def FileHandle_write_def FileHandle_sync_def on_system_def os_call_def os_outcome_def
      set_position_def set_stats_def store_index_def)

lemma lookup_after_retires:
  "i \<notin> set ws \<Longrightarrow>
   Mapping.lookup (fst (fold apply_entry (map Retire_entry ws) ix)) i = Mapping.lookup (fst ix) i"
proof (induction ws arbitrary: ix)
  case (Cons w ws)
  then show ?case
    by (cases ix) (simp add: lookup_delete_if)
qed simp

section \<open>Sample values\<close>

definition sample_options :: store_options where
  "sample_options = MovementStoreOptions_default [''d'']"

definition sample_disk :: "bytes \<Rightarrow> file_system" where
  "sample_disk b = \<lparr>fs_nodes = [([''d''], Directory), ([''d'', ''movements.smf''], File b)],
     fs_script = [], fs_locked = []\<rparr>"

definition sample_state :: coordinator_state where
  "sample_state = \<lparr>cps_epoch = 1, cps_policy_generation = 1, cps_compatibility_generation = 1,
     cps_topology_generation = 1, cps_policy_digest = 1, cps_last_saved_unix_millis = 1\<rparr>"

lemma length_coordinator_state [simp]: "length (CoordinatorPersistentState_encode s) = 72"
  by (simp add: CoordinatorPersistentState_encode_def enc_u64_def enc_digest_def enc_i64_def)

lemma sample_limits: "record_limits_ok sample_options"
  by (simp add: record_limits_ok_def sample_options_def MovementStoreOptions_default_def)

lemma sample_state_ok: "entry_ok sample_options (State_entry sample_state)"
  by (simp add: entry_ok_def sample_options_def MovementStoreOptions_default_def sample_state_def)

lemma sample_openable: "openable sample_options (sample_disk b)"
  using sample_limits
  by (simp add: openable_def sample_options_def MovementStoreOptions_default_def sample_disk_def fs_lookup_def
      is_file_def)

lemma sample_disk_file:
  "is_file (sample_disk b) (log_path sample_options)" "file_contents (sample_disk b) (log_path sample_options) = b"
  by (simp_all add: is_file_def file_contents_def sample_disk_def fs_lookup_def log_path_def sample_options_def
      MovementStoreOptions_default_def)

text \<open>A store opened on a disk that holds just the file header.\<close>

lemma sample_store:
  "\<exists>st report fs. MovementStore_open sample_options (sample_disk file_header) = (Inr (st, report), fs) \<and>
     store_ok [] st fs \<and> log_clean st fs \<and> mst_options st = sample_options \<and> fs_script fs = [] \<and>
     mst_next_sequence st = 1 \<and> mst_order st = [] \<and> mst_records st = Mapping.empty \<and>
     is_directory fs (butlast (mst_log_path st)) \<and>
     fs_lookup fs (path_suffix (mst_log_path st) ''.compact'') = None"
proof -
  have bytes: "file_contents (sample_disk file_header) (log_path sample_options) = log_bytes [] @ []"
    by (simp add: sample_disk_file log_bytes_def)
  show ?thesis
    using MovementStore_open_log [OF sample_openable sample_disk_file(1) bytes torn_Nil [OF sample_limits]]
    by (auto simp: store_ok_def log_bytes_def store_index_def log_index_def empty_index_def is_directory_def
        log_path_def sample_options_def MovementStoreOptions_default_def path_suffix_def sample_disk_def
        fs_lookup_def)
qed

section \<open>Properties\<close>




lemma sample_record_ok: "entry_ok sample_options (Movement_entry sample_record)"
proof -
  have "length (MovementRecord_encode sample_record) \<le> 4194304"
    by (simp add: MovementRecord_encode_def FixedId_encode_def StateObjectDescriptor_encode_def
        ProvenanceChain_encode_def ProvenanceEvent_encode_def enc_u8_def enc_u16_def enc_u32_def enc_u64_def
        enc_i64_def enc_text_def enc_blob_def enc_digest_def enc_boolean_def sample_record_def
        sample_object_def sample_event_def ProvenanceEvent_default_def)
  then show ?thesis
    using sample_record_wf
    by (simp add: entry_ok_def sample_options_def MovementStoreOptions_default_def)
qed






section \<open>Stores that cannot be reopened\<close>

lemma decode_zero_epoch:
  assumes "dec_ok d" "spells d 0 n (CoordinatorPersistentState_encode s)" "cps_epoch s = 0"
  shows "CoordinatorPersistentState_decode d 0 =
    err STORE_RECORD_INVALID ''persisted coordinator epoch must be non-zero''"
proof -
  obtain i j k l m where
    "dec_u64 d 0 = Inr (cps_epoch s, i)" "dec_u64 d i = Inr (cps_policy_generation s, j)"
    "dec_u64 d j = Inr (cps_compatibility_generation s, k)" "dec_u64 d k = Inr (cps_topology_generation s, l)"
    "dec_digest d l = Inr (cps_policy_digest s, m)" "dec_i64 d m = Inr (cps_last_saved_unix_millis s, n)"
    using assms(2) unfolding CoordinatorPersistentState_encode_def spells_append
      dec_u64_iff [OF assms(1), symmetric] dec_i64_iff [OF assms(1), symmetric]
      dec_digest_iff [OF assms(1), symmetric] by blast
  then show ?thesis
    using assms(3) by (simp add: CoordinatorPersistentState_decode_def bind_dec_def fail_dec_def
        Generation_is_set_def)
qed

lemma apply_zero_epoch:
  assumes "record_limits_ok (mst_options st)" "cps_epoch s = 0"
  shows "apply_record kRecordCoordinatorState (CoordinatorPersistentState_encode s) st =
    (err STORE_RECORD_INVALID ''persisted coordinator epoch must be non-zero'', st)"
proof -
  let ?max = "unat (mso_max_record_bytes (mst_options st))"
  let ?d = "CanonicalDecoder_make (CoordinatorPersistentState_encode s)
    \<lparr>max_blob_bytes = ?max, max_text_bytes = kMaxTextBytes, max_input_bytes = ?max + 2 ^ 16\<rparr>"
  have "dec_ok ?d"
    using assms by (simp add: dec_ok_def CanonicalDecoder_make_def record_limits_ok_def)
  moreover have "spells ?d 0 72 (CoordinatorPersistentState_encode s)"
    by (simp add: spells_def CanonicalDecoder_make_def)
  ultimately show ?thesis
    using decode_zero_epoch [OF _ _ assms(2), of ?d 72] by (simp add: apply_record_def Let_def decode_whole_def)
qed

lemma recover_step_zero_epoch:
  assumes "fs_script fs = []" "hd_position f = length pre" "sequence < q"
    "file_contents fs (hd_path f) =
       pre @ record_header kRecordCoordinatorState q (CoordinatorPersistentState_encode s) @
         CoordinatorPersistentState_encode s"
    "record_limits_ok (mst_options st)" "cps_epoch s = 0"
  shows "\<exists>w. recover_step (length (pre @ record_header kRecordCoordinatorState q (CoordinatorPersistentState_encode s) @
         CoordinatorPersistentState_encode s)) (length pre) sequence (st, (Some f, fs)) =
      (err STORE_RECORD_INVALID ''persisted coordinator epoch must be non-zero'', w)"
  using recover_step_bytes [OF assms(1), of f pre kRecordCoordinatorState q
      "CoordinatorPersistentState_encode s" "[]" st sequence] assms(2-5) apply_zero_epoch [OF assms(5,6)]
  by (simp add: record_limits_ok_def)

text \<open>What an append at the end of a clean log leaves on disk.\<close>

lemma save_coordinator_state_bytes:
  assumes "store_ok log st fs" "log_clean st fs" "fs_script fs = []" "mst_append_offset st < 2 ^ 63"
  shows "\<exists>st' fs'. MovementStore_save_coordinator_state s (st, fs) = (Inr (), (st', fs')) \<and>
    file_contents fs' (mst_log_path st) = log_bytes log @
      record_header kRecordCoordinatorState (mst_next_sequence st) (CoordinatorPersistentState_encode s) @
      CoordinatorPersistentState_encode s"
proof -
  obtain f where f: "mst_file st = Some f" "hd_path f = mst_log_path st"
    and log: "log_file log st fs" "is_file fs (mst_log_path st)" "record_limits_ok (mst_options st)"
    using assms(1) by (auto simp: store_ok_def log_file_def)
  have len: "length (CoordinatorPersistentState_encode s) \<le> unat (mso_max_record_bytes (mst_options st))"
    using log(3) by (simp add: record_limits_ok_def)
  have bytes: "file_contents fs (mst_log_path st) = log_bytes log" "mst_append_offset st = length (log_bytes log)"
    using log_clean_contents [OF log(1) assms(2)] log(1) by (simp_all add: log_file_def)
  obtain st1 fs1 where append:
    "append_record kRecordCoordinatorState (CoordinatorPersistentState_encode s) (st, fs) = (Inr (), (st1, fs1))"
    "file_contents fs1 (mst_log_path st) = write_at (mst_append_offset st)
       (record_header kRecordCoordinatorState (mst_next_sequence st) (CoordinatorPersistentState_encode s) @
        CoordinatorPersistentState_encode s) (file_contents fs (mst_log_path st))"
    using append_record_bytes [OF assms(3) f log(2) len assms(4), of kRecordCoordinatorState] bytes by auto
  then show ?thesis
    by (simp add: MovementStore_save_coordinator_state_def bind_io_def modify_store_def bytes write_at_end)
qed

text \<open>A coordinator state whose epoch is unset is saved without complaint, and the store cannot be
  opened any more: recovery refuses the record that was written.\<close>

theorem zero_epoch_save_refused_on_open:
  assumes "store_ok log st fs" "log_clean st fs" "fs_script fs = []" "mst_append_offset st < 2 ^ 63" "cps_epoch s = 0"
  shows "\<exists>st' fs'. MovementStore_save_coordinator_state s (st, fs) = (Inr (), (st', fs')) \<and>
    (\<forall>disk. openable (mst_options st) disk \<and> is_file disk (mst_log_path st) \<and>
       file_contents disk (mst_log_path st) = file_contents fs' (mst_log_path st) \<longrightarrow>
       fst (MovementStore_open (mst_options st) disk) =
         err STORE_RECORD_INVALID ''persisted coordinator epoch must be non-zero'')"
proof -
  let ?tail = "record_header kRecordCoordinatorState (mst_next_sequence st) (CoordinatorPersistentState_encode s) @
      CoordinatorPersistentState_encode s"
  obtain st' fs' where save: "MovementStore_save_coordinator_state s (st, fs) = (Inr (), (st', fs'))"
    "file_contents fs' (mst_log_path st) = log_bytes log @ ?tail"
    using save_coordinator_state_bytes [OF assms(1-4), of s] by blast
  have log: "sequenced 0 log" "\<forall>(q, e) \<in> set log. entry_ok (mst_options st) e" "record_limits_ok (mst_options st)"
    "last_sequence 0 log < mst_next_sequence st" "mst_log_path st = log_path (mst_options st)"
    using assms(1) by (auto simp: store_ok_def log_file_def)
  have "\<exists>d. MovementStore_open (mst_options st) disk =
      (err STORE_RECORD_INVALID ''persisted coordinator epoch must be non-zero'', d)"
    if "openable (mst_options st) disk" "is_file disk (mst_log_path st)"
      "file_contents disk (mst_log_path st) = log_bytes log @ ?tail" for disk
    using that log assms(5)
    by (intro MovementStore_open_refused [of _ _ log ?tail] recover_step_zero_epoch) auto
  then show ?thesis
    using save by fastforce
qed

text \<open>Byte 72 of an encoded movement is the high byte of the length of the object's name: it is
  zero, so what a shorter record leaves of it does not start with the record magic.\<close>

lemma store_le_high_byte: "n < 2 ^ 56 \<Longrightarrow> store_le (word_of_nat n) 8 ! 7 = 0"
  by (simp add: store_le_def drop_bit_eq_div word_arith_nat_div unat_of_nat)

lemma MovementRecord_encode_tail:
  assumes "movement_wf m"
  shows "128 \<le> length (MovementRecord_encode m)" "MovementRecord_encode m ! 72 = 0"
proof -
  let ?name = "so_name (mr_object m)"
  have name: "length ?name \<le> kMaxObjectNameBytes"
    using assms by (simp add: movement_wf_def movement_valid_iff descriptor_valid_iff)
  obtain pre post where split: "MovementRecord_encode m = pre @ store_le (word_of_nat (length ?name)) 8 @ post"
    "length pre = 65" "64 \<le> length post"
    by (rule that [of "FixedId_encode (mr_id m) @ enc_u64 (mr_generation m) @ enc_digest (so_object_id (mr_object m)) @
          enc_u8 (StateKind_value (so_kind (mr_object m)))"])
      (auto simp: MovementRecord_encode_def StateObjectDescriptor_encode_def FixedId_encode_def enc_text_def
        enc_blob_def enc_u64_def enc_u8_def enc_digest_def)
  then show "128 \<le> length (MovementRecord_encode m)" by simp
  show "MovementRecord_encode m ! 72 = 0"
    using split(2) name unfolding split(1) by (simp add: nth_append store_le_high_byte)
qed

lemma zero_head_not_magic: "xs ! 0 = 0 \<Longrightarrow> xs \<noteq> [] \<Longrightarrow> take 4 xs \<noteq> kRecordMagic"
  by (cases xs) (auto simp: kRecordMagic_def as_bytes_def byte_of_char_def)

text \<open>A put whose fsync fails leaves its bytes behind the append offset. When a shorter record is
  then written over them, what is left of the longer one follows it, and the store cannot be
  opened any more: the residue is reported as corruption instead of being truncated.\<close>

theorem failed_append_residue_refused_on_open:
  assumes "store_ok log st fs" "log_clean st fs" "fs_script fs = [IO_done, IO_done, IO_done, IO_done, IO_failed n]"
    "mso_sync_on_write (mst_options st)" "mst_append_offset st < 2 ^ 63" "mst_next_sequence st \<noteq> - 1"
    "entry_ok (mst_options st) (Movement_entry m)" "entry_ok (mst_options st) (State_entry s)"
  shows "\<exists>st1 fs1 st2 fs2. MovementStore_put m (st, fs) = (err STORE_IO_ERROR ''fsync failed'', (st1, fs1)) \<and>
    MovementStore_save_coordinator_state s (st1, fs1) = (Inr (), (st2, fs2)) \<and>
    (\<forall>disk. openable (mst_options st) disk \<and> is_file disk (mst_log_path st) \<and>
       file_contents disk (mst_log_path st) = file_contents fs2 (mst_log_path st) \<longrightarrow>
       fst (MovementStore_open (mst_options st) disk) =
         err STORE_CORRUPT ''store record magic does not match'')"
proof -
  let ?p = "MovementRecord_encode m" and ?c = "CoordinatorPersistentState_encode s" and ?path = "mst_log_path st"
  let ?q = "mst_next_sequence st + 1"
  let ?log = "log @ [(?q, State_entry s)]" and ?tail = "drop 72 ?p"
  obtain f where f: "mst_file st = Some f" "hd_path f = ?path"
    and log: "log_file log st fs" "is_file fs ?path" "record_limits_ok (mst_options st)"
    using assms(1) by (auto simp: store_ok_def log_file_def)
  have ok: "movement_wf m" "length ?p \<le> unat (mso_max_record_bytes (mst_options st))" "?p \<noteq> []"
    "length ?c \<le> unat (mso_max_record_bytes (mst_options st))"
    using assms(7,8) MovementRecord_encode_tail(1) [of m] by (auto simp: entry_ok_def)
  have bytes: "file_contents fs ?path = log_bytes log" "mst_append_offset st = length (log_bytes log)"
    using log_clean_contents [OF log(1) assms(2)] log(1) by (simp_all add: log_file_def)
  obtain st1 fs1 f1 where first: "append_record kRecordMovement ?p (st, fs) =
      (err STORE_IO_ERROR ''fsync failed'', (st1, fs1))"
    "fs_script fs1 = []" "mst_file st1 = Some f1" "hd_path f1 = ?path" "mst_log_path st1 = ?path"
    "mst_options st1 = mst_options st" "mst_append_offset st1 = mst_append_offset st" "mst_next_sequence st1 = ?q"
    "is_file fs1 ?path"
    "file_contents fs1 ?path = log_bytes log @ record_header kRecordMovement (mst_next_sequence st) ?p @ ?p"
    using append_record_unsynced [OF assms(3) f log(2) assms(4) ok(3,2) assms(5), of kRecordMovement] bytes
    by (auto simp: write_at_end)
  obtain st2 fs2 where second: "append_record kRecordCoordinatorState ?c (st1, fs1) = (Inr (), (st2, fs2))"
    "file_contents fs2 ?path = write_at (length (log_bytes log)) (record_header kRecordCoordinatorState ?q ?c @ ?c)
       (file_contents fs1 ?path)"
    using append_record_bytes [OF first(2,3), of ?c kRecordCoordinatorState] first ok(4) assms(5) bytes(2) by auto
  have contents: "file_contents fs2 ?path = log_bytes ?log @ ?tail"
    unfolding second(2) first(10)
    by (simp add: write_at_def log_bytes_append record_bytes_def)
  have tail: "56 \<le> length ?tail" "take 4 ?tail \<noteq> kRecordMagic"
    using MovementRecord_encode_tail [OF ok(1)] zero_head_not_magic [of ?tail] by auto
  have seq: "sequenced 0 ?log" "\<forall>(q, e) \<in> set ?log. entry_ok (mst_options st) e" "?path = log_path (mst_options st)"
    using assms(1,6,8) less_trans [OF _ word_less_Suc]
    by (auto simp: store_ok_def log_file_def sequenced_append)
  have "\<exists>d. MovementStore_open (mst_options st) disk = (err STORE_CORRUPT ''store record magic does not match'', d)"
    if "openable (mst_options st) disk" "is_file disk ?path" "file_contents disk ?path = log_bytes ?log @ ?tail" for disk
    using that seq tail
    by (intro MovementStore_open_refused [of _ _ ?log ?tail] recover_step_bad_magic) auto
  moreover have "MovementStore_put m (st, fs) = (err STORE_IO_ERROR ''fsync failed'', (st1, fs1))"
    using first(1) ok(1) by (simp add: MovementStore_put_def movement_valid_wf Let_def bind_io_def)
  moreover have "\<exists>st2. MovementStore_save_coordinator_state s (st1, fs1) = (Inr (), (st2, fs2))"
    using second(1) by (simp add: MovementStore_save_coordinator_state_def bind_io_def modify_store_def)
  ultimately show ?thesis
    using contents by fastforce
qed

text \<open>Opening a file for writing falls back to creating it whenever the first attempt fails. When
  that attempt fails for any other reason than a missing file, the contents are gone.\<close>

theorem open_for_write_may_truncate:
  assumes "fs_script fs = IO_failed n # IO_done # script" "fs_lookup fs p = Some (File b)" "p \<noteq> []"
    "is_directory fs (butlast p)"
  shows "\<exists>h fs'. FileHandle_open p True (None, fs) = (Inr (), (h, fs')) \<and> fs_lookup fs' p = Some (File [])"
  using assms
  by (simp add: FileHandle_open_def FileHandle_close_def fopen_existing_def fopen_truncating_def os_outcome_def
      is_directory_def fs_lookup_def set_node_def update_conv)

end
