(* ===== verification/SMF_Object_Store.thy ===== *)
theory SMF_Object_Store
  imports SMF_File_Laws SMF_Chunk_Plan
begin

text \<open>
  The object store of an endpoint (src/object_store.hpp, src/object_store.cpp): commit markers, the
  journal of a partly received object, the placed objects with their markers, the authority
  report, cleanup, and the writer that receives the chunks of one attempt.

  The store is its options; everything it remembers is in the file system. The calls of
  \<^verbatim>\<open>fault_point\<close> and of the log are left out: the first may end the process between two
  system calls, which a failing script already covers.
\<close>

section \<open>Commit markers\<close>

record commit_marker =
  cm_movement_id :: movement_id
  cm_movement_generation :: generation
  cm_object :: state_object
  cm_source :: endpoint_id
  cm_destination :: endpoint_id
  cm_destination_incarnation :: incarnation
  cm_content_digest :: digest
  cm_stored_bytes :: u64
  cm_stored_chunks :: u32
  cm_committed_unix_millis :: u64
  cm_marker_digest :: digest

definition CommitMarker_validate :: "commit_marker \<Rightarrow> status" where
  "CommitMarker_validate m =
    (if FixedId_is_zero (cm_movement_id m)
     then Status COMMIT_MARKER_INVALID ''commit marker requires a movement id''
     else if \<not> Generation_is_set (cm_movement_generation m)
     then Status COMMIT_MARKER_INVALID ''commit marker requires a movement generation''
     else if \<not> Status_ok (StateObjectDescriptor_validate (cm_object m))
     then StateObjectDescriptor_validate (cm_object m)
     else if cm_source m = [] \<or> cm_destination m = []
     then Status COMMIT_MARKER_INVALID ''commit marker must name both endpoints''
     else if cm_source m = cm_destination m
     then Status SELF_MOVEMENT ''commit marker names the same endpoint twice''
     else if \<not> Incarnation_is_set (cm_destination_incarnation m)
     then Status STALE_INCARNATION ''commit marker requires a destination incarnation''
     else if inc_endpoint (cm_destination_incarnation m) \<noteq> cm_destination m
     then Status STALE_INCARNATION ''commit marker destination incarnation names a different endpoint''
     else if Digest_is_zero (cm_content_digest m)
     then Status COMMIT_MARKER_INVALID ''commit marker requires a content digest''
     else if cm_content_digest m \<noteq> so_content_digest (cm_object m)
     then Status COMMIT_MARKER_INVALID ''commit marker content digest does not match the object descriptor''
     else if cm_stored_bytes m \<noteq> so_total_bytes (cm_object m)
     then Status COMMIT_MARKER_INVALID ''commit marker byte count does not match the object descriptor''
     else if cm_stored_chunks m \<noteq> so_chunk_count (cm_object m)
     then Status COMMIT_MARKER_INVALID ''commit marker chunk count does not match the object descriptor''
     else if sint (cm_committed_unix_millis m) \<le> 0
     then Status COMMIT_MARKER_INVALID ''commit marker requires a timestamp''
     else if Digest_is_zero (cm_marker_digest m)
     then Status COMMIT_MARKER_INVALID ''commit marker is not sealed''
     else Status_success)"

text \<open>The fields \<open>compute_digest\<close> and \<open>encode\<close> share.\<close>

definition marker_fields :: "commit_marker \<Rightarrow> bytes" where
  "marker_fields m =
     FixedId_encode (cm_movement_id m) @
     enc_u64 (cm_movement_generation m) @
     StateObjectDescriptor_encode (cm_object m) @
     enc_text (cm_source m) @
     enc_text (cm_destination m) @
     enc_text (inc_endpoint (cm_destination_incarnation m)) @
     FixedId_encode (inc_boot (cm_destination_incarnation m)) @
     enc_u64 (inc_epoch (cm_destination_incarnation m)) @
     enc_digest (cm_content_digest m) @
     enc_u64 (cm_stored_bytes m) @
     enc_u32 (cm_stored_chunks m) @
     enc_i64 (cm_committed_unix_millis m)"

definition CommitMarker_compute_digest :: "commit_marker \<Rightarrow> digest" where
  "CommitMarker_compute_digest m = canonical_digest (enc_text ''SMF-COMMIT-MARKER-v1'' @ marker_fields m)"

definition CommitMarker_seal :: "commit_marker \<Rightarrow> commit_marker" where
  "CommitMarker_seal m = m\<lparr>cm_marker_digest := CommitMarker_compute_digest m\<rparr>"

definition CommitMarker_encode :: "commit_marker \<Rightarrow> bytes" where
  "CommitMarker_encode m = marker_fields m @ enc_digest (cm_marker_digest m)"

definition CommitMarker_decode :: "commit_marker decode" where
  "CommitMarker_decode =
    bind_dec FixedId_decode (\<lambda>movement.
    bind_dec dec_u64 (\<lambda>generation.
    bind_dec StateObjectDescriptor_decode (\<lambda>object.
    bind_dec (dec_text kMaxEndpointIdBytes) (\<lambda>source.
    bind_dec (lift_dec (EndpointId_parse source)) (\<lambda>source_id.
    bind_dec (dec_text kMaxEndpointIdBytes) (\<lambda>destination.
    bind_dec (lift_dec (EndpointId_parse destination)) (\<lambda>destination_id.
    bind_dec (dec_text kMaxEndpointIdBytes) (\<lambda>destination_endpoint.
    bind_dec FixedId_decode (\<lambda>boot.
    bind_dec dec_u64 (\<lambda>epoch.
    bind_dec (lift_dec (EndpointId_parse destination_endpoint)) (\<lambda>parsed_endpoint.
    bind_dec (lift_dec (Incarnation_make parsed_endpoint boot epoch)) (\<lambda>incarnation.
    bind_dec dec_digest (\<lambda>content.
    bind_dec dec_u64 (\<lambda>bytes.
    bind_dec dec_u32 (\<lambda>chunks.
    bind_dec dec_i64 (\<lambda>committed.
    bind_dec dec_digest (\<lambda>digest.
      let marker =
        \<lparr>cm_movement_id = movement, cm_movement_generation = generation, cm_object = object,
         cm_source = source_id, cm_destination = destination_id,
         cm_destination_incarnation = incarnation, cm_content_digest = content,
         cm_stored_bytes = bytes, cm_stored_chunks = chunks,
         cm_committed_unix_millis = committed, cm_marker_digest = digest\<rparr>
      in check_dec (CommitMarker_validate marker) (return_dec marker))))))))))))))))))"

section \<open>Staging journals\<close>

record staging_journal =
  sj_movement_id :: movement_id
  sj_movement_generation :: generation
  sj_attempt :: attempt_id
  sj_object :: state_object
  sj_verified_chunks :: u32
  sj_verified_bytes :: u64
  sj_chunk_digests :: "digest list"

abbreviation (input) "kMaxResumeJournalChunks \<equiv> (65536 :: nat)"

text \<open>The loop of \<open>validate\<close> that adds up the lengths of the first chunks.\<close>

fun journal_expected_bytes :: "state_object \<Rightarrow> nat \<Rightarrow> u64 result" where
  "journal_expected_bytes d 0 = Inr 0"
| "journal_expected_bytes d (Suc index) =
    bind_result (journal_expected_bytes d index) (\<lambda>expected_bytes.
    bind_result (chunk_length d (word_of_nat index)) (\<lambda>len.
      case checked_add expected_bytes len of
        None \<Rightarrow> err SIZE_OVERFLOW ''staging journal byte accounting overflowed''
      | Some next \<Rightarrow> Inr next))"

definition StagingJournal_validate :: "staging_journal \<Rightarrow> status" where
  "StagingJournal_validate j =
    (if FixedId_is_zero (sj_movement_id j)
     then Status STORE_RECORD_INVALID ''staging journal requires a movement id''
     else if \<not> Generation_is_set (sj_movement_generation j)
     then Status STORE_RECORD_INVALID ''staging journal requires a generation''
     else if \<not> Status_ok (StateObjectDescriptor_validate (sj_object j))
     then StateObjectDescriptor_validate (sj_object j)
     else if sj_verified_chunks j > so_chunk_count (sj_object j)
     then Status STORE_RECORD_INVALID ''staging journal claims more chunks than exist''
     else if length (sj_chunk_digests j) \<noteq> unat (sj_verified_chunks j)
     then Status STORE_RECORD_INVALID
       ''staging journal chunk digest count does not match the verified prefix''
     else case journal_expected_bytes (sj_object j) (unat (sj_verified_chunks j)) of
       Inl s \<Rightarrow> s
     | Inr expected_bytes \<Rightarrow>
         if expected_bytes \<noteq> sj_verified_bytes j
         then Status STORE_RECORD_INVALID
           ''staging journal byte count is inconsistent with its verified prefix''
         else Status_success)"

definition StagingJournal_encode :: "staging_journal \<Rightarrow> bytes" where
  "StagingJournal_encode j =
     FixedId_encode (sj_movement_id j) @
     enc_u64 (sj_movement_generation j) @
     FixedId_encode (sj_attempt j) @
     StateObjectDescriptor_encode (sj_object j) @
     enc_u32 (sj_verified_chunks j) @
     enc_u64 (sj_verified_bytes j) @
     enc_u32 (word_of_nat (length (sj_chunk_digests j))) @
     concat (map enc_digest (sj_chunk_digests j))"

definition StagingJournal_decode :: "staging_journal decode" where
  "StagingJournal_decode =
    bind_dec FixedId_decode (\<lambda>movement.
    bind_dec dec_u64 (\<lambda>generation.
    bind_dec FixedId_decode (\<lambda>attempt.
    bind_dec StateObjectDescriptor_decode (\<lambda>object.
    bind_dec dec_u32 (\<lambda>chunks.
    bind_dec dec_u64 (\<lambda>bytes.
    bind_dec (dec_count kMaxResumeJournalChunks) (\<lambda>count.
    bind_dec (repeat_dec count dec_digest) (\<lambda>digests.
      let journal =
        \<lparr>sj_movement_id = movement, sj_movement_generation = generation, sj_attempt = attempt,
         sj_object = object, sj_verified_chunks = chunks, sj_verified_bytes = bytes,
         sj_chunk_digests = digests\<rparr>
      in check_dec (StagingJournal_validate journal) (return_dec journal)))))))))"

section \<open>The store and its layout\<close>

record object_store_options =
  oso_root :: path
  oso_max_object_bytes :: u64
  oso_sync_on_write :: bool
  oso_allow_resume :: bool

definition ObjectStoreOptions_default :: "path \<Rightarrow> object_store_options" where
  "ObjectStoreOptions_default root =
     \<lparr>oso_root = root, oso_max_object_bytes = 256 * 2 ^ 30, oso_sync_on_write = True, oso_allow_resume = True\<rparr>"

text \<open>Only the error of the last of the four calls is looked at.\<close>

definition ObjectStore_open :: "object_store_options \<Rightarrow> (file_system, object_store_options) io" where
  "ObjectStore_open options fs =
    (if oso_root options = []
     then (err INVALID_ARGUMENT ''object store root must not be empty'', fs)
     else if oso_max_object_bytes options = 0 \<or> oso_max_object_bytes options > kMaxObjectBytes
     then (err INVALID_ARGUMENT ''max_object_bytes is outside the supported range'', fs)
     else
       let (_, fs) = fs_create_directories (oso_root options @ [''staging'']) fs;
           (_, fs) = fs_create_directories (oso_root options @ [''objects'']) fs;
           (_, fs) = fs_create_directories (oso_root options @ [''commits'']) fs;
           (error, fs) = fs_create_directories (oso_root options @ [''quarantine'']) fs
       in if error then (err STORE_IO_ERROR ''could not create the object store layout'', fs)
          else (Inr options, fs))"

definition staging_directory :: "object_store_options \<Rightarrow> movement_id \<Rightarrow> path" where
  "staging_directory store i = oso_root store @ [''staging'', FixedId_hex i]"

definition staging_data_path :: "object_store_options \<Rightarrow> movement_id \<Rightarrow> path" where
  "staging_data_path store i = staging_directory store i @ [''data.part'']"

definition staging_journal_path :: "object_store_options \<Rightarrow> movement_id \<Rightarrow> path" where
  "staging_journal_path store i = staging_directory store i @ [''journal'']"

definition object_directory :: "object_store_options \<Rightarrow> state_object_id \<Rightarrow> generation \<Rightarrow> path" where
  "object_directory store i generation =
     oso_root store @ [''objects'', FixedId_hex i, decimal (unat generation)]"

definition object_data_path :: "object_store_options \<Rightarrow> state_object_id \<Rightarrow> generation \<Rightarrow> path" where
  "object_data_path store i generation = object_directory store i generation @ [''data'']"

definition commit_marker_path :: "object_store_options \<Rightarrow> state_object_id \<Rightarrow> generation \<Rightarrow> path" where
  "commit_marker_path store i generation =
     oso_root store @ [''commits'', FixedId_hex i, decimal (unat generation) @ ''.marker'']"

section \<open>Staging\<close>

definition journal_file_decode :: "staging_journal decode" where
  "journal_file_decode = bind_dec (dec_text kMaxTextBytes) (\<lambda>domain.
     if domain \<noteq> ''SMF-STAGING-JOURNAL-v1''
     then fail_dec STORE_CORRUPT ''staging journal domain does not match''
     else StagingJournal_decode)"

definition load_journal :: "object_store_options \<Rightarrow> movement_id \<Rightarrow> (file_system, staging_journal) io" where
  "load_journal store i fs =
    (if \<not> fs_exists fs (staging_journal_path store i)
     then (err NOT_FOUND ''no staging journal exists for that movement'', fs)
     else with_handle (
       bind_io (FileHandle_open (staging_journal_path store i) False) (\<lambda>_.
       bind_io FileHandle_size (\<lambda>size.
         if size = 0 \<or> size > 4 * 2 ^ 20
         then fail_io STORE_OVERSIZED ''staging journal has an implausible size''
         else bind_io (FileHandle_read size) (\<lambda>buffer.
           if length buffer \<noteq> size then fail_io STORE_TRUNCATED ''staging journal is truncated''
           else bind_io (lift_io (decode_whole journal_file_decode
               (CanonicalDecoder_make buffer DecodeLimits_default))) (\<lambda>journal.
             if sj_movement_id journal \<noteq> i
             then fail_io STORE_RECORD_INVALID ''staging journal belongs to a different movement''
             else return_io journal))))) fs)"

definition journal_bytes :: "staging_journal \<Rightarrow> bytes" where
  "journal_bytes journal = enc_text ''SMF-STAGING-JOURNAL-v1'' @ StagingJournal_encode journal"

definition save_journal :: "object_store_options \<Rightarrow> staging_journal \<Rightarrow> (file_system, unit) io" where
  "save_journal store journal fs =
    (let valid = StagingJournal_validate journal
     in if \<not> Status_ok valid then (Inl valid, fs)
        else
          let (error, fs) = fs_create_directories (staging_directory store (sj_movement_id journal)) fs
          in if error then (err STORE_IO_ERROR ''could not create the staging directory'', fs)
             else atomic_replace_file (staging_journal_path store (sj_movement_id journal))
               (journal_bytes journal) (oso_sync_on_write store) fs)"

definition staging_present :: "object_store_options \<Rightarrow> movement_id \<Rightarrow> file_system \<Rightarrow> bool" where
  "staging_present store i fs \<longleftrightarrow> fs_exists fs (staging_data_path store i)"

definition staging_bytes :: "object_store_options \<Rightarrow> movement_id \<Rightarrow> file_system \<Rightarrow> u64" where
  "staging_bytes store i fs =
    (case fs_file_size fs (staging_data_path store i) of None \<Rightarrow> 0 | Some n \<Rightarrow> word_of_nat n)"

text \<open>What \<open>discard_staging\<close> writes through its pointer argument.\<close>

definition staging_footprint :: "object_store_options \<Rightarrow> movement_id \<Rightarrow> file_system \<Rightarrow> u64" where
  "staging_footprint store i fs = staging_bytes store i fs +
    (case fs_file_size fs (staging_journal_path store i) of None \<Rightarrow> 0 | Some n \<Rightarrow> word_of_nat n)"

definition discard_staging :: "object_store_options \<Rightarrow> movement_id \<Rightarrow> (file_system, unit) io" where
  "discard_staging store i fs =
    (let (error, fs) = fs_remove_all (staging_directory store i) fs
     in if error then (err CLEANUP_FAILED ''could not remove the staging directory'', fs) else (Inr (), fs))"

definition promote_staging :: "object_store_options \<Rightarrow> movement_id \<Rightarrow> state_object \<Rightarrow> (file_system, unit) io" where
  "promote_staging store i object fs =
    (let source = staging_data_path store i;
         target = object_data_path store (so_object_id object) (so_generation object)
     in if \<not> fs_exists fs source then (err OBJECT_NOT_FOUND ''no staged bytes exist to promote'', fs)
        else
          let (error, fs) = fs_create_directories (object_directory store (so_object_id object) (so_generation object)) fs
          in if error then (err STORE_IO_ERROR ''could not create the object directory'', fs)
             else
               let (error, fs) = (if fs_exists fs target then fs_remove target fs else (False, fs))
               in if error then (err STORE_IO_ERROR ''could not clear the previous object data'', fs)
                  else
                    let (error, fs) = fs_rename source target fs
                    in if error then (err STORE_IO_ERROR ''could not promote the staged bytes'', fs)
                       else bind_io (if oso_sync_on_write store then sync_existing_file target else return_io ()) (\<lambda>_ fs.
                         let (_, fs) = fs_remove_all (staging_directory store i) fs in (Inr (), fs)) fs)"

section \<open>Placed objects\<close>

abbreviation (input) "kCopyBufferBytes \<equiv> (262144 :: nat)"

definition object_present :: "object_store_options \<Rightarrow> state_object_id \<Rightarrow> generation \<Rightarrow> file_system \<Rightarrow> bool" where
  "object_present store i generation fs \<longleftrightarrow> fs_exists fs (object_data_path store i generation)"

definition object_size ::
    "object_store_options \<Rightarrow> state_object_id \<Rightarrow> generation \<Rightarrow> file_system \<Rightarrow> u64 result" where
  "object_size store i generation fs =
    (case fs_file_size fs (object_data_path store i generation) of
       None \<Rightarrow> err OBJECT_VERSION_NOT_FOUND ''no bytes are placed for that version''
     | Some n \<Rightarrow> Inr (word_of_nat n))"

definition read_range ::
    "object_store_options \<Rightarrow> state_object_id \<Rightarrow> generation \<Rightarrow> u64 \<Rightarrow> u64 \<Rightarrow> u64 \<Rightarrow> (file_system, bytes) io" where
  "read_range store i generation offset len max_length =
    (if len > max_length
     then fail_io PROTOCOL_BOUNDS_EXCEEDED ''requested range exceeds the permitted bound''
     else with_handle (
       bind_io (FileHandle_open (object_data_path store i generation) False) (\<lambda>_.
       bind_io FileHandle_size (\<lambda>size.
         if (case checked_add offset len of None \<Rightarrow> True | Some end \<Rightarrow> unat end > size)
         then fail_io CHUNK_INDEX_OUT_OF_RANGE ''requested range lies outside the object''
         else
           bind_io (FileHandle_seek (unat offset)) (\<lambda>_.
             if len = 0 then return_io []
             else bind_io (FileHandle_read (unat len)) (\<lambda>buffer.
               if length buffer \<noteq> unat len
               then fail_io STORE_TRUNCATED ''object bytes ended inside the requested range''
               else return_io buffer))))))"

text \<open>The loop of \<open>digest_object\<close>: it ends because each full buffer moves the position on.\<close>

definition unread :: "handle_world \<Rightarrow> nat" where
  "unread = (\<lambda>(h, fs). case h of None \<Rightarrow> 0 | Some f \<Rightarrow> length (file_contents fs (hd_path f)) - hd_position f)"

lemma unread_read:
  assumes "FileHandle_read n w = (Inr data, w')" "data \<noteq> []"
  shows "unread w' < unread w"
proof -
  obtain h fs h' fs' where w: "w = (h, fs)" "w' = (h', fs')" by fastforce
  obtain f where f: "h = Some f" "h' = Some (f\<lparr>hd_position := hd_position f + length data\<rparr>)"
    "fs_lookup fs' = fs_lookup fs" "data = take (length data) (drop (hd_position f) (file_contents fs (hd_path f)))"
    using assms(1) unfolding w by (rule FileHandle_read_okD)
  have "0 < length data" "length data \<le> length (file_contents fs (hd_path f)) - hd_position f"
    using assms(2) f(4) by (auto, metis length_drop length_take min.cobounded1)
  moreover have "unread w = length (file_contents fs (hd_path f)) - hd_position f"
    "unread w' = length (file_contents fs (hd_path f)) - (hd_position f + length data)"
    using f(1-3) by (simp_all add: w unread_def file_contents_def)
  ultimately show ?thesis
    by linarith
qed

function digest_loop :: "sha256_state \<Rightarrow> u64 \<Rightarrow> (handle_world, sha256_state \<times> u64) io" where
  "digest_loop hasher bytes_read w =
    (case FileHandle_read kCopyBufferBytes w of
       (Inl s, w) \<Rightarrow> (Inl s, w)
     | (Inr data, w) \<Rightarrow>
         if data = [] then (Inr (hasher, bytes_read), w)
         else
           let hasher = Sha256_update hasher data; bytes_read = bytes_read + word_of_nat (length data)
           in if length data < kCopyBufferBytes then (Inr (hasher, bytes_read), w)
              else digest_loop hasher bytes_read w)"
  by pat_completeness auto
termination
  by (relation "measure (\<lambda>(_, _, w). unread w)") (auto intro: unread_read [OF sym])

declare digest_loop.simps [simp del]

definition digest_object ::
    "object_store_options \<Rightarrow> state_object_id \<Rightarrow> generation \<Rightarrow> (file_system, digest \<times> u64) io" where
  "digest_object store i generation = with_handle (
     bind_io (FileHandle_open (object_data_path store i generation) False) (\<lambda>_.
     bind_io (digest_loop Sha256_reset 0) (\<lambda>(hasher, bytes_read).
       return_io (fst (Sha256_finalize hasher), bytes_read))))"

section \<open>Commit markers on disk\<close>

definition marker_file_decode :: "commit_marker decode" where
  "marker_file_decode = bind_dec (dec_text kMaxTextBytes) (\<lambda>domain.
     if domain \<noteq> ''SMF-COMMIT-MARKER-v1''
     then fail_dec COMMIT_MARKER_INVALID ''commit marker domain does not match''
     else CommitMarker_decode)"

definition marker_bytes :: "commit_marker \<Rightarrow> bytes" where
  "marker_bytes m = enc_text ''SMF-COMMIT-MARKER-v1'' @ CommitMarker_encode m"

text \<open>The marker \<open>write_commit_marker\<close> finds already there. Every failure on the way to it, of a
  system call or of the decoder, counts as no marker.\<close>

definition existing_marker :: "path \<Rightarrow> file_system \<Rightarrow> commit_marker option \<times> file_system" where
  "existing_marker p fs =
    (if \<not> fs_exists fs p then (None, fs)
     else case with_handle (
         bind_io (FileHandle_open p False) (\<lambda>_.
         bind_io FileHandle_size (\<lambda>size.
           if size > 0 \<and> size \<le> 2 ^ 20
           then bind_io (FileHandle_read size) (\<lambda>buffer.
             return_io (if length buffer = size then Some buffer else None))
           else return_io None))) fs of
       (Inr (Some buffer), fs) \<Rightarrow>
         (case marker_file_decode (CanonicalDecoder_make buffer DecodeLimits_default) 0 of
            Inr (decoded, _) \<Rightarrow> (Some decoded, fs)
          | Inl _ \<Rightarrow> (None, fs))
     | (_, fs) \<Rightarrow> (None, fs))"

definition write_commit_marker :: "object_store_options \<Rightarrow> commit_marker \<Rightarrow> (file_system, unit) io" where
  "write_commit_marker store marker fs =
    (let sealed = (if Digest_is_zero (cm_marker_digest marker) then CommitMarker_seal marker else marker);
         valid = CommitMarker_validate sealed;
         target = commit_marker_path store (so_object_id (cm_object sealed)) (so_generation (cm_object sealed))
     in if cm_marker_digest sealed \<noteq> CommitMarker_compute_digest sealed
        then (err COMMIT_MARKER_INVALID ''commit marker digest does not match its fields'', fs)
        else if \<not> Status_ok valid then (Inl valid, fs)
        else case existing_marker target fs of
          (Some decoded, fs) \<Rightarrow>
            if cm_marker_digest decoded = cm_marker_digest sealed then (Inr (), fs)
            else (err COMMIT_ALREADY_EXISTS
              ''a different commit marker already exists for this object version'', fs)
        | (None, fs) \<Rightarrow>
            let (error, fs) = fs_create_directories (butlast target) fs
            in if error then (err STORE_IO_ERROR ''could not create the commit directory'', fs)
               else atomic_replace_file target (marker_bytes sealed) (oso_sync_on_write store) fs)"

definition read_commit_marker ::
    "object_store_options \<Rightarrow> state_object_id \<Rightarrow> generation \<Rightarrow> (file_system, commit_marker) io" where
  "read_commit_marker store i generation = with_handle (
     bind_io (FileHandle_open (commit_marker_path store i generation) False) (\<lambda>_.
     bind_io FileHandle_size (\<lambda>size.
       if size = 0 \<or> size > 2 ^ 20
       then fail_io COMMIT_MARKER_INVALID ''commit marker has an implausible size''
       else bind_io (FileHandle_read size) (\<lambda>buffer.
         if length buffer \<noteq> size then fail_io STORE_TRUNCATED ''commit marker is truncated''
         else bind_io (lift_io (decode_whole marker_file_decode
             (CanonicalDecoder_make buffer DecodeLimits_default))) (\<lambda>marker.
           if cm_marker_digest marker \<noteq> CommitMarker_compute_digest marker
           then fail_io COMMIT_MARKER_INVALID ''commit marker digest does not match its own fields''
           else if so_object_id (cm_object marker) \<noteq> i \<or> so_generation (cm_object marker) \<noteq> generation
           then fail_io COMMIT_MARKER_INVALID ''commit marker is filed under the wrong object version''
           else return_io marker)))))"

definition commit_marker_present ::
    "object_store_options \<Rightarrow> state_object_id \<Rightarrow> generation \<Rightarrow> file_system \<Rightarrow> bool" where
  "commit_marker_present store i generation fs \<longleftrightarrow> fs_exists fs (commit_marker_path store i generation)"

section \<open>Authority\<close>

record object_authority =
  oa_object_id :: state_object_id
  oa_generation :: generation
  oa_movement_id :: movement_id
  oa_bytes_present :: bool
  oa_marker_present :: bool
  oa_marker_valid :: bool
  oa_authoritative :: bool
  oa_marker_digest :: digest
  oa_stored_bytes :: u64
  oa_code :: reason_code
  oa_detail :: string

definition ObjectAuthority_default :: object_authority where
  "ObjectAuthority_default =
    \<lparr>oa_object_id = 0, oa_generation = 0, oa_movement_id = 0, oa_bytes_present = False,
     oa_marker_present = False, oa_marker_valid = False, oa_authoritative = False,
     oa_marker_digest = 0, oa_stored_bytes = 0, oa_code = OBJECT_VERSION_NOT_FOUND, oa_detail = []\<rparr>"

definition authority ::
    "object_store_options \<Rightarrow> state_object_id \<Rightarrow> generation \<Rightarrow> (file_system, object_authority) io" where
  "authority store i generation fs =
    (let report = ObjectAuthority_default\<lparr>oa_object_id := i, oa_generation := generation,
           oa_bytes_present := object_present store i generation fs\<rparr>
     in case read_commit_marker store i generation fs of
       (Inl s, fs) \<Rightarrow>
         let present = commit_marker_present store i generation fs
         in (Inr (report\<lparr>oa_marker_present := present, oa_marker_valid := False, oa_authoritative := False,
               oa_code := (if present then status_code s else OBJECT_VERSION_NOT_FOUND),
               oa_detail := (if present then Status_to_string s
                 else ''no commit marker exists for this object version, so any bytes present '' @
                   ''there are staged residue and not reusable authority'')\<rparr>), fs)
     | (Inr marker, fs) \<Rightarrow>
         let stored = (case object_size store i generation fs of Inr n \<Rightarrow> n | Inl _ \<Rightarrow> 0);
             report = report\<lparr>oa_marker_present := True, oa_marker_valid := True,
               oa_movement_id := cm_movement_id marker, oa_marker_digest := cm_marker_digest marker,
               oa_stored_bytes := stored\<rparr>
         in if \<not> oa_bytes_present report
            then (Inr (report\<lparr>oa_code := OBJECT_NOT_FOUND,
              oa_detail := ''a commit marker exists but the object bytes are missing''\<rparr>), fs)
            else if stored \<noteq> cm_stored_bytes marker
            then (Inr (report\<lparr>oa_code := BYTE_COUNT_MISMATCH,
              oa_detail := ''stored byte count does not match the commit marker''\<rparr>), fs)
            else (Inr (report\<lparr>oa_authoritative := True, oa_code := OK,
              oa_detail := ''commit marker verified and stored byte count matches''\<rparr>), fs))"

section \<open>Cleanup\<close>

record cleanup_target =
  ct_movement_id :: movement_id
  ct_object_id :: state_object_id
  ct_generation :: generation
  ct_quarantine :: bool
  ct_remove_placed :: bool

definition quarantine_path :: "object_store_options \<Rightarrow> movement_id \<Rightarrow> path" where
  "quarantine_path store i = oso_root store @ [''quarantine'', FixedId_hex i]"

text \<open>Both halves return the bytes and the entries they removed.\<close>

definition cleanup_staging :: "object_store_options \<Rightarrow> cleanup_target \<Rightarrow> (file_system, u64 \<times> u32) io" where
  "cleanup_staging store target fs =
    (let directory = staging_directory store (ct_movement_id target);
         staged = staging_bytes store (ct_movement_id target) fs;
         quarantine = quarantine_path store (ct_movement_id target)
     in if \<not> fs_exists fs directory then (Inr (0, 0), fs)
        else if ct_quarantine target then
          let (error, fs) = fs_create_directories quarantine fs
          in if error then (err CLEANUP_FAILED ''could not create the quarantine area'', fs)
             else
               let (error, fs) = fs_rename directory (quarantine @ [''staging'']) fs
               in if error then (err CLEANUP_FAILED ''could not quarantine the staged bytes'', fs)
                  else (Inr (staged, 1), fs)
        else
          let (error, fs) = fs_remove_all directory fs
          in if error then (err CLEANUP_FAILED ''could not remove the staged bytes'', fs)
             else (Inr (staged, 1), fs))"

definition cleanup_placed :: "object_store_options \<Rightarrow> cleanup_target \<Rightarrow> (file_system, u64 \<times> u32) io" where
  "cleanup_placed store target fs =
    (let i = ct_object_id target; generation = ct_generation target;
         directory = object_directory store i generation;
         size = (case object_size store i generation fs of Inr n \<Rightarrow> n | Inl _ \<Rightarrow> 0);
         marker = commit_marker_present store i generation fs;
         marker_path = commit_marker_path store i generation;
         quarantine = quarantine_path store (ct_movement_id target)
     in if ct_quarantine target then
          let (_, fs) = fs_create_directories quarantine fs;
              (error, removed, fs) =
                (if fs_exists fs directory
                 then case fs_rename directory (quarantine @ [''objects'']) fs of
                   (error, fs) \<Rightarrow> (error, (size, 1), fs)
                 else (False, (0, 0), fs))
          in if error then (err CLEANUP_FAILED ''could not quarantine the object bytes'', fs)
             else if marker \<and> fs_exists fs marker_path then
               let (error, fs) = fs_rename marker_path (quarantine @ [''marker'']) fs
               in if error then (err CLEANUP_FAILED ''could not quarantine the commit marker'', fs)
                  else (Inr (fst removed, snd removed + 1), fs)
             else (Inr removed, fs)
        else
          let (error, removed, fs) =
                (if fs_exists fs directory
                 then case fs_remove_all directory fs of (error, fs) \<Rightarrow> (error, (size, 1), fs)
                 else (False, (0, 0), fs))
          in if error then (err CLEANUP_FAILED ''could not remove the object bytes'', fs)
             else if marker then
               let (error, fs) = fs_remove marker_path fs
               in if error then (err CLEANUP_FAILED ''could not remove the commit marker'', fs)
                  else (Inr (fst removed, snd removed + 1), fs)
             else (Inr removed, fs))"

definition cleanup :: "object_store_options \<Rightarrow> cleanup_target \<Rightarrow> (file_system, u64 \<times> u32) io" where
  "cleanup store target =
     bind_io (cleanup_staging store target) (\<lambda>(bytes, entries).
       if ct_remove_placed target
       then bind_io (cleanup_placed store target) (\<lambda>(more_bytes, more_entries).
         return_io (bytes + more_bytes, entries + more_entries))
       else return_io (bytes, entries))"

section \<open>The staging writer\<close>

record staging_writer =
  sw_store :: object_store_options
  sw_file :: "file_handle option"
  sw_journal :: staging_journal
  sw_running :: sha256_state
  sw_journaling :: bool
  sw_open :: bool
  sw_completed :: bool
  sw_finalized :: bool

type_synonym writer_world = "staging_writer \<times> file_system"

definition try_io :: "('s, 'a) io \<Rightarrow> ('s, 'a result) io" where
  "try_io m s = (case m s of (r, s) \<Rightarrow> (Inr r, s))"

text \<open>The progress \<open>begin\<close> resumes from: a journal that loads, describes the same version and
  has at least one verified chunk. Everything else starts clean.\<close>

definition stored_progress ::
    "object_store_options \<Rightarrow> movement_id \<Rightarrow> state_object \<Rightarrow> file_system \<Rightarrow> staging_journal option \<times> file_system" where
  "stored_progress store i object fs =
    (case load_journal store i fs of
       (Inl _, fs) \<Rightarrow> (None, fs)
     | (Inr stored, fs) \<Rightarrow>
         (if Status_ok (check_resume_compatible object (sj_object stored)) \<and> sj_verified_chunks stored > 0
          then Some stored else None, fs))"

text \<open>Re-reading the verified prefix: \<open>n\<close> chunks from number \<open>index\<close> on.\<close>

fun rehash_prefix ::
    "state_object \<Rightarrow> digest list \<Rightarrow> nat \<Rightarrow> nat \<Rightarrow> u64 \<Rightarrow> sha256_state \<Rightarrow> (handle_world, sha256_state) io" where
  "rehash_prefix object digests 0 index offset running = return_io running"
| "rehash_prefix object digests (Suc n) index offset running =
    (case chunk_length object (word_of_nat index) of
       Inl s \<Rightarrow> lift_io (Inl s)
     | Inr len \<Rightarrow>
         bind_io (if len = 0 then return_io [] else FileHandle_read (unat len)) (\<lambda>buffer.
           if length buffer \<noteq> unat len
           then fail_io RESUME_INCOMPATIBLE ''the staged file ended inside the verified prefix''
           else if compute_chunk_digest (so_object_id object) (so_generation object) (word_of_nat index)
               offset len buffer \<noteq> digests ! index
           then fail_io RESUME_INCOMPATIBLE ''the staged bytes do not match the journalled chunk digest''
           else rehash_prefix object digests n (index + 1) (offset + len) (Sha256_update running buffer)))"

definition resume_staged :: "path \<Rightarrow> state_object \<Rightarrow> staging_journal \<Rightarrow> (handle_world, sha256_state) io" where
  "resume_staged p object journal =
     bind_io (FileHandle_open p True) (\<lambda>_.
     bind_io (try_io FileHandle_size) (\<lambda>size.
       if (case size of Inl _ \<Rightarrow> True | Inr n \<Rightarrow> n < unat (sj_verified_bytes journal))
       then fail_io RESUME_INCOMPATIBLE ''the staged file is shorter than the journal claims''
       else bind_io (FileHandle_seek 0) (\<lambda>_.
         rehash_prefix object (sj_chunk_digests journal) (unat (sj_verified_chunks journal)) 0 0 Sha256_reset)))"

text \<open>Starting clean: the old staging area is discarded and the staged file emptied. The journal of
  the new attempt is saved while the handle is open.\<close>

definition start_staged ::
    "object_store_options \<Rightarrow> bool \<Rightarrow> staging_journal \<Rightarrow> (handle_world, sha256_state) io" where
  "start_staged store journaling journal =
     bind_io (FileHandle_open (staging_data_path store (sj_movement_id journal)) True) (\<lambda>_.
     bind_io (FileHandle_truncate_at 0) (\<lambda>_.
     bind_io (if journaling then on_system (save_journal store journal) else return_io ()) (\<lambda>_.
       return_io Sha256_reset)))"

text \<open>The writer owns the handle; when \<open>begin\<close> fails it is closed with the writer.\<close>

definition opened_writer ::
    "object_store_options \<Rightarrow> bool \<Rightarrow> staging_journal \<Rightarrow> (handle_world, sha256_state) io \<Rightarrow>
     (file_system, staging_writer) io" where
  "opened_writer store journaling journal m fs =
    (case m (None, fs) of
       (Inl s, (_, fs)) \<Rightarrow> (Inl s, fs)
     | (Inr running, (h, fs)) \<Rightarrow>
         (Inr \<lparr>sw_store = store, sw_file = h, sw_journal = journal, sw_running = running,
            sw_journaling = journaling, sw_open = True, sw_completed = False, sw_finalized = False\<rparr>, fs))"

definition StagingWriter_begin ::
    "object_store_options \<Rightarrow> movement_id \<Rightarrow> generation \<Rightarrow> attempt_id \<Rightarrow> state_object \<Rightarrow>
     (file_system, staging_writer) io" where
  "StagingWriter_begin store i generation attempt object fs =
    (let object_status = StateObjectDescriptor_validate object;
         journaling = (oso_allow_resume store \<and> unat (so_chunk_count object) \<le> kMaxResumeJournalChunks)
     in if \<not> Status_ok object_status then (Inl object_status, fs)
        else
          let (error, fs) = fs_create_directories (staging_directory store i) fs
          in if error then (err STORE_IO_ERROR ''could not create the staging directory'', fs)
             else case (if journaling then stored_progress store i object fs else (None, fs)) of
               (Some stored, fs) \<Rightarrow>
                 let journal = stored\<lparr>sj_movement_generation := generation, sj_attempt := attempt\<rparr>
                 in opened_writer store journaling journal
                      (resume_staged (staging_data_path store i) object journal) fs
             | (None, fs) \<Rightarrow>
                 bind_io (discard_staging store i) (\<lambda>_ fs.
                   let (_, fs) = fs_create_directories (staging_directory store i) fs;
                       journal = \<lparr>sj_movement_id = i, sj_movement_generation = generation,
                         sj_attempt = attempt, sj_object = object, sj_verified_chunks = 0,
                         sj_verified_bytes = 0, sj_chunk_digests = []\<rparr>
                   in opened_writer store journaling journal (start_staged store journaling journal) fs) fs)"

definition on_staged :: "(handle_world, 'a) io \<Rightarrow> (writer_world, 'a) io" where
  "on_staged m = (\<lambda>(w, fs). case m (sw_file w, fs) of (r, (h, fs)) \<Rightarrow> (r, (w\<lparr>sw_file := h\<rparr>, fs)))"

definition modify_writer :: "(staging_writer \<Rightarrow> staging_writer) \<Rightarrow> (writer_world, unit) io" where
  "modify_writer f = (\<lambda>(w, fs). (Inr (), (f w, fs)))"

definition writer_state :: "staging_writer \<Rightarrow> resume_state" where
  "writer_state w = \<lparr>rs_descriptor = sj_object (sw_journal w),
     rs_verified_chunks = sj_verified_chunks (sw_journal w),
     rs_verified_bytes = sj_verified_bytes (sw_journal w), rs_rolling_digest = 0\<rparr>"

text \<open>A chunk that is already verified: only an identical one is accepted.\<close>

definition replay_chunk ::
    "u32 \<Rightarrow> u64 \<Rightarrow> u64 \<Rightarrow> digest \<Rightarrow> (writer_world, resume_state) io" where
  "replay_chunk index offset len chunk_digest = (\<lambda>(w, fs).
    let object = sj_object (sw_journal w)
    in if sw_journaling w \<and> sj_chunk_digests (sw_journal w) ! unat index \<noteq> chunk_digest
       then (err CHUNK_CONFLICT
         ''a replayed chunk does not match the digest already recorded for its index'', (w, fs))
       else
         bind_io (on_staged (FileHandle_seek (unat offset))) (\<lambda>_.
         bind_io (on_staged (FileHandle_read (unat len))) (\<lambda>buffer.
           if length buffer \<noteq> unat len
           then fail_io CHUNK_CONFLICT ''stored bytes ended inside the replayed chunk''
           else if compute_chunk_digest (so_object_id object) (so_generation object) index offset len buffer
               \<noteq> chunk_digest
           then fail_io CHUNK_CONFLICT
             ''a replayed chunk does not match the bytes already stored for its index''
           else return_io (writer_state w))) (w, fs))"

text \<open>What an accepted chunk changes in the writer once its bytes are written.\<close>

definition chunk_accepted :: "u64 \<Rightarrow> bytes \<Rightarrow> digest \<Rightarrow> staging_writer \<Rightarrow> staging_writer" where
  "chunk_accepted len payload chunk_digest w =
    (let journal = sw_journal w
     in w\<lparr>sw_running := Sha256_update (sw_running w) payload,
        sw_journal := journal\<lparr>
          sj_chunk_digests :=
            (if sw_journaling w then sj_chunk_digests journal @ [chunk_digest] else sj_chunk_digests journal),
          sj_verified_chunks := sj_verified_chunks journal + 1,
          sj_verified_bytes := sj_verified_bytes journal + len\<rparr>\<rparr>)"

definition store_chunk :: "u64 \<Rightarrow> u64 \<Rightarrow> bytes \<Rightarrow> digest \<Rightarrow> (writer_world, resume_state) io" where
  "store_chunk offset len payload chunk_digest = (\<lambda>(w, fs).
     bind_io (on_staged (FileHandle_seek (unat offset))) (\<lambda>_.
     bind_io (on_staged (FileHandle_write payload)) (\<lambda>_.
     bind_io (if oso_sync_on_write (sw_store w) then on_staged FileHandle_sync else return_io ()) (\<lambda>_.
     bind_io (modify_writer (chunk_accepted len payload chunk_digest)) (\<lambda>_.
     bind_io (\<lambda>(w, fs).
       if sw_journaling w
       then case save_journal (sw_store w) (sw_journal w) fs of (r, fs) \<Rightarrow> (r, (w, fs))
       else (Inr (), (w, fs))) (\<lambda>_ (w, fs).
         (Inr (writer_state w), (w, fs))))))) (w, fs))"

definition StagingWriter_append ::
    "u32 \<Rightarrow> u64 \<Rightarrow> bytes \<Rightarrow> digest \<Rightarrow> (writer_world, resume_state) io" where
  "StagingWriter_append index offset payload chunk_digest = (\<lambda>(w, fs).
    let journal = sw_journal w; object = sj_object journal
    in if \<not> sw_open w \<or> sw_file w = None
       then (err INTERNAL_ERROR ''staging writer is not open'', (w, fs))
       else if sw_finalized w
       then (err ALREADY_TERMINAL ''staging writer already finished'', (w, fs))
       else if index \<ge> so_chunk_count object
       then (err CHUNK_INDEX_OUT_OF_RANGE ''chunk index is outside the object'', (w, fs))
       else case chunk_offset object index of
         Inl s \<Rightarrow> (Inl s, (w, fs))
       | Inr expected_offset \<Rightarrow>
           if offset \<noteq> expected_offset
           then (err CHUNK_OUT_OF_ORDER ''chunk offset does not match the planned segmentation'', (w, fs))
           else case chunk_length object index of
             Inl s \<Rightarrow> (Inl s, (w, fs))
           | Inr expected_length \<Rightarrow>
               if length payload \<noteq> unat expected_length
               then (err BYTE_COUNT_MISMATCH
                 ''chunk payload length does not match the planned chunk length'', (w, fs))
               else if compute_chunk_digest (so_object_id object) (so_generation object) index offset
                   expected_length payload \<noteq> chunk_digest
               then (err CHUNK_DIGEST_MISMATCH
                 ''the received chunk does not hash to the digest it carries'', (w, fs))
               else if index < sj_verified_chunks journal
               then replay_chunk index offset expected_length chunk_digest (w, fs)
               else if index \<noteq> sj_verified_chunks journal
               then (err CHUNK_OUT_OF_ORDER ''chunks must arrive in order; this one skips ahead'', (w, fs))
               else store_chunk offset expected_length payload chunk_digest (w, fs))"

definition close_staged :: "staging_writer \<Rightarrow> staging_writer" where
  "close_staged w = w\<lparr>sw_file := None, sw_open := False\<rparr>"

definition StagingWriter_finish :: "(writer_world, digest) io" where
  "StagingWriter_finish = (\<lambda>(w, fs).
    let journal = sw_journal w
    in if \<not> sw_open w \<or> sw_file w = None
       then (err INTERNAL_ERROR ''staging writer is not open'', (w, fs))
       else if sj_verified_chunks journal \<noteq> so_chunk_count (sj_object journal) \<or>
         sj_verified_bytes journal \<noteq> so_total_bytes (sj_object journal)
       then (err TRANSFER_INCOMPLETE ''the staged bytes do not cover the whole object'', (w, fs))
       else
         let (content, running) = Sha256_finalize (sw_running w)
         in bind_io (modify_writer (\<lambda>w. w\<lparr>sw_running := running\<rparr>)) (\<lambda>_.
            bind_io (on_staged FileHandle_sync) (\<lambda>_.
            bind_io (modify_writer (\<lambda>w. (close_staged w)\<lparr>sw_completed := True\<rparr>)) (\<lambda>_.
              return_io content))) (w, fs))"

definition StagingWriter_promote :: "(writer_world, unit) io" where
  "StagingWriter_promote = (\<lambda>(w, fs).
    if \<not> sw_completed w
    then (err TRANSFER_INCOMPLETE
      ''the staged transfer is not complete, so there is nothing to promote'', (w, fs))
    else case promote_staging (sw_store w) (sj_movement_id (sw_journal w)) (sj_object (sw_journal w)) fs of
      (Inl s, fs) \<Rightarrow> (Inl s, (w, fs))
    | (Inr _, fs) \<Rightarrow> (Inr (), (w\<lparr>sw_finalized := True\<rparr>, fs)))"

definition StagingWriter_abort :: "staging_writer \<Rightarrow> staging_writer" where
  "StagingWriter_abort w = close_staged w"

end
