(* ===== verification/SMF_Object_Files.thy ===== *)
theory SMF_Object_Files
  imports SMF_Object_Store
begin

text \<open>
  The files of the object store: commit markers and staging journals have exactly one encoding,
  reading a marker returns what is on disk whichever calls fail, and the paths of the store do
  not collide.
\<close>

section \<open>Codecs\<close>

abbreviation marker_valid :: "commit_marker \<Rightarrow> bool" where
  "marker_valid m \<equiv> Status_ok (CommitMarker_validate m)"

definition commit_marker_wf :: "commit_marker \<Rightarrow> bool" where
  "commit_marker_wf m \<longleftrightarrow> marker_valid m \<and> EndpointId_is_valid (cm_source m) \<and>
     EndpointId_is_valid (cm_destination m)"

lemma marker_valid_iff:
  "marker_valid m \<longleftrightarrow>
    cm_movement_id m \<noteq> 0 \<and> cm_movement_generation m \<noteq> 0 \<and> descriptor_valid (cm_object m) \<and>
    cm_source m \<noteq> [] \<and> cm_destination m \<noteq> [] \<and> cm_source m \<noteq> cm_destination m \<and>
    Incarnation_is_set (cm_destination_incarnation m) \<and>
    inc_endpoint (cm_destination_incarnation m) = cm_destination m \<and> cm_content_digest m \<noteq> 0 \<and>
    cm_content_digest m = so_content_digest (cm_object m) \<and>
    cm_stored_bytes m = so_total_bytes (cm_object m) \<and>
    cm_stored_chunks m = so_chunk_count (cm_object m) \<and> 0 < sint (cm_committed_unix_millis m) \<and>
    cm_marker_digest m \<noteq> 0"
  unfolding CommitMarker_validate_def by (auto simp: not_le)

lemma CommitMarker_decode_iff [codec_iff]:
  "dec_ok c \<Longrightarrow> CommitMarker_decode c i = Inr (m, j) \<longleftrightarrow>
    commit_marker_wf m \<and> spells c i j (CommitMarker_encode m)"
  using marker_valid_iff [of m] EndpointId_is_valid_utf8 EndpointId_is_valid_length
  by (cases m)
    (auto simp: CommitMarker_decode_def CommitMarker_encode_def marker_fields_def commit_marker_wf_def
      Incarnation_make_Inr_iff dec_Inr_iffs codec_iff codec_simps)

interpretation commit_marker_codec: canonical_codec CommitMarker_encode CommitMarker_decode commit_marker_wf
  by unfold_locales (rule CommitMarker_decode_iff)

lemma journal_expected_bytes_eq:
  "journal_expected_bytes d n = Inr b \<longleftrightarrow> ResumeState_expected_bytes d n = Inr b"
  by (induction n arbitrary: b) (auto simp: bind_result_Inr_iff split: option.splits)

abbreviation journal_valid :: "staging_journal \<Rightarrow> bool" where
  "journal_valid j \<equiv> Status_ok (StagingJournal_validate j)"

definition journal_wf :: "staging_journal \<Rightarrow> bool" where
  "journal_wf j \<longleftrightarrow> journal_valid j \<and> unat (sj_verified_chunks j) \<le> 65536"

lemma StagingJournal_decode_iff [codec_iff]:
  "dec_ok c \<Longrightarrow> StagingJournal_decode c i = Inr (s, j) \<longleftrightarrow>
    journal_wf s \<and> spells c i j (StagingJournal_encode s)"
proof -
  assume ok: "dec_ok c"
  have len: "journal_valid s \<Longrightarrow> length (sj_chunk_digests s) = unat (sj_verified_chunks s)"
    "journal_valid s \<Longrightarrow> descriptor_valid (sj_object s)"
    by (auto simp: StagingJournal_validate_def split: if_splits)
  show ?thesis
    using ok len
    by (cases s)
      (auto simp: StagingJournal_decode_def StagingJournal_encode_def journal_wf_def
        digest_codec.repeat_dec_iff list_all_iff dec_Inr_iffs codec_iff codec_simps)
qed

interpretation staging_journal_codec: canonical_codec StagingJournal_encode StagingJournal_decode journal_wf
  by unfold_locales (rule StagingJournal_decode_iff)

text \<open>With the domain in front, as they stand in their files.\<close>

lemma domain_field_iff:
  assumes "dec_ok c" "length domain \<le> 4096" "is_valid_utf8 (as_bytes domain)"
  shows "bind_dec (dec_text 4096) (\<lambda>d. if d \<noteq> domain then fail_dec code what else p) c i = Inr (x, j) \<longleftrightarrow>
    (\<exists>k. spells c i k (enc_text domain) \<and> p c k = Inr (x, j))"
  using assms by (auto simp: dec_Inr_iffs dec_text_iff)

lemma marker_file_decode_iff [codec_iff]:
  "dec_ok c \<Longrightarrow> marker_file_decode c i = Inr (m, j) \<longleftrightarrow>
    commit_marker_wf m \<and> spells c i j (marker_bytes m)"
  by (auto simp: marker_file_decode_def marker_bytes_def domain_field_iff is_valid_utf8_ascii as_bytes_def
      byte_of_char_def codec_iff spells_append)

interpretation marker_file_codec: canonical_codec marker_bytes marker_file_decode commit_marker_wf
  by unfold_locales (rule marker_file_decode_iff)

lemma journal_file_decode_iff [codec_iff]:
  "dec_ok c \<Longrightarrow> journal_file_decode c i = Inr (s, j) \<longleftrightarrow> journal_wf s \<and> spells c i j (journal_bytes s)"
  by (auto simp: journal_file_decode_def journal_bytes_def domain_field_iff is_valid_utf8_ascii as_bytes_def
      byte_of_char_def codec_iff spells_append)

interpretation journal_file_codec: canonical_codec journal_bytes journal_file_decode journal_wf
  by unfold_locales (rule journal_file_decode_iff)

text \<open>A decoder with the default limits.\<close>

abbreviation default_decoder :: "bytes \<Rightarrow> decoder" where
  "default_decoder b \<equiv> CanonicalDecoder_make b DecodeLimits_default"

lemma default_decoder_ok: "length b \<le> 8388608 \<Longrightarrow> dec_ok (default_decoder b)"
  by (simp add: dec_ok_def CanonicalDecoder_make_def DecodeLimits_default_def)

lemma default_decoder_input [simp]: "dec_input (default_decoder b) = b"
  by (simp add: CanonicalDecoder_make_def)

lemma marker_whole_iff:
  "length b \<le> 8388608 \<Longrightarrow>
   decode_whole marker_file_decode (default_decoder b) = Inr m \<longleftrightarrow> commit_marker_wf m \<and> b = marker_bytes m"
  by (simp add: marker_file_codec.decode_whole_iff [OF default_decoder_ok])

lemma journal_whole_iff:
  "length b \<le> 8388608 \<Longrightarrow>
   decode_whole journal_file_decode (default_decoder b) = Inr j \<longleftrightarrow> journal_wf j \<and> b = journal_bytes j"
  by (simp add: journal_file_codec.decode_whole_iff [OF default_decoder_ok])

lemma length_marker_bytes:
  assumes "commit_marker_wf m"
  shows "0 < length (marker_bytes m)" "length (marker_bytes m) \<le> 1048576"
proof -
  have "length (cm_source m) \<le> 63" "length (cm_destination m) \<le> 63"
    "inc_endpoint (cm_destination_incarnation m) = cm_destination m" "length (so_name (cm_object m)) \<le> 4096"
    "length (so_producer (cm_object m)) \<le> 4096"
    using assms EndpointId_is_valid_length
    by (auto simp: commit_marker_wf_def marker_valid_iff descriptor_valid_iff)
  then show "0 < length (marker_bytes m)" "length (marker_bytes m) \<le> 1048576"
    by (auto simp: marker_bytes_def CommitMarker_encode_def marker_fields_def FixedId_encode_def
        StateObjectDescriptor_encode_def enc_u8_def enc_u32_def enc_u64_def enc_i64_def enc_text_def enc_blob_def
        enc_digest_def enc_boolean_def)
qed

section \<open>Markers and journals on disk\<close>

text \<open>A sealed marker: its digest is the digest of its fields.\<close>

definition marker_sealed :: "commit_marker \<Rightarrow> bool" where
  "marker_sealed m \<longleftrightarrow> cm_marker_digest m = CommitMarker_compute_digest m"

definition marker_for :: "state_object_id \<Rightarrow> generation \<Rightarrow> commit_marker \<Rightarrow> bool" where
  "marker_for i g m \<longleftrightarrow> commit_marker_wf m \<and> marker_sealed m \<and> so_object_id (cm_object m) = i \<and>
     so_generation (cm_object m) = g"

definition parse_marker :: "state_object_id \<Rightarrow> generation \<Rightarrow> bytes \<Rightarrow> commit_marker result" where
  "parse_marker i generation buffer =
    bind_result (decode_whole marker_file_decode (default_decoder buffer)) (\<lambda>marker.
      if cm_marker_digest marker \<noteq> CommitMarker_compute_digest marker
      then err COMMIT_MARKER_INVALID ''commit marker digest does not match its own fields''
      else if so_object_id (cm_object marker) \<noteq> i \<or> so_generation (cm_object marker) \<noteq> generation
      then err COMMIT_MARKER_INVALID ''commit marker is filed under the wrong object version''
      else Inr marker)"

lemma read_commit_marker_slurp:
  "read_commit_marker store i g = slurp (commit_marker_path store i g) (\<lambda>n. n = 0 \<or> n > 1048576)
     (Status COMMIT_MARKER_INVALID ''commit marker has an implausible size'')
     (Status STORE_TRUNCATED ''commit marker is truncated'') (parse_marker i g)"
  unfolding read_commit_marker_def slurp_def parse_marker_def lift_io_fuse by simp

lemma parse_marker_iff:
  assumes "length b \<le> 8388608"
  shows "parse_marker i g b = Inr m \<longleftrightarrow> marker_for i g m \<and> b = marker_bytes m"
  using marker_whole_iff [OF assms]
  by (auto simp: parse_marker_def bind_result_Inr_iff marker_for_def marker_sealed_def)

lemma read_commit_marker_any:
  assumes "read_commit_marker store i g fs = (r, fs')"
  shows "fs_lookup fs' = fs_lookup fs"
    "r = Inr m \<Longrightarrow> fs_lookup fs (commit_marker_path store i g) = Some (File (marker_bytes m)) \<and> marker_for i g m"
proof -
  note any = slurp_any [OF assms [unfolded read_commit_marker_slurp]]
  show "fs_lookup fs' = fs_lookup fs"
    using any(1) .
  show "fs_lookup fs (commit_marker_path store i g) = Some (File (marker_bytes m)) \<and> marker_for i g m" if "r = Inr m"
    using any(2) [OF that] parse_marker_iff by (auto simp: not_less)
qed

lemma read_commit_marker_done:
  assumes "fs_script fs = []" "fs_lookup fs (commit_marker_path store i g) = Some (File (marker_bytes m))"
    "marker_for i g m"
  shows "read_commit_marker store i g fs = (Inr m, fs)"
proof -
  have len: "0 < length (marker_bytes m)" "length (marker_bytes m) \<le> 1048576"
    using length_marker_bytes [of m] assms(3) by (simp_all add: marker_for_def)
  then have "parse_marker i g (marker_bytes m) = Inr m"
    using parse_marker_iff assms(3) by auto
  then show ?thesis
    using len unfolding read_commit_marker_slurp by (subst slurp_done [OF assms(1,2)]) auto
qed

lemma load_journal_any:
  assumes "load_journal store i fs = (r, fs')"
  shows "fs_lookup fs' = fs_lookup fs"
    "r = Inr j \<Longrightarrow> fs_lookup fs (staging_journal_path store i) = Some (File (journal_bytes j)) \<and>
      journal_wf j \<and> sj_movement_id j = i"
proof -
  let ?parse = "\<lambda>b. bind_result (decode_whole journal_file_decode (default_decoder b)) (\<lambda>j.
      if sj_movement_id j \<noteq> i then err STORE_RECORD_INVALID ''staging journal belongs to a different movement''
      else Inr j)"
  have "load_journal store i fs =
      (if \<not> fs_exists fs (staging_journal_path store i)
       then (err NOT_FOUND ''no staging journal exists for that movement'', fs)
       else slurp (staging_journal_path store i) (\<lambda>n. n = 0 \<or> n > 4194304)
         (Status STORE_OVERSIZED ''staging journal has an implausible size'')
         (Status STORE_TRUNCATED ''staging journal is truncated'') ?parse fs)"
    unfolding load_journal_def slurp_def lift_io_fuse by simp
  then have "(r = err NOT_FOUND ''no staging journal exists for that movement'' \<and> fs' = fs) \<or>
      slurp (staging_journal_path store i) (\<lambda>n. n = 0 \<or> n > 4194304)
         (Status STORE_OVERSIZED ''staging journal has an implausible size'')
         (Status STORE_TRUNCATED ''staging journal is truncated'') ?parse fs = (r, fs')"
    using assms by (simp split: if_splits)
  then show "fs_lookup fs' = fs_lookup fs"
    "r = Inr j \<Longrightarrow> fs_lookup fs (staging_journal_path store i) = Some (File (journal_bytes j)) \<and>
      journal_wf j \<and> sj_movement_id j = i"
    using slurp_any [of _ _ _ _ ?parse fs r fs'] journal_whole_iff
    by (auto simp: bind_result_Inr_iff not_less) (fastforce split: if_splits)+
qed

section \<open>Authority\<close>

lemma object_size_contents:
  "(case object_size store i g fs of Inr n \<Rightarrow> n | Inl _ \<Rightarrow> 0) =
     word_of_nat (length (file_contents fs (object_data_path store i g)))"
  by (auto simp: object_size_def fs_file_size_def file_contents_def split: option.splits node.splits)

text \<open>What an authoritative report stands for: a sealed marker of that version on disk, and bytes
  of the recorded length.\<close>

definition authoritative :: "object_store_options \<Rightarrow> state_object_id \<Rightarrow> generation \<Rightarrow> commit_marker \<Rightarrow> file_system \<Rightarrow> bool" where
  "authoritative store i g m fs \<longleftrightarrow>
     fs_lookup fs (commit_marker_path store i g) = Some (File (marker_bytes m)) \<and> marker_for i g m \<and>
     fs_exists fs (object_data_path store i g) \<and>
     word_of_nat (length (file_contents fs (object_data_path store i g))) = so_total_bytes (cm_object m)"

lemma marker_for_stored: "marker_for i g m \<Longrightarrow> cm_stored_bytes m = so_total_bytes (cm_object m)"
  by (simp add: marker_for_def commit_marker_wf_def marker_valid_iff)

lemma authority_any:
  assumes "authority store i g fs = (r, fs')"
  shows "fs_lookup fs' = fs_lookup fs"
    "\<exists>report. r = Inr report \<and> oa_object_id report = i \<and> oa_generation report = g \<and>
      (oa_authoritative report \<longrightarrow> (\<exists>m. authoritative store i g m fs \<and>
        oa_marker_digest report = cm_marker_digest m \<and> oa_movement_id report = cm_movement_id m))"
proof -
  obtain r1 fs1 where read: "read_commit_marker store i g fs = (r1, fs1)" by fastforce
  note any = read_commit_marker_any [OF read]
  have same: "file_contents fs1 p = file_contents fs p" for p
    using any(1) by (simp add: file_contents_def)
  have "fs_lookup fs' = fs_lookup fs \<and>
    (\<exists>report. r = Inr report \<and> oa_object_id report = i \<and> oa_generation report = g \<and>
      (oa_authoritative report \<longrightarrow> (\<exists>m. authoritative store i g m fs \<and>
        oa_marker_digest report = cm_marker_digest m \<and> oa_movement_id report = cm_movement_id m)))"
  proof (cases r1)
    case (Inl e)
    then have "\<exists>report. authority store i g fs = (Inr report, fs1) \<and> oa_object_id report = i \<and>
        oa_generation report = g \<and> \<not> oa_authoritative report"
      by (simp add: authority_def Let_def read ObjectAuthority_default_def)
    then show ?thesis
      using assms any(1) by auto
  next
    case (Inr m)
    have m: "fs_lookup fs (commit_marker_path store i g) = Some (File (marker_bytes m))" "marker_for i g m"
      using any(2) [OF Inr] by auto
    let ?p = "object_data_path store i g"
    have "authority store i g fs = (Inr (if \<not> fs_exists fs ?p
        then report\<lparr>oa_code := OBJECT_NOT_FOUND, oa_detail := ''a commit marker exists but the object bytes are missing''\<rparr>
        else if word_of_nat (length (file_contents fs ?p)) \<noteq> cm_stored_bytes m
        then report\<lparr>oa_code := BYTE_COUNT_MISMATCH, oa_detail := ''stored byte count does not match the commit marker''\<rparr>
        else report\<lparr>oa_authoritative := True, oa_code := OK,
          oa_detail := ''commit marker verified and stored byte count matches''\<rparr>), fs1)"
      if "report = ObjectAuthority_default\<lparr>oa_object_id := i, oa_generation := g, oa_bytes_present := fs_exists fs ?p,
          oa_marker_present := True, oa_marker_valid := True, oa_movement_id := cm_movement_id m,
          oa_marker_digest := cm_marker_digest m, oa_stored_bytes := word_of_nat (length (file_contents fs ?p))\<rparr>" for report
      by (simp add: that authority_def Let_def read Inr object_size_contents same object_present_def)
    from this [OF refl] show ?thesis
      using assms any(1) m marker_for_stored [OF m(2)]
      by (cases "fs_exists fs ?p"; cases "word_of_nat (length (file_contents fs ?p)) = cm_stored_bytes m")
        (auto simp: authoritative_def ObjectAuthority_default_def)
  qed
  then show "fs_lookup fs' = fs_lookup fs"
    "\<exists>report. r = Inr report \<and> oa_object_id report = i \<and> oa_generation report = g \<and>
      (oa_authoritative report \<longrightarrow> (\<exists>m. authoritative store i g m fs \<and>
        oa_marker_digest report = cm_marker_digest m \<and> oa_movement_id report = cm_movement_id m))"
    by blast+
qed

lemma authority_done:
  assumes "fs_script fs = []" "authoritative store i g m fs"
  shows "\<exists>report. authority store i g fs = (Inr report, fs) \<and> oa_authoritative report \<and>
    oa_marker_digest report = cm_marker_digest m \<and> oa_movement_id report = cm_movement_id m"
proof -
  have m: "fs_lookup fs (commit_marker_path store i g) = Some (File (marker_bytes m))" "marker_for i g m"
    using assms(2) by (simp_all add: authoritative_def)
  show ?thesis
    using assms(2) read_commit_marker_done [OF assms(1) m] marker_for_stored [OF m(2)]
    by (simp add: authority_def Let_def ObjectAuthority_default_def object_size_contents authoritative_def
        object_present_def)
qed

section \<open>Writing a commit marker\<close>

definition sealed_marker :: "commit_marker \<Rightarrow> commit_marker" where
  "sealed_marker m = (if Digest_is_zero (cm_marker_digest m) then CommitMarker_seal m else m)"

definition marker_target :: "object_store_options \<Rightarrow> commit_marker \<Rightarrow> path" where
  "marker_target store m =
     commit_marker_path store (so_object_id (cm_object m)) (so_generation (cm_object m))"

lemma existing_marker_any:
  assumes "existing_marker p fs = (found, fs')"
  shows "fs_lookup fs' = fs_lookup fs"
proof -
  let ?block = "bind_io (FileHandle_open p False) (\<lambda>_. bind_io FileHandle_size (\<lambda>size.
      if size > 0 \<and> size \<le> 2 ^ 20
      then bind_io (FileHandle_read size) (\<lambda>buffer. return_io (if length buffer = size then Some buffer else None))
      else return_io None))"
  have "read_only ?block"
    by (intro read_only_intros)
  then show ?thesis
    using assms
    by (auto simp: existing_marker_def dest!: read_only_with_handle
        split: if_splits sum.splits option.splits prod.splits)
qed

lemma existing_marker_done:
  assumes "fs_script fs = []" "fs_lookup fs p = Some (File (marker_bytes m))" "commit_marker_wf m"
  shows "existing_marker p fs = (Some m, fs)"
proof -
  note len = length_marker_bytes [OF assms(3)]
  have "marker_file_decode (default_decoder (marker_bytes m)) 0 = Inr (m, length (marker_bytes m))"
    using marker_file_codec.round_trip [OF assms(3), of "default_decoder (marker_bytes m)" "[]" "[]"]
      default_decoder_ok [of "marker_bytes m"] len by simp
  then show ?thesis
    using assms len
    by (simp add: existing_marker_def with_handle_def bind_io_def io_simps is_file_def file_contents_def
        return_io_def fs_exists_def)
qed

lemma existing_marker_absent: "fs_lookup fs p = None \<Longrightarrow> p \<noteq> [] \<Longrightarrow> existing_marker p fs = (None, fs)"
  by (simp add: existing_marker_def fs_exists_def)

lemma marker_paths [simp]:
  "commit_marker_path store i g \<noteq> []" "\<not> prefix (commit_marker_path store i g) (butlast (commit_marker_path store i g))"
  "\<not> prefix (replace_temporary (commit_marker_path store i g)) (butlast (commit_marker_path store i g))"
  "replace_temporary (commit_marker_path store i g) \<noteq> commit_marker_path store i g"
  by (auto simp: commit_marker_path_def replace_temporary_def path_suffix_def butlast_append dest: prefix_length_le)

lemma sealed_marker_object [simp]:
  "cm_object (sealed_marker m) = cm_object m" "marker_target store (sealed_marker m) = marker_target store m"
  by (simp_all add: sealed_marker_def CommitMarker_seal_def marker_target_def)

lemma write_commit_marker_eq:
  assumes "marker_sealed (sealed_marker m)" "marker_valid (sealed_marker m)"
  shows "write_commit_marker store m fs =
    (case existing_marker (marker_target store m) fs of
       (Some old, fs) \<Rightarrow>
         if cm_marker_digest old = cm_marker_digest (sealed_marker m) then (Inr (), fs)
         else (err COMMIT_ALREADY_EXISTS ''a different commit marker already exists for this object version'', fs)
     | (None, fs) \<Rightarrow>
         let (error, fs) = fs_create_directories (butlast (marker_target store m)) fs
         in if error then (err STORE_IO_ERROR ''could not create the commit directory'', fs)
            else atomic_replace_file (marker_target store m) (marker_bytes (sealed_marker m)) (oso_sync_on_write store) fs)"
  using assms
  unfolding write_commit_marker_def Let_def sealed_marker_def [symmetric]
    marker_target_def [symmetric] marker_sealed_def
  by (simp only: sealed_marker_object) simp

text \<open>A marker is written once: a second one for the same version is accepted only if it has the same
  digest, and changes nothing.\<close>

lemma write_commit_marker_again:
  assumes "marker_sealed (sealed_marker m)" "marker_valid (sealed_marker m)" "fs_script fs = []"
    "fs_lookup fs (marker_target store m) = Some (File (marker_bytes old))" "commit_marker_wf old"
  shows "write_commit_marker store m fs =
    (if cm_marker_digest old = cm_marker_digest (sealed_marker m) then Inr ()
     else err COMMIT_ALREADY_EXISTS ''a different commit marker already exists for this object version'', fs)"
  using existing_marker_done [OF assms(3-5)] by (simp add: write_commit_marker_eq [OF assms(1,2)])

lemma write_commit_marker_new:
  assumes "marker_sealed (sealed_marker m)" "marker_valid (sealed_marker m)" "fs_script fs = []"
    "\<not> list_ex (is_file fs) (prefixes (butlast (marker_target store m)))"
    "fs_lookup fs (marker_target store m) = None" "fs_lookup fs (replace_temporary (marker_target store m)) = None"
  shows "\<exists>fs'. write_commit_marker store m fs = (Inr (), fs') \<and> fs_script fs' = [] \<and>
    fs_lookup fs' (marker_target store m) = Some (File (marker_bytes (sealed_marker m))) \<and>
    (\<forall>q. \<not> prefix q (marker_target store m) \<longrightarrow> fs_lookup fs' q = fs_lookup fs q)"
proof -
  let ?t = "marker_target store m"
  have t: "?t \<noteq> []" "\<not> prefix ?t (butlast ?t)" "\<not> prefix (replace_temporary ?t) (butlast ?t)"
    by (simp_all add: marker_target_def)
  obtain fs1 where created: "fs_create_directories (butlast ?t) fs = (False, fs1)" "fs_script fs1 = []"
    "fs_lookup fs1 = (\<lambda>q. if prefix q (butlast ?t) \<and> q \<noteq> [] then Some Directory else fs_lookup fs q)"
    using fs_create_directories_done [OF assms(3,4)] by blast
  have "is_directory fs1 (butlast ?t)" "fs_lookup fs1 ?t \<noteq> Some Directory" "fs_lookup fs1 (replace_temporary ?t) = None"
    using created(3) t assms(5,6) by (auto simp: is_directory_def)
  then obtain fs2 where replaced: "atomic_replace_file ?t (marker_bytes (sealed_marker m)) (oso_sync_on_write store) fs1 = (Inr (), fs2)"
    "fs_script fs2 = []" "fs_lookup fs2 = (fs_lookup fs1)(?t := Some (File (marker_bytes (sealed_marker m))))"
    using atomic_replace_file_done [OF created(2) t(1)] by blast
  have "write_commit_marker store m fs = (Inr (), fs2)"
    using created(1) replaced(1) existing_marker_absent [OF assms(5) t(1)]
    by (simp add: write_commit_marker_eq [OF assms(1,2)])
  moreover have "fs_lookup fs2 q = fs_lookup fs q" if "\<not> prefix q ?t" for q
    using that created(3) replaced(3) t(1) by (metis append_butlast_last_id fun_upd_other prefix_order.refl prefix_prefix)
  ultimately show ?thesis
    using replaced(2,3) by auto
qed

end
