(* ===== verification/SMF_Staging.thy ===== *)
theory SMF_Staging
  imports SMF_Object_Files
begin

text \<open>
  The staging writer. Its invariant says that the file starts with the verified bytes and that the
  running hash has absorbed exactly those; every operation keeps it, whichever system calls fail
  and whatever the peer sends. When no call fails, a whole object is received, published and
  found again.
\<close>

section \<open>Paths\<close>

lemma staging_paths [simp]:
  "staging_data_path store i \<noteq> staging_journal_path store k"
  "staging_data_path store i \<noteq> replace_temporary (staging_journal_path store k)"
  "\<not> prefix (staging_data_path store i) (staging_directory store k)"
  "prefix (staging_directory store i) (staging_data_path store i)"
  "staging_data_path store i \<noteq> []"
  by (auto simp: staging_data_path_def staging_journal_path_def staging_directory_def replace_temporary_def
      path_suffix_def dest: prefix_length_le)

lemma object_paths [simp]:
  "staging_data_path store i \<noteq> object_data_path store k g"
  "\<not> prefix (staging_data_path store i) (object_directory store k g)"
  "\<not> prefix (object_data_path store k g) (object_directory store k' g')"
  "\<not> prefix (staging_directory store i) (object_data_path store k g)"
  "object_data_path store k g \<noteq> []"
  by (auto simp: staging_data_path_def staging_directory_def object_data_path_def object_directory_def
      dest: prefix_length_le)

lemma save_journal_any:
  assumes "save_journal store j fs = (r, fs')"
  shows "fs_lookup fs' (staging_data_path store i) = fs_lookup fs (staging_data_path store i)"
proof -
  obtain e fs1 where created: "fs_create_directories (staging_directory store (sj_movement_id j)) fs = (e, fs1)"
    by fastforce
  have one: "fs_lookup fs1 (staging_data_path store i) = fs_lookup fs (staging_data_path store i)"
    using fs_create_directories_any [OF created] by simp
  show ?thesis
    using assms one created
      atomic_replace_file_others [of _ _ _ fs1 r fs' "staging_data_path store i"]
    by (auto simp: save_journal_def Let_def split: if_splits)
qed

section \<open>The invariant\<close>

abbreviation writer_path :: "staging_writer \<Rightarrow> path" where
  "writer_path w \<equiv> staging_data_path (sw_store w) (sj_movement_id (sw_journal w))"

abbreviation writer_object :: "staging_writer \<Rightarrow> state_object" where
  "writer_object w \<equiv> sj_object (sw_journal w)"

text \<open>The bytes the first \<open>n\<close> chunks of an object cover.\<close>

definition covered :: "state_object \<Rightarrow> nat \<Rightarrow> nat" where
  "covered d n = min (n * unat (so_chunk_bytes d)) (unat (so_total_bytes d))"

definition journal_covers :: "bool \<Rightarrow> staging_journal \<Rightarrow> bool" where
  "journal_covers journaling j \<longleftrightarrow> descriptor_valid (sj_object j) \<and>
     sj_verified_chunks j \<le> so_chunk_count (sj_object j) \<and>
     unat (sj_verified_bytes j) = covered (sj_object j) (unat (sj_verified_chunks j)) \<and>
     (journaling \<longrightarrow> length (sj_chunk_digests j) = unat (sj_verified_chunks j))"

definition writer_ok :: "staging_writer \<Rightarrow> file_system \<Rightarrow> bool" where
  "writer_ok w fs \<longleftrightarrow> sw_open w \<and> (\<exists>f. sw_file w = Some f \<and> hd_path f = writer_path w) \<and>
     is_file fs (writer_path w) \<and> journal_covers (sw_journaling w) (sw_journal w) \<and>
     unat (sj_verified_bytes (sw_journal w)) \<le> length (file_contents fs (writer_path w)) \<and>
     sha_absorbed (sw_running w)
       (take (unat (sj_verified_bytes (sw_journal w))) (file_contents fs (writer_path w)))"

text \<open>The staged file is never longer than the object.\<close>

definition within_object :: "staging_writer \<Rightarrow> file_system \<Rightarrow> bool" where
  "within_object w fs \<longleftrightarrow> length (file_contents fs (writer_path w)) \<le> unat (so_total_bytes (writer_object w))"

lemma covered_chunk:
  assumes "descriptor_valid d" "index < so_chunk_count d"
  shows "\<exists>offset len. chunk_offset d index = Inr offset \<and> chunk_length d index = Inr len \<and>
    unat offset = covered d (unat index) \<and> unat offset + unat len = covered d (Suc (unat index)) \<and> 0 < unat len"
proof -
  obtain offset where o: "chunk_offset d index = Inr offset" "unat offset = unat index * unat (so_chunk_bytes d)"
    "unat offset < unat (so_total_bytes d)"
    using chunk_offset_valid [OF assms] by blast
  obtain len where l: "chunk_length d index = Inr len"
    "unat len = min (unat (so_chunk_bytes d)) (unat (so_total_bytes d) - unat index * unat (so_chunk_bytes d))"
    using chunk_length_valid [OF assms] by blast
  have "0 < unat (so_chunk_bytes d)"
    using descriptor_sizes(2) [OF assms(1)] by linarith
  then have "unat offset = covered d (unat index) \<and> unat offset + unat len = covered d (Suc (unat index)) \<and> 0 < unat len"
    using o(2,3) l(2) by (auto simp: covered_def min_def)
  then show ?thesis
    using o(1) l(1) by blast
qed

lemma covered_le: "covered d n \<le> unat (so_total_bytes d)"
  by (simp add: covered_def)

lemma covered_all: "descriptor_valid d \<Longrightarrow> covered d (unat (so_chunk_count d)) = unat (so_total_bytes d)"
  using chunk_index_iff [of d "unat (so_chunk_count d)"] by (simp add: covered_def)

lemma covered_less_2: "descriptor_valid d \<Longrightarrow> covered d n < 9223372036854775808"
  using descriptor_sizes(1) [of d] covered_le [of d n] by linarith

text \<open>Moving the handle and touching bytes behind the verified prefix keep the invariant.\<close>

lemma writer_ok_frame:
  assumes "writer_ok w fs" "hd_path f' = writer_path w" "is_file fs' (writer_path w)"
    "unat (sj_verified_bytes (sw_journal w)) \<le> length (file_contents fs' (writer_path w))"
    "take (unat (sj_verified_bytes (sw_journal w))) (file_contents fs' (writer_path w)) =
     take (unat (sj_verified_bytes (sw_journal w))) (file_contents fs (writer_path w))"
  shows "writer_ok (w\<lparr>sw_file := Some f'\<rparr>) fs'"
  using assms by (simp add: writer_ok_def)

lemma same_file:
  "fs_lookup fs' p = fs_lookup fs p \<Longrightarrow> is_file fs' p = is_file fs p"
  "fs_lookup fs' p = fs_lookup fs p \<Longrightarrow> file_contents fs' p = file_contents fs p"
  by (simp_all add: is_file_def file_contents_def)

lemma writer_ok_same:
  "writer_ok w fs \<Longrightarrow> fs_lookup fs' (writer_path w) = fs_lookup fs (writer_path w) \<Longrightarrow> writer_ok w fs'"
  by (simp add: writer_ok_def is_file_def file_contents_def)

text \<open>An action that at most moves the position of its handle.\<close>

definition moves :: "(handle_world, 'a) io \<Rightarrow> bool" where
  "moves m \<longleftrightarrow> (\<forall>f fs r h' fs'. m (Some f, fs) = (r, (h', fs')) \<longrightarrow> (\<exists>k. h' = Some (f\<lparr>hd_position := k\<rparr>)))"

lemma on_staged_read_only:
  assumes "writer_ok w fs" "read_only m" "moves m"
    "on_staged m (w, fs) = (r, (w', fs'))"
  shows "writer_ok w' fs' \<and> (\<exists>f. w' = w\<lparr>sw_file := Some f\<rparr> \<and> hd_path f = writer_path w) \<and> fs_lookup fs' = fs_lookup fs"
proof -
  obtain f where f: "sw_file w = Some f" "hd_path f = writer_path w"
    using assms(1) by (auto simp: writer_ok_def)
  obtain h1 where run: "m (Some f, fs) = (r, (h1, fs'))" "w' = w\<lparr>sw_file := h1\<rparr>"
    using assms(4) f(1) by (auto simp: on_staged_def split: prod.splits)
  obtain k where k: "h1 = Some (f\<lparr>hd_position := k\<rparr>)"
    using assms(3) run(1) unfolding moves_def by blast
  have same: "fs_lookup fs' = fs_lookup fs"
    using assms(2) run(1) unfolding read_only_def by (metis snd_conv)
  have contents: "is_file fs' p = is_file fs p" "file_contents fs' p = file_contents fs p" for p
    using same_file same by metis+
  have "writer_ok (w\<lparr>sw_file := Some (f\<lparr>hd_position := k\<rparr>)\<rparr>) fs'"
    by (rule writer_ok_frame [OF assms(1)]) (use assms(1) f in \<open>simp_all add: contents writer_ok_def\<close>)
  then show ?thesis
    using run(2) k f same by auto
qed

section \<open>Appending a chunk\<close>

lemma moves_handle:
  "moves (FileHandle_seek n)" "moves (FileHandle_read n)" "moves FileHandle_sync"
proof -
  show "moves (FileHandle_seek n)"
    by (auto simp: moves_def FileHandle_seek_def on_system_def set_position_def
        split: prod.splits sum.splits if_splits) (metis file_handle.surjective file_handle.update_convs(2))+
  show "moves (FileHandle_read n)"
    unfolding moves_def using FileHandle_read_any(2) by blast
  show "moves FileHandle_sync"
    unfolding moves_def
    by (metis FileHandle_sync_lookup file_handle.surjective file_handle.update_convs(2) old.unit.exhaust)
qed

lemmas staged_read_only =
  on_staged_read_only [OF _ read_only_handle(4) moves_handle(1)]
  on_staged_read_only [OF _ read_only_handle(3) moves_handle(2)]
  on_staged_read_only [OF _ read_only_handle(5) moves_handle(3)]

lemma replay_chunk_any:
  assumes "writer_ok w fs" "replay_chunk index offset len dg (w, fs) = (r, (w', fs'))"
  shows "writer_ok w' fs' \<and> (\<exists>f. w' = w\<lparr>sw_file := Some f\<rparr>) \<and> fs_lookup fs' = fs_lookup fs"
proof -
  obtain f where f: "w = w\<lparr>sw_file := Some f\<rparr>"
    using assms(1) by (cases w) (auto simp: writer_ok_def)
  obtain r1 w1 fs1 where one: "on_staged (FileHandle_seek (unat offset)) (w, fs) = (r1, (w1, fs1))"
    by (metis prod.collapse)
  note ok1 = staged_read_only(1) [OF assms(1) one]
  obtain r2 w2 fs2 where two: "on_staged (FileHandle_read (unat len)) (w1, fs1) = (r2, (w2, fs2))"
    by (metis prod.collapse)
  note ok2 = staged_read_only(2) [OF conjunct1 [OF ok1] two]
  have w2: "\<exists>f. w2 = w\<lparr>sw_file := Some f\<rparr>" "fs_lookup fs2 = fs_lookup fs"
    using ok1 ok2 by auto
  consider "w' = w" "fs' = fs" | "w' = w1" "fs' = fs1" | "w' = w2" "fs' = fs2"
    using assms(2) one two
    by (cases r1; cases r2)
      (auto simp: replay_chunk_def Let_def bind_io_def fail_io_def return_io_def split: if_splits)
  then show ?thesis
    using assms(1) f ok1 ok2 w2 by cases auto
qed

text \<open>What no operation on an open writer changes.\<close>

definition same_transfer :: "staging_writer \<Rightarrow> staging_writer \<Rightarrow> bool" where
  "same_transfer w w' \<longleftrightarrow> sw_store w' = sw_store w \<and> sj_movement_id (sw_journal w') = sj_movement_id (sw_journal w) \<and>
     writer_object w' = writer_object w \<and> sw_journaling w' = sw_journaling w"

lemma same_transfer_simps [simp]:
  "same_transfer w w" "same_transfer w (w'\<lparr>sw_file := h\<rparr>) = same_transfer w w'"
  "same_transfer w (chunk_accepted len payload dg w)"
  by (simp_all add: same_transfer_def chunk_accepted_def Let_def)

lemma same_transfer_trans: "same_transfer w w' \<Longrightarrow> same_transfer w' w'' \<Longrightarrow> same_transfer w w''"
  by (simp add: same_transfer_def)

lemma chunk_accepted_ok:
  assumes "writer_ok w fs" "sj_verified_chunks (sw_journal w) < so_chunk_count (writer_object w)"
    "chunk_length (writer_object w) (sj_verified_chunks (sw_journal w)) = Inr len" "length payload = unat len"
    "take (unat (sj_verified_bytes (sw_journal w)) + unat len) (file_contents fs (writer_path w)) =
      take (unat (sj_verified_bytes (sw_journal w))) (file_contents fs (writer_path w)) @ payload"
  shows "writer_ok (chunk_accepted len payload dg w) fs"
proof -
  let ?j = "sw_journal w" and ?d = "writer_object w" and ?c = "file_contents fs (writer_path w)"
  let ?n = "unat (sj_verified_chunks ?j)" and ?b = "unat (sj_verified_bytes ?j)"
  have valid: "descriptor_valid ?d" "?b = covered ?d ?n"
    using assms(1) by (simp_all add: writer_ok_def journal_covers_def)
  then have sum: "?b + unat len = covered ?d (Suc ?n)"
    using covered_chunk [OF valid(1) assms(2)] assms(3) by auto
  have bytes: "unat (sj_verified_bytes ?j + len) = ?b + unat len"
    using sum covered_less_2 [OF valid(1), of "Suc ?n"] by (simp add: unat_word_ariths)
  have "?n < unat (so_chunk_count ?d)"
    using assms(2) by (simp add: word_less_nat_alt)
  moreover from this have "Suc ?n < 4294967296"
    using unat_u32_less [of "so_chunk_count ?d"] by linarith
  ultimately have chunks: "unat (sj_verified_chunks ?j + 1) = Suc ?n" "sj_verified_chunks ?j + 1 \<le> so_chunk_count ?d"
    by (simp_all add: unat_word_ariths word_le_nat_alt)
  have len: "?b + unat len \<le> length ?c"
    using arg_cong [OF assms(5), of length] assms(1,4) by (simp add: writer_ok_def min_def split: if_splits)
  have "sha_absorbed (Sha256_update (sw_running w) payload) (take (?b + unat len) ?c)"
    using sha_absorbed_update [of "sw_running w" "take ?b ?c" payload] assms(1,5) by (simp add: writer_ok_def)
  then show ?thesis
    using assms(1) sum bytes chunks len
    by (auto simp: writer_ok_def journal_covers_def chunk_accepted_def Let_def)
qed

lemma write_payload_any:
  assumes "writer_ok w fs" "on_staged (FileHandle_write payload) (w, fs) = (r, (w', fs'))"
    "sw_file w = Some f" "hd_position f = unat (sj_verified_bytes (sw_journal w))"
  shows "writer_ok w' fs' \<and> (\<exists>f. w' = w\<lparr>sw_file := Some f\<rparr>) \<and>
    (\<forall>p. p \<noteq> writer_path w \<longrightarrow> fs_lookup fs' p = fs_lookup fs p) \<and>
    length (file_contents fs' (writer_path w)) \<le>
      max (length (file_contents fs (writer_path w))) (unat (sj_verified_bytes (sw_journal w)) + length payload) \<and>
    take (unat (sj_verified_bytes (sw_journal w))) (file_contents fs' (writer_path w)) =
      take (unat (sj_verified_bytes (sw_journal w))) (file_contents fs (writer_path w)) \<and>
    (r = Inr () \<longrightarrow> take (unat (sj_verified_bytes (sw_journal w)) + length payload) (file_contents fs' (writer_path w)) =
      take (unat (sj_verified_bytes (sw_journal w))) (file_contents fs (writer_path w)) @ payload)"
proof -
  let ?b = "unat (sj_verified_bytes (sw_journal w))" and ?c = "file_contents fs (writer_path w)"
  have f: "hd_path f = writer_path w" "is_file fs (hd_path f)" "?b \<le> length ?c"
    using assms(1,3) by (auto simp: writer_ok_def)
  obtain h where run: "FileHandle_write payload (Some f, fs) = (r, (h, fs'))" "w' = w\<lparr>sw_file := h\<rparr>"
    using assms(2,3) by (auto simp: on_staged_def split: prod.splits)
  obtain n where n: "n \<le> length payload" "h = Some (f\<lparr>hd_position := hd_position f + n\<rparr>)"
    "is_file fs' (hd_path f)" "r = Inr () \<Longrightarrow> n = length payload"
    "file_contents fs' (hd_path f) = (if n = 0 then file_contents fs (hd_path f)
       else write_at (hd_position f) (take n payload) (file_contents fs (hd_path f)))"
    "\<And>p. p \<noteq> hd_path f \<Longrightarrow> fs_lookup fs' p = fs_lookup fs p"
    using FileHandle_write_any [OF run(1) f(2), of "()"] by metis
  have c': "file_contents fs' (writer_path w) = (if n = 0 then ?c else write_at ?b (take n payload) ?c)"
    using n(5) f(1) assms(4) by simp
  have prefix: "take ?b (file_contents fs' (writer_path w)) = take ?b ?c"
    using f(3) write_at_prefix [of ?b ?b ?c "take n payload"] by (simp add: c')
  have longer: "length ?c \<le> length (file_contents fs' (writer_path w))"
    "length (file_contents fs' (writer_path w)) \<le> max (length ?c) (?b + length payload)"
    using f(3) n(1) by (auto simp: c' length_write_at)
  have "writer_ok w' fs'"
    unfolding run(2) n(2)
    using longer(1) f n(3) prefix by (intro writer_ok_frame [OF assms(1)]) auto
  moreover have "take (?b + length payload) (file_contents fs' (writer_path w)) = take ?b ?c @ payload" if "r = Inr ()"
    using n(4) [OF that] f(3) write_at_written [of ?b ?c payload] by (simp add: c')
  ultimately show ?thesis
    using run(2) n(2,6) f(1) prefix longer(2) by auto
qed

lemma store_chunk_any:
  assumes "writer_ok w fs" "sj_verified_chunks (sw_journal w) < so_chunk_count (writer_object w)"
    "chunk_offset (writer_object w) (sj_verified_chunks (sw_journal w)) = Inr offset"
    "chunk_length (writer_object w) (sj_verified_chunks (sw_journal w)) = Inr len" "length payload = unat len"
    "store_chunk offset len payload dg (w, fs) = (r, (w', fs'))"
  shows "writer_ok w' fs' \<and> same_transfer w w' \<and> (within_object w fs \<longrightarrow> within_object w' fs') \<and>
    take (unat (sj_verified_bytes (sw_journal w))) (file_contents fs' (writer_path w)) =
      take (unat (sj_verified_bytes (sw_journal w))) (file_contents fs (writer_path w)) \<and>
    (r = Inr st \<longrightarrow> st = writer_state w' \<and>
      sj_verified_chunks (sw_journal w') = sj_verified_chunks (sw_journal w) + 1 \<and>
      take (unat (sj_verified_bytes (sw_journal w'))) (file_contents fs' (writer_path w)) =
        take (unat (sj_verified_bytes (sw_journal w))) (file_contents fs (writer_path w)) @ payload)"
proof -
  let ?b = "unat (sj_verified_bytes (sw_journal w))" and ?p = "writer_path w" and ?d = "writer_object w"
  have cover: "unat offset = ?b" "?b + unat len \<le> unat (so_total_bytes ?d)" "descriptor_valid ?d"
    using covered_chunk [of ?d "sj_verified_chunks (sw_journal w)"] assms(1-4)
      covered_le [of ?d "Suc (unat (sj_verified_chunks (sw_journal w)))"]
    by (auto simp: writer_ok_def journal_covers_def)
  obtain r1 w1 fs1 where one: "on_staged (FileHandle_seek (unat offset)) (w, fs) = (r1, (w1, fs1))"
    by (metis prod.collapse)
  obtain f1 where ok1: "writer_ok w1 fs1" "w1 = w\<lparr>sw_file := Some f1\<rparr>" "fs_lookup fs1 = fs_lookup fs"
    using staged_read_only(1) [OF assms(1) one] by blast
  have c1: "file_contents fs1 ?p = file_contents fs ?p"
    using ok1(3) by (simp add: file_contents_def)
  have pos: "hd_position f1 = ?b" if "r1 = Inr u" for u
  proof -
    obtain f where "sw_file w = Some f" using assms(1) by (auto simp: writer_ok_def)
    then show ?thesis
      using one FileHandle_seek_any [of "unat offset" f fs r1 "Some f1" fs1 u] that cover(1) ok1(2)
      by (cases w) (auto simp: on_staged_def split: prod.splits)
  qed
  show ?thesis
  proof (cases r1)
    case (Inl e)
    then have "r = Inl e" "w' = w1" "fs' = fs1"
      using assms(6) one by (auto simp: store_chunk_def bind_io_def)
    then show ?thesis
      using ok1 c1 by (simp add: within_object_def)
  next
    case (Inr u1)
    obtain r2 w2 fs2 where two: "on_staged (FileHandle_write payload) (w1, fs1) = (r2, (w2, fs2))"
      by (metis prod.collapse)
    have pos1: "hd_position f1 = unat (sj_verified_bytes (sw_journal w1))" "sw_file w1 = Some f1"
      using pos [OF Inr] ok1(2) by simp_all
    note written = write_payload_any [OF ok1(1) two pos1(2,1)]
    obtain f2 where ok2: "writer_ok w2 fs2" "w2 = w\<lparr>sw_file := Some f2\<rparr>"
      using written ok1(2) by auto
    have c2: "take ?b (file_contents fs2 ?p) = take ?b (file_contents fs ?p)"
      "length (file_contents fs2 ?p) \<le> max (length (file_contents fs ?p)) (?b + unat len)"
      using written ok1(2) c1 assms(5) by simp_all
    show ?thesis
    proof (cases r2)
      case (Inl e)
      then have "r = Inl e" "w' = w2" "fs' = fs2"
        using assms(6) one two Inr by (auto simp: store_chunk_def bind_io_def)
      then show ?thesis
        using ok2 c2 cover(2) by (auto simp: within_object_def)
    next
      case done2: (Inr u2)
      have all: "take (?b + unat len) (file_contents fs2 ?p) = take ?b (file_contents fs ?p) @ payload"
        using written done2 ok1(2) c1 assms(5) by simp
      let ?sync = "if oso_sync_on_write (sw_store w) then on_staged FileHandle_sync else return_io ()"
      obtain r3 w3 fs3 where three: "?sync (w2, fs2) = (r3, (w3, fs3))"
        by (metis prod.collapse)
      obtain f3 where ok3: "writer_ok w3 fs3" "w3 = w\<lparr>sw_file := Some f3\<rparr>" "fs_lookup fs3 = fs_lookup fs2"
        using staged_read_only(3) [OF ok2(1), of r3 w3 fs3] three ok2 by (auto simp: return_io_def split: if_splits)
      have c3: "file_contents fs3 ?p = file_contents fs2 ?p"
        using ok3(3) by (simp add: file_contents_def)
      let ?w4 = "chunk_accepted len payload dg w3"
      have ok4: "writer_ok ?w4 fs3"
        using assms(2,4,5) all c2 c3 ok3(2) by (intro chunk_accepted_ok [OF ok3(1)]) simp_all
      obtain r5 fs5 where save: "save_journal (sw_store ?w4) (sw_journal ?w4) fs3 = (r5, fs5)" by fastforce
      have keep: "fs_lookup fs5 ?p = fs_lookup fs3 ?p"
        using save_journal_any [OF save, of "sj_movement_id (sw_journal w)"] ok3(2)
        by (simp add: chunk_accepted_def Let_def)
      have sum: "unat (sj_verified_bytes (sw_journal ?w4)) = ?b + unat len" "writer_path ?w4 = ?p"
        using cover(2) descriptor_sizes(1) [OF cover(3)] ok3(2)
        by (simp_all add: chunk_accepted_def Let_def unat_word_ariths)
      have ok5: "writer_ok ?w4 fs5" "file_contents fs5 ?p = file_contents fs2 ?p"
        using writer_ok_same [OF ok4, of fs5] keep c3 sum(2) by (simp_all add: file_contents_def)
      consider s where "r = Inl s" "w' = w3" "fs' = fs3"
        | s where "r = Inl s" "w' = ?w4" "fs' = fs5"
        | "r = Inr (writer_state ?w4)" "w' = ?w4" "fs' \<in> {fs3, fs5}"
      proof -
        have "store_chunk offset len payload dg (w, fs) =
          (case r3 of Inl s \<Rightarrow> (Inl s, (w3, fs3)) | Inr _ \<Rightarrow>
             if sw_journaling ?w4
             then (case r5 of Inl s \<Rightarrow> (Inl s, (?w4, fs5)) | Inr _ \<Rightarrow> (Inr (writer_state ?w4), (?w4, fs5)))
             else (Inr (writer_state ?w4), (?w4, fs3)))"
          by (simp add: store_chunk_def bind_io_def one two three Inr done2 modify_writer_def save split: sum.split)
        then show thesis
          using assms(6) that by (simp split: sum.splits if_splits)
      qed
      then show ?thesis
        using ok3 ok4 ok5 c2 c3 all sum cover(2)
        by cases (auto simp: within_object_def same_transfer_def chunk_accepted_def Let_def)
    qed
  qed
qed

lemma StagingWriter_append_any:
  assumes "writer_ok w fs" "StagingWriter_append index offset payload dg (w, fs) = (r, (w', fs'))"
  shows "writer_ok w' fs' \<and> same_transfer w w' \<and> (within_object w fs \<longrightarrow> within_object w' fs')"
proof -
  let ?d = "writer_object w" and ?n = "sj_verified_chunks (sw_journal w)"
  consider "w' = w" "fs' = fs"
    | len where "replay_chunk index offset len dg (w, fs) = (r, (w', fs'))"
    | len where "index = ?n" "?n < so_chunk_count ?d" "chunk_offset ?d ?n = Inr offset"
        "chunk_length ?d ?n = Inr len" "length payload = unat len" "store_chunk offset len payload dg (w, fs) = (r, (w', fs'))"
    using assms(2) unfolding StagingWriter_append_def
    by (auto simp: Let_def not_le split: if_splits sum.splits)
  then show ?thesis
  proof cases
    case 1
    then show ?thesis using assms(1) by simp
  next
    case 2
    then obtain f where "writer_ok w' fs'" "w' = w\<lparr>sw_file := Some f\<rparr>" "fs_lookup fs' = fs_lookup fs"
      using replay_chunk_any [OF assms(1)] by blast
    then show ?thesis
      by (simp add: within_object_def file_contents_def)
  next
    case 3
    then show ?thesis using store_chunk_any [OF assms(1) 3(2-6)] by blast
  qed
qed

text \<open>A writer in use: any number of chunks, whatever they carry and whatever calls fail.\<close>

inductive writer_run :: "writer_world \<Rightarrow> writer_world \<Rightarrow> bool" where
  writer_run_refl: "writer_run s s"
| writer_run_append: "writer_run s (w, fs) \<Longrightarrow> StagingWriter_append index offset payload dg (w, fs) = (r, s') \<Longrightarrow>
    writer_run s s'"

lemma writer_run_ok:
  assumes "writer_run (w, fs) (w', fs')" "writer_ok w fs"
  shows "writer_ok w' fs' \<and> same_transfer w w' \<and> (within_object w fs \<longrightarrow> within_object w' fs')"
  using assms
proof (induction "(w, fs)" "(w', fs')" arbitrary: w' fs' rule: writer_run.induct)
  case (writer_run_append w1 fs1 index offset payload dg r)
  then show ?case
    using StagingWriter_append_any same_transfer_trans by blast
qed simp

section \<open>Finishing and publishing\<close>

lemma StagingWriter_finish_okD:
  assumes "writer_ok w fs" "StagingWriter_finish (w, fs) = (Inr d, (w', fs'))"
  shows "fs_lookup fs' = fs_lookup fs" "sw_completed w'" "same_transfer w w'"
    "d = sha256 (take (unat (so_total_bytes (writer_object w))) (file_contents fs (writer_path w)))"
    "unat (so_total_bytes (writer_object w)) \<le> length (file_contents fs (writer_path w))"
proof -
  let ?b = "sj_verified_bytes (sw_journal w)"
  have all: "?b = so_total_bytes (writer_object w)"
    using assms(2) by (auto simp: StagingWriter_finish_def Let_def split: if_splits)
  have hash: "Sha256_finalize (sw_running w) = (sha256 (take (unat ?b) (file_contents fs (writer_path w))), Sha256_reset)"
    using assms(1) Sha256_finalize_absorbed by (simp add: writer_ok_def sha256_eq_reference)
  obtain u w1 where sync: "on_staged FileHandle_sync (w\<lparr>sw_running := Sha256_reset\<rparr>, fs) = (Inr u, (w1, fs'))"
    "w' = (close_staged w1)\<lparr>sw_completed := True\<rparr>"
    "d = sha256 (take (unat ?b) (file_contents fs (writer_path w)))"
    using assms(2) unfolding StagingWriter_finish_def
    by (auto simp: Let_def hash bind_io_Inr_iff modify_writer_def return_io_def split: if_splits)
  then show "fs_lookup fs' = fs_lookup fs" "sw_completed w'" "same_transfer w w'"
    using FileHandle_sync_lookup
    by (auto simp: on_staged_def close_staged_def same_transfer_def split: prod.splits)
  show "d = sha256 (take (unat (so_total_bytes (writer_object w))) (file_contents fs (writer_path w)))"
    "unat (so_total_bytes (writer_object w)) \<le> length (file_contents fs (writer_path w))"
    using sync(3) all assms(1) by (simp_all add: writer_ok_def)
qed

lemma promote_staging_okD:
  assumes "promote_staging store i object fs = (Inr u, fs')" "fs_lookup fs (staging_data_path store i) = Some (File b)"
  shows "fs_lookup fs' (object_data_path store (so_object_id object) (so_generation object)) = Some (File b)"
proof -
  let ?s = "staging_data_path store i" and ?t = "object_data_path store (so_object_id object) (so_generation object)"
  let ?dir = "object_directory store (so_object_id object) (so_generation object)"
  let ?sync = "if oso_sync_on_write store then sync_existing_file ?t else return_io ()"
  obtain e1 fs1 where created: "fs_create_directories ?dir fs = (e1, fs1)" by fastforce
  obtain e2 fs2 where cleared: "(if fs_exists fs1 ?t then fs_remove ?t fs1 else (False, fs1)) = (e2, fs2)" by fastforce
  obtain e3 fs3 where renamed: "fs_rename ?s ?t fs2 = (e3, fs3)" by fastforce
  obtain r4 fs4 where synced: "?sync fs3 = (r4, fs4)" by fastforce
  obtain e5 fs5 where removed: "fs_remove_all (staging_directory store i) fs4 = (e5, fs5)" by fastforce
  have ok: "\<not> e1" "\<not> e2" "\<not> e3" "fs' = fs5"
    using assms(1) unfolding promote_staging_def Let_def bind_io_def created cleared renamed prod.case synced
    by (auto simp: cleared renamed synced removed split: if_splits sum.splits)
  have one: "fs_lookup fs1 ?s = Some (File b)"
    using fs_create_directories_any [OF created] assms(2) by simp
  have two: "fs_lookup fs2 ?s = Some (File b)"
    using cleared one fs_remove_lookup [of ?t fs1 e2 fs2 ?s] by (auto split: if_splits)
  have three: "fs_lookup fs3 ?t = Some (File b)"
    using fs_rename_file [OF renamed two] ok(3) by simp
  have four: "fs_lookup fs4 = fs_lookup fs3"
    using synced
    by (auto simp: sync_existing_file_def return_io_def Let_def dest!: os_outcome_lookup os_call_lookup
        split: if_splits prod.splits)
  show ?thesis
    using fs_remove_all_any [OF removed] three four ok(4) by simp
qed

section \<open>Beginning\<close>

lemma rehash_prefix_any:
  assumes "descriptor_valid d" "index + n \<le> unat (so_chunk_count d)" "hd_position f = covered d index"
    "covered d index \<le> length (file_contents fs (hd_path f))"
    "sha_absorbed running (take (covered d index) (file_contents fs (hd_path f)))"
    "rehash_prefix d digests n index offset running (Some f, fs) = (r, (h', fs'))"
  shows "fs_lookup fs' = fs_lookup fs \<and> (r = Inr running' \<longrightarrow> (\<exists>k. h' = Some (f\<lparr>hd_position := k\<rparr>)) \<and>
    covered d (index + n) \<le> length (file_contents fs (hd_path f)) \<and>
    sha_absorbed running' (take (covered d (index + n)) (file_contents fs (hd_path f))))"
  using assms(2-6)
proof (induction n arbitrary: index offset running f fs)
  case 0
  then show ?case
    by (cases f) (auto simp: return_io_def)
next
  case (Suc n)
  let ?i = "word_of_nat index :: u32" and ?c = "file_contents fs (hd_path f)"
  have "index < 4294967296"
    using Suc.prems(1) unat_u32_less [of "so_chunk_count d"] by linarith
  then have i: "unat ?i = index" "?i < so_chunk_count d"
    using Suc.prems(1) by (simp_all add: unat_word_of_nat_u32 word_less_nat_alt)
  then obtain len where len: "chunk_length d ?i = Inr len" "covered d index + unat len = covered d (Suc index)" "0 < unat len"
    using covered_chunk [OF assms(1) i(2)] by auto
  obtain r1 h1 fs1 where read: "FileHandle_read (unat len) (Some f, fs) = (r1, (h1, fs1))"
    by (metis prod.collapse)
  note any = FileHandle_read_any [OF read]
  let ?rest = "\<lambda>data. if length data \<noteq> unat len
      then fail_io RESUME_INCOMPATIBLE ''the staged file ended inside the verified prefix''
      else if compute_chunk_digest (so_object_id d) (so_generation d) ?i offset len data \<noteq> digests ! index
      then fail_io RESUME_INCOMPATIBLE ''the staged bytes do not match the journalled chunk digest''
      else rehash_prefix d digests n (index + 1) (offset + len) (Sha256_update running data)"
  have run: "bind_io (FileHandle_read (unat len)) ?rest (Some f, fs) = (r, (h', fs'))"
    using Suc.prems(5) len by (auto simp: unat_eq_0 split: if_splits)
  show ?case
  proof (cases "\<exists>data. r1 = Inr data \<and> length data = unat len \<and>
      compute_chunk_digest (so_object_id d) (so_generation d) ?i offset len data = digests ! index")
    case False
    then have "fs' = fs1 \<and> (\<exists>e. r = Inl e)"
      using run read by (cases r1) (auto simp: bind_io_def fail_io_def split: if_splits)
    then show ?thesis using any(1) by auto
  next
    case True
    then obtain data where data: "r1 = Inr data" "length data = unat len"
      "rehash_prefix d digests n (index + 1) (offset + len) (Sha256_update running data) (h1, fs1) = (r, (h', fs'))"
      using run read by (auto simp: bind_io_def)
    obtain f0 where "Some f = Some f0" "h1 = Some (f0\<lparr>hd_position := hd_position f0 + length data\<rparr>)"
      using read unfolding data(1) by (rule FileHandle_read_okD)
    then obtain f1 where f1: "h1 = Some f1" "hd_path f1 = hd_path f" "hd_position f1 = covered d (Suc index)"
      "f1 = f\<lparr>hd_position := hd_position f1\<rparr>"
      using data(2) Suc.prems(2) len(2) by simp
    have c1: "file_contents fs1 (hd_path f1) = ?c"
      using any(1) f1(2) by (simp add: file_contents_def)
    have slice: "data = take (unat len) (drop (covered d index) ?c)"
      using any(3) [OF data(1)] Suc.prems(2) by simp
    have "unat len \<le> length ?c - covered d index"
      using arg_cong [OF slice, of length] data(2) by simp
    then have prefix: "take (covered d (Suc index)) ?c = take (covered d index) ?c @ data" "covered d (Suc index) \<le> length ?c"
      using slice len(2,3) Suc.prems(3) by (simp_all add: take_add flip: len(2))
    have "sha_absorbed (Sha256_update running data) (take (covered d (index + 1)) ?c)"
      using sha_absorbed_update [OF Suc.prems(4), of data] prefix(1) by simp
    then have "fs_lookup fs' = fs_lookup fs1 \<and> (r = Inr running' \<longrightarrow> (\<exists>k. h' = Some (f1\<lparr>hd_position := k\<rparr>)) \<and>
        covered d (index + 1 + n) \<le> length (file_contents fs1 (hd_path f1)) \<and>
        sha_absorbed running' (take (covered d (index + 1 + n)) (file_contents fs1 (hd_path f1))))"
      using Suc.prems(1) data(3) f1(1,3) prefix(2) by (intro Suc.IH) (simp_all add: c1)
    moreover have "f1\<lparr>hd_position := k\<rparr> = f\<lparr>hd_position := k\<rparr>" for k
      by (subst f1(4)) simp
    ultimately show ?thesis
      using any(1) by (simp add: c1)
  qed
qed

lemma resume_staged_any:
  assumes "journal_covers True j" "descriptor_valid d" "same_version d (sj_object j)"
    "resume_staged p d j (None, fs) = (r, (h', fs'))"
  shows "(\<forall>q. q \<noteq> p \<longrightarrow> fs_lookup fs' q = fs_lookup fs q) \<and> (r = Inr running \<longrightarrow>
    (\<exists>f. h' = Some f \<and> hd_path f = p) \<and> is_file fs' p \<and>
    length (file_contents fs' p) \<le> length (file_contents fs p) \<and>
    unat (sj_verified_bytes j) \<le> length (file_contents fs' p) \<and>
    sha_absorbed running (take (unat (sj_verified_bytes j)) (file_contents fs' p)))"
proof -
  let ?f = "\<lparr>hd_path = p, hd_position = 0\<rparr>" and ?n = "unat (sj_verified_chunks j)"
  have cov: "unat (sj_verified_bytes j) = covered d ?n" "?n \<le> unat (so_chunk_count d)"
    using assms(1,3)
    by (simp_all add: journal_covers_def covered_def same_version_def word_le_nat_alt)
  obtain r1 h1 fs1 where one: "FileHandle_open p True (None, fs) = (r1, (h1, fs1))"
    by (metis prod.collapse)
  show ?thesis
  proof (cases r1)
    case (Inl e)
    moreover have "fs_lookup fs1 q = fs_lookup fs q" if "q \<noteq> p" for q
      using avoidsD [OF avoids_open [OF that] _ one] by simp
    ultimately show ?thesis
      using assms(4) one by (auto simp: resume_staged_def bind_io_def)
  next
    case (Inr u)
    note opened = FileHandle_open_write_any [OF one [unfolded Inr]]
    obtain r2 h2 fs2 where two: "try_io FileHandle_size (Some ?f, fs1) = (Inr r2, (h2, fs2))"
      by (metis prod.collapse try_io_def case_prod_conv)
    then have size: "h2 = Some ?f" "fs_lookup fs2 = fs_lookup fs1"
      using FileHandle_size_any(1,2) by (auto simp: try_io_def split: prod.splits)
    obtain r3 h3 fs3 where three: "FileHandle_seek 0 (Some ?f, fs2) = (r3, (h3, fs3))"
      by (metis prod.collapse)
    obtain f3 where seek: "h3 = Some f3" "hd_path f3 = p" "r3 = Inr () \<Longrightarrow> hd_position f3 = 0" "fs_lookup fs3 = fs_lookup fs2"
      using FileHandle_seek_any [OF three, of "()"] by auto
    let ?rest = "rehash_prefix d (sj_chunk_digests j) ?n 0 0 Sha256_reset"
    consider e where "r = Inl e" "fs' \<in> {fs2, fs3}" | "r3 = Inr ()" "?rest (Some f3, fs3) = (r, (h', fs'))"
      using assms(4) one two three Inr opened(1) size(1) seek(1)
      by (cases r2; cases r3) (auto simp: resume_staged_def bind_io_def fail_io_def split: if_splits)
    then show ?thesis
    proof cases
      case 1
      then show ?thesis using opened(4) size(2) seek(4) by auto
    next
      case 2
      have "fs_lookup fs' = fs_lookup fs3 \<and> (r = Inr running \<longrightarrow> (\<exists>k. h' = Some (f3\<lparr>hd_position := k\<rparr>)) \<and>
          covered d (0 + ?n) \<le> length (file_contents fs3 (hd_path f3)) \<and>
          sha_absorbed running (take (covered d (0 + ?n)) (file_contents fs3 (hd_path f3))))"
        using 2 seek(3) cov(2) by (intro rehash_prefix_any [OF assms(2)]) (auto simp: covered_def)
      moreover have "length (file_contents fs3 p) \<le> length (file_contents fs p)" "is_file fs3 p"
        using opened(2,3) size(2) seek(4) by (auto simp: file_contents_def is_file_def)
      ultimately show ?thesis
        using opened(4) size(2) seek(2,4) cov(1) same_file [of fs' p fs3] by auto
    qed
  qed
qed

lemma FileHandle_truncate_okD:
  assumes "FileHandle_truncate_at n (Some f, fs) = (Inr u, (h', fs'))" "is_file fs (hd_path f)"
  shows "\<exists>f'. h' = Some f' \<and> hd_path f' = hd_path f" "is_file fs' (hd_path f)"
    "file_contents fs' (hd_path f) = resize n (file_contents fs (hd_path f))"
proof -
  obtain u1 h1 fs1 u2 h2 fs2 where
    one: "on_system (os_call ''flush before truncate failed'') (Some f, fs) = (Inr u1, (h1, fs1))" and
    two: "on_system (os_call ''truncate failed'') (h1, fs1) = (Inr u2, (h2, fs2))" and
    seek: "FileHandle_seek n (h2, set_contents (hd_path f) (resize n (file_contents fs2 (hd_path f))) fs2) = (Inr u, (h', fs'))"
    using assms(1) by (auto simp: FileHandle_truncate_at_def bind_io_Inr_iff)
  have h: "h2 = Some f" "fs_lookup fs2 = fs_lookup fs"
    using os_call_any [OF one] os_call_any [OF two] by auto
  obtain f' where f': "h' = Some f'" "hd_path f' = hd_path f"
    "fs_lookup fs' = fs_lookup (set_contents (hd_path f) (resize n (file_contents fs2 (hd_path f))) fs2)"
    using FileHandle_seek_any [OF seek [unfolded h(1)]] by blast
  then show "\<exists>f'. h' = Some f' \<and> hd_path f' = hd_path f" "is_file fs' (hd_path f)"
    "file_contents fs' (hd_path f) = resize n (file_contents fs (hd_path f))"
    using assms(2) h(2) by (auto simp: is_file_def file_contents_def)
qed

lemma start_staged_any:
  assumes "start_staged store journaling j (None, fs) = (r, (h', fs'))"
  defines "p \<equiv> staging_data_path store (sj_movement_id j)"
  shows "r = Inr running \<Longrightarrow> (\<exists>f. h' = Some f \<and> hd_path f = p) \<and> is_file fs' p \<and>
    file_contents fs' p = [] \<and> running = Sha256_reset"
proof -
  assume r: "r = Inr running"
  obtain u1 h1 fs1 u2 h2 fs2 u3 where
    one: "FileHandle_open p True (None, fs) = (Inr u1, (h1, fs1))" and
    two: "FileHandle_truncate_at 0 (h1, fs1) = (Inr u2, (h2, fs2))" and
    three: "(if journaling then on_system (save_journal store j) else return_io ()) (h2, fs2) = (Inr u3, (h', fs'))" and
    running: "running = Sha256_reset"
    using assms(1) r by (auto simp: start_staged_def bind_io_Inr_iff return_io_def p_def)
  note opened = FileHandle_open_write_any [OF one]
  have "\<exists>f. h2 = Some f \<and> hd_path f = p" "is_file fs2 p" "file_contents fs2 p = []"
    using FileHandle_truncate_okD [of 0 "\<lparr>hd_path = p, hd_position = 0\<rparr>" fs1 u2 h2 fs2] two opened(1,2)
    by (simp_all add: resize_def)
  moreover have "h' = h2 \<and> fs_lookup fs' p = fs_lookup fs2 p"
    using three save_journal_any unfolding p_def
    by (auto simp: return_io_def on_system_def split: if_splits prod.splits)
  ultimately show ?thesis
    using running by (auto simp: is_file_def file_contents_def)
qed

lemma journal_wf_covers:
  assumes "journal_wf j"
  shows "journal_covers True j"
proof -
  have v: "descriptor_valid (sj_object j)" "sj_verified_chunks j \<le> so_chunk_count (sj_object j)"
    "length (sj_chunk_digests j) = unat (sj_verified_chunks j)"
    using assms by (auto simp: journal_wf_def StagingJournal_validate_def not_less split: if_splits)
  then obtain b where b: "journal_expected_bytes (sj_object j) (unat (sj_verified_chunks j)) = Inr b"
    "unat b = covered (sj_object j) (unat (sj_verified_chunks j))"
    using ResumeState_expected_bytes_valid [OF v(1), of "unat (sj_verified_chunks j)"]
    by (auto simp: journal_expected_bytes_eq covered_def word_le_nat_alt)
  then have "b = sj_verified_bytes j"
    using assms v by (simp add: journal_wf_def StagingJournal_validate_def split: if_splits)
  then show ?thesis
    using v b(2) by (simp add: journal_covers_def)
qed

lemma stored_progress_any:
  assumes "stored_progress store i object fs = (found, fs')"
  shows "fs_lookup fs' = fs_lookup fs"
    "found = Some j \<Longrightarrow> journal_wf j \<and> sj_movement_id j = i \<and> same_version object (sj_object j)"
proof -
  obtain r fs1 where load: "load_journal store i fs = (r, fs1)" by fastforce
  show "fs_lookup fs' = fs_lookup fs"
    "found = Some j \<Longrightarrow> journal_wf j \<and> sj_movement_id j = i \<and> same_version object (sj_object j)"
    using assms load load_journal_any [OF load]
    by (auto simp: stored_progress_def check_resume_compatible_iff split: sum.splits if_splits)
qed

lemma StagingWriter_begin_okD:
  assumes "StagingWriter_begin store i g attempt object fs = (Inr w, fs')"
  shows "writer_ok w fs'" "sw_store w = store" "sj_movement_id (sw_journal w) = i"
    "same_version object (writer_object w)"
    "length (file_contents fs (staging_data_path store i)) \<le> unat (so_total_bytes object) \<Longrightarrow> within_object w fs'"
proof -
  let ?p = "staging_data_path store i"
  let ?journaling = "oso_allow_resume store \<and> unat (so_chunk_count object) \<le> 65536"
  have valid: "descriptor_valid object"
    using assms by (auto simp: StagingWriter_begin_def Let_def split: if_splits)
  obtain e1 fs1 where created: "fs_create_directories (staging_directory store i) fs = (e1, fs1)" by fastforce
  have c1: "file_contents fs1 ?p = file_contents fs ?p"
    using fs_create_directories_any [OF created, of ?p] by (simp add: file_contents_def)
  obtain found fs2 where found: "(if ?journaling then stored_progress store i object fs1 else (None, fs1)) = (found, fs2)"
    by fastforce
  have c2: "fs_lookup fs2 = fs_lookup fs1"
    using found stored_progress_any(1) by (auto split: if_splits)
  have "writer_ok w fs' \<and> sw_store w = store \<and> sj_movement_id (sw_journal w) = i \<and> same_version object (writer_object w) \<and>
    (length (file_contents fs ?p) \<le> unat (so_total_bytes object) \<longrightarrow> within_object w fs')"
  proof (cases found)
    case (Some stored)
    then have prog: "?journaling" "journal_wf stored" "sj_movement_id stored = i" "same_version object (sj_object stored)"
      using found stored_progress_any(2) by (auto split: if_splits)
    let ?j = "stored\<lparr>sj_movement_generation := g, sj_attempt := attempt\<rparr>"
    have cov: "journal_covers True ?j"
      using journal_wf_covers [OF prog(2)] by (simp add: journal_covers_def)
    obtain r h fs3 where run: "resume_staged ?p object ?j (None, fs2) = (r, (h, fs3))"
      by (metis prod.collapse)
    obtain running where res: "r = Inr running" "fs' = fs3" "w = \<lparr>sw_store = store, sw_file = h, sw_journal = ?j,
        sw_running = running, sw_journaling = True, sw_open = True, sw_completed = False, sw_finalized = False\<rparr>"
      using assms valid created found Some run prog(1)
      by (auto simp: StagingWriter_begin_def Let_def opened_writer_def split: if_splits sum.splits)
    have total: "so_total_bytes (sj_object stored) = so_total_bytes object"
      using prog(4) by (simp add: same_version_def)
    show ?thesis
      using resume_staged_any [OF cov valid _ run, of running] res prog cov total c1 c2
      by (auto simp: writer_ok_def within_object_def file_contents_def)
  next
    case None
    let ?j = "\<lparr>sj_movement_id = i, sj_movement_generation = g, sj_attempt = attempt, sj_object = object,
       sj_verified_chunks = 0, sj_verified_bytes = 0, sj_chunk_digests = []\<rparr>"
    have cov: "journal_covers ?journaling ?j"
      using valid by (simp add: journal_covers_def covered_def)
    obtain fs3 where fs3: "opened_writer store ?journaling ?j (start_staged store ?journaling ?j) fs3 = (Inr w, fs')"
      using assms valid created found None
      by (auto simp: StagingWriter_begin_def Let_def bind_io_Inr_iff split: if_splits prod.splits)
    obtain r h fs4 where run: "start_staged store ?journaling ?j (None, fs3) = (r, (h, fs4))"
      by (metis prod.collapse)
    obtain running where res: "r = Inr running" "fs' = fs4" "w = \<lparr>sw_store = store, sw_file = h, sw_journal = ?j,
        sw_running = running, sw_journaling = ?journaling, sw_open = True, sw_completed = False, sw_finalized = False\<rparr>"
      using fs3 run by (auto simp: opened_writer_def split: sum.splits)
    show ?thesis
      using start_staged_any [OF run res(1)] res cov
      by (auto simp: writer_ok_def within_object_def same_version_def same_object_def)
  qed
  then show "writer_ok w fs'" "sw_store w = store" "sj_movement_id (sw_journal w) = i"
    "same_version object (writer_object w)"
    "length (file_contents fs ?p) \<le> unat (so_total_bytes object) \<Longrightarrow> within_object w fs'"
    by auto
qed

end
