(* ===== verification/SMF_Placement.thy ===== *)
theory SMF_Placement
  imports SMF_Staging
begin

text \<open>
  Placing an object when no system call fails: the chunks of any content are received, the digest
  is that of the content, the bytes are published, the marker is written, and the store then
  reports authority over exactly these bytes. Reading an object back is sound whatever fails.
\<close>

section \<open>Hashing a placed object\<close>

lemma digest_loop_any:
  assumes "sha_absorbed hasher (take (hd_position f) (file_contents fs (hd_path f)))"
    "hd_position f \<le> length (file_contents fs (hd_path f))" "bytes_read = word_of_nat (hd_position f)"
    "digest_loop hasher bytes_read (Some f, fs) = (r, (h', fs'))"
  shows "fs_lookup fs' = fs_lookup fs \<and> (r = Inr (hasher', n) \<longrightarrow>
    sha_absorbed hasher' (file_contents fs (hd_path f)) \<and> n = word_of_nat (length (file_contents fs (hd_path f))))"
  using assms
proof (induction hasher bytes_read "(Some f, fs)" arbitrary: f fs rule: digest_loop.induct)
  case (1 hasher bytes_read f fs)
  let ?c = "file_contents fs (hd_path f)"
  obtain r1 h1 fs1 where read: "FileHandle_read 262144 (Some f, fs) = (r1, (h1, fs1))"
    by (metis prod.collapse)
  show ?case
  proof (cases r1)
    case (Inl e)
    then show ?thesis
      using "1.prems"(4) read FileHandle_read_any(1) [OF read] by (subst (asm) digest_loop.simps) auto
  next
    case (Inr data)
    obtain f0 where f0: "Some f = Some f0" "h1 = Some (f0\<lparr>hd_position := hd_position f0 + length data\<rparr>)"
      "fs_lookup fs1 = fs_lookup fs" "data = take (length data) (drop (hd_position f0) (file_contents fs (hd_path f0)))"
      "length data < 262144 \<Longrightarrow> data = drop (hd_position f0) (file_contents fs (hd_path f0))"
      using read unfolding Inr by (rule FileHandle_read_okD) blast
    let ?f1 = "f\<lparr>hd_position := hd_position f + length data\<rparr>"
    have c1: "file_contents fs1 (hd_path f) = ?c"
      using f0(3) by (simp add: file_contents_def)
    have short: "data = drop (hd_position f) ?c" if "length data < 262144"
      using f0(1,5) that by simp
    have len: "hd_position f + length data \<le> length ?c"
      using arg_cong [OF f0(4), of length] f0(1) "1.prems"(2) by simp
    have abs: "sha_absorbed (Sha256_update hasher data) (take (hd_position f + length data) ?c)"
      using sha_absorbed_update [OF "1.prems"(1), of data] f0(1,4) by (simp add: take_add)
    show ?thesis
    proof (cases "length data < 262144")
      case True
      then have all: "hd_position f + length data = length ?c"
        using short "1.prems"(2) by simp
      show ?thesis
      proof (cases "data = []")
        case True
        then have "hd_position f = length ?c" using all by simp
        then show ?thesis
          using "1.prems" read Inr True f0(3) by (subst (asm) digest_loop.simps) auto
      next
        case False
        then have "r = Inr (Sha256_update hasher data, bytes_read + word_of_nat (length data)) \<and> fs' = fs1"
          using "1.prems"(4) read Inr True by (subst (asm) digest_loop.simps) (simp add: Let_def)
        then show ?thesis
          using abs all "1.prems"(3) f0(3) by (auto simp flip: of_nat_add)
      qed
    next
      case False
      then have ne: "data \<noteq> []" by auto
      have read': "(Inr data, Some ?f1, fs1) = FileHandle_read 262144 (Some f, fs)"
        using read Inr f0(1,2) by simp
      have "digest_loop (Sha256_update hasher data) (bytes_read + word_of_nat (length data)) (Some ?f1, fs1) = (r, (h', fs'))"
        using "1.prems"(4) False ne by (subst (asm) digest_loop.simps) (simp add: Let_def flip: read')
      then have "fs_lookup fs' = fs_lookup fs1 \<and> (r = Inr (hasher', n) \<longrightarrow>
          sha_absorbed hasher' (file_contents fs1 (hd_path ?f1)) \<and> n = word_of_nat (length (file_contents fs1 (hd_path ?f1))))"
        using False ne abs len c1 "1.prems"(3) by (intro "1.hyps" [OF read' refl ne refl refl]) simp_all
      then show ?thesis
        using f0(3) c1 by simp
    qed
  qed
qed

lemma digest_object_any:
  assumes "digest_object store i g fs = (r, fs')"
  shows "fs_lookup fs' = fs_lookup fs"
    "r = Inr (d, n) \<Longrightarrow> is_file fs (object_data_path store i g) \<and>
      d = sha256 (file_contents fs (object_data_path store i g)) \<and>
      n = word_of_nat (length (file_contents fs (object_data_path store i g)))"
proof -
  let ?p = "object_data_path store i g" and ?f = "\<lparr>hd_path = object_data_path store i g, hd_position = 0\<rparr>"
  obtain r1 h1 fs1 where one: "FileHandle_open ?p False (None, fs) = (r1, (h1, fs1))"
    by (metis prod.collapse)
  note opened = FileHandle_open_read_any [OF one]
  obtain r2 h2 fs2 where two: "digest_loop Sha256_reset 0 (h1, fs1) = (r2, (h2, fs2))"
    by (metis prod.collapse)
  have loop: "fs_lookup fs2 = fs_lookup fs1 \<and> (r2 = Inr (hasher, n) \<longrightarrow>
      sha_absorbed hasher (file_contents fs1 ?p) \<and> n = word_of_nat (length (file_contents fs1 ?p)))"
    if "r1 = Inr u" for u hasher
    using digest_loop_any [of Sha256_reset ?f fs1 0 r2 h2 fs2 hasher n] two opened(2) [OF that]
    by simp
  have c1: "file_contents fs1 ?p = file_contents fs ?p"
    using opened(1) by (simp add: file_contents_def)
  have eq: "digest_object store i g fs =
      (case r1 of Inl e \<Rightarrow> (Inl e, fs1) | Inr _ \<Rightarrow>
        (case r2 of Inl e \<Rightarrow> (Inl e, fs2) | Inr (hasher, bytes_read) \<Rightarrow> (Inr (fst (Sha256_finalize hasher), bytes_read), fs2)))"
    using one two by (simp add: digest_object_def with_handle_def bind_io_def return_io_def split: sum.split)
  show "fs_lookup fs' = fs_lookup fs"
    using assms loop opened(1) unfolding eq by (auto split: sum.splits)
  show "is_file fs ?p \<and> d = sha256 (file_contents fs ?p) \<and> n = word_of_nat (length (file_contents fs ?p))"
    if r: "r = Inr (d, n)"
  proof -
    obtain u hasher where ok: "r1 = Inr u" "r2 = Inr (hasher, n)" "d = fst (Sha256_finalize hasher)"
      using assms r unfolding eq by (auto split: sum.splits)
    then show ?thesis
      using loop [OF ok(1), of hasher] opened(2) [OF ok(1)] c1
      by (auto simp: sha256_eq_reference dest!: Sha256_finalize_absorbed)
  qed
qed

lemma digest_loop_done:
  assumes "fs_script fs = []"
  shows "\<exists>hasher' n f'. digest_loop hasher bytes_read (Some f, fs) = (Inr (hasher', n), (Some f', fs))"
  using assms
proof (induction hasher bytes_read "(Some f, fs)" arbitrary: f rule: digest_loop.induct)
  case (1 hasher bytes_read f)
  let ?d = "take 262144 (drop (hd_position f) (file_contents fs (hd_path f)))"
  let ?f = "f\<lparr>hd_position := hd_position f + length ?d\<rparr>"
  have read: "(Inr ?d, Some ?f, fs) = FileHandle_read 262144 (Some f, fs)"
    using 1(2) by (simp add: io_simps)
  show ?case
  proof (cases "length ?d < 262144")
    case True
    then show ?thesis
      by (subst digest_loop.simps) (auto simp: Let_def simp flip: read)
  next
    case False
    then have ne: "?d \<noteq> []" by auto
    show ?thesis
      using 1(1) [OF read refl ne refl refl False 1(2)] False ne
      by (subst digest_loop.simps) (simp add: Let_def flip: read)
  qed
qed

lemma digest_object_done:
  assumes "fs_script fs = []" "fs_lookup fs (object_data_path store i g) = Some (File b)"
  shows "digest_object store i g fs = (Inr (sha256 b, word_of_nat (length b)), fs)"
proof -
  let ?p = "object_data_path store i g"
  have "FileHandle_open ?p False (None, fs) = (Inr (), (Some \<lparr>hd_path = ?p, hd_position = 0\<rparr>, fs))"
    using assms by (simp add: io_simps is_file_def)
  then obtain d n where run: "digest_object store i g fs = (Inr (d, n), fs)"
    using digest_loop_done [OF assms(1), of Sha256_reset 0 "\<lparr>hd_path = ?p, hd_position = 0\<rparr>"]
    by (auto simp: digest_object_def with_handle_def bind_io_def return_io_def)
  then show ?thesis
    using digest_object_any(2) [OF run refl] assms(2) by (simp add: file_contents_def)
qed

section \<open>Receiving a content\<close>

definition chunk_of :: "state_object \<Rightarrow> bytes \<Rightarrow> nat \<Rightarrow> bytes" where
  "chunk_of d content n = take (covered d (Suc n) - covered d n) (drop (covered d n) content)"

definition chunk_tag :: "state_object \<Rightarrow> bytes \<Rightarrow> nat \<Rightarrow> digest" where
  "chunk_tag d content n = compute_chunk_digest (so_object_id d) (so_generation d) (word_of_nat n)
     (word_of_nat (covered d n)) (word_of_nat (covered d (Suc n) - covered d n)) (chunk_of d content n)"

definition send_chunk :: "state_object \<Rightarrow> bytes \<Rightarrow> nat \<Rightarrow> (writer_world, resume_state) io" where
  "send_chunk d content n = StagingWriter_append (word_of_nat n) (word_of_nat (covered d n))
     (chunk_of d content n) (chunk_tag d content n)"

text \<open>The journal with the first \<open>n\<close> chunks of a content verified.\<close>

definition progress :: "bool \<Rightarrow> bytes \<Rightarrow> nat \<Rightarrow> staging_journal \<Rightarrow> staging_journal" where
  "progress journaling content n j = j\<lparr>sj_verified_chunks := word_of_nat n,
     sj_verified_bytes := word_of_nat (covered (sj_object j) n),
     sj_chunk_digests := (if journaling then map (chunk_tag (sj_object j) content) [0..<n] else [])\<rparr>"

definition staging_ready :: "object_store_options \<Rightarrow> movement_id \<Rightarrow> file_system \<Rightarrow> bool" where
  "staging_ready store i fs \<longleftrightarrow> fs_script fs = [] \<and> \<not> is_file fs [] \<and>
     (\<forall>q. prefix q (staging_directory store i) \<and> q \<noteq> [] \<longrightarrow> fs_lookup fs q = Some Directory) \<and>
     fs_lookup fs (staging_journal_path store i) \<noteq> Some Directory \<and>
     fs_lookup fs (replace_temporary (staging_journal_path store i)) = None"

definition received :: "bytes \<Rightarrow> nat \<Rightarrow> writer_world \<Rightarrow> bool" where
  "received content n = (\<lambda>(w, fs). let j = sw_journal w; d = sj_object j in
     sw_open w \<and> \<not> sw_finalized w \<and> sj_movement_id j \<noteq> 0 \<and> sj_movement_generation j \<noteq> 0 \<and>
     descriptor_valid d \<and> length content = unat (so_total_bytes d) \<and> n \<le> unat (so_chunk_count d) \<and>
     (sw_journaling w \<longrightarrow> unat (so_chunk_count d) \<le> 65536) \<and>
     j = progress (sw_journaling w) content n j \<and>
     (\<exists>f. sw_file w = Some f \<and> hd_path f = writer_path w) \<and>
     fs_lookup fs (writer_path w) = Some (File (take (covered d n) content)) \<and>
     sha_absorbed (sw_running w) (take (covered d n) content) \<and>
     staging_ready (sw_store w) (sj_movement_id j) fs \<and>
     (sw_journaling w \<longrightarrow> (\<exists>g a. g \<noteq> 0 \<and> fs_lookup fs (staging_journal_path (sw_store w) (sj_movement_id j)) =
        Some (File (journal_bytes (j\<lparr>sj_movement_generation := g, sj_attempt := a\<rparr>))))))"

lemma staging_journal_paths [simp]:
  "staging_journal_path store i \<noteq> []" "[] \<noteq> staging_journal_path store i" "butlast (staging_journal_path store i) = staging_directory store i"
  "prefix (staging_directory store i) (staging_journal_path store i)"
  "prefix (staging_directory store i) (replace_temporary (staging_journal_path store i))"
  "\<not> prefix (staging_journal_path store i) (staging_directory store i)"
  "\<not> prefix (replace_temporary (staging_journal_path store i)) (staging_directory store i)"
  "replace_temporary (staging_journal_path store i) \<noteq> staging_journal_path store i"
  "staging_directory store i \<noteq> []"
  by (auto simp: staging_journal_path_def replace_temporary_def path_suffix_def butlast_append
      dest: prefix_length_le) (simp add: staging_directory_def)

lemmas staging_paths_sym [simp] = staging_paths(1,2,5) [THEN not_sym]

lemma staging_ready_no_file:
  "staging_ready store i fs \<Longrightarrow> \<not> list_ex (is_file fs) (prefixes (staging_directory store i))"
  by (auto simp: staging_ready_def list_ex_iff is_file_def split: option.splits)

lemma save_journal_done:
  assumes "staging_ready store (sj_movement_id j) fs" "journal_valid j"
  shows "\<exists>fs'. save_journal store j fs = (Inr (), fs') \<and> staging_ready store (sj_movement_id j) fs' \<and>
    fs_lookup fs' = (fs_lookup fs)(staging_journal_path store (sj_movement_id j) := Some (File (journal_bytes j)))"
proof -
  let ?i = "sj_movement_id j"
  obtain fs1 where created: "fs_create_directories (staging_directory store ?i) fs = (False, fs1)" "fs_script fs1 = []"
    "fs_lookup fs1 = (\<lambda>q. if prefix q (staging_directory store ?i) \<and> q \<noteq> [] then Some Directory else fs_lookup fs q)"
    using fs_create_directories_done [OF _ staging_ready_no_file [OF assms(1)]] assms(1)
    by (auto simp: staging_ready_def)
  have same: "fs_lookup fs1 = fs_lookup fs"
    using assms(1) created(3) by (auto simp: staging_ready_def fun_eq_iff)
  obtain fs2 where "atomic_replace_file (staging_journal_path store ?i) (journal_bytes j) (oso_sync_on_write store) fs1 = (Inr (), fs2)"
    "fs_script fs2 = []" "fs_lookup fs2 = (fs_lookup fs1)(staging_journal_path store ?i := Some (File (journal_bytes j)))"
    using atomic_replace_file_done [OF created(2), of "staging_journal_path store ?i" "journal_bytes j" "oso_sync_on_write store"]
      assms(1) same
    by (auto simp: staging_ready_def is_directory_def)
  then show ?thesis
    using created(1) same assms by (auto simp: save_journal_def Let_def staging_ready_def is_file_def)
qed

lemma progress_valid:
  assumes "descriptor_valid (sj_object j)" "n \<le> unat (so_chunk_count (sj_object j))" "sj_movement_id j \<noteq> 0"
    "sj_movement_generation j \<noteq> 0"
  shows "journal_valid (progress True content n j)"
proof -
  have n: "unat (word_of_nat n :: u32) = n"
    using assms(2) unat_u32_less [of "so_chunk_count (sj_object j)"]
    by (intro unat_word_of_nat_u32) linarith
  obtain b where b: "journal_expected_bytes (sj_object j) n = Inr b" "unat b = covered (sj_object j) n"
    using ResumeState_expected_bytes_valid [OF assms(1,2)] by (auto simp: journal_expected_bytes_eq covered_def)
  then have "b = word_of_nat (covered (sj_object j) n)"
    by (simp flip: b(2))
  then show ?thesis
    using assms n b(1)
    by (auto simp: StagingJournal_validate_def progress_def word_less_nat_alt)
qed

lemma progress_next:
  assumes "descriptor_valid (sj_object j)" "n < unat (so_chunk_count (sj_object j))" "j = progress journaling content n j"
  shows "sj_verified_chunks j = word_of_nat n" "sj_verified_bytes j = word_of_nat (covered (sj_object j) n)"
    "journaling \<Longrightarrow> sj_chunk_digests j = map (chunk_tag (sj_object j) content) [0..<n]"
    "\<not> journaling \<Longrightarrow> sj_chunk_digests j = []"
proof -
  have "sj_verified_chunks j = sj_verified_chunks (progress journaling content n j)"
    "sj_verified_bytes j = sj_verified_bytes (progress journaling content n j)"
    "sj_chunk_digests j = sj_chunk_digests (progress journaling content n j)"
    using assms(3) by metis+
  then show "sj_verified_chunks j = word_of_nat n" "sj_verified_bytes j = word_of_nat (covered (sj_object j) n)"
    "journaling \<Longrightarrow> sj_chunk_digests j = map (chunk_tag (sj_object j) content) [0..<n]"
    "\<not> journaling \<Longrightarrow> sj_chunk_digests j = []"
    by (simp_all add: progress_def)
qed

lemma covered_mono: "m \<le> n \<Longrightarrow> covered d m \<le> covered d n"
  unfolding covered_def by (intro min.mono mult_le_mono1 order_refl)

lemma chunk_facts:
  assumes "descriptor_valid d" "n < unat (so_chunk_count d)" "length content = unat (so_total_bytes d)"
  shows "unat (word_of_nat n :: u32) = n" "(word_of_nat n :: u32) < so_chunk_count d"
    "chunk_offset d (word_of_nat n) = Inr (word_of_nat (covered d n))"
    "chunk_length d (word_of_nat n) = Inr (word_of_nat (covered d (Suc n) - covered d n))"
    "unat (word_of_nat (covered d n) :: u64) = covered d n"
    "unat (word_of_nat (covered d (Suc n) - covered d n) :: u64) = covered d (Suc n) - covered d n"
    "length (chunk_of d content n) = covered d (Suc n) - covered d n" "chunk_of d content n \<noteq> []"
    "take (covered d n) content @ chunk_of d content n = take (covered d (Suc n)) content"
    "covered d n < covered d (Suc n)"
proof -
  show n: "unat (word_of_nat n :: u32) = n" "(word_of_nat n :: u32) < so_chunk_count d"
  proof -
    show "unat (word_of_nat n :: u32) = n"
      using assms(2) unat_u32_less [of "so_chunk_count d"] by (intro unat_word_of_nat_u32) linarith
    then show "(word_of_nat n :: u32) < so_chunk_count d"
      using assms(2) by (simp add: word_less_nat_alt)
  qed
  obtain off len where c: "chunk_offset d (word_of_nat n) = Inr off" "chunk_length d (word_of_nat n) = Inr len"
    "unat off = covered d n" "unat off + unat len = covered d (Suc n)" "0 < unat len"
    using covered_chunk [OF assms(1) n(2)] n(1) by auto
  then have len: "unat len = covered d (Suc n) - covered d n"
    by simp
  show "chunk_offset d (word_of_nat n) = Inr (word_of_nat (covered d n))"
    "unat (word_of_nat (covered d n) :: u64) = covered d n"
    using c(1) by (simp_all flip: c(3))
  show "chunk_length d (word_of_nat n) = Inr (word_of_nat (covered d (Suc n) - covered d n))"
    "unat (word_of_nat (covered d (Suc n) - covered d n) :: u64) = covered d (Suc n) - covered d n"
    using c(2) by (simp_all flip: len)
  show less: "covered d n < covered d (Suc n)"
    using c(3-5) by simp
  show lc: "length (chunk_of d content n) = covered d (Suc n) - covered d n"
    using covered_le [of d "Suc n"] assms(3) by (simp add: chunk_of_def)
  then show "chunk_of d content n \<noteq> []"
    using less by auto
  show "take (covered d n) content @ chunk_of d content n = take (covered d (Suc n)) content"
    using less by (simp add: chunk_of_def flip: take_add)
qed

lemma send_chunk_done:
  assumes "received content n (w, fs)" "n < unat (so_chunk_count (writer_object w))"
  shows "\<exists>w' fs'. send_chunk (writer_object w) content n (w, fs) = (Inr (writer_state w'), (w', fs')) \<and>
    received content (Suc n) (w', fs') \<and> same_transfer w w' \<and>
    (\<forall>q. \<not> prefix (staging_directory (sw_store w) (sj_movement_id (sw_journal w))) q \<longrightarrow> fs_lookup fs' q = fs_lookup fs q)"
proof -
  let ?j = "sw_journal w" and ?d = "writer_object w" and ?p = "writer_path w"
  have inv: "sw_open w" "\<not> sw_finalized w" "sj_movement_id ?j \<noteq> 0" "sj_movement_generation ?j \<noteq> 0" "descriptor_valid ?d"
    "length content = unat (so_total_bytes ?d)" "?j = progress (sw_journaling w) content n ?j"
    "fs_lookup fs ?p = Some (File (take (covered ?d n) content))" "sha_absorbed (sw_running w) (take (covered ?d n) content)"
    "staging_ready (sw_store w) (sj_movement_id ?j) fs" "sw_journaling w \<Longrightarrow> unat (so_chunk_count ?d) \<le> 65536"
    using assms(1) by (auto simp: received_def Let_def)
  obtain f where f: "sw_file w = Some f" "hd_path f = ?p"
    using assms(1) by (auto simp: received_def Let_def)
  note c = chunk_facts [OF inv(5) assms(2) inv(6)]
  note j = progress_next [OF inv(5) assms(2) inv(7)]
  let ?len = "word_of_nat (covered ?d (Suc n) - covered ?d n) :: u64"
  let ?f = "f\<lparr>hd_position := covered ?d (Suc n)\<rparr>"
  let ?fs1 = "set_contents ?p (take (covered ?d (Suc n)) content) fs"
  let ?w = "chunk_accepted ?len (chunk_of ?d content n) (chunk_tag ?d content n) (w\<lparr>sw_file := Some ?f\<rparr>)"
  have script: "fs_script fs = []" using inv(10) by (simp add: staging_ready_def)
  have staged: "is_file fs ?p" "file_contents fs ?p = take (covered ?d n) content"
    using inv(8) by (simp_all add: is_file_def file_contents_def)
  have len: "length (take (covered ?d n) content) = covered ?d n"
    using covered_le [of ?d n] inv(6) by simp
  have seek: "on_staged (FileHandle_seek (covered ?d n)) (w, fs) =
      (Inr (), (w\<lparr>sw_file := Some (f\<lparr>hd_position := covered ?d n\<rparr>)\<rparr>, fs))"
    using covered_less_2 [OF inv(5), of n] script by (simp add: on_staged_def f(1) io_simps)
  have wrote: "on_staged (FileHandle_write (chunk_of ?d content n))
      (w\<lparr>sw_file := Some (f\<lparr>hd_position := covered ?d n\<rparr>)\<rparr>, fs) = (Inr (), (w\<lparr>sw_file := Some ?f\<rparr>, ?fs1))"
    using c(7,8,10) write_at_end [of "take (covered ?d n) content" "chunk_of ?d content n", unfolded len c(9)]
    by (simp add: on_staged_def f(2) io_simps script staged)
  have sync: "(if oso_sync_on_write (sw_store w) then on_staged FileHandle_sync else return_io ())
      (w\<lparr>sw_file := Some ?f\<rparr>, ?fs1) = (Inr (), (w\<lparr>sw_file := Some ?f\<rparr>, ?fs1))"
    using script by (simp add: on_staged_def io_simps return_io_def)
  have ready: "staging_ready (sw_store w) (sj_movement_id ?j) ?fs1"
    using inv(10) by (auto simp: staging_ready_def is_file_def)
  have "word_of_nat (covered ?d n) + ?len = word_of_nat (covered ?d (Suc n))"
    using c(10) by (simp flip: of_nat_add)
  then have journal: "sw_journal ?w = progress (sw_journaling w) content (Suc n) ?j"
    using j by (cases "sw_journaling w") (simp_all add: chunk_accepted_def Let_def progress_def add.commute)
  let ?save = "\<lambda>(w, fs). if sw_journaling w
       then case save_journal (sw_store w) (sw_journal w) fs of (r, fs) \<Rightarrow> (r, (w, fs)) else (Inr (), (w, fs))"
  have same: "sw_store ?w = sw_store w" "sw_journaling ?w = sw_journaling w" "sj_movement_id (sw_journal ?w) = sj_movement_id ?j"
    by (simp_all add: chunk_accepted_def Let_def)
  obtain fs2 where save: "?save (?w, ?fs1) = (Inr (), (?w, fs2))" "staging_ready (sw_store w) (sj_movement_id ?j) fs2"
    "fs_lookup fs2 = (if sw_journaling w then (fs_lookup ?fs1)(staging_journal_path (sw_store w) (sj_movement_id ?j) :=
        Some (File (journal_bytes (sw_journal ?w)))) else fs_lookup ?fs1)"
  proof (cases "sw_journaling w")
    case True
    have "journal_valid (sw_journal ?w)"
      using journal progress_valid [of ?j "Suc n" content] inv(3-5) assms(2) True by simp
    then show thesis
      using save_journal_done [of "sw_store w" "sw_journal ?w" ?fs1] ready True that same by auto
  qed (use ready that same in auto)
  have "store_chunk (word_of_nat (covered ?d n)) ?len (chunk_of ?d content n) (chunk_tag ?d content n) (w, fs) =
      (Inr (writer_state ?w), (?w, fs2))"
    unfolding store_chunk_def bind_io_def
    by (simp only: prod.case c(5) seek wrote sync modify_writer_def sum.case save(1) [unfolded prod.case])
  then have run: "send_chunk ?d content n (w, fs) = (Inr (writer_state ?w), (?w, fs2))"
    using inv(1,2) f(1) c j(1) by (simp add: send_chunk_def StagingWriter_append_def Let_def not_le chunk_tag_def)
  have hash: "sha_absorbed (sw_running ?w) (take (covered ?d (Suc n)) content)"
    using sha_absorbed_update [OF inv(9), of "chunk_of ?d content n"] c(9) by (simp add: chunk_accepted_def Let_def)
  have rest: "sw_open ?w" "\<not> sw_finalized ?w" "sw_file ?w = Some ?f" "sj_object (sw_journal ?w) = ?d"
    "sj_movement_generation (sw_journal ?w) = sj_movement_generation ?j"
    using inv(1,2) by (simp_all add: chunk_accepted_def Let_def)
  have again: "sw_journal ?w = progress (sw_journaling w) content (Suc n) (sw_journal ?w)"
    unfolding journal by (simp add: progress_def)
  have "fs_lookup fs2 ?p = Some (File (take (covered ?d (Suc n)) content))"
    "sw_journaling w \<Longrightarrow> fs_lookup fs2 (staging_journal_path (sw_store w) (sj_movement_id ?j)) = Some (File (journal_bytes (sw_journal ?w)))"
    using save(3) staged(1) by simp_all
  moreover have "\<exists>g a. g \<noteq> 0 \<and> journal_bytes (sw_journal ?w) = journal_bytes ((sw_journal ?w)\<lparr>sj_movement_generation := g, sj_attempt := a\<rparr>)"
    using inv(4) unfolding rest(5) [symmetric]
    by (intro exI [of _ "sj_movement_generation (sw_journal ?w)"] exI [of _ "sj_attempt (sw_journal ?w)"]) simp
  ultimately have "received content (Suc n) (?w, fs2)"
    using inv(3-6,11) f(2) again rest same hash save(2) assms(2) by (simp add: received_def Let_def)
  moreover have "fs_lookup fs2 q = fs_lookup fs q"
    if "\<not> prefix (staging_directory (sw_store w) (sj_movement_id ?j)) q" for q
    using that save(3) by auto
  moreover have "same_transfer w ?w"
    using same rest(4) by (simp add: same_transfer_def)
  ultimately show ?thesis
    using run by blast
qed

text \<open>Chunks \<open>n\<close> to \<open>n + k - 1\<close> in order.\<close>

fun receive :: "state_object \<Rightarrow> bytes \<Rightarrow> nat \<Rightarrow> nat \<Rightarrow> (writer_world, unit) io" where
  "receive d content n 0 = return_io ()"
| "receive d content n (Suc k) = bind_io (send_chunk d content n) (\<lambda>_. receive d content (Suc n) k)"

lemma receive_done:
  assumes "received content n (w, fs)" "n + k \<le> unat (so_chunk_count (writer_object w))"
  shows "\<exists>w' fs'. receive (writer_object w) content n k (w, fs) = (Inr (), (w', fs')) \<and>
    received content (n + k) (w', fs') \<and> same_transfer w w' \<and>
    (\<forall>q. \<not> prefix (staging_directory (sw_store w) (sj_movement_id (sw_journal w))) q \<longrightarrow> fs_lookup fs' q = fs_lookup fs q)"
  using assms
proof (induction k arbitrary: n w fs)
  case 0
  then show ?case by (simp add: return_io_def)
next
  case (Suc k)
  obtain w1 fs1 where one: "send_chunk (writer_object w) content n (w, fs) = (Inr (writer_state w1), (w1, fs1))"
    "received content (Suc n) (w1, fs1)" "same_transfer w w1"
    "\<And>q. \<not> prefix (staging_directory (sw_store w) (sj_movement_id (sw_journal w))) q \<Longrightarrow> fs_lookup fs1 q = fs_lookup fs q"
    using send_chunk_done [OF Suc.prems(1)] Suc.prems(2) by auto
  then obtain w2 fs2 where "receive (writer_object w) content (Suc n) k (w1, fs1) = (Inr (), (w2, fs2))"
    "received content (Suc n + k) (w2, fs2)" "same_transfer w1 w2"
    "\<And>q. \<not> prefix (staging_directory (sw_store w) (sj_movement_id (sw_journal w))) q \<Longrightarrow> fs_lookup fs2 q = fs_lookup fs1 q"
    using Suc.IH [OF one(2)] Suc.prems(2) by (auto simp: same_transfer_def)
  then show ?case
    using one same_transfer_trans [OF one(3)] by (auto simp: bind_io_def)
qed

lemma receive_run:
  assumes "writer_run s (w, fs)" "receive d content n k (w, fs) = (r, s')"
  shows "writer_run s s'"
  using assms
proof (induction k arbitrary: n w fs)
  case 0
  then show ?case by (simp add: return_io_def)
next
  case (Suc k)
  obtain r1 w1 fs1 where one: "send_chunk d content n (w, fs) = (r1, (w1, fs1))"
    by (metis prod.collapse)
  have run: "writer_run s (w1, fs1)"
    using writer_run_append [OF Suc.prems(1)] one unfolding send_chunk_def by blast
  show ?case
    using Suc.prems(2) one run Suc.IH [OF run, of "Suc n"] by (cases r1) (auto simp: bind_io_def)
qed

section \<open>Starting clean\<close>

definition clean_journal :: "movement_id \<Rightarrow> generation \<Rightarrow> attempt_id \<Rightarrow> state_object \<Rightarrow> staging_journal" where
  "clean_journal i g a d = \<lparr>sj_movement_id = i, sj_movement_generation = g, sj_attempt = a, sj_object = d,
     sj_verified_chunks = 0, sj_verified_bytes = 0, sj_chunk_digests = []\<rparr>"

lemma start_clean_done:
  assumes "fs_script fs = []" "\<not> list_ex (is_file fs) (prefixes (staging_directory store i))"
    "descriptor_valid d" "i \<noteq> 0" "g \<noteq> 0" "length content = unat (so_total_bytes d)"
    "journaling \<Longrightarrow> unat (so_chunk_count d) \<le> 65536"
  shows "\<exists>w fs'. bind_io (discard_staging store i) (\<lambda>_ fs.
      let (_, fs) = fs_create_directories (staging_directory store i) fs; journal = clean_journal i g a d
      in opened_writer store journaling journal (start_staged store journaling journal) fs) fs = (Inr w, fs') \<and>
    received content 0 (w, fs') \<and> sw_store w = store \<and> sw_journaling w = journaling \<and> writer_object w = d \<and>
    sj_movement_id (sw_journal w) = i \<and>
    (\<forall>q. \<not> prefix (staging_directory store i) q \<and> \<not> prefix q (staging_directory store i) \<longrightarrow> fs_lookup fs' q = fs_lookup fs q)"
proof -
  let ?dir = "staging_directory store i" and ?p = "staging_data_path store i" and ?j = "clean_journal i g a d"
  let ?f = "\<lparr>hd_path = ?p, hd_position = 0\<rparr>"
  obtain fs1 where dropped: "discard_staging store i fs = (Inr (), fs1)" "fs_script fs1 = []"
    "fs_lookup fs1 = (\<lambda>q. if prefix ?dir q then None else fs_lookup fs q)"
    using assms(1) by (auto simp: discard_staging_def fs_remove_all_def io_simps fun_eq_iff)
  have "\<not> list_ex (is_file fs1) (prefixes ?dir)"
    using assms(2) dropped(3) by (auto simp: list_ex_iff is_file_def)
  then obtain fs2 where created: "fs_create_directories ?dir fs1 = (False, fs2)" "fs_script fs2 = []"
    "fs_lookup fs2 = (\<lambda>q. if prefix q ?dir \<and> q \<noteq> [] then Some Directory else fs_lookup fs1 q)"
    using fs_create_directories_done [OF dropped(2)] by blast
  let ?fs3 = "set_node ?p (File []) fs2"
  have opened: "FileHandle_open ?p True (None, fs2) = (Inr (), (Some ?f, ?fs3))"
    using created dropped(3) by (intro FileHandle_open_new) (auto simp: is_directory_def staging_data_path_def)
  have cut: "FileHandle_truncate_at 0 (Some ?f, ?fs3) = (Inr (), (Some ?f, set_contents ?p [] ?fs3))"
    using created(2) by (simp add: io_simps resize_def)
  let ?fs4 = "set_contents ?p [] ?fs3"
  have none: "\<not> is_file fs []"
    using assms(2) by (auto simp: list_ex_iff)
  have ready: "staging_ready store i ?fs4"
    using created dropped(3) none by (auto simp: staging_ready_def is_file_def)
  have journal: "?j = progress journaling content 0 ?j"
    by (simp add: clean_journal_def progress_def covered_def)
  obtain fs5 where save: "(if journaling then on_system (save_journal store ?j) else return_io ()) (Some ?f, ?fs4) =
      (Inr (), (Some ?f, fs5))" "staging_ready store i fs5"
    "fs_lookup fs5 = (if journaling then (fs_lookup ?fs4)(staging_journal_path store i := Some (File (journal_bytes ?j))) else fs_lookup ?fs4)"
  proof (cases journaling)
    case True
    have "sj_movement_id ?j = i" "journal_valid (progress True content 0 ?j)"
      using assms(3-5) by (auto simp: clean_journal_def intro!: progress_valid)
    then have "sj_movement_id ?j = i" "journal_valid ?j"
      using journal True by simp_all
    then show thesis
      using save_journal_done [of store ?j ?fs4] ready True that by (auto simp: on_system_def)
  qed (use ready that in \<open>auto simp: return_io_def\<close>)
  let ?w = "\<lparr>sw_store = store, sw_file = Some ?f, sw_journal = ?j, sw_running = Sha256_reset,
            sw_journaling = journaling, sw_open = True, sw_completed = False, sw_finalized = False\<rparr>"
  have "sj_movement_id ?j = i"
    by (simp add: clean_journal_def)
  then have "start_staged store journaling ?j (None, fs2) = (Inr Sha256_reset, (Some ?f, fs5))"
    unfolding start_staged_def bind_io_def
    by (simp only: opened prod.case sum.case cut save(1)) (simp add: return_io_def)
  then have run: "bind_io (discard_staging store i) (\<lambda>_ fs.
      let (_, fs) = fs_create_directories ?dir fs; journal = ?j
      in opened_writer store journaling journal (start_staged store journaling journal) fs) fs = (Inr ?w, fs5)"
    by (simp add: bind_io_def dropped(1) created(1) opened_writer_def)
  have "fs_lookup fs5 ?p = Some (File [])"
    "journaling \<Longrightarrow> fs_lookup fs5 (staging_journal_path store i) = Some (File (journal_bytes (?j\<lparr>sj_movement_generation := g, sj_attempt := a\<rparr>)))"
    using save(3) by (simp_all add: clean_journal_def)
  then have "received content 0 (?w, fs5)"
    using assms(3-7) journal save(2) by (auto simp: received_def Let_def clean_journal_def covered_def)
  moreover have "fs_lookup fs5 q = fs_lookup fs q" if "\<not> prefix ?dir q" "\<not> prefix q ?dir" for q
    using that save(3) created(3) dropped(3) by auto
  ultimately show ?thesis
    using run by (intro exI [of _ ?w] exI [of _ fs5]) (simp add: clean_journal_def)
qed

section \<open>Resuming\<close>

lemma length_journal_bytes:
  assumes "journal_wf j"
  shows "0 < length (journal_bytes j)" "length (journal_bytes j) \<le> 4194304"
proof -
  have d: "descriptor_valid (sj_object j)" "length (sj_chunk_digests j) \<le> 65536"
    using assms by (auto simp: journal_wf_def StagingJournal_validate_def split: if_splits)
  have "length (concat (map enc_digest ds)) = 32 * length ds" for ds
    by (induction ds) (simp_all add: enc_digest_def)
  then show "0 < length (journal_bytes j)" "length (journal_bytes j) \<le> 4194304"
    using d
    by (auto simp: journal_bytes_def StagingJournal_encode_def FixedId_encode_def descriptor_valid_iff
        StateObjectDescriptor_encode_def enc_u8_def enc_u32_def enc_u64_def enc_i64_def enc_text_def enc_blob_def
        enc_digest_def enc_boolean_def)
qed

lemma load_journal_done:
  assumes "fs_script fs = []" "fs_lookup fs (staging_journal_path store i) = Some (File (journal_bytes j))"
    "journal_wf j" "sj_movement_id j = i"
  shows "load_journal store i fs = (Inr j, fs)"
proof -
  note len = length_journal_bytes [OF assms(3)]
  then have "decode_whole journal_file_decode (default_decoder (journal_bytes j)) = Inr j"
    using journal_whole_iff assms(3) by auto
  then show ?thesis
    using assms len
    by (simp add: load_journal_def with_handle_def bind_io_def io_simps lift_io_def is_file_def file_contents_def
        fs_exists_def return_io_def)
qed

lemma rehash_prefix_done:
  assumes "descriptor_valid d" "length content = unat (so_total_bytes d)" "fs_script fs = []"
    "index + k \<le> unat (so_chunk_count d)" "file_contents fs (hd_path f) = take (covered d (index + k)) content"
    "hd_position f = covered d index"
  shows "\<exists>running' f'. rehash_prefix d (map (chunk_tag d content) [0..<index + k]) k index (word_of_nat (covered d index)) running (Some f, fs) =
    (Inr running', (Some f', fs))"
  using assms(4-6)
proof (induction k arbitrary: index running f)
  case 0
  then show ?case by (simp add: return_io_def)
next
  case (Suc k)
  have n: "index < unat (so_chunk_count d)" using Suc.prems(1) by simp
  note c = chunk_facts [OF assms(1) n assms(2)]
  have "covered d (Suc index) \<le> covered d (index + Suc k)"
    by (intro covered_mono) simp
  then have data: "take (covered d (Suc index) - covered d index) (drop (covered d index) (file_contents fs (hd_path f))) = chunk_of d content index"
    using Suc.prems(2) by (simp add: chunk_of_def drop_take min_def)
  let ?f = "f\<lparr>hd_position := covered d (Suc index)\<rparr>"
  have read: "FileHandle_read (covered d (Suc index) - covered d index) (Some f, fs) = (Inr (chunk_of d content index), (Some ?f, fs))"
    using assms(3) data c(7,10) Suc.prems(3) by (simp add: io_simps)
  have tag: "compute_chunk_digest (so_object_id d) (so_generation d) (word_of_nat index) (word_of_nat (covered d index))
      (word_of_nat (covered d (Suc index) - covered d index)) (chunk_of d content index) =
      map (chunk_tag d content) [0..<index + Suc k] ! index"
    by (simp add: chunk_tag_def del: upt_Suc)
  have off: "word_of_nat (covered d index) + word_of_nat (covered d (Suc index) - covered d index) = (word_of_nat (covered d (Suc index)) :: u64)"
    using c(10) by (simp flip: of_nat_add)
  have "\<exists>running' f'. rehash_prefix d (map (chunk_tag d content) [0..<Suc index + k]) k (Suc index)
      (word_of_nat (covered d (Suc index))) (Sha256_update running (chunk_of d content index)) (Some ?f, fs) = (Inr running', (Some f', fs))"
    using Suc.prems by (intro Suc.IH) simp_all
  then show ?case
    using c(4,6,7) read tag off unat_eq_0 [of "word_of_nat (covered d (Suc index) - covered d index) :: u64"] c(10)
    by (simp add: bind_io_def del: upt_Suc)
qed

lemma progress_keeps: "progress journaling content n (j\<lparr>sj_movement_generation := g, sj_attempt := a\<rparr>) =
    (progress journaling content n j)\<lparr>sj_movement_generation := g, sj_attempt := a\<rparr>"
  by (simp add: progress_def)

lemma resume_staged_done:
  assumes "descriptor_valid d" "length content = unat (so_total_bytes d)" "n \<le> unat (so_chunk_count d)"
    "fs_script fs = []" "fs_lookup fs p = Some (File (take (covered d n) content))"
    "sj_object j = d" "j = progress True content n j"
  shows "\<exists>running f. resume_staged p d j (None, fs) = (Inr running, (Some f, fs)) \<and> hd_path f = p \<and>
    sha_absorbed running (take (covered d n) content)"
proof -
  let ?f = "\<lparr>hd_path = p, hd_position = 0\<rparr>"
  have c: "file_contents fs p = take (covered d n) content" "is_file fs p" "length (take (covered d n) content) = covered d n"
    using assms(2,5) covered_le [of d n] by (simp_all add: file_contents_def is_file_def)
  have n: "unat (word_of_nat n :: u32) = n"
    using assms(3) unat_u32_less [of "so_chunk_count d"] by (intro unat_word_of_nat_u32) linarith
  have b: "unat (word_of_nat (covered d n) :: u64) = covered d n"
    using covered_less_2 [OF assms(1), of n] by (intro unat_word_of_nat_u64) linarith
  have j: "unat (sj_verified_chunks j) = n" "unat (sj_verified_bytes j) = covered d n"
    "sj_chunk_digests j = map (chunk_tag d content) [0..<n]"
    using assms(6) n b by (subst assms(7), simp add: progress_def)+
  obtain running f' where hashed: "rehash_prefix d (sj_chunk_digests j) n 0 0 Sha256_reset (Some ?f, fs) = (Inr running, (Some f', fs))"
    using rehash_prefix_done [OF assms(1,2,4), of 0 n ?f Sha256_reset] assms(3) c(1) j(3) by (auto simp: covered_def)
  have run: "resume_staged p d j (None, fs) = (Inr running, (Some f', fs))"
    using assms(4) c j hashed by (simp add: resume_staged_def bind_io_def try_io_def io_simps)
  have "sha_absorbed running (take (covered d n) content)" "hd_path f' = p"
    using rehash_prefix_any [OF assms(1) _ _ _ _ hashed, of running] assms(3) c(1,3) by (auto simp: covered_def)
  then show ?thesis
    using run by blast
qed

lemma writer_resumes:
  assumes "received content n (w, fs)" "sw_journaling w" "0 < n" "g \<noteq> 0" "oso_allow_resume (sw_store w)"
  shows "\<exists>w' fs'. StagingWriter_begin (sw_store w) (sj_movement_id (sw_journal w)) g a (writer_object w) fs = (Inr w', fs') \<and>
    received content n (w', fs') \<and> same_transfer w w' \<and> fs_lookup fs' = fs_lookup fs"
proof -
  let ?i = "sj_movement_id (sw_journal w)" and ?d = "writer_object w" and ?j = "sw_journal w" and ?s = "sw_store w"
  have inv: "?i \<noteq> 0" "descriptor_valid ?d" "length content = unat (so_total_bytes ?d)" "n \<le> unat (so_chunk_count ?d)"
    "unat (so_chunk_count ?d) \<le> 65536" "?j = progress True content n ?j"
    "fs_lookup fs (writer_path w) = Some (File (take (covered ?d n) content))" "staging_ready ?s ?i fs"
    using assms(1,2) by (auto simp: received_def Let_def)
  obtain g0 a0 where disk: "g0 \<noteq> 0"
    "fs_lookup fs (staging_journal_path ?s ?i) = Some (File (journal_bytes (?j\<lparr>sj_movement_generation := g0, sj_attempt := a0\<rparr>)))"
    using assms(1,2) by (auto simp: received_def Let_def)
  let ?old = "?j\<lparr>sj_movement_generation := g0, sj_attempt := a0\<rparr>" and ?new = "?j\<lparr>sj_movement_generation := g, sj_attempt := a\<rparr>"
  have new: "?new = progress True content n ?new" "?old = progress True content n ?old"
    using inv(6) by (simp_all add: progress_keeps)
  obtain fs1 where created: "fs_create_directories (staging_directory ?s ?i) fs = (False, fs1)" "fs_script fs1 = []" "fs_lookup fs1 = fs_lookup fs"
    using fs_create_directories_done [OF _ staging_ready_no_file [OF inv(8)]] inv(8)
    by (auto simp: staging_ready_def fun_eq_iff)
  have n: "unat (word_of_nat n :: u32) = n"
    using inv(4) unat_u32_less [of "so_chunk_count ?d"] by (intro unat_word_of_nat_u32) linarith
  have chunks: "sj_verified_chunks ?old = word_of_nat n"
    by (subst new(2)) (simp add: progress_def)
  have "journal_valid ?old"
    by (subst new(2), rule progress_valid) (use inv disk(1) in simp_all)
  then have "journal_wf ?old"
    using chunks n inv(4,5) by (simp add: journal_wf_def)
  then have loaded: "load_journal ?s ?i fs1 = (Inr ?old, fs1)"
    using created(2,3) disk(2) by (intro load_journal_done) simp_all
  have found: "stored_progress ?s ?i ?d fs1 = (Some ?old, fs1)"
    using loaded chunks n assms(3)
    by (auto simp: stored_progress_def check_resume_compatible_iff same_version_def same_object_def word_less_nat_alt)
  obtain running f where resumed: "resume_staged (writer_path w) ?d ?new (None, fs1) = (Inr running, (Some f, fs1))"
    "hd_path f = writer_path w" "sha_absorbed running (take (covered ?d n) content)"
    using resume_staged_done [OF inv(2-4) created(2), of "writer_path w" ?new] inv(7) created(3) new(1) by auto
  let ?w = "\<lparr>sw_store = ?s, sw_file = Some f, sw_journal = ?new, sw_running = running,
            sw_journaling = True, sw_open = True, sw_completed = False, sw_finalized = False\<rparr>"
  have "StagingWriter_begin ?s ?i g a ?d fs = (Inr ?w, fs1)"
    using found resumed(1) inv(2,5) assms(5) created(1) by (simp add: StagingWriter_begin_def Let_def opened_writer_def)
  moreover have "received content n (?w, fs1)"
    using inv(1-5) new(1) inv(7,8) assms(4) resumed(2,3) created(2,3) disk
    by (auto simp: received_def Let_def staging_ready_def is_file_def)
  moreover have "same_transfer w ?w"
    using assms(2) by (simp add: same_transfer_def)
  ultimately show ?thesis
    using created(3) by blast
qed

section \<open>Beginning and beginning again\<close>

abbreviation may_resume :: "object_store_options \<Rightarrow> state_object \<Rightarrow> bool" where
  "may_resume store d \<equiv> oso_allow_resume store \<and> unat (so_chunk_count d) \<le> 65536"

lemma begin_clean:
  assumes "fs_script fs = []" "\<not> list_ex (is_file fs) (prefixes (staging_directory store i))"
    "\<And>fs1. fs_script fs1 = [] \<Longrightarrow> (\<forall>q. \<not> prefix q (staging_directory store i) \<longrightarrow> fs_lookup fs1 q = fs_lookup fs q) \<Longrightarrow>
      may_resume store d \<Longrightarrow> stored_progress store i d fs1 = (None, fs1)"
    "descriptor_valid d" "i \<noteq> 0" "g \<noteq> 0" "length content = unat (so_total_bytes d)"
  shows "\<exists>w fs'. StagingWriter_begin store i g a d fs = (Inr w, fs') \<and> received content 0 (w, fs') \<and>
    sw_store w = store \<and> sw_journaling w = may_resume store d \<and> writer_object w = d \<and> sj_movement_id (sw_journal w) = i \<and>
    (\<forall>q. \<not> prefix (staging_directory store i) q \<and> \<not> prefix q (staging_directory store i) \<longrightarrow> fs_lookup fs' q = fs_lookup fs q)"
proof -
  let ?dir = "staging_directory store i"
  obtain fs1 where created: "fs_create_directories ?dir fs = (False, fs1)" "fs_script fs1 = []"
    "fs_lookup fs1 = (\<lambda>q. if prefix q ?dir \<and> q \<noteq> [] then Some Directory else fs_lookup fs q)"
    using fs_create_directories_done [OF assms(1,2)] by blast
  have found: "(if may_resume store d then stored_progress store i d fs1 else (None, fs1)) = (None, fs1)"
    using assms(3) [of fs1] created(2,3) by auto
  have "\<not> list_ex (is_file fs1) (prefixes ?dir)"
    using assms(2) created(3) by (auto simp: list_ex_iff is_file_def)
  then show ?thesis
    using start_clean_done [OF created(2) _ assms(4-7), of store "may_resume store d" a] assms(4) created found
    by (simp add: StagingWriter_begin_def Let_def clean_journal_def)
qed

text \<open>A writer that is dropped, in a crash or an aborted attempt, and begun again continues after the
  chunks the journal holds.\<close>

lemma writer_begun_again:
  assumes "received content n (w, fs)" "sw_journaling w = may_resume (sw_store w) (writer_object w)" "g \<noteq> 0"
  shows "\<exists>w' fs'. StagingWriter_begin (sw_store w) (sj_movement_id (sw_journal w)) g a (writer_object w) fs = (Inr w', fs') \<and>
    received content (if sw_journaling w then n else 0) (w', fs') \<and> same_transfer w w' \<and>
    (\<forall>q. \<not> prefix (staging_directory (sw_store w) (sj_movement_id (sw_journal w))) q \<and>
      \<not> prefix q (staging_directory (sw_store w) (sj_movement_id (sw_journal w))) \<longrightarrow> fs_lookup fs' q = fs_lookup fs q)"
proof (cases "sw_journaling w \<and> 0 < n")
  case True
  then obtain w' fs' where "StagingWriter_begin (sw_store w) (sj_movement_id (sw_journal w)) g a (writer_object w) fs = (Inr w', fs')"
    "received content n (w', fs')" "same_transfer w w'" "fs_lookup fs' = fs_lookup fs"
    using writer_resumes [OF assms(1) _ _ assms(3), of a] assms(2) by auto
  then show ?thesis
    using True by auto
next
  case False
  let ?i = "sj_movement_id (sw_journal w)" and ?d = "writer_object w" and ?s = "sw_store w"
  have inv: "?i \<noteq> 0" "descriptor_valid ?d" "length content = unat (so_total_bytes ?d)" "staging_ready ?s ?i fs"
    using assms(1) by (auto simp: received_def Let_def)
  have clean: "stored_progress ?s ?i ?d fs1 = (None, fs1)"
    if fs1: "fs_script fs1 = []" "\<forall>q. \<not> prefix q (staging_directory ?s ?i) \<longrightarrow> fs_lookup fs1 q = fs_lookup fs q" "may_resume ?s ?d" for fs1
  proof -
    have j: "sw_journaling w" "n = 0" "sw_journal w = progress True content 0 (sw_journal w)"
      using assms(1,2) fs1(3) False by (auto simp: received_def Let_def)
    obtain g0 a0 where disk: "g0 \<noteq> 0" "fs_lookup fs (staging_journal_path ?s ?i) =
        Some (File (journal_bytes ((sw_journal w)\<lparr>sj_movement_generation := g0, sj_attempt := a0\<rparr>)))"
      using assms(1) j(1) by (auto simp: received_def Let_def)
    let ?old = "(sw_journal w)\<lparr>sj_movement_generation := g0, sj_attempt := a0\<rparr>"
    have old: "?old = progress True content 0 ?old"
      using j(3) by (simp add: progress_keeps)
    have "sj_verified_chunks ?old = 0"
      by (subst old) (simp add: progress_def)
    moreover have "journal_valid ?old"
      by (subst old, rule progress_valid) (use inv disk(1) in simp_all)
    ultimately have "load_journal ?s ?i fs1 = (Inr ?old, fs1)" "sj_verified_chunks ?old = 0"
      using fs1(1,2) disk(2) by (auto intro!: load_journal_done simp: journal_wf_def)
    then show ?thesis
      by (simp add: stored_progress_def)
  qed
  have script: "fs_script fs = []" using inv(4) by (simp add: staging_ready_def)
  have "\<exists>w' fs'. StagingWriter_begin ?s ?i g a ?d fs = (Inr w', fs') \<and> received content 0 (w', fs') \<and>
      sw_store w' = ?s \<and> sw_journaling w' = may_resume ?s ?d \<and> writer_object w' = ?d \<and> sj_movement_id (sw_journal w') = ?i \<and>
      (\<forall>q. \<not> prefix (staging_directory ?s ?i) q \<and> \<not> prefix q (staging_directory ?s ?i) \<longrightarrow> fs_lookup fs' q = fs_lookup fs q)"
    by (rule begin_clean [OF script staging_ready_no_file [OF inv(4)] _ inv(2,1) assms(3) inv(3)]) (rule clean)
  then obtain w' fs' where begun: "StagingWriter_begin ?s ?i g a ?d fs = (Inr w', fs')" "received content 0 (w', fs')"
    "sw_store w' = ?s" "sw_journaling w' = may_resume ?s ?d" "writer_object w' = ?d" "sj_movement_id (sw_journal w') = ?i"
    "\<forall>q. \<not> prefix (staging_directory ?s ?i) q \<and> \<not> prefix q (staging_directory ?s ?i) \<longrightarrow> fs_lookup fs' q = fs_lookup fs q"
    by (elim exE conjE)
  have "(if sw_journaling w then n else 0) = 0"
    using False by auto
  moreover have "same_transfer w w'"
    unfolding same_transfer_def using begun assms(2) by blast
  ultimately show ?thesis
    using begun(1,2,7) by (intro exI [of _ w'] exI [of _ fs']) simp
qed

section \<open>Publishing\<close>

lemma finish_done:
  assumes "received content (unat (so_chunk_count (writer_object w))) (w, fs)"
  shows "\<exists>w'. StagingWriter_finish (w, fs) = (Inr (sha256 content), (w', fs)) \<and> sw_completed w' \<and> same_transfer w w'"
proof -
  let ?d = "writer_object w" and ?j = "sw_journal w"
  have inv: "sw_open w" "descriptor_valid ?d" "length content = unat (so_total_bytes ?d)" "fs_script fs = []"
    "?j = progress (sw_journaling w) content (unat (so_chunk_count ?d)) ?j" "sha_absorbed (sw_running w) content"
    using assms covered_all [of ?d] by (auto simp: received_def Let_def staging_ready_def)
  obtain f where f: "sw_file w = Some f"
    using assms by (auto simp: received_def Let_def)
  have "sj_verified_chunks ?j = so_chunk_count ?d" "sj_verified_bytes ?j = so_total_bytes ?d"
    by (subst inv(5), simp add: progress_def covered_all [OF inv(2)])+
  moreover have "Sha256_finalize (sw_running w) = (sha256 content, Sha256_reset)"
    using Sha256_finalize_absorbed [OF inv(6)] by (simp add: sha256_eq_reference)
  ultimately show ?thesis
    using inv(1,4) f
    by (simp add: StagingWriter_finish_def Let_def bind_io_def modify_writer_def on_staged_def io_simps return_io_def
        close_staged_def same_transfer_def)
qed

lemma promote_done:
  assumes "fs_script fs = []" "fs_lookup fs (staging_data_path store i) = Some (File content)"
    "\<not> list_ex (is_file fs) (prefixes (object_directory store (so_object_id d) (so_generation d)))"
    "fs_lookup fs (object_data_path store (so_object_id d) (so_generation d)) = None"
  shows "\<exists>fs'. promote_staging store i d fs = (Inr (), fs') \<and> fs_script fs' = [] \<and>
    fs_lookup fs' = (\<lambda>q. if prefix (staging_directory store i) q then None
      else if q = object_data_path store (so_object_id d) (so_generation d) then Some (File content)
      else if prefix q (object_directory store (so_object_id d) (so_generation d)) \<and> q \<noteq> [] then Some Directory
      else fs_lookup fs q)"
proof -
  let ?s = "staging_data_path store i" and ?t = "object_data_path store (so_object_id d) (so_generation d)"
  let ?dir = "object_directory store (so_object_id d) (so_generation d)"
  have path: "butlast ?t = ?dir" "?s \<noteq> ?t" by (simp add: object_data_path_def, simp)
  obtain fs1 where created: "fs_create_directories ?dir fs = (False, fs1)" "fs_script fs1 = []"
    "fs_lookup fs1 = (\<lambda>q. if prefix q ?dir \<and> q \<noteq> [] then Some Directory else fs_lookup fs q)"
    using fs_create_directories_done [OF assms(1,3)] by blast
  have one: "fs_lookup fs1 ?s = Some (File content)" "fs_lookup fs1 ?t = None" "is_directory fs1 ?dir"
    using created(3) assms(2,4) by (auto simp: is_directory_def)
  obtain fs2 where renamed: "fs_rename ?s ?t fs1 = (False, fs2)" "fs_script fs2 = []"
    "fs_lookup fs2 = (fs_lookup fs1)(?s := None, ?t := Some (File content))"
    using fs_rename_done [OF created(2) one(1), of ?t] one path by auto
  have synced: "(if oso_sync_on_write store then sync_existing_file ?t else return_io ()) fs2 = (Inr (), fs2)"
    using renamed(2,3) by (simp add: sync_existing_file_def io_simps return_io_def fs_exists_def)
  obtain fs3 where dropped: "fs_remove_all (staging_directory store i) fs2 = (False, fs3)" "fs_script fs3 = []"
    "fs_lookup fs3 = (\<lambda>q. if prefix (staging_directory store i) q then None else fs_lookup fs2 q)"
    using renamed(2) by (auto simp: fs_remove_all_def io_simps fun_eq_iff)
  have run: "promote_staging store i d fs = (Inr (), fs3)"
    unfolding promote_staging_def Let_def
    using assms(2) created(1) one(2) renamed(1) synced dropped(1) by (simp add: fs_exists_def bind_io_def)
  have "fs_lookup fs3 = (\<lambda>q. if prefix (staging_directory store i) q then None else if q = ?t then Some (File content)
      else if prefix q ?dir \<and> q \<noteq> [] then Some Directory else fs_lookup fs q)"
    using created(3) renamed(3) dropped(3) by (auto simp: fun_eq_iff)
  then show ?thesis
    using run dropped(2) by blast
qed

section \<open>A whole placement\<close>

definition with_writer :: "staging_writer \<Rightarrow> (writer_world, 'a) io \<Rightarrow> (file_system, 'a) io" where
  "with_writer w m fs = (case m (w, fs) of (r, (_, fs)) \<Rightarrow> (r, fs))"

text \<open>The chunks a writer still lacks, then the end of the transfer.\<close>

definition receive_rest :: "state_object \<Rightarrow> bytes \<Rightarrow> (writer_world, digest) io" where
  "receive_rest d content = (\<lambda>(w, fs). let n = unat (sj_verified_chunks (sw_journal w)) in
     bind_io (receive d content n (unat (so_chunk_count d) - n)) (\<lambda>_.
     bind_io StagingWriter_finish (\<lambda>digest.
     bind_io StagingWriter_promote (\<lambda>_. return_io digest))) (w, fs))"

text \<open>A transfer whose writer is dropped after \<open>k\<close> chunks and begun again by a later attempt.\<close>

definition interrupted_transfer ::
    "object_store_options \<Rightarrow> movement_id \<Rightarrow> state_object \<Rightarrow> bytes \<Rightarrow> nat \<Rightarrow> generation \<times> attempt_id \<Rightarrow>
     generation \<times> attempt_id \<Rightarrow> (file_system, digest) io" where
  "interrupted_transfer store i d content k one two =
     bind_io (StagingWriter_begin store i (fst one) (snd one) d) (\<lambda>w.
     bind_io (with_writer w (receive d content 0 k)) (\<lambda>_.
     bind_io (StagingWriter_begin store i (fst two) (snd two) d) (\<lambda>w.
       with_writer w (receive_rest d content))))"

text \<open>Room for the movement, the object and its marker.\<close>

definition vacant :: "object_store_options \<Rightarrow> movement_id \<Rightarrow> state_object \<Rightarrow> file_system \<Rightarrow> bool" where
  "vacant store i d fs \<longleftrightarrow> fs_script fs = [] \<and>
     (let target = commit_marker_path store (so_object_id d) (so_generation d)
      in \<not> list_ex (is_file fs) (prefixes (staging_directory store i) @
           prefixes (object_directory store (so_object_id d) (so_generation d)) @ prefixes (butlast target)) \<and>
         list_all (\<lambda>q. fs_lookup fs q = None) [staging_journal_path store i,
           object_data_path store (so_object_id d) (so_generation d), target, replace_temporary target])"

lemma store_paths [simp]:
  "\<not> prefix (staging_directory store i) (object_directory store k g)"
  "\<not> prefix (staging_directory store i) (commit_marker_path store k g)"
  "\<not> prefix (staging_directory store i) (replace_temporary (commit_marker_path store k g))"
  "\<not> prefix (staging_directory store i) (butlast (commit_marker_path store k g))"
  "\<not> prefix (object_data_path store k g) (staging_directory store i)"
  "\<not> prefix (commit_marker_path store k g) (staging_directory store i)"
  "\<not> prefix (replace_temporary (commit_marker_path store k g)) (staging_directory store i)"
  by (auto simp: staging_directory_def object_directory_def object_data_path_def commit_marker_path_def replace_temporary_def
      path_suffix_def butlast_append)

lemma receive_rest_done:
  assumes "received content n (w, fs)"
    "\<not> list_ex (is_file fs) (prefixes (object_directory (sw_store w) (so_object_id (writer_object w)) (so_generation (writer_object w))))"
    "fs_lookup fs (object_data_path (sw_store w) (so_object_id (writer_object w)) (so_generation (writer_object w))) = None"
  shows "\<exists>fs'. with_writer w (receive_rest (writer_object w) content) fs = (Inr (sha256 content), fs') \<and> fs_script fs' = [] \<and>
    fs_lookup fs' (object_data_path (sw_store w) (so_object_id (writer_object w)) (so_generation (writer_object w))) = Some (File content) \<and>
    (\<forall>q. \<not> prefix (staging_directory (sw_store w) (sj_movement_id (sw_journal w))) q \<longrightarrow>
      \<not> prefix q (object_data_path (sw_store w) (so_object_id (writer_object w)) (so_generation (writer_object w))) \<longrightarrow>
      fs_lookup fs' q = fs_lookup fs q) \<and>
    (\<forall>q. is_file fs' q \<longrightarrow> is_file fs q \<or> q = object_data_path (sw_store w) (so_object_id (writer_object w)) (so_generation (writer_object w)))"
proof -
  let ?d = "writer_object w" and ?s = "sw_store w" and ?i = "sj_movement_id (sw_journal w)"
  let ?dir = "object_directory ?s (so_object_id ?d) (so_generation ?d)" and ?t = "object_data_path ?s (so_object_id ?d) (so_generation ?d)"
  have inv: "n \<le> unat (so_chunk_count ?d)" "sw_journal w = progress (sw_journaling w) content n (sw_journal w)" "descriptor_valid ?d"
    using assms(1) by (auto simp: received_def Let_def)
  have n: "unat (word_of_nat n :: u32) = n"
    using inv(1) unat_u32_less [of "so_chunk_count ?d"] by (intro unat_word_of_nat_u32) linarith
  have chunks: "unat (sj_verified_chunks (sw_journal w)) = n"
    by (subst inv(2)) (simp add: progress_def n)
  obtain w1 fs1 where all: "receive ?d content n (unat (so_chunk_count ?d) - n) (w, fs) = (Inr (), (w1, fs1))"
    "received content (unat (so_chunk_count ?d)) (w1, fs1)" "same_transfer w w1"
    "\<And>q. \<not> prefix (staging_directory ?s ?i) q \<Longrightarrow> fs_lookup fs1 q = fs_lookup fs q"
    using receive_done [OF assms(1), of "unat (so_chunk_count ?d) - n"] inv(1) by auto
  have same: "sw_store w1 = ?s" "writer_object w1 = ?d" "sj_movement_id (sw_journal w1) = ?i"
    using all(3) by (simp_all add: same_transfer_def)
  obtain w2 where fin: "StagingWriter_finish (w1, fs1) = (Inr (sha256 content), (w2, fs1))" "sw_completed w2" "same_transfer w1 w2"
    using finish_done [of content w1 fs1] all(2) same(2) by auto
  have fs1: "fs_script fs1 = []" "fs_lookup fs1 (staging_data_path ?s ?i) = Some (File content)"
    using all(2) same covered_all [OF inv(3)] by (auto simp: received_def Let_def staging_ready_def)
  have out: "fs_lookup fs1 q = fs_lookup fs q" if "prefix q ?dir \<or> q = ?t" for q
    using that all(4) [of q] prefix_order.trans [of "staging_directory ?s ?i" q ?dir] by auto
  then have room: "\<not> list_ex (is_file fs1) (prefixes ?dir)" "fs_lookup fs1 ?t = None"
    using assms(2,3) by (auto simp: list_ex_iff is_file_def)
  obtain fs2 where placed: "promote_staging ?s ?i ?d fs1 = (Inr (), fs2)" "fs_script fs2 = []"
    "fs_lookup fs2 = (\<lambda>q. if prefix (staging_directory ?s ?i) q then None else if q = ?t then Some (File content)
      else if prefix q ?dir \<and> q \<noteq> [] then Some Directory else fs_lookup fs1 q)"
    using promote_done [OF fs1 room] by blast
  have run: "with_writer w (receive_rest ?d content) fs = (Inr (sha256 content), fs2)"
    using all(1) fin same placed(1)
    by (simp add: with_writer_def receive_rest_def Let_def chunks bind_io_def StagingWriter_promote_def same_transfer_def return_io_def)
  have frame: "fs_lookup fs2 q = fs_lookup fs q" if "\<not> prefix (staging_directory ?s ?i) q" "\<not> prefix q ?t" for q
    using that all(4) prefix_order.trans [of q ?dir ?t] unfolding placed(3) by (auto simp: object_data_path_def)
  have files: "is_file fs q \<or> q = ?t" if "is_file fs2 q" for q
    using that all(4) unfolding placed(3) is_file_def by (auto split: if_splits)
  show ?thesis
    using run placed(2) frame files unfolding placed(3) by (intro exI [of _ fs2]) (auto simp: placed(3))
qed

lemma interrupted_transfer_done:
  assumes "vacant store i d fs" "descriptor_valid d" "length content = unat (so_total_bytes d)"
    "k \<le> unat (so_chunk_count d)" "i \<noteq> 0" "fst one \<noteq> 0" "fst two \<noteq> 0"
  defines "target \<equiv> commit_marker_path store (so_object_id d) (so_generation d)"
  shows "\<exists>fs'. interrupted_transfer store i d content k one two fs = (Inr (sha256 content), fs') \<and> fs_script fs' = [] \<and>
    fs_lookup fs' (object_data_path store (so_object_id d) (so_generation d)) = Some (File content) \<and>
    \<not> list_ex (is_file fs') (prefixes (butlast target)) \<and> fs_lookup fs' target = None \<and>
    fs_lookup fs' (replace_temporary target) = None"
proof -
  let ?dir = "staging_directory store i" and ?odir = "object_directory store (so_object_id d) (so_generation d)"
  let ?t = "object_data_path store (so_object_id d) (so_generation d)"
  have free: "fs_script fs = []" "\<And>q. prefix q ?dir \<or> prefix q ?odir \<or> prefix q (butlast target) \<Longrightarrow> \<not> is_file fs q"
    "fs_lookup fs (staging_journal_path store i) = None" "fs_lookup fs ?t = None" "fs_lookup fs target = None"
    "fs_lookup fs (replace_temporary target) = None"
    using assms(1) by (auto simp: vacant_def Let_def target_def list_ex_iff)
  have "\<exists>w fs'. StagingWriter_begin store i (fst one) (snd one) d fs = (Inr w, fs') \<and> received content 0 (w, fs') \<and>
    sw_store w = store \<and> sw_journaling w = may_resume store d \<and> writer_object w = d \<and> sj_movement_id (sw_journal w) = i \<and>
    (\<forall>q. \<not> prefix ?dir q \<and> \<not> prefix q ?dir \<longrightarrow> fs_lookup fs' q = fs_lookup fs q)"
    by (rule begin_clean [OF free(1) _ _ assms(2,5,6,3)])
      (use free(2,3) in \<open>auto simp: list_ex_iff stored_progress_def load_journal_def fs_exists_def\<close>)
  then obtain w1 fs1 where one: "StagingWriter_begin store i (fst one) (snd one) d fs = (Inr w1, fs1)" "received content 0 (w1, fs1)"
    "sw_store w1 = store" "sw_journaling w1 = may_resume store d" "writer_object w1 = d" "sj_movement_id (sw_journal w1) = i"
    "\<forall>q. \<not> prefix ?dir q \<and> \<not> prefix q ?dir \<longrightarrow> fs_lookup fs1 q = fs_lookup fs q"
    by (elim exE conjE)
  obtain w2 fs2 where two: "receive d content 0 k (w1, fs1) = (Inr (), (w2, fs2))" "received content k (w2, fs2)" "same_transfer w1 w2"
    "\<forall>q. \<not> prefix ?dir q \<longrightarrow> fs_lookup fs2 q = fs_lookup fs1 q"
    using receive_done [OF one(2), of k] assms(4) one(3,5,6) by auto
  have w2: "sw_store w2 = store" "sw_journaling w2 = may_resume store d" "writer_object w2 = d" "sj_movement_id (sw_journal w2) = i"
    using two(3) one(3-6) by (auto simp: same_transfer_def)
  define n where "n = (if sw_journaling w2 then k else 0)"
  obtain w3 fs3 where three: "StagingWriter_begin store i (fst two) (snd two) d fs2 = (Inr w3, fs3)" "received content n (w3, fs3)" "same_transfer w2 w3"
    "\<forall>q. \<not> prefix ?dir q \<and> \<not> prefix q ?dir \<longrightarrow> fs_lookup fs3 q = fs_lookup fs2 q"
    using writer_begun_again [OF two(2) _ assms(7), of "snd two"] w2 unfolding n_def by auto
  have w3: "sw_store w3 = store" "writer_object w3 = d" "sj_movement_id (sw_journal w3) = i"
    using three(3) w2 by (auto simp: same_transfer_def)
  have frame: "fs_lookup fs3 q = fs_lookup fs q" if "\<not> prefix ?dir q" "\<not> prefix q ?dir" for q
    using that one(7) two(4) three(4) by simp
  have dirs: "\<not> is_file fs3 q" if "prefix q ?dir" for q
    using that three(2) w3 by (cases "q = []") (auto simp: received_def Let_def staging_ready_def is_file_def)
  have clear: "\<not> is_file fs3 q" if "prefix q ?odir \<or> prefix q (butlast target)" for q
  proof (cases "prefix q ?dir")
    case False
    moreover have "\<not> prefix ?dir q"
      using that prefix_order.trans [of ?dir q] store_paths(1,4) unfolding target_def by blast
    ultimately show ?thesis
      using frame free(2) that by (simp add: is_file_def)
  qed (rule dirs)
  have gone: "fs_lookup fs3 ?t = None" "fs_lookup fs3 target = None" "fs_lookup fs3 (replace_temporary target) = None"
    using frame free(4-6) by (simp_all add: target_def)
  obtain fs4 where four: "with_writer w3 (receive_rest d content) fs3 = (Inr (sha256 content), fs4)" "fs_script fs4 = []"
    "fs_lookup fs4 ?t = Some (File content)"
    "\<And>q. \<not> prefix ?dir q \<Longrightarrow> \<not> prefix q ?t \<Longrightarrow> fs_lookup fs4 q = fs_lookup fs3 q"
    "\<And>q. is_file fs4 q \<Longrightarrow> is_file fs3 q \<or> q = ?t"
    using receive_rest_done [OF three(2)] w3 clear gone(1) by (auto simp: list_ex_iff)
  have run: "interrupted_transfer store i d content k one two fs = (Inr (sha256 content), fs4)"
    using one(1) two(1) three(1) four(1) by (simp add: interrupted_transfer_def bind_io_def with_writer_def)
  have apart: "\<not> prefix target ?t" "\<not> prefix (replace_temporary target) ?t" "\<not> prefix ?t (butlast target)"
    by (auto simp: target_def commit_marker_path_def object_data_path_def object_directory_def replace_temporary_def
        path_suffix_def butlast_append)
  have "\<not> is_file fs4 q" if "prefix q (butlast target)" for q
    using that four(5) [of q] clear [of q] apart(3) by auto
  moreover have "fs_lookup fs4 target = None" "fs_lookup fs4 (replace_temporary target) = None"
    using four(4) gone(2,3) apart(1,2) by (simp_all add: target_def)
  ultimately show ?thesis
    using run four(2,3) by (simp add: list_ex_iff)
qed

end
