(* ===== verification/SMF_Cleanup.thy ===== *)
theory SMF_Cleanup
  imports SMF_Placement
begin

text \<open>
  Cleanup: which paths it can touch, whichever calls fail. Paths of different object versions do
  not overlap because identifiers and generations are spelled injectively.
\<close>

section \<open>Names of versions\<close>

definition decimal_value :: "string \<Rightarrow> nat" where
  "decimal_value s = foldl (\<lambda>a c. a * 10 + (of_char c - 48)) 0 s"

lemma decimal_value_decimal: "decimal_value (decimal n) = n"
proof (induction n rule: decimal.induct)
  case (1 n)
  have digit: "of_char (char_of (n mod 10 + 48) :: char) = n mod 10 + 48"
    "n < 10 \<Longrightarrow> of_char (char_of (n + 48) :: char) = n + 48"
    by (simp_all add: mod_less_divisor less_trans [of _ 10])
  show ?case
  proof (cases "n < 10")
    case True
    then show ?thesis
      using digit by (subst decimal.simps) (simp add: decimal_value_def)
  next
    case False
    then show ?thesis
      using digit 1 by (subst decimal.simps) (simp add: decimal_value_def)
  qed
qed

lemma decimal_inject [simp]: "decimal m = decimal n \<longleftrightarrow> m = n"
  by (metis decimal_value_decimal)

lemma hex_inject [simp]:
  "FixedId_hex a = FixedId_hex b \<longleftrightarrow> a = b" "FixedId_hex c = FixedId_hex d \<longleftrightarrow> c = d"
  for a b :: "256 word" and c d :: "128 word"
proof -
  have "(8 :: nat) dvd 256" "(8 :: nat) dvd 128"
    by simp_all
  then have "8 dvd LENGTH(256)" "8 dvd LENGTH(128)"
    by simp_all
  then show "FixedId_hex a = FixedId_hex b \<longleftrightarrow> a = b" "FixedId_hex c = FixedId_hex d \<longleftrightarrow> c = d"
    by (metis FixedId_from_hex_hex sum.inject(2))+
qed

lemma version_paths:
  "prefix (object_directory store i g) (object_data_path store k h) \<longleftrightarrow> i = k \<and> g = h"
  "\<not> prefix (object_directory store i g) (commit_marker_path store k h)"
  "commit_marker_path store i g = commit_marker_path store k h \<longleftrightarrow> i = k \<and> g = h"
  "\<not> prefix (commit_marker_path store i g) (object_data_path store k h)"
  "\<not> prefix (quarantine_path store m) (object_data_path store k h)"
  "\<not> prefix (quarantine_path store m) (commit_marker_path store k h)"
  "\<not> prefix (object_data_path store k h) (quarantine_path store m)"
  "\<not> prefix (commit_marker_path store k h) (quarantine_path store m)"
  "\<not> prefix (staging_directory store m) (commit_marker_path store k h)"
  by (auto simp: object_directory_def object_data_path_def commit_marker_path_def quarantine_path_def staging_directory_def
      word_unat_eq_iff dest: prefix_length_le)

section \<open>What cleanup can touch\<close>

lemma fs_lookup_prepend:
  "map_of nodes q = None \<Longrightarrow> fs_lookup (fs\<lparr>fs_nodes := nodes @ fs_nodes fs'\<rparr>) q = fs_lookup fs' q"
  by (simp add: fs_lookup_def map_add_def)

lemma fs_rename_any:
  assumes "fs_rename a b fs = (e, fs')" "\<not> prefix a q" "\<not> prefix b q"
  shows "fs_lookup fs' q = fs_lookup fs q"
proof -
  have keys: "q \<notin> fst ` set (map (\<lambda>(q, n). (b @ drop (length a) q, n)) (filter (\<lambda>(q, _). prefix a q) nodes))" for nodes :: "(path \<times> node) list"
    using assms(3) by auto
  have moved: "map_of (map (\<lambda>(q, n). (b @ drop (length a) q, n)) (filter (\<lambda>(q, _). prefix a q) nodes)) q = None"
    for nodes :: "(path \<times> node) list"
    unfolding map_of_eq_None_iff by (rule keys)
  show ?thesis
    using assms
    by (auto simp: fs_rename_def fs_lookup_prepend [OF moved]
        dest!: os_outcome_lookup split: prod.splits if_splits io_outcome.splits node.splits option.splits)
qed

lemma cleanup_staging_any:
  assumes "cleanup_staging store t fs = (r, fs')" "\<not> prefix (staging_directory store (ct_movement_id t)) q"
    "\<not> prefix (quarantine_path store (ct_movement_id t)) q" "\<not> prefix q (quarantine_path store (ct_movement_id t))"
  shows "fs_lookup fs' q = fs_lookup fs q"
proof -
  have "\<not> prefix (quarantine_path store (ct_movement_id t) @ [x]) q" for x
    using assms(3) append_prefixD by blast
  then show ?thesis
    using assms
    by (auto simp: cleanup_staging_def Let_def dest!: fs_create_directories_any [of _ _ _ _ q] fs_rename_any [of _ _ _ _ _ q]
        fs_remove_all_any [of _ _ _ _ q] split: prod.splits if_splits)
qed

lemma cleanup_placed_any:
  assumes "cleanup_placed store t fs = (r, fs')" "\<not> prefix (object_directory store (ct_object_id t) (ct_generation t)) q"
    "\<not> prefix (commit_marker_path store (ct_object_id t) (ct_generation t)) q"
    "\<not> prefix (quarantine_path store (ct_movement_id t)) q" "\<not> prefix q (quarantine_path store (ct_movement_id t))"
  shows "fs_lookup fs' q = fs_lookup fs q"
proof -
  have "\<not> prefix (quarantine_path store (ct_movement_id t) @ [x]) q" for x
    using assms(4) append_prefixD by blast
  moreover have "q \<noteq> commit_marker_path store (ct_object_id t) (ct_generation t)"
    using assms(3) by auto
  ultimately show ?thesis
    using assms
    by (auto simp: cleanup_placed_def Let_def dest!: fs_create_directories_any [of _ _ _ _ q] fs_rename_any [of _ _ _ _ _ q]
        fs_remove_all_any [of _ _ _ _ q] fs_remove_lookup [of _ _ _ _ q] split: prod.splits if_splits)
qed

lemma cleanup_any:
  assumes "cleanup store t fs = (r, fs')" "\<not> prefix (staging_directory store (ct_movement_id t)) q"
    "\<not> prefix (quarantine_path store (ct_movement_id t)) q" "\<not> prefix q (quarantine_path store (ct_movement_id t))"
    "ct_remove_placed t \<Longrightarrow> \<not> prefix (object_directory store (ct_object_id t) (ct_generation t)) q \<and>
      \<not> prefix (commit_marker_path store (ct_object_id t) (ct_generation t)) q"
  shows "fs_lookup fs' q = fs_lookup fs q"
proof -
  obtain r1 fs1 where one: "cleanup_staging store t fs = (r1, fs1)" by fastforce
  obtain r2 fs2 where two: "cleanup_placed store t fs1 = (r2, fs2)" by fastforce
  have "fs' = fs1 \<or> ct_remove_placed t \<and> fs' = fs2"
    using assms(1) one two
    by (auto simp: cleanup_def bind_io_def return_io_def split: sum.splits if_splits)
  then show ?thesis
    using cleanup_staging_any [OF one assms(2-4)] cleanup_placed_any [OF two _ _ assms(3,4)] assms(5) by auto
qed

end
