(* ===== verification/SMF_Sample_Marker.thy ===== *)
theory SMF_Sample_Marker
  imports SMF_Object_Files SMF_Sample
begin

text \<open>
  A concrete sealed marker of the sample object, for the witnesses. Its digest is the one the program
  computes, evaluated here block by block.
\<close>

definition sample_marker :: commit_marker where
  "sample_marker = \<lparr>cm_movement_id = 5, cm_movement_generation = 1, cm_object = sample_object,
     cm_source = ''a'', cm_destination = ''b'',
     cm_destination_incarnation = \<lparr>inc_endpoint = ''b'', inc_boot = 1, inc_epoch = 1\<rparr>,
     cm_content_digest = 7, cm_stored_bytes = 2500, cm_stored_chunks = 3, cm_committed_unix_millis = 1,
     cm_marker_digest = 0\<rparr>"

definition sample_marker_digest :: digest where
  "sample_marker_digest = 0xfa1e94ad657d69c1c9ae9fdd018d1d0e3e6c752ba635f34cb828cc131d581468"

definition sample_block_1 :: bytes where
  "sample_block_1 =
    [20, 0, 0, 0, 0, 0, 0, 0, 83, 77, 70, 45, 67, 79, 77, 77, 73, 84, 45, 77, 65, 82, 75, 69,
    82, 45, 118, 49, 16, 0, 0, 0, 0, 0, 0, 0, 0, 0, 0, 0, 0, 0, 0, 0, 0, 0, 0, 0, 0, 0, 0, 5, 1,
    0, 0, 0, 0, 0, 0, 0, 53, 74, 42, 144]"

definition sample_block_2 :: bytes where
  "sample_block_2 =
    [132, 175, 227, 106, 232, 231, 129, 77, 94, 232, 191, 59, 228, 120, 153, 58, 136, 167, 96,
    250, 251, 128, 94, 146, 213, 204, 71, 138, 1, 1, 0, 0, 0, 0, 0, 0, 0, 109, 1, 0, 0, 0, 0, 0,
    0, 0, 0, 0, 0, 0, 0, 0, 0, 0, 0, 0, 0, 0, 0, 0, 0, 0, 0, 0]"

definition sample_block_3 :: bytes where
  "sample_block_3 =
    [0, 0, 0, 0, 0, 0, 0, 0, 0, 0, 0, 0, 0, 7, 196, 9, 0, 0, 0, 0, 0, 0, 0, 4, 0, 0, 0, 0, 0, 0,
    3, 0, 0, 0, 1, 0, 0, 0, 0, 0, 0, 0, 1, 0, 0, 0, 0, 0, 0, 0, 112, 1, 1, 0, 0, 0, 0, 0, 0, 0,
    97, 1, 0, 0]"

definition sample_block_4 :: bytes where
  "sample_block_4 =
    [0, 0, 0, 0, 0, 98, 1, 0, 0, 0, 0, 0, 0, 0, 98, 16, 0, 0, 0, 0, 0, 0, 0, 0, 0, 0, 0, 0, 0,
    0, 0, 0, 0, 0, 0, 0, 0, 0, 1, 1, 0, 0, 0, 0, 0, 0, 0, 0, 0, 0, 0, 0, 0, 0, 0, 0, 0, 0, 0, 0,
    0, 0, 0, 0]"

definition sample_block_5 :: bytes where
  "sample_block_5 =
    [0, 0, 0, 0, 0, 0, 0, 0, 0, 0, 0, 0, 0, 0, 7, 196, 9, 0, 0, 0, 0, 0, 0, 3, 0, 0, 0, 1, 0, 0,
    0, 0, 0, 0, 0, 128, 0, 0, 0, 0, 0, 0, 0, 0, 0, 0, 0, 0, 0, 0, 0, 0, 0, 0, 0, 0, 0, 0, 0, 0,
    0, 0, 9, 24]"

lemma sample_compress_1:
  "Sha256_compress
    kInitialState
     sample_block_1 =
    [0xbfda4e39, 0x7297120f, 0x2a0b3047, 0xcee70b36, 0xc61c7418, 0x28492570, 0x80fbf081,
    0xcedc626f]"
  by code_simp

lemma sample_compress_2:
  "Sha256_compress
    [0xbfda4e39, 0x7297120f, 0x2a0b3047, 0xcee70b36, 0xc61c7418, 0x28492570, 0x80fbf081,
    0xcedc626f]
     sample_block_2 =
    [0x2e168880, 0x1603a762, 0x15af8a6e, 0x36289398, 0x495320e1, 0x7d7fc40, 0xee271290,
    0xae5651ca]"
  by code_simp

lemma sample_compress_3:
  "Sha256_compress
    [0x2e168880, 0x1603a762, 0x15af8a6e, 0x36289398, 0x495320e1, 0x7d7fc40, 0xee271290,
    0xae5651ca]
     sample_block_3 =
    [0xb7f70a7e, 0x97966411, 0xe9a2fb33, 0x62cf3f87, 0xb9966e93, 0x5c6af7d7, 0xbf47f33a,
    0xc52201bb]"
  by code_simp

lemma sample_compress_4:
  "Sha256_compress
    [0xb7f70a7e, 0x97966411, 0xe9a2fb33, 0x62cf3f87, 0xb9966e93, 0x5c6af7d7, 0xbf47f33a,
    0xc52201bb]
     sample_block_4 =
    [0x62ea60f9, 0x6a4fc29c, 0x80754635, 0xc8094c4d, 0x923ebae1, 0x268ec56f, 0xe2b188e9,
    0xb4c6ff84]"
  by code_simp

lemma sample_compress_5:
  "Sha256_compress
    [0x62ea60f9, 0x6a4fc29c, 0x80754635, 0xc8094c4d, 0x923ebae1, 0x268ec56f, 0xe2b188e9,
    0xb4c6ff84]
     sample_block_5 =
    [0xfa1e94ad, 0x657d69c1, 0xc9ae9fdd, 0x18d1d0e, 0x3e6c752b, 0xa635f34c, 0xb828cc13,
    0x1d581468]"
  by code_simp

lemma sample_marker_blocks:
  "blocks64 ((enc_text ''SMF-COMMIT-MARKER-v1'' @ marker_fields sample_marker) @
     sha256_padding (length (enc_text ''SMF-COMMIT-MARKER-v1'' @ marker_fields sample_marker))) =
   [sample_block_1, sample_block_2, sample_block_3, sample_block_4, sample_block_5]"
  by code_simp

lemma sample_marker_digest: "CommitMarker_compute_digest sample_marker = sample_marker_digest"
proof -
  have "be_word (concat (map store_be32 [0xfa1e94ad, 0x657d69c1, 0xc9ae9fdd, 0x18d1d0e, 0x3e6c752b, 0xa635f34c, 0xb828cc13, 0x1d581468])) = sample_marker_digest"
    by code_simp
  then show ?thesis
    unfolding CommitMarker_compute_digest_def canonical_digest_def sha256_eq_reference sha256_reference_def sample_marker_blocks
    by (simp add: sample_compress_1 sample_compress_2 sample_compress_3 sample_compress_4 sample_compress_5)
qed

definition sealed_sample :: commit_marker where
  "sealed_sample = sample_marker\<lparr>cm_marker_digest := sample_marker_digest\<rparr>"

lemma sample_marker_sealed: "sealed_marker sample_marker = sealed_sample" "sealed_marker sealed_sample = sealed_sample"
proof -
  have zero: "cm_marker_digest sample_marker = 0"
    by (simp add: sample_marker_def)
  show "sealed_marker sample_marker = sealed_sample"
    by (simp add: sealed_marker_def CommitMarker_seal_def sealed_sample_def sample_marker_digest zero)
  show "sealed_marker sealed_sample = sealed_sample"
    by (simp add: sealed_marker_def sealed_sample_def sample_marker_digest_def)
qed

lemma sealed_sample_for: "marker_for sample_id 1 sealed_sample" "commit_marker_wf sealed_sample" "marker_sealed sealed_sample"
proof -
  have "CommitMarker_compute_digest sealed_sample = CommitMarker_compute_digest sample_marker"
    by (simp add: CommitMarker_compute_digest_def marker_fields_def sealed_sample_def)
  then show sealed: "marker_sealed sealed_sample"
    by (simp add: marker_sealed_def sample_marker_digest) (simp add: sealed_sample_def)
  have "EndpointId_is_valid ''a''" "EndpointId_is_valid ''b''"
    by code_simp+
  then show wf: "commit_marker_wf sealed_sample"
    using sample_object_valid
    by (simp add: commit_marker_wf_def marker_valid_iff sealed_sample_def sample_marker_def sample_marker_digest_def)
      (simp add: sample_object_def Incarnation_is_set_def)
  show "marker_for sample_id 1 sealed_sample"
    using wf sealed by (simp add: marker_for_def) (simp add: sealed_sample_def sample_marker_def sample_object_def)
qed

end
