(* ===== verification/SMF_Object_Store_Properties.thy ===== *)
theory SMF_Object_Store_Properties
  imports SMF_Cleanup SMF_Sample_Marker
begin

text \<open>
  The properties of the object store, with the concrete store and transfer their witnesses share.
\<close>

section \<open>A sample store\<close>

definition sample_root :: object_store_options where
  "sample_root = ObjectStoreOptions_default [''r'']"

definition empty_disk :: file_system where
  "empty_disk = \<lparr>fs_nodes = [], fs_script = [], fs_locked = []\<rparr>"

definition sample_content :: bytes where
  "sample_content = replicate 2500 7"

lemma sample_vacant: "vacant sample_root 5 sample_object empty_disk"
  by (simp add: vacant_def empty_disk_def fs_lookup_def is_file_def list_ex_iff Let_def)

lemma sample_sizes:
  "length sample_content = unat (so_total_bytes sample_object)" "unat (so_chunk_count sample_object) = 3"
  "so_object_id sample_object = sample_id" "so_generation sample_object = 1"
  by (simp_all add: sample_content_def sample_object_def)

lemma sealed_sample_object: "cm_object sealed_sample = sample_object" "cm_movement_id sealed_sample = 5"
  by (simp_all add: sealed_sample_def sample_marker_def)

section \<open>Receiving and publishing\<close>

text \<open>C19: Whichever system calls fail and whatever the peer sends, if a writer that began a transfer
  and was sent any chunks reports a digest and publishes, then the placed object has exactly the
  length its descriptor states and the digest is the SHA-256 of its bytes. The staged file left by
  earlier attempts must not be longer than the object.\<close>

theorem published_digest_sound:
  assumes "StagingWriter_begin store i g a object fs0 = (Inr w0, fs1)"
    "length (file_contents fs0 (staging_data_path store i)) \<le> unat (so_total_bytes object)"
    "writer_run (w0, fs1) (w, fs2)" "StagingWriter_finish (w, fs2) = (Inr d, (w', fs3))"
    "StagingWriter_promote (w', fs3) = (Inr (), (w'', fs4))"
  shows "\<exists>content. fs_lookup fs4 (object_data_path store (so_object_id object) (so_generation object)) = Some (File content) \<and>
    length content = unat (so_total_bytes object) \<and> d = sha256 content"
proof -
  note begun = StagingWriter_begin_okD [OF assms(1)]
  have run: "writer_ok w fs2" "same_transfer w0 w" "within_object w fs2"
    using writer_run_ok [OF assms(3) begun(1)] begun(5) [OF assms(2)] by auto
  note fin = StagingWriter_finish_okD [OF run(1) assms(4)]
  let ?c = "file_contents fs2 (writer_path w)" and ?t = "unat (so_total_bytes (writer_object w))"
  have len: "length ?c = ?t" "d = sha256 ?c"
    using fin(4,5) run(3) by (simp_all add: within_object_def)
  have version: "so_object_id (writer_object w) = so_object_id object" "so_generation (writer_object w) = so_generation object"
    "so_total_bytes (writer_object w) = so_total_bytes object" "sw_store w = store"
    using begun(2,4) run(2) by (auto simp: same_transfer_def same_version_def same_object_def)
  have same: "sw_store w' = sw_store w" "writer_object w' = writer_object w"
    "sj_movement_id (sw_journal w') = sj_movement_id (sw_journal w)"
    using fin(3) by (auto simp: same_transfer_def)
  have "fs_lookup fs3 (writer_path w) = Some (File ?c)"
    using run(1) fin(1) by (simp add: writer_ok_def is_file_iff)
  moreover obtain u where "promote_staging (sw_store w') (sj_movement_id (sw_journal w')) (writer_object w') fs3 = (Inr u, fs4)"
    using assms(5) fin(2) by (auto simp: StagingWriter_promote_def split: prod.splits sum.splits)
  ultimately have "fs_lookup fs4 (object_data_path store (so_object_id object) (so_generation object)) = Some (File ?c)"
    using promote_staging_okD same version by metis
  then show ?thesis
    using len version(3) by auto
qed

lemma sample_begin:
  "\<exists>w fs. StagingWriter_begin sample_root 5 1 1 sample_object empty_disk = (Inr w, fs) \<and> received sample_content 0 (w, fs) \<and>
     sw_store w = sample_root \<and> writer_object w = sample_object \<and> sj_movement_id (sw_journal w) = 5 \<and>
     (\<forall>q. \<not> prefix (staging_directory sample_root 5) q \<and> \<not> prefix q (staging_directory sample_root 5) \<longrightarrow> fs_lookup fs q = None)"
proof -
  have none: "fs_lookup empty_disk q = None" "\<not> is_file empty_disk q" for q
    by (simp_all add: empty_disk_def fs_lookup_def is_file_def)
  have "\<exists>w fs'. StagingWriter_begin sample_root 5 1 1 sample_object empty_disk = (Inr w, fs') \<and> received sample_content 0 (w, fs') \<and>
    sw_store w = sample_root \<and> sw_journaling w = may_resume sample_root sample_object \<and> writer_object w = sample_object \<and>
    sj_movement_id (sw_journal w) = 5 \<and>
    (\<forall>q. \<not> prefix (staging_directory sample_root 5) q \<and> \<not> prefix q (staging_directory sample_root 5) \<longrightarrow>
      fs_lookup fs' q = fs_lookup empty_disk q)"
    by (rule begin_clean [OF _ _ _ sample_object_valid _ _ sample_sizes(1)])
      (use none in \<open>auto simp: list_ex_iff stored_progress_def load_journal_def fs_exists_def empty_disk_def\<close>)
  then show ?thesis
    unfolding none(1) by blast
qed

theorem published_digest_sound_witness:
  "\<exists>w0 fs1 w fs2 d w' fs3 w'' fs4 content.
     StagingWriter_begin sample_root 5 1 1 sample_object empty_disk = (Inr w0, fs1) \<and> writer_run (w0, fs1) (w, fs2) \<and>
     StagingWriter_finish (w, fs2) = (Inr d, (w', fs3)) \<and> StagingWriter_promote (w', fs3) = (Inr (), (w'', fs4)) \<and>
     fs_lookup fs4 (object_data_path sample_root sample_id 1) = Some (File content) \<and>
     length content = 2500 \<and> d = sha256 content"
proof -
  obtain w0 fs1 where begun: "StagingWriter_begin sample_root 5 1 1 sample_object empty_disk = (Inr w0, fs1)"
    "received sample_content 0 (w0, fs1)" "sw_store w0 = sample_root" "writer_object w0 = sample_object" "sj_movement_id (sw_journal w0) = 5"
    "\<forall>q. \<not> prefix (staging_directory sample_root 5) q \<and> \<not> prefix q (staging_directory sample_root 5) \<longrightarrow> fs_lookup fs1 q = None"
    using sample_begin by blast
  have dirs: "\<not> is_file fs1 q" if "prefix q (staging_directory sample_root 5)" for q
    using that begun(2-5) by (cases "q = []") (auto simp: received_def Let_def staging_ready_def is_file_def)
  have "\<not> is_file fs1 q" if q: "prefix q (object_directory sample_root sample_id 1)" for q
  proof -
    have "\<not> prefix (staging_directory sample_root 5) q"
      using q store_paths(1) prefix_order.trans by blast
    then show ?thesis
      using begun(6) dirs [of q] by (cases "prefix q (staging_directory sample_root 5)") (simp_all add: is_file_def)
  qed
  then obtain fs4 where rest: "with_writer w0 (receive_rest sample_object sample_content) fs1 = (Inr (sha256 sample_content), fs4)"
    using receive_rest_done [OF begun(2)] begun(3-6) sample_sizes(3,4) by (auto simp: list_ex_iff)
  then obtain w fs2 w' fs3 w'' where runs:
    "receive sample_object sample_content (unat (sj_verified_chunks (sw_journal w0))) (3 - unat (sj_verified_chunks (sw_journal w0))) (w0, fs1) = (Inr (), (w, fs2))"
    "StagingWriter_finish (w, fs2) = (Inr (sha256 sample_content), (w', fs3))" "StagingWriter_promote (w', fs3) = (Inr (), (w'', fs4))"
    using sample_sizes(2)
    by (auto simp: with_writer_def receive_rest_def Let_def bind_io_Inr_iff return_io_def split: prod.splits)
  have run: "writer_run (w0, fs1) (w, fs2)"
    using receive_run [OF writer_run_refl runs(1)] .
  have short: "length (file_contents empty_disk (staging_data_path sample_root 5)) \<le> unat (so_total_bytes sample_object)"
    by (simp add: empty_disk_def file_contents_def fs_lookup_def)
  obtain content where "fs_lookup fs4 (object_data_path sample_root sample_id 1) = Some (File content)"
    "length content = 2500" "sha256 sample_content = sha256 content"
    using published_digest_sound [OF begun(1) short run runs(2,3)] sample_sizes(1,3,4) by (auto simp: sample_content_def)
  then show ?thesis
    using begun(1) run runs(2,3) by metis
qed

section \<open>Placing an object\<close>

text \<open>C21: When no system call fails, a transfer that is interrupted after any number of chunks and begun
  again by a later attempt still places the content it was sent, with the right digest. Once its
  commit marker is written, the store reports authority over that version and reading the object
  back gives the same digest and length.\<close>

theorem interrupted_transfer_places_object:
  assumes "vacant store i d fs" "descriptor_valid d" "length content = unat (so_total_bytes d)"
    "k \<le> unat (so_chunk_count d)" "i \<noteq> 0" "g1 \<noteq> 0" "g2 \<noteq> 0"
    "cm_object m = d" "commit_marker_wf (sealed_marker m)" "marker_sealed (sealed_marker m)"
  shows "\<exists>fs1 fs2 report. interrupted_transfer store i d content k (g1, a1) (g2, a2) fs = (Inr (sha256 content), fs1) \<and>
    write_commit_marker store m fs1 = (Inr (), fs2) \<and>
    authority store (so_object_id d) (so_generation d) fs2 = (Inr report, fs2) \<and> oa_authoritative report \<and>
    oa_marker_digest report = cm_marker_digest (sealed_marker m) \<and>
    digest_object store (so_object_id d) (so_generation d) fs2 = (Inr (sha256 content, so_total_bytes d), fs2)"
proof -
  let ?i = "so_object_id d" and ?g = "so_generation d"
  have target: "marker_target store m = commit_marker_path store ?i ?g"
    using assms(8) by (simp add: marker_target_def)
  obtain fs1 where run: "interrupted_transfer store i d content k (g1, a1) (g2, a2) fs = (Inr (sha256 content), fs1)"
    "fs_script fs1 = []" "fs_lookup fs1 (object_data_path store ?i ?g) = Some (File content)"
    "\<not> list_ex (is_file fs1) (prefixes (butlast (marker_target store m)))" "fs_lookup fs1 (marker_target store m) = None"
    "fs_lookup fs1 (replace_temporary (marker_target store m)) = None"
    using interrupted_transfer_done [OF assms(1-5), of "(g1, a1)" "(g2, a2)"] assms(6,7) target by auto
  have valid: "marker_valid (sealed_marker m)"
    using assms(9) by (simp add: commit_marker_wf_def)
  obtain fs2 where written: "write_commit_marker store m fs1 = (Inr (), fs2)" "fs_script fs2 = []"
    "fs_lookup fs2 (marker_target store m) = Some (File (marker_bytes (sealed_marker m)))"
    "\<forall>q. \<not> prefix q (marker_target store m) \<longrightarrow> fs_lookup fs2 q = fs_lookup fs1 q"
    using write_commit_marker_new [OF assms(10) valid run(2,4-6)] by blast
  have "\<not> prefix (object_data_path store ?i ?g) (marker_target store m)"
    by (auto simp: marker_target_def commit_marker_path_def object_data_path_def object_directory_def)
  then have data: "fs_lookup fs2 (object_data_path store ?i ?g) = Some (File content)"
    using written(4) run(3) by simp
  have "marker_for ?i ?g (sealed_marker m)"
    using assms(8-10) by (simp add: marker_for_def)
  then have "authoritative store ?i ?g (sealed_marker m) fs2"
    using written(3) data assms(3,8) target by (simp add: authoritative_def fs_exists_def file_contents_def)
  then obtain report where "authority store ?i ?g fs2 = (Inr report, fs2)" "oa_authoritative report"
    "oa_marker_digest report = cm_marker_digest (sealed_marker m)"
    using authority_done [OF written(2)] by blast
  moreover have "digest_object store ?i ?g fs2 = (Inr (sha256 content, so_total_bytes d), fs2)"
    using digest_object_done [OF written(2) data] assms(3) by simp
  ultimately show ?thesis
    using run(1) written(1) by blast
qed

theorem interrupted_transfer_places_object_witness:
  "\<exists>fs1 fs2 report. interrupted_transfer sample_root 5 sample_object sample_content 2 (1, 1) (1, 2) empty_disk =
      (Inr (sha256 sample_content), fs1) \<and>
    write_commit_marker sample_root sample_marker fs1 = (Inr (), fs2) \<and>
    authority sample_root sample_id 1 fs2 = (Inr report, fs2) \<and> oa_authoritative report \<and>
    digest_object sample_root sample_id 1 fs2 = (Inr (sha256 sample_content, 2500), fs2)"
  using interrupted_transfer_places_object [OF sample_vacant sample_object_valid sample_sizes(1), of 2 1 1 sample_marker 1 2]
    sample_sizes sealed_sample_for(2,3)
  by (simp add: sample_marker_sealed) (auto simp: sample_marker_def sample_object_def)

section \<open>Commit markers and authority\<close>


definition sample_placed :: file_system where
  "sample_placed = empty_disk\<lparr>fs_nodes :=
     [(commit_marker_path sample_root sample_id 1, File (marker_bytes sealed_sample)),
      (object_data_path sample_root sample_id 1, File sample_content)]\<rparr>"

lemma sample_placed_nodes:
  "fs_lookup sample_placed (commit_marker_path sample_root sample_id 1) = Some (File (marker_bytes sealed_sample))"
  "fs_lookup sample_placed (object_data_path sample_root sample_id 1) = Some (File sample_content)"
  "fs_script sample_placed = []"
proof -
  have "object_data_path sample_root sample_id 1 \<noteq> commit_marker_path sample_root sample_id 1"
    by (auto simp: commit_marker_path_def object_data_path_def object_directory_def)
  then show "fs_lookup sample_placed (commit_marker_path sample_root sample_id 1) = Some (File (marker_bytes sealed_sample))"
    "fs_lookup sample_placed (object_data_path sample_root sample_id 1) = Some (File sample_content)"
    "fs_script sample_placed = []"
    by (simp_all add: sample_placed_def fs_lookup_def empty_disk_def)
qed


text \<open>C23: A commit marker is written once per object version: when one that reads back is on disk and no
  call fails, writing a sealed marker for the same version succeeds only if it has the same digest, is
  refused as already existing otherwise, and in both cases leaves the disk as it was.\<close>

theorem commit_marker_write_once:
  assumes "fs_script fs = []" "fs_lookup fs (marker_target store m) = Some (File (marker_bytes old))" "commit_marker_wf old"
    "marker_sealed (sealed_marker m)" "marker_valid (sealed_marker m)"
  shows "write_commit_marker store m fs =
    (if cm_marker_digest old = cm_marker_digest (sealed_marker m) then Inr ()
     else err COMMIT_ALREADY_EXISTS ''a different commit marker already exists for this object version'', fs)"
  using write_commit_marker_again [OF assms(4,5,1-3)] .

theorem commit_marker_write_once_witness:
  "write_commit_marker sample_root sample_marker sample_placed = (Inr (), sample_placed)"
proof -
  have "marker_target sample_root sample_marker = commit_marker_path sample_root sample_id 1"
    by (simp add: marker_target_def sample_marker_def sample_object_def)
  moreover have "marker_valid sealed_sample"
    using sealed_sample_for(2) by (simp add: commit_marker_wf_def)
  ultimately show ?thesis
    using commit_marker_write_once [of sample_placed sample_root sample_marker sealed_sample] sealed_sample_for sample_placed_nodes
    by (simp add: sample_marker_sealed)
qed

section \<open>Reading back and cleaning up\<close>

text \<open>Hashing a placed object never reports a wrong digest: whichever reads fail, a reported digest is
  the SHA-256 of all of its bytes, the reported size is their number, and nothing on disk changes.\<close>

lemma object_digest_sound:
  assumes "digest_object store i g fs = (Inr (d, n), fs')"
  shows "\<exists>content. fs_lookup fs (object_data_path store i g) = Some (File content) \<and> d = sha256 content \<and>
    n = word_of_nat (length content) \<and> fs_lookup fs' = fs_lookup fs"
  using digest_object_any(1) [OF assms] digest_object_any(2) [OF assms refl] by (auto simp: is_file_iff)

text \<open>C24: Whichever system calls fail, cleanup leaves the placed bytes and the commit marker of every other
  object version as they were, and those of the version it names too unless it is asked to remove them.\<close>

theorem cleanup_keeps_other_versions:
  assumes "cleanup store t fs = (r, fs')" "\<not> (ct_remove_placed t \<and> i = ct_object_id t \<and> g = ct_generation t)"
  shows "fs_lookup fs' (object_data_path store i g) = fs_lookup fs (object_data_path store i g) \<and>
    fs_lookup fs' (commit_marker_path store i g) = fs_lookup fs (commit_marker_path store i g)"
proof -
  have marker: "\<not> prefix (commit_marker_path store k h) (commit_marker_path store i g)" if "\<not> (i = k \<and> g = h)" for k h
    using that version_paths(3) [of store k h i g] by (auto simp: commit_marker_path_def)
  have "fs_lookup fs' (object_data_path store i g) = fs_lookup fs (object_data_path store i g)"
    by (rule cleanup_any [OF assms(1)]) (use assms(2) version_paths in auto)
  moreover have "fs_lookup fs' (commit_marker_path store i g) = fs_lookup fs (commit_marker_path store i g)"
    by (rule cleanup_any [OF assms(1)]) (use assms(2) version_paths marker in auto)
  ultimately show ?thesis
    by simp
qed

theorem cleanup_keeps_other_versions_witness:
  "fs_lookup (snd (cleanup sample_root \<lparr>ct_movement_id = 5, ct_object_id = sample_id, ct_generation = 2, ct_quarantine = True,
       ct_remove_placed = True\<rparr> sample_placed)) (object_data_path sample_root sample_id 1) = Some (File sample_content)"
  using cleanup_keeps_other_versions [OF prod.collapse [symmetric], of
      "\<lparr>ct_movement_id = 5, ct_object_id = sample_id, ct_generation = 2, ct_quarantine = True, ct_remove_placed = True\<rparr>" sample_id 1
      sample_root sample_placed] sample_placed_nodes(2)
  by simp

section \<open>Where the code departs from its intent\<close>

text \<open>
  A marker that cannot be read is treated as absent: one transient failure to open it lets a
  different marker for the same version replace it.
\<close>

lemma transient_failure_replaces_marker:
  assumes "fs_script fs = [IO_failed k]" "fs_lookup fs (marker_target store m) = Some (File (marker_bytes old))"
    "marker_sealed (sealed_marker m)" "marker_valid (sealed_marker m)"
    "\<not> list_ex (is_file fs) (prefixes (butlast (marker_target store m)))"
    "fs_lookup fs (replace_temporary (marker_target store m)) = None"
  shows "\<exists>fs'. write_commit_marker store m fs = (Inr (), fs') \<and>
    fs_lookup fs' (marker_target store m) = Some (File (marker_bytes (sealed_marker m)))"
proof -
  let ?t = "marker_target store m" and ?fs = "fs\<lparr>fs_script := []\<rparr>"
  have t: "?t \<noteq> []" "\<not> prefix ?t (butlast ?t)" "\<not> prefix (replace_temporary ?t) (butlast ?t)"
    by (simp_all add: marker_target_def)
  have missed: "existing_marker ?t fs = (None, ?fs)"
    using assms(1,2) by (simp add: existing_marker_def fs_exists_def with_handle_def bind_io_def FileHandle_open_def
        FileHandle_close_def fopen_existing_def os_outcome_def)
  have "\<not> list_ex (is_file ?fs) (prefixes (butlast ?t))"
    using assms(5) by (simp add: list_ex_iff)
  then obtain fs1 where created: "fs_create_directories (butlast ?t) ?fs = (False, fs1)" "fs_script fs1 = []"
    "fs_lookup fs1 = (\<lambda>q. if prefix q (butlast ?t) \<and> q \<noteq> [] then Some Directory else fs_lookup ?fs q)"
    using fs_create_directories_done [of ?fs] by auto
  have "is_directory fs1 (butlast ?t)" "fs_lookup fs1 ?t \<noteq> Some Directory" "fs_lookup fs1 (replace_temporary ?t) = None"
    using created(3) t assms(2,6) by (auto simp: is_directory_def)
  then obtain fs2 where "atomic_replace_file ?t (marker_bytes (sealed_marker m)) (oso_sync_on_write store) fs1 = (Inr (), fs2)"
    "fs_lookup fs2 = (fs_lookup fs1)(?t := Some (File (marker_bytes (sealed_marker m))))"
    using atomic_replace_file_done [OF created(2) t(1)] by blast
  then show ?thesis
    using missed created(1) by (simp add: write_commit_marker_eq [OF assms(3,4)])
qed

text \<open>
  \<open>finish\<close> takes the digest out of the running hash before it syncs: when the sync fails, a second
  call succeeds and reports the digest of the empty string.
\<close>

lemma retried_finish_reports_empty_digest:
  assumes "sw_open w" "sw_file w = Some f" "fs_script fs = [IO_failed k]"
    "sj_verified_chunks (sw_journal w) = so_chunk_count (writer_object w)"
    "sj_verified_bytes (sw_journal w) = so_total_bytes (writer_object w)"
  shows "\<exists>e w1 fs1 w2 fs2. StagingWriter_finish (w, fs) = (Inl e, (w1, fs1)) \<and>
    StagingWriter_finish (w1, fs1) = (Inr (sha256 []), (w2, fs2))"
proof -
  have reset: "snd (Sha256_finalize st) = Sha256_reset" for st
    by (simp add: Sha256_finalize_def Let_def)
  have empty: "Sha256_finalize Sha256_reset = (sha256 [], Sha256_reset)"
    using Sha256_finalize_absorbed [OF sha_absorbed_reset] by (simp add: sha256_eq_reference)
  let ?w = "w\<lparr>sw_running := Sha256_reset\<rparr>"
  obtain content where "Sha256_finalize (sw_running w) = (content, Sha256_reset)"
    using reset by (metis prod.collapse)
  then have "\<exists>e. StagingWriter_finish (w, fs) = (Inl e, (?w, fs\<lparr>fs_script := []\<rparr>))"
    using assms by (simp add: StagingWriter_finish_def Let_def bind_io_def modify_writer_def on_staged_def FileHandle_sync_def
        on_system_def os_call_def os_outcome_def)
  moreover have "\<exists>w2. StagingWriter_finish (?w, fs\<lparr>fs_script := []\<rparr>) = (Inr (sha256 []), (w2, fs\<lparr>fs_script := []\<rparr>))"
    using assms(1,2,4,5) empty
    by (simp add: StagingWriter_finish_def Let_def bind_io_def modify_writer_def on_staged_def io_simps return_io_def)
  ultimately show ?thesis
    by blast
qed

end
