(* ===== verification/SMF_Frames.thy ===== *)
theory SMF_Frames
  imports SMF_Placement SMF_Cleanup
begin

text \<open>
  What the operations of the object store leave alone, whichever system calls fail: a transfer
  works inside its staging directory, publishing adds the bytes of one version, and a commit
  writes one marker.
\<close>

section \<open>Handles away from a path\<close>

lemma avoids_lift [avoids_intros]: "avoids p (lift_io r)" "avoids p (fail_io c what)"
  by (simp_all add: avoids_def lift_io_def fail_io_def)

lemma avoids_seek [avoids_intros]: "avoids p (FileHandle_seek n)"
proof -
  have step: "fs_lookup fs' p = fs_lookup fs p \<and> p \<notin> hd_path ` set_option h'"
    if "FileHandle_seek n (h, fs) = (r, (h', fs'))" "p \<notin> hd_path ` set_option h" for h fs r h' fs'
  proof (cases h)
    case (Some f)
    then show ?thesis
      using that FileHandle_seek_any [of n f fs r h' fs' "()"] by auto
  qed (use that in \<open>simp add: FileHandle_seek_def\<close>)
  then show ?thesis
    unfolding avoids_def by blast
qed

lemma avoids_read [avoids_intros]: "avoids p (FileHandle_read n)"
  by (auto simp: avoids_def FileHandle_read_def Let_def dest!: os_outcome_lookup
      split: option.splits prod.splits if_splits io_outcome.splits)

lemma avoids_size [avoids_intros]: "avoids p FileHandle_size"
proof -
  have "fs_lookup fs' p = fs_lookup fs p \<and> p \<notin> hd_path ` set_option h'"
    if "FileHandle_size (h, fs) = (r, (h', fs'))" "p \<notin> hd_path ` set_option h" for h fs r h' fs'
  proof (cases h)
    case (Some f)
    then show ?thesis
      using that FileHandle_size_any(1,2) [of f fs r h' fs'] by auto
  qed (use that in \<open>simp add: FileHandle_size_def\<close>)
  then show ?thesis
    unfolding avoids_def by blast
qed

lemma avoids_truncate [avoids_intros]: "avoids p (FileHandle_truncate_at n)"
proof -
  have "fs_lookup fs' p = fs_lookup fs p \<and> p \<notin> hd_path ` set_option h'"
    if run: "FileHandle_truncate_at n (h, fs) = (r, (h', fs'))" and away: "p \<notin> hd_path ` set_option h" for h fs r h' fs'
  proof (cases h)
    case (Some f)
    have "avoids p (\<lambda>(h, fs). FileHandle_seek n
        (h, set_contents (hd_path f) (resize n (file_contents fs (hd_path f))) fs))"
      unfolding avoids_def
    proof (intro allI impI)
      fix h1 fs1 r1 h1' fs1'
      assume h1: "p \<notin> hd_path ` set_option h1" and seek: "(\<lambda>(h, fs). FileHandle_seek n
        (h, set_contents (hd_path f) (resize n (file_contents fs (hd_path f))) fs)) (h1, fs1) = (r1, (h1', fs1'))"
      show "p \<notin> hd_path ` set_option h1' \<and> fs_lookup fs1' p = fs_lookup fs1 p"
        using avoidsD [OF avoids_seek h1 seek [unfolded prod.case]] away Some by simp
    qed
    then have "avoids p (bind_io (on_system (os_call ''flush before truncate failed'')) (\<lambda>_.
        bind_io (on_system (os_call ''truncate failed'')) (\<lambda>_ (h, fs).
          FileHandle_seek n (h, set_contents (hd_path f) (resize n (file_contents fs (hd_path f))) fs))))"
      by (intro avoids_intros)
    from avoidsD [OF this away] show ?thesis
      using run Some by (simp add: FileHandle_truncate_at_def)
  qed (use that in \<open>simp add: FileHandle_truncate_at_def\<close>)
  then show ?thesis
    unfolding avoids_def by blast
qed

lemma avoids_try [avoids_intros]: "avoids p m \<Longrightarrow> avoids p (try_io m)"
  unfolding avoids_def try_io_def by (auto split: prod.splits)

lemma avoids_rehash: "avoids p (rehash_prefix object digests n index offset running)"
proof (induction n arbitrary: index offset running)
  case (Suc n)
  then show ?case
    by (auto split: sum.splits intro!: avoids_intros)
qed (simp add: avoids_intros)

section \<open>Outside a staging directory\<close>

definition outside_staging :: "object_store_options \<Rightarrow> movement_id \<Rightarrow> path \<Rightarrow> bool" where
  "outside_staging store i q \<longleftrightarrow> \<not> prefix q (staging_directory store i) \<and> \<not> prefix (staging_directory store i) q"

lemma outside_staging_paths:
  assumes "outside_staging store i q"
  shows "q \<noteq> staging_data_path store i" "q \<noteq> staging_journal_path store i"
    "q \<noteq> replace_temporary (staging_journal_path store i)" "\<not> prefix q (staging_directory store i)"
    "\<not> prefix (staging_directory store i) q"
  using assms
  by (auto simp: outside_staging_def staging_data_path_def staging_journal_path_def replace_temporary_def path_suffix_def
      butlast_append)

lemma outside_staging_placed [simp]:
  "outside_staging store i (object_data_path store k g)" "outside_staging store i (commit_marker_path store k g)"
  by (auto simp: outside_staging_def staging_directory_def object_data_path_def object_directory_def commit_marker_path_def
      dest: prefix_length_le)

lemma save_journal_frame:
  assumes "save_journal store j fs = (r, fs')" "outside_staging store (sj_movement_id j) q"
  shows "fs_lookup fs' q = fs_lookup fs q"
proof -
  note q = outside_staging_paths [OF assms(2)]
  obtain e fs1 where created: "fs_create_directories (staging_directory store (sj_movement_id j)) fs = (e, fs1)"
    by fastforce
  show ?thesis
    using assms(1) created fs_create_directories_any [OF created] q(4)
      atomic_replace_file_others [OF _ q(2,3), of _ _ fs1 r fs']
    by (auto simp: save_journal_def Let_def split: if_splits)
qed

lemma avoids_save_journal: "outside_staging store (sj_movement_id j) q \<Longrightarrow> avoids q (on_system (save_journal store j))"
  by (auto simp: avoids_def on_system_def dest: save_journal_frame split: prod.splits)

lemma discard_staging_frame:
  "discard_staging store i fs = (r, fs') \<Longrightarrow> outside_staging store i q \<Longrightarrow> fs_lookup fs' q = fs_lookup fs q"
  by (auto simp: discard_staging_def Let_def dest: fs_remove_all_any outside_staging_paths(5) split: prod.splits if_splits)

lemma opened_writer_frame:
  assumes "opened_writer store journaling j m fs = (r, fs')" "avoids q m"
  shows "fs_lookup fs' q = fs_lookup fs q"
  using assms avoidsD [OF assms(2), of None fs]
  by (auto simp: opened_writer_def split: prod.splits sum.splits)

lemma StagingWriter_begin_frame:
  assumes "StagingWriter_begin store i g attempt object fs = (r, fs')" "outside_staging store i q"
  shows "fs_lookup fs' q = fs_lookup fs q"
proof -
  note out = outside_staging_paths [OF assms(2)]
  let ?journaling = "oso_allow_resume store \<and> unat (so_chunk_count object) \<le> 65536"
  obtain e1 fs1 where created: "fs_create_directories (staging_directory store i) fs = (e1, fs1)" by fastforce
  obtain found fs2 where found: "(if ?journaling then stored_progress store i object fs1 else (None, fs1)) = (found, fs2)"
    by fastforce
  have same: "fs_lookup fs1 q = fs_lookup fs q" "fs_lookup fs2 = fs_lookup fs1"
    using fs_create_directories_any [OF created] out(4) found stored_progress_any(1) by (auto split: if_splits)
  have resume: "avoids q (resume_staged (staging_data_path store i) object j)" for j
    unfolding resume_staged_def using out(1) by (intro avoids_intros avoids_rehash)
  have start: "avoids q (start_staged store journaling j)" if "sj_movement_id j = i" for journaling j
    unfolding start_staged_def using out(1) assms(2) that
    by (intro avoids_intros avoids_save_journal) simp_all
  let ?j = "\<lparr>sj_movement_id = i, sj_movement_generation = g, sj_attempt = attempt, sj_object = object,
     sj_verified_chunks = 0, sj_verified_bytes = 0, sj_chunk_digests = []\<rparr>"
  have eq: "StagingWriter_begin store i g attempt object fs =
    (if \<not> Status_ok (StateObjectDescriptor_validate object) then (Inl (StateObjectDescriptor_validate object), fs)
     else if e1 then (err STORE_IO_ERROR ''could not create the staging directory'', fs1)
     else case found of
       Some stored \<Rightarrow> opened_writer store ?journaling (stored\<lparr>sj_movement_generation := g, sj_attempt := attempt\<rparr>)
         (resume_staged (staging_data_path store i) object (stored\<lparr>sj_movement_generation := g, sj_attempt := attempt\<rparr>)) fs2
     | None \<Rightarrow> bind_io (discard_staging store i) (\<lambda>_ fs.
         let (_, fs) = fs_create_directories (staging_directory store i) fs
         in opened_writer store ?journaling ?j (start_staged store ?journaling ?j) fs) fs2)"
    unfolding StagingWriter_begin_def Let_def created prod.case found by (simp split: option.split)
  show ?thesis
  proof (cases "\<not> Status_ok (StateObjectDescriptor_validate object) \<or> e1")
    case True
    then show ?thesis
      using assms(1) same(1) by (auto simp: eq split: if_splits)
  next
    case ok: False
    show ?thesis
    proof (cases found)
      case (Some stored)
      have "fs_lookup fs' q = fs_lookup fs2 q"
        using assms(1) ok Some by (intro opened_writer_frame [OF _ resume]) (simp add: eq)
      then show ?thesis
        using same by simp
    next
      case None
      obtain r3 fs3 where gone: "discard_staging store i fs2 = (r3, fs3)" by fastforce
      obtain e4 fs4 where again: "fs_create_directories (staging_directory store i) fs3 = (e4, fs4)" by fastforce
      obtain r5 fs5 where opened: "opened_writer store ?journaling ?j (start_staged store ?journaling ?j) fs4 = (r5, fs5)"
        by fastforce
      have "fs' = fs3 \<or> fs' = fs5"
        using assms(1) ok None gone again opened by (cases r3) (simp_all add: eq bind_io_def)
      moreover have "fs_lookup fs3 q = fs_lookup fs2 q" "fs_lookup fs4 q = fs_lookup fs3 q" "fs_lookup fs5 q = fs_lookup fs4 q"
        using discard_staging_frame [OF gone assms(2)] fs_create_directories_any [OF again] out(4)
          opened_writer_frame [OF opened start] by simp_all
      ultimately show ?thesis
        using same by auto
    qed
  qed
qed

section \<open>A writer away from a path\<close>

definition apart :: "path \<Rightarrow> staging_writer \<Rightarrow> bool" where
  "apart q w \<longleftrightarrow> outside_staging (sw_store w) (sj_movement_id (sw_journal w)) q \<and> q \<notin> hd_path ` set_option (sw_file w)"

definition writer_avoids :: "path \<Rightarrow> (writer_world, 'a) io \<Rightarrow> bool" where
  "writer_avoids q m \<longleftrightarrow> (\<forall>w fs r w' fs'. apart q w \<longrightarrow> m (w, fs) = (r, (w', fs')) \<longrightarrow>
     apart q w' \<and> fs_lookup fs' q = fs_lookup fs q)"

named_theorems writer_avoids_intros

lemma writer_avoidsD:
  "writer_avoids q m \<Longrightarrow> apart q w \<Longrightarrow> m (w, fs) = (r, (w', fs')) \<Longrightarrow> apart q w' \<and> fs_lookup fs' q = fs_lookup fs q"
  unfolding writer_avoids_def by blast

lemma writer_avoids_bind [writer_avoids_intros]:
  assumes "writer_avoids q m" "\<And>x. writer_avoids q (k x)"
  shows "writer_avoids q (bind_io m k)"
  unfolding writer_avoids_def
proof (intro allI impI)
  fix w fs r w' fs'
  assume w: "apart q w" and run: "bind_io m k (w, fs) = (r, (w', fs'))"
  obtain r1 w1 fs1 where m: "m (w, fs) = (r1, (w1, fs1))"
    by (metis prod.collapse)
  note first = writer_avoidsD [OF assms(1) w m]
  show "apart q w' \<and> fs_lookup fs' q = fs_lookup fs q"
  proof (cases r1)
    case (Inl e)
    then show ?thesis using first run m by (simp add: bind_io_def)
  next
    case (Inr x)
    then have "k x (w1, fs1) = (r, (w', fs'))"
      using run m by (simp add: bind_io_def)
    then show ?thesis
      using first writer_avoidsD [OF assms(2)] by fastforce
  qed
qed

lemma writer_avoids_pure [writer_avoids_intros]:
  "writer_avoids q (return_io x)" "writer_avoids q (fail_io c what)" "writer_avoids q (lift_io r)"
  by (simp_all add: writer_avoids_def return_io_def fail_io_def lift_io_def)

lemma writer_avoids_if [writer_avoids_intros]:
  "writer_avoids q m \<Longrightarrow> writer_avoids q m' \<Longrightarrow> writer_avoids q (if b then m else m')"
  by simp

lemma writer_avoids_staged [writer_avoids_intros]: "avoids q m \<Longrightarrow> writer_avoids q (on_staged m)"
  unfolding writer_avoids_def
proof (intro allI impI)
  fix w fs r w' fs'
  assume m: "avoids q m" and w: "apart q w" and run: "on_staged m (w, fs) = (r, (w', fs'))"
  obtain h' where "m (sw_file w, fs) = (r, (h', fs'))" "w' = w\<lparr>sw_file := h'\<rparr>"
    using run by (auto simp: on_staged_def split: prod.splits)
  then show "apart q w' \<and> fs_lookup fs' q = fs_lookup fs q"
    using avoidsD [OF m, of "sw_file w" fs r h' fs'] w by (simp add: apart_def)
qed

lemma writer_avoids_modify:
  "(\<And>w. sw_store (f w) = sw_store w \<and> sj_movement_id (sw_journal (f w)) = sj_movement_id (sw_journal w) \<and>
     set_option (sw_file (f w)) \<subseteq> set_option (sw_file w)) \<Longrightarrow> writer_avoids q (modify_writer f)"
  unfolding writer_avoids_def modify_writer_def apart_def by fastforce

lemma writer_avoids_state [writer_avoids_intros]:
  "(\<And>w. writer_avoids q (k w)) \<Longrightarrow> writer_avoids q (\<lambda>(w, fs). k w (w, fs))"
  unfolding writer_avoids_def by fastforce

lemma writer_avoids_journal: "writer_avoids q (\<lambda>(w, fs).
    if sw_journaling w
    then case save_journal (sw_store w) (sw_journal w) fs of (r, fs) \<Rightarrow> (r, (w, fs))
    else (Inr (), (w, fs)))"
  unfolding writer_avoids_def apart_def by (auto dest: save_journal_frame split: prod.splits if_splits)

lemma writer_avoids_store: "writer_avoids q (store_chunk offset len payload dg)"
proof -
  have last: "writer_avoids q (\<lambda>(w, fs). (Inr (writer_state w), (w, fs)))"
    by (simp add: writer_avoids_def)
  have accept: "writer_avoids q (modify_writer (chunk_accepted len payload dg))"
    by (rule writer_avoids_modify) (simp add: chunk_accepted_def Let_def)
  show ?thesis
    unfolding store_chunk_def
    by (intro writer_avoids_intros avoids_intros accept last writer_avoids_journal)
qed

lemma writer_avoids_replay: "writer_avoids q (replay_chunk index offset len dg)"
proof -
  have eq: "replay_chunk index offset len dg = (\<lambda>(w, fs).
      (let object = sj_object (sw_journal w)
       in if sw_journaling w \<and> sj_chunk_digests (sw_journal w) ! unat index \<noteq> dg
          then fail_io CHUNK_CONFLICT ''a replayed chunk does not match the digest already recorded for its index''
          else bind_io (on_staged (FileHandle_seek (unat offset))) (\<lambda>_.
            bind_io (on_staged (FileHandle_read (unat len))) (\<lambda>buffer.
              if length buffer \<noteq> unat len
              then fail_io CHUNK_CONFLICT ''stored bytes ended inside the replayed chunk''
              else if compute_chunk_digest (so_object_id object) (so_generation object) index offset len buffer \<noteq> dg
              then fail_io CHUNK_CONFLICT ''a replayed chunk does not match the bytes already stored for its index''
              else return_io (writer_state w)))) (w, fs))"
    by (rule ext) (auto simp: replay_chunk_def Let_def fail_io_def)
  show ?thesis
    unfolding eq Let_def by (intro writer_avoids_intros avoids_intros)
qed

lemma StagingWriter_append_frame: "writer_avoids q (StagingWriter_append index offset payload dg)"
  unfolding writer_avoids_def
proof (intro allI impI)
  fix w fs r w' fs'
  assume w: "apart q w" and run: "StagingWriter_append index offset payload dg (w, fs) = (r, (w', fs'))"
  consider "w' = w" "fs' = fs"
    | len where "replay_chunk index offset len dg (w, fs) = (r, (w', fs'))"
    | len where "store_chunk offset len payload dg (w, fs) = (r, (w', fs'))"
    using run unfolding StagingWriter_append_def
    by (auto simp: Let_def not_le split: if_splits sum.splits)
  then show "apart q w' \<and> fs_lookup fs' q = fs_lookup fs q"
    using w writer_avoidsD [OF writer_avoids_replay w] writer_avoidsD [OF writer_avoids_store w]
    by cases (simp, blast, blast)
qed

lemma StagingWriter_finish_frame: "writer_avoids q StagingWriter_finish"
proof -
  have tail: "writer_avoids q (bind_io (modify_writer (\<lambda>w. w\<lparr>sw_running := running\<rparr>)) (\<lambda>_.
      bind_io (on_staged FileHandle_sync) (\<lambda>_.
      bind_io (modify_writer (\<lambda>w. (close_staged w)\<lparr>sw_completed := True\<rparr>)) (\<lambda>_. return_io content))))" for running content
    by (intro writer_avoids_intros avoids_intros writer_avoids_modify) (simp_all add: close_staged_def)
  show ?thesis
    unfolding writer_avoids_def
  proof (intro allI impI)
    fix w fs r w' fs'
    assume w: "apart q w" and run: "StagingWriter_finish (w, fs) = (r, (w', fs'))"
    obtain content running where fin: "Sha256_finalize (sw_running w) = (content, running)" by fastforce
    show "apart q w' \<and> fs_lookup fs' q = fs_lookup fs q"
      using run writer_avoidsD [OF tail w, of running content fs r w' fs'] w
      unfolding StagingWriter_finish_def Let_def fin prod.case by (auto split: if_splits)
  qed
qed

lemma writer_run_frame:
  assumes "writer_run (w, fs) (w', fs')" "apart q w"
  shows "apart q w' \<and> fs_lookup fs' q = fs_lookup fs q"
  using assms
proof (induction "(w, fs)" "(w', fs')" arbitrary: w' fs' rule: writer_run.induct)
  case (writer_run_append w1 fs1 index offset payload dg r)
  then show ?case
    using writer_avoidsD [OF StagingWriter_append_frame] by metis
qed simp

section \<open>Publishing and committing\<close>

lemma sync_existing_file_any: "sync_existing_file p fs = (r, fs') \<Longrightarrow> fs_lookup fs' = fs_lookup fs"
  by (auto simp: sync_existing_file_def Let_def dest!: os_outcome_lookup os_call_lookup split: if_splits prod.splits)

lemma fs_rename_others:
  assumes "fs_rename a b fs = (e, fs')" "fs_lookup fs a = Some (File c)" "a \<noteq> b" "q \<noteq> a" "q \<noteq> b"
  shows "fs_lookup fs' q = fs_lookup fs q"
  using fs_rename_file [OF assms(1-3)] assms(4,5) by (auto split: if_splits)

lemma promote_staging_any:
  assumes "promote_staging store i object fs = (r, fs')" "fs_lookup fs (staging_data_path store i) = Some (File b)"
  defines "target \<equiv> object_data_path store (so_object_id object) (so_generation object)"
  shows "fs_lookup fs' target \<in> {fs_lookup fs target, None, Some (File b)}"
    "q \<noteq> target \<Longrightarrow> outside_staging store i q \<Longrightarrow>
     \<not> prefix q (object_directory store (so_object_id object) (so_generation object)) \<Longrightarrow> fs_lookup fs' q = fs_lookup fs q"
proof -
  let ?s = "staging_data_path store i" and ?dir = "object_directory store (so_object_id object) (so_generation object)"
  let ?sync = "if oso_sync_on_write store then sync_existing_file target else return_io ()"
  obtain e1 fs1 where created: "fs_create_directories ?dir fs = (e1, fs1)" by fastforce
  obtain e2 fs2 where cleared: "(if fs_exists fs1 target then fs_remove target fs1 else (False, fs1)) = (e2, fs2)" by fastforce
  obtain e3 fs3 where renamed: "fs_rename ?s target fs2 = (e3, fs3)" by fastforce
  obtain r4 fs4 where synced: "?sync fs3 = (r4, fs4)" by fastforce
  obtain e5 fs5 where removed: "fs_remove_all (staging_directory store i) fs4 = (e5, fs5)" by fastforce
  have ends: "fs' \<in> {fs, fs1, fs2, fs3, fs4, fs5}"
    using assms(1) unfolding promote_staging_def Let_def bind_io_def created cleared renamed prod.case synced
      target_def [symmetric]
    by (auto simp: cleared renamed synced removed split: if_splits sum.splits)
  have s: "fs_lookup fs1 ?s = Some (File b)" "fs_lookup fs2 ?s = Some (File b)" "?s \<noteq> target"
    using fs_create_directories_any [OF created] assms(2) cleared fs_remove_lookup [of target fs1 e2 fs2 ?s]
    by (auto simp: target_def split: if_splits)
  have t: "fs_lookup fs1 target = fs_lookup fs target" "fs_lookup fs2 target \<in> {fs_lookup fs1 target, None}"
    "fs_lookup fs3 target \<in> {fs_lookup fs2 target, Some (File b)}" "fs_lookup fs4 = fs_lookup fs3"
    "fs_lookup fs5 target = fs_lookup fs4 target"
  proof -
    show "fs_lookup fs1 target = fs_lookup fs target"
      using fs_create_directories_any [OF created] by (simp add: target_def)
    show "fs_lookup fs2 target \<in> {fs_lookup fs1 target, None}"
      using cleared by (auto simp: fs_remove_def dest!: os_outcome_lookup split: if_splits prod.splits io_outcome.splits)
    show "fs_lookup fs3 target \<in> {fs_lookup fs2 target, Some (File b)}"
      using fs_rename_file [OF renamed s(2,3)] by (auto split: if_splits)
    show "fs_lookup fs4 = fs_lookup fs3"
      using synced sync_existing_file_any by (auto simp: return_io_def split: if_splits)
    show "fs_lookup fs5 target = fs_lookup fs4 target"
      using fs_remove_all_any [OF removed] by (simp add: target_def)
  qed
  then show "fs_lookup fs' target \<in> {fs_lookup fs target, None, Some (File b)}"
    using ends by auto
  assume q: "q \<noteq> target" "outside_staging store i q" "\<not> prefix q ?dir"
  have "fs_lookup fs1 q = fs_lookup fs q" "fs_lookup fs2 q = fs_lookup fs1 q" "fs_lookup fs3 q = fs_lookup fs2 q"
    "fs_lookup fs5 q = fs_lookup fs4 q"
    using fs_create_directories_any [OF created] q cleared fs_remove_lookup [of target fs1 e2 fs2 q]
      fs_rename_others [OF renamed s(2,3)] outside_staging_paths [OF q(2)] fs_remove_all_any [OF removed]
    by (auto split: if_splits)
  then show "fs_lookup fs' q = fs_lookup fs q"
    using ends t(4) by auto
qed

lemma promote_staging_frame:
  assumes "promote_staging store i object fs = (r, fs')" "outside_staging store i q"
    "\<not> prefix (object_data_path store (so_object_id object) (so_generation object)) q"
    "\<not> prefix q (object_directory store (so_object_id object) (so_generation object))"
  shows "fs_lookup fs' q = fs_lookup fs q"
proof -
  let ?s = "staging_data_path store i" and ?t = "object_data_path store (so_object_id object) (so_generation object)"
  let ?sync = "if oso_sync_on_write store then sync_existing_file ?t else return_io ()"
  obtain e1 fs1 where created: "fs_create_directories (object_directory store (so_object_id object) (so_generation object)) fs = (e1, fs1)"
    by fastforce
  obtain e2 fs2 where cleared: "(if fs_exists fs1 ?t then fs_remove ?t fs1 else (False, fs1)) = (e2, fs2)" by fastforce
  obtain e3 fs3 where renamed: "fs_rename ?s ?t fs2 = (e3, fs3)" by fastforce
  obtain r4 fs4 where synced: "?sync fs3 = (r4, fs4)" by fastforce
  obtain e5 fs5 where removed: "fs_remove_all (staging_directory store i) fs4 = (e5, fs5)" by fastforce
  have ends: "fs' \<in> {fs, fs1, fs2, fs3, fs4, fs5}"
    using assms(1) unfolding promote_staging_def Let_def bind_io_def created cleared renamed prod.case synced
    by (auto simp: cleared renamed synced removed split: if_splits sum.splits)
  have "\<not> prefix ?s q" "q \<noteq> ?t"
    using assms(2,3) prefix_order.trans [OF staging_paths(4) [of store i], of q] by (auto simp: outside_staging_def)
  then have "fs_lookup fs1 q = fs_lookup fs q" "fs_lookup fs2 q = fs_lookup fs1 q" "fs_lookup fs3 q = fs_lookup fs2 q"
    "fs_lookup fs4 = fs_lookup fs3" "fs_lookup fs5 q = fs_lookup fs4 q"
    using fs_create_directories_any [OF created] assms(2-4) cleared fs_remove_lookup [of ?t fs1 e2 fs2 q]
      fs_rename_any [OF renamed] fs_remove_all_any [OF removed] synced sync_existing_file_any
    by (auto simp: outside_staging_def return_io_def split: if_splits)
  then show ?thesis
    using ends by auto
qed

lemma marker_apart [simp]:
  "commit_marker_path store k g \<noteq> object_data_path store i h"
  "\<not> prefix (object_data_path store i h) (commit_marker_path store k g)"
  "\<not> prefix (commit_marker_path store k g) (object_directory store i h)"
  "\<not> prefix (object_directory store i h) (commit_marker_path store k g)"
  by (auto simp: object_data_path_def object_directory_def commit_marker_path_def)

lemma object_data_path_inject [simp]:
  "object_data_path store k g = object_data_path store k' g' \<longleftrightarrow> k = k' \<and> g = g'"
  using version_paths(1) [of store k g k' g'] by (auto simp: object_data_path_def)

lemma write_commit_marker_any:
  assumes "write_commit_marker store m fs = (r, fs')" "fs_lookup fs (replace_temporary (marker_target store m)) = None"
  shows "fs_lookup fs' (marker_target store m) = fs_lookup fs (marker_target store m) \<or>
      marker_sealed (sealed_marker m) \<and> marker_valid (sealed_marker m) \<and>
      fs_lookup fs' (marker_target store m) = Some (File (marker_bytes (sealed_marker m)))"
    "q \<noteq> marker_target store m \<Longrightarrow> q \<noteq> replace_temporary (marker_target store m) \<Longrightarrow>
     \<not> prefix q (butlast (marker_target store m)) \<Longrightarrow> fs_lookup fs' q = fs_lookup fs q"
proof -
  let ?t = "marker_target store m" and ?b = "marker_bytes (sealed_marker m)"
  have "fs' = fs \<or> marker_sealed (sealed_marker m) \<and> marker_valid (sealed_marker m)"
    using assms(1) unfolding write_commit_marker_def Let_def sealed_marker_def [symmetric]
      marker_target_def [symmetric] marker_sealed_def by (simp only: sealed_marker_object) (auto split: if_splits)
  then have "(fs_lookup fs' ?t = fs_lookup fs ?t \<or>
      marker_sealed (sealed_marker m) \<and> marker_valid (sealed_marker m) \<and> fs_lookup fs' ?t = Some (File ?b)) \<and>
    (q \<noteq> ?t \<longrightarrow> q \<noteq> replace_temporary ?t \<longrightarrow> \<not> prefix q (butlast ?t) \<longrightarrow> fs_lookup fs' q = fs_lookup fs q)"
  proof
    assume ok: "marker_sealed (sealed_marker m) \<and> marker_valid (sealed_marker m)"
    obtain found fs1 where found: "existing_marker ?t fs = (found, fs1)" by fastforce
    obtain e fs2 where created: "fs_create_directories (butlast ?t) fs1 = (e, fs2)" by fastforce
    obtain r3 fs3 where replaced: "atomic_replace_file ?t ?b (oso_sync_on_write store) fs2 = (r3, fs3)" by fastforce
    have ends: "fs' \<in> {fs1, fs2, fs3}"
      using assms(1) ok found created replaced
      by (auto simp: write_commit_marker_eq split: option.splits if_splits)
    have t: "\<not> prefix ?t (butlast ?t)" "\<not> prefix (replace_temporary ?t) (butlast ?t)"
      by (simp_all add: marker_target_def)
    have two: "fs_lookup fs2 p = fs_lookup fs p" if "\<not> prefix p (butlast ?t)" for p
      using fs_create_directories_any [OF created, of p] existing_marker_any [OF found] that by simp
    have "fs_lookup fs2 (replace_temporary ?t) = None"
      using two [OF t(2)] assms(2) by simp
    note three = atomic_replace_file_cases [OF replaced this]
    show ?thesis
      using ends existing_marker_any [OF found] two [OF t(1)] two [of q] three ok by (auto split: if_splits)
  qed simp
  then show "fs_lookup fs' ?t = fs_lookup fs ?t \<or>
      marker_sealed (sealed_marker m) \<and> marker_valid (sealed_marker m) \<and> fs_lookup fs' ?t = Some (File ?b)"
    "q \<noteq> ?t \<Longrightarrow> q \<noteq> replace_temporary ?t \<Longrightarrow> \<not> prefix q (butlast ?t) \<Longrightarrow> fs_lookup fs' q = fs_lookup fs q"
    by blast+
qed

end
