(* ===== verification/SMF_Agent.thy ===== *)
theory SMF_Agent
  imports SMF_Object_Store SMF_Wire
begin

text \<open>
  The endpoint process (include/smf/endpoint_agent.hpp, src/endpoint_agent.cpp): its configuration and state,
  starting and registering, the control link and every request of the coordinator.

  The state of the process is a record; the disk is the file system its object store works on. A
  handler takes both and returns its status with what it leaves. The connections are operating
  system sockets, so \<open>send_all\<close> and \<open>receive_some\<close> are parameters, as in the framed stream. The
  clock, fresh identifiers and the answers a worker waits for enter as arguments. Every handler
  holds the locks of the maps it uses, so it is one step; log output and fault points are left out.
\<close>

section \<open>Configuration and state\<close>

record agent_config =
  ac_endpoint_id :: endpoint_id
  ac_store_root :: path
  ac_shared_secret :: bytes
  ac_capability :: string
  ac_policy :: movement_policy
  ac_max_data_sessions :: u32
  ac_max_concurrent_movements :: u32
  ac_allow_resume :: bool
  ac_sync_store :: bool

record endpoint_counters =
  ec_objects_published :: u64
  ec_transfers_served :: u64
  ec_transfers_received :: u64
  ec_chunks_written :: u64
  ec_duplicate_chunks :: u64
  ec_bytes_received :: u64
  ec_bytes_sent :: u64
  ec_refusals :: u64
  ec_sessions_accepted :: u64
  ec_sessions_refused :: u64

definition EndpointCounters_default :: endpoint_counters where
  "EndpointCounters_default =
    \<lparr>ec_objects_published = 0, ec_transfers_served = 0, ec_transfers_received = 0, ec_chunks_written = 0,
     ec_duplicate_chunks = 0, ec_bytes_received = 0, ec_bytes_sent = 0, ec_refusals = 0,
     ec_sessions_accepted = 0, ec_sessions_refused = 0\<rparr>"

record grant_entry =
  ge_grant :: transfer_grant
  ge_consumed :: bool
  ge_received_unix_millis :: u64

text \<open>The link to the coordinator; \<open>cl_pending\<close> holds the message names workers wait for.\<close>

record 'c control_link =
  cl_stream :: "frame_codec \<times> 'c"
  cl_alive :: bool
  cl_pending :: "string list"

record 'c endpoint_agent =
  ea_config :: agent_config
  ea_incarnation :: incarnation
  ea_service_address :: socket_address
  ea_data_address :: socket_address
  ea_policy_generation :: generation
  ea_topology_generation :: generation
  ea_store :: object_store_options
  ea_control :: "'c control_link option"
  ea_session_queue :: "'c list"
  ea_grants :: "(nonce \<times> grant_entry) list"
  ea_cancellations :: "(movement_id \<times> bool) list"
  ea_counters :: endpoint_counters
  ea_active_sessions :: u32
  ea_stopping :: bool

type_synonym 'c agent_world = "'c endpoint_agent \<times> file_system"

definition on_disk :: "(file_system, 'a) io \<Rightarrow> ('c agent_world, 'a) io" where
  "on_disk m = (\<lambda>(a, fs). case m fs of (r, fs) \<Rightarrow> (r, (a, fs)))"

definition modify_agent :: "('c endpoint_agent \<Rightarrow> 'c endpoint_agent) \<Rightarrow> ('c agent_world, unit) io" where
  "modify_agent f = (\<lambda>(a, fs). (Inr (), (f a, fs)))"

definition count_up :: "(endpoint_counters \<Rightarrow> endpoint_counters) \<Rightarrow> 'c endpoint_agent \<Rightarrow> 'c endpoint_agent" where
  "count_up f a = a\<lparr>ea_counters := f (ea_counters a)\<rparr>"

section \<open>Starting\<close>

definition capability_digest_for :: "endpoint_id \<Rightarrow> string \<Rightarrow> string \<Rightarrow> digest" where
  "capability_digest_for endpoint capability version =
     canonical_digest (enc_text ''SMF-ENDPOINT-CAPABILITY-v1'' @ enc_text endpoint @ enc_text capability @
       enc_text version)"

definition read_entire_file :: "path \<Rightarrow> nat \<Rightarrow> (file_system, bytes) io" where
  "read_entire_file p max_bytes = with_handle (
     bind_io (FileHandle_open p False) (\<lambda>_.
     bind_io FileHandle_size (\<lambda>size.
       if size > max_bytes
       then fail_io PROTOCOL_BOUNDS_EXCEEDED ''message exceeds the configured bound''
       else if size = 0 then return_io []
       else bind_io (FileHandle_read size) (\<lambda>out.
         if length out \<noteq> size
         then fail_io PROTOCOL_TRUNCATED ''message file was shorter than expected''
         else return_io out))))"

text \<open>The leading decimal digits of the epoch file, accumulated in 64 bits.\<close>

fun parse_epoch :: "u64 \<Rightarrow> bytes \<Rightarrow> u64" where
  "parse_epoch epoch [] = epoch"
| "parse_epoch epoch (c # cs) =
    (if c < 48 \<or> c > 57 then epoch else parse_epoch (epoch * 10 + ucast (c - 48)) cs)"

definition epoch_path :: "agent_config \<Rightarrow> path" where
  "epoch_path config = ac_store_root config @ [''incarnation.epoch'']"

definition next_epoch :: "agent_config \<Rightarrow> (file_system, generation) io" where
  "next_epoch config fs =
     bind_io (if fs_exists fs (epoch_path config)
        then bind_io (read_entire_file (epoch_path config) 64) (\<lambda>buffer. return_io (parse_epoch 0 buffer))
        else return_io 0) (\<lambda>stored.
     let epoch = stored + 1
     in bind_io (atomic_replace_file (epoch_path config) (as_bytes (decimal (unat epoch))) True) (\<lambda>_.
       return_io epoch)) fs"

definition agent_store_options :: "agent_config \<Rightarrow> object_store_options" where
  "agent_store_options config =
     \<lparr>oso_root = ac_store_root config, oso_max_object_bytes = mp_max_object_bytes (ac_policy config),
      oso_sync_on_write = ac_sync_store config, oso_allow_resume = ac_allow_resume config\<rparr>"

definition agent_new :: "agent_config \<Rightarrow> object_store_options \<Rightarrow> incarnation \<Rightarrow> socket_address \<Rightarrow> 'c endpoint_agent" where
  "agent_new config store incarnation address =
    \<lparr>ea_config = config, ea_incarnation = incarnation, ea_service_address = SocketAddress_default,
     ea_data_address = address, ea_policy_generation = 1, ea_topology_generation = 1, ea_store = store,
     ea_control = None, ea_session_queue = [], ea_grants = [], ea_cancellations = [],
     ea_counters = EndpointCounters_default, ea_active_sessions = 0, ea_stopping = False\<rparr>"

text \<open>\<open>boot\<close> is the fresh boot identifier and \<open>bound\<close> what binding the data listener gives.\<close>

definition EndpointAgent_start ::
    "boot_id \<Rightarrow> socket_address result \<Rightarrow> agent_config \<Rightarrow> (file_system, 'c endpoint_agent) io" where
  "EndpointAgent_start boot bound config =
    (if ac_endpoint_id config = []
     then fail_io INVALID_ID ''endpoint id must not be empty''
     else if length (ac_shared_secret config) \<noteq> 32
     then fail_io INVALID_ARGUMENT
       ''the shared secret must be exactly 32 bytes; generate one and distribute it''
     else if ac_store_root config = []
     then fail_io INVALID_ARGUMENT ''the endpoint store root must not be empty''
     else if \<not> Status_ok (MovementPolicy_validate (ac_policy config))
     then lift_io (Inl (MovementPolicy_validate (ac_policy config)))
     else
       bind_io (ObjectStore_open (agent_store_options config)) (\<lambda>store.
       bind_io (next_epoch config) (\<lambda>epoch.
       bind_io (lift_io (Incarnation_make (ac_endpoint_id config) boot epoch)) (\<lambda>incarnation.
       bind_io (lift_io bound) (\<lambda>address.
         return_io (agent_new config store incarnation address))))))"

section \<open>The control link\<close>

definition agent_payload_limit :: "agent_config \<Rightarrow> u32" where
  "agent_payload_limit config = ucast (mp_max_chunk_bytes (ac_policy config) + 64 * 2 ^ 10)"

definition agent_identity :: "string \<Rightarrow> 'c endpoint_agent \<Rightarrow> peer_identity" where
  "agent_identity version a =
    \<lparr>pi_endpoint = ac_endpoint_id (ea_config a), pi_boot = inc_boot (ea_incarnation a),
     pi_epoch = inc_epoch (ea_incarnation a), pi_role = SR_ENDPOINT, pi_contract = kPeerContract,
     pi_capability_digest =
       capability_digest_for (ac_endpoint_id (ea_config a)) (ac_capability (ea_config a)) version\<rparr>"

definition send_control ::
    "(bytes \<Rightarrow> 'c \<Rightarrow> status \<times> 'c) \<Rightarrow> message_type \<Rightarrow> bytes \<Rightarrow> ('c agent_world, unit) io" where
  "send_control send_all type payload = (\<lambda>(a, fs).
    case ea_control a of
      None \<Rightarrow> (err CONNECTION_CLOSED ''the coordinator link is not available'', (a, fs))
    | Some link \<Rightarrow>
        if \<not> cl_alive link
        then (err CONNECTION_CLOSED ''the coordinator link is not available'', (a, fs))
        else case FrameStream_send send_all (agent_payload_limit (ea_config a)) type payload 0 (cl_stream link) of
          (status, stream) \<Rightarrow>
            (if Status_ok status then Inr () else Inl status,
             (a\<lparr>ea_control := Some (link\<lparr>cl_stream := stream\<rparr>)\<rparr>, fs)))"

definition request_shutdown :: "'c endpoint_agent \<Rightarrow> 'c endpoint_agent" where
  "request_shutdown a =
    (if ea_stopping a then a
     else a\<lparr>ea_stopping := True,
        ea_control := map_option (\<lambda>link. link\<lparr>cl_alive := False, cl_pending := []\<rparr>) (ea_control a)\<rparr>)"

text \<open>Stopping signals, joins the threads and drops the link and the queue; a second call changes nothing.\<close>

definition EndpointAgent_stop :: "'c endpoint_agent \<Rightarrow> 'c endpoint_agent" where
  "EndpointAgent_stop a = (request_shutdown a)\<lparr>ea_control := None, ea_session_queue := []\<rparr>"

text \<open>What the reader does when the link ends: the grants and cancellations of the session go with it.\<close>

definition control_link_ended :: "'c endpoint_agent \<Rightarrow> 'c endpoint_agent" where
  "control_link_ended a =
     a\<lparr>ea_control := map_option (\<lambda>link. link\<lparr>cl_pending := []\<rparr>) (ea_control a),
       ea_grants := [], ea_cancellations := []\<rparr>"

definition cancellation_flag :: "movement_id \<Rightarrow> 'c endpoint_agent \<Rightarrow> 'c endpoint_agent" where
  "cancellation_flag movement_id a =
    (case map_of (ea_cancellations a) movement_id of
       Some _ \<Rightarrow> a
     | None \<Rightarrow> a\<lparr>ea_cancellations := AList.update movement_id False (ea_cancellations a)\<rparr>)"

definition clear_cancellation :: "movement_id \<Rightarrow> 'c endpoint_agent \<Rightarrow> 'c endpoint_agent" where
  "clear_cancellation movement_id a =
     a\<lparr>ea_cancellations := AList.delete movement_id (ea_cancellations a)\<rparr>"

section \<open>Grants and cancellation\<close>

definition on_grant ::
    "(bytes \<Rightarrow> 'c \<Rightarrow> status \<times> 'c) \<Rightarrow> u64 \<Rightarrow> transfer_grant \<Rightarrow> ('c agent_world, unit) io" where
  "on_grant send_all now grant = (\<lambda>(a, fs).
    let signature = TransferGrant_verify_signature (ac_shared_secret (ea_config a)) grant;
        valid = TransferGrant_validate grant;
        me = ac_endpoint_id (ea_config a);
        entry = \<lparr>ge_grant = grant, ge_consumed = False, ge_received_unix_millis = now\<rparr>
    in if \<not> Status_ok signature then (Inl signature, (a, fs))
       else if \<not> Status_ok valid then (Inl valid, (a, fs))
       else if tg_policy_generation grant \<noteq> ea_policy_generation a
       then (err STALE_POLICY_GENERATION ''the grant was issued under a different policy generation'', (a, fs))
       else if tg_source grant \<noteq> me \<and> tg_destination grant \<noteq> me
       then (err AUTHORITY_MISMATCH ''the grant does not involve this endpoint'', (a, fs))
       else if length (ea_grants a) \<ge> unat (mp_max_movements_in_flight (ac_policy (ea_config a)) * 2)
       then (err RESOURCE_EXHAUSTED ''too many live transfer grants'', (a, fs))
       else send_control send_all MT_GRANT_ACK
         (GrantAck_encode \<lparr>ga_nonce = tg_grant_nonce grant, ga_code = OK, ga_detail = ''grant recorded''\<rparr>)
         (a\<lparr>ea_grants := AList.update (tg_grant_nonce grant) entry (ea_grants a)\<rparr>, fs))"

text \<open>The worker that runs the transfer is started when the handler succeeds.\<close>

definition on_execute :: "execute_movement \<Rightarrow> ('c agent_world, unit) io" where
  "on_execute message = (\<lambda>(a, fs).
    case map_of (ea_grants a) (em_nonce message) of
      None \<Rightarrow> (err AUTHORITY_MISMATCH ''no grant matches that nonce'', (a, fs))
    | Some entry \<Rightarrow>
        let grant = ge_grant entry
        in if tg_destination grant \<noteq> ac_endpoint_id (ea_config a)
           then (err NOT_AUTHORIZED ''this endpoint is not the destination of the grant'', (a, fs))
           else if tg_movement_id grant \<noteq> em_movement_id message \<or> tg_attempt grant \<noteq> em_attempt message
           then (err AUTHORITY_MISMATCH ''the execute request does not match the grant'', (a, fs))
           else if ea_active_sessions a \<ge>
             ac_max_concurrent_movements (ea_config a) + ac_max_data_sessions (ea_config a)
           then (err RESOURCE_EXHAUSTED ''too many concurrent movements'', (a, fs))
           else (Inr (), (a\<lparr>ea_cancellations :=
             AList.update (em_movement_id message) False (ea_cancellations a)\<rparr>, fs)))"

definition on_cancel ::
    "(bytes \<Rightarrow> 'c \<Rightarrow> status \<times> 'c) \<Rightarrow> cancel_request \<Rightarrow> ('c agent_world, unit) io" where
  "on_cancel send_all message = (\<lambda>(a, fs).
     send_control send_all MT_CANCEL_ACK
       (CancelAck_encode \<lparr>ca_movement_id = cq_movement_id message,
          ca_movement_generation = cq_movement_generation message, ca_code = OK,
          ca_detail = ''cancellation recorded''\<rparr>)
       (a\<lparr>ea_cancellations := AList.update (cq_movement_id message) True (ea_cancellations a)\<rparr>, fs))"

section \<open>Commit, verification, authority and cleanup\<close>

definition agent_marker :: "u64 \<Rightarrow> movement_id \<Rightarrow> generation \<Rightarrow> state_object \<Rightarrow> endpoint_id \<Rightarrow> u64 \<Rightarrow>
    'c endpoint_agent \<Rightarrow> commit_marker" where
  "agent_marker now movement_id generation object source stored_bytes a =
     CommitMarker_seal
       \<lparr>cm_movement_id = movement_id, cm_movement_generation = generation, cm_object = object,
        cm_source = source, cm_destination = ac_endpoint_id (ea_config a),
        cm_destination_incarnation =
          (case Incarnation_make (ac_endpoint_id (ea_config a)) (inc_boot (ea_incarnation a))
             (inc_epoch (ea_incarnation a)) of Inr i \<Rightarrow> i | Inl _ \<Rightarrow> Incarnation_default),
        cm_content_digest = so_content_digest object, cm_stored_bytes = stored_bytes,
        cm_stored_chunks = so_chunk_count object, cm_committed_unix_millis = now, cm_marker_digest = 0\<rparr>"

definition reject_commit ::
    "(bytes \<Rightarrow> 'c \<Rightarrow> status \<times> 'c) \<Rightarrow> commit_request \<Rightarrow> reason_code \<Rightarrow> string \<Rightarrow> ('c agent_world, unit) io" where
  "reject_commit send_all message code detail w =
    (case send_control send_all MT_COMMIT_RESULT
        (CommitResult_encode \<lparr>cmr_movement_id = cmq_movement_id message,
           cmr_movement_generation = cmq_movement_generation message, cmr_code = code,
           cmr_marker_digest = 0, cmr_detail = detail\<rparr>) w of
       (_, w) \<Rightarrow> (err code detail, w))"

definition on_commit_request ::
    "(bytes \<Rightarrow> 'c \<Rightarrow> status \<times> 'c) \<Rightarrow> u64 \<Rightarrow> commit_request \<Rightarrow> ('c agent_world, unit) io" where
  "on_commit_request send_all now message = (\<lambda>(a, fs).
    let object = cmq_object message; i = so_object_id object; g = so_generation object
    in if map_of (ea_cancellations a) (cmq_movement_id message) = Some True
       then reject_commit send_all message MOVEMENT_CANCELLED
         ''the movement was cancelled before the commit barrier'' (a, fs)
       else if \<not> object_present (ea_store a) i g fs
       then reject_commit send_all message OBJECT_NOT_FOUND
         ''no bytes are placed for that object version'' (a, fs)
       else case digest_object (ea_store a) i g fs of
         (Inl s, fs) \<Rightarrow> reject_commit send_all message (status_code s) (status_message s) (a, fs)
       | (Inr (digest, stored_bytes), fs) \<Rightarrow>
           if digest \<noteq> so_content_digest object
           then reject_commit send_all message CONTENT_DIGEST_MISMATCH
             ''the stored bytes no longer hash to the authorized content digest'' (a, fs)
           else if stored_bytes \<noteq> so_total_bytes object
           then reject_commit send_all message BYTE_COUNT_MISMATCH
             ''the stored byte count changed before commit'' (a, fs)
           else
             let marker = agent_marker now (cmq_movement_id message) (cmq_movement_generation message)
               object (cmq_source message) stored_bytes a
             in case write_commit_marker (ea_store a) marker fs of
                  (Inl s, fs) \<Rightarrow> reject_commit send_all message (status_code s) (status_message s) (a, fs)
                | (Inr _, fs) \<Rightarrow>
                    send_control send_all MT_COMMIT_RESULT
                      (CommitResult_encode \<lparr>cmr_movement_id = cmq_movement_id message,
                         cmr_movement_generation = cmq_movement_generation message, cmr_code = OK,
                         cmr_marker_digest = cm_marker_digest marker,
                         cmr_detail = ''commit marker written''\<rparr>) (a, fs))"

definition verify_response_for :: "verify_request \<Rightarrow> verify_response" where
  "verify_response_for message =
    \<lparr>vr_movement_id = vq_movement_id message, vr_object_id = vq_object_id message,
     vr_object_generation = vq_object_generation message, vr_code = OK, vr_stored_digest = 0,
     vr_stored_bytes = 0, vr_stored_chunks = 0, vr_chunk_index = 0, vr_chunk_digest = 0,
     vr_chunk_payload = []\<rparr>"

text \<open>The answer to a verification request, as far as it depends on the disk.\<close>

definition verify_full :: "object_store_options \<Rightarrow> verify_request \<Rightarrow> file_system \<Rightarrow> verify_response \<times> file_system" where
  "verify_full store message fs =
    (case digest_object store (vq_object_id message) (vq_object_generation message) fs of
       (Inl s, fs) \<Rightarrow> ((verify_response_for message)\<lparr>vr_code := status_code s\<rparr>, fs)
     | (Inr (digest, stored_bytes), fs) \<Rightarrow>
         ((verify_response_for message)\<lparr>vr_stored_digest := digest, vr_stored_bytes := stored_bytes\<rparr>, fs))"

definition verify_chunk :: "object_store_options \<Rightarrow> verify_request \<Rightarrow> file_system \<Rightarrow> verify_response \<times> file_system" where
  "verify_chunk store message fs =
    (let i = vq_object_id message; g = vq_object_generation message; response = verify_response_for message
     in case checked_mul (ucast (vq_chunk_index message)) (vq_chunk_bytes message) of
       None \<Rightarrow> (response\<lparr>vr_code := SIZE_OVERFLOW\<rparr>, fs)
     | Some offset \<Rightarrow>
         (case object_size store i g fs of
            Inl s \<Rightarrow> (response\<lparr>vr_code := status_code s\<rparr>, fs)
          | Inr stored \<Rightarrow>
              if offset \<ge> stored then (response\<lparr>vr_code := CHUNK_INDEX_OUT_OF_RANGE\<rparr>, fs)
              else
                let len = min (vq_chunk_bytes message) (stored - offset)
                in case read_range store i g offset len (vq_chunk_bytes message) fs of
                     (Inl s, fs) \<Rightarrow> (response\<lparr>vr_code := status_code s\<rparr>, fs)
                   | (Inr bytes, fs) \<Rightarrow>
                       (response\<lparr>vr_chunk_index := vq_chunk_index message, vr_chunk_payload := bytes,
                          vr_chunk_digest := compute_chunk_digest i g (vq_chunk_index message) offset len bytes,
                          vr_stored_bytes := stored\<rparr>, fs)))"

definition on_verify_request ::
    "(bytes \<Rightarrow> 'c \<Rightarrow> status \<times> 'c) \<Rightarrow> verify_request \<Rightarrow> ('c agent_world, unit) io" where
  "on_verify_request send_all message = (\<lambda>(a, fs).
    case (if \<not> object_present (ea_store a) (vq_object_id message) (vq_object_generation message) fs
          then ((verify_response_for message)\<lparr>vr_code := OBJECT_VERSION_NOT_FOUND\<rparr>, fs)
          else if vq_full_digest_requested message then verify_full (ea_store a) message fs
          else verify_chunk (ea_store a) message fs) of
      (response, fs) \<Rightarrow> send_control send_all MT_VERIFY_RESPONSE (VerifyResponse_encode response) (a, fs))"

definition authority_report_for :: "object_store_options \<Rightarrow> authority_query \<Rightarrow> file_system \<Rightarrow> authority_report \<times> file_system" where
  "authority_report_for store message fs =
    (let report = \<lparr>arp_movement_id = aq_movement_id message, arp_code = OK, arp_bytes_present = False,
           arp_verified = False, arp_marker_present = False, arp_authoritative = False,
           arp_marker_digest = 0, arp_stored_bytes = 0, arp_detail = []\<rparr>;
         (r, fs) = authority store (aq_object_id message) (aq_object_generation message) fs;
         report = (case r of
             Inl s \<Rightarrow> report\<lparr>arp_code := status_code s, arp_detail := status_message s\<rparr>
           | Inr au \<Rightarrow> report\<lparr>arp_code := oa_code au, arp_detail := oa_detail au,
               arp_bytes_present := oa_bytes_present au, arp_marker_present := oa_marker_present au,
               arp_authoritative := oa_authoritative au, arp_marker_digest := oa_marker_digest au,
               arp_stored_bytes := oa_stored_bytes au\<rparr>);
         report = (if arp_bytes_present report then report
           else report\<lparr>arp_bytes_present :=
             object_present store (aq_object_id message) (aq_object_generation message) fs\<rparr>)
     in (report\<lparr>arp_verified := (arp_marker_present report \<and> arp_authoritative report)\<rparr>, fs))"

definition on_authority_query ::
    "(bytes \<Rightarrow> 'c \<Rightarrow> status \<times> 'c) \<Rightarrow> authority_query \<Rightarrow> ('c agent_world, unit) io" where
  "on_authority_query send_all message = (\<lambda>(a, fs).
    case authority_report_for (ea_store a) message fs of
      (report, fs) \<Rightarrow> send_control send_all MT_AUTHORITY_REPORT (AuthorityReport_encode report) (a, fs))"

definition on_cleanup_request ::
    "(bytes \<Rightarrow> 'c \<Rightarrow> status \<times> 'c) \<Rightarrow> cleanup_request \<Rightarrow> ('c agent_world, unit) io" where
  "on_cleanup_request send_all message = (\<lambda>(a, fs).
    let target = \<lparr>ct_movement_id = clq_movement_id message, ct_object_id = 0, ct_generation = 0,
          ct_quarantine = clq_quarantine message, ct_remove_placed = False\<rparr>;
        (cleaned, fs) = cleanup (ea_store a) target fs;
        result = \<lparr>clr_movement_id = clq_movement_id message,
          clr_code = (case cleaned of Inr _ \<Rightarrow> OK | Inl s \<Rightarrow> status_code s),
          clr_bytes_removed = (case cleaned of Inr (bytes, _) \<Rightarrow> bytes | Inl _ \<Rightarrow> 0),
          clr_entries_removed = (case cleaned of Inr (_, entries) \<Rightarrow> entries | Inl _ \<Rightarrow> 0),
          clr_detail = (case cleaned of Inr _ \<Rightarrow> ''staging removed'' | Inl s \<Rightarrow> status_message s)\<rparr>;
        a = a\<lparr>ea_grants :=
          filter (\<lambda>(_, entry). tg_movement_id (ge_grant entry) \<noteq> clq_movement_id message) (ea_grants a)\<rparr>
    in send_control send_all MT_CLEANUP_RESULT (CleanupResult_encode result)
         (clear_cancellation (clq_movement_id message) a, fs))"

section \<open>Requests of the coordinator\<close>

definition decoded :: "'m decode \<Rightarrow> frame \<Rightarrow> ('m \<Rightarrow> ('c agent_world, unit) io) \<Rightarrow> ('c agent_world, unit) io" where
  "decoded decode frame k = bind_io (lift_io (decode_message decode frame)) k"

definition handle_control ::
    "(bytes \<Rightarrow> 'c \<Rightarrow> status \<times> 'c) \<Rightarrow> u64 \<Rightarrow> frame \<Rightarrow> ('c agent_world, unit) io" where
  "handle_control send_all now frame =
    (let type = fh_type (fr_header frame)
     in if type = MT_GRANT_TRANSFER
        then decoded GrantTransfer_decode frame (\<lambda>m. on_grant send_all now (gt_grant m))
        else if type = MT_EXECUTE_MOVEMENT then decoded ExecuteMovement_decode frame on_execute
        else if type = MT_COMMIT_REQUEST then decoded CommitRequest_decode frame (on_commit_request send_all now)
        else if type = MT_VERIFY_REQUEST then decoded VerifyRequest_decode frame (on_verify_request send_all)
        else if type = MT_AUTHORITY_QUERY then decoded AuthorityQuery_decode frame (on_authority_query send_all)
        else if type = MT_CLEANUP_REQUEST then decoded CleanupRequest_decode frame (on_cleanup_request send_all)
        else if type = MT_CANCEL then decoded CancelRequest_decode frame (on_cancel send_all)
        else if type = MT_HEARTBEAT
        then send_control send_all MT_HEARTBEAT_ACK (enc_text ''SMF-MSG-HEARTBEAT-ACK-v1'')
        else if type = MT_ANNOUNCE_ACK \<or> type = MT_GRANT_ACK \<or> type = MT_CANCEL_ACK \<or> type = MT_SHUTDOWN_ACK
        then return_io ()
        else if type = MT_ERROR then return_io ()
        else if type = MT_SHUTDOWN then modify_agent request_shutdown
        else fail_io PROTOCOL_UNKNOWN_MESSAGE
          (''the endpoint does not accept '' @ MessageType_to_string type @ '' on the coordinator link''))"

text \<open>One round of the reader: the result is the frame a waiting worker gets, if any.\<close>

definition control_reader_step ::
    "(bytes \<Rightarrow> 'c \<Rightarrow> status \<times> 'c) \<Rightarrow> u64 \<Rightarrow> frame result \<Rightarrow> ('c agent_world, frame option) io" where
  "control_reader_step send_all now received = (\<lambda>(a, fs).
    case received of
      Inl s \<Rightarrow> (Inl s, (control_link_ended a, fs))
    | Inr frame \<Rightarrow>
        let key = MessageType_to_string (fh_type (fr_header frame));
            waiting = (case ea_control a of None \<Rightarrow> False | Some link \<Rightarrow> key \<in> set (cl_pending link))
        in if waiting
           then (Inr (Some frame), (a\<lparr>ea_control :=
             map_option (\<lambda>link. link\<lparr>cl_pending := removeAll key (cl_pending link)\<rparr>) (ea_control a)\<rparr>, fs))
           else case handle_control send_all now frame (a, fs) of
             (Inr _, w) \<Rightarrow> (Inr None, w)
           | (Inl s, w) \<Rightarrow>
               (case send_control send_all MT_ERROR
                   (ErrorMessage_encode \<lparr>erm_code = status_code s, erm_detail = status_message s\<rparr>) w of
                  (_, w) \<Rightarrow> (Inr None, w)))"

end
