(* ===== verification/SMF_Agent_Transfer.thy ===== *)
theory SMF_Agent_Transfer
  imports SMF_Agent
begin

text \<open>
  Data sessions of the endpoint process (src/endpoint_agent.cpp): registering with the coordinator,
  serving an object to a peer, receiving one under a grant, and publishing local state.

  A data session runs on the state of the process, its disk and the framed stream of the session.
  Whether a stop or a cancellation is visible when a loop looks is up to other threads, and so is
  the parameter \<open>interrupted\<close>. The loop that receives chunks lasts as long as the peer keeps sending,
  so it is a partial function: \<open>None\<close> is a session that never ends.
\<close>

section \<open>Sessions\<close>

type_synonym 'c data_stream = "frame_codec \<times> 'c"
type_synonym 'c data_world = "'c agent_world \<times> 'c data_stream"

definition stream_send ::
    "(bytes \<Rightarrow> 'c \<Rightarrow> status \<times> 'c) \<Rightarrow> u32 \<Rightarrow> message_type \<Rightarrow> bytes \<Rightarrow> ('w \<times> 'c data_stream, unit) io" where
  "stream_send send_all limit type payload = (\<lambda>(w, stream).
     case FrameStream_send send_all limit type payload 0 stream of
       (status, stream) \<Rightarrow> (if Status_ok status then Inr () else Inl status, (w, stream)))"

definition stream_receive ::
    "(nat \<Rightarrow> 'c \<Rightarrow> bytes result \<times> 'c) \<Rightarrow> u32 \<Rightarrow> ('w \<times> 'c data_stream, frame) io" where
  "stream_receive receive_some limit = (\<lambda>(w, stream).
     case FrameStream_receive receive_some limit stream of (r, stream) \<Rightarrow> (r, (w, stream)))"

definition set_session_key :: "digest \<Rightarrow> ('w \<times> 'c data_stream, unit) io" where
  "set_session_key key = (\<lambda>(w, (codec, c)). (Inr (), (w, (FrameCodec_set_session_key (Digest_view key) codec, c))))"

definition on_agent :: "('c agent_world, 'a) io \<Rightarrow> ('c data_world, 'a) io" where
  "on_agent m = (\<lambda>(w, stream). case m w of (r, w) \<Rightarrow> (r, (w, stream)))"

text \<open>The client's half of the handshake; \<open>refused\<close> is the status for a peer that answers otherwise.\<close>

definition client_handshake ::
    "(bytes \<Rightarrow> 'c \<Rightarrow> status \<times> 'c) \<Rightarrow> (nat \<Rightarrow> 'c \<Rightarrow> bytes result \<times> 'c) \<Rightarrow> u32 \<Rightarrow> bytes \<Rightarrow> status \<Rightarrow>
     hello_request \<Rightarrow> ('w \<times> 'c data_stream, unit) io" where
  "client_handshake send_all receive_some limit secret refused request =
     bind_io (stream_send send_all limit MT_HELLO (HelloRequest_encode request)) (\<lambda>_.
     bind_io (stream_receive receive_some limit) (\<lambda>frame.
       if fh_type (fr_header frame) \<noteq> MT_HELLO_ACK then lift_io (Inl refused)
       else bind_io (lift_io (decode_message HelloResponse_decode frame)) (\<lambda>response.
         bind_io (lift_io (verify_hello_response secret request response)) set_session_key)))"

section \<open>Registering with the coordinator\<close>

definition registration_request :: "string \<Rightarrow> socket_address \<Rightarrow> 'c endpoint_agent \<Rightarrow> register_request" where
  "registration_request version service_address a =
    (let identity = agent_identity version a
     in \<lparr>rr_identity = \<lparr>pih_endpoint = pi_endpoint identity, pih_boot = pi_boot identity,
           pih_epoch = pi_epoch identity, pih_role = SessionRole_value SR_ENDPOINT,
           pih_contract = kPeerContract, pih_capability_digest = pi_capability_digest identity\<rparr>,
         rr_service_address = service_address, rr_data_address = ea_data_address a,
         rr_inventory_digest = sha256 (as_bytes ''empty-inventory'')\<rparr>)"

definition registration_answer :: "frame \<Rightarrow> register_ack result" where
  "registration_answer frame =
    (if fh_type (fr_header frame) \<noteq> MT_REGISTER_ACK
     then (case decode_message ErrorMessage_decode frame of
         Inr m \<Rightarrow> err (if erm_code m = OK then NOT_AUTHORIZED else erm_code m) (erm_detail m)
       | Inl _ \<Rightarrow> err NOT_AUTHORIZED ''the coordinator refused the registration'')
     else decode_message RegisterAck_decode frame)"

text \<open>\<open>connected\<close> is the connection, or why there is none, and \<open>service_address\<close> its local end.\<close>

definition connect_to_coordinator ::
    "(bytes \<Rightarrow> 'c \<Rightarrow> status \<times> 'c) \<Rightarrow> (nat \<Rightarrow> 'c \<Rightarrow> bytes result \<times> 'c) \<Rightarrow> string \<Rightarrow> hello_request result \<Rightarrow>
     'c result \<Rightarrow> socket_address \<Rightarrow> 'c endpoint_agent \<Rightarrow> status \<times> 'c endpoint_agent" where
  "connect_to_coordinator send_all receive_some version hello connected service_address a =
    (if ea_control a \<noteq> None
     then (Status ALREADY_TERMINAL ''the endpoint is already registered'', a)
     else case connected of
       Inl s \<Rightarrow> (s, a)
     | Inr c \<Rightarrow>
         (case hello of
            Inl s \<Rightarrow> (s, a)
          | Inr request \<Rightarrow>
              let limit = agent_payload_limit (ea_config a);
                  refused = Status PROTOCOL_HANDSHAKE_FAILED ''the coordinator did not answer the hello''
              in case client_handshake send_all receive_some limit (ac_shared_secret (ea_config a)) refused request
                   ((), (FrameCodec_default, c)) of
                (Inl s, _) \<Rightarrow> (s, a)
              | (Inr _, world) \<Rightarrow>
                  let a = a\<lparr>ea_service_address := service_address\<rparr>
                  in case bind_io (stream_send send_all limit MT_REGISTER
                       (RegisterRequest_encode (registration_request version service_address a))) (\<lambda>_.
                       bind_io (stream_receive receive_some limit) (\<lambda>frame.
                         lift_io (registration_answer frame))) world of
                    (Inl s, _) \<Rightarrow> (s, a)
                  | (Inr ack, (_, stream)) \<Rightarrow>
                      (Status_success, a\<lparr>ea_policy_generation := ra_policy_generation ack,
                         ea_topology_generation := ra_topology_generation ack,
                         ea_control := Some \<lparr>cl_stream = stream, cl_alive = True, cl_pending = []\<rparr>\<rparr>)))"

section \<open>Serving an object\<close>

text \<open>The accepting thread: a connection is queued for the worker pool or refused.\<close>

definition accept_session :: "'c \<Rightarrow> 'c endpoint_agent \<Rightarrow> 'c endpoint_agent" where
  "accept_session connection a =
    (if length (ea_session_queue a) \<ge> unat (ac_max_data_sessions (ea_config a))
     then count_up (\<lambda>n. n\<lparr>ec_sessions_refused := ec_sessions_refused n + 1\<rparr>) a
     else a\<lparr>ea_session_queue := ea_session_queue a @ [connection]\<rparr>)"

definition server_handshake ::
    "(bytes \<Rightarrow> 'c \<Rightarrow> status \<times> 'c) \<Rightarrow> (nat \<Rightarrow> 'c \<Rightarrow> bytes result \<times> 'c) \<Rightarrow>
     ('e \<Rightarrow> nat \<Rightarrow> bytes \<times> 'e) \<Rightarrow> 'e \<Rightarrow> string \<Rightarrow> ('c data_world, hello_request) io" where
  "server_handshake send_all receive_some fill e version = (\<lambda>((a, fs), stream).
    let limit = agent_payload_limit (ea_config a); secret = ac_shared_secret (ea_config a)
    in bind_io (stream_receive receive_some limit) (\<lambda>frame.
         if fh_type (fr_header frame) \<noteq> MT_HELLO
         then fail_io PROTOCOL_HANDSHAKE_REQUIRED ''data sessions begin with a hello''
         else bind_io (lift_io (decode_message HelloRequest_decode frame)) (\<lambda>hello.
           let (session_id, e) = IdIssuer_new fill e
           in case fst (accept_hello_request fill secret hello (agent_identity version a) session_id e) of
                Inl s \<Rightarrow>
                  bind_io (on_agent (modify_agent (count_up (\<lambda>n. n\<lparr>ec_sessions_refused := ec_sessions_refused n + 1\<rparr>)))) (\<lambda>_.
                    lift_io (Inl s))
              | Inr response \<Rightarrow>
                  bind_io (stream_send send_all limit MT_HELLO_ACK (HelloResponse_encode response)) (\<lambda>_.
                  bind_io (set_session_key (derive_session_key secret (hq_client_nonce hello) (hr_server_nonce response))) (\<lambda>_.
                  bind_io (on_agent (modify_agent (count_up (\<lambda>n. n\<lparr>ec_sessions_accepted := ec_sessions_accepted n + 1\<rparr>)))) (\<lambda>_.
                    return_io hello))))) ((a, fs), stream))"

text \<open>The grant a nonce stands for is used up when it is looked up.\<close>

definition take_grant :: "nonce \<Rightarrow> 'c endpoint_agent \<Rightarrow> transfer_grant option \<times> 'c endpoint_agent" where
  "take_grant nonce a =
    (case map_of (ea_grants a) nonce of
       None \<Rightarrow> (None, a)
     | Some entry \<Rightarrow>
         if ge_consumed entry then (None, a)
         else (Some (ge_grant entry),
           a\<lparr>ea_grants := AList.update nonce (entry\<lparr>ge_consumed := True\<rparr>) (ea_grants a)\<rparr>))"

text \<open>The authority check. \<open>Inl (True, s)\<close> is a refusal the peer is told about, \<open>Inl (False, s)\<close> ends the
  session without an answer.\<close>

definition check_grant ::
    "'c endpoint_agent \<Rightarrow> file_system \<Rightarrow> endpoint_id \<Rightarrow> data_begin \<Rightarrow> transfer_grant option \<Rightarrow>
     (bool \<times> status) + transfer_grant" where
  "check_grant a fs peer begin found =
    (case found of
       None \<Rightarrow> Inl (True, Status AUTHORITY_MISMATCH
         (''no live transfer grant matches that nonce; grants are single use and never '' @
          ''survive a coordinator restart''))
     | Some grant \<Rightarrow>
         let signature = TransferGrant_verify_signature (ac_shared_secret (ea_config a)) grant;
             object = tg_object grant
         in if \<not> Status_ok signature then Inl (False, signature)
            else if tg_source grant \<noteq> ac_endpoint_id (ea_config a)
            then Inl (True, Status AUTHORITY_MISMATCH ''the grant does not name this endpoint as source'')
            else if tg_destination grant \<noteq> db_destination begin \<or>
              tg_destination_incarnation grant \<noteq> db_destination_incarnation begin
            then Inl (True, Status STALE_INCARNATION ''the grant binds a different destination'')
            else if peer \<noteq> tg_destination grant
            then Inl (True, Status PROTOCOL_AUTH_FAILED
              ''the authenticated peer is not the destination named by the grant'')
            else if so_object_id object \<noteq> so_object_id (db_object begin) \<or>
              so_generation object \<noteq> so_generation (db_object begin) \<or>
              so_content_digest object \<noteq> so_content_digest (db_object begin)
            then Inl (True, Status AUTHORITY_MISMATCH ''the grant binds a different object version'')
            else if tg_policy_generation grant \<noteq> ea_policy_generation a
            then Inl (True, Status STALE_POLICY_GENERATION
              ''the grant was issued under a different policy generation'')
            else if \<not> object_present (ea_store a) (so_object_id object) (so_generation object) fs
            then Inl (True, Status OBJECT_VERSION_NOT_FOUND
              ''this endpoint does not hold the requested object version'')
            else Inr grant)"

definition start_point :: "transfer_grant \<Rightarrow> data_begin \<Rightarrow> u32 \<times> u64" where
  "start_point grant begin =
    (if db_resume_from_chunk begin > 0 \<and> db_resume_from_chunk begin \<le> so_chunk_count (tg_object grant)
     then case chunk_offset (tg_object grant) (db_resume_from_chunk begin) of
            Inr offset \<Rightarrow> if offset = db_resume_from_offset begin
              then (db_resume_from_chunk begin, db_resume_from_offset begin) else (0, 0)
          | Inl _ \<Rightarrow> (0, 0)
     else (0, 0))"

definition refuse_begin ::
    "(bytes \<Rightarrow> 'c \<Rightarrow> status \<times> 'c) \<Rightarrow> u32 \<Rightarrow> data_begin \<Rightarrow> status \<Rightarrow> ('c data_world, 'a) io" where
  "refuse_begin send_all limit begin status w =
    (case stream_send send_all limit MT_DATA_BEGIN_ACK
        (DataBeginAck_encode \<lparr>dba_nonce = db_nonce begin, dba_code = status_code status,
           dba_resume_from_chunk = 0, dba_resume_from_offset = 0, dba_detail = status_message status\<rparr>) w of
       (_, ((a, fs), stream)) \<Rightarrow>
         (Inl status, ((count_up (\<lambda>n. n\<lparr>ec_refusals := ec_refusals n + 1\<rparr>) a, fs), stream)))"

definition answer_begin ::
    "(bytes \<Rightarrow> 'c \<Rightarrow> status \<times> 'c) \<Rightarrow> u32 \<Rightarrow> endpoint_id \<Rightarrow> data_begin \<Rightarrow> ('c data_world, transfer_grant \<times> u32) io" where
  "answer_begin send_all limit peer begin = (\<lambda>((a, fs), stream).
    case take_grant (db_nonce begin) a of
      (found, a) \<Rightarrow>
        (case check_grant a fs peer begin found of
           Inl (told, s) \<Rightarrow>
             if told then refuse_begin send_all limit begin s ((a, fs), stream)
             else (Inl s, ((a, fs), stream))
         | Inr grant \<Rightarrow>
             bind_io (stream_send send_all limit MT_DATA_BEGIN_ACK
               (DataBeginAck_encode \<lparr>dba_nonce = db_nonce begin, dba_code = OK,
                  dba_resume_from_chunk = fst (start_point grant begin),
                  dba_resume_from_offset = snd (start_point grant begin), dba_detail = []\<rparr>)) (\<lambda>_.
               return_io (grant, fst (start_point grant begin))) ((a, fs), stream)))"

text \<open>From the first message of the destination to the point where chunks may be sent.\<close>

definition admit_transfer ::
    "(bytes \<Rightarrow> 'c \<Rightarrow> status \<times> 'c) \<Rightarrow> (nat \<Rightarrow> 'c \<Rightarrow> bytes result \<times> 'c) \<Rightarrow> endpoint_id \<Rightarrow>
     ('c data_world, transfer_grant \<times> u32) io" where
  "admit_transfer send_all receive_some peer = (\<lambda>((a, fs), stream).
    let limit = agent_payload_limit (ea_config a)
    in bind_io (stream_receive receive_some limit) (\<lambda>frame.
         if fh_type (fr_header frame) \<noteq> MT_DATA_BEGIN
         then fail_io PROTOCOL_STATE_VIOLATION ''expected a data begin''
         else bind_io (lift_io (decode_message DataBegin_decode frame)) (answer_begin send_all limit peer))
       ((a, fs), stream))"

text \<open>The object file of the session is open while chunks are sent.\<close>

type_synonym 'c serve_world = "(file_handle option \<times> 'c agent_world) \<times> 'c data_stream"

definition on_object :: "(handle_world, 'a) io \<Rightarrow> ('c serve_world, 'a) io" where
  "on_object m = (\<lambda>((h, (a, fs)), stream). case m (h, fs) of (r, (h, fs)) \<Rightarrow> (r, ((h, (a, fs)), stream)))"

definition with_object :: "('c serve_world, 'a) io \<Rightarrow> ('c data_world, 'a) io" where
  "with_object m = (\<lambda>(w, stream). case m ((None, w), stream) of (r, ((_, w), stream)) \<Rightarrow> (r, (w, stream)))"

definition source_chunk :: "transfer_grant \<Rightarrow> u32 \<Rightarrow> u64 \<Rightarrow> u64 \<Rightarrow> bytes \<Rightarrow> data_chunk" where
  "source_chunk grant index offset len buffer =
    \<lparr>dc_movement_id = tg_movement_id grant, dc_attempt = tg_attempt grant, dc_chunk_index = index,
     dc_chunk_offset = offset, dc_chunk_length = len,
     dc_chunk_digest = compute_chunk_digest (so_object_id (tg_object grant)) (so_generation (tg_object grant))
       index offset len buffer,
     dc_payload = buffer\<rparr>"

definition serve_chunk ::
    "(bytes \<Rightarrow> 'c \<Rightarrow> status \<times> 'c) \<Rightarrow> u32 \<Rightarrow> transfer_grant \<Rightarrow> u32 \<Rightarrow> ('c serve_world, u64) io" where
  "serve_chunk send_all limit grant index =
     bind_io (lift_io (chunk_offset (tg_object grant) index)) (\<lambda>offset.
     bind_io (lift_io (chunk_length (tg_object grant) index)) (\<lambda>len.
     bind_io (on_object (FileHandle_seek (unat offset))) (\<lambda>_.
     bind_io (on_object (FileHandle_read (unat len))) (\<lambda>buffer.
       if length buffer \<noteq> unat len
       then fail_io STORE_TRUNCATED ''the stored object ended inside a chunk''
       else bind_io (stream_send send_all limit MT_DATA_CHUNK
         (DataChunk_encode (source_chunk grant index offset len buffer))) (\<lambda>_. return_io len)))))"

definition serve_interrupted :: "(bytes \<Rightarrow> 'c \<Rightarrow> status \<times> 'c) \<Rightarrow> u32 \<Rightarrow> transfer_grant \<Rightarrow> ('c serve_world, 'a) io" where
  "serve_interrupted send_all limit grant world =
    (let detail = ''the movement was cancelled while it was being served''
     in case stream_send send_all limit MT_DATA_ABORT
        (DataAbort_encode \<lparr>dab_movement_id = tg_movement_id grant, dab_attempt = tg_attempt grant,
           dab_code = CANCELLED_BY_OPERATOR, dab_detail = detail\<rparr>) world of
       (_, world) \<Rightarrow> (err CANCELLED_BY_OPERATOR detail, world))"

definition window_ack ::
    "(nat \<Rightarrow> 'c \<Rightarrow> bytes result \<times> 'c) \<Rightarrow> u32 \<Rightarrow> u32 \<Rightarrow> u32 \<Rightarrow> ('c serve_world, unit) io" where
  "window_ack receive_some limit window sent_chunks =
    (if sent_chunks mod window = 0
     then bind_io (stream_receive receive_some limit) (\<lambda>frame.
       if fh_type (fr_header frame) \<noteq> MT_DATA_CHUNK_ACK
       then fail_io PROTOCOL_STATE_VIOLATION ''expected a chunk acknowledgement''
       else return_io ())
     else return_io ())"

text \<open>The sending loop: \<open>n\<close> chunks from number \<open>index\<close> on; the result is the number of bytes sent.\<close>

fun serve_chunks ::
    "(bytes \<Rightarrow> 'c \<Rightarrow> status \<times> 'c) \<Rightarrow> (nat \<Rightarrow> 'c \<Rightarrow> bytes result \<times> 'c) \<Rightarrow> ('c \<Rightarrow> bool) \<Rightarrow> u32 \<Rightarrow> u32 \<Rightarrow>
     transfer_grant \<Rightarrow> nat \<Rightarrow> u32 \<Rightarrow> u64 \<Rightarrow> u32 \<Rightarrow> ('c serve_world, u64) io" where
  "serve_chunks send_all receive_some interrupted limit window grant 0 index sent_bytes sent_chunks world =
     (Inr sent_bytes, world)"
| "serve_chunks send_all receive_some interrupted limit window grant (Suc n) index sent_bytes sent_chunks world =
    (if interrupted (snd (snd world)) then serve_interrupted send_all limit grant world
     else bind_io (serve_chunk send_all limit grant index) (\<lambda>len.
       bind_io (window_ack receive_some limit window (sent_chunks + 1)) (\<lambda>_.
         serve_chunks send_all receive_some interrupted limit window grant n (index + 1) (sent_bytes + len)
           (sent_chunks + 1))) world)"

definition serve_end ::
    "(bytes \<Rightarrow> 'c \<Rightarrow> status \<times> 'c) \<Rightarrow> (nat \<Rightarrow> 'c \<Rightarrow> bytes result \<times> 'c) \<Rightarrow> u32 \<Rightarrow> transfer_grant \<Rightarrow>
     ('c serve_world, data_result) io" where
  "serve_end send_all receive_some limit grant =
     bind_io (stream_send send_all limit MT_DATA_END
       (DataEnd_encode \<lparr>de_movement_id = tg_movement_id grant, de_attempt = tg_attempt grant,
          de_total_chunks = so_chunk_count (tg_object grant), de_total_bytes = so_total_bytes (tg_object grant),
          de_content_digest = so_content_digest (tg_object grant)\<rparr>)) (\<lambda>_.
     bind_io (stream_receive receive_some limit) (\<lambda>frame.
       if fh_type (fr_header frame) \<noteq> MT_DATA_RESULT
       then fail_io PROTOCOL_STATE_VIOLATION ''expected a data result''
       else lift_io (decode_message DataResult_decode frame)))"

definition serve_transfer ::
    "(bytes \<Rightarrow> 'c \<Rightarrow> status \<times> 'c) \<Rightarrow> (nat \<Rightarrow> 'c \<Rightarrow> bytes result \<times> 'c) \<Rightarrow> ('c \<Rightarrow> bool) \<Rightarrow> transfer_grant \<Rightarrow> u32 \<Rightarrow>
     ('c data_world, unit) io" where
  "serve_transfer send_all receive_some interrupted grant start_chunk = (\<lambda>((a, fs), stream).
    let object = tg_object grant; limit = agent_payload_limit (ea_config a);
        window = mp_max_inflight_chunks (ac_policy (ea_config a))
    in bind_io (with_object (
         bind_io (on_object (FileHandle_open
           (object_data_path (ea_store a) (so_object_id object) (so_generation object)) False)) (\<lambda>_.
         bind_io (\<lambda>((h, (a, fs)), stream).
           (Inr (), ((h, (cancellation_flag (tg_movement_id grant) a, fs)), stream))) (\<lambda>_.
         bind_io (serve_chunks send_all receive_some interrupted limit window grant
           (unat (so_chunk_count object) - unat start_chunk) start_chunk 0 0) (\<lambda>sent_bytes.
         bind_io (serve_end send_all receive_some limit grant) (\<lambda>result. return_io (sent_bytes, result))))))) (\<lambda>(sent_bytes, result).
       bind_io (on_agent (modify_agent (count_up (\<lambda>n. n\<lparr>ec_transfers_served := ec_transfers_served n + 1,
         ec_bytes_sent := ec_bytes_sent n + sent_bytes\<rparr>)))) (\<lambda>_.
         if dr_code result \<noteq> OK then fail_io (dr_code result) (dr_detail result) else return_io ())) ((a, fs), stream))"

text \<open>The status of an action that returns nothing else.\<close>

definition status_of :: "unit result \<Rightarrow> status" where
  "status_of r = (case r of Inl s \<Rightarrow> s | Inr _ \<Rightarrow> Status_success)"

definition serve_data_connection ::
    "(bytes \<Rightarrow> 'c \<Rightarrow> status \<times> 'c) \<Rightarrow> (nat \<Rightarrow> 'c \<Rightarrow> bytes result \<times> 'c) \<Rightarrow> ('c \<Rightarrow> bool) \<Rightarrow>
     ('e \<Rightarrow> nat \<Rightarrow> bytes \<times> 'e) \<Rightarrow> 'e \<Rightarrow> string \<Rightarrow> 'c \<Rightarrow> 'c agent_world \<Rightarrow> status \<times> 'c agent_world" where
  "serve_data_connection send_all receive_some interrupted fill e version connection w =
    (case bind_io (server_handshake send_all receive_some fill e version) (\<lambda>hello.
        bind_io (admit_transfer send_all receive_some (pi_endpoint (hq_identity hello))) (\<lambda>(grant, start_chunk).
          serve_transfer send_all receive_some interrupted grant start_chunk)) (w, (FrameCodec_default, connection)) of
       (r, (w, _)) \<Rightarrow> (status_of r, w))"

text \<open>A worker of the pool takes the oldest queued connection and serves it.\<close>

definition session_worker_step ::
    "('c \<Rightarrow> 'c agent_world \<Rightarrow> status \<times> 'c agent_world) \<Rightarrow> 'c agent_world \<Rightarrow> 'c agent_world" where
  "session_worker_step serve = (\<lambda>(a, fs).
    case ea_session_queue a of
      [] \<Rightarrow> (a, fs)
    | connection # rest \<Rightarrow>
        (case serve connection (a\<lparr>ea_session_queue := rest, ea_active_sessions := ea_active_sessions a + 1\<rparr>, fs) of
           (_, (a, fs)) \<Rightarrow> (a\<lparr>ea_active_sessions := ea_active_sessions a - 1\<rparr>, fs)))"

end
