(* ===== verification/SMF_Agent_Receive.thy ===== *)
theory SMF_Agent_Receive
  imports SMF_Agent_Transfer
begin

text \<open>
  The destination side of the endpoint process (src/endpoint_agent.cpp, run_transfer and the worker
  that runs it) and the publication of local state (publish_file, publish_bytes, announce).

  A transfer works on a staging writer, the state of the process, its disk and the session. What
  the coordinator answers to the topology query is an argument, \<open>None\<close> for no answer in time.
\<close>

section \<open>Asking the coordinator\<close>

definition waiting_for :: "string \<Rightarrow> 'c endpoint_agent \<Rightarrow> bool" where
  "waiting_for key a = (case ea_control a of None \<Rightarrow> False | Some link \<Rightarrow> key \<in> set (cl_pending link))"

definition set_pending :: "(string list \<Rightarrow> string list) \<Rightarrow> 'c endpoint_agent \<Rightarrow> 'c endpoint_agent" where
  "set_pending f a = a\<lparr>ea_control := map_option (\<lambda>link. link\<lparr>cl_pending := f (cl_pending link)\<rparr>) (ea_control a)\<rparr>"

text \<open>A request and the wait for its answer. The reader that delivers the answer takes the entry.\<close>

definition ask_coordinator ::
    "(bytes \<Rightarrow> 'c \<Rightarrow> status \<times> 'c) \<Rightarrow> string \<Rightarrow> string \<Rightarrow> string \<Rightarrow> message_type \<Rightarrow> bytes \<Rightarrow> frame option \<Rightarrow>
     ('c agent_world, frame) io" where
  "ask_coordinator send_all key busy late type payload answer = (\<lambda>(a, fs).
    if waiting_for key a then (err BUSY busy, (a, fs))
    else case send_control send_all type payload (set_pending (\<lambda>keys. key # keys) a, fs) of
      (Inl s, (a, fs)) \<Rightarrow> (Inl s, (set_pending (removeAll key) a, fs))
    | (Inr _, (a, fs)) \<Rightarrow>
        (case answer of None \<Rightarrow> err IO_TIMEOUT late | Some frame \<Rightarrow> Inr frame,
         (set_pending (removeAll key) a, fs)))"

definition announce ::
    "(bytes \<Rightarrow> 'c \<Rightarrow> status \<times> 'c) \<Rightarrow> frame option \<Rightarrow> state_object \<Rightarrow> ('c agent_world, unit) io" where
  "announce send_all answer descriptor = (\<lambda>(a, fs).
    if (case ea_control a of None \<Rightarrow> True | Some link \<Rightarrow> \<not> cl_alive link)
    then (err CONNECTION_CLOSED ''the coordinator link is not available'', (a, fs))
    else bind_io (ask_coordinator send_all (MessageType_to_string MT_ANNOUNCE_ACK)
        ''another announcement is already in flight'' ''the coordinator did not acknowledge the announcement''
        MT_ANNOUNCE_OBJECT (AnnounceObject_encode \<lparr>ao_descriptor = descriptor\<rparr>) answer) (\<lambda>frame.
      if fh_type (fr_header frame) \<noteq> MT_ANNOUNCE_ACK
      then fail_io CONNECTION_CLOSED ''the coordinator link closed before the acknowledgement arrived''
      else bind_io (lift_io (decode_message AnnounceAck_decode frame)) (\<lambda>ack.
        if aa_code ack \<noteq> OK then fail_io (aa_code ack) (aa_detail ack) else return_io ())) (a, fs))"

definition find_source :: "endpoint_id \<Rightarrow> topology_report \<Rightarrow> socket_address result" where
  "find_source source report =
    (case find (\<lambda>registration. er_endpoint registration = source) (trp_endpoints report) of
       None \<Rightarrow> err ENDPOINT_NOT_FOUND ''the coordinator does not list the source endpoint''
     | Some registration \<Rightarrow> Inr (er_data_address registration))"

definition resolve_source ::
    "(bytes \<Rightarrow> 'c \<Rightarrow> status \<times> 'c) \<Rightarrow> frame option \<Rightarrow> endpoint_id \<Rightarrow> ('c agent_world, socket_address) io" where
  "resolve_source send_all answer source =
     bind_io (ask_coordinator send_all ''TOPOLOGY_REPORT'' ''another topology query is already in flight''
       ''the coordinator did not answer the topology query'' MT_TOPOLOGY_REQUEST (TopologyRequest_encode ()) answer) (\<lambda>frame.
     if fh_type (fr_header frame) \<noteq> MT_TOPOLOGY_REPORT
     then fail_io IO_TIMEOUT ''the coordinator link closed before the answer arrived''
     else bind_io (lift_io (decode_message TopologyReport_decode frame)) (\<lambda>report.
       lift_io (find_source source report)))"

definition report_attempt_result ::
    "(bytes \<Rightarrow> 'c \<Rightarrow> status \<times> 'c) \<Rightarrow> movement_id \<Rightarrow> generation \<Rightarrow> attempt_id \<Rightarrow> movement_state \<Rightarrow> reason_code \<Rightarrow>
     string \<Rightarrow> digest \<Rightarrow> u64 \<Rightarrow> u32 \<Rightarrow> digest \<Rightarrow> ('c agent_world, unit) io" where
  "report_attempt_result send_all movement_id generation attempt state code detail verified_digest bytes chunks marker =
     send_control send_all MT_ATTEMPT_RESULT
       (AttemptResult_encode \<lparr>ar_movement_id = movement_id, ar_movement_generation = generation,
          ar_attempt = attempt, ar_state = state, ar_code = code, ar_detail = detail,
          ar_verified_digest = verified_digest, ar_bytes = bytes, ar_chunks = chunks, ar_marker_digest = marker\<rparr>)"

section \<open>Opening the transfer\<close>

type_synonym 'c transfer_world = "(staging_writer \<times> 'c agent_world) \<times> 'c data_stream"

definition on_writer :: "(writer_world, 'a) io \<Rightarrow> ('c transfer_world, 'a) io" where
  "on_writer m = (\<lambda>((w, (a, fs)), stream). case m (w, fs) of (r, (w, fs)) \<Rightarrow> (r, ((w, (a, fs)), stream)))"

definition on_process :: "('c agent_world, 'a) io \<Rightarrow> ('c transfer_world, 'a) io" where
  "on_process m = (\<lambda>((w, p), stream). case m p of (r, p) \<Rightarrow> (r, ((w, p), stream)))"

definition abort_transfer :: "'c transfer_world \<Rightarrow> 'c transfer_world" where
  "abort_transfer = (\<lambda>((w, p), stream). ((StagingWriter_abort w, p), stream))"

text \<open>An action whose failure aborts the staging writer.\<close>

definition or_abort :: "('c transfer_world, 'a) io \<Rightarrow> ('c transfer_world, 'a) io" where
  "or_abort m world = (case m world of (Inl s, world) \<Rightarrow> (Inl s, abort_transfer world) | (Inr x, world) \<Rightarrow> (Inr x, world))"

definition resume_from_chunk :: "staging_writer \<Rightarrow> u32" where
  "resume_from_chunk w = sj_verified_chunks (sw_journal w)"

definition begin_message :: "transfer_grant \<Rightarrow> attempt_id \<Rightarrow> endpoint_id \<Rightarrow> staging_writer \<Rightarrow> data_begin" where
  "begin_message grant attempt me w =
    \<lparr>db_nonce = tg_grant_nonce grant, db_movement_id = tg_movement_id grant,
     db_movement_generation = tg_movement_generation grant, db_attempt = attempt, db_object = tg_object grant,
     db_destination = me, db_destination_incarnation = tg_destination_incarnation grant,
     db_resume_from_chunk = resume_from_chunk w,
     db_resume_from_offset = (if resume_from_chunk w = 0 then 0 else sj_verified_bytes (sw_journal w))\<rparr>"

definition open_transfer ::
    "(bytes \<Rightarrow> 'c \<Rightarrow> status \<times> 'c) \<Rightarrow> (nat \<Rightarrow> 'c \<Rightarrow> bytes result \<times> 'c) \<Rightarrow> transfer_grant \<Rightarrow> attempt_id \<Rightarrow>
     ('c transfer_world, unit) io" where
  "open_transfer send_all receive_some grant attempt = (\<lambda>((w, (a, fs)), stream).
    let limit = agent_payload_limit (ea_config a)
    in bind_io (stream_send send_all limit MT_DATA_BEGIN
         (DataBegin_encode (begin_message grant attempt (ac_endpoint_id (ea_config a)) w))) (\<lambda>_.
       bind_io (stream_receive receive_some limit) (\<lambda>frame.
       bind_io (lift_io (decode_message DataBeginAck_decode frame)) (\<lambda>ack.
         if dba_code ack \<noteq> OK then fail_io (dba_code ack) (dba_detail ack)
         else if dba_resume_from_chunk ack \<noteq> resume_from_chunk w
         then (\<lambda>((w, (a, fs)), stream).
           (err RESUME_INCOMPATIBLE ''the source refused the resume point declared by the destination'',
            ((StagingWriter_abort w, (clear_cancellation (tg_movement_id grant) a, fs)), stream)))
         else (\<lambda>((w, (a, fs)), stream).
           (Inr (), ((w, (cancellation_flag (tg_movement_id grant) a, fs)), stream)))))) ((w, (a, fs)), stream))"

section \<open>Receiving chunks\<close>

text \<open>The counters of the loop: chunks stored, duplicates, and frames since the last acknowledgement.\<close>

type_synonym counts = "u32 \<times> u32 \<times> u32"

definition check_data_end :: "transfer_grant \<Rightarrow> attempt_id \<Rightarrow> frame \<Rightarrow> unit result" where
  "check_data_end grant attempt frame =
    (case decode_message DataEnd_decode frame of
       Inl s \<Rightarrow> Inl s
     | Inr m \<Rightarrow>
         if de_movement_id m \<noteq> tg_movement_id grant \<or> de_attempt m \<noteq> attempt
         then err AUTHORITY_MISMATCH ''the transfer end names a different movement or attempt''
         else if de_content_digest m \<noteq> so_content_digest (tg_object grant)
         then err CONTENT_DIGEST_MISMATCH ''the source declared a content digest the grant does not authorize''
         else Inr ())"

definition aborted_by_source :: "frame \<Rightarrow> 'a result" where
  "aborted_by_source frame =
    (case decode_message DataAbort_decode frame of
       Inr m \<Rightarrow> err (dab_code m) (dab_detail m)
     | Inl _ \<Rightarrow> err SOURCE_REJECTED ''the source aborted the transfer'')"

text \<open>Storing the chunk of a frame; the result tells whether it was a duplicate.\<close>

definition store_frame :: "transfer_grant \<Rightarrow> attempt_id \<Rightarrow> frame \<Rightarrow> ('c transfer_world, bool) io" where
  "store_frame grant attempt frame =
     bind_io (lift_io (decode_message DataChunk_decode frame)) (\<lambda>m.
       if dc_movement_id m \<noteq> tg_movement_id grant \<or> dc_attempt m \<noteq> attempt
       then fail_io AUTHORITY_MISMATCH ''a chunk arrived for a different attempt''
       else (\<lambda>((w, p), stream).
         bind_io (on_writer (StagingWriter_append (dc_chunk_index m) (dc_chunk_offset m) (dc_payload m)
             (dc_chunk_digest m))) (\<lambda>_.
           return_io (dc_chunk_index m < resume_from_chunk w)) ((w, p), stream)))"

definition chunk_ack ::
    "(bytes \<Rightarrow> 'c \<Rightarrow> status \<times> 'c) \<Rightarrow> u32 \<Rightarrow> transfer_grant \<Rightarrow> attempt_id \<Rightarrow> u32 \<Rightarrow> ('c transfer_world, unit) io" where
  "chunk_ack send_all limit grant attempt duplicates = (\<lambda>((w, p), stream).
     stream_send send_all limit MT_DATA_CHUNK_ACK
       (DataChunkAck_encode \<lparr>dca_movement_id = tg_movement_id grant, dca_attempt = attempt,
          dca_highest_contiguous_index = resume_from_chunk w - 1, dca_duplicates_ignored = duplicates\<rparr>)
       ((w, p), stream))"

text \<open>One frame of the session: \<open>Inr None\<close> is the end of the data, \<open>Inr (Some counts)\<close> goes on.\<close>

definition on_data_frame ::
    "(bytes \<Rightarrow> 'c \<Rightarrow> status \<times> 'c) \<Rightarrow> transfer_grant \<Rightarrow> attempt_id \<Rightarrow> counts \<Rightarrow> frame \<Rightarrow>
     ('c transfer_world, counts option) io" where
  "on_data_frame send_all grant attempt = (\<lambda>(received, duplicates, since_ack) frame ((w, (a, fs)), stream).
    let type = fh_type (fr_header frame); limit = agent_payload_limit (ea_config a);
        window = mp_max_inflight_chunks (ac_policy (ea_config a))
    in (if type = MT_DATA_ABORT then or_abort (lift_io (aborted_by_source frame))
        else if type = MT_DATA_END
        then bind_io (or_abort (lift_io (check_data_end grant attempt frame))) (\<lambda>_. return_io None)
        else if type \<noteq> MT_DATA_CHUNK then or_abort (fail_io PROTOCOL_STATE_VIOLATION ''expected a data chunk'')
        else bind_io (or_abort (store_frame grant attempt frame)) (\<lambda>duplicate.
          let received = (if duplicate then received else received + 1);
              duplicates = (if duplicate then duplicates + 1 else duplicates);
              since_ack = since_ack + 1
          in if since_ack \<ge> window
             then bind_io (chunk_ack send_all limit grant attempt duplicates) (\<lambda>_.
               return_io (Some (received, duplicates, 0)))
             else return_io (Some (received, duplicates, since_ack)))) ((w, (a, fs)), stream))"

partial_function (option) receive_chunks ::
    "(bytes \<Rightarrow> 'c \<Rightarrow> status \<times> 'c) \<Rightarrow> (nat \<Rightarrow> 'c \<Rightarrow> bytes result \<times> 'c) \<Rightarrow> ('c \<Rightarrow> bool) \<Rightarrow> u32 \<Rightarrow> transfer_grant \<Rightarrow>
     attempt_id \<Rightarrow> counts \<Rightarrow> 'c transfer_world \<Rightarrow> (counts result \<times> 'c transfer_world) option" where
  "receive_chunks send_all receive_some interrupted limit grant attempt counts world =
    (if interrupted (snd (snd world))
     then Some (err CANCELLED_BY_OPERATOR ''the movement was cancelled'', abort_transfer world)
     else case or_abort (stream_receive receive_some limit) world of
       (Inl s, world) \<Rightarrow> Some (Inl s, world)
     | (Inr frame, world) \<Rightarrow>
         (case on_data_frame send_all grant attempt counts frame world of
            (Inl s, world) \<Rightarrow> Some (Inl s, world)
          | (Inr None, world) \<Rightarrow> Some (Inr counts, world)
          | (Inr (Some counts), world) \<Rightarrow>
              receive_chunks send_all receive_some interrupted limit grant attempt counts world))"

section \<open>Placing what arrived\<close>

definition place_received ::
    "(bytes \<Rightarrow> 'c \<Rightarrow> status \<times> 'c) \<Rightarrow> u32 \<Rightarrow> transfer_grant \<Rightarrow> attempt_id \<Rightarrow> counts \<Rightarrow> ('c transfer_world, unit) io" where
  "place_received send_all limit grant attempt = (\<lambda>(received, duplicates, _).
     let object = tg_object grant
     in bind_io (on_writer StagingWriter_finish) (\<lambda>digest.
       if digest \<noteq> so_content_digest object
       then (\<lambda>((w, (a, fs)), stream).
         case discard_staging (ea_store a) (tg_movement_id grant) fs of
           (_, fs) \<Rightarrow> (err CONTENT_DIGEST_MISMATCH
             ''the received bytes do not hash to the authorized content digest'', ((w, (a, fs)), stream)))
       else bind_io (on_writer StagingWriter_promote) (\<lambda>_ world.
         case stream_send send_all limit MT_DATA_RESULT
             (DataResult_encode \<lparr>dr_movement_id = tg_movement_id grant, dr_attempt = attempt, dr_code = OK,
                dr_stored_digest = digest, dr_stored_bytes = so_total_bytes object,
                dr_stored_chunks = so_chunk_count object, dr_marker_digest = 0,
                dr_detail = ''stored and verified locally''\<rparr>) world of
           (_, world) \<Rightarrow>
             bind_io (on_process (modify_agent (count_up (\<lambda>n. n\<lparr>
               ec_transfers_received := ec_transfers_received n + 1,
               ec_bytes_received := ec_bytes_received n + so_total_bytes object,
               ec_chunks_written := ec_chunks_written n + ucast received,
               ec_duplicate_chunks := ec_duplicate_chunks n + ucast duplicates\<rparr>)))) (\<lambda>_.
             on_process (report_attempt_result send_all (tg_movement_id grant) (tg_movement_generation grant)
               attempt MS_BYTES_ARRIVED OK ''bytes arrived and verified locally'' digest (so_total_bytes object)
               (so_chunk_count object) 0)) world)))"

text \<open>A transfer on an open session: the handshake, the opening, the chunks and the placement.\<close>

definition transfer_session ::
    "(bytes \<Rightarrow> 'c \<Rightarrow> status \<times> 'c) \<Rightarrow> (nat \<Rightarrow> 'c \<Rightarrow> bytes result \<times> 'c) \<Rightarrow> ('c \<Rightarrow> bool) \<Rightarrow> hello_request \<Rightarrow>
     transfer_grant \<Rightarrow> attempt_id \<Rightarrow> 'c transfer_world \<Rightarrow> (unit result \<times> 'c transfer_world) option" where
  "transfer_session send_all receive_some interrupted hello grant attempt = (\<lambda>((w, (a, fs)), stream).
    let limit = agent_payload_limit (ea_config a);
        refused = Status SOURCE_REJECTED ''the source refused the data session''
    in case bind_io (client_handshake send_all receive_some limit (ac_shared_secret (ea_config a)) refused hello) (\<lambda>_.
         open_transfer send_all receive_some grant attempt) ((w, (a, fs)), stream) of
      (Inl s, world) \<Rightarrow> Some (Inl s, world)
    | (Inr _, world) \<Rightarrow>
        (case receive_chunks send_all receive_some interrupted limit grant attempt (0, 0, 0) world of
           None \<Rightarrow> None
         | Some (Inl s, world) \<Rightarrow> Some (Inl s, world)
         | Some (Inr counts, world) \<Rightarrow> Some (place_received send_all limit grant attempt counts world)))"

definition run_transfer ::
    "(bytes \<Rightarrow> 'c \<Rightarrow> status \<times> 'c) \<Rightarrow> (nat \<Rightarrow> 'c \<Rightarrow> bytes result \<times> 'c) \<Rightarrow> ('c \<Rightarrow> bool) \<Rightarrow>
     (socket_address \<Rightarrow> 'c result) \<Rightarrow> hello_request result \<Rightarrow> frame option \<Rightarrow> transfer_grant \<Rightarrow> attempt_id \<Rightarrow>
     'c agent_world \<Rightarrow> (status \<times> 'c agent_world) option" where
  "run_transfer send_all receive_some interrupted connect hello answer grant attempt p =
    (case bind_io (resolve_source send_all answer (tg_source grant)) (\<lambda>address (a, fs).
        case StagingWriter_begin (ea_store a) (tg_movement_id grant) (tg_movement_generation grant) attempt
            (tg_object grant) fs of
          (Inl s, fs) \<Rightarrow> (Inl s, (a, fs))
        | (Inr w, fs) \<Rightarrow>
            bind_io (lift_io (connect address)) (\<lambda>c.
            bind_io (lift_io hello) (\<lambda>request. return_io (w, c, request))) (a, fs)) p of
       (Inl s, p) \<Rightarrow> Some (s, p)
     | (Inr (w, c, request), p) \<Rightarrow>
         (case transfer_session send_all receive_some interrupted request grant attempt
             ((w, p), (FrameCodec_default, c)) of
            None \<Rightarrow> None
          | Some (r, ((_, p), _)) \<Rightarrow> Some (status_of r, p)))"

definition execute_movement_worker ::
    "(bytes \<Rightarrow> 'c \<Rightarrow> status \<times> 'c) \<Rightarrow> (transfer_grant \<Rightarrow> attempt_id \<Rightarrow> 'c agent_world \<Rightarrow> (status \<times> 'c agent_world) option) \<Rightarrow>
     movement_id \<Rightarrow> attempt_id \<Rightarrow> nonce \<Rightarrow> 'c agent_world \<Rightarrow> 'c agent_world option" where
  "execute_movement_worker send_all run movement_id attempt nonce = (\<lambda>(a, fs).
    case map_of (ea_grants a) nonce of
      None \<Rightarrow> Some (a, fs)
    | Some entry \<Rightarrow>
        let grant = ge_grant entry
        in case run grant attempt (a, fs) of
          None \<Rightarrow> None
        | Some (status, w) \<Rightarrow>
            if Status_ok status then Some w
            else Some (snd (report_attempt_result send_all movement_id (tg_movement_generation grant) attempt
              (if status_code status = CANCELLED_BY_OPERATOR then MS_CANCELLED else MS_FAILED)
              (status_code status) (status_message status) 0 0 0 0 w)))"

end
