(* ===== verification/SMF_Agent_Publish.thy ===== *)
theory SMF_Agent_Publish
  imports SMF_Agent
begin

text \<open>
  Publishing local state at an endpoint (src/endpoint_agent.cpp, publish_file, publish_bytes and
  finalize_publication): the content is described, copied into the store and committed with a
  marker of local origin. The two readings of the clock and the fresh movement id are arguments.
  The outer option is the undefined division of \<open>StateObjectDescriptor_create\<close>.
\<close>

section \<open>Copying and hashing a file\<close>

text \<open>\<^verbatim>\<open>std::filesystem::copy_file\<close> with \<^verbatim>\<open>overwrite_existing\<close>. A copy that fails may leave a part of
  the content in the target.\<close>

definition fs_copy_file :: "path \<Rightarrow> path \<Rightarrow> file_system \<Rightarrow> bool \<times> file_system" where
  "fs_copy_file a b fs =
    (let (outcome, fs) = os_outcome fs
     in if \<not> is_file fs a \<or> a = b \<or> b = [] \<or> fs_lookup fs b = Some Directory \<or> \<not> is_directory fs (butlast b)
        then (True, fs)
        else case outcome of
          IO_done \<Rightarrow> (False, set_node b (File (file_contents fs a)) fs)
        | IO_failed n \<Rightarrow> (True, if n = 0 then fs else set_node b (File (take n (file_contents fs a))) fs))"

function hash_file_loop :: "nat \<Rightarrow> sha256_state \<Rightarrow> (handle_world, sha256_state) io" where
  "hash_file_loop buffer hasher w =
    (case FileHandle_read buffer w of
       (Inl s, w) \<Rightarrow> (Inl s, w)
     | (Inr data, w) \<Rightarrow>
         if data = [] then (Inr hasher, w)
         else if length data < buffer then (Inr (Sha256_update hasher data), w)
         else hash_file_loop buffer (Sha256_update hasher data) w)"
  by pat_completeness auto
termination
  by (relation "measure (\<lambda>(_, _, w). unread w)") (auto intro: unread_read [OF sym])

declare hash_file_loop.simps [simp del]

section \<open>Publication\<close>

abbreviation (input) "kLocalOrigin \<equiv> ''local-origin''"

definition publication_chunk_bytes :: "movement_policy \<Rightarrow> u64" where
  "publication_chunk_bytes policy = min (mp_max_chunk_bytes policy) (max (mp_min_chunk_bytes policy) (2 ^ 20))"

definition import_path :: "object_store_options \<Rightarrow> state_object \<Rightarrow> path" where
  "import_path store object = object_directory store (so_object_id object) (so_generation object) @ [''data.import'']"

definition finalize_publication ::
    "movement_id \<Rightarrow> u64 \<Rightarrow> state_object \<Rightarrow> path \<Rightarrow> ('c agent_world, unit) io" where
  "finalize_publication fresh now object staged =
     bind_io (on_disk (sync_existing_file staged)) (\<lambda>_ (a, fs).
       let target = object_data_path (ea_store a) (so_object_id object) (so_generation object);
           (_, fs) = fs_remove target fs;
           (error, fs) = fs_rename staged target fs
       in if error then (err STORE_IO_ERROR ''could not place the object bytes'', (a, fs))
          else bind_io (lift_io (EndpointId_parse kLocalOrigin)) (\<lambda>origin.
            bind_io (on_disk (write_commit_marker (ea_store a)
              (agent_marker now fresh 1 object origin (so_total_bytes object) a))) (\<lambda>_.
            modify_agent (count_up (\<lambda>n. n\<lparr>ec_objects_published := ec_objects_published n + 1\<rparr>)))) (a, fs))"

definition make_object_directory :: "state_object \<Rightarrow> ('c agent_world, unit) io" where
  "make_object_directory object = (\<lambda>(a, fs).
    case fs_create_directories (object_directory (ea_store a) (so_object_id object) (so_generation object)) fs of
      (error, fs) \<Rightarrow>
        (if error then err STORE_IO_ERROR ''could not create the object directory'' else Inr (), (a, fs)))"

definition publish_bytes ::
    "movement_id \<Rightarrow> u64 \<Rightarrow> u64 \<Rightarrow> state_kind \<Rightarrow> string \<Rightarrow> generation \<Rightarrow> bytes \<Rightarrow> string \<Rightarrow> bool \<Rightarrow>
     'c agent_world \<Rightarrow> (state_object result \<times> 'c agent_world) option" where
  "publish_bytes fresh created now kind name generation contents producer repeatable = (\<lambda>(a, fs).
    let policy = ac_policy (ea_config a)
    in if length contents > unat (mp_max_object_bytes policy)
       then Some (err POLICY_VIOLATION ''the payload exceeds the configured object bound'', (a, fs))
       else case StateObjectDescriptor_create kind name generation (sha256 contents)
           (word_of_nat (length contents)) (publication_chunk_bytes policy) created producer of
         None \<Rightarrow> None
       | Some (Inl s) \<Rightarrow> Some (Inl s, (a, fs))
       | Some (Inr descriptor) \<Rightarrow>
           let object = descriptor\<lparr>so_repeatable := repeatable\<rparr>;
               temporary = import_path (ea_store a) object
           in Some (bind_io (make_object_directory object) (\<lambda>_.
                bind_io (on_disk (atomic_replace_file temporary contents True)) (\<lambda>_.
                bind_io (finalize_publication fresh now object temporary) (\<lambda>_.
                  return_io object))) (a, fs)))"

definition hash_source :: "movement_policy \<Rightarrow> path \<Rightarrow> (file_system, digest \<times> nat) io" where
  "hash_source policy source_file = with_handle (
     bind_io (FileHandle_open source_file False) (\<lambda>_.
     bind_io FileHandle_size (\<lambda>size.
       if size > unat (mp_max_object_bytes policy)
       then fail_io POLICY_VIOLATION ''the file exceeds the configured object bound''
       else bind_io (hash_file_loop (min (2 ^ 20) (max size 1)) Sha256_reset) (\<lambda>hasher.
         return_io (fst (Sha256_finalize hasher), size)))))"

definition copy_into_store :: "path \<Rightarrow> path \<Rightarrow> ('c agent_world, unit) io" where
  "copy_into_store source_file temporary = (\<lambda>(a, fs).
    case fs_copy_file source_file temporary fs of
      (error, fs) \<Rightarrow>
        (if error then err STORE_IO_ERROR ''could not copy the object into the store'' else Inr (), (a, fs)))"

definition publish_file ::
    "movement_id \<Rightarrow> u64 \<Rightarrow> u64 \<Rightarrow> state_kind \<Rightarrow> string \<Rightarrow> generation \<Rightarrow> path \<Rightarrow> string \<Rightarrow> bool \<Rightarrow>
     'c agent_world \<Rightarrow> (unit result \<times> 'c agent_world) option" where
  "publish_file fresh created now kind name generation source_file producer repeatable = (\<lambda>(a, fs).
    let policy = ac_policy (ea_config a)
    in case hash_source policy source_file fs of
      (Inl s, fs) \<Rightarrow> Some (Inl s, (a, fs))
    | (Inr (content, file_size), fs) \<Rightarrow>
        (case StateObjectDescriptor_create kind name generation content (word_of_nat file_size)
            (publication_chunk_bytes policy) created producer of
           None \<Rightarrow> None
         | Some (Inl s) \<Rightarrow> Some (Inl s, (a, fs))
         | Some (Inr descriptor) \<Rightarrow>
             let object = descriptor\<lparr>so_repeatable := repeatable\<rparr>;
                 temporary = import_path (ea_store a) object
             in Some (bind_io (make_object_directory object) (\<lambda>_.
                  bind_io (copy_into_store source_file temporary) (\<lambda>_.
                  finalize_publication fresh now object temporary)) (a, fs))))"

end
