(* ===== verification/SMF_Agent_Laws.thy ===== *)
theory SMF_Agent_Laws
  imports SMF_Frames SMF_Agent_Receive SMF_Agent_Publish
begin

text \<open>
  What the endpoint process keeps: its configuration, the authenticity and number of its grants,
  and the commit markers on its disk. The laws hold whichever system calls fail and whatever the
  peers send.
\<close>

section \<open>Actions inside a relation\<close>

text \<open>\<open>io_within R m\<close>: every run of \<open>m\<close> relates the state before to the state after.\<close>

definition io_within :: "('s \<Rightarrow> 's \<Rightarrow> bool) \<Rightarrow> ('s, 'a) io \<Rightarrow> bool" where
  "io_within R m \<longleftrightarrow> (\<forall>s. R s (snd (m s)))"

locale preorder_on_states =
  fixes R :: "'s \<Rightarrow> 's \<Rightarrow> bool"
  assumes refl_R: "R s s"
    and trans_R: "R s t \<Longrightarrow> R t u \<Longrightarrow> R s u"
begin

lemma within_bind:
  assumes "io_within R m" "\<And>x. io_within R (k x)"
  shows "io_within R (bind_io m k)"
  unfolding io_within_def
proof
  fix s
  have "R s (snd (m s))" "R t (snd (k x t))" for x t
    using assms by (simp_all add: io_within_def)
  then show "R s (snd (bind_io m k s))"
    by (auto simp: bind_io_def split: prod.splits sum.splits) (metis snd_conv trans_R)+
qed

lemma within_pure: "io_within R (return_io x)" "io_within R (fail_io c what)" "io_within R (lift_io r)"
  by (simp_all add: io_within_def return_io_def fail_io_def lift_io_def refl_R)

lemma within_if: "io_within R m \<Longrightarrow> io_within R m' \<Longrightarrow> io_within R (if b then m else m')"
  by simp

lemma within_ignore: "io_within R m \<Longrightarrow> io_within R k \<Longrightarrow> io_within R (\<lambda>s. k (snd (m s)))"
  unfolding io_within_def by (metis trans_R)

end

named_theorems quiet_intros

lemma io_withinD: "io_within R m \<Longrightarrow> m s = (r, s') \<Longrightarrow> R s s'"
  unfolding io_within_def by (metis snd_conv)

lemma io_withinI: "(\<And>s r s'. m s = (r, s') \<Longrightarrow> R s s') \<Longrightarrow> io_within R m"
  unfolding io_within_def by (metis prod.collapse)

section \<open>Grants\<close>

definition grant_authentic :: "agent_config \<Rightarrow> transfer_grant \<Rightarrow> bool" where
  "grant_authentic config grant \<longleftrightarrow>
     Status_ok (TransferGrant_verify_signature (ac_shared_secret config) grant) \<and>
     Status_ok (TransferGrant_validate grant) \<and> ac_endpoint_id config \<in> {tg_source grant, tg_destination grant}"

definition grants_ok :: "'c endpoint_agent \<Rightarrow> bool" where
  "grants_ok a \<longleftrightarrow> distinct (map fst (ea_grants a)) \<and>
     length (ea_grants a) \<le> unat (mp_max_movements_in_flight (ac_policy (ea_config a)) * 2) \<and>
     (\<forall>(nonce, entry)\<in>set (ea_grants a). tg_grant_nonce (ge_grant entry) = nonce \<and>
        grant_authentic (ea_config a) (ge_grant entry))"

definition agent_ok :: "'c endpoint_agent \<Rightarrow> bool" where
  "agent_ok a \<longleftrightarrow> grants_ok a \<and> length (ea_session_queue a) \<le> unat (ac_max_data_sessions (ea_config a))"

lemma length_update_le: "length (AList.update k v xs) \<le> Suc (length xs)"
  by (induction xs) auto

lemma length_update_member: "k \<in> fst ` set xs \<Longrightarrow> length (AList.update k v xs) = length xs"
  by (induction xs) auto

lemma set_update_subset: "set (AList.update k v xs) \<subseteq> insert (k, v) (set xs)"
  by (induction xs) auto

lemma grants_ok_update:
  assumes "grants_ok a" "tg_grant_nonce (ge_grant entry) = nonce" "grant_authentic (ea_config a) (ge_grant entry)"
    "nonce \<in> fst ` set (ea_grants a) \<or>
     length (ea_grants a) < unat (mp_max_movements_in_flight (ac_policy (ea_config a)) * 2)"
  shows "grants_ok (a\<lparr>ea_grants := AList.update nonce entry (ea_grants a)\<rparr>)"
proof -
  have "length (AList.update nonce entry (ea_grants a)) \<le> unat (mp_max_movements_in_flight (ac_policy (ea_config a)) * 2)"
    using assms(4)
  proof
    assume "nonce \<in> fst ` set (ea_grants a)"
    then show ?thesis
      using assms(1) by (simp add: length_update_member grants_ok_def)
  qed (use length_update_le [of nonce entry "ea_grants a"] in linarith)
  then show ?thesis
    using assms(1-3) set_update_subset [of nonce entry "ea_grants a"]
    by (fastforce simp: grants_ok_def distinct_update)
qed

lemma grants_ok_lookup:
  "grants_ok a \<Longrightarrow> map_of (ea_grants a) nonce = Some entry \<Longrightarrow>
   tg_grant_nonce (ge_grant entry) = nonce \<and> grant_authentic (ea_config a) (ge_grant entry)"
  unfolding grants_ok_def by (auto dest!: map_of_SomeD)

section \<open>Quiet actions\<close>

text \<open>A quiet action keeps the configuration and the store of the process, keeps its invariant and
  leaves every commit marker alone.\<close>

definition quiet :: "'c agent_world \<Rightarrow> 'c agent_world \<Rightarrow> bool" where
  "quiet = (\<lambda>(a, fs) (a', fs'). ea_config a' = ea_config a \<and> ea_store a' = ea_store a \<and>
     ea_incarnation a' = ea_incarnation a \<and> (agent_ok a \<longrightarrow> agent_ok a') \<and>
     (\<forall>k g. fs_lookup fs' (commit_marker_path (ea_store a) k g) = fs_lookup fs (commit_marker_path (ea_store a) k g)))"

interpretation quiet_world: preorder_on_states "quiet :: 'c agent_world \<Rightarrow> 'c agent_world \<Rightarrow> bool"
  by unfold_locales (auto simp: quiet_def)

definition on_fst :: "('s \<Rightarrow> 's \<Rightarrow> bool) \<Rightarrow> 's \<times> 't \<Rightarrow> 's \<times> 't \<Rightarrow> bool" where
  "on_fst R s t \<longleftrightarrow> R (fst s) (fst t)"

definition on_snd :: "('s \<Rightarrow> 's \<Rightarrow> bool) \<Rightarrow> 't \<times> 's \<Rightarrow> 't \<times> 's \<Rightarrow> bool" where
  "on_snd R s t \<longleftrightarrow> R (snd s) (snd t)"

interpretation quiet_data: preorder_on_states "on_fst quiet :: 'c data_world \<Rightarrow> 'c data_world \<Rightarrow> bool"
  by unfold_locales (auto simp: on_fst_def intro: quiet_world.refl_R quiet_world.trans_R)

interpretation quiet_serve: preorder_on_states "on_fst (on_snd quiet) :: 'c serve_world \<Rightarrow> 'c serve_world \<Rightarrow> bool"
  by unfold_locales (auto simp: on_fst_def on_snd_def intro: quiet_world.refl_R quiet_world.trans_R)

interpretation quiet_transfer: preorder_on_states "on_fst (on_snd quiet) :: 'c transfer_world \<Rightarrow> 'c transfer_world \<Rightarrow> bool"
  by unfold_locales (auto simp: on_fst_def on_snd_def intro: quiet_world.refl_R quiet_world.trans_R)

lemmas quiet_rules =
  quiet_world.within_bind quiet_world.within_pure quiet_world.within_if
  quiet_data.within_bind quiet_data.within_pure quiet_data.within_if
  quiet_serve.within_bind quiet_serve.within_pure quiet_serve.within_if
  quiet_transfer.within_bind quiet_transfer.within_pure quiet_transfer.within_if

lemma quiet_modify:
  "(\<And>a. ea_config (f a) = ea_config a \<and> ea_store (f a) = ea_store a \<and> ea_incarnation (f a) = ea_incarnation a \<and>
     ea_grants (f a) = ea_grants a \<and> ea_session_queue (f a) = ea_session_queue a) \<Longrightarrow> quiet (a, fs) (f a, fs)"
  by (simp add: quiet_def agent_ok_def grants_ok_def)

lemma quiet_count [simp]: "quiet (a, fs) (count_up f a, fs)"
  by (rule quiet_modify) (simp add: count_up_def)

lemma quiet_modify_count: "io_within quiet (modify_agent (count_up f))"
  by (rule io_withinI) (auto simp: modify_agent_def)

lemma send_control_quiet: "io_within quiet (send_control send_all type payload)"
  by (rule io_withinI)
    (auto simp: send_control_def quiet_def agent_ok_def grants_ok_def split: option.splits if_splits prod.splits)

lemma send_control_disk:
  "send_control send_all type payload (a, fs) = (r, (a', fs')) \<Longrightarrow> fs' = fs \<and> (\<exists>c. a' = a\<lparr>ea_control := c\<rparr>)"
  by (auto simp: send_control_def split: option.splits if_splits prod.splits intro: exI [of _ "ea_control a"])

section \<open>The control link\<close>

lemma within_state [quiet_intros]:
  "(\<And>a fs. io_within R (k a fs)) \<Longrightarrow> io_within R (\<lambda>(a, fs). k a fs (a, fs))"
  unfolding io_within_def by auto

lemma quiet_disk: "(\<And>fs r fs' store k g. m fs = (r, fs') \<Longrightarrow>
    fs_lookup fs' (commit_marker_path store k g) = fs_lookup fs (commit_marker_path store k g)) \<Longrightarrow>
  io_within quiet (on_disk m)"
  by (rule io_withinI) (auto simp: on_disk_def quiet_def split: prod.splits)

lemma quiet_reject: "io_within quiet (reject_commit send_all message code detail)"
  by (rule io_withinI)
    (auto simp: reject_commit_def split: prod.splits dest: io_withinD [OF send_control_quiet])

lemma quiet_after:
  assumes "quiet s t" "io_within quiet m" "m t = (r, u)"
  shows "quiet s u"
  by (rule quiet_world.trans_R [OF assms(1) io_withinD [OF assms(2,3)]])

lemma quiet_then_send:
  assumes "quiet s t" "\<exists>type payload. send_control send_all type payload t = (r, u)"
  shows "quiet s u"
  using assms(2) quiet_after [OF assms(1) send_control_quiet] by blast

lemma on_grant_quiet: "io_within quiet (on_grant send_all now grant)"
proof (rule io_withinI, clarify)
  fix a :: "'a endpoint_agent" and fs r a' fs'
  assume run: "on_grant send_all now grant (a, fs) = (r, (a', fs'))"
  let ?entry = "\<lparr>ge_grant = grant, ge_consumed = False, ge_received_unix_millis = now\<rparr>"
  let ?a = "a\<lparr>ea_grants := AList.update (tg_grant_nonce grant) ?entry (ea_grants a)\<rparr>"
  let ?send = "send_control send_all MT_GRANT_ACK
     (GrantAck_encode \<lparr>ga_nonce = tg_grant_nonce grant, ga_code = OK, ga_detail = ''grant recorded''\<rparr>) (?a, fs)"
  have "(a', fs') = (a, fs) \<or> (?send = (r, (a', fs')) \<and> grant_authentic (ea_config a) grant \<and>
      length (ea_grants a) < unat (mp_max_movements_in_flight (ac_policy (ea_config a)) * 2))"
  proof -
    define signature where "signature = TransferGrant_verify_signature (ac_shared_secret (ea_config a)) grant"
    define valid where "valid = TransferGrant_validate grant"
    show ?thesis
      using run unfolding on_grant_def Let_def prod.case grant_authentic_def signature_def [symmetric] valid_def [symmetric]
      by (auto split: if_splits)
  qed
  then show "quiet (a, fs) (a', fs')"
  proof
    assume new: "?send = (r, (a', fs')) \<and> grant_authentic (ea_config a) grant \<and>
      length (ea_grants a) < unat (mp_max_movements_in_flight (ac_policy (ea_config a)) * 2)"
    then have "quiet (a, fs) (?a, fs)"
      using grants_ok_update [of a ?entry "tg_grant_nonce grant"] by (simp add: quiet_def agent_ok_def)
    then show ?thesis
      using new by (elim conjE) (rule quiet_after [OF _ send_control_quiet])
  qed (simp add: quiet_world.refl_R)
qed

lemma on_execute_quiet: "io_within quiet (on_execute message)"
  by (rule io_withinI)
    (auto simp: on_execute_def Let_def quiet_def agent_ok_def grants_ok_def split: option.splits if_splits)

lemma on_cancel_quiet: "io_within quiet (on_cancel send_all message)"
  by (rule io_withinI)
    (auto simp: on_cancel_def intro!: quiet_modify elim!: quiet_after [OF _ send_control_quiet, rotated])

lemma read_range_disk:
  assumes "read_range store i g offset len bound fs = (r, fs')"
  shows "fs_lookup fs' = fs_lookup fs"
proof (cases "len > bound")
  case False
  then show ?thesis
    using assms unfolding read_range_def by simp (erule read_only_with_handle [rotated], intro read_only_intros)
qed (use assms in \<open>simp add: read_range_def fail_io_def\<close>)

lemma verify_disk:
  "verify_full store message fs = (response, fs') \<Longrightarrow> fs_lookup fs' = fs_lookup fs"
  "verify_chunk store message fs = (response, fs') \<Longrightarrow> fs_lookup fs' = fs_lookup fs"
proof -
  show "fs_lookup fs' = fs_lookup fs" if "verify_full store message fs = (response, fs')"
    using that by (auto simp: verify_full_def dest: digest_object_any(1) split: prod.splits sum.splits)
  show "fs_lookup fs' = fs_lookup fs" if "verify_chunk store message fs = (response, fs')"
    using that
    by (auto simp: verify_chunk_def Let_def dest: read_range_disk split: prod.splits sum.splits option.splits if_splits)
qed

lemma on_verify_quiet: "io_within quiet (on_verify_request send_all message)"
proof (rule io_withinI, clarify)
  fix a :: "'a endpoint_agent" and fs r a' fs'
  assume run: "on_verify_request send_all message (a, fs) = (r, (a', fs'))"
  obtain response fs1 where disk: "(if \<not> object_present (ea_store a) (vq_object_id message) (vq_object_generation message) fs
      then ((verify_response_for message)\<lparr>vr_code := OBJECT_VERSION_NOT_FOUND\<rparr>, fs)
      else if vq_full_digest_requested message then verify_full (ea_store a) message fs
      else verify_chunk (ea_store a) message fs) = (response, fs1)" by fastforce
  have "fs_lookup fs1 = fs_lookup fs"
    using disk verify_disk by (auto split: if_splits)
  then have "quiet (a, fs) (a, fs1)"
    by (simp add: quiet_def)
  then show "quiet (a, fs) (a', fs')"
    by (rule quiet_then_send) (use run in \<open>auto simp: on_verify_request_def disk\<close>)
qed

lemma authority_disk:
  assumes "authority_report_for store message fs = (report, fs')"
  shows "fs_lookup fs' = fs_lookup fs"
proof -
  obtain r1 fs1 where one: "authority store (aq_object_id message) (aq_object_generation message) fs = (r1, fs1)" by fastforce
  then show ?thesis
    using assms authority_any(1) [OF one] by (simp add: authority_report_for_def Let_def split: sum.splits)
qed

lemma on_authority_quiet: "io_within quiet (on_authority_query send_all message)"
proof (rule io_withinI, clarify)
  fix a :: "'a endpoint_agent" and fs r a' fs'
  assume run: "on_authority_query send_all message (a, fs) = (r, (a', fs'))"
  obtain report fs1 where disk: "authority_report_for (ea_store a) message fs = (report, fs1)" by fastforce
  have "quiet (a, fs) (a, fs1)"
    using authority_disk [OF disk] by (simp add: quiet_def)
  then show "quiet (a, fs) (a', fs')"
    by (rule quiet_then_send) (use run in \<open>auto simp: on_authority_query_def disk\<close>)
qed

lemma grants_ok_filter:
  assumes "grants_ok a"
  shows "grants_ok (a\<lparr>ea_grants := filter P (ea_grants a)\<rparr>)"
proof -
  have "distinct (map fst (filter P (ea_grants a)))"
    using assms by (simp add: grants_ok_def distinct_map_filter)
  moreover have "length (filter P (ea_grants a)) \<le> length (ea_grants a)"
    by simp
  ultimately show ?thesis
    using assms unfolding grants_ok_def by (simp del: length_filter_le)
qed

lemma on_cleanup_quiet: "io_within quiet (on_cleanup_request send_all message)"
proof (rule io_withinI, clarify)
  fix a :: "'a endpoint_agent" and fs r a' fs'
  assume run: "on_cleanup_request send_all message (a, fs) = (r, (a', fs'))"
  let ?t = "\<lparr>ct_movement_id = clq_movement_id message, ct_object_id = 0, ct_generation = 0,
     ct_quarantine = clq_quarantine message, ct_remove_placed = False\<rparr>"
  let ?a = "a\<lparr>ea_grants := filter (\<lambda>(_, entry). tg_movement_id (ge_grant entry) \<noteq> clq_movement_id message) (ea_grants a)\<rparr>"
  obtain cleaned fs1 where disk: "cleanup (ea_store a) ?t fs = (cleaned, fs1)" by fastforce
  have "fs_lookup fs1 (commit_marker_path (ea_store a) k g) = fs_lookup fs (commit_marker_path (ea_store a) k g)" for k g
    by (rule cleanup_any [OF disk]) (simp_all add: version_paths)
  then have "quiet (a, fs) (clear_cancellation (clq_movement_id message) ?a, fs1)"
    using grants_ok_filter [of a] by (auto simp: quiet_def agent_ok_def grants_ok_def clear_cancellation_def)
  then show "quiet (a, fs) (a', fs')"
    by (rule quiet_then_send) (use run in \<open>auto simp: on_cleanup_request_def Let_def disk\<close>)
qed

lemma request_shutdown_quiet: "quiet (a, fs) (request_shutdown a, fs)"
  by (rule quiet_modify) (simp add: request_shutdown_def)

lemma stop_quiet: "quiet (a, fs) (EndpointAgent_stop a, fs)"
  by (simp add: quiet_def EndpointAgent_stop_def request_shutdown_def agent_ok_def grants_ok_def)

lemma control_link_ended_quiet: "quiet (a, fs) (control_link_ended a, fs)"
  by (simp add: quiet_def control_link_ended_def agent_ok_def grants_ok_def)

end
