(* ===== verification/SMF_Agent_Sessions.thy ===== *)
theory SMF_Agent_Sessions
  imports SMF_Agent_Laws
begin

text \<open>
  Data sessions of the endpoint process. A source serves only under a grant it holds and uses that
  grant up; a destination changes the placed bytes only to bytes its grant authorises. Neither
  touches a commit marker.
\<close>

section \<open>Streams\<close>

lemma data_withinI:
  assumes "\<And>a fs stream r a' fs' stream'. m ((a, fs), stream) = (r, ((a', fs'), stream')) \<Longrightarrow>
    R ((a, fs), stream) ((a', fs'), stream')"
  shows "io_within R m"
  using assms by (intro io_withinI) (metis surj_pair)

lemma handle_withinI:
  assumes "\<And>h a fs stream r h' a' fs' stream'. m ((h, (a, fs)), stream) = (r, ((h', (a', fs')), stream')) \<Longrightarrow>
    R ((h, (a, fs)), stream) ((h', (a', fs')), stream')"
  shows "io_within R m"
  using assms by (intro io_withinI) (metis surj_pair)

lemma stream_send_within: "(\<And>w. R w w) \<Longrightarrow> io_within (on_fst R) (stream_send send_all limit type payload)"
  by (rule io_withinI) (auto simp: stream_send_def on_fst_def split: prod.splits)

lemma stream_receive_within: "(\<And>w. R w w) \<Longrightarrow> io_within (on_fst R) (stream_receive receive_some limit)"
  by (rule io_withinI) (auto simp: stream_receive_def on_fst_def split: prod.splits)

lemma set_session_key_within: "(\<And>w. R w w) \<Longrightarrow> io_within (on_fst R) (set_session_key key)"
  by (rule io_withinI) (auto simp: set_session_key_def on_fst_def)

lemma on_agent_within: "io_within R m \<Longrightarrow> io_within (on_fst R) (on_agent m)"
  by (rule io_withinI) (auto simp: on_agent_def on_fst_def split: prod.splits dest: io_withinD)

lemmas session_rules =
  stream_send_within [of quiet, OF quiet_world.refl_R] stream_receive_within [of quiet, OF quiet_world.refl_R]
  set_session_key_within [of quiet, OF quiet_world.refl_R] on_agent_within [of quiet, OF quiet_modify_count]
  quiet_data.within_bind quiet_data.within_pure quiet_data.within_if

section \<open>Serving\<close>

lemma within_data_state:
  "(\<And>a fs stream. io_within R (k a fs stream)) \<Longrightarrow> io_within R (\<lambda>((a, fs), stream). k a fs stream ((a, fs), stream))"
  unfolding io_within_def by auto

lemma server_handshake_quiet: "io_within (on_fst quiet) (server_handshake send_all receive_some fill e version)"
  unfolding server_handshake_def Let_def
  by (intro within_data_state session_rules) (auto intro!: session_rules split: prod.splits sum.splits)

lemma take_grant_quiet:
  assumes "take_grant nonce a = (found, a')"
  shows "quiet (a, fs) (a', fs)"
proof (cases "map_of (ea_grants a) nonce")
  case (Some entry)
  have "grants_ok (a\<lparr>ea_grants := AList.update nonce (entry\<lparr>ge_consumed := True\<rparr>) (ea_grants a)\<rparr>)" if "grants_ok a"
    using grants_ok_lookup [OF that Some] map_of_SomeD [OF Some] that
    by (intro grants_ok_update) (auto intro: rev_image_eqI)
  then show ?thesis
    using assms Some by (auto simp: take_grant_def quiet_def agent_ok_def split: if_splits)
qed (use assms in \<open>simp add: take_grant_def quiet_world.refl_R\<close>)

lemma refuse_begin_quiet: "io_within (on_fst quiet) (refuse_begin send_all limit message status)"
  by (rule io_withinI)
    (auto simp: refuse_begin_def on_fst_def stream_send_def split: prod.splits)

lemma answer_begin_quiet: "io_within (on_fst quiet) (answer_begin send_all limit peer message)"
proof (rule data_withinI)
  fix a :: "'a endpoint_agent" and fs stream r a' fs' stream'
  assume run: "answer_begin send_all limit peer message ((a, fs), stream) = (r, ((a', fs'), stream'))"
  obtain found a1 where taken: "take_grant (db_nonce message) a = (found, a1)" by fastforce
  have "on_fst quiet ((a1, fs), stream) ((a', fs'), stream')"
  proof (cases "check_grant a1 fs peer message found")
    case (Inl refused)
    then show ?thesis
      using run taken
      by (cases refused) (auto simp: answer_begin_def quiet_data.refl_R split: if_splits
          dest: io_withinD [OF refuse_begin_quiet])
  next
    case (Inr grant)
    let ?ack = "bind_io (stream_send send_all limit MT_DATA_BEGIN_ACK
        (DataBeginAck_encode \<lparr>dba_nonce = db_nonce message, dba_code = OK,
           dba_resume_from_chunk = fst (start_point grant message),
           dba_resume_from_offset = snd (start_point grant message), dba_detail = []\<rparr>)) (\<lambda>_.
        return_io (grant, fst (start_point grant message)))"
    have "io_within (on_fst quiet) (?ack :: ('a data_world, transfer_grant \<times> u32) io)"
      by (intro session_rules)
    then show ?thesis
      by (rule io_withinD) (use run taken Inr in \<open>simp add: answer_begin_def\<close>)
  qed
  then show "on_fst quiet ((a, fs), stream) ((a', fs'), stream')"
    using quiet_world.trans_R [OF take_grant_quiet [OF taken]] by (simp add: on_fst_def)
qed

lemma admit_transfer_quiet: "io_within (on_fst quiet) (admit_transfer send_all receive_some peer)"
  unfolding admit_transfer_def Let_def
  by (intro within_data_state session_rules answer_begin_quiet)

lemma read_onlyD: "read_only m \<Longrightarrow> m (h, fs) = (r, (h', fs')) \<Longrightarrow> fs_lookup fs' = fs_lookup fs"
  unfolding read_only_def by (metis snd_conv)

lemma on_object_within:
  assumes "read_only m"
  shows "io_within (on_fst (on_snd quiet)) (on_object m :: ('c serve_world, 'a) io)"
proof (rule handle_withinI)
  fix h :: "file_handle option" and a :: "'c endpoint_agent" and fs stream r h' a' fs' stream'
  assume "on_object m ((h, (a, fs)), stream) = (r, ((h', (a', fs')), stream'))"
  then have "m (h, fs) = (r, (h', fs'))" "a' = a"
    by (auto simp: on_object_def split: prod.splits)
  then show "on_fst (on_snd quiet) ((h, (a, fs)), stream) ((h', (a', fs')), stream')"
    using read_onlyD [OF assms] by (simp add: on_fst_def on_snd_def quiet_def)
qed

lemma with_object_within: "io_within (on_fst (on_snd quiet)) m \<Longrightarrow> io_within (on_fst quiet) (with_object m)"
  by (rule io_withinI)
    (auto simp: with_object_def on_fst_def on_snd_def split: prod.splits dest!: io_withinD)

lemma on_snd_refl: "on_snd quiet w w"
  by (simp add: on_snd_def quiet_world.refl_R)

lemma serve_chunk_quiet: "io_within (on_fst (on_snd quiet)) (serve_chunk send_all limit grant index)"
  unfolding serve_chunk_def
  by (intro quiet_serve.within_bind quiet_serve.within_pure quiet_serve.within_if on_object_within read_only_intros
      stream_send_within on_snd_refl)

lemma window_ack_quiet: "io_within (on_fst (on_snd quiet)) (window_ack receive_some limit window sent)"
  unfolding window_ack_def
  by (intro quiet_serve.within_bind quiet_serve.within_pure quiet_serve.within_if stream_receive_within on_snd_refl)

lemma serve_end_quiet: "io_within (on_fst (on_snd quiet)) (serve_end send_all receive_some limit grant)"
  unfolding serve_end_def
  by (intro quiet_serve.within_bind quiet_serve.within_pure quiet_serve.within_if stream_receive_within
      stream_send_within on_snd_refl)

lemma serve_interrupted_quiet: "io_within (on_fst (on_snd quiet)) (serve_interrupted send_all limit grant)"
  by (rule io_withinI)
    (auto simp: serve_interrupted_def Let_def split: prod.splits dest!: io_withinD [OF stream_send_within [of "on_snd quiet", OF on_snd_refl]])

lemma serve_chunks_quiet:
  "io_within (on_fst (on_snd quiet)) (serve_chunks send_all receive_some interrupted limit window grant n index bytes chunks)"
proof (induction n arbitrary: index bytes chunks)
  case 0
  show ?case by (rule io_withinI) (simp add: quiet_serve.refl_R)
next
  case (Suc n)
  have "io_within (on_fst (on_snd quiet)) (bind_io (serve_chunk send_all limit grant index) (\<lambda>len.
      bind_io (window_ack receive_some limit window (chunks + 1)) (\<lambda>_.
        serve_chunks send_all receive_some interrupted limit window grant n (index + 1) (bytes + len) (chunks + 1))))"
    by (intro quiet_serve.within_bind serve_chunk_quiet window_ack_quiet Suc)
  then show ?case
    by (intro io_withinI) (auto split: if_splits dest: io_withinD [OF serve_interrupted_quiet] io_withinD)
qed

lemma cancellation_flag_quiet: "quiet (a, fs) (cancellation_flag i a, fs)"
  by (rule quiet_modify) (simp add: cancellation_flag_def split: option.splits)

lemma serve_transfer_quiet: "io_within (on_fst quiet) (serve_transfer send_all receive_some interrupted grant start)"
proof -
  have flag: "io_within (on_fst (on_snd quiet)) (\<lambda>((h, (a, fs)), stream).
      (Inr (), ((h :: file_handle option, (cancellation_flag (tg_movement_id grant) a, fs)), stream)))"
    by (rule io_withinI) (auto simp: on_fst_def on_snd_def cancellation_flag_quiet)
  show ?thesis
    unfolding serve_transfer_def Let_def
    by (intro within_data_state)
      (auto intro!: quiet_data.within_bind with_object_within quiet_serve.within_bind on_object_within read_only_intros
        flag serve_chunks_quiet serve_end_quiet quiet_serve.within_pure on_agent_within quiet_modify_count
        quiet_data.within_pure quiet_data.within_if split: prod.splits)
qed

lemma serve_data_connection_quiet:
  assumes "serve_data_connection send_all receive_some interrupted fill e version c w = (status, w')"
  shows "quiet w w'"
proof -
  have "io_within (on_fst quiet) (bind_io (server_handshake send_all receive_some fill e version) (\<lambda>hello.
      bind_io (admit_transfer send_all receive_some (pi_endpoint (hq_identity hello))) (\<lambda>(grant, start_chunk).
        serve_transfer send_all receive_some interrupted grant start_chunk)))"
    by (intro quiet_data.within_bind server_handshake_quiet admit_transfer_quiet)
      (simp add: serve_transfer_quiet split: prod.splits)
  then show ?thesis
    using assms unfolding serve_data_connection_def
    by (auto simp: on_fst_def split: prod.splits dest!: io_withinD)
qed

section \<open>Receiving\<close>

definition writer_part :: "'c transfer_world \<Rightarrow> writer_world" where
  "writer_part = (\<lambda>((w, (a, fs)), stream). (w, fs))"

definition agent_part :: "'c transfer_world \<Rightarrow> 'c endpoint_agent" where
  "agent_part = (\<lambda>((w, (a, fs)), stream). a)"

lemma part_simps [simp]:
  "writer_part ((w, (a, fs)), stream) = (w, fs)" "agent_part ((w, (a, fs)), stream) = a"
  by (simp_all add: writer_part_def agent_part_def)

text \<open>What receiving does to the writer: it is sent some chunks, and when the receiving ends with an
  error it may have been aborted after them.\<close>

definition received_by :: "'c transfer_world \<Rightarrow> 'a result \<times> 'c transfer_world \<Rightarrow> bool" where
  "received_by s = (\<lambda>(r, t). agent_part t = agent_part s \<and>
     (\<exists>w fs. writer_run (writer_part s) (w, fs) \<and>
       (writer_part t = (w, fs) \<or> isl r \<and> writer_part t = (StagingWriter_abort w, fs))))"

lemma writer_run_trans: "writer_run s t \<Longrightarrow> writer_run t u \<Longrightarrow> writer_run s u"
  by (rotate_tac 1, induction rule: writer_run.induct) (auto intro: writer_run.intros)

lemma stream_send_parts:
  "stream_send send_all limit type payload s = (r, t) \<Longrightarrow> writer_part t = writer_part s \<and> agent_part t = agent_part s"
  "stream_receive receive_some limit s = (r', t) \<Longrightarrow> writer_part t = writer_part s \<and> agent_part t = agent_part s"
  by (auto simp: stream_send_def stream_receive_def writer_part_def agent_part_def split: prod.splits)

lemma received_by_refl: "writer_part t = writer_part s \<Longrightarrow> agent_part t = agent_part s \<Longrightarrow> received_by s (r, t)"
  by (cases "writer_part s") (auto simp: received_by_def intro: writer_run_refl)

lemma received_by_abort:
  assumes "received_by s (Inr x, t)"
  shows "received_by s (Inl e, abort_transfer t)" "received_by s (Inl e, t)"
  using assms by (auto simp: received_by_def abort_transfer_def writer_part_def agent_part_def split: prod.splits)

lemma received_by_trans:
  assumes "received_by s (Inr x, t)" "received_by t u"
  shows "received_by s u"
proof -
  obtain r v where u: "u = (r, v)" by (cases u)
  obtain w fs where second: "agent_part v = agent_part t" "writer_run (writer_part t) (w, fs)"
    "writer_part v = (w, fs) \<or> isl r \<and> writer_part v = (StagingWriter_abort w, fs)"
    using assms(2) by (auto simp: received_by_def u)
  have "agent_part t = agent_part s" "writer_run (writer_part s) (writer_part t)"
    using assms(1) by (auto simp: received_by_def)
  then show ?thesis
    using second writer_run_trans unfolding received_by_def u prod.case by metis
qed

lemma received_by_Inl: "received_by s (Inl e, t) \<Longrightarrow> received_by s (Inl e', t)"
  by (auto simp: received_by_def)

lemma received_by_Inr: "received_by s (Inr x, t) \<Longrightarrow> received_by s (r, t)"
  by (auto simp: received_by_def)

lemma received_by_bind:
  assumes "received_by s (m t)" "\<And>x u. m t = (Inr x, u) \<Longrightarrow> received_by s (k x u)"
  shows "received_by s (bind_io m k t)"
  using assms by (cases "m t"; cases "fst (m t)") (auto simp: bind_io_def intro: received_by_Inl)

lemma or_abort_received:
  assumes "or_abort m s = u" "\<And>r t. m s = (r, t) \<Longrightarrow> received_by s (Inr (), t)"
  shows "received_by s u"
proof -
  obtain r t where m: "m s = (r, t)" by (cases "m s")
  then have "received_by s (r', t)" for r' :: "'a result"
    using assms(2) [OF m] by (auto simp: received_by_def)
  then show ?thesis
    unfolding assms(1) [symmetric] or_abort_def m
    using received_by_abort(1) [OF assms(2) [OF m]] by (cases r) simp_all
qed

lemma store_frame_received:
  assumes "store_frame grant attempt frame s = (r, t)"
  shows "received_by s (Inr (), t)"
proof -
  obtain w a fs stream where s: "s = ((w, (a, fs)), stream)" by (cases s) auto
  show ?thesis
  proof (cases "decode_message DataChunk_decode frame")
    case (Inl e)
    then show ?thesis
      using assms by (simp add: store_frame_def bind_io_def lift_io_def received_by_refl)
  next
    case (Inr m)
    obtain r' w' fs' where append: "StagingWriter_append (dc_chunk_index m) (dc_chunk_offset m) (dc_payload m)
        (dc_chunk_digest m) (w, fs) = (r', (w', fs'))"
      by (metis prod.collapse)
    have "t = s \<or> t = ((w', (a, fs')), stream)"
      using assms Inr append unfolding store_frame_def s
      by (auto simp: bind_io_def lift_io_def fail_io_def return_io_def on_writer_def split: sum.splits if_splits)
    then show ?thesis
      using writer_run_append [OF writer_run_refl append] by (auto simp: received_by_def s intro: writer_run_refl)
  qed
qed

lemma chunk_ack_received: "received_by s (Inr x, t) \<Longrightarrow> received_by s (chunk_ack send_all limit grant attempt d t)"
proof -
  assume t: "received_by s (Inr x, t)"
  obtain r u where u: "chunk_ack send_all limit grant attempt d t = (r, u)"
    by (cases "chunk_ack send_all limit grant attempt d t")
  have "received_by t (r, u)"
    using u by (intro received_by_refl) (auto simp: chunk_ack_def dest: stream_send_parts(1) split: prod.splits)
  then show ?thesis
    using received_by_trans [OF t] u by simp
qed

lemma on_data_frame_received: "received_by s (on_data_frame send_all grant attempt counts frame s)"
proof -
  obtain w a fs stream where s: "s = ((w, (a, fs)), stream)" by (cases s) auto
  obtain received duplicates since where counts: "counts = (received, duplicates, since)" by (cases counts) auto
  have pure: "received_by s (or_abort (lift_io r) s)" for r :: "'b result"
    by (rule or_abort_received [OF refl]) (simp add: lift_io_def received_by_refl)
  have store: "received_by s (or_abort (store_frame grant attempt frame) s)"
    by (rule or_abort_received [OF refl]) (rule store_frame_received)
  have go: "received_by s ((if c then bind_io (chunk_ack send_all limit grant attempt d) (\<lambda>_. return_io x)
      else return_io y) t)" if "received_by s (Inr z, t)" for c limit d z t and x y :: "counts option"
  proof (cases c)
    case True
    have ack: "received_by s (chunk_ack send_all limit grant attempt d t)"
      by (rule chunk_ack_received [OF that])
    have "received_by s (return_io x u)" if "chunk_ack send_all limit grant attempt d t = (Inr v, u)" for u v
      unfolding return_io_def by (rule received_by_Inr) (use ack that in simp)
    then show ?thesis
      unfolding if_P [OF True] by (intro received_by_bind ack)
  qed (use received_by_Inr [OF that] in \<open>simp add: return_io_def\<close>)
  have step: "received_by s (bind_io (or_abort (store_frame grant attempt frame)) (\<lambda>duplicate.
      if c duplicate then bind_io (chunk_ack send_all limit grant attempt (d duplicate)) (\<lambda>_. return_io (x duplicate))
      else return_io (y duplicate)) s)" for c limit d and x y :: "bool \<Rightarrow> counts option"
  proof (intro received_by_bind store)
    fix duplicate t
    assume "or_abort (store_frame grant attempt frame) s = (Inr duplicate, t)"
    then have "received_by s (Inr duplicate, t)"
      using store by simp
    then show "received_by s ((if c duplicate then bind_io (chunk_ack send_all limit grant attempt (d duplicate))
        (\<lambda>_. return_io (x duplicate)) else return_io (y duplicate)) t)"
      by (rule go)
  qed
  have finish: "received_by s (bind_io (or_abort (lift_io (check_data_end grant attempt frame))) (\<lambda>_. return_io None) s)"
    using pure [of "check_data_end grant attempt frame"]
    by (intro received_by_bind) (auto simp: return_io_def intro: received_by_Inr)
  show ?thesis
    unfolding s counts on_data_frame_def Let_def prod.case
    using pure step finish pure [of "err PROTOCOL_STATE_VIOLATION ''expected a data chunk''"]
    unfolding s lift_io_fuse(1) by (auto simp: lift_io_fuse(1))
qed

lemma receive_chunks_received:
  assumes "receive_chunks send_all receive_some interrupted limit grant attempt counts s = Some u"
  shows "received_by s u"
proof (rule receive_chunks.raw_induct [of "\<lambda>_ _ _ _ _ _ _ s u. received_by s u", OF _ assms])
  fix receive and send_all :: "bytes \<Rightarrow> 'a \<Rightarrow> status \<times> 'a" and receive_some interrupted limit grant attempt counts s u
  assume IH: "\<And>send_all receive_some interrupted limit grant attempt counts s u.
      receive send_all receive_some interrupted limit grant attempt counts s = Some u \<Longrightarrow> received_by s u"
    and run: "(if interrupted (snd (snd s))
      then Some (err CANCELLED_BY_OPERATOR ''the movement was cancelled'', abort_transfer s)
      else case or_abort (stream_receive receive_some limit) s of
        (Inl e, s) \<Rightarrow> Some (Inl e, s)
      | (Inr frame, s) \<Rightarrow>
          (case on_data_frame send_all grant attempt counts frame s of
             (Inl e, s) \<Rightarrow> Some (Inl e, s)
           | (Inr None, s) \<Rightarrow> Some (Inr counts, s)
           | (Inr (Some counts), s) \<Rightarrow>
               receive send_all receive_some interrupted limit grant attempt counts s)) = Some u"
  show "received_by s u"
  proof (cases "interrupted (snd (snd s))")
    case True
    then show ?thesis
      using run received_by_abort(1) [OF received_by_refl [of s s "Inr ()"]] by auto
  next
    case False
    obtain r1 s1 where one: "or_abort (stream_receive receive_some limit) s = (r1, s1)"
      by (cases "or_abort (stream_receive receive_some limit) s")
    have first: "received_by s (r1, s1)"
      by (rule or_abort_received [OF one]) (auto dest!: stream_send_parts(2) intro: received_by_refl)
    show ?thesis
    proof (cases r1)
      case (Inl e)
      then show ?thesis
        using run False one first by (auto intro: received_by_Inl)
    next
      case (Inr frame)
      obtain r2 s2 where two: "on_data_frame send_all grant attempt counts frame s1 = (r2, s2)"
        by (cases "on_data_frame send_all grant attempt counts frame s1")
      have second: "received_by s (r2, s2)"
        using received_by_trans [OF first [unfolded Inr] on_data_frame_received [of s1 send_all grant attempt counts frame, unfolded two]] .
      show ?thesis
      proof (cases r2)
        case r2: (Inl e)
        then show ?thesis
          using run False one two Inr second by (auto intro: received_by_Inl)
      next
        case r2: (Inr go)
        then show ?thesis
          using run False one two Inr second received_by_trans [OF second [unfolded r2] IH]
          by (cases go) (auto intro: received_by_Inr)
      qed
    qed
  qed
qed

section \<open>Placing\<close>

text \<open>What no part of a transfer changes in the process.\<close>

definition same_setup :: "'c endpoint_agent \<Rightarrow> 'c endpoint_agent \<Rightarrow> bool" where
  "same_setup a a' \<longleftrightarrow> ea_config a' = ea_config a \<and> ea_store a' = ea_store a \<and> ea_incarnation a' = ea_incarnation a \<and>
     ea_grants a' = ea_grants a \<and> ea_session_queue a' = ea_session_queue a"

lemma same_setup_trans: "same_setup a b \<Longrightarrow> same_setup b c \<Longrightarrow> same_setup a c"
  by (simp add: same_setup_def)

lemma same_setup_ok: "same_setup a a' \<Longrightarrow> agent_ok a \<Longrightarrow> agent_ok a'"
  by (simp add: same_setup_def agent_ok_def grants_ok_def)

text \<open>The bytes a grant authorises at the place of its object.\<close>

definition authorised_at :: "transfer_grant \<Rightarrow> path \<Rightarrow> file_system \<Rightarrow> bool" where
  "authorised_at grant p fs \<longleftrightarrow> (\<exists>content. fs_lookup fs p = Some (File content) \<and>
     length content = unat (so_total_bytes (tg_object grant)) \<and> sha256 content = so_content_digest (tg_object grant))"

definition placed_at :: "object_store_options \<Rightarrow> transfer_grant \<Rightarrow> path" where
  "placed_at store grant = object_data_path store (so_object_id (tg_object grant)) (so_generation (tg_object grant))"

text \<open>What a transfer may change outside its staging directory. When the staged file was \<open>within\<close> the
  object, the place of the object keeps what it had, becomes empty or gets the authorised bytes; a
  transfer that is \<open>counted\<close> as received has put them there.\<close>

definition placing :: "object_store_options \<Rightarrow> transfer_grant \<Rightarrow> bool \<Rightarrow> bool \<Rightarrow> file_system \<Rightarrow> file_system \<Rightarrow> bool" where
  "placing store grant within counted fs fs' \<longleftrightarrow>
     (within \<longrightarrow> (if counted then authorised_at grant (placed_at store grant) fs'
        else fs_lookup fs' (placed_at store grant) \<in> {fs_lookup fs (placed_at store grant), None} \<or>
          authorised_at grant (placed_at store grant) fs')) \<and>
     (\<forall>q. outside_staging store (tg_movement_id grant) q \<longrightarrow> \<not> prefix (placed_at store grant) q \<longrightarrow>
        \<not> prefix q (object_directory store (so_object_id (tg_object grant)) (so_generation (tg_object grant))) \<longrightarrow>
        fs_lookup fs' q = fs_lookup fs q)"

lemma placing_weaken:
  "placing store grant within counted fs fs' \<Longrightarrow> (counted' \<Longrightarrow> counted) \<Longrightarrow> placing store grant within counted' fs fs'"
  by (auto simp: placing_def split: if_splits)

definition staging_for :: "object_store_options \<Rightarrow> transfer_grant \<Rightarrow> staging_writer \<Rightarrow> bool" where
  "staging_for store grant w \<longleftrightarrow> sw_store w = store \<and> sj_movement_id (sw_journal w) = tg_movement_id grant \<and>
     same_version (tg_object grant) (writer_object w)"

lemma placing_same:
  assumes "\<And>q. outside_staging store (tg_movement_id grant) q \<Longrightarrow> fs_lookup fs' q = fs_lookup fs q"
  shows "placing store grant within False fs fs'"
  using assms by (simp add: placing_def placed_at_def)

lemma placing_before:
  assumes "\<And>q. outside_staging store (tg_movement_id grant) q \<Longrightarrow> fs_lookup fs1 q = fs_lookup fs q"
    "placing store grant within counted fs1 fs2" "within' \<Longrightarrow> within"
  shows "placing store grant within' counted fs fs2"
  using assms by (auto simp: placing_def placed_at_def split: if_splits)

lemma staging_for_same: "staging_for store grant w \<Longrightarrow> same_transfer w w' \<Longrightarrow> staging_for store grant w'"
  by (simp add: staging_for_def same_transfer_def)

lemma writer_ok_apart:
  "writer_ok w fs \<Longrightarrow> staging_for store grant w \<Longrightarrow> outside_staging store (tg_movement_id grant) q \<Longrightarrow> apart q w"
  by (auto simp: apart_def writer_ok_def staging_for_def dest: outside_staging_paths(1))

lemma place_received_fails:
  assumes "writer_ok w fs" "staging_for (ea_store a) grant w"
    "place_received send_all limit grant attempt counts ((w, (a, fs)), stream) = (r, ((w', (a', fs')), stream'))"
    "StagingWriter_finish (w, fs) = (r1, (w1, fs1))" "r1 \<noteq> Inr (so_content_digest (tg_object grant))"
  shows "placing (ea_store a) grant within False fs fs' \<and> a' = a"
proof -
  have one: "fs_lookup fs1 q = fs_lookup fs q" if "outside_staging (ea_store a) (tg_movement_id grant) q" for q
    using writer_avoidsD [OF StagingWriter_finish_frame writer_ok_apart [OF assms(1,2) that] assms(4)] by simp
  obtain r2 fs2 where two: "discard_staging (ea_store a) (tg_movement_id grant) fs1 = (r2, fs2)" by fastforce
  have "(fs' = fs1 \<or> fs' = fs2) \<and> a' = a"
    using assms(3-5) two
    by (cases counts; cases r1) (auto simp: place_received_def Let_def bind_io_def on_writer_def)
  then show ?thesis
    using one discard_staging_frame [OF two] by (auto intro!: placing_same)
qed

lemma promote_placing:
  assumes "writer_ok w fs" "staging_for store grant w"
    "StagingWriter_finish (w, fs) = (Inr (so_content_digest (tg_object grant)), (w1, fs1))"
    "StagingWriter_promote (w1, fs1) = (r, (w2, fs2))"
  shows "placing store grant (within_object w fs) (\<not> isl r) fs fs2"
proof -
  note fin = StagingWriter_finish_okD [OF assms(1,3)]
  let ?c = "file_contents fs (writer_path w)" and ?o = "tg_object grant"
  have w: "sw_store w = store" "sj_movement_id (sw_journal w) = tg_movement_id grant" "so_object_id (writer_object w) = so_object_id ?o"
    "so_generation (writer_object w) = so_generation ?o" "so_total_bytes (writer_object w) = so_total_bytes ?o"
    using assms(2) by (auto simp: staging_for_def same_version_def same_object_def)
  have w1: "sw_store w1 = store" "sj_movement_id (sw_journal w1) = tg_movement_id grant" "writer_object w1 = writer_object w"
    using fin(3) w by (auto simp: same_transfer_def)
  have len: "length ?c = unat (so_total_bytes ?o) \<and> sha256 ?c = so_content_digest ?o" if "within_object w fs"
    using fin(4,5) that w(5) by (simp add: within_object_def)
  have staged: "fs_lookup fs1 (staging_data_path store (tg_movement_id grant)) = Some (File ?c)"
    using assms(1) fin(1) w by (simp add: writer_ok_def is_file_iff)
  obtain r' where run: "promote_staging store (tg_movement_id grant) (writer_object w) fs1 = (r', fs2)" "isl r = isl r'"
    using assms(4) fin(2) w1 by (auto simp: StagingWriter_promote_def split: prod.splits sum.splits)
  note any = promote_staging_any(1) [OF run(1) staged] and frame = promote_staging_frame [OF run(1)]
  have good: "authorised_at grant p fs2" if "fs_lookup fs2 p = Some (File ?c)" "within_object w fs" for p
    using that len by (auto simp: authorised_at_def)
  have "authorised_at grant (placed_at store grant) fs2" if ok: "\<not> isl r" "within_object w fs"
  proof -
    obtain u where "promote_staging store (tg_movement_id grant) (writer_object w) fs1 = (Inr u, fs2)"
      using run ok(1) by (cases r') auto
    then show ?thesis
      unfolding placed_at_def using promote_staging_okD [OF _ staged] w(3,4) ok(2) by (intro good) metis
  qed
  then show ?thesis
    using any frame w good fin(1) by (auto simp: placing_def placed_at_def)
qed

lemma place_received_any:
  assumes "writer_ok w fs" "staging_for (ea_store a) grant w"
    "place_received send_all limit grant attempt counts ((w, (a, fs)), stream) = (r, ((w', (a', fs')), stream'))"
  shows "placing (ea_store a) grant (within_object w fs) (ea_counters a' \<noteq> ea_counters a) fs fs' \<and> same_setup a a'"
proof -
  obtain r1 w1 fs1 where one: "StagingWriter_finish (w, fs) = (r1, (w1, fs1))"
    by (metis prod.collapse)
  show ?thesis
  proof (cases "r1 = Inr (so_content_digest (tg_object grant))")
    case True
    obtain r2 w2 fs2 where two: "StagingWriter_promote (w1, fs1) = (r2, (w2, fs2))"
      by (metis prod.collapse)
    have "fs' = fs2 \<and> (isl r2 \<longrightarrow> a' = a) \<and> same_setup a a'"
      using assms(3) one two True
      by (cases counts; cases r2)
        (auto simp: place_received_def Let_def bind_io_def on_writer_def stream_send_def on_process_def modify_agent_def
          report_attempt_result_def same_setup_def count_up_def dest!: send_control_disk split: prod.splits)
    then show ?thesis
      using placing_weaken [OF promote_placing [OF assms(1,2) one [unfolded True] two]] by auto
  qed (use place_received_fails [OF assms(1,2,3) one] in \<open>simp add: same_setup_def\<close>)
qed

section \<open>A whole transfer\<close>

text \<open>Changes of the process that leave its disk, configuration and store alone.\<close>

definition same_disk :: "'c agent_world \<Rightarrow> 'c agent_world \<Rightarrow> bool" where
  "same_disk = (\<lambda>(a, fs) (a', fs'). fs' = fs \<and> same_setup a a' \<and> ea_counters a' = ea_counters a)"

interpretation disk_world: preorder_on_states "same_disk :: 'c agent_world \<Rightarrow> 'c agent_world \<Rightarrow> bool"
  by unfold_locales (auto simp: same_disk_def same_setup_def)

lemma send_control_same: "io_within same_disk (send_control send_all type payload)"
  by (rule io_withinI) (auto simp: same_disk_def same_setup_def dest!: send_control_disk)

lemma ask_coordinator_same: "io_within same_disk (ask_coordinator send_all key busy late type payload answer)"
  by (rule io_withinI)
    (auto simp: ask_coordinator_def same_disk_def same_setup_def set_pending_def split: if_splits prod.splits sum.splits
      dest!: send_control_disk)

lemma resolve_source_same: "io_within same_disk (resolve_source send_all answer source)"
  unfolding resolve_source_def
  by (intro disk_world.within_bind disk_world.within_pure disk_world.within_if ask_coordinator_same)

text \<open>Opening a transfer leaves the disk and the transfer of the writer; it may abort the writer.\<close>

definition opened_by :: "'c transfer_world \<Rightarrow> unit result \<times> 'c transfer_world \<Rightarrow> bool" where
  "opened_by s = (\<lambda>(r, t). snd (writer_part t) = snd (writer_part s) \<and> same_setup (agent_part s) (agent_part t) \<and>
     ea_counters (agent_part t) = ea_counters (agent_part s) \<and> (\<not> isl r \<longrightarrow> fst (writer_part t) = fst (writer_part s)))"

interpretation same_process: preorder_on_states "on_fst (=) :: 'w \<times> 'c data_stream \<Rightarrow> 'w \<times> 'c data_stream \<Rightarrow> bool"
  by unfold_locales (auto simp: on_fst_def)

lemma client_handshake_parts:
  assumes "client_handshake send_all receive_some limit secret refused hello s = (r, t)"
  shows "writer_part t = writer_part s \<and> agent_part t = agent_part s"
proof -
  have "io_within (on_fst (=)) (client_handshake send_all receive_some limit secret refused hello :: ('a transfer_world, unit) io)"
    unfolding client_handshake_def
    by (intro same_process.within_bind same_process.within_pure same_process.within_if stream_send_within
        stream_receive_within set_session_key_within refl)
  then have "on_fst (=) s t"
    using assms by (rule io_withinD)
  then show ?thesis
    by (auto simp: on_fst_def writer_part_def agent_part_def split: prod.splits)
qed

lemma open_transfer_opened: "opened_by s (open_transfer send_all receive_some grant attempt s)"
proof -
  obtain w a fs stream where s: "s = ((w, (a, fs)), stream)" by (cases s) auto
  show ?thesis
    unfolding s opened_by_def open_transfer_def Let_def prod.case
    by (auto simp: bind_io_def stream_send_def stream_receive_def lift_io_def fail_io_def clear_cancellation_def
        cancellation_flag_def same_setup_def split: prod.splits sum.splits option.splits if_splits)
qed

lemma session_opened:
  assumes "bind_io (client_handshake send_all receive_some limit secret refused hello) (\<lambda>_.
    open_transfer send_all receive_some grant attempt) s = (r, t)"
  shows "opened_by s (r, t)"
proof -
  obtain r1 s1 where one: "client_handshake send_all receive_some limit secret refused hello s = (r1, s1)"
    by (cases "client_handshake send_all receive_some limit secret refused hello s")
  note parts = client_handshake_parts [OF one]
  show ?thesis
    using assms one parts open_transfer_opened [of s1 send_all receive_some grant attempt]
    by (cases r1) (auto simp: bind_io_def opened_by_def same_setup_def split: prod.splits)
qed

lemma received_placing:
  assumes "received_by ((w, (a, fs)), stream) (r, ((w', (a', fs')), stream'))" "writer_ok w fs"
    "staging_for store grant w"
  shows "a' = a" "\<And>q. outside_staging store (tg_movement_id grant) q \<Longrightarrow> fs_lookup fs' q = fs_lookup fs q"
    "\<not> isl r \<Longrightarrow> writer_ok w' fs' \<and> (within_object w fs \<longrightarrow> within_object w' fs') \<and> staging_for store grant w'"
proof -
  obtain w1 where run: "a' = a" "writer_run (w, fs) (w1, fs')" "\<not> isl r \<Longrightarrow> w' = w1"
    using assms(1) by (auto simp: received_by_def)
  note ok = writer_run_ok [OF run(2) assms(2)]
  show "a' = a" by (rule run)
  show "fs_lookup fs' q = fs_lookup fs q" if "outside_staging store (tg_movement_id grant) q" for q
    using writer_run_frame [OF run(2) writer_ok_apart [OF assms(2,3) that]] by simp
  show "writer_ok w' fs' \<and> (within_object w fs \<longrightarrow> within_object w' fs') \<and> staging_for store grant w'" if "\<not> isl r"
    using ok run(3) [OF that] staging_for_same [OF assms(3)] by blast
qed

lemma transfer_session_any:
  assumes "writer_ok w fs" "staging_for (ea_store a) grant w"
    "transfer_session send_all receive_some interrupted hello grant attempt ((w, (a, fs)), stream) =
      Some (r, ((w', (a', fs')), stream'))"
  shows "placing (ea_store a) grant (within_object w fs) (ea_counters a' \<noteq> ea_counters a) fs fs' \<and> same_setup a a'"
proof -
  define limit where "limit = agent_payload_limit (ea_config a)"
  define refused where "refused = Status SOURCE_REJECTED ''the source refused the data session''"
  obtain r1 w1 a1 fs1 stream1 where one: "bind_io (client_handshake send_all receive_some limit
      (ac_shared_secret (ea_config a)) refused hello) (\<lambda>_. open_transfer send_all receive_some grant attempt)
      ((w, (a, fs)), stream) = (r1, ((w1, (a1, fs1)), stream1))"
    by (metis surj_pair)
  have opened: "fs1 = fs" "ea_store a1 = ea_store a" "ea_counters a1 = ea_counters a" "\<not> isl r1 \<Longrightarrow> w1 = w" "same_setup a a1"
    using session_opened [OF one] by (auto simp: opened_by_def same_setup_def)
  let ?loop = "receive_chunks send_all receive_some interrupted limit grant attempt (0, 0, 0) ((w1, (a1, fs1)), stream1)"
  have eq: "(case r1 of Inl e \<Rightarrow> Some (Inl e, ((w1, (a1, fs1)), stream1))
      | Inr _ \<Rightarrow> (case ?loop of None \<Rightarrow> None | Some (Inl e, world) \<Rightarrow> Some (Inl e, world)
         | Some (Inr counts, world) \<Rightarrow> Some (place_received send_all limit grant attempt counts world))) =
      Some (r, ((w', (a', fs')), stream'))"
    using assms(3) unfolding transfer_session_def Let_def prod.case limit_def [symmetric] refused_def [symmetric] one
    by (simp split: sum.splits)
  show ?thesis
  proof (cases r1)
    case (Inl e)
    then show ?thesis
      using eq opened(1,3,5) by (auto intro: placing_same)
  next
    case (Inr u)
    obtain r2 w2 a2 fs2 stream2 where two: "?loop = Some (r2, ((w2, (a2, fs2)), stream2))"
      using eq Inr by (cases ?loop) auto
    have s1: "w1 = w" "ea_store a1 = ea_store a" "fs1 = fs" "ea_counters a1 = ea_counters a" "same_setup a a1"
      using opened Inr by simp_all
    note rec = received_placing [OF receive_chunks_received [OF two, unfolded s1(1,3)] assms(1,2)]
    show ?thesis
    proof (cases r2)
      case r2: (Inl e)
      then have "fs' = fs2 \<and> a' = a2"
        using eq Inr two by auto
      then show ?thesis
        using rec(1,2) s1(4,5) by (auto intro: placing_same)
    next
      case r2: (Inr counts)
      have "place_received send_all limit grant attempt counts ((w2, (a2, fs2)), stream2) = (r, ((w', (a', fs')), stream'))"
        using eq Inr two r2 by simp
      then have placed: "placing (ea_store a) grant (within_object w2 fs2) (ea_counters a' \<noteq> ea_counters a) fs2 fs'"
        "same_setup a1 a'"
        using place_received_any [of w2 fs2 a2 grant] rec s1 r2 by simp_all
      have "placing (ea_store a) grant (within_object w fs) (ea_counters a' \<noteq> ea_counters a) fs fs'"
        using placing_before [OF rec(2) placed(1)] rec(3) r2 by simp
      then show ?thesis
        using same_setup_trans [OF s1(5) placed(2)] by blast
    qed
  qed
qed

lemma run_transfer_placing:
  assumes "run_transfer send_all receive_some interrupted connect hello answer grant attempt (a, fs) = Some (status, (a', fs'))"
  shows "placing (ea_store a) grant
      (length (file_contents fs (staging_data_path (ea_store a) (tg_movement_id grant))) \<le> unat (so_total_bytes (tg_object grant)))
      (ea_counters a' \<noteq> ea_counters a) fs fs' \<and> same_setup a a'"
proof -
  obtain r1 a1 where one: "resolve_source send_all answer (tg_source grant) (a, fs) = (r1, (a1, fs))"
    "ea_store a1 = ea_store a" "ea_counters a1 = ea_counters a" "same_setup a a1"
    using io_withinD [OF resolve_source_same, of send_all answer "tg_source grant" "(a, fs)"]
    by (cases "resolve_source send_all answer (tg_source grant) (a, fs)") (auto simp: same_disk_def same_setup_def)
  obtain r2 fs2 where two: "StagingWriter_begin (ea_store a) (tg_movement_id grant) (tg_movement_generation grant) attempt
      (tg_object grant) fs = (r2, fs2)" by fastforce
  have frame: "fs_lookup fs2 q = fs_lookup fs q" if "outside_staging (ea_store a) (tg_movement_id grant) q" for q
    using StagingWriter_begin_frame [OF two that] .
  have "(a', fs') = (a1, fs) \<or> (a', fs') = (a1, fs2) \<or> (\<exists>w c request r w' stream'. r2 = Inr w \<and>
      transfer_session send_all receive_some interrupted request grant attempt ((w, (a1, fs2)), (FrameCodec_default, c)) =
        Some (r, ((w', (a', fs')), stream')))"
    using assms(1) one(1,2) two unfolding run_transfer_def
    by (auto simp: bind_io_def lift_io_def return_io_def split: sum.splits option.splits prod.splits)
  then show ?thesis
  proof (elim disjE exE conjE)
    fix w c request r w' stream'
    assume w: "r2 = Inr w" and run: "transfer_session send_all receive_some interrupted request grant attempt
        ((w, (a1, fs2)), (FrameCodec_default, c)) = Some (r, ((w', (a', fs')), stream'))"
    note begun = StagingWriter_begin_okD [OF two [unfolded w]]
    have "staging_for (ea_store a1) grant w"
      using begun(2-4) one(2) by (simp add: staging_for_def)
    then show ?thesis
      using transfer_session_any [OF begun(1) _ run] placing_before [OF frame _ begun(5)] one(2,3)
        same_setup_trans [OF one(4)] by simp
  qed (use frame one(3,4) in \<open>auto intro: placing_same\<close>)
qed

text \<open>An abort of the source that carries the success code makes the transfer end as a success.\<close>

lemma abort_with_success_code:
  assumes "decode_message DataAbort_decode frame = Inr m" "dab_code m = OK"
  shows "Status_ok (status_of (aborted_by_source frame))"
  using assms by (simp add: aborted_by_source_def status_of_def)

end
