(* ===== verification/SMF_Agent_Publication.thy ===== *)
theory SMF_Agent_Publication
  imports SMF_Agent_Laws
begin

text \<open>
  Publishing when no system call fails: what is on the disk after the content has been described,
  imported, moved to its place and committed.
\<close>

section \<open>Finalizing\<close>

lemma sync_existing_file_done [io_simps]:
  "fs_script fs = [] \<Longrightarrow> fs_exists fs p \<Longrightarrow> sync_existing_file p fs = (Inr (), fs)"
  by (simp add: sync_existing_file_def io_simps)

lemma fs_remove_quiet:
  assumes "fs_script fs = []"
  shows "\<exists>e fs'. fs_remove p fs = (e, fs') \<and> fs_script fs' = [] \<and> (\<forall>q. q \<noteq> p \<longrightarrow> fs_lookup fs' q = fs_lookup fs q) \<and>
    fs_lookup fs' p \<in> {fs_lookup fs p, None}"
  using assms by (auto simp: fs_remove_def io_simps)

lemma local_origin_valid: "EndpointId_is_valid ''local-origin''"
  by code_simp

lemma import_paths [simp]:
  "import_path store object \<noteq> []" "butlast (import_path store object) = object_directory store (so_object_id object) (so_generation object)"
  "import_path store object \<noteq> object_data_path store (so_object_id object) (so_generation object)"
  "butlast (object_data_path store i g) = object_directory store i g"
  "\<not> prefix (import_path store object) (object_directory store (so_object_id object) (so_generation object))"
  "\<not> prefix (replace_temporary (import_path store object)) (object_directory store (so_object_id object) (so_generation object))"
  by (auto simp: import_path_def object_data_path_def replace_temporary_def path_suffix_def butlast_append
      dest: prefix_length_le)

lemma finalize_done:
  assumes "fs_script fs = []" "fs_lookup fs (import_path (ea_store a) object) = Some (File b)"
    "is_directory fs (object_directory (ea_store a) (so_object_id object) (so_generation object))"
    "fs_lookup fs (object_data_path (ea_store a) (so_object_id object) (so_generation object)) \<noteq> Some Directory"
  shows "\<exists>fs'. fs_script fs' = [] \<and>
    fs_lookup fs' = (fs_lookup fs)(import_path (ea_store a) object := None,
      object_data_path (ea_store a) (so_object_id object) (so_generation object) := Some (File b)) \<and>
    finalize_publication fresh now object (import_path (ea_store a) object) (a, fs) =
      bind_io (on_disk (write_commit_marker (ea_store a)
        (agent_marker now fresh 1 object ''local-origin'' (so_total_bytes object) a))) (\<lambda>_.
        modify_agent (count_up (\<lambda>n. n\<lparr>ec_objects_published := ec_objects_published n + 1\<rparr>))) (a, fs')"
proof -
  let ?s = "import_path (ea_store a) object" and ?t = "object_data_path (ea_store a) (so_object_id object) (so_generation object)"
  have exists: "fs_exists fs ?s"
    using assms(2) by (simp add: fs_exists_def)
  obtain e fs1 where gone: "fs_remove ?t fs = (e, fs1)" "fs_script fs1 = []" "\<And>q. q \<noteq> ?t \<Longrightarrow> fs_lookup fs1 q = fs_lookup fs q"
    "fs_lookup fs1 ?t \<in> {fs_lookup fs ?t, None}"
    using fs_remove_quiet [OF assms(1), of ?t] by blast
  have dir: "is_directory fs1 (butlast ?t)"
    using assms(3) gone(3) [of "butlast ?t"] by (auto simp: is_directory_def object_data_path_def)
  have "fs_lookup fs1 ?s = Some (File b)" "fs_lookup fs1 ?t \<noteq> Some Directory"
    using gone(3) [of ?s] gone(4) assms(2,4) by auto
  then obtain fs2 where moved: "fs_rename ?s ?t fs1 = (False, fs2)" "fs_script fs2 = []"
    "fs_lookup fs2 = (fs_lookup fs1)(?s := None, ?t := Some (File b))"
    using fs_rename_done [OF gone(2), of ?s b ?t] dir by auto
  have "fs_lookup fs2 = (fs_lookup fs)(?s := None, ?t := Some (File b))"
    using moved(3) gone(3) by (auto simp: fun_eq_iff)
  moreover have "finalize_publication fresh now object ?s (a, fs) =
      bind_io (on_disk (write_commit_marker (ea_store a)
        (agent_marker now fresh 1 object ''local-origin'' (so_total_bytes object) a))) (\<lambda>_.
        modify_agent (count_up (\<lambda>n. n\<lparr>ec_objects_published := ec_objects_published n + 1\<rparr>))) (a, fs2)"
    using assms(1) exists gone(1) moved(1) local_origin_valid
    by (simp add: finalize_publication_def bind_io_def on_disk_def io_simps lift_io_def EndpointId_parse_def EndpointId_is_valid_def)
  ultimately show ?thesis
    using moved(2) by blast
qed

section \<open>Publishing bytes\<close>

text \<open>A place for a version: no file is in the way of its directory and no import is left over.\<close>

definition importable :: "object_store_options \<Rightarrow> state_object \<Rightarrow> file_system \<Rightarrow> bool" where
  "importable store object fs \<longleftrightarrow> fs_script fs = [] \<and>
     \<not> list_ex (is_file fs) (prefixes (object_directory store (so_object_id object) (so_generation object))) \<and>
     fs_lookup fs (import_path store object) = None \<and> fs_lookup fs (replace_temporary (import_path store object)) = None \<and>
     fs_lookup fs (object_data_path store (so_object_id object) (so_generation object)) \<noteq> Some Directory"

lemma import_done:
  assumes "importable (ea_store a) object fs"
  shows "\<exists>fs'. bind_io (make_object_directory object) (\<lambda>_.
      on_disk (atomic_replace_file (import_path (ea_store a) object) contents True)) (a, fs) = (Inr (), (a, fs')) \<and>
    fs_script fs' = [] \<and> is_directory fs' (object_directory (ea_store a) (so_object_id object) (so_generation object)) \<and>
    fs_lookup fs' (import_path (ea_store a) object) = Some (File contents) \<and>
    (\<forall>q. is_file fs' q \<longrightarrow> is_file fs q \<or> q = import_path (ea_store a) object) \<and>
    (\<forall>q. q \<noteq> import_path (ea_store a) object \<longrightarrow>
       \<not> prefix q (object_directory (ea_store a) (so_object_id object) (so_generation object)) \<longrightarrow> fs_lookup fs' q = fs_lookup fs q)"
proof -
  let ?d = "object_directory (ea_store a) (so_object_id object) (so_generation object)" and ?s = "import_path (ea_store a) object"
  obtain fs1 where created: "fs_create_directories ?d fs = (False, fs1)" "fs_script fs1 = []"
    "fs_lookup fs1 = (\<lambda>q. if prefix q ?d \<and> q \<noteq> [] then Some Directory else fs_lookup fs q)"
    using fs_create_directories_done [of fs ?d] assms by (auto simp: importable_def)
  have "is_directory fs1 ?d" "fs_lookup fs1 ?s \<noteq> Some Directory" "fs_lookup fs1 (replace_temporary ?s) = None"
    using created(3) assms by (auto simp: is_directory_def importable_def)
  then obtain fs2 where replaced: "atomic_replace_file ?s contents True fs1 = (Inr (), fs2)" "fs_script fs2 = []"
    "fs_lookup fs2 = (fs_lookup fs1)(?s := Some (File contents))"
    using atomic_replace_file_done [OF created(2), of ?s contents True] by auto
  have "is_directory fs2 ?d"
    using replaced(3) \<open>is_directory fs1 ?d\<close> by (auto simp: is_directory_def import_path_def)
  then show ?thesis
    using created(1,3) replaced
    by (auto simp: bind_io_def make_object_directory_def on_disk_def is_file_def)
qed

definition publication_marker :: "u64 \<Rightarrow> movement_id \<Rightarrow> state_object \<Rightarrow> 'c endpoint_agent \<Rightarrow> commit_marker" where
  "publication_marker now fresh object a = agent_marker now fresh 1 object ''local-origin'' (so_total_bytes object) a"

lemma seal_sealed: "marker_sealed (CommitMarker_seal m)" "CommitMarker_seal (CommitMarker_seal m) = CommitMarker_seal m"
  by (simp_all add: marker_sealed_def CommitMarker_seal_def CommitMarker_compute_digest_def marker_fields_def)

lemma publication_marker_sealed [simp]:
  "sealed_marker (publication_marker now fresh object a) = publication_marker now fresh object a"
  "marker_sealed (publication_marker now fresh object a)"
  "cm_object (publication_marker now fresh object a) = object"
  "cm_source (publication_marker now fresh object a) = ''local-origin''"
  "cm_destination (publication_marker now fresh object a) = ac_endpoint_id (ea_config a)"
  "marker_target store (publication_marker now fresh object a) = commit_marker_path store (so_object_id object) (so_generation object)"
  by (simp_all add: publication_marker_def agent_marker_def sealed_marker_def seal_sealed)
    (simp_all add: CommitMarker_seal_def marker_target_def)

lemma publish_bytes_done:
  assumes "length contents \<le> unat (mp_max_object_bytes (ac_policy (ea_config a)))"
    "StateObjectDescriptor_create kind name generation (sha256 contents) (word_of_nat (length contents))
       (publication_chunk_bytes (ac_policy (ea_config a))) created producer = Some (Inr descriptor)"
    "object = descriptor\<lparr>so_repeatable := repeatable\<rparr>" "importable (ea_store a) object fs"
  shows "\<exists>fs'. fs_script fs' = [] \<and>
    fs_lookup fs' (object_data_path (ea_store a) (so_object_id object) (so_generation object)) = Some (File contents) \<and>
    (\<forall>q. is_file fs' q \<longrightarrow> is_file fs q \<or> q = object_data_path (ea_store a) (so_object_id object) (so_generation object)) \<and>
    (\<forall>q. q \<noteq> import_path (ea_store a) object \<longrightarrow>
       q \<noteq> object_data_path (ea_store a) (so_object_id object) (so_generation object) \<longrightarrow>
       \<not> prefix q (object_directory (ea_store a) (so_object_id object) (so_generation object)) \<longrightarrow> fs_lookup fs' q = fs_lookup fs q) \<and>
    publish_bytes fresh created now kind name generation contents producer repeatable (a, fs) =
      Some (case write_commit_marker (ea_store a) (publication_marker now fresh object a) fs' of
        (Inl s, fs'') \<Rightarrow> (Inl s, (a, fs''))
      | (Inr _, fs'') \<Rightarrow> (Inr object, (count_up (\<lambda>n. n\<lparr>ec_objects_published := ec_objects_published n + 1\<rparr>) a, fs'')))"
proof -
  let ?d = "object_directory (ea_store a) (so_object_id object) (so_generation object)" and ?s = "import_path (ea_store a) object"
  let ?t = "object_data_path (ea_store a) (so_object_id object) (so_generation object)"
  obtain fs1 where imported: "bind_io (make_object_directory object) (\<lambda>_.
      on_disk (atomic_replace_file ?s contents True)) (a, fs) = (Inr (), (a, fs1))"
    "fs_script fs1 = []" "is_directory fs1 ?d" "fs_lookup fs1 ?s = Some (File contents)"
    "\<And>q. q \<noteq> ?s \<Longrightarrow> \<not> prefix q ?d \<Longrightarrow> fs_lookup fs1 q = fs_lookup fs q" "\<And>q. is_file fs1 q \<Longrightarrow> is_file fs q \<or> q = ?s"
    using import_done [OF assms(4), of contents] by blast
  have "fs_lookup fs1 ?t \<noteq> Some Directory"
    using imported(5) [of ?t] assms(4) by (simp add: importable_def object_paths import_paths(3) [symmetric])
  then obtain fs2 where final: "fs_script fs2 = []" "fs_lookup fs2 = (fs_lookup fs1)(?s := None, ?t := Some (File contents))"
    "finalize_publication fresh now object ?s (a, fs1) =
      bind_io (on_disk (write_commit_marker (ea_store a) (publication_marker now fresh object a))) (\<lambda>_.
        modify_agent (count_up (\<lambda>n. n\<lparr>ec_objects_published := ec_objects_published n + 1\<rparr>))) (a, fs2)"
    using finalize_done [OF imported(2,4,3), of fresh now] unfolding publication_marker_def by blast
  have "publish_bytes fresh created now kind name generation contents producer repeatable (a, fs) =
      Some (bind_io (finalize_publication fresh now object ?s) (\<lambda>_. return_io object) (a, fs1))"
    using imported(1) assms(1-3)
    by (auto simp: publish_bytes_def Let_def bind_io_def split: prod.splits sum.splits)
  also have "bind_io (finalize_publication fresh now object ?s) (\<lambda>_. return_io object) (a, fs1) =
      (case write_commit_marker (ea_store a) (publication_marker now fresh object a) fs2 of
        (Inl s, fs'') \<Rightarrow> (Inl s, (a, fs''))
      | (Inr _, fs'') \<Rightarrow> (Inr object, (count_up (\<lambda>n. n\<lparr>ec_objects_published := ec_objects_published n + 1\<rparr>) a, fs'')))"
    by (simp add: bind_io_def final(3) on_disk_def modify_agent_def return_io_def split: prod.splits sum.splits)
  finally show ?thesis
    using final(1,2) imported(5,6) by (intro exI [of _ fs2]) (auto simp: is_file_def split: if_splits)
qed

end
