(* ===== verification/SMF_Sample_Grant.thy ===== *)
theory SMF_Sample_Grant
  imports SMF_Protocol_Properties SMF_Encoding_Properties
begin

text \<open>
  A concrete signed grant, for the witnesses. It authorises a small object whose digest is known,
  and its signature is the one the program computes, evaluated here block by block.
\<close>

definition small_object :: state_object where
  "small_object =
    \<lparr>so_object_id = sample_id, so_kind = SK_MODEL, so_name = ''m'', so_generation = 1,
     so_content_digest = 0xba7816bf8f01cfea414140de5dae2223b00361a396177a9cb410ff61f20015ad, so_total_bytes = 3,
     so_chunk_bytes = 1048576, so_chunk_count = 1, so_created_unix_millis = 1, so_producer = ''p'', so_repeatable = True\<rparr>"

lemma small_object_created:
  "StateObjectDescriptor_create SK_MODEL ''m'' 1 (sha256 (as_bytes ''abc'')) 3 1048576 1 ''p'' = Some (Inr small_object)"
  "descriptor_valid small_object"
proof -
  show "descriptor_valid small_object"
    by (simp add: descriptor_valid_iff small_object_def sample_id_derived ceil_div_def)
      (simp add: sample_id_def as_bytes_def byte_of_char_def is_valid_utf8.simps)
  then show "StateObjectDescriptor_create SK_MODEL ''m'' 1 (sha256 (as_bytes ''abc'')) 3 1048576 1 ''p'' = Some (Inr small_object)"
    unfolding sha256_abc StateObjectDescriptor_create_def derive_sample_id
    by (simp add: Let_def ceil_div_def check_status_def) (simp add: small_object_def)
qed

definition grant_key :: bytes where
  "grant_key = replicate 32 1"

definition small_grant :: transfer_grant where
  "small_grant = sample_grant\<lparr>tg_object := small_object\<rparr>"

definition grant_signature :: digest where
  "grant_signature = 0x97827ca5dda4bfef0430e1f976a52d33a1fd2da1c64b62ebc78c527b07fd82e7"

definition inner_block_1 :: bytes where
  "inner_block_1 =
    [55, 55, 55, 55, 55, 55, 55, 55, 55, 55, 55, 55, 55, 55, 55, 55, 55, 55, 55, 55, 55, 55, 55,
    55, 55, 55, 55, 55, 55, 55, 55, 55, 54, 54, 54, 54, 54, 54, 54, 54, 54, 54, 54, 54, 54, 54, 54,
    54, 54, 54, 54, 54, 54, 54, 54, 54, 54, 54, 54, 54, 54, 54, 54, 54]"

definition inner_block_2 :: bytes where
  "inner_block_2 =
    [21, 0, 0, 0, 0, 0, 0, 0, 83, 77, 70, 45, 84, 82, 65, 78, 83, 70, 69, 82, 45, 71, 82, 65, 78,
    84, 45, 118, 49, 16, 0, 0, 0, 0, 0, 0, 0, 0, 0, 0, 0, 0, 0, 0, 0, 0, 0, 0, 0, 0, 0, 0, 1, 1, 0,
    0, 0, 0, 0, 0, 0, 16, 0, 0]"

definition inner_block_3 :: bytes where
  "inner_block_3 =
    [0, 0, 0, 0, 0, 0, 0, 0, 0, 0, 0, 0, 0, 0, 0, 0, 0, 0, 0, 0, 1, 53, 74, 42, 144, 132, 175, 227,
    106, 232, 231, 129, 77, 94, 232, 191, 59, 228, 120, 153, 58, 136, 167, 96, 250, 251, 128, 94,
    146, 213, 204, 71, 138, 1, 1, 0, 0, 0, 0, 0, 0, 0, 109, 1]"

definition inner_block_4 :: bytes where
  "inner_block_4 =
    [0, 0, 0, 0, 0, 0, 0, 186, 120, 22, 191, 143, 1, 207, 234, 65, 65, 64, 222, 93, 174, 34, 35,
    176, 3, 97, 163, 150, 23, 122, 156, 180, 16, 255, 97, 242, 0, 21, 173, 3, 0, 0, 0, 0, 0, 0, 0,
    0, 0, 16, 0, 0, 0, 0, 0, 1, 0, 0, 0, 1, 0, 0, 0, 0]"

definition inner_block_5 :: bytes where
  "inner_block_5 =
    [0, 0, 0, 1, 0, 0, 0, 0, 0, 0, 0, 112, 1, 1, 0, 0, 0, 0, 0, 0, 0, 97, 1, 0, 0, 0, 0, 0, 0, 0,
    97, 16, 0, 0, 0, 0, 0, 0, 0, 0, 0, 0, 0, 0, 0, 0, 0, 0, 0, 0, 0, 0, 0, 0, 1, 1, 0, 0, 0, 0, 0,
    0, 0, 1]"

definition inner_block_6 :: bytes where
  "inner_block_6 =
    [0, 0, 0, 0, 0, 0, 0, 98, 1, 0, 0, 0, 0, 0, 0, 0, 98, 16, 0, 0, 0, 0, 0, 0, 0, 0, 0, 0, 0, 0,
    0, 0, 0, 0, 0, 0, 0, 0, 0, 0, 2, 1, 0, 0, 0, 0, 0, 0, 0, 1, 0, 0, 0, 0, 0, 0, 0, 32, 0, 0, 0,
    0, 0, 0]"

definition inner_block_7 :: bytes where
  "inner_block_7 =
    [0, 0, 0, 0, 0, 0, 0, 0, 0, 0, 0, 0, 0, 0, 0, 0, 0, 0, 0, 0, 0, 0, 0, 0, 0, 0, 0, 0, 0, 0, 0,
    0, 1, 196, 9, 0, 0, 0, 0, 0, 0, 3, 0, 0, 0, 1, 0, 0, 0, 0, 0, 0, 0, 0, 128, 0, 0, 0, 0, 0, 0,
    0, 13, 176]"

lemma inner_compress_1:
  "Sha256_compress kInitialState
    inner_block_1 =
    [0x5251d27d, 0x92059aac, 0xdd4d2952, 0x3a9bb5cd, 0xc6e733b9, 0xa58516d4, 0xa1cc5288, 0x6acb9c90]"
  by code_simp

lemma inner_compress_2:
  "Sha256_compress 
    [0x5251d27d, 0x92059aac, 0xdd4d2952, 0x3a9bb5cd, 0xc6e733b9, 0xa58516d4, 0xa1cc5288, 0x6acb9c90]
    inner_block_2 =
    [0x9bcd7146, 0x2f460542, 0x66a7cde0, 0xc7065b7a, 0x561c40d1, 0x5a95bf42, 0x275b2a35, 0xb3add5a9]"
  by code_simp

lemma inner_compress_3:
  "Sha256_compress 
    [0x9bcd7146, 0x2f460542, 0x66a7cde0, 0xc7065b7a, 0x561c40d1, 0x5a95bf42, 0x275b2a35, 0xb3add5a9]
    inner_block_3 =
    [0xc9cee10a, 0xd9fc8a52, 0x2c87e146, 0xa3b00579, 0x7168c7c5, 0x55ff859, 0x4da3184c, 0x7c33cd45]"
  by code_simp

lemma inner_compress_4:
  "Sha256_compress 
    [0xc9cee10a, 0xd9fc8a52, 0x2c87e146, 0xa3b00579, 0x7168c7c5, 0x55ff859, 0x4da3184c, 0x7c33cd45]
    inner_block_4 =
    [0x4691c5bb, 0xf39a0166, 0xc29b0492, 0x3f0f6011, 0x65980e9e, 0x45f7325, 0x9956401c, 0x280c18b1]"
  by code_simp

lemma inner_compress_5:
  "Sha256_compress 
    [0x4691c5bb, 0xf39a0166, 0xc29b0492, 0x3f0f6011, 0x65980e9e, 0x45f7325, 0x9956401c, 0x280c18b1]
    inner_block_5 =
    [0xc884bf42, 0x653cf570, 0x1618950e, 0xe2bcdf7a, 0xb341aed2, 0xba673fb7, 0x8bfcf955, 0x5e4aeb67]"
  by code_simp

lemma inner_compress_6:
  "Sha256_compress 
    [0xc884bf42, 0x653cf570, 0x1618950e, 0xe2bcdf7a, 0xb341aed2, 0xba673fb7, 0x8bfcf955, 0x5e4aeb67]
    inner_block_6 =
    [0x4660901e, 0x4673cafb, 0x94c1b09b, 0x22d4e722, 0x5056314f, 0x2101a868, 0x3a9cc538, 0x60a979a0]"
  by code_simp

lemma inner_compress_7:
  "Sha256_compress 
    [0x4660901e, 0x4673cafb, 0x94c1b09b, 0x22d4e722, 0x5056314f, 0x2101a868, 0x3a9cc538, 0x60a979a0]
    inner_block_7 =
    [0x7d2ea0fe, 0x98afcab8, 0x912218cb, 0x82e86e3b, 0x2cd3fbcd, 0x4fc799c9, 0x30750f7b, 0x9e77a53d]"
  by code_simp

lemmas inner_compress = inner_compress_1 inner_compress_2 inner_compress_3 inner_compress_4 inner_compress_5 inner_compress_6 inner_compress_7

definition outer_block_1 :: bytes where
  "outer_block_1 =
    [93, 93, 93, 93, 93, 93, 93, 93, 93, 93, 93, 93, 93, 93, 93, 93, 93, 93, 93, 93, 93, 93, 93,
    93, 93, 93, 93, 93, 93, 93, 93, 93, 92, 92, 92, 92, 92, 92, 92, 92, 92, 92, 92, 92, 92, 92, 92,
    92, 92, 92, 92, 92, 92, 92, 92, 92, 92, 92, 92, 92, 92, 92, 92, 92]"

definition outer_block_2 :: bytes where
  "outer_block_2 =
    [125, 46, 160, 254, 152, 175, 202, 184, 145, 34, 24, 203, 130, 232, 110, 59, 44, 211, 251, 205,
    79, 199, 153, 201, 48, 117, 15, 123, 158, 119, 165, 61, 128, 0, 0, 0, 0, 0, 0, 0, 0, 0, 0, 0,
    0, 0, 0, 0, 0, 0, 0, 0, 0, 0, 0, 0, 0, 0, 0, 0, 0, 0, 3, 0]"

lemma outer_compress_1:
  "Sha256_compress kInitialState
    outer_block_1 =
    [0x3790d02e, 0x4abcccf1, 0xd4929c5a, 0xeac3f4ed, 0x967ebdfe, 0x28c563dc, 0x513a346, 0x842bc6f5]"
  by code_simp

lemma outer_compress_2:
  "Sha256_compress 
    [0x3790d02e, 0x4abcccf1, 0xd4929c5a, 0xeac3f4ed, 0x967ebdfe, 0x28c563dc, 0x513a346, 0x842bc6f5]
    outer_block_2 =
    [0x97827ca5, 0xdda4bfef, 0x430e1f9, 0x76a52d33, 0xa1fd2da1, 0xc64b62eb, 0xc78c527b, 0x7fd82e7]"
  by code_simp

lemmas outer_compress = outer_compress_1 outer_compress_2

lemma inner_blocks:
  "blocks64 ((map (\<lambda>b. b XOR 0x36) (grant_key @ replicate 32 0) @ TransferGrant_signed_encoding small_grant) @
     sha256_padding (length (map (\<lambda>b. b XOR 0x36) (grant_key @ replicate 32 0) @ TransferGrant_signed_encoding small_grant))) =
   [inner_block_1, inner_block_2, inner_block_3, inner_block_4, inner_block_5, inner_block_6, inner_block_7]"
  by code_simp

definition inner_digest :: bytes where
  "inner_digest =
    [125, 46, 160, 254, 152, 175, 202, 184, 145, 34, 24, 203, 130, 232, 110, 59, 44, 211, 251, 205,
    79, 199, 153, 201, 48, 117, 15, 123, 158, 119, 165, 61]"

lemma inner_digest: "Digest_view (sha256 (map (\<lambda>b. b XOR 0x36) (grant_key @ replicate 32 0) @ TransferGrant_signed_encoding small_grant)) =
  inner_digest"
proof -
  have "Digest_view (be_word (concat (map store_be32 [0x7d2ea0fe, 0x98afcab8, 0x912218cb, 0x82e86e3b, 0x2cd3fbcd, 0x4fc799c9, 0x30750f7b, 0x9e77a53d]))) = inner_digest"
    by code_simp
  then show ?thesis
    unfolding sha256_eq_reference sha256_reference_def inner_blocks by (simp add: inner_compress)
qed

lemma outer_blocks:
  "blocks64 ((map (\<lambda>b. b XOR 0x5C) (grant_key @ replicate 32 0) @ inner_digest) @
     sha256_padding (length (map (\<lambda>b. b XOR 0x5C) (grant_key @ replicate 32 0) @ inner_digest))) =
   [outer_block_1, outer_block_2]"
  by code_simp

lemma small_grant_signature: "TransferGrant_compute_signature grant_key small_grant = grant_signature"
proof -
  have "be_word (concat (map store_be32 [0x97827ca5, 0xdda4bfef, 0x430e1f9, 0x76a52d33, 0xa1fd2da1, 0xc64b62eb, 0xc78c527b, 0x7fd82e7])) = grant_signature"
    by code_simp
  then have "sha256 (map (\<lambda>b. b XOR 0x5C) (grant_key @ replicate 32 0) @ inner_digest) = grant_signature"
    unfolding sha256_eq_reference sha256_reference_def outer_blocks by (simp add: outer_compress)
  moreover have "length grant_key = 32"
    by (simp add: grant_key_def)
  ultimately show ?thesis
    using inner_digest
    by (simp add: TransferGrant_compute_signature_def canonical_mac_def hmac_sha256_eq_reference hmac_reference_def)
qed

definition signed_grant :: transfer_grant where
  "signed_grant = small_grant\<lparr>tg_signature := grant_signature\<rparr>"

lemma signed_grant_verifies:
  "Status_ok (TransferGrant_verify_signature grant_key signed_grant)" "transfer_grant_wf signed_grant"
proof -
  have "transfer_grant_wf small_grant"
    using sample_grant_wf small_object_created(2)
    by (simp add: transfer_grant_wf_def TransferGrant_validate_def sample_grant_def small_grant_def)
  then show wf: "transfer_grant_wf signed_grant"
    unfolding signed_grant_def by (rule transfer_grant_wf_resign) (simp add: grant_signature_def)
  have "TransferGrant_compute_signature grant_key signed_grant = TransferGrant_compute_signature grant_key small_grant"
    by (simp add: TransferGrant_compute_signature_def TransferGrant_signed_encoding_def TransferGrant_encode_unsigned_def signed_grant_def)
  then show "Status_ok (TransferGrant_verify_signature grant_key signed_grant)"
    using wf by (simp add: TransferGrant_verify_signature_iff small_grant_signature) (simp add: signed_grant_def)
qed

lemma signed_grant_fields:
  "tg_grant_nonce signed_grant = 1" "tg_object signed_grant = small_object" "tg_source signed_grant = ''a''"
  "tg_destination signed_grant = ''b''" "tg_movement_id signed_grant = 1" "tg_policy_generation signed_grant = 1"
  "tg_attempt signed_grant = 1" "tg_movement_generation signed_grant = 1"
  "tg_destination_incarnation signed_grant = \<lparr>inc_endpoint = ''b'', inc_boot = 2, inc_epoch = 1\<rparr>"
  by (simp_all add: signed_grant_def small_grant_def sample_grant_def)

end
