(* ===== verification/SMF_Agent_Samples.thy ===== *)
theory SMF_Agent_Samples
  imports SMF_Agent_Sessions SMF_Agent_Publication SMF_Object_Store_Properties SMF_Sample_Grant
begin

text \<open>
  A concrete endpoint for the witnesses of the endpoint properties: its configuration, a disk that
  holds the small object, the endpoint with a live grant for it, and the request of a destination.
\<close>

definition sample_agent_config :: agent_config where
  "sample_agent_config =
    \<lparr>ac_endpoint_id = ''a'', ac_store_root = [''r''], ac_shared_secret = grant_key, ac_capability = ''c'',
     ac_policy = MovementPolicy_default, ac_max_data_sessions = 4, ac_max_concurrent_movements = 4,
     ac_allow_resume = True, ac_sync_store = True\<rparr>"

definition sample_agent :: "bytes endpoint_agent" where
  "sample_agent = agent_new sample_agent_config sample_root \<lparr>inc_endpoint = ''a'', inc_boot = 1, inc_epoch = 1\<rparr>
     SocketAddress_default"

definition small_disk :: file_system where
  "small_disk = empty_disk\<lparr>fs_nodes := [(object_data_path sample_root sample_id 1, File (as_bytes ''abc''))]\<rparr>"

lemma small_disk_nodes:
  "fs_script small_disk = []" "fs_lookup small_disk (object_data_path sample_root sample_id 1) = Some (File (as_bytes ''abc''))"
  "fs_lookup small_disk (commit_marker_path sample_root sample_id 1) = None"
  "fs_lookup small_disk (replace_temporary (commit_marker_path sample_root sample_id 1)) = None"
  by (simp_all add: small_disk_def fs_lookup_def empty_disk_def object_data_path_def object_directory_def
      commit_marker_path_def replace_temporary_def path_suffix_def butlast_append)

text \<open>The endpoint after its link to the coordinator broke.\<close>

definition unlinked_agent :: "bytes endpoint_agent" where
  "unlinked_agent = sample_agent\<lparr>ea_control := Some \<lparr>cl_stream = (sample_codec, []), cl_alive = False, cl_pending = []\<rparr>\<rparr>"

definition granted_agent :: "bytes endpoint_agent" where
  "granted_agent = sample_agent\<lparr>ea_grants :=
     [(1, \<lparr>ge_grant = signed_grant, ge_consumed = False, ge_received_unix_millis = 1\<rparr>)]\<rparr>"

lemma granted_agent_ok: "agent_ok granted_agent"
  using signed_grant_verifies
  by (simp add: transfer_grant_wf_def agent_ok_def grants_ok_def granted_agent_def sample_agent_def agent_new_def sample_agent_config_def
      grant_authentic_def MovementPolicy_default_def signed_grant_fields)

definition small_begin :: data_begin where
  "small_begin = \<lparr>db_nonce = 1, db_movement_id = 1, db_movement_generation = 1, db_attempt = 1, db_object = small_object,
     db_destination = ''b'', db_destination_incarnation = \<lparr>inc_endpoint = ''b'', inc_boot = 2, inc_epoch = 1\<rparr>,
     db_resume_from_chunk = 0, db_resume_from_offset = 0\<rparr>"

lemma small_begin_checked:
  assumes "a = granted_agent\<lparr>ea_grants := grants\<rparr>"
  shows "check_grant a small_disk ''b'' small_begin (Some signed_grant) = Inr signed_grant"
  using signed_grant_verifies(1) small_disk_nodes(2)
  by (simp add: assms check_grant_def Let_def small_begin_def signed_grant_fields granted_agent_def sample_agent_def agent_new_def
      sample_agent_config_def small_object_def object_present_def fs_exists_def)

lemma small_answer_sent:
  "\<exists>stream. stream_send byte_queue_send 1000 MT_DATA_BEGIN_ACK (DataBeginAck_encode
      \<lparr>dba_nonce = 1, dba_code = OK, dba_resume_from_chunk = 0, dba_resume_from_offset = 0, dba_detail = []\<rparr>)
      (w, (sample_codec, c)) = (Inr (), (w, stream))"
  by (simp add: stream_send_def FrameStream_send_def FrameCodec_encode_def sample_codec_def is_handshake_message_def
      byte_queue_send_def DataBeginAck_encode_def enc_text_def write_detail_def write_reason_def Let_def
      enc_digest_def enc_u16_def enc_u32_def enc_u64_def)

lemma small_begin_admitted:
  "\<exists>stream. answer_begin byte_queue_send 1000 ''b'' small_begin ((granted_agent, small_disk), (sample_codec, [])) =
    (Inr (signed_grant, 0), ((granted_agent\<lparr>ea_grants :=
       [(1, \<lparr>ge_grant = signed_grant, ge_consumed = True, ge_received_unix_millis = 1\<rparr>)]\<rparr>, small_disk), stream))"
proof -
  have taken: "take_grant 1 granted_agent = (Some signed_grant, granted_agent\<lparr>ea_grants :=
       [(1, \<lparr>ge_grant = signed_grant, ge_consumed = True, ge_received_unix_millis = 1\<rparr>)]\<rparr>)"
    by (simp add: take_grant_def granted_agent_def)
  have start: "start_point signed_grant small_begin = (0, 0)" "db_nonce small_begin = 1"
    by (simp_all add: start_point_def small_begin_def)
  show ?thesis
    using small_answer_sent [of "(granted_agent\<lparr>ea_grants :=
       [(1, \<lparr>ge_grant = signed_grant, ge_consumed = True, ge_received_unix_millis = 1\<rparr>)]\<rparr>, small_disk)" "[]"]
    by (auto simp: answer_begin_def taken small_begin_checked start bind_io_def return_io_def)
qed

end
