(* ===== verification/SMF_Agent_Properties.thy ===== *)
theory SMF_Agent_Properties
  imports SMF_Agent_Samples
begin

text \<open>
  Properties of the endpoint process: the commit barrier, what a transfer may place, the single use
  of grants, the invariant of every run, publication, and the resumption of transfers.
\<close>

section \<open>The commit barrier\<close>

definition commit_target :: "'c endpoint_agent \<Rightarrow> commit_request \<Rightarrow> path" where
  "commit_target a message =
     commit_marker_path (ea_store a) (so_object_id (cmq_object message)) (so_generation (cmq_object message))"

lemma agent_marker_simps:
  "cm_object (agent_marker now i g object source n a) = object"
  "marker_target store (agent_marker now i g object source n a) =
     commit_marker_path store (so_object_id object) (so_generation object)"
  by (simp_all add: agent_marker_def CommitMarker_seal_def marker_target_def)

lemma marker_apart_paths:
  "commit_marker_path store k g \<noteq> replace_temporary (commit_marker_path store i h)"
  "\<not> prefix (commit_marker_path store k g) (butlast (commit_marker_path store i h))"
  "object_data_path store k g \<noteq> replace_temporary (commit_marker_path store i h)"
  "\<not> prefix (object_data_path store k g) (butlast (commit_marker_path store i h))"
  "object_data_path store k g \<noteq> commit_marker_path store i h"
proof -
  have "last (decimal (unat g) @ ''.marker'') \<noteq> last ((decimal (unat h) @ ''.marker'') @ ''.tmp-replace'')"
    by simp
  then have "decimal (unat g) @ ''.marker'' \<noteq> (decimal (unat h) @ ''.marker'') @ ''.tmp-replace''"
    by metis
  then show "commit_marker_path store k g \<noteq> replace_temporary (commit_marker_path store i h)"
    by (simp add: commit_marker_path_def replace_temporary_def path_suffix_def butlast_append)
qed (auto simp: commit_marker_path_def object_data_path_def object_directory_def replace_temporary_def path_suffix_def
    butlast_append dest: prefix_length_le)

lemma reject_commit_disk:
  "reject_commit send_all message code detail (a, fs) = (r, (a', fs')) \<Longrightarrow> fs' = fs \<and> isl r"
  by (auto simp: reject_commit_def dest!: send_control_disk split: prod.splits)

lemma on_commit_disk:
  assumes "on_commit_request send_all now message (a, fs) = (r, (a', fs'))"
  obtains (refused) "fs_lookup fs' = fs_lookup fs" "isl r"
  | (written) fs1 r2 where "fs_lookup fs1 = fs_lookup fs"
      "map_of (ea_cancellations a) (cmq_movement_id message) \<noteq> Some True"
      "digest_object (ea_store a) (so_object_id (cmq_object message)) (so_generation (cmq_object message)) fs =
        (Inr (so_content_digest (cmq_object message), so_total_bytes (cmq_object message)), fs1)"
      "write_commit_marker (ea_store a) (agent_marker now (cmq_movement_id message) (cmq_movement_generation message)
        (cmq_object message) (cmq_source message) (so_total_bytes (cmq_object message)) a) fs1 = (r2, fs')"
      "isl r2 \<Longrightarrow> isl r"
proof -
  let ?o = "cmq_object message"
  obtain r1 fs1 where digest: "digest_object (ea_store a) (so_object_id ?o) (so_generation ?o) fs = (r1, fs1)" by fastforce
  have same: "fs_lookup fs1 = fs_lookup fs"
    using digest_object_any(1) [OF digest] .
  show thesis
  proof (cases "map_of (ea_cancellations a) (cmq_movement_id message) \<noteq> Some True \<and>
      object_present (ea_store a) (so_object_id ?o) (so_generation ?o) fs \<and>
      r1 = Inr (so_content_digest ?o, so_total_bytes ?o)")
    case True
    let ?m = "agent_marker now (cmq_movement_id message) (cmq_movement_generation message) ?o (cmq_source message)
      (so_total_bytes ?o) a"
    obtain r2 fs2 where wrote: "write_commit_marker (ea_store a) ?m fs1 = (r2, fs2)" by fastforce
    have "fs' = fs2 \<and> (isl r2 \<longrightarrow> isl r)"
      using assms True digest wrote unfolding on_commit_request_def
      by (cases r2) (auto simp: Let_def dest!: send_control_disk reject_commit_disk)
    then show thesis
      using written [OF same _ _ _ ] True digest wrote by auto
  next
    case False
    have "(fs' = fs \<or> fs' = fs1) \<and> isl r"
      using assms False digest unfolding on_commit_request_def
      by (cases r1) (auto simp: Let_def dest!: reject_commit_disk split: if_splits)
    then show thesis
      using refused same by auto
  qed
qed


section \<open>Receiving under a grant\<close>

text \<open>C4: A transfer places only the bytes its grant authorises. Whatever the source sends, whichever
  system calls fail and however the transfer ends, the place of the object afterwards holds what it
  held before, nothing, or a content of the length and the digest the grant names. No commit marker
  and no other object changes, and the transfer is counted as received only if the authorised bytes
  are in place. The staged file of earlier attempts must not be longer than the object.\<close>

theorem transfer_places_only_authorised_bytes:
  assumes "run_transfer send_all receive_some interrupted connect hello answer grant attempt (a, fs) = Some (status, (a', fs'))"
    "length (file_contents fs (staging_data_path (ea_store a) (tg_movement_id grant))) \<le> unat (so_total_bytes (tg_object grant))"
  shows "(fs_lookup fs' (placed_at (ea_store a) grant) \<in> {fs_lookup fs (placed_at (ea_store a) grant), None} \<or>
      authorised_at grant (placed_at (ea_store a) grant) fs') \<and>
    (ea_counters a' \<noteq> ea_counters a \<longrightarrow> authorised_at grant (placed_at (ea_store a) grant) fs') \<and>
    (\<forall>k g. fs_lookup fs' (commit_marker_path (ea_store a) k g) = fs_lookup fs (commit_marker_path (ea_store a) k g)) \<and>
    (\<forall>k g. object_data_path (ea_store a) k g \<noteq> placed_at (ea_store a) grant \<longrightarrow>
      fs_lookup fs' (object_data_path (ea_store a) k g) = fs_lookup fs (object_data_path (ea_store a) k g))"
proof -
  note run = run_transfer_placing [OF assms(1)]
  have "\<not> prefix (placed_at (ea_store a) grant) (object_data_path (ea_store a) k g)"
    if "object_data_path (ea_store a) k g \<noteq> placed_at (ea_store a) grant" for k g
    using that by (auto simp: placed_at_def object_data_path_def object_directory_def dest: prefix_length_le)
  then show ?thesis
    using run assms(2) by (auto simp: placing_def split: if_splits) (auto simp: placed_at_def)
qed

theorem transfer_places_only_authorised_bytes_witness:
  "\<exists>status a' fs'. run_transfer byte_queue_send byte_queue_receive (\<lambda>_. False) (\<lambda>_. err CONNECTION_CLOSED []) (err CONNECTION_CLOSED [])
      None signed_grant 1 (unlinked_agent, small_disk) = Some (status, (a', fs')) \<and> status_code status = CONNECTION_CLOSED \<and>
    (fs_lookup fs' (placed_at sample_root signed_grant) = Some (File (as_bytes ''abc'')) \<or>
     fs_lookup fs' (placed_at sample_root signed_grant) = None \<or>
     authorised_at signed_grant (placed_at sample_root signed_grant) fs')"
proof -
  have store: "ea_store unlinked_agent = sample_root"
    by (simp add: unlinked_agent_def sample_agent_def agent_new_def)
  have "\<exists>status a' fs'. run_transfer byte_queue_send byte_queue_receive (\<lambda>_. False) (\<lambda>_. err CONNECTION_CLOSED [])
      (err CONNECTION_CLOSED []) None signed_grant 1 (unlinked_agent, small_disk) = Some (status, (a', fs')) \<and>
      status_code status = CONNECTION_CLOSED"
    by (simp add: run_transfer_def bind_io_def resolve_source_def ask_coordinator_def modify_agent_def set_pending_def
        send_control_def waiting_for_def unlinked_agent_def)
  then obtain status a' fs' where run: "run_transfer byte_queue_send byte_queue_receive (\<lambda>_. False) (\<lambda>_. err CONNECTION_CLOSED [])
      (err CONNECTION_CLOSED []) None signed_grant 1 (unlinked_agent, small_disk) = Some (status, (a', fs'))"
    "status_code status = CONNECTION_CLOSED" by blast
  have "file_contents small_disk (staging_data_path sample_root (tg_movement_id signed_grant)) = []"
    by (simp add: file_contents_def small_disk_def fs_lookup_def empty_disk_def object_data_path_def object_directory_def
        staging_data_path_def staging_directory_def)
  moreover have "placed_at sample_root signed_grant = object_data_path sample_root sample_id 1"
    by (simp add: placed_at_def signed_grant_fields small_object_def)
  ultimately show ?thesis
    using transfer_places_only_authorised_bytes [OF run(1)] run small_disk_nodes(2) store by auto
qed


section \<open>Serving under a grant\<close>

lemma take_grant_cases:
  assumes "take_grant nonce a = (found, a')"
  shows "found = Some grant \<Longrightarrow> \<exists>entry. map_of (ea_grants a) nonce = Some entry \<and> \<not> ge_consumed entry \<and>
      ge_grant entry = grant \<and> map_of (ea_grants a') nonce = Some (entry\<lparr>ge_consumed := True\<rparr>) \<and>
      a' = a\<lparr>ea_grants := ea_grants a'\<rparr>"
  using assms by (auto simp: take_grant_def update_conv' split: option.splits if_splits)

lemma take_grant_used:
  "map_of (ea_grants a) nonce = Some entry \<Longrightarrow> ge_consumed entry \<Longrightarrow> take_grant nonce a = (None, a)"
  by (simp add: take_grant_def)

lemma refuse_begin_code: "\<exists>w'. refuse_begin send_all limit message s w = (Inl s, w')"
  by (auto simp: refuse_begin_def split: prod.splits)

text \<open>What a grant must be for a source to serve under it.\<close>

definition serves :: "'c endpoint_agent \<Rightarrow> file_system \<Rightarrow> endpoint_id \<Rightarrow> transfer_grant \<Rightarrow> bool" where
  "serves a fs peer grant \<longleftrightarrow>
     Status_ok (TransferGrant_verify_signature (ac_shared_secret (ea_config a)) grant) \<and>
     tg_source grant = ac_endpoint_id (ea_config a) \<and> tg_destination grant = peer \<and>
     tg_policy_generation grant = ea_policy_generation a \<and>
     object_present (ea_store a) (so_object_id (tg_object grant)) (so_generation (tg_object grant)) fs"

lemma check_grant_ok:
  "check_grant a fs peer message found = Inr grant \<Longrightarrow> found = Some grant \<and> serves a fs peer grant \<and>
     db_destination message = peer \<and> db_destination_incarnation message = tg_destination_incarnation grant \<and>
     same_object (tg_object grant) (db_object message)"
  by (auto simp: check_grant_def Let_def serves_def same_object_def split: option.splits if_splits)



section \<open>Runs of the process\<close>

lemma on_commit_setup:
  assumes "on_commit_request send_all now message (a, fs) = (r, (a', fs'))"
  shows "same_setup a a'"
  using assms
  by (auto simp: on_commit_request_def Let_def reject_commit_def same_setup_def dest!: send_control_disk
      split: if_splits prod.splits sum.splits)

lemma decoded_quiet: "(\<And>m. io_within quiet (k m)) \<Longrightarrow> io_within quiet (decoded decode frame k)"
  unfolding decoded_def by (intro quiet_world.within_bind quiet_world.within_pure)

lemma request_shutdown_within: "io_within quiet (modify_agent request_shutdown)"
  by (rule io_withinI) (auto simp: modify_agent_def request_shutdown_quiet)

lemma handle_control_quiet:
  assumes "fh_type (fr_header frame) \<noteq> MT_COMMIT_REQUEST"
  shows "io_within quiet (handle_control send_all now frame)"
  using assms unfolding handle_control_def Let_def
  by (simp only: if_False) (intro quiet_world.within_if quiet_world.within_pure decoded_quiet on_grant_quiet
      on_execute_quiet on_verify_quiet on_authority_quiet on_cleanup_quiet on_cancel_quiet send_control_quiet
      request_shutdown_within)

text \<open>What every step keeps, markers apart.\<close>

definition keeps :: "'c endpoint_agent \<Rightarrow> 'c endpoint_agent \<Rightarrow> bool" where
  "keeps a a' \<longleftrightarrow> ea_config a' = ea_config a \<and> ea_store a' = ea_store a \<and> ea_incarnation a' = ea_incarnation a \<and>
     (agent_ok a \<longrightarrow> agent_ok a')"

lemma keeps_quiet: "quiet (a, fs) (a', fs') \<Longrightarrow> keeps a a'"
  by (simp add: quiet_def keeps_def)

lemma keeps_setup: "same_setup a a' \<Longrightarrow> keeps a a'"
  using same_setup_ok [of a a'] by (simp add: keeps_def same_setup_def)

lemma keeps_refl: "keeps a a"
  by (simp add: keeps_def)

lemma keeps_trans: "keeps a b \<Longrightarrow> keeps b c \<Longrightarrow> keeps a c"
  by (auto simp: keeps_def)

lemma handle_control_keeps:
  assumes "handle_control send_all now frame (a, fs) = (r, (a', fs'))"
  shows "keeps a a'"
proof (cases "fh_type (fr_header frame) = MT_COMMIT_REQUEST")
  case True
  then have "a' = a \<or> (\<exists>m. on_commit_request send_all now m (a, fs) = (r, (a', fs')))"
    using assms by (auto simp: handle_control_def decoded_def bind_io_def lift_io_def split: sum.splits)
  then show ?thesis
    by (auto intro: keeps_setup keeps_refl dest: on_commit_setup)
qed (rule keeps_quiet, rule io_withinD [OF handle_control_quiet assms])

lemma control_reader_keeps:
  assumes "control_reader_step send_all now arrived (a, fs) = (r, (a', fs'))"
  shows "keeps a a'"
    "(\<And>frame. arrived = Inr frame \<Longrightarrow> fh_type (fr_header frame) \<noteq> MT_COMMIT_REQUEST) \<Longrightarrow> quiet (a, fs) (a', fs')"
proof -
  have taken: "quiet (a, fs) (a\<lparr>ea_control := c\<rparr>, fs)" for c
    by (rule quiet_modify) simp
  have "keeps a a' \<and> ((\<forall>frame. arrived = Inr frame \<longrightarrow> fh_type (fr_header frame) \<noteq> MT_COMMIT_REQUEST) \<longrightarrow> quiet (a, fs) (a', fs'))"
  proof (cases arrived)
    case (Inl e)
    then have "quiet (a, fs) (a', fs')"
      using assms control_link_ended_quiet by (auto simp: control_reader_step_def)
    then show ?thesis using keeps_quiet by blast
  next
    case (Inr frame)
    obtain r1 a1 fs1 where handled: "handle_control send_all now frame (a, fs) = (r1, (a1, fs1))"
      by (metis prod.collapse)
    have ends: "(\<exists>c. a' = a\<lparr>ea_control := c\<rparr> \<and> fs' = fs) \<or> (a', fs') = (a1, fs1) \<or>
        (\<exists>type payload r2. send_control send_all type payload (a1, fs1) = (r2, (a', fs')))"
      using assms Inr handled
      by (auto simp: control_reader_step_def Let_def split: if_splits sum.splits prod.splits)
    have "keeps a a'"
      using ends handle_control_keeps [OF handled] keeps_quiet [OF taken] send_control_disk
      by (auto intro: keeps_trans [OF _ keeps_quiet [OF io_withinD [OF send_control_quiet]]])
    moreover have "quiet (a, fs) (a', fs')" if "fh_type (fr_header frame) \<noteq> MT_COMMIT_REQUEST"
    proof -
      have "quiet (a, fs) (a1, fs1)"
        by (rule io_withinD [OF handle_control_quiet [OF that] handled])
      then show ?thesis
        using ends taken quiet_then_send by blast
    qed
    ultimately show ?thesis using Inr by blast
  qed
  then show "keeps a a'"
    "(\<And>frame. arrived = Inr frame \<Longrightarrow> fh_type (fr_header frame) \<noteq> MT_COMMIT_REQUEST) \<Longrightarrow> quiet (a, fs) (a', fs')"
    by blast+
qed

lemma accept_session_keeps: "quiet (a, fs) (accept_session c a, fs)"
  by (auto simp: accept_session_def quiet_def agent_ok_def grants_ok_def count_up_def)

lemma session_worker_quiet:
  "quiet w (session_worker_step (serve_data_connection send_all receive_some interrupted fill e version) w)"
proof -
  obtain a fs where w: "w = (a, fs)" by (cases w)
  show ?thesis
  proof (cases "ea_session_queue a")
    case (Cons c rest)
    let ?a = "a\<lparr>ea_session_queue := rest, ea_active_sessions := ea_active_sessions a + 1\<rparr>"
    obtain status a1 fs1 where run: "serve_data_connection send_all receive_some interrupted fill e version c (?a, fs) = (status, (a1, fs1))"
      by (metis prod.collapse)
    have "quiet (a, fs) (?a, fs)"
      using Cons by (auto simp: quiet_def agent_ok_def grants_ok_def)
    moreover have "quiet (?a, fs) (a1, fs1)"
      by (rule serve_data_connection_quiet [OF run])
    moreover have "quiet (a1, fs1) (a1\<lparr>ea_active_sessions := ea_active_sessions a1 - 1\<rparr>, fs1)"
      by (rule quiet_modify) simp
    ultimately have "quiet (a, fs) (a1\<lparr>ea_active_sessions := ea_active_sessions a1 - 1\<rparr>, fs1)"
      by (blast intro: quiet_world.trans_R)
    then show ?thesis
      using w Cons run by (simp add: session_worker_step_def)
  qed (simp add: w session_worker_step_def quiet_world.refl_R)
qed

lemma quiet_placing:
  assumes "placing (ea_store a) grant within counted fs fs' \<and> same_setup a a'"
  shows "quiet (a, fs) (a', fs')"
  using assms same_setup_ok [of a a'] by (auto simp: quiet_def same_setup_def placing_def placed_at_def)

lemma execute_worker_quiet:
  assumes "execute_movement_worker send_all (run_transfer send_all receive_some interrupted connect hello answer) i attempt nonce (a, fs) = Some w'"
  shows "quiet (a, fs) w'"
proof (cases "map_of (ea_grants a) nonce")
  case (Some entry)
  obtain status a1 fs1 where run: "run_transfer send_all receive_some interrupted connect hello answer (ge_grant entry) attempt
      (a, fs) = Some (status, (a1, fs1))"
    using assms(1) Some by (auto simp: execute_movement_worker_def Let_def split: option.splits)
  have "quiet (a, fs) (a1, fs1)"
    by (rule quiet_placing [OF run_transfer_placing [OF run]])
  moreover have "w' = (a1, fs1) \<or> (\<exists>type payload r. send_control send_all type payload (a1, fs1) = (r, w'))"
    using assms(1) Some run
    by (auto simp: execute_movement_worker_def Let_def report_attempt_result_def split: if_splits) (metis prod.collapse)+
  ultimately show ?thesis
    using quiet_then_send by blast
qed (use assms(1) in \<open>simp add: execute_movement_worker_def quiet_world.refl_R\<close>)

lemma announce_quiet: "io_within quiet (announce send_all answer descriptor)"
proof -
  have disk: "same_disk s t \<Longrightarrow> quiet s t" for s t :: "'a agent_world"
    using same_setup_ok by (auto simp: same_disk_def quiet_def same_setup_def)
  then have ask: "io_within quiet (ask_coordinator send_all key busy late type payload answer)" for key busy late type payload
    using ask_coordinator_same unfolding io_within_def by blast
  have "io_within quiet (bind_io (ask_coordinator send_all (MessageType_to_string MT_ANNOUNCE_ACK)
      ''another announcement is already in flight'' ''the coordinator did not acknowledge the announcement''
      MT_ANNOUNCE_OBJECT (AnnounceObject_encode \<lparr>ao_descriptor = descriptor\<rparr>) answer) (\<lambda>frame.
    if fh_type (fr_header frame) \<noteq> MT_ANNOUNCE_ACK
    then fail_io CONNECTION_CLOSED ''the coordinator link closed before the acknowledgement arrived''
    else bind_io (lift_io (decode_message AnnounceAck_decode frame)) (\<lambda>ack.
      if aa_code ack \<noteq> OK then fail_io (aa_code ack) (aa_detail ack) else return_io ())))"
    by (intro quiet_world.within_bind quiet_world.within_pure quiet_world.within_if ask)
  then show ?thesis
    unfolding announce_def
    by (intro io_withinI) (auto simp: quiet_world.refl_R split: if_splits option.splits dest: io_withinD)
qed

lemma finalize_setup:
  assumes "finalize_publication fresh now object staged (a, fs) = (r, (a', fs'))"
  shows "same_setup a a'"
  using assms
  by (auto simp: finalize_publication_def bind_io_def on_disk_def lift_io_def modify_agent_def count_up_def same_setup_def Let_def
      split: prod.splits sum.splits if_splits)

lemma publish_setup:
  "publish_bytes fresh created now kind name generation contents producer repeatable (a, fs) = Some (r, (a', fs')) \<Longrightarrow> same_setup a a'"
  "publish_file fresh created now kind name generation source producer repeatable (a, fs) = Some (r', (a', fs')) \<Longrightarrow> same_setup a a'"
proof -
  have refl: "same_setup a a" by (simp add: same_setup_def)
  show "same_setup a a'" if "publish_bytes fresh created now kind name generation contents producer repeatable (a, fs) = Some (r, (a', fs'))"
    using that refl
    by (auto simp: publish_bytes_def Let_def bind_io_def make_object_directory_def on_disk_def return_io_def
        dest: finalize_setup split: if_splits option.splits sum.splits prod.splits)
  show "same_setup a a'" if "publish_file fresh created now kind name generation source producer repeatable (a, fs) = Some (r', (a', fs'))"
    using that refl
    by (auto simp: publish_file_def Let_def bind_io_def make_object_directory_def copy_into_store_def
        dest: finalize_setup split: if_splits option.splits sum.splits prod.splits)
qed

text \<open>The steps of the process, with the flag of those that may write a commit marker: a commit request
  of the coordinator and the publication of local state. The entropy a session draws from is
  numbered.\<close>

inductive agent_step :: "bool \<Rightarrow> 'c agent_world \<Rightarrow> 'c agent_world \<Rightarrow> bool" where
  step_control: "control_reader_step send_all now (Inr frame) w = (r, w') \<Longrightarrow>
    agent_step (fh_type (fr_header frame) = MT_COMMIT_REQUEST) w w'"
| step_link_ended: "control_reader_step send_all now (Inl s) w = (r, w') \<Longrightarrow> agent_step False w w'"
| step_accept: "agent_step False (a, fs) (accept_session c a, fs)"
| step_session: "session_worker_step (serve_data_connection send_all receive_some interrupted fill (e :: nat) version) w = w' \<Longrightarrow>
    agent_step False w w'"
| step_worker: "execute_movement_worker send_all
      (run_transfer send_all receive_some interrupted connect hello answer) i attempt nonce w = Some w' \<Longrightarrow>
    agent_step False w w'"
| step_announce: "announce send_all answer descriptor w = (r, w') \<Longrightarrow> agent_step False w w'"
| step_publish_bytes: "publish_bytes fresh created now kind name generation contents producer repeatable w = Some (r, w') \<Longrightarrow>
    agent_step True w w'"
| step_publish_file: "publish_file fresh created now kind name generation source producer repeatable w = Some (r, w') \<Longrightarrow>
    agent_step True w w'"
| step_shutdown: "agent_step False (a, fs) (request_shutdown a, fs)"
| step_stop: "agent_step False (a, fs) (EndpointAgent_stop a, fs)"

inductive agent_run :: "'c agent_world \<Rightarrow> 'c agent_world \<Rightarrow> bool" where
  run_start: "agent_run w w"
| run_step: "agent_run w w' \<Longrightarrow> agent_step committing w' w'' \<Longrightarrow> agent_run w w''"

lemma keeps_quiet_world: "quiet w w' \<Longrightarrow> keeps (fst w) (fst w') \<and> (\<not> committing \<longrightarrow> quiet w w')"
  using keeps_quiet [of "fst w" "snd w" "fst w'" "snd w'"] by simp

lemma agent_step_quiet:
  assumes "agent_step committing w w'"
  shows "keeps (fst w) (fst w') \<and> (\<not> committing \<longrightarrow> quiet w w')"
  using assms
proof cases
  case (step_control send_all now frame r)
  then show ?thesis
    using control_reader_keeps [of send_all now "Inr frame" "fst w" "snd w" r "fst w'" "snd w'"] by simp
next
  case (step_link_ended send_all now s r)
  then show ?thesis
    using control_reader_keeps [of send_all now "Inl s" "fst w" "snd w" r "fst w'" "snd w'"] by simp
next
  case (step_accept a fs c)
  then show ?thesis
    by (intro keeps_quiet_world) (simp add: accept_session_keeps)
next
  case (step_session send_all receive_some interrupted fill e version)
  show ?thesis
    unfolding step_session(2) [symmetric] by (rule keeps_quiet_world [OF session_worker_quiet])
next
  case (step_worker send_all receive_some interrupted connect hello answer i attempt nonce)
  then show ?thesis
    using execute_worker_quiet [of send_all receive_some interrupted connect hello answer i attempt nonce "fst w" "snd w" w']
    by (intro keeps_quiet_world) simp
next
  case (step_announce send_all answer descriptor r)
  then show ?thesis
    using io_withinD [OF announce_quiet step_announce(2)] by (intro keeps_quiet_world)
next
  case (step_publish_bytes fresh created now kind name generation contents producer repeatable r)
  then show ?thesis
    using publish_setup(1) [of fresh created now kind name generation contents producer repeatable "fst w" "snd w" r "fst w'" "snd w'"]
    by (simp add: keeps_setup)
next
  case (step_publish_file fresh created now kind name generation source producer repeatable r)
  then show ?thesis
    using publish_setup(2) [of fresh created now kind name generation source producer repeatable "fst w" "snd w" r "fst w'" "snd w'"]
    by (simp add: keeps_setup)
next
  case (step_shutdown a fs)
  then show ?thesis
    by (intro keeps_quiet_world) (simp add: request_shutdown_quiet)
next
  case (step_stop a fs)
  then show ?thesis
    by (intro keeps_quiet_world) (simp add: stop_quiet)
qed



section \<open>Publication\<close>

text \<open>The place of a commit marker that has not been written yet.\<close>

definition uncommitted :: "object_store_options \<Rightarrow> state_object \<Rightarrow> file_system \<Rightarrow> bool" where
  "uncommitted store object fs \<longleftrightarrow> (let target = commit_marker_path store (so_object_id object) (so_generation object)
     in \<not> list_ex (is_file fs) (prefixes (butlast target)) \<and> fs_lookup fs target = None \<and>
        fs_lookup fs (replace_temporary target) = None)"

lemma marker_import_paths:
  "commit_marker_path store k g \<noteq> import_path store object" "replace_temporary (commit_marker_path store k g) \<noteq> import_path store object"
  "\<not> prefix (commit_marker_path store k g) (object_directory store i h)"
  "\<not> prefix (replace_temporary (commit_marker_path store k g)) (object_directory store i h)"
  by (auto simp: commit_marker_path_def import_path_def object_directory_def replace_temporary_def path_suffix_def butlast_append)

text \<open>C20: When no system call fails, publishing a content under a version that has no commit marker yet
  places exactly that content. If the marker of the publication is valid the publication succeeds,
  counts as published, and the store is then authoritative over the version with that marker; if
  not, it reports why and commits nothing.\<close>

theorem publication_commits:
  assumes "length contents \<le> unat (mp_max_object_bytes (ac_policy (ea_config a)))"
    "StateObjectDescriptor_create kind name generation (sha256 contents) (word_of_nat (length contents))
       (publication_chunk_bytes (ac_policy (ea_config a))) created producer = Some (Inr descriptor)"
    "object = descriptor\<lparr>so_repeatable := repeatable\<rparr>" "importable (ea_store a) object fs"
    "uncommitted (ea_store a) object fs" "EndpointId_is_valid (ac_endpoint_id (ea_config a))"
    "marker = publication_marker now fresh object a"
  shows "\<exists>fs'. fs_lookup fs' (object_data_path (ea_store a) (so_object_id object) (so_generation object)) = Some (File contents) \<and>
    publish_bytes fresh created now kind name generation contents producer repeatable (a, fs) =
      Some (if marker_valid marker
        then (Inr object, (count_up (\<lambda>n. n\<lparr>ec_objects_published := ec_objects_published n + 1\<rparr>) a, fs'))
        else (Inl (CommitMarker_validate marker), (a, fs'))) \<and>
    (if marker_valid marker
     then authoritative (ea_store a) (so_object_id object) (so_generation object) marker fs'
     else fs_lookup fs' (commit_marker_path (ea_store a) (so_object_id object) (so_generation object)) = None)"
proof -
  let ?m = "commit_marker_path (ea_store a) (so_object_id object) (so_generation object)"
  let ?t = "object_data_path (ea_store a) (so_object_id object) (so_generation object)"
  obtain fs1 where placed: "fs_script fs1 = []" "fs_lookup fs1 ?t = Some (File contents)"
    "\<And>q. is_file fs1 q \<Longrightarrow> is_file fs q \<or> q = ?t"
    "\<And>q. q \<noteq> import_path (ea_store a) object \<Longrightarrow> q \<noteq> ?t \<Longrightarrow>
       \<not> prefix q (object_directory (ea_store a) (so_object_id object) (so_generation object)) \<Longrightarrow> fs_lookup fs1 q = fs_lookup fs q"
    "publish_bytes fresh created now kind name generation contents producer repeatable (a, fs) =
      Some (case write_commit_marker (ea_store a) marker fs1 of
        (Inl s, fs'') \<Rightarrow> (Inl s, (a, fs''))
      | (Inr _, fs'') \<Rightarrow> (Inr object, (count_up (\<lambda>n. n\<lparr>ec_objects_published := ec_objects_published n + 1\<rparr>) a, fs'')))"
    using publish_bytes_done [OF assms(1-4), of fresh now] assms(7) by blast
  have marker: "sealed_marker marker = marker" "marker_sealed marker" "cm_object marker = object"
    "marker_target (ea_store a) marker = ?m"
    using assms(7) by simp_all
  have clear: "fs_lookup fs1 ?m = None" "fs_lookup fs1 (replace_temporary ?m) = None"
    using assms(5) placed(4) [of ?m] placed(4) [of "replace_temporary ?m"]
    by (simp_all add: uncommitted_def Let_def marker_import_paths not_sym [OF marker_apart_paths(3)])
  show ?thesis
  proof (cases "marker_valid marker")
    case True
    have "\<not> list_ex (is_file fs1) (prefixes (butlast ?m))"
    proof
      assume "list_ex (is_file fs1) (prefixes (butlast ?m))"
      then obtain q where q: "prefix q (butlast ?m)" "is_file fs1 q"
        by (auto simp: list_ex_iff)
      then have "is_file fs q"
        using placed(3) [OF q(2)] marker_apart_paths(4) by blast
      then show False
        using assms(5) q(1) by (auto simp: uncommitted_def Let_def list_ex_iff)
    qed
    then obtain fs2 where committed: "write_commit_marker (ea_store a) marker fs1 = (Inr (), fs2)"
      "fs_lookup fs2 ?m = Some (File (marker_bytes marker))" "\<And>q. \<not> prefix q ?m \<Longrightarrow> fs_lookup fs2 q = fs_lookup fs1 q"
      using write_commit_marker_new [of marker fs1 "ea_store a"] True marker placed(1) clear by auto
    have data: "fs_lookup fs2 ?t = Some (File contents)"
      using committed(3) [of ?t] placed(2) by simp
    have total: "so_total_bytes object = word_of_nat (length contents)"
      using assms(2,3) by (auto simp: StateObjectDescriptor_create_def Let_def check_status_def split: sum.splits if_splits)
    have "authoritative (ea_store a) (so_object_id object) (so_generation object) marker fs2"
      using committed(2) data True marker assms(6,7) total local_origin_valid
      by (simp add: authoritative_def marker_for_def commit_marker_wf_def fs_exists_def file_contents_def)
    then show ?thesis
      using True placed(5) committed(1) data by auto
  next
    case False
    then have "write_commit_marker (ea_store a) marker fs1 = (Inl (CommitMarker_validate marker), fs1)"
      using marker unfolding write_commit_marker_def Let_def sealed_marker_def [symmetric] by (simp add: marker_sealed_def)
    then show ?thesis
      using False placed(2,5) clear by auto
  qed
qed

lemma small_publication:
  "length (as_bytes ''abc'') \<le> unat (mp_max_object_bytes (ac_policy (ea_config sample_agent)))"
  "StateObjectDescriptor_create SK_MODEL ''m'' 1 (sha256 (as_bytes ''abc'')) (word_of_nat (length (as_bytes ''abc'')))
     (publication_chunk_bytes (ac_policy (ea_config sample_agent))) 1 ''p'' = Some (Inr small_object)"
  "small_object = small_object\<lparr>so_repeatable := True\<rparr>" "ea_store sample_agent = sample_root"
  "so_object_id small_object = sample_id" "so_generation small_object = 1"
proof -
  have "word_of_nat (length (as_bytes ''abc'')) = (3 :: u64)"
    by (simp add: as_bytes_def)
  moreover have "publication_chunk_bytes (ac_policy (ea_config sample_agent)) = 1048576"
    by (simp add: publication_chunk_bytes_def sample_agent_def agent_new_def sample_agent_config_def MovementPolicy_default_def)
  ultimately show "StateObjectDescriptor_create SK_MODEL ''m'' 1 (sha256 (as_bytes ''abc'')) (word_of_nat (length (as_bytes ''abc'')))
     (publication_chunk_bytes (ac_policy (ea_config sample_agent))) 1 ''p'' = Some (Inr small_object)"
    using small_object_created(1) by simp
  show "length (as_bytes ''abc'') \<le> unat (mp_max_object_bytes (ac_policy (ea_config sample_agent)))"
    by (simp add: as_bytes_def sample_agent_def agent_new_def sample_agent_config_def MovementPolicy_default_def)
qed (simp_all add: small_object_def sample_agent_def agent_new_def)

theorem publication_commits_witness:
  "\<exists>r fs'. publish_bytes 9 1 2 SK_MODEL ''m'' 1 (as_bytes ''abc'') ''p'' True (sample_agent, empty_disk) = Some (r, fs') \<and>
    fs_lookup (snd fs') (object_data_path sample_root sample_id 1) = Some (File (as_bytes ''abc''))"
proof -
  have "importable sample_root small_object empty_disk" "uncommitted sample_root small_object empty_disk"
    by (simp_all add: importable_def uncommitted_def Let_def empty_disk_def fs_lookup_def is_file_def list_ex_iff)
  moreover have "EndpointId_is_valid ''a''"
    by code_simp
  then have "EndpointId_is_valid (ac_endpoint_id (ea_config sample_agent))"
    by (simp add: sample_agent_def agent_new_def sample_agent_config_def)
  ultimately show ?thesis
    using publication_commits [OF small_publication(1-3), of empty_disk "publication_marker 2 9 small_object sample_agent" 2 9]
      small_publication(4-6) by (auto split: if_splits)
qed

text \<open>C38: Publishing other bytes under a version that is already committed is refused only after the
  committed bytes are gone: the publication fails and the old marker stays, but the place of the
  object holds the new bytes, so the marker no longer describes them.\<close>

theorem republication_replaces_committed_bytes:
  assumes "length contents \<le> unat (mp_max_object_bytes (ac_policy (ea_config a)))"
    "StateObjectDescriptor_create kind name generation (sha256 contents) (word_of_nat (length contents))
       (publication_chunk_bytes (ac_policy (ea_config a))) created producer = Some (Inr descriptor)"
    "object = descriptor\<lparr>so_repeatable := repeatable\<rparr>" "importable (ea_store a) object fs"
    "fs_lookup fs (commit_marker_path (ea_store a) (so_object_id object) (so_generation object)) = Some (File (marker_bytes old))"
    "commit_marker_wf old" "cm_marker_digest old \<noteq> cm_marker_digest (publication_marker now fresh object a)"
  shows "\<exists>s fs'. publish_bytes fresh created now kind name generation contents producer repeatable (a, fs) = Some (Inl s, (a, fs')) \<and>
    fs_lookup fs' (object_data_path (ea_store a) (so_object_id object) (so_generation object)) = Some (File contents) \<and>
    fs_lookup fs' (commit_marker_path (ea_store a) (so_object_id object) (so_generation object)) = Some (File (marker_bytes old))"
proof -
  let ?m = "commit_marker_path (ea_store a) (so_object_id object) (so_generation object)"
  let ?t = "object_data_path (ea_store a) (so_object_id object) (so_generation object)"
  let ?new = "publication_marker now fresh object a"
  obtain fs1 where placed: "fs_script fs1 = []" "fs_lookup fs1 ?t = Some (File contents)"
    "\<And>q. q \<noteq> import_path (ea_store a) object \<Longrightarrow> q \<noteq> ?t \<Longrightarrow>
       \<not> prefix q (object_directory (ea_store a) (so_object_id object) (so_generation object)) \<Longrightarrow> fs_lookup fs1 q = fs_lookup fs q"
    "publish_bytes fresh created now kind name generation contents producer repeatable (a, fs) =
      Some (case write_commit_marker (ea_store a) ?new fs1 of
        (Inl s, fs'') \<Rightarrow> (Inl s, (a, fs''))
      | (Inr _, fs'') \<Rightarrow> (Inr object, (count_up (\<lambda>n. n\<lparr>ec_objects_published := ec_objects_published n + 1\<rparr>) a, fs'')))"
    using publish_bytes_done [OF assms(1-4), of fresh now] by blast
  have there: "fs_lookup fs1 ?m = Some (File (marker_bytes old))"
    using assms(5) placed(3) [of ?m] by (simp add: marker_import_paths)
  have "\<exists>s. write_commit_marker (ea_store a) ?new fs1 = (Inl s, fs1)"
  proof (cases "marker_valid ?new")
    case True
    then show ?thesis
      using write_commit_marker_again [of ?new fs1 "ea_store a" old] placed(1) there assms(6,7) by simp
  next
    case False
    have "sealed_marker ?new = ?new" "marker_sealed ?new"
      by simp_all
    then show ?thesis
      using False unfolding write_commit_marker_def Let_def sealed_marker_def [symmetric] by (simp add: marker_sealed_def)
  qed
  then show ?thesis
    using placed(2,4) there by auto
qed

theorem republication_replaces_committed_bytes_witness:
  "\<exists>old disk s fs'. fs_lookup disk (commit_marker_path sample_root sample_id 1) = Some (File (marker_bytes old)) \<and>
    publish_bytes 9 1 2 SK_MODEL ''m'' 1 (as_bytes ''abc'') ''p'' True (sample_agent, disk) = Some (Inl s, (sample_agent, fs')) \<and>
    fs_lookup fs' (object_data_path sample_root sample_id 1) = Some (File (as_bytes ''abc'')) \<and>
    fs_lookup fs' (commit_marker_path sample_root sample_id 1) = Some (File (marker_bytes old))"
proof -
  define other where "other = (if cm_marker_digest (publication_marker 2 9 small_object sample_agent) = 1 then 2 else 1 :: digest)"
  define old where "old = sealed_sample\<lparr>cm_marker_digest := other\<rparr>"
  define disk where "disk = empty_disk\<lparr>fs_nodes := [(commit_marker_path sample_root sample_id 1, File (marker_bytes old))]\<rparr>"
  have "other \<noteq> 0"
    by (simp add: other_def)
  then have wf: "commit_marker_wf old"
    using sealed_sample_for(2) by (auto simp: old_def commit_marker_wf_def marker_valid_iff)
  have marker: "fs_lookup disk (commit_marker_path sample_root sample_id 1) = Some (File (marker_bytes old))"
    by (simp add: disk_def fs_lookup_def)
  have only: "fs_lookup disk q = None" if "q \<noteq> commit_marker_path sample_root sample_id 1" for q
    using that by (simp add: disk_def fs_lookup_def empty_disk_def)
  have "importable sample_root small_object disk"
    unfolding importable_def list_ex_iff
  proof (intro conjI)
    show "\<not> (\<exists>q\<in>set (prefixes (object_directory sample_root (so_object_id small_object) (so_generation small_object))). is_file disk q)"
    proof
      assume "\<exists>q\<in>set (prefixes (object_directory sample_root (so_object_id small_object) (so_generation small_object))). is_file disk q"
      then obtain q where "prefix q (object_directory sample_root (so_object_id small_object) (so_generation small_object))" "is_file disk q"
        by auto
      then show False
        using only [of q] marker_import_paths(3) [of sample_root sample_id 1] by (cases "q = commit_marker_path sample_root sample_id 1") (simp_all add: is_file_def)
    qed
    show "fs_lookup disk (import_path sample_root small_object) = None"
      using only marker_import_paths(1) by metis
    show "fs_lookup disk (replace_temporary (import_path sample_root small_object)) = None"
      by (rule only) (simp add: replace_temporary_def path_suffix_def import_path_def commit_marker_path_def butlast_append
          object_directory_def)
    show "fs_lookup disk (object_data_path sample_root (so_object_id small_object) (so_generation small_object)) \<noteq> Some Directory"
      using only marker_apart_paths(5) by (metis option.distinct(1))
  qed (simp add: disk_def empty_disk_def)
  moreover have "cm_marker_digest old \<noteq> cm_marker_digest (publication_marker 2 9 small_object sample_agent)"
    by (simp add: old_def other_def)
  ultimately show ?thesis
    using republication_replaces_committed_bytes [OF small_publication(1-3), of disk old 2 9] wf marker small_publication(4-6)
    by auto
qed

section \<open>Resuming\<close>

text \<open>C37: A resumed transfer is always turned down. Whatever part of the object a destination already
  holds, the source reads a resume point of zero from its request and answers with zero, and the
  destination, which holds chunks, gives the transfer up and aborts its writer.\<close>

theorem resumed_transfer_is_refused:
  assumes "resume_from_chunk w \<noteq> 0"
    "fr_payload request = DataBegin_encode (begin_message grant attempt (ac_endpoint_id (ea_config a)) w)"
    "decode_message DataBegin_decode request = Inr seen"
    "stream_send send_all (agent_payload_limit (ea_config a)) MT_DATA_BEGIN (fr_payload request) ((w, (a, fs)), stream) =
       (Inr (), ((w, (a, fs)), stream1))"
    "FrameStream_receive receive_some (agent_payload_limit (ea_config a)) stream1 = (Inr answer, stream2)"
    "decode_message DataBeginAck_decode answer =
       Inr \<lparr>dba_nonce = db_nonce seen, dba_code = OK, dba_resume_from_chunk = fst (start_point held seen),
         dba_resume_from_offset = snd (start_point held seen), dba_detail = []\<rparr>"
  shows "start_point held seen = (0, 0) \<and>
    open_transfer send_all receive_some grant attempt ((w, (a, fs)), stream) =
      (err RESUME_INCOMPATIBLE ''the source refused the resume point declared by the destination'',
       ((StagingWriter_abort w, (clear_cancellation (tg_movement_id grant) a, fs)), stream2))"
proof -
  have "data_begin_wf seen"
    using assms(3) data_begin.decode_message_iff by blast
  then have start: "start_point held seen = (0, 0)"
    by (simp add: data_begin_wf_def start_point_def)
  have send: "stream_send send_all (agent_payload_limit (ea_config a)) MT_DATA_BEGIN
      (DataBegin_encode (begin_message grant attempt (ac_endpoint_id (ea_config a)) w)) ((w, (a, fs)), stream) =
      (Inr (), ((w, (a, fs)), stream1))"
    using assms(2,4) by simp
  show ?thesis
    using start assms(1,5,6)
    by (simp add: open_transfer_def Let_def bind_io_def send stream_receive_def lift_io_def)
qed

definition halfway_writer :: staging_writer where
  "halfway_writer =
    \<lparr>sw_store = sample_root, sw_file = None,
     sw_journal = \<lparr>sj_movement_id = 1, sj_movement_generation = 1, sj_attempt = 1, sj_object = small_object,
       sj_verified_chunks = 1, sj_verified_bytes = 3, sj_chunk_digests = [1]\<rparr>,
     sw_running = Sha256_reset, sw_journaling = True, sw_open = True, sw_completed = False, sw_finalized = False\<rparr>"

lemma halfway_request:
  "begin_message signed_grant 1 ''b'' halfway_writer = small_begin\<lparr>db_resume_from_chunk := 1, db_resume_from_offset := 3\<rparr>"
  "resume_from_chunk halfway_writer = 1"
  by (simp_all add: begin_message_def halfway_writer_def resume_from_chunk_def small_begin_def signed_grant_fields)

lemma small_begin_wf: "data_begin_wf small_begin"
proof -
  have "EndpointId_is_valid ''b''"
    by code_simp
  then show ?thesis
    using small_object_created(2)
    by (simp add: data_begin_wf_def DataBegin_validate_def small_begin_def require_incarnation_def Incarnation_is_set_def
        wire_message_simps)
qed

lemma small_begin_length: "length (DataBegin_encode small_begin) < 1000"
  by code_simp

theorem resumed_transfer_is_refused_witness:
  "\<exists>stream stream'. open_transfer byte_queue_send byte_queue_receive signed_grant 1
      ((halfway_writer, (sample_agent\<lparr>ea_config := sample_agent_config\<lparr>ac_endpoint_id := ''b''\<rparr>\<rparr>, empty_disk)), stream) =
    (err RESUME_INCOMPATIBLE ''the source refused the resume point declared by the destination'',
     ((StagingWriter_abort halfway_writer, (clear_cancellation 1
        (sample_agent\<lparr>ea_config := sample_agent_config\<lparr>ac_endpoint_id := ''b''\<rparr>\<rparr>), empty_disk)), stream'))"
proof -
  let ?a = "sample_agent\<lparr>ea_config := sample_agent_config\<lparr>ac_endpoint_id := ''b''\<rparr>\<rparr>"
  let ?ack = "\<lparr>dba_nonce = 1, dba_code = OK, dba_resume_from_chunk = 0, dba_resume_from_offset = 0, dba_detail = []\<rparr>"
  let ?limit = "agent_payload_limit (ea_config ?a)"
  have limit: "?limit = 1114112"
    by (simp add: agent_payload_limit_def sample_agent_config_def MovementPolicy_default_def)
  have wf: "data_begin_ack_wf ?ack"
    by (simp add: data_begin_ack_wf_def DataBeginAck_validate_def wire_message_simps)
  obtain bs sender where sent: "FrameCodec_encode MT_DATA_BEGIN_ACK 0 (DataBeginAck_encode ?ack) ?limit sample_codec = (Inr bs, sender)"
    using limit by (auto simp: FrameCodec_encode_def sample_codec_def is_handshake_message_def Let_def DataBeginAck_encode_def
        enc_text_def write_detail_def write_reason_def enc_digest_def enc_u16_def enc_u32_def enc_u64_def)
  define request where "request = \<lparr>fr_header = sample_header, fr_payload = DataBegin_encode small_begin\<rparr>"
  have payload: "fr_payload request = DataBegin_encode (begin_message signed_grant 1 (ac_endpoint_id (ea_config ?a)) halfway_writer)"
    by (simp add: request_def halfway_request DataBegin_encode_def)
  have seen: "decode_message DataBegin_decode request = Inr small_begin"
    using small_begin_wf by (simp add: data_begin.decode_message_iff request_def)
  obtain frame where frame: "FrameCodec_encode MT_DATA_BEGIN 0 (fr_payload request) ?limit sample_codec =
      (Inr frame, sample_codec\<lparr>fc_send_sequence := 2\<rparr>)"
    using limit small_begin_length
    by (auto simp: FrameCodec_encode_def sample_codec_def is_handshake_message_def request_def Let_def)
  obtain codec c where out: "stream_send byte_queue_send ?limit MT_DATA_BEGIN (fr_payload request)
      ((halfway_writer, (?a, empty_disk)), (sample_codec, bs)) = (Inr (), ((halfway_writer, (?a, empty_disk)), (codec, c)))"
    "codec = sample_codec\<lparr>fc_send_sequence := 2\<rparr>" "\<exists>more. c = bs @ more"
    using frame by (simp add: stream_send_def FrameStream_send_def byte_queue_send_def)
  obtain answer stream2 where got: "FrameStream_receive byte_queue_receive ?limit (codec, c) = (Inr answer, stream2)"
    "fr_payload answer = DataBeginAck_encode ?ack"
    using receive_frame [OF byte_queue(2) sent, of codec c] out(2,3)
    by (auto simp: sample_codec_def message_type_from_value_def)
  have "decode_message DataBeginAck_decode answer = Inr ?ack"
    using wf got(2) by (simp add: data_begin_ack.decode_message_iff)
  moreover have "start_point signed_grant small_begin = (0, 0)" "db_nonce small_begin = 1"
    by (simp_all add: start_point_def small_begin_def)
  ultimately show ?thesis
    using resumed_transfer_is_refused [where w = halfway_writer and request = request and grant = signed_grant and attempt = 1 and a = ?a
      and seen = small_begin, OF _ payload seen out(1) got(1), of signed_grant]
      halfway_request(2) signed_grant_fields(5)
    by (intro exI [of _ "(sample_codec, bs)"] exI [of _ stream2]) simp
qed

end
