(* ===== verification/Spec2Isabelle.thy ===== *)
theory Spec2Isabelle
  imports SMF_Encoding_Properties SMF_Object_Properties SMF_Registry_Properties SMF_Protocol_Properties
    SMF_Store_Properties SMF_Object_Store_Properties SMF_Agent_Properties
begin

text \<open>
  State Movement Fabric: verification library.

  The program moves immutable state objects between endpoints of a distributed runtime.
  A coordinator authorises a movement, the source endpoint streams the chunks of the
  object to the destination over framed, authenticated sessions, and the destination
  commits the object and answers with evidence.

  The theories follow the components of the code, in the order they depend on each other.
  \<^item> SMF_Prelude: bytes as 8-bit words, strings, generic lemmas on lists and words.
  \<^item> SMF_Status (status.hpp, status.cpp): reason codes, Status, Result.
  \<^item> SMF_Bytes (bytes.cpp): hexadecimal, UTF-8, checked arithmetic.
  \<^item> SMF_Digest (digest.cpp): SHA-256, HMAC and their reference definitions.
  \<^item> SMF_Codec (codec.cpp): the canonical encoder and decoder; the locales of canonical
    codecs and of enumerations on the wire.
  \<^item> SMF_Ids (ids.cpp): identifiers, generations, names, derived digests, entropy, issuer.
  \<^item> SMF_State_Object, SMF_Chunk_Plan: descriptors, chunk geometry, resume state, samples.
  \<^item> SMF_Movement_State, SMF_Provenance, SMF_Policy, SMF_Movement: the state machine, the
    append-only history, policies and movement records.
  \<^item> SMF_Registry, SMF_Topology, SMF_Compatibility: the coordinator's registries.
  \<^item> SMF_Transport, SMF_Framing, SMF_Session: addresses, frames and the handshake.
  \<^item> SMF_Wire_Base, SMF_Wire_Control, SMF_Wire_Commit, SMF_Wire_Data, SMF_Wire_Admin, SMF_Wire
    (wire.cpp): every message, its validation and codec, the signature of a grant.
  \<^item> SMF_Sample: concrete values at which hypotheses are shown to hold.
  \<^item> SMF_Encoding_Properties, SMF_Object_Properties, SMF_Registry_Properties and
    SMF_Protocol_Properties: the properties.
\<close>

end
